(* ===== verification/Prelude.thy ===== *)
theory Prelude
  imports Main "HOL-Library.AList" "HOL-Library.Sublist" "HOL-Library.List_Lexorder"
    "HOL-Library.Char_ord" "HOL-Library.Product_Lexorder"
begin

section \<open>Shared vocabulary of the development\<close>

text \<open>
  This theory holds what every component uses: the error values of the services, the
  sequencing of fallible calls (\<open>if err != nil { return ..., err }\<close>), the tables that
  stand for Go maps, Go's stable sort, and the collections the proofs refer to.

  \<^item> A Go call that returns a value and an error is \<open>error + 'a\<close>: \<open>Inl\<close> the error.
  \<^item> A Go method that also writes a store is \<open>(error + 'a) \<times> 'store\<close>: the store that
    is left behind is part of the result also when the call fails.
  \<^item> A Go map is an association list. Its order stands for the iteration order, which Go
    leaves open; the stores sort what they collect from a map.
  \<^item> \<open>time.Time\<close> is a number of nanoseconds, the zero time is 0.
\<close>

named_theorems res_simps \<open>inversion of the sequencing operators\<close>
named_theorems store_simps \<open>lookups after writes\<close>
named_theorems key_simps \<open>composite map keys\<close>

subsection \<open>Errors and sequencing\<close>

datatype error = ErrInvalidInput string | ErrNotFound | ErrDuplicate

type_synonym 'a res = "error + 'a"
type_synonym time = int

definition zeroTime :: time where
  "zeroTime = 0"

text \<open>\<open>x, err := f(...); if err != nil { return zero, err }; ...\<close>\<close>

definition tryE :: "'e + 'a \<Rightarrow> ('a \<Rightarrow> 'e + 'b) \<Rightarrow> 'e + 'b" where
  "tryE r k = (case r of Inl e \<Rightarrow> Inl e | Inr x \<Rightarrow> k x)"

text \<open>The same in a method over a store, which is unchanged when the call fails.\<close>

definition tryS :: "'e + 'a \<Rightarrow> 's \<Rightarrow> ('a \<Rightarrow> ('e + 'b) \<times> 's) \<Rightarrow> ('e + 'b) \<times> 's" where
  "tryS r s k = (case r of Inl e \<Rightarrow> (Inl e, s) | Inr x \<Rightarrow> k x)"

text \<open>\<open>if bad { return zero, err }\<close>\<close>

definition failIf :: "bool \<Rightarrow> 'e \<Rightarrow> 'e + unit" where
  "failIf b e = (if b then Inl e else Inr ())"

text \<open>\<open>if cond { x, err = f(...); if err != nil { return zero, err } }\<close>, else \<open>x\<close> stays.\<close>

definition setIf :: "bool \<Rightarrow> 'e + 'a \<Rightarrow> 'a \<Rightarrow> 'e + 'a" where
  "setIf b r x = (if b then r else Inr x)"

lemma tryE_simps [simp]:
  "tryE (Inl e) k = Inl e"
  "tryE (Inr x) k = k x"
  by (simp_all add: tryE_def)

lemma tryS_simps [simp]:
  "tryS (Inl e) s f = (Inl e, s)"
  "tryS (Inr x) s f = f x"
  by (simp_all add: tryS_def)

lemma failIf_simps [simp]:
  "failIf True e = Inl e"
  "failIf False e = Inr ()"
  by (simp_all add: failIf_def)

lemma setIf_simps [simp]:
  "setIf True r x = r"
  "setIf False r x = Inr x"
  by (simp_all add: setIf_def)

lemma tryE_Inr [res_simps]: "tryE r k = Inr y \<longleftrightarrow> (\<exists>x. r = Inr x \<and> k x = Inr y)"
  by (cases r) (auto simp: tryE_def)

lemma tryE_Inl [res_simps]:
  "tryE r k = Inl e \<longleftrightarrow> r = Inl e \<or> (\<exists>x. r = Inr x \<and> k x = Inl e)"
  by (cases r) (auto simp: tryE_def)

lemma tryS_Inr [res_simps]:
  "tryS r s k = (Inr y, s') \<longleftrightarrow> (\<exists>x. r = Inr x \<and> k x = (Inr y, s'))"
  by (cases r) (auto simp: tryS_def)

lemma failIf_Inr [res_simps]: "failIf b e = Inr u \<longleftrightarrow> \<not> b"
  by (simp add: failIf_def)

lemma failIf_Inl [res_simps]: "failIf b e = Inl e' \<longleftrightarrow> b \<and> e' = e"
  by (auto simp: failIf_def)

lemma setIf_Inr [res_simps]: "setIf b r x = Inr y \<longleftrightarrow> (if b then r = Inr y else y = x)"
  by (auto simp: setIf_def)

lemma tryS_E:
  assumes "tryS r s k = (v, s')"
  obtains (failed) e where "r = Inl e" "v = Inl e" "s' = s" | (ok) x where "r = Inr x" "k x = (v, s')"
  using assms by (cases r) auto

lemma tryS_failed:
  assumes "tryS r s k = (Inl e, s')" and "\<And>x. r = Inr x \<Longrightarrow> k x = (Inl e, s') \<Longrightarrow> s' = s"
  shows "s' = s"
  using assms by (cases r) auto

text \<open>A fallible call does not touch the store: the store of a sequence is its last store.\<close>

lemma tryS_frame:
  "(\<And>x s'. r = Inr x \<Longrightarrow> P (snd (k x))) \<Longrightarrow> P s \<Longrightarrow> P (snd (tryS r s k))"
  by (cases r) (auto simp: tryS_def)

text \<open>\<open>for _, v := range xs { y, err := f(v); if err != nil { return } ; out = append(out, y) }\<close>\<close>

fun mapE :: "('a \<Rightarrow> 'e + 'b) \<Rightarrow> 'a list \<Rightarrow> 'e + 'b list" where
  "mapE f [] = Inr []"
| "mapE f (x # xs) = tryE (f x) (\<lambda>y. tryE (mapE f xs) (\<lambda>ys. Inr (y # ys)))"

lemma mapE_Inr: "mapE f xs = Inr ys \<longleftrightarrow> list_all2 (\<lambda>x y. f x = Inr y) xs ys"
  by (induction xs arbitrary: ys) (auto simp: res_simps list_all2_Cons1)

lemma mapE_set:
  assumes "mapE f xs = Inr ys" and "y \<in> set ys"
  shows "\<exists>x \<in> set xs. f x = Inr y"
  using assms by (induction xs arbitrary: ys) (auto simp: res_simps)

lemma mapE_length: "mapE f xs = Inr ys \<Longrightarrow> length ys = length xs"
  by (auto simp: mapE_Inr dest: list_all2_lengthD)

subsection \<open>Sequencing stateful calls\<close>

text \<open>Calls that may fail and change a state also when they fail.\<close>

type_synonym ('s, 'a) act = "'s \<Rightarrow> 'a res \<times> 's"

definition seqS ::
    "('s \<Rightarrow> ('e + 'a) \<times> 's) \<Rightarrow> ('a \<Rightarrow> 's \<Rightarrow> ('e + 'b) \<times> 's) \<Rightarrow> 's \<Rightarrow> ('e + 'b) \<times> 's" where
  "seqS m k s = (case m s of (Inl e, s') \<Rightarrow> (Inl e, s') | (Inr x, s') \<Rightarrow> k x s')"

definition retS :: "'a \<Rightarrow> 's \<Rightarrow> ('e + 'a) \<times> 's" where
  "retS x s = (Inr x, s)"

definition liftS :: "'e + 'a \<Rightarrow> 's \<Rightarrow> ('e + 'a) \<times> 's" where
  "liftS r s = (r, s)"

lemma seqS_Inr [res_simps]:
  "seqS m k s = (Inr y, s') \<longleftrightarrow> (\<exists>x t. m s = (Inr x, t) \<and> k x t = (Inr y, s'))"
  by (auto simp: seqS_def split: prod.splits sum.splits)

lemma retS_eq [res_simps]: "retS x s = (r, s') \<longleftrightarrow> r = Inr x \<and> s' = s"
  by (auto simp: retS_def)

lemma liftS_eq [res_simps]: "liftS q s = (r, s') \<longleftrightarrow> q = r \<and> s' = s"
  by (auto simp: liftS_def)

lemma seqS_cases:
  assumes "seqS m k s = (r, s')"
  obtains (failed) e where "m s = (Inl e, s')" "r = Inl e"
  | (ok) x t where "m s = (Inr x, t)" "k x t = (r, s')"
  using assms by (auto simp: seqS_def split: prod.splits sum.splits)

lemma seqS_simps [simp]:
  "m s = (Inl e, t) \<Longrightarrow> seqS m k s = (Inl e, t)"
  "m s = (Inr x, t) \<Longrightarrow> seqS m k s = k x t"
  by (simp_all add: seqS_def)

lemma seqS_lift [simp]:
  "seqS (liftS (Inl e)) k s = (Inl e, s)" "seqS (liftS (Inr x)) k s = k x s" "seqS (retS x) k s = k x s"
  by (simp_all add: seqS_def liftS_def retS_def)

subsection \<open>Go maps as association lists\<close>

type_synonym ('k, 'v) table = "('k \<times> 'v) list"

definition tget :: "('k, 'v) table \<Rightarrow> 'k \<Rightarrow> 'v option" where
  "tget t k = map_of t k"

definition tput :: "('k, 'v) table \<Rightarrow> 'k \<Rightarrow> 'v \<Rightarrow> ('k, 'v) table" where
  "tput t k v = AList.update k v t"

text \<open>\<open>v, ok := m[k]\<close> with \<open>ok\<close> only, and the values in iteration order.\<close>

definition thas :: "('k, 'v) table \<Rightarrow> 'k \<Rightarrow> bool" where
  "thas t k = (tget t k \<noteq> None)"

definition tvals :: "('k, 'v) table \<Rightarrow> 'v list" where
  "tvals t = map snd t"

definition twf :: "('k, 'v) table \<Rightarrow> bool" where
  "twf t = distinct (map fst t)"

lemma tget_Nil [simp]: "tget [] k = None"
  by (simp add: tget_def)

lemma tget_tput [store_simps]: "tget (tput t k v) k' = (if k' = k then Some v else tget t k')"
  by (simp add: tget_def tput_def update_conv')

lemma thas_tput [store_simps]: "thas (tput t k v) k' = (k' = k \<or> thas t k')"
  by (simp add: thas_def store_simps)

lemma twf_Nil [simp]: "twf []"
  by (simp add: twf_def)

lemma twf_tput: "twf t \<Longrightarrow> twf (tput t k v)"
  by (simp add: twf_def tput_def distinct_update)

lemma tvals_tget: "twf t \<Longrightarrow> v \<in> set (tvals t) \<longleftrightarrow> (\<exists>k. tget t k = Some v)"
  by (force simp: twf_def tvals_def tget_def map_of_eq_Some_iff)

lemma tvals_Nil [simp]: "tvals [] = []"
  by (simp add: tvals_def)

subsection \<open>Sorting with a comparison\<close>

text \<open>
  \<open>sort.SliceStable(xs, less)\<close>. Any stable sort gives this list when \<open>less\<close> is a strict
  weak order on the elements. \<open>sort.Slice\<close> is modelled the same way; it leaves the
  order of equal elements open.
\<close>

fun insertBy :: "('a \<Rightarrow> 'a \<Rightarrow> bool) \<Rightarrow> 'a \<Rightarrow> 'a list \<Rightarrow> 'a list" where
  "insertBy lt x [] = [x]"
| "insertBy lt x (y # ys) = (if lt y x then y # insertBy lt x ys else x # y # ys)"

fun sortBy :: "('a \<Rightarrow> 'a \<Rightarrow> bool) \<Rightarrow> 'a list \<Rightarrow> 'a list" where
  "sortBy lt [] = []"
| "sortBy lt (x # xs) = insertBy lt x (sortBy lt xs)"

lemma set_insertBy [simp]: "set (insertBy lt x ys) = insert x (set ys)"
  by (induction ys) auto

lemma set_sortBy [simp]: "set (sortBy lt xs) = set xs"
  by (induction xs) auto

lemma length_insertBy [simp]: "length (insertBy lt x ys) = Suc (length ys)"
  by (induction ys) auto

lemma length_sortBy [simp]: "length (sortBy lt xs) = length xs"
  by (induction xs) auto

lemma distinct_insertBy [simp]: "distinct (insertBy lt x ys) \<longleftrightarrow> x \<notin> set ys \<and> distinct ys"
  by (induction ys) auto

lemma distinct_sortBy [simp]: "distinct (sortBy lt xs) = distinct xs"
  by (induction xs) auto

text \<open>A comparison that orders the elements by a key.\<close>

definition lessBy :: "('a \<Rightarrow> 'k::linorder) \<Rightarrow> 'a \<Rightarrow> 'a \<Rightarrow> bool" where
  "lessBy key x y = (key x < key y)"

lemma sorted_insertBy_key:
  fixes key :: "'a \<Rightarrow> 'k::linorder"
  assumes "\<And>y. y \<in> set ys \<Longrightarrow> lt y x \<longleftrightarrow> key y < key x" and "sorted (map key ys)"
  shows "sorted (map key (insertBy lt x ys))"
  using assms by (induction ys) (auto simp: not_less less_imp_le)

lemma sorted_sortBy_key:
  fixes key :: "'a \<Rightarrow> 'k::linorder"
  assumes "\<And>x y. x \<in> set xs \<Longrightarrow> y \<in> set xs \<Longrightarrow> lt x y \<longleftrightarrow> key x < key y"
  shows "sorted (map key (sortBy lt xs))"
  using assms by (induction xs) (auto intro!: sorted_insertBy_key)

lemma hd_sortBy_key:
  fixes key :: "'a \<Rightarrow> 'k::linorder"
  assumes "\<And>x y. x \<in> set xs \<Longrightarrow> y \<in> set xs \<Longrightarrow> lt x y \<longleftrightarrow> key x < key y"
    and "x \<in> set xs"
  shows "key (hd (sortBy lt xs)) \<le> key x"
proof -
  have s: "sorted (map key (sortBy lt xs))"
    by (rule sorted_sortBy_key) (simp add: assms(1))
  have x: "x \<in> set (sortBy lt xs)" using assms(2) by simp
  from s x show ?thesis
    by (cases "sortBy lt xs") auto
qed

text \<open>
  The values of a Go map are collected in an order Go leaves open. Sorting by an injective
  key removes the dependence: two permutations of the same values sort to the same list.
\<close>

lemma sortBy_perm_unique:
  fixes key :: "'a \<Rightarrow> 'k::linorder"
  assumes "distinct xs" and "distinct ys" and "set xs = set ys"
    and "\<And>x y. x \<in> set xs \<Longrightarrow> y \<in> set xs \<Longrightarrow> lt x y \<longleftrightarrow> key x < key y"
    and inj: "inj_on key (set xs)"
  shows "sortBy lt xs = sortBy lt ys"
proof -
  have 1: "sorted (map key (sortBy lt xs))"
    by (rule sorted_sortBy_key) (simp add: assms(4))
  have 2: "sorted (map key (sortBy lt ys))"
    by (rule sorted_sortBy_key) (simp add: assms(3)[symmetric] assms(4))
  have "map key (sortBy lt xs) = map key (sortBy lt ys)"
    by (rule sorted_distinct_set_unique)
      (use 1 2 assms in \<open>simp_all add: distinct_map\<close>)
  then show ?thesis
    using inj assms(3) by (auto intro: map_inj_on)
qed

end
