(* ===== verification/Go_Strings.thy ===== *)
theory Go_Strings
  imports Prelude
begin

section \<open>Go strings\<close>

text \<open>
  A Go string is a sequence of bytes, so it is a \<open>string\<close> here (a list of 8-bit \<open>char\<close>s);
  \<open>len\<close> is \<open>length\<close> and \<open><\<close> is the order of \<open>List_Lexorder\<close> on bytes. The functions
  of package \<open>strings\<close> that the sources use:

  \<^item> \<open>trimSpace\<close> and \<open>fields\<close> cut at every rune of \<open>unicode.IsSpace\<close>, given by its UTF-8
    bytes (a space rune can neither start nor end inside another rune).
  \<^item> \<open>toLower\<close> is \<open>strings.ToLower\<close> on ASCII text. Beyond ASCII it lowers the two runes whose
    lower case is ASCII (U+0130 and U+212A) and leaves other bytes as they are. The sources
    compare lowered text with ASCII markers only, which cannot tell the difference.
  \<^item> \<open>filepath.ToSlash\<close> and \<open>filepath.IsAbs\<close> are those of a Unix build.
\<close>

subsection \<open>Spaces\<close>

definition bytes :: "nat list \<Rightarrow> string" where
  "bytes ns = map char_of ns"

definition asciiSpaces :: string where
  "asciiSpaces = bytes [9, 10, 11, 12, 13, 32]"

definition spaceRunes2 :: "string list" where
  "spaceRunes2 = [bytes [194, 133], bytes [194, 160]]"

definition spaceRunes3 :: "string list" where
  "spaceRunes3 = bytes [225, 154, 128] #
     map (\<lambda>n. bytes [226, 128, n]) [128, 129, 130, 131, 132, 133, 134, 135, 136, 137, 138, 168, 169, 175] @
     [bytes [226, 129, 159], bytes [227, 128, 128]]"

text \<open>The number of bytes of a space rune at the front (at the end, for the reversed text).\<close>

fun frontSpace :: "string \<Rightarrow> nat" where
  "frontSpace [] = 0"
| "frontSpace (c # s) =
     (if c \<in> set asciiSpaces then 1
      else if take 2 (c # s) \<in> set spaceRunes2 then 2
      else if take 3 (c # s) \<in> set spaceRunes3 then 3 else 0)"

fun backSpace :: "string \<Rightarrow> nat" where
  "backSpace [] = 0"
| "backSpace (c # s) =
     (if c \<in> set asciiSpaces then 1
      else if rev (take 2 (c # s)) \<in> set spaceRunes2 then 2
      else if rev (take 3 (c # s)) \<in> set spaceRunes3 then 3 else 0)"

function dropWith :: "(string \<Rightarrow> nat) \<Rightarrow> string \<Rightarrow> string" where
  "dropWith f s = (if s = [] \<or> f s = 0 then s else dropWith f (drop (f s) s))"
  by pat_completeness auto
termination
  by (relation "measure (\<lambda>(f, s). length s)") auto

declare dropWith.simps [simp del]

definition trimSpace :: "string \<Rightarrow> string" where
  "trimSpace s = rev (dropWith backSpace (rev (dropWith frontSpace s)))"

definition isBlank :: "string \<Rightarrow> bool" where
  "isBlank s = (trimSpace s = [])"

lemma dropWith_suffix: "\<exists>p. s = p @ dropWith f s"
proof (induction f s rule: dropWith.induct)
  case (1 f s)
  show ?case
  proof (cases "s = [] \<or> f s = 0")
    case True
    then show ?thesis by (simp add: dropWith.simps [of f s])
  next
    case False
    with 1 obtain p where "drop (f s) s = p @ dropWith f (drop (f s) s)" by blast
    then have "s = (take (f s) s @ p) @ dropWith f (drop (f s) s)"
      by (metis append.assoc append_take_drop_id)
    with False show ?thesis by (metis dropWith.simps)
  qed
qed

lemma dropWith_stop: "dropWith f s = [] \<or> f (dropWith f s) = 0"
proof (induction f s rule: dropWith.induct)
  case (1 f s)
  show ?case
  proof (cases "s = [] \<or> f s = 0")
    case True
    then show ?thesis by (auto simp: dropWith.simps [of f s])
  next
    case False
    with 1 show ?thesis by (metis dropWith.simps)
  qed
qed

lemma dropWith_id: "f s = 0 \<Longrightarrow> dropWith f s = s"
  by (simp add: dropWith.simps)

lemma take_prefix_eq:
  "take n s = t \<Longrightarrow> length t = n \<Longrightarrow> take n (s @ u) = t"
  by (metis append_eq_conv_conj append_take_drop_id append.assoc)

lemma spaceRunes2_length: "t \<in> set spaceRunes2 \<Longrightarrow> length t = 2"
  by (auto simp: spaceRunes2_def bytes_def)

lemma spaceRunes3_length: "t \<in> set spaceRunes3 \<Longrightarrow> length t = 3"
  by (auto simp: spaceRunes3_def bytes_def)

lemma frontSpace_append: "frontSpace s \<noteq> 0 \<Longrightarrow> frontSpace (s @ u) \<noteq> 0"
proof (cases s)
  case (Cons c s')
  assume ne: "frontSpace s \<noteq> 0"
  have 2: "take 2 (s @ u) \<in> set spaceRunes2" if "take 2 s \<in> set spaceRunes2"
    using take_prefix_eq [OF refl spaceRunes2_length [OF that], of u] that by metis
  have 3: "take 3 (s @ u) \<in> set spaceRunes3" if "take 3 s \<in> set spaceRunes3"
    using take_prefix_eq [OF refl spaceRunes3_length [OF that], of u] that by metis
  show ?thesis using ne 2 3 Cons by (auto split: if_splits)
qed simp

lemma trimSpace_front: "frontSpace (trimSpace s) = 0"
proof -
  obtain p where p: "rev (dropWith frontSpace s) = p @ dropWith backSpace (rev (dropWith frontSpace s))"
    using dropWith_suffix by blast
  then have eq: "dropWith frontSpace s = trimSpace s @ rev p"
    by (metis rev_append rev_rev_ident trimSpace_def)
  have "dropWith frontSpace s = [] \<or> frontSpace (dropWith frontSpace s) = 0"
    by (rule dropWith_stop)
  then have "frontSpace (trimSpace s @ rev p) = 0"
    using eq by auto
  then show ?thesis
    using frontSpace_append by blast
qed

lemma trimSpace_back: "backSpace (rev (trimSpace s)) = 0"
  using dropWith_stop [of backSpace "rev (dropWith frontSpace s)"]
  by (auto simp: trimSpace_def)

lemma trimSpace_idem [simp]: "trimSpace (trimSpace s) = trimSpace s"
  by (subst (1) trimSpace_def)
    (simp add: dropWith_id trimSpace_front trimSpace_back)

lemma trimSpace_infix: "\<exists>p q. s = p @ trimSpace s @ q"
proof -
  obtain p where p: "s = p @ dropWith frontSpace s"
    using dropWith_suffix by blast
  obtain q where q: "rev (dropWith frontSpace s) = q @ rev (trimSpace s)"
    using dropWith_suffix [of "rev (dropWith frontSpace s)" backSpace]
    by (auto simp: trimSpace_def)
  then have "dropWith frontSpace s = trimSpace s @ rev q"
    by (metis rev_append rev_rev_ident)
  with p show ?thesis by metis
qed

lemma trimSpace_Nil [simp]: "trimSpace [] = []"
  by (simp add: trimSpace_def dropWith.simps)

lemma isBlank_trimSpace [simp]: "isBlank (trimSpace s) = isBlank s"
  by (simp add: isBlank_def)

lemma isBlank_Nil [simp]: "isBlank []"
  by (simp add: isBlank_def)

lemma space_ascii: "CHR '' '' \<in> set asciiSpaces"
proof -
  have "char_of (of_char CHR '' '' :: nat) = CHR '' ''" by (rule char_of_char)
  then show ?thesis by (simp add: asciiSpaces_def bytes_def)
qed

lemma trimSpace_space: "trimSpace (CHR '' '' # s) = trimSpace s"
  using space_ascii by (simp add: trimSpace_def dropWith.simps [of frontSpace "CHR '' '' # s"])

lemma trimSpace_blank: "trimSpace '' '' = []"
  by (simp add: trimSpace_space)

lemma trimSpace_eq_Nil: "trimSpace s = [] \<longleftrightarrow> isBlank s"
  by (simp add: isBlank_def)

text \<open>A text that starts and ends with a printable ASCII byte is trimmed already.\<close>

definition graphic :: "char \<Rightarrow> bool" where
  "graphic c = (let n = of_char c :: nat in 32 < n \<and> n < 127)"

lemma graphic_bounds: "graphic c \<Longrightarrow> (of_char c :: nat) \<notin> {9, 10, 11, 12, 13, 32} \<and> (of_char c :: nat) < 128"
  by (auto simp: graphic_def Let_def)

lemma graphic_plain: "graphic c \<Longrightarrow> c \<notin> set asciiSpaces"
  using graphic_bounds [of c] by (auto simp: asciiSpaces_def bytes_def)

lemma spaceRunes_bytes:
  "t \<in> set spaceRunes2 \<union> set spaceRunes3 \<Longrightarrow> b \<in> set t \<Longrightarrow> \<not> graphic b"
  by (auto simp: spaceRunes2_def spaceRunes3_def bytes_def graphic_def)

lemma graphic_front: "graphic c \<Longrightarrow> frontSpace (c # s) = 0"
  using spaceRunes_bytes [of "take 2 (c # s)" c] spaceRunes_bytes [of "take 3 (c # s)" c]
  by (auto simp: graphic_plain)

lemma graphic_back: "graphic c \<Longrightarrow> backSpace (c # s) = 0"
  using spaceRunes_bytes [of "rev (take 2 (c # s))" c] spaceRunes_bytes [of "rev (take 3 (c # s))" c]
  by (auto simp: graphic_plain)

lemma trimSpace_graphic:
  assumes "s \<noteq> []" and "graphic (hd s)" and "graphic (last s)"
  shows "trimSpace s = s"
proof -
  have "frontSpace s = 0" using assms(1,2) graphic_front by (metis list.collapse)
  moreover have "backSpace (rev s) = 0"
    using assms(1,3) graphic_back by (metis append_butlast_last_id rev_eq_Cons_iff rev_rev_ident)
  ultimately show ?thesis by (simp add: trimSpace_def dropWith_id)
qed

subsection \<open>Searching and replacing\<close>

abbreviation hasPrefix :: "string \<Rightarrow> string \<Rightarrow> bool" where
  "hasPrefix s p \<equiv> prefix p s"

abbreviation hasSuffix :: "string \<Rightarrow> string \<Rightarrow> bool" where
  "hasSuffix s p \<equiv> suffix p s"

abbreviation contains :: "string \<Rightarrow> string \<Rightarrow> bool" where
  "contains s p \<equiv> sublist p s"

definition containsAny :: "string \<Rightarrow> string \<Rightarrow> bool" where
  "containsAny s cs = list_ex (\<lambda>c. c \<in> set cs) s"

function replaceAll :: "string \<Rightarrow> string \<Rightarrow> string \<Rightarrow> string" where
  "replaceAll old new [] = []"
| "replaceAll old new (c # s) =
     (if old \<noteq> [] \<and> prefix old (c # s) then new @ replaceAll old new (drop (length old) (c # s))
      else c # replaceAll old new s)"
  by pat_completeness auto
termination
  by (relation "measure (\<lambda>(old, new, s). length s)") (auto simp: Suc_le_eq length_greater_0_conv)

fun replaceFirst :: "string \<Rightarrow> string \<Rightarrow> string \<Rightarrow> string" where
  "replaceFirst old new [] = (if old = [] then new else [])"
| "replaceFirst old new (c # s) =
     (if prefix old (c # s) then new @ drop (length old) (c # s)
      else c # replaceFirst old new s)"

definition trimCut :: "string \<Rightarrow> string \<Rightarrow> string" where
  "trimCut s cs = rev (dropWhile (\<lambda>c. c \<in> set cs) (rev (dropWhile (\<lambda>c. c \<in> set cs) s)))"

lemma replaceAll_absent: "\<not> sublist old s \<Longrightarrow> replaceAll old new s = s"
proof (induction s)
  case (Cons c s)
  then have "\<not> sublist old s" and "\<not> prefix old (c # s)"
    by (auto simp: sublist_Cons_right)
  with Cons.IH show ?case by simp
qed simp

lemma sublist_prefix_drop: "\<not> sublist p s \<Longrightarrow> \<not> sublist p (drop n s)"
  by (meson sublist_drop sublist_order.order_trans)

subsection \<open>Words, joining and case\<close>

fun wordFront :: "string \<Rightarrow> string \<times> string" where
  "wordFront [] = ([], [])"
| "wordFront (c # s) =
     (if frontSpace (c # s) \<noteq> 0 then ([], c # s)
      else let (w, r) = wordFront s in (c # w, r))"

lemma wordFront_append: "wordFront s = (w, r) \<Longrightarrow> s = w @ r"
  by (induction s arbitrary: w r) (auto split: if_splits prod.splits)

lemma wordFront_length: "length (snd (wordFront s)) \<le> length s"
  using wordFront_append [of s "fst (wordFront s)" "snd (wordFront s)"]
  by (metis length_append le_add2 prod.collapse)

lemma dropWith_length: "length (dropWith f s) \<le> length s"
  using dropWith_suffix [of s f] by (metis length_append le_add2)

function fields :: "string \<Rightarrow> string list" where
  "fields s =
     (let t = dropWith frontSpace s
      in if t = [] then [] else let (w, r) = wordFront t in w # fields r)"
  by pat_completeness auto
termination
proof (relation "measure length", goal_cases)
  case 1
  show ?case by simp
next
  case (2 s t wr w r)
  then have ne: "dropWith frontSpace s \<noteq> []" and wr: "wordFront (dropWith frontSpace s) = (w, r)"
    by simp_all
  obtain c t where ct: "dropWith frontSpace s = c # t" using ne by (cases "dropWith frontSpace s") auto
  have "frontSpace (c # t) = 0" using dropWith_stop [of frontSpace s] ct by auto
  with wr ct have "length r \<le> length t"
    using wordFront_length [of t] by (auto split: prod.splits simp del: frontSpace.simps)
  also have "length t < length s" using dropWith_length [of frontSpace s] ct by simp
  finally show ?case by simp
qed

declare fields.simps [simp del]

fun joinWith :: "string \<Rightarrow> string list \<Rightarrow> string" where
  "joinWith sep [] = []"
| "joinWith sep [x] = x"
| "joinWith sep (x # y # zs) = x @ sep @ joinWith sep (y # zs)"

definition lowerByte :: "char \<Rightarrow> char" where
  "lowerByte c = (let n = of_char c :: nat in if 65 \<le> n \<and> n \<le> 90 then char_of (n + 32) else c)"

definition runeU0130 :: string where
  "runeU0130 = bytes [196, 176]"

definition runeU212A :: string where
  "runeU212A = bytes [226, 132, 170]"

fun toLower :: "string \<Rightarrow> string" where
  "toLower (a # b # c # s) =
     (if [a, b] = runeU0130 then CHR ''i'' # toLower (c # s)
      else if [a, b, c] = runeU212A then CHR ''k'' # toLower s
      else lowerByte a # toLower (b # c # s))"
| "toLower [a, b] = (if [a, b] = runeU0130 then ''i'' else [lowerByte a, lowerByte b])"
| "toLower [a] = [lowerByte a]"
| "toLower [] = []"

definition trimPrefix :: "string \<Rightarrow> string \<Rightarrow> string" where
  "trimPrefix s p = (if prefix p s then drop (length p) s else s)"

definition toSlash :: "string \<Rightarrow> string" where
  "toSlash s = s"

definition isAbs :: "string \<Rightarrow> bool" where
  "isAbs s = hasPrefix s ''/''"

lemma lowerByte_idem [simp]: "lowerByte (lowerByte c) = lowerByte c"
proof -
  have "(of_char c :: nat) < 256" using of_char_mod_256 [where 'a = nat] by (metis mod_less_divisor zero_less_numeral)
  then show ?thesis by (auto simp: lowerByte_def Let_def)
qed

subsection \<open>Sorted, duplicate-free lists of nonempty strings\<close>

text \<open>
  \<open>unique\<close> of the services: the loop keeps the first of each nonempty value, then sorts.
\<close>

fun uniqueLoop :: "string list \<Rightarrow> string list \<Rightarrow> string list" where
  "uniqueLoop seen [] = []"
| "uniqueLoop seen (v # vs) =
     (if v = [] \<or> v \<in> set seen then uniqueLoop seen vs else v # uniqueLoop (v # seen) vs)"

definition unique :: "string list \<Rightarrow> string list" where
  "unique vs = sort (uniqueLoop [] vs)"

definition appendUnique :: "string list \<Rightarrow> string \<Rightarrow> string list" where
  "appendUnique vs v = unique (vs @ [v])"

lemma set_uniqueLoop: "set (uniqueLoop seen vs) = set vs - set seen - {[]}"
  by (induction seen vs rule: uniqueLoop.induct) auto

lemma distinct_uniqueLoop: "distinct (uniqueLoop seen vs)"
  by (induction seen vs rule: uniqueLoop.induct) (auto simp: set_uniqueLoop)

lemma set_unique [simp]: "set (unique vs) = set vs - {[]}"
  by (simp add: unique_def set_uniqueLoop)

lemma sorted_unique [simp]: "sorted (unique vs)"
  by (simp add: unique_def)

lemma distinct_unique [simp]: "distinct (unique vs)"
  by (simp add: unique_def distinct_uniqueLoop)

lemma unique_eqI: "sorted vs \<Longrightarrow> distinct vs \<Longrightarrow> [] \<notin> set vs \<Longrightarrow> set vs = set ws - {[]} \<Longrightarrow> unique ws = vs"
  by (rule sorted_distinct_set_unique) simp_all

lemma unique_idem [simp]: "unique (unique vs) = unique vs"
  by (rule unique_eqI) auto

lemma unique_set_cong: "set vs - {[]} = set ws - {[]} \<Longrightarrow> unique vs = unique ws"
  by (rule unique_eqI) auto

lemma set_appendUnique [simp]: "set (appendUnique vs v) = (insert v (set vs)) - {[]}"
  by (auto simp: appendUnique_def)

text \<open>A list of references in the form the services keep them.\<close>

definition normalRefs :: "string list \<Rightarrow> bool" where
  "normalRefs vs = (sorted vs \<and> distinct vs \<and> [] \<notin> set vs)"

lemma normalRefs_Nil [simp]: "normalRefs []"
  by (simp add: normalRefs_def)

lemma normalRefs_unique [simp]: "normalRefs (unique vs)"
  by (simp add: normalRefs_def)

lemma normalRefs_appendUnique [simp]: "normalRefs (appendUnique vs v)"
  by (simp add: appendUnique_def)

lemma unique_normal: "normalRefs vs \<Longrightarrow> unique vs = vs"
  by (rule unique_eqI) (auto simp: normalRefs_def)

definition appendAllUnique :: "string list \<Rightarrow> string list \<Rightarrow> string list" where
  "appendAllUnique vs ws = fold (\<lambda>w acc. appendUnique acc w) ws vs"

lemma normalRefs_appendAllUnique: "normalRefs vs \<Longrightarrow> normalRefs (appendAllUnique vs ws)"
  unfolding appendAllUnique_def by (induction ws arbitrary: vs) auto

lemma set_appendAllUnique:
  "normalRefs vs \<Longrightarrow> set (appendAllUnique vs ws) = set vs \<union> (set ws - {[]})"
  unfolding appendAllUnique_def
proof (induction ws arbitrary: vs)
  case (Cons w ws)
  have "[] \<notin> set vs" using Cons.prems by (simp add: normalRefs_def)
  then show ?case using Cons.IH [of "appendUnique vs w"] by auto
qed simp

lemma unique_Nil [simp]: "unique [] = []"
  by (simp add: unique_def)

subsection \<open>Numbers and defaults\<close>

text \<open>\<open>strconv.Itoa(n)\<close>\<close>

fun showNat :: "nat \<Rightarrow> string" where
  "showNat n = (if n < 10 then [char_of (48 + n)] else showNat (n div 10) @ [char_of (48 + n mod 10)])"

declare showNat.simps [simp del]

text \<open>
  \<open>firstNonEmpty\<close>, of which several packages hold a copy: the first value that is not blank,
  trimmed.
\<close>

fun firstNonEmpty :: "string list \<Rightarrow> string" where
  "firstNonEmpty [] = []"
| "firstNonEmpty (v # vs) = (if trimSpace v \<noteq> [] then trimSpace v else firstNonEmpty vs)"

end
