(* ===== verification/Go_Regexp.thy ===== *)
theory Go_Regexp
  imports Go_Strings
begin

section \<open>Regular expressions\<close>

text \<open>
  Package \<open>regexp\<close> as the sources use it: patterns are data (\<open>regex\<close>) over bytes, and
  \<open>MatchString\<close> runs the set of partial derivatives over the text, as Go's automaton runs its
  set of threads. \<open>accepts\<close> is the meaning of a pattern; \<open>nfa_accepts\<close> says that the run
  decides it. Classes of the patterns used here hold ASCII only, apart from case-insensitive
  letters, which in Go also stand for U+017F and U+212A; these are written as the byte
  sequences of the two runes.
\<close>

datatype regex =
    Eps
  | Cls "(nat \<times> nat) list"
  | Seq regex regex
  | Alt regex regex
  | Star regex
  | Upto regex nat

definition inCls :: "(nat \<times> nat) list \<Rightarrow> char \<Rightarrow> bool" where
  "inCls rs c = (let n = of_char c in list_ex (\<lambda>(lo, hi). lo \<le> n \<and> n \<le> hi) rs)"

inductive accepts :: "regex \<Rightarrow> string \<Rightarrow> bool" where
  acc_eps: "accepts Eps []"
| acc_cls: "inCls k c \<Longrightarrow> accepts (Cls k) [c]"
| acc_seq: "accepts r a \<Longrightarrow> accepts s b \<Longrightarrow> accepts (Seq r s) (a @ b)"
| acc_left: "accepts r a \<Longrightarrow> accepts (Alt r s) a"
| acc_right: "accepts s a \<Longrightarrow> accepts (Alt r s) a"
| acc_star0: "accepts (Star r) []"
| acc_star: "accepts r a \<Longrightarrow> accepts (Star r) b \<Longrightarrow> accepts (Star r) (a @ b)"
| acc_upto0: "accepts (Upto r n) []"
| acc_upto: "accepts r a \<Longrightarrow> accepts (Upto r n) b \<Longrightarrow> accepts (Upto r (Suc n)) (a @ b)"

inductive_simps accepts_Eps [simp]: "accepts Eps s"
inductive_simps accepts_Cls [simp]: "accepts (Cls k) s"
inductive_simps accepts_Seq: "accepts (Seq r s) t"
inductive_simps accepts_Alt [simp]: "accepts (Alt r s) t"
inductive_simps accepts_Upto0 [simp]: "accepts (Upto r 0) t"
inductive_simps accepts_Upto: "accepts (Upto r (Suc n)) t"
inductive_cases accepts_StarE: "accepts (Star r) t"

subsection \<open>The matcher\<close>

fun nullable :: "regex \<Rightarrow> bool" where
  "nullable Eps = True"
| "nullable (Cls k) = False"
| "nullable (Seq r s) = (nullable r \<and> nullable s)"
| "nullable (Alt r s) = (nullable r \<or> nullable s)"
| "nullable (Star r) = True"
| "nullable (Upto r n) = True"

definition seqWith :: "regex \<Rightarrow> regex \<Rightarrow> regex" where
  "seqWith s r = (if r = Eps then s else Seq r s)"

fun pderiv :: "char \<Rightarrow> regex \<Rightarrow> regex list" where
  "pderiv c Eps = []"
| "pderiv c (Cls k) = (if inCls k c then [Eps] else [])"
| "pderiv c (Seq r s) = map (seqWith s) (pderiv c r) @ (if nullable r then pderiv c s else [])"
| "pderiv c (Alt r s) = pderiv c r @ pderiv c s"
| "pderiv c (Star r) = map (seqWith (Star r)) (pderiv c r)"
| "pderiv c (Upto r 0) = []"
| "pderiv c (Upto r (Suc n)) = map (seqWith (Upto r n)) (pderiv c r)"

fun nfa :: "regex list \<Rightarrow> string \<Rightarrow> bool" where
  "nfa rs [] = list_ex nullable rs"
| "nfa rs (c # s) = nfa (remdups (concat (map (pderiv c) rs))) s"

definition anyByte :: regex where
  "anyByte = Cls [(0, 255)]"

text \<open>\<open>^r$\<close>, \<open>^r\<close> and an unanchored \<open>r\<close>.\<close>

definition matchFull :: "regex \<Rightarrow> string \<Rightarrow> bool" where
  "matchFull r s = nfa [r] s"

definition matchPrefix :: "regex \<Rightarrow> string \<Rightarrow> bool" where
  "matchPrefix r s = nfa [Seq r (Star anyByte)] s"

definition matchString :: "regex \<Rightarrow> string \<Rightarrow> bool" where
  "matchString r s = nfa [Seq (Star anyByte) (Seq r (Star anyByte))] s"

subsection \<open>The matcher decides the meaning\<close>

lemma nullable_accepts: "nullable r \<longleftrightarrow> accepts r []"
  by (induction r) (auto simp: accepts_Seq intro: accepts.intros)

lemma accepts_seqWith [simp]: "accepts (seqWith s r) t \<longleftrightarrow> accepts (Seq r s) t"
  by (auto simp: seqWith_def accepts_Seq)

lemma accepts_Upto_mono: "accepts (Upto r n) t \<Longrightarrow> accepts (Upto r (Suc n)) t"
proof (induction n arbitrary: t)
  case 0
  then show ?case by (auto intro: accepts.intros)
next
  case (Suc n)
  from Suc.prems consider "t = []" | a b where "t = a @ b" "accepts r a" "accepts (Upto r n) b"
    by (auto simp: accepts_Upto)
  then show ?case
    by cases (auto intro: accepts.intros Suc.IH)
qed

lemma accepts_Star_Cons:
  "accepts (Star r) (c # s) \<longleftrightarrow> (\<exists>a b. s = a @ b \<and> accepts r (c # a) \<and> accepts (Star r) b)"
proof
  assume "accepts (Star r) (c # s)"
  then show "\<exists>a b. s = a @ b \<and> accepts r (c # a) \<and> accepts (Star r) b"
    by (induction "Star r" "c # s" arbitrary: c s rule: accepts.induct)
      (fastforce simp: append_eq_Cons_conv)
next
  assume "\<exists>a b. s = a @ b \<and> accepts r (c # a) \<and> accepts (Star r) b"
  then show "accepts (Star r) (c # s)"
    by (metis acc_star append_Cons)
qed

lemma accepts_Upto_Cons:
  "accepts (Upto r (Suc n)) (c # s) \<longleftrightarrow>
     (\<exists>a b. s = a @ b \<and> accepts r (c # a) \<and> accepts (Upto r n) b)"
proof (induction n)
  case 0
  show ?case by (auto simp: accepts_Upto append_eq_Cons_conv intro: acc_upto0)
next
  case (Suc n)
  show ?case
  proof
    assume "accepts (Upto r (Suc (Suc n))) (c # s)"
    then obtain a b where ab: "c # s = a @ b" "accepts r a" "accepts (Upto r (Suc n)) b"
      by (auto simp: accepts_Upto [of r "Suc n"])
    show "\<exists>a b. s = a @ b \<and> accepts r (c # a) \<and> accepts (Upto r (Suc n)) b"
    proof (cases a)
      case Nil
      with ab Suc.IH show ?thesis by (auto intro: accepts_Upto_mono)
    next
      case (Cons d a')
      with ab show ?thesis by auto
    qed
  next
    assume "\<exists>a b. s = a @ b \<and> accepts r (c # a) \<and> accepts (Upto r (Suc n)) b"
    then show "accepts (Upto r (Suc (Suc n))) (c # s)"
      by (metis acc_upto append_Cons)
  qed
qed

lemma accepts_Seq_Cons:
  "accepts (Seq r s) (c # t) \<longleftrightarrow>
     (\<exists>a b. t = a @ b \<and> accepts r (c # a) \<and> accepts s b) \<or> accepts r [] \<and> accepts s (c # t)"
  by (auto simp: accepts_Seq append_eq_Cons_conv Cons_eq_append_conv)

lemma accepts_pderiv: "accepts r (c # s) \<longleftrightarrow> (\<exists>x \<in> set (pderiv c r). accepts x s)"
proof (induction c r arbitrary: s rule: pderiv.induct)
  case (3 c r t)
  have A: "(\<exists>a b. s = a @ b \<and> accepts r (c # a) \<and> accepts t b) \<longleftrightarrow>
      (\<exists>x \<in> set (pderiv c r). accepts (Seq x t) s)"
    by (simp add: accepts_Seq "3.IH"(1)) blast
  show ?case
    by (cases "nullable r") (simp_all add: accepts_Seq_Cons A "3.IH"(2) bex_Un nullable_accepts)
next
  case (5 c r)
  then show ?case by (auto simp: accepts_Star_Cons accepts_Seq)
next
  case (7 c r n)
  then show ?case by (auto simp: accepts_Upto_Cons accepts_Seq)
qed auto

lemma nfa_accepts: "nfa rs s \<longleftrightarrow> (\<exists>r \<in> set rs. accepts r s)"
proof (induction s arbitrary: rs)
  case Nil
  then show ?case by (simp add: list_ex_iff nullable_accepts)
next
  case (Cons c s)
  then show ?case by (auto simp: accepts_pderiv)
qed

lemma accepts_any [simp]: "accepts (Star anyByte) s"
proof (induction s)
  case (Cons c s)
  have "(of_char c :: nat) < 256"
    by (metis of_char_mod_256 mod_less_divisor zero_less_numeral)
  then have "(of_char c :: nat) \<le> 255" by linarith
  then have "accepts anyByte [c]" by (simp add: anyByte_def inCls_def)
  from acc_star [OF this Cons] show ?case by simp
qed (rule acc_star0)

lemma matchFull_iff: "matchFull r s \<longleftrightarrow> accepts r s"
  by (simp add: matchFull_def nfa_accepts)

lemma matchPrefix_iff: "matchPrefix r s \<longleftrightarrow> (\<exists>a b. s = a @ b \<and> accepts r a)"
  by (simp add: matchPrefix_def nfa_accepts accepts_Seq)

lemma matchString_iff: "matchString r s \<longleftrightarrow> (\<exists>a m b. s = a @ m @ b \<and> accepts r m)"
  by (auto simp: matchString_def nfa_accepts accepts_Seq)

lemma matchString_infix: "matchString r t \<Longrightarrow> sublist t s \<Longrightarrow> matchString r s"
  by (auto simp: matchString_iff sublist_def) (metis append.assoc)

subsection \<open>Writing patterns\<close>

definition chr :: "char \<Rightarrow> nat \<times> nat" where
  "chr c = (of_char c, of_char c)"

definition rng :: "char \<Rightarrow> char \<Rightarrow> nat \<times> nat" where
  "rng a b = (of_char a, of_char b)"

definition chrs :: "string \<Rightarrow> (nat \<times> nat) list" where
  "chrs s = map chr s"

definition digitCls :: "(nat \<times> nat) list" where
  "digitCls = [rng CHR ''0'' CHR ''9'']"

definition lowerCls :: "(nat \<times> nat) list" where
  "lowerCls = [rng CHR ''a'' CHR ''z'']"

definition upperCls :: "(nat \<times> nat) list" where
  "upperCls = [rng CHR ''A'' CHR ''Z'']"

fun lit :: "string \<Rightarrow> regex" where
  "lit [] = Eps"
| "lit [c] = Cls [chr c]"
| "lit (c # d # s) = Seq (Cls [chr c]) (lit (d # s))"

fun times :: "nat \<Rightarrow> regex \<Rightarrow> regex \<Rightarrow> regex" where
  "times 0 r s = s"
| "times (Suc n) r s = Seq r (times n r s)"

text \<open>\<open>r+\<close>, \<open>r?\<close> and \<open>r{n,}\<close>\<close>

definition plus :: "regex \<Rightarrow> regex" where
  "plus r = Seq r (Star r)"

definition opt :: "regex \<Rightarrow> regex" where
  "opt r = Alt r Eps"

definition atLeast :: "nat \<Rightarrow> regex \<Rightarrow> regex" where
  "atLeast n r = times n r (Star r)"

text \<open>A class with ASCII letters under \<open>(?i)\<close>.\<close>

definition foldCls :: "(nat \<times> nat) list \<Rightarrow> regex" where
  "foldCls k = Alt (Cls (lowerCls @ upperCls @ k))
     (Alt (Seq (Cls [(197, 197)]) (Cls [(191, 191)]))
          (Seq (Cls [(226, 226)]) (Seq (Cls [(132, 132)]) (Cls [(170, 170)]))))"

lemma inCls_append [simp]: "inCls (j @ k) c \<longleftrightarrow> inCls j c \<or> inCls k c"
  by (simp add: inCls_def Let_def)

lemma inCls_chr [simp]: "inCls [chr d] c \<longleftrightarrow> c = d"
proof -
  have "inCls [chr d] c \<longleftrightarrow> (of_char c :: nat) = of_char d"
    by (auto simp: inCls_def chr_def Let_def)
  then show ?thesis by (simp only: of_char_eq_iff)
qed

lemma accepts_Star_Cls: "accepts (Star (Cls k)) s \<longleftrightarrow> list_all (inCls k) s"
  by (induction s) (auto simp: accepts_Star_Cons intro: acc_star0)

lemma accepts_Seq_Cls:
  "accepts (Seq (Cls k) r) s \<longleftrightarrow> (\<exists>c t. s = c # t \<and> inCls k c \<and> accepts r t)"
  by (simp add: accepts_Seq) (metis append_Cons append_Nil)

lemma accepts_Upto_Cls: "accepts (Upto (Cls k) n) s \<longleftrightarrow> length s \<le> n \<and> list_all (inCls k) s"
proof (induction n arbitrary: s)
  case 0
  then show ?case by auto
next
  case (Suc n)
  then show ?case by (cases s) (auto simp: accepts_Upto_Cons intro: acc_upto0)
qed

subsection \<open>The patterns the services share\<close>

text \<open>\<open>^[A-Za-z0-9][A-Za-z0-9._:/@+-]{0,199}$\<close>\<close>

definition refFirst :: "(nat \<times> nat) list" where
  "refFirst = upperCls @ lowerCls @ digitCls"

definition refRest :: "(nat \<times> nat) list" where
  "refRest = upperCls @ lowerCls @ digitCls @ chrs ''._:/@+-''"

definition refPattern :: regex where
  "refPattern = Seq (Cls refFirst) (Upto (Cls refRest) 199)"

text \<open>\<open>(?i)[a-z0-9._%+\-]+@[a-z0-9.\-]+\.[a-z]{2,}\<close>\<close>

definition emailPattern :: regex where
  "emailPattern =
     Seq (plus (foldCls (digitCls @ chrs ''._%+-'')))
       (Seq (lit ''@'')
         (Seq (plus (foldCls (digitCls @ chrs ''.-'')))
           (Seq (lit ''.'') (atLeast 2 (foldCls [])))))"

text \<open>\<open>\+?[0-9][0-9 .()\-]{7,}[0-9]\<close>\<close>

definition phonePattern :: regex where
  "phonePattern =
     Seq (opt (lit ''+''))
       (Seq (Cls digitCls)
         (Seq (atLeast 7 (Cls (digitCls @ chrs '' .()-''))) (Cls digitCls)))"

text \<open>What the reference pattern lets through, as a condition on the bytes.\<close>

lemma refPattern_iff:
  "matchFull refPattern s \<longleftrightarrow>
     (case s of [] \<Rightarrow> False
      | c # t \<Rightarrow> inCls refFirst c \<and> length t \<le> 199 \<and> list_all (inCls refRest) t)"
  by (cases s) (auto simp: matchFull_iff refPattern_def accepts_Seq_Cls accepts_Upto_Cls)

lemma refPattern_length: "matchFull refPattern s \<Longrightarrow> 0 < length s \<and> length s \<le> 200"
  by (auto simp: refPattern_iff split: list.splits)

end
