(* ===== verification/Safe_Text.thy ===== *)
theory Safe_Text
  imports Go_Regexp
begin

section \<open>Sanitising references and text\<close>

text \<open>
  The input checks of \<open>internal/projectworkplan/service.go\<close>: every identifier goes through
  \<open>safeRef\<close>, every free text through \<open>safeTextContent\<close>, every path list through
  \<open>safePathList\<close>. The other services hold copies of the same functions. Error values keep
  the text of the message.
\<close>

definition backslash :: string where
  "backslash = [CHR 0x5C]"

subsection \<open>Markers\<close>

definition prohibitionCues :: "string list" where
  "prohibitionCues =
    [''no raw prompt'', ''never store'', ''must not store'', ''do not store'', ''must not expose'',
     ''do not expose'', ''would expose'', ''must not include'', ''do not include'', ''would include'',
     ''would store'', ''prohibited'']"

definition prohibitedNouns :: "string list" where
  "prohibitedNouns =
    [''raw prompts'', ''raw prompt'', ''raw completions'', ''raw completion'', ''raw_prompt'',
     ''raw_completion'', ''raw source'', ''source dumps'', ''source dump'', ''raw stderr'',
     ''raw_stderr'', ''provider payloads'', ''provider payload'', ''provider_payload'',
     ''credentials'', ''credential'', ''secrets'', ''secret'', ''roots'', ''root'', ''paths'', ''path'']"

definition prohibitionPrefixes :: "string list" where
  "prohibitionPrefixes =
    [''no'', ''never store'', ''must not store'', ''do not store'', ''would store'', ''must not expose'',
     ''do not expose'', ''would expose'', ''must not include'', ''do not include'', ''would include'']"

definition prefixedNouns :: "string list" where
  "prefixedNouns =
    [''raw prompts'', ''raw prompt'', ''raw completions'', ''raw completion'', ''raw source'',
     ''source dumps'', ''source dump'', ''raw stderr'', ''provider payloads'', ''provider payload'',
     ''credentials'', ''credential'', ''secrets'', ''secret'', ''roots'', ''root'', ''paths'', ''path'']"

definition redactSafeProhibitionPhrases :: "string \<Rightarrow> string" where
  "redactSafeProhibitionPhrases value =
     (let v1 = (if list_ex (contains value) prohibitionCues
                then fold (\<lambda>marker v. replaceAll marker [] v) prohibitedNouns value
                else value)
      in fold (\<lambda>p v. fold (\<lambda>marker v. replaceAll (p @ '' '' @ marker) [] v) prefixedNouns v)
           prohibitionPrefixes v1)"

definition unsafeMarkers :: "string list" where
  "unsafeMarkers =
    [''begin private key'', ''openai_api_key'', ''anthropic_api_key'', ''ghp_'', ''api_key'',
     ''password='', ''secret='', ''token='', ''credential='', ''raw_prompt'', ''raw prompt'',
     ''raw_completion'', ''raw completion'', ''raw_stderr'', ''raw stderr'', ''provider_payload'',
     ''provider payload'', ''raw source'', ''source dump'']"

definition containsUnsafeMarker :: "string \<Rightarrow> bool" where
  "containsUnsafeMarker value =
     (let lower = redactSafeProhibitionPhrases (toLower value)
      in list_ex (contains lower) unsafeMarkers
         \<or> hasPrefix lower ''sk-'' \<or> contains lower '' sk-'' \<or> contains lower ''=sk-'')"

definition containsRootMarker :: "string \<Rightarrow> bool" where
  "containsRootMarker value =
     (let normalized = toLower (replaceAll backslash ''/'' value)
      in contains normalized ''/home/'' \<or> contains normalized ''/users/''
         \<or> contains normalized ''wsl.localhost/'' \<or> contains normalized ''c:/''
         \<or> matchPrefix (Seq (Cls lowerCls) (lit '':'')) normalized)"

subsection \<open>References\<close>

definition safeRef :: "string \<Rightarrow> string \<Rightarrow> string res" where
  "safeRef value0 name =
     (let value = trimSpace value0
      in if value = [] then Inl (ErrInvalidInput (name @ '' is required''))
         else if contains value backslash \<or> contains value ''..'' \<or> hasPrefix value ''/''
           \<or> isAbs value \<or> containsUnsafeMarker value \<or> containsRootMarker value
           \<or> matchString emailPattern value \<or> \<not> matchFull refPattern value
         then Inl (ErrInvalidInput (name @ '' is unsafe''))
         else Inr value)"

definition safeOptionalRef :: "string \<Rightarrow> string \<Rightarrow> string res" where
  "safeOptionalRef value0 name =
     (let value = trimSpace value0 in if value = [] then Inr [] else safeRef value name)"

definition safeProjectObject :: "string \<Rightarrow> string \<Rightarrow> string \<Rightarrow> (string \<times> string) res" where
  "safeProjectObject projectID0 objectID0 name =
     tryE (safeRef projectID0 ''project_id'') (\<lambda>projectID.
     tryE (safeRef objectID0 name) (\<lambda>objectID.
     Inr (projectID, objectID)))"

subsection \<open>Text\<close>

definition pathTrimSet :: string where
  "pathTrimSet = ''.,;:()[]{}<>'' @ [CHR 0x22, CHR 0x27]"

definition safePathToken :: "string \<Rightarrow> bool" where
  "safePathToken value =
     (\<not> (value = [] \<or> hasPrefix value ''/'' \<or> hasPrefix value backslash \<or> hasPrefix value ''~''
          \<or> contains value ''..'' \<or> contains value '':'' \<or> isAbs value \<or> containsRootMarker value)
      \<and> \<not> containsAny value (bytes [0, 13, 10, 9]))"

definition redactPathField :: "string \<Rightarrow> string" where
  "redactPathField field =
     (let trimmed = trimCut field pathTrimSet; normalized = toSlash trimmed
      in if contains normalized ''/'' \<and> safePathToken normalized
         then replaceFirst trimmed ''path-ref'' field else field)"

definition redactSafePathTokens :: "string \<Rightarrow> string" where
  "redactSafePathTokens value = joinWith '' '' (map redactPathField (fields value))"

definition safeTextContent :: "string \<Rightarrow> string \<Rightarrow> string res" where
  "safeTextContent value name =
     (let piiCheckValue = redactSafePathTokens value
      in if containsUnsafeMarker value \<or> matchString emailPattern piiCheckValue
           \<or> matchString phonePattern piiCheckValue
         then Inl (ErrInvalidInput (name @ '' contains unsafe content'')) else Inr value)"

definition safeOptionalText :: "string \<Rightarrow> string \<Rightarrow> nat \<Rightarrow> string res" where
  "safeOptionalText value0 name mx =
     (let value = trimSpace value0
      in if length value > mx then Inl (ErrInvalidInput (name @ '' is too long''))
         else safeTextContent value name)"

definition safeRequiredText :: "string \<Rightarrow> string \<Rightarrow> nat \<Rightarrow> string res" where
  "safeRequiredText value0 name mx =
     tryE (safeOptionalText value0 name mx) (\<lambda>value.
       if value = [] then Inl (ErrInvalidInput (name @ '' is required'')) else Inr value)"

definition safeResumeInstructions :: "string \<Rightarrow> string \<Rightarrow> string res" where
  "safeResumeInstructions value name = safeTextContent (trimSpace value) name"

subsection \<open>Lists\<close>

definition safeTextList :: "string list \<Rightarrow> string \<Rightarrow> nat \<Rightarrow> string list res" where
  "safeTextList vals name mx =
     tryE (mapE (\<lambda>v. safeRequiredText v name mx) vals) (\<lambda>out. Inr (unique out))"

definition safeRefList :: "string list \<Rightarrow> string \<Rightarrow> string list res" where
  "safeRefList vals name =
     tryE (mapE (\<lambda>v. safeRef v name) vals) (\<lambda>out. Inr (unique out))"

text \<open>The loop of \<open>safePathList\<close>: an empty path is skipped, an unsafe one ends the call.\<close>

definition unsafePath :: "string \<Rightarrow> bool" where
  "unsafePath v =
     (hasPrefix v ''/'' \<or> hasPrefix v backslash \<or> contains v ''..'' \<or> contains v '':''
      \<or> hasPrefix v ''~'' \<or> isAbs v)"

fun safePathLoop :: "string \<Rightarrow> string list \<Rightarrow> string list res" where
  "safePathLoop name [] = Inr []"
| "safePathLoop name (v0 # vs) =
     (let v = toSlash (trimSpace v0)
      in if v = [] then safePathLoop name vs
         else if unsafePath v then Inl (ErrInvalidInput (name @ '' contains unsafe path''))
         else tryE (safePathLoop name vs) (\<lambda>out. Inr (v # out)))"

definition safePathList :: "string list \<Rightarrow> string \<Rightarrow> string list res" where
  "safePathList vals name = tryE (safePathLoop name vals) (\<lambda>out. Inr (unique out))"

definition optionalRefSlice :: "string \<Rightarrow> string list" where
  "optionalRefSlice value = (if value = [] then [] else [value])"

subsection \<open>What a checked value satisfies\<close>

named_theorems safe_simps \<open>inversion of the input checks\<close>

lemma safeRef_Inr [safe_simps]:
  "safeRef v name = Inr r \<longleftrightarrow>
     r = trimSpace v \<and> r \<noteq> [] \<and> \<not> contains r backslash \<and> \<not> contains r ''..'' \<and> \<not> hasPrefix r ''/''
     \<and> \<not> containsUnsafeMarker r \<and> \<not> containsRootMarker r
     \<and> \<not> matchString emailPattern r \<and> matchFull refPattern r"
  by (auto simp: safeRef_def Let_def isAbs_def split: if_splits)

lemma safeOptionalRef_Inr:
  "safeOptionalRef v name = Inr r \<longleftrightarrow> (if isBlank v then r = [] else safeRef v name = Inr r)"
  by (auto simp: safeOptionalRef_def Let_def trimSpace_eq_Nil safeRef_def)

lemma safeOptionalRef_value: "safeOptionalRef v name = Inr r \<Longrightarrow> r = trimSpace v"
  by (auto simp: safeOptionalRef_Inr isBlank_def safeRef_Inr split: if_splits)

lemma safeOptionalRef_blank [simp]: "isBlank v \<Longrightarrow> safeOptionalRef v name = Inr []"
  by (simp add: safeOptionalRef_def isBlank_def)

lemma safeRef_nonempty: "safeRef v name = Inr r \<Longrightarrow> r \<noteq> []"
  by (auto simp: safe_simps)

lemma safeRef_idem: "safeRef v name = Inr r \<Longrightarrow> safeRef r name' = Inr r"
  by (auto simp: safe_simps)

lemma safeOptionalRef_idem: "safeOptionalRef v name = Inr r \<Longrightarrow> safeOptionalRef r name' = Inr r"
  by (auto simp: safeOptionalRef_Inr split: if_splits intro: safeRef_idem)
    (metis isBlank_def safeRef_Inr trimSpace_idem)

lemma safeRef_length: "safeRef v name = Inr r \<Longrightarrow> length r \<le> 200"
  using refPattern_length by (auto simp: safe_simps)

lemma safeRef_bytes:
  assumes "safeRef v name = Inr r" and "c \<in> set r"
  shows "inCls refRest c"
  using assms by (auto simp: safe_simps refPattern_iff list_all_iff refFirst_def refRest_def
      split: list.splits)

text \<open>No reference holds the byte 0, which the stores use to join the parts of a key.\<close>

definition noNul :: "string \<Rightarrow> bool" where
  "noNul s = (CHR 0x00 \<notin> set s)"

lemma safeRef_noNul: "safeRef v name = Inr r \<Longrightarrow> noNul r"
  using safeRef_bytes [of v name r "CHR 0x00"]
  by (auto simp: noNul_def refRest_def inCls_def upperCls_def lowerCls_def digitCls_def chrs_def
      chr_def rng_def simp del: inCls_append)

lemma safeProjectObject_Inr [safe_simps]:
  "safeProjectObject a b name = Inr (p, t) \<longleftrightarrow>
     safeRef a ''project_id'' = Inr p \<and> safeRef b name = Inr t"
  by (auto simp: safeProjectObject_def res_simps)

lemma safeOptionalText_Inr [safe_simps]:
  "safeOptionalText v name mx = Inr r \<longleftrightarrow>
     r = trimSpace v \<and> length r \<le> mx \<and> safeTextContent r name = Inr r"
  by (auto simp: safeOptionalText_def safeTextContent_def Let_def split: if_splits)

lemma safeRequiredText_Inr [safe_simps]:
  "safeRequiredText v name mx = Inr r \<longleftrightarrow> safeOptionalText v name mx = Inr r \<and> r \<noteq> []"
  by (auto simp: safeRequiredText_def res_simps split: if_splits)

lemma safeResumeInstructions_Inr [safe_simps]:
  "safeResumeInstructions v name = Inr r \<longleftrightarrow> r = trimSpace v \<and> safeTextContent r name = Inr r"
  by (auto simp: safeResumeInstructions_def safeTextContent_def Let_def split: if_splits)

lemma safeRefList_Inr: "safeRefList vs name = Inr rs \<Longrightarrow> normalRefs rs \<and> (\<forall>r \<in> set rs. safeRef r name = Inr r)"
  by (auto simp: safeRefList_def res_simps dest: mapE_set intro: safeRef_idem)

lemma safeRefList_nonempty: "safeRefList vs name = Inr rs \<Longrightarrow> vs \<noteq> [] \<Longrightarrow> rs \<noteq> []"
proof -
  assume "safeRefList vs name = Inr rs" and "vs \<noteq> []"
  then obtain v ws out where out: "mapE (\<lambda>v. safeRef v name) vs = Inr out" "rs = unique out" "vs = v # ws"
    by (auto simp: safeRefList_def res_simps neq_Nil_conv)
  then obtain r where "safeRef v name = Inr r" "r \<in> set out" by (auto simp: res_simps)
  then have "r \<in> set rs" using out(2) by (simp add: safeRef_nonempty)
  then show "rs \<noteq> []" by auto
qed

lemma safePathLoop_safe:
  "safePathLoop name vs = Inr ps \<Longrightarrow> p \<in> set ps \<Longrightarrow> p \<noteq> [] \<and> \<not> unsafePath p"
  by (induction vs arbitrary: ps) (auto simp: Let_def res_simps split: if_splits)

lemma safePathList_Inr:
  "safePathList vs name = Inr ps \<Longrightarrow> normalRefs ps \<and> (\<forall>p \<in> set ps. p \<noteq> [] \<and> \<not> unsafePath p)"
  by (auto simp: safePathList_def res_simps dest: safePathLoop_safe)

subsection \<open>Tidy words pass every check\<close>

text \<open>
  Short words of lower-case letters and digits, for which the checks reduce to \<open>Inr\<close>: they
  stand for identifiers and texts in the concrete runs of the development.
\<close>

definition tidyChar :: "char \<Rightarrow> bool" where
  "tidyChar c = (let n = of_char c :: nat in 48 \<le> n \<and> n \<le> 57 \<or> 97 \<le> n \<and> n \<le> 122)"

definition tidyWord :: "string \<Rightarrow> bool" where
  "tidyWord s = (s \<noteq> [] \<and> length s \<le> 8 \<and> list_all tidyChar s)"

lemma untidy_absent: "list_all tidyChar s \<Longrightarrow> \<not> list_all tidyChar p \<Longrightarrow> \<not> sublist p s"
  by (auto simp: list_all_iff dest!: set_mono_sublist)

lemma untidy_replaceAll: "list_all tidyChar s \<Longrightarrow> \<not> list_all tidyChar p \<Longrightarrow> replaceAll p r s = s"
  by (simp add: replaceAll_absent untidy_absent)

lemma fold_id: "(\<And>x. x \<in> set xs \<Longrightarrow> f x s = s) \<Longrightarrow> fold f xs s = s"
  by (induction xs) auto

lemma tidy_redact: "tidyWord s \<Longrightarrow> redactSafeProhibitionPhrases s = s"
proof -
  assume s: "tidyWord s"
  then have t: "list_all tidyChar s" by (simp add: tidyWord_def)
  have "\<not> sublist ''prohibited'' s"
    using s sublist_length_le [of "''prohibited''" s] by (auto simp: tidyWord_def)
  moreover have "\<forall>p \<in> set prohibitionCues. p = ''prohibited'' \<or> \<not> list_all tidyChar p"
    by (simp add: prohibitionCues_def tidyChar_def)
  ultimately have 1: "\<not> list_ex (contains s) prohibitionCues"
    using untidy_absent [OF t] by (auto simp: list_ex_iff)
  have sp: "\<not> list_all tidyChar (p @ '' '' @ m)" for p m by (simp add: tidyChar_def)
  have "fold (\<lambda>marker v. replaceAll (p @ '' '' @ marker) [] v) prefixedNouns s = s" for p
    by (rule fold_id) (rule untidy_replaceAll [OF t sp])
  then show ?thesis
    unfolding redactSafeProhibitionPhrases_def Let_def if_not_P [OF 1] by (simp add: fold_id)
qed

lemma tidyChar_bound: "tidyChar c \<Longrightarrow> (of_char c :: nat) < 128"
  by (auto simp: tidyChar_def Let_def)

lemma tidyChar_not_space: "tidyChar c \<Longrightarrow> c \<notin> set asciiSpaces"
  by (auto simp: tidyChar_def asciiSpaces_def bytes_def Let_def)

lemma spaceRunes_untidy:
  "p \<in> set spaceRunes2 \<Longrightarrow> \<not> list_all tidyChar p"
  "p \<in> set spaceRunes3 \<Longrightarrow> \<not> list_all tidyChar p"
  by (auto simp: spaceRunes2_def spaceRunes3_def bytes_def tidyChar_def Let_def)

lemma tidy_frontSpace: "list_all tidyChar s \<Longrightarrow> frontSpace s = 0"
  using spaceRunes_untidy(1) [of "take 2 s"] spaceRunes_untidy(2) [of "take 3 s"]
  by (cases s) (auto simp: tidyChar_not_space list_all_iff dest!: in_set_takeD)

lemma tidy_backSpace: "list_all tidyChar s \<Longrightarrow> backSpace s = 0"
  using spaceRunes_untidy(1) [of "rev (take 2 s)"] spaceRunes_untidy(2) [of "rev (take 3 s)"]
  by (cases s) (auto simp: tidyChar_not_space list_all_iff dest!: in_set_takeD)

lemma tidy_trimSpace: "list_all tidyChar s \<Longrightarrow> trimSpace s = s"
  by (simp add: trimSpace_def dropWith_id tidy_frontSpace tidy_backSpace)

lemma tidyWord_trimSpace [simp]: "tidyWord s \<Longrightarrow> trimSpace s = s"
  by (simp add: tidyWord_def tidy_trimSpace)

lemma tidy_lowerByte: "tidyChar c \<Longrightarrow> lowerByte c = c"
  by (auto simp: tidyChar_def lowerByte_def Let_def)

lemma toLower_fix:
  assumes "\<And>c. P c \<Longrightarrow> lowerByte c = c" and "\<not> list_all P runeU0130" and "\<not> list_all P runeU212A"
  shows "list_all P s \<Longrightarrow> toLower s = s"
proof (induction s rule: toLower.induct)
  case (1 a b c s)
  then have "list_all P [a, b]" "list_all P [a, b, c]" by simp_all
  then have "[a, b] \<noteq> runeU0130" "[a, b, c] \<noteq> runeU212A" using assms(2,3) by metis+
  with 1 show ?case by (simp add: assms(1))
next
  case (2 a b)
  then have "[a, b] \<noteq> runeU0130" using assms(2) by metis
  with 2 show ?case by (simp add: assms(1))
qed (auto simp: assms(1))

lemma tidy_toLower: "list_all tidyChar s \<Longrightarrow> toLower s = s"
  by (rule toLower_fix) (simp_all add: tidy_lowerByte runeU0130_def runeU212A_def bytes_def tidyChar_def)

lemma tidy_markers: "tidyWord s \<Longrightarrow> \<not> containsUnsafeMarker s"
proof -
  assume s: "tidyWord s"
  then have t: "list_all tidyChar s" by (simp add: tidyWord_def)
  have "\<forall>m \<in> set (''sk-'' # '' sk-'' # ''=sk-'' # unsafeMarkers). \<not> list_all tidyChar m"
    by (simp add: unsafeMarkers_def tidyChar_def)
  with untidy_absent [OF t] show ?thesis
    by (auto simp: containsUnsafeMarker_def tidy_toLower [OF t] tidy_redact [OF s] list_ex_iff
        dest: prefix_imp_sublist)
qed

lemma accepts_needs_char:
  "accepts r s \<Longrightarrow> r = Seq p (Seq (lit [d]) q) \<Longrightarrow> d \<in> set s"
  by (auto simp: accepts_Seq)

lemma tidy_root: "tidyWord s \<Longrightarrow> \<not> containsRootMarker s"
proof -
  assume s: "tidyWord s"
  then have t: "list_all tidyChar s" by (simp add: tidyWord_def)
  have u: "\<forall>m \<in> {backslash, ''/home/'', ''/users/'', ''wsl.localhost/'', ''c:/''}. \<not> list_all tidyChar m"
    by (simp add: tidyChar_def backslash_def)
  have "\<not> matchPrefix (Seq (Cls lowerCls) (lit '':'')) s"
  proof
    assume "matchPrefix (Seq (Cls lowerCls) (lit '':'')) s"
    then have "CHR '':'' \<in> set s"
      by (auto simp: matchPrefix_iff accepts_Seq)
    with t show False by (auto simp: list_all_iff tidyChar_def)
  qed
  with u untidy_absent [OF t] show ?thesis
    by (auto simp: containsRootMarker_def untidy_replaceAll [OF t] tidy_toLower [OF t] Let_def)
qed

lemma tidy_email: "tidyWord s \<Longrightarrow> \<not> matchString emailPattern s"
proof
  assume s: "tidyWord s" and "matchString emailPattern s"
  then obtain a m b where "s = a @ m @ b" and "accepts emailPattern m" by (auto simp: matchString_iff)
  then have "CHR ''@'' \<in> set s"
    using accepts_needs_char [of emailPattern m] by (auto simp: emailPattern_def)
  with s show False by (auto simp: tidyWord_def list_all_iff tidyChar_def)
qed

lemma tidy_refPattern: "tidyWord s \<Longrightarrow> matchFull refPattern s"
  by (cases s)
    (auto simp: tidyWord_def refPattern_iff refFirst_def refRest_def inCls_def upperCls_def lowerCls_def
      digitCls_def rng_def tidyChar_def Let_def list_all_iff)

lemma safeRef_tidy [simp]: "tidyWord s \<Longrightarrow> safeRef s name = Inr s"
proof -
  assume s: "tidyWord s"
  then have t: "list_all tidyChar s" and ne: "s \<noteq> []" by (simp_all add: tidyWord_def)
  have "\<forall>m \<in> {backslash, ''..'', ''/''}. \<not> list_all tidyChar m"
    by (simp add: tidyChar_def backslash_def)
  with untidy_absent [OF t] have "\<not> contains s backslash" "\<not> contains s ''..''" "\<not> hasPrefix s ''/''"
    by (auto dest: prefix_imp_sublist)
  with s ne show ?thesis
    by (simp add: safe_simps tidy_markers tidy_root tidy_email tidy_refPattern)
qed

lemma tidyWord_nonempty: "tidyWord s \<Longrightarrow> s \<noteq> []"
  by (simp add: tidyWord_def)

lemma tidyWord_not_blank [simp]: "tidyWord s \<Longrightarrow> \<not> isBlank s"
  by (simp add: isBlank_def tidyWord_nonempty)

lemma safeOptionalRef_tidy [simp]: "tidyWord s \<Longrightarrow> safeOptionalRef s name = Inr s"
  by (simp add: safeOptionalRef_Inr)

lemma safeOptionalRef_Nil [simp]: "safeOptionalRef [] name = Inr []"
  by simp

lemma safeProjectObject_tidy [simp]:
  "tidyWord a \<Longrightarrow> tidyWord b \<Longrightarrow> safeProjectObject a b name = Inr (a, b)"
  by (simp add: safeProjectObject_def)

lemma tidy_wordFront: "list_all tidyChar s \<Longrightarrow> wordFront s = (s, [])"
proof (induction s)
  case (Cons c s)
  then show ?case using tidy_frontSpace [of "c # s"] by (simp del: frontSpace.simps)
qed simp

lemma tidy_fields: "tidyWord s \<Longrightarrow> fields s = [s]"
  by (auto simp: fields.simps [of s] fields.simps [of "[]"] dropWith_id tidy_frontSpace tidyWord_def
      tidy_wordFront)

lemma set_trimCut: "set (trimCut s cs) \<subseteq> set s"
  by (auto simp: trimCut_def dest!: set_dropWhileD)

lemma tidy_redactPathField: "tidyWord s \<Longrightarrow> redactPathField s = s"
proof -
  assume "tidyWord s"
  then have "CHR ''/'' \<notin> set s"
    by (auto simp: tidyWord_def list_all_iff tidyChar_def)
  then have "CHR ''/'' \<notin> set (trimCut s pathTrimSet)"
    using set_trimCut [of s pathTrimSet] by auto
  then have "\<not> contains (toSlash (trimCut s pathTrimSet)) ''/''"
    by (auto simp: toSlash_def dest!: set_mono_sublist)
  then show ?thesis by (simp add: redactPathField_def Let_def)
qed

lemma accepts_times_length: "accepts (times n (Cls k) r) s \<Longrightarrow> n \<le> length s"
  by (induction n arbitrary: s) (auto simp: accepts_Seq_Cls)

lemma phonePattern_length: "accepts phonePattern m \<Longrightarrow> 9 \<le> length m"
  by (auto simp: phonePattern_def opt_def accepts_Seq atLeast_def dest!: accepts_times_length)

lemma tidy_phone: "tidyWord s \<Longrightarrow> \<not> matchString phonePattern s"
  by (auto simp: matchString_iff tidyWord_def dest!: phonePattern_length)

lemma safeTextContent_tidy [simp]: "tidyWord s \<Longrightarrow> safeTextContent s name = Inr s"
  by (simp add: safeTextContent_def redactSafePathTokens_def tidy_fields tidy_redactPathField
      tidy_markers tidy_email tidy_phone Let_def)

lemma safeOptionalText_tidy [simp]: "tidyWord s \<Longrightarrow> 8 \<le> mx \<Longrightarrow> safeOptionalText s name mx = Inr s"
  by (simp add: safe_simps) (simp add: tidyWord_def)

lemma safeRequiredText_tidy [simp]: "tidyWord s \<Longrightarrow> 8 \<le> mx \<Longrightarrow> safeRequiredText s name mx = Inr s"
  by (simp add: safeRequiredText_def tidyWord_nonempty)

lemma safeResumeInstructions_tidy [simp]: "tidyWord s \<Longrightarrow> safeResumeInstructions s name = Inr s"
  by (simp add: safeResumeInstructions_def)

text \<open>The empty text passes too.\<close>

lemma matchString_Nil: "matchString r [] \<longleftrightarrow> accepts r []"
  by (simp add: matchString_iff)

lemma redact_Nil: "redactSafeProhibitionPhrases [] = []"
proof -
  have "\<forall>p \<in> set prohibitionCues. p \<noteq> []" by (simp add: prohibitionCues_def)
  then show ?thesis by (auto simp: redactSafeProhibitionPhrases_def list_ex_iff fold_id)
qed

lemma safeTextContent_Nil [simp]: "safeTextContent [] name = Inr []"
proof -
  have "\<forall>m \<in> set unsafeMarkers. m \<noteq> []" by (simp add: unsafeMarkers_def)
  moreover have "\<not> accepts emailPattern []" and "\<not> accepts phonePattern []"
    using accepts_needs_char [of emailPattern "[]"] phonePattern_length [of "[]"]
    by (auto simp: emailPattern_def)
  ultimately show ?thesis
    by (auto simp: safeTextContent_def redactSafePathTokens_def fields.simps [of "[]"] dropWith_id
        containsUnsafeMarker_def redact_Nil list_ex_iff matchString_Nil Let_def)
qed

lemma safeOptionalText_Nil [simp]: "safeOptionalText [] name mx = Inr []"
  by (simp add: safeOptionalText_def)

lemma safeResumeInstructions_Nil [simp]: "safeResumeInstructions [] name = Inr []"
  by (simp add: safeResumeInstructions_def)

lemma safeRefList_Nil [simp]: "safeRefList [] name = Inr []"
  by (simp add: safeRefList_def)

lemma safePathList_Nil [simp]: "safePathList [] name = Inr []"
  by (simp add: safePathList_def)

lemma safeTextList_Nil [simp]: "safeTextList [] name mx = Inr []"
  by (simp add: safeTextList_def)

lemma unique_single [simp]: "v \<noteq> [] \<Longrightarrow> unique [v] = [v]"
  by (simp add: unique_def)

lemma safeRefList_tidy [simp]: "tidyWord v \<Longrightarrow> safeRefList [v] name = Inr [v]"
  by (simp add: safeRefList_def tidyWord_nonempty)

end
