(* ===== verification/WorkPlan_Model.thy ===== *)
theory WorkPlan_Model
  imports Safe_Text
begin

section \<open>Work plans: the data\<close>

text \<open>
  The types of \<open>internal/projectworkplan/model.go\<close>: one record per struct, with the fields in
  the order of the source and a two-letter prefix for the struct. Statuses are strings in the
  source (a store can hold any), and stay strings here; the constants are abbreviations.
  \<open>UpdateWorkTaskStatusInput\<close> embeds \<open>WorkTaskActionInput\<close>, so it extends that record.
\<close>

subsection \<open>Constants\<close>

abbreviation WorkPlanStatusPlanned :: string where
  "WorkPlanStatusPlanned \<equiv> ''planned''"

abbreviation WorkPlanStatusActive :: string where
  "WorkPlanStatusActive \<equiv> ''active''"

abbreviation WorkPlanStatusBlocked :: string where
  "WorkPlanStatusBlocked \<equiv> ''blocked''"

abbreviation WorkPlanStatusNeedsReview :: string where
  "WorkPlanStatusNeedsReview \<equiv> ''needs_review''"

abbreviation WorkPlanStatusDone :: string where
  "WorkPlanStatusDone \<equiv> ''done''"

abbreviation WorkPlanStatusFailed :: string where
  "WorkPlanStatusFailed \<equiv> ''failed''"

abbreviation WorkPlanStatusCancelled :: string where
  "WorkPlanStatusCancelled \<equiv> ''cancelled''"

abbreviation WorkPlanStatusSuperseded :: string where
  "WorkPlanStatusSuperseded \<equiv> ''superseded''"

abbreviation WorkPlanIsolationShared :: string where
  "WorkPlanIsolationShared \<equiv> ''shared''"

abbreviation WorkPlanIsolationDedicatedWorktree :: string where
  "WorkPlanIsolationDedicatedWorktree \<equiv> ''dedicated_worktree''"

abbreviation WorkPlanIsolationUnavailable :: string where
  "WorkPlanIsolationUnavailable \<equiv> ''unavailable''"

abbreviation WorkTaskStatusPlanned :: string where
  "WorkTaskStatusPlanned \<equiv> ''planned''"

abbreviation WorkTaskStatusReady :: string where
  "WorkTaskStatusReady \<equiv> ''ready''"

abbreviation WorkTaskStatusClaimed :: string where
  "WorkTaskStatusClaimed \<equiv> ''claimed''"

abbreviation WorkTaskStatusInProgress :: string where
  "WorkTaskStatusInProgress \<equiv> ''in_progress''"

abbreviation WorkTaskStatusBlocked :: string where
  "WorkTaskStatusBlocked \<equiv> ''blocked''"

abbreviation WorkTaskStatusNeedsReview :: string where
  "WorkTaskStatusNeedsReview \<equiv> ''needs_review''"

abbreviation WorkTaskStatusVerifying :: string where
  "WorkTaskStatusVerifying \<equiv> ''verifying''"

abbreviation WorkTaskStatusDone :: string where
  "WorkTaskStatusDone \<equiv> ''done''"

abbreviation WorkTaskStatusFailed :: string where
  "WorkTaskStatusFailed \<equiv> ''failed''"

abbreviation WorkTaskStatusCancelled :: string where
  "WorkTaskStatusCancelled \<equiv> ''cancelled''"

abbreviation WorkTaskStatusSuperseded :: string where
  "WorkTaskStatusSuperseded \<equiv> ''superseded''"

abbreviation DecompositionDraft :: string where
  "DecompositionDraft \<equiv> ''draft''"

abbreviation DecompositionReady :: string where
  "DecompositionReady \<equiv> ''ready''"

abbreviation DecompositionTooBroad :: string where
  "DecompositionTooBroad \<equiv> ''too_broad''"

abbreviation DecompositionMissingEvidence :: string where
  "DecompositionMissingEvidence \<equiv> ''missing_evidence''"

abbreviation DecompositionMissingContext :: string where
  "DecompositionMissingContext \<equiv> ''missing_context''"

abbreviation DecompositionMissingVerification :: string where
  "DecompositionMissingVerification \<equiv> ''missing_verification''"

abbreviation DecompositionMissingResume :: string where
  "DecompositionMissingResume \<equiv> ''missing_resume''"

text \<open>The values of each enumeration.\<close>

definition workPlanStatuses :: "string list" where
  "workPlanStatuses =
    [WorkPlanStatusPlanned,
     WorkPlanStatusActive,
     WorkPlanStatusBlocked,
     WorkPlanStatusNeedsReview,
     WorkPlanStatusDone,
     WorkPlanStatusFailed,
     WorkPlanStatusCancelled,
     WorkPlanStatusSuperseded]"

definition workTaskStatuses :: "string list" where
  "workTaskStatuses =
    [WorkTaskStatusPlanned,
     WorkTaskStatusReady,
     WorkTaskStatusClaimed,
     WorkTaskStatusInProgress,
     WorkTaskStatusBlocked,
     WorkTaskStatusNeedsReview,
     WorkTaskStatusVerifying,
     WorkTaskStatusDone,
     WorkTaskStatusFailed,
     WorkTaskStatusCancelled,
     WorkTaskStatusSuperseded]"

definition decompositionQualities :: "string list" where
  "decompositionQualities =
    [DecompositionDraft,
     DecompositionReady,
     DecompositionTooBroad,
     DecompositionMissingEvidence,
     DecompositionMissingContext,
     DecompositionMissingVerification,
     DecompositionMissingResume]"

definition workPlanIsolationModes :: "string list" where
  "workPlanIsolationModes =
    [WorkPlanIsolationShared,
     WorkPlanIsolationDedicatedWorktree,
     WorkPlanIsolationUnavailable]"

subsection \<open>Records\<close>

record WorkPlan =
  wpID :: string
  wpProjectID :: string
  wpPlanRef :: string
  wpUserRequestRef :: string
  wpTitle :: string
  wpGoalSummary :: string
  wpStatus :: string
  wpOwnerAgent :: string
  wpCreatedByRunID :: string
  wpTraceID :: string
  wpCurrentTaskID :: string
  wpResumeSummary :: string
  wpOutcome :: string
  wpIsolationMode :: string
  wpParallelGroupRef :: string
  wpWorkspaceRef :: string
  wpGitBaseRef :: string
  wpGitBranchRef :: string
  wpGitWorktreeRef :: string
  wpCreatedAt :: time
  wpUpdatedAt :: time

record WorkTask =
  wtID :: string
  wtProjectID :: string
  wtPlanID :: string
  wtTaskRef :: string
  wtTitle :: string
  wtDescription :: string
  wtStatus :: string
  wtOwnerAgent :: string
  wtClaimedByRunID :: string
  wtTraceID :: string
  wtEvidenceNeeded :: "string list"
  wtContextPackRefs :: "string list"
  wtFilesToRead :: "string list"
  wtFilesToEdit :: "string list"
  wtLikelyFilesAffected :: "string list"
  wtDependencyTaskIDs :: "string list"
  wtVerificationRequirement :: string
  wtExpectedOutput :: string
  wtFailureCriteria :: string
  wtReviewGate :: string
  wtOutcome :: string
  wtResumeInstructions :: string
  wtBlockedReason :: string
  wtBlockedByTaskIDs :: "string list"
  wtKnowledgeCandidateRefs :: "string list"
  wtEvidenceRefs :: "string list"
  wtClaimRefs :: "string list"
  wtVerifierResultRefs :: "string list"
  wtReviewResultRefs :: "string list"
  wtReviewExemptReason :: string
  wtArtifactRefs :: "string list"
  wtAgentRunIDs :: "string list"
  wtDecompositionQuality :: string
  wtCreatedAt :: time
  wtUpdatedAt :: time
  wtClaimedAt :: time
  wtStartedAt :: time
  wtCompletedAt :: time

record Attachment =
  atID :: string
  atProjectID :: string
  atPlanID :: string
  atTaskID :: string
  atKind :: string
  atRef :: string
  atAttachedByRunID :: string
  atTraceID :: string
  atNote :: string
  atCreatedAt :: time

record CreateWorkPlanInput =
  cpProjectID :: string
  cpPlanRef :: string
  cpUserRequestRef :: string
  cpTitle :: string
  cpGoalSummary :: string
  cpOwnerAgent :: string
  cpCreatedByRunID :: string
  cpTraceID :: string
  cpResumeSummary :: string
  cpIsolationMode :: string
  cpParallelGroupRef :: string
  cpWorkspaceRef :: string
  cpGitBaseRef :: string
  cpGitBranchRef :: string
  cpGitWorktreeRef :: string

record WorkPlanFilter =
  pfProjectID :: string
  pfStatus :: string
  pfOwnerAgent :: string
  pfPageSize :: int
  pfPageToken :: string

record UpdateWorkPlanStatusInput =
  upProjectID :: string
  upPlanID :: string
  upStatus :: string
  upSafeNextAction :: string
  upResumeSummary :: string
  upOutcome :: string
  upCurrentTaskID :: string
  upRunID :: string
  upTraceID :: string

record ResumeWorkPlanInput =
  rpProjectID :: string
  rpPlanID :: string

record CreateWorkTaskInput =
  ctProjectID :: string
  ctPlanID :: string
  ctTaskRef :: string
  ctTitle :: string
  ctDescription :: string
  ctStatus :: string
  ctOwnerAgent :: string
  ctRunID :: string
  ctTraceID :: string
  ctEvidenceNeeded :: "string list"
  ctContextPackRefs :: "string list"
  ctFilesToRead :: "string list"
  ctFilesToEdit :: "string list"
  ctLikelyFilesAffected :: "string list"
  ctDependencyTaskIDs :: "string list"
  ctVerificationRequirement :: string
  ctExpectedOutput :: string
  ctFailureCriteria :: string
  ctReviewGate :: string
  ctResumeInstructions :: string
  ctKnowledgeCandidateRefs :: "string list"
  ctDecompositionQuality :: string

record WorkTaskFilter =
  tfProjectID :: string
  tfPlanID :: string
  tfStatus :: string
  tfOwnerAgent :: string
  tfClaimedByRunID :: string
  tfPageSize :: int
  tfPageToken :: string

record WorkTaskActionInput =
  taProjectID :: string
  taTaskID :: string
  taOwnerAgent :: string
  taRunID :: string
  taTraceID :: string
  taOutcome :: string
  taSafeNextAction :: string
  taBlockedReason :: string
  taBlockedByTaskIDs :: "string list"
  taContextPackRefs :: "string list"
  taEvidenceRefs :: "string list"
  taClaimRefs :: "string list"
  taKnowledgeRefs :: "string list"
  taResumeInstructions :: string
  taVerifierResultRefs :: "string list"
  taReviewResultRefs :: "string list"
  taReviewExemptReason :: string

record UpdateWorkTaskStatusInput = WorkTaskActionInput +
  utStatus :: string

record ExpandWorkTaskScopeInput =
  exProjectID :: string
  exTaskID :: string
  exFilesToEdit :: "string list"
  exResumeInstructions :: string
  exRunID :: string
  exTraceID :: string

record GetNextWorkTaskInput =
  gnProjectID :: string
  gnPlanID :: string
  gnOwnerAgent :: string
  gnRunID :: string
  gnTraceID :: string
  gnIncludeClaimedByMe :: bool

record DependencySummary =
  dsTaskID :: string
  dsStatus :: string
  dsReady :: bool

record GetNextWorkTaskResult =
  grFound :: bool
  grTask :: WorkTask
  grPlan :: WorkPlan
  grDependencySummary :: "DependencySummary list"
  grEvidenceRefs :: "string list"
  grContextPackRefs :: "string list"
  grResumeInstructions :: string
  grRequiredVerification :: string
  grSafeReason :: string
  grOpenCount :: int
  grBlockedCount :: int
  grClaimedCount :: int
  grReason :: string

record AttachInput =
  aiProjectID :: string
  aiTaskID :: string
  aiRef :: string
  aiAttachedByRunID :: string
  aiTraceID :: string
  aiNote :: string

text \<open>\<open>WorkPlan{}\<close> and \<open>WorkTask{}\<close>\<close>

definition zeroPlan :: WorkPlan where
  "zeroPlan =
    \<lparr>wpID = [], wpProjectID = [], wpPlanRef = [], wpUserRequestRef = [], wpTitle = [],
     wpGoalSummary = [], wpStatus = [], wpOwnerAgent = [], wpCreatedByRunID = [], wpTraceID = [],
     wpCurrentTaskID = [], wpResumeSummary = [], wpOutcome = [], wpIsolationMode = [],
     wpParallelGroupRef = [], wpWorkspaceRef = [], wpGitBaseRef = [], wpGitBranchRef = [],
     wpGitWorktreeRef = [], wpCreatedAt = zeroTime, wpUpdatedAt = zeroTime\<rparr>"

definition zeroTask :: WorkTask where
  "zeroTask =
    \<lparr>wtID = [], wtProjectID = [], wtPlanID = [], wtTaskRef = [], wtTitle = [], wtDescription = [],
     wtStatus = [], wtOwnerAgent = [], wtClaimedByRunID = [], wtTraceID = [], wtEvidenceNeeded = [],
     wtContextPackRefs = [], wtFilesToRead = [], wtFilesToEdit = [], wtLikelyFilesAffected = [],
     wtDependencyTaskIDs = [], wtVerificationRequirement = [], wtExpectedOutput = [],
     wtFailureCriteria = [], wtReviewGate = [], wtOutcome = [], wtResumeInstructions = [],
     wtBlockedReason = [], wtBlockedByTaskIDs = [], wtKnowledgeCandidateRefs = [],
     wtEvidenceRefs = [], wtClaimRefs = [], wtVerifierResultRefs = [], wtReviewResultRefs = [],
     wtReviewExemptReason = [], wtArtifactRefs = [], wtAgentRunIDs = [], wtDecompositionQuality = [],
     wtCreatedAt = zeroTime, wtUpdatedAt = zeroTime, wtClaimedAt = zeroTime,
     wtStartedAt = zeroTime, wtCompletedAt = zeroTime\<rparr>"

end
