(* ===== verification/Store_Interface.thy ===== *)
theory Store_Interface
  imports Go_Strings
begin

section \<open>The interface between the services and their stores\<close>

text \<open>
  Every service of the program keeps its objects behind a \<open>Store\<close> interface: objects are
  found under a key, written back whole, and created under a reference that no other object
  may have. The locales state this contract once; each component interprets them on its own
  memory store and takes the consequences from there.
\<close>

subsection \<open>Facts about all stored objects\<close>

definition allVals :: "('s \<Rightarrow> 'k \<Rightarrow> 'v option) \<Rightarrow> ('v \<Rightarrow> bool) \<Rightarrow> 's \<Rightarrow> bool" where
  "allVals get P s \<longleftrightarrow> (\<forall>k v. get s k = Some v \<longrightarrow> P v)"

definition keyed :: "('s \<Rightarrow> 'k \<Rightarrow> 'v option) \<Rightarrow> ('v \<Rightarrow> 'k) \<Rightarrow> 's \<Rightarrow> bool" where
  "keyed get keyOf s \<longleftrightarrow> (\<forall>k v. get s k = Some v \<longrightarrow> keyOf v = k)"

definition injRefs :: "('s \<Rightarrow> 'k \<Rightarrow> 'v option) \<Rightarrow> ('v \<Rightarrow> 'r) \<Rightarrow> 's \<Rightarrow> bool" where
  "injRefs get refOf s \<longleftrightarrow>
     (\<forall>k k' v v'. get s k = Some v \<longrightarrow> get s k' = Some v' \<longrightarrow> refOf v = refOf v' \<longrightarrow> k = k')"

definition indexed :: "('s \<Rightarrow> 'k \<Rightarrow> 'v option) \<Rightarrow> ('s \<Rightarrow> 'r \<Rightarrow> bool) \<Rightarrow> ('v \<Rightarrow> 'r) \<Rightarrow> 's \<Rightarrow> bool" where
  "indexed get ref refOf s \<longleftrightarrow> (\<forall>k v. get s k = Some v \<longrightarrow> ref s (refOf v))"

lemma allValsD: "allVals get P s \<Longrightarrow> get s k = Some v \<Longrightarrow> P v"
  by (auto simp: allVals_def)

lemma keyedD: "keyed get keyOf s \<Longrightarrow> get s k = Some v \<Longrightarrow> keyOf v = k"
  by (auto simp: keyed_def)

lemma injRefsD:
  "injRefs get refOf s \<Longrightarrow> get s k = Some v \<Longrightarrow> get s k' = Some v' \<Longrightarrow> refOf v = refOf v' \<Longrightarrow> k = k'"
  by (simp add: injRefs_def)

lemma allVals_mono: "allVals get P s \<Longrightarrow> (\<And>v. P v \<Longrightarrow> Q v) \<Longrightarrow> allVals get Q s"
  by (auto simp: allVals_def)

subsection \<open>Objects under a key\<close>

locale keyed_store =
  fixes get :: "'s \<Rightarrow> 'k \<Rightarrow> 'v option"
    and put :: "'s \<Rightarrow> 'v \<Rightarrow> 's"
    and keyOf :: "'v \<Rightarrow> 'k"
  assumes get_put: "get (put s v) k = (if k = keyOf v then Some v else get s k)"
begin

lemma get_put_same: "get (put s v) (keyOf v) = Some v"
  by (simp add: get_put)

lemma get_put_other: "k \<noteq> keyOf v \<Longrightarrow> get (put s v) k = get s k"
  by (simp add: get_put)

lemma put_put_same: "keyOf v = keyOf w \<Longrightarrow> get (put (put s v) w) = get (put s w)"
  by (auto simp: get_put fun_eq_iff)

lemma put_put_other: "keyOf v \<noteq> keyOf w \<Longrightarrow> get (put (put s v) w) = get (put (put s w) v)"
  by (auto simp: get_put fun_eq_iff)

lemma allVals_put: "allVals get P s \<Longrightarrow> P v \<Longrightarrow> allVals get P (put s v)"
  by (auto simp: allVals_def get_put)

lemma keyed_put: "keyed get keyOf s \<Longrightarrow> keyed get keyOf (put s v)"
  by (auto simp: keyed_def get_put)

lemma get_put_cases:
  assumes "get (put s v) k = Some w"
  obtains (new) "k = keyOf v" "w = v" | (old) "k \<noteq> keyOf v" "get s k = Some w"
  using assms by (auto simp: get_put split: if_splits)

end

subsection \<open>Objects that also have a reference of their own\<close>

locale indexed_store = keyed_store get put keyOf
  for get :: "'s \<Rightarrow> 'k \<Rightarrow> 'v option" and put :: "'s \<Rightarrow> 'v \<Rightarrow> 's" and keyOf :: "'v \<Rightarrow> 'k" +
  fixes ref :: "'s \<Rightarrow> 'r \<Rightarrow> bool"
    and add :: "'s \<Rightarrow> 'v \<Rightarrow> 's"
    and refOf :: "'v \<Rightarrow> 'r"
  assumes get_add: "get (add s v) k = (if k = keyOf v then Some v else get s k)"
    and ref_add: "ref (add s v) r \<longleftrightarrow> r = refOf v \<or> ref s r"
    and ref_put: "ref (put s v) r \<longleftrightarrow> ref s r"
begin

sublocale adding: keyed_store get add keyOf
  by unfold_locales (rule get_add)

lemma indexed_add: "indexed get ref refOf s \<Longrightarrow> indexed get ref refOf (add s v)"
  by (auto simp: indexed_def get_add ref_add)

lemma indexed_put:
  assumes "indexed get ref refOf s" and "get s (keyOf v) = Some w" and "refOf v = refOf w"
  shows "indexed get ref refOf (put s v)"
  using assms by (auto simp: indexed_def get_put ref_put)

text \<open>A reference names one object, because a creation is refused when it is in use.\<close>

lemma injRefs_add:
  assumes "injRefs get refOf s" and "indexed get ref refOf s" and "\<not> ref s (refOf v)"
  shows "injRefs get refOf (add s v)"
  using assms by (fastforce simp: injRefs_def indexed_def get_add)

lemma injRefs_put:
  assumes "injRefs get refOf s" and "get s (keyOf v) = Some w" and "refOf v = refOf w"
  shows "injRefs get refOf (put s v)"
  unfolding injRefs_def
proof (intro allI impI)
  fix k k' a b
  assume a: "get (put s v) k = Some a" and b: "get (put s v) k' = Some b" and "refOf a = refOf b"
  have "\<exists>a'. get s k = Some a' \<and> refOf a' = refOf a"
    using a assms(2,3) by (auto simp: get_put split: if_splits)
  moreover have "\<exists>b'. get s k' = Some b' \<and> refOf b' = refOf b"
    using b assms(2,3) by (auto simp: get_put split: if_splits)
  ultimately show "k = k'"
    using injRefsD [OF assms(1)] \<open>refOf a = refOf b\<close> by metis
qed

lemma ref_add_mono: "ref s r \<Longrightarrow> ref (add s v) r"
  by (simp add: ref_add)

end

subsection \<open>Records that only grow\<close>

text \<open>
  A record collects items; an item is checked against the record as it was read (\<open>ok\<close>) and
  added later, when other items may have arrived. Because a check that passed keeps passing
  as the record grows, the items of a record satisfy their checks against the whole record.
\<close>

locale growing_record =
  fixes ext :: "'r \<Rightarrow> 'r \<Rightarrow> bool"
    and addItem :: "'r \<Rightarrow> 'i \<Rightarrow> 'r"
    and itemsOf :: "'r \<Rightarrow> 'i set"
    and ok :: "'r \<Rightarrow> 'i \<Rightarrow> bool"
  assumes ext_refl: "ext r r"
    and ext_trans: "ext r r' \<Longrightarrow> ext r' r'' \<Longrightarrow> ext r r''"
    and ext_add: "ext r (addItem r i)"
    and ok_mono: "ext r r' \<Longrightarrow> ok r i \<Longrightarrow> ok r' i"
    and items_add: "itemsOf (addItem r i) \<subseteq> insert i (itemsOf r)"
begin

lemma ok_later: "ok r i \<Longrightarrow> ok (addItem r j) i"
  using ext_add ok_mono by blast

lemma all_ok_add:
  assumes "\<forall>i \<in> itemsOf r. ok r i" and "ok r j"
  shows "\<forall>i \<in> itemsOf (addItem r j). ok (addItem r j) i"
  using assms items_add ok_later by blast

text \<open>An item checked against an earlier version can be added to the current one.\<close>

lemma all_ok_add_later:
  assumes "\<forall>i \<in> itemsOf r'. ok r' i" and "ok r j" and "ext r r'"
  shows "\<forall>i \<in> itemsOf (addItem r' j). ok (addItem r' j) i"
  using all_ok_add [OF assms(1) ok_mono [OF assms(3,2)]] .

lemma ext_addAll: "ext r (foldl addItem r is)"
  by (induction "is" arbitrary: r) (auto intro: ext_refl ext_trans ext_add)

end

subsection \<open>Composite keys\<close>

text \<open>
  The stores join the parts of a key with the byte 0. Parts without that byte can be told
  apart again, so the string keys stand for tuples.
\<close>

definition nul :: string where
  "nul = [CHR 0x00]"

definition joinKey :: "string \<Rightarrow> string \<Rightarrow> string" where
  "joinKey a b = a @ nul @ b"

lemma joinKey_inj [key_simps]:
  "CHR 0x00 \<notin> set a \<Longrightarrow> CHR 0x00 \<notin> set a' \<Longrightarrow> joinKey a b = joinKey a' b' \<longleftrightarrow> a = a' \<and> b = b'"
proof (induction a arbitrary: a')
  case Nil
  then show ?case by (cases a') (auto simp: joinKey_def nul_def)
next
  case (Cons c a)
  then show ?case by (cases a') (auto simp: joinKey_def nul_def)
qed

end
