(* ===== verification/WorkPlan_Store.thy ===== *)
theory WorkPlan_Store
  imports WorkPlan_Model Store_Interface
begin

section \<open>Work plans: the memory store\<close>

text \<open>
  \<open>internal/projectworkplan/store/memory.go\<close>. A method of \<open>MemoryStore\<close> takes and returns the
  store; its mutex makes each method one step. \<open>cloneTask\<close> only detaches the slices of a task
  from the caller's, which values do not share anyway. A table is a Go map, and the list
  methods collect its values and sort them.
\<close>

record WorkPlanStore =
  plans :: "(string, WorkPlan) table"
  planRefs :: "(string, string) table"
  tasks :: "(string, WorkTask) table"
  taskRefs :: "(string, string) table"
  attachments :: "(string, Attachment list) table"

definition newMemoryStore :: WorkPlanStore where
  "newMemoryStore = \<lparr>plans = [], planRefs = [], tasks = [], taskRefs = [], attachments = []\<rparr>"

subsection \<open>Keys\<close>

definition planKey :: "string \<Rightarrow> string \<Rightarrow> string" where
  "planKey projectID planID = joinKey projectID planID"

definition planRefKey :: "string \<Rightarrow> string \<Rightarrow> string" where
  "planRefKey projectID planRef = joinKey projectID planRef"

definition taskKey :: "string \<Rightarrow> string \<Rightarrow> string" where
  "taskKey projectID taskID = joinKey projectID taskID"

definition taskRefKey :: "string \<Rightarrow> string \<Rightarrow> string \<Rightarrow> string" where
  "taskRefKey projectID planID taskRef = joinKey projectID (joinKey planID taskRef)"

subsection \<open>Methods\<close>

definition memCreateWorkPlan :: "WorkPlanStore \<Rightarrow> WorkPlan \<Rightarrow> WorkPlan res \<times> WorkPlanStore" where
  "memCreateWorkPlan st plan =
     (if thas (planRefs st) (planRefKey (wpProjectID plan) (wpPlanRef plan)) then (Inl ErrDuplicate, st)
      else (Inr plan,
        st\<lparr>plans := tput (plans st) (planKey (wpProjectID plan) (wpID plan)) plan,
           planRefs := tput (planRefs st) (planRefKey (wpProjectID plan) (wpPlanRef plan)) (wpID plan)\<rparr>))"

definition memGetWorkPlan :: "WorkPlanStore \<Rightarrow> string \<Rightarrow> string \<Rightarrow> WorkPlan res" where
  "memGetWorkPlan st projectID planID =
     (case tget (plans st) (planKey projectID planID) of
        None \<Rightarrow> Inl ErrNotFound | Some plan \<Rightarrow> Inr plan)"

definition keepPlan :: "WorkPlanFilter \<Rightarrow> WorkPlan \<Rightarrow> bool" where
  "keepPlan flt plan =
     (wpProjectID plan = pfProjectID flt
      \<and> (pfStatus flt = [] \<or> wpStatus plan = pfStatus flt)
      \<and> (pfOwnerAgent flt = [] \<or> wpOwnerAgent plan = pfOwnerAgent flt))"

definition planLess :: "WorkPlan \<Rightarrow> WorkPlan \<Rightarrow> bool" where
  "planLess a b =
     (if wpCreatedAt a = wpCreatedAt b then wpPlanRef a < wpPlanRef b else wpCreatedAt a < wpCreatedAt b)"

definition memListWorkPlans :: "WorkPlanStore \<Rightarrow> WorkPlanFilter \<Rightarrow> WorkPlan list" where
  "memListWorkPlans st flt = sortBy planLess (filter (keepPlan flt) (tvals (plans st)))"

definition memUpdateWorkPlan :: "WorkPlanStore \<Rightarrow> WorkPlan \<Rightarrow> WorkPlan res \<times> WorkPlanStore" where
  "memUpdateWorkPlan st plan =
     (let key = planKey (wpProjectID plan) (wpID plan)
      in if \<not> thas (plans st) key then (Inl ErrNotFound, st)
         else (Inr plan, st\<lparr>plans := tput (plans st) key plan\<rparr>))"

definition memCreateWorkTask :: "WorkPlanStore \<Rightarrow> WorkTask \<Rightarrow> WorkTask res \<times> WorkPlanStore" where
  "memCreateWorkTask st task =
     (if \<not> thas (plans st) (planKey (wtProjectID task) (wtPlanID task)) then (Inl ErrNotFound, st)
      else if thas (taskRefs st) (taskRefKey (wtProjectID task) (wtPlanID task) (wtTaskRef task))
      then (Inl ErrDuplicate, st)
      else (Inr task,
        st\<lparr>tasks := tput (tasks st) (taskKey (wtProjectID task) (wtID task)) task,
           taskRefs := tput (taskRefs st)
             (taskRefKey (wtProjectID task) (wtPlanID task) (wtTaskRef task)) (wtID task)\<rparr>))"

definition memGetWorkTask :: "WorkPlanStore \<Rightarrow> string \<Rightarrow> string \<Rightarrow> WorkTask res" where
  "memGetWorkTask st projectID taskID =
     (case tget (tasks st) (taskKey projectID taskID) of
        None \<Rightarrow> Inl ErrNotFound | Some task \<Rightarrow> Inr task)"

definition keepTask :: "WorkTaskFilter \<Rightarrow> WorkTask \<Rightarrow> bool" where
  "keepTask flt task =
     (wtProjectID task = tfProjectID flt
      \<and> (tfPlanID flt = [] \<or> wtPlanID task = tfPlanID flt)
      \<and> (tfStatus flt = [] \<or> wtStatus task = tfStatus flt)
      \<and> (tfOwnerAgent flt = [] \<or> wtOwnerAgent task = tfOwnerAgent flt)
      \<and> (tfClaimedByRunID flt = [] \<or> wtClaimedByRunID task = tfClaimedByRunID flt))"

definition taskLess :: "WorkTask \<Rightarrow> WorkTask \<Rightarrow> bool" where
  "taskLess a b =
     (if wtCreatedAt a = wtCreatedAt b then wtTaskRef a < wtTaskRef b else wtCreatedAt a < wtCreatedAt b)"

definition memListWorkTasks :: "WorkPlanStore \<Rightarrow> WorkTaskFilter \<Rightarrow> WorkTask list" where
  "memListWorkTasks st flt = sortBy taskLess (filter (keepTask flt) (tvals (tasks st)))"

definition memUpdateWorkTask :: "WorkPlanStore \<Rightarrow> WorkTask \<Rightarrow> WorkTask res \<times> WorkPlanStore" where
  "memUpdateWorkTask st task =
     (let key = taskKey (wtProjectID task) (wtID task)
      in if \<not> thas (tasks st) key then (Inl ErrNotFound, st)
         else (Inr task, st\<lparr>tasks := tput (tasks st) key task\<rparr>))"

definition attachmentsOf :: "WorkPlanStore \<Rightarrow> string \<Rightarrow> Attachment list" where
  "attachmentsOf st key = (case tget (attachments st) key of None \<Rightarrow> [] | Some as \<Rightarrow> as)"

definition memCreateAttachment :: "WorkPlanStore \<Rightarrow> Attachment \<Rightarrow> Attachment res \<times> WorkPlanStore" where
  "memCreateAttachment st a =
     (let key = taskKey (atProjectID a) (atTaskID a)
      in case tget (tasks st) key of
           None \<Rightarrow> (Inl ErrNotFound, st)
         | Some task \<Rightarrow>
             if wtPlanID task \<noteq> atPlanID a then (Inl ErrNotFound, st)
             else (Inr a, st\<lparr>attachments := tput (attachments st) key (attachmentsOf st key @ [a])\<rparr>))"

definition attachmentLess :: "Attachment \<Rightarrow> Attachment \<Rightarrow> bool" where
  "attachmentLess a b =
     (if atCreatedAt a = atCreatedAt b then atID a < atID b else atCreatedAt a < atCreatedAt b)"

definition memListAttachments :: "WorkPlanStore \<Rightarrow> string \<Rightarrow> string \<Rightarrow> Attachment list res" where
  "memListAttachments st projectID taskID =
     (if \<not> thas (tasks st) (taskKey projectID taskID) then Inl ErrNotFound
      else Inr (sortBy attachmentLess (attachmentsOf st (taskKey projectID taskID))))"

subsection \<open>The store as an indexed store of plans and of tasks\<close>

definition getPlan :: "WorkPlanStore \<Rightarrow> string \<Rightarrow> WorkPlan option" where
  "getPlan st = tget (plans st)"

definition putPlan :: "WorkPlanStore \<Rightarrow> WorkPlan \<Rightarrow> WorkPlanStore" where
  "putPlan st plan = st\<lparr>plans := tput (plans st) (planKey (wpProjectID plan) (wpID plan)) plan\<rparr>"

definition planKeyOf :: "WorkPlan \<Rightarrow> string" where
  "planKeyOf plan = planKey (wpProjectID plan) (wpID plan)"

definition planRefOf :: "WorkPlan \<Rightarrow> string" where
  "planRefOf plan = planRefKey (wpProjectID plan) (wpPlanRef plan)"

definition hasPlanRef :: "WorkPlanStore \<Rightarrow> string \<Rightarrow> bool" where
  "hasPlanRef st = thas (planRefs st)"

definition addPlan :: "WorkPlanStore \<Rightarrow> WorkPlan \<Rightarrow> WorkPlanStore" where
  "addPlan st plan =
     st\<lparr>plans := tput (plans st) (planKeyOf plan) plan,
        planRefs := tput (planRefs st) (planRefOf plan) (wpID plan)\<rparr>"

definition getTask :: "WorkPlanStore \<Rightarrow> string \<Rightarrow> WorkTask option" where
  "getTask st = tget (tasks st)"

definition putTask :: "WorkPlanStore \<Rightarrow> WorkTask \<Rightarrow> WorkPlanStore" where
  "putTask st task = st\<lparr>tasks := tput (tasks st) (taskKey (wtProjectID task) (wtID task)) task\<rparr>"

definition taskKeyOf :: "WorkTask \<Rightarrow> string" where
  "taskKeyOf task = taskKey (wtProjectID task) (wtID task)"

definition taskRefOf :: "WorkTask \<Rightarrow> string" where
  "taskRefOf task = taskRefKey (wtProjectID task) (wtPlanID task) (wtTaskRef task)"

definition hasTaskRef :: "WorkPlanStore \<Rightarrow> string \<Rightarrow> bool" where
  "hasTaskRef st = thas (taskRefs st)"

definition addTask :: "WorkPlanStore \<Rightarrow> WorkTask \<Rightarrow> WorkPlanStore" where
  "addTask st task =
     st\<lparr>tasks := tput (tasks st) (taskKeyOf task) task,
        taskRefs := tput (taskRefs st) (taskRefOf task) (wtID task)\<rparr>"

definition addAttachment :: "WorkPlanStore \<Rightarrow> Attachment \<Rightarrow> WorkPlanStore" where
  "addAttachment st a =
     (let key = taskKey (atProjectID a) (atTaskID a)
      in st\<lparr>attachments := tput (attachments st) key (attachmentsOf st key @ [a])\<rparr>)"

interpretation planStore: indexed_store getPlan putPlan planKeyOf hasPlanRef addPlan planRefOf
  by unfold_locales
    (auto simp: getPlan_def putPlan_def planKeyOf_def hasPlanRef_def addPlan_def store_simps)

interpretation taskStore: indexed_store getTask putTask taskKeyOf hasTaskRef addTask taskRefOf
  by unfold_locales
    (auto simp: getTask_def putTask_def taskKeyOf_def hasTaskRef_def addTask_def store_simps)

text \<open>A write of one kind of object leaves the other kinds alone.\<close>

lemma cross_frames [simp]:
  "getPlan (putTask st t) = getPlan st" "getPlan (addTask st t) = getPlan st"
  "getPlan (addAttachment st a) = getPlan st" "getTask (putPlan st p) = getTask st"
  "getTask (addPlan st p) = getTask st" "getTask (addAttachment st a) = getTask st"
  "hasPlanRef (putTask st t) = hasPlanRef st" "hasPlanRef (addTask st t) = hasPlanRef st"
  "hasPlanRef (addAttachment st a) = hasPlanRef st" "hasTaskRef (putPlan st p) = hasTaskRef st"
  "hasTaskRef (addPlan st p) = hasTaskRef st" "hasTaskRef (addAttachment st a) = hasTaskRef st"
  "attachmentsOf (putTask st t) = attachmentsOf st" "attachmentsOf (addTask st t) = attachmentsOf st"
  "attachmentsOf (putPlan st p) = attachmentsOf st" "attachmentsOf (addPlan st p) = attachmentsOf st"
  by (auto simp: getPlan_def putTask_def addTask_def addAttachment_def getTask_def putPlan_def
      addPlan_def hasPlanRef_def hasTaskRef_def attachmentsOf_def Let_def fun_eq_iff)

lemma attachmentsOf_add:
  "attachmentsOf (addAttachment st a) k =
     (if k = taskKey (atProjectID a) (atTaskID a) then attachmentsOf st k @ [a] else attachmentsOf st k)"
  by (auto simp: attachmentsOf_def addAttachment_def Let_def store_simps)

subsection \<open>What the methods do, in these terms\<close>

lemma memCreateWorkPlan_eq:
  "memCreateWorkPlan st plan =
     (if hasPlanRef st (planRefOf plan) then (Inl ErrDuplicate, st) else (Inr plan, addPlan st plan))"
  by (simp add: memCreateWorkPlan_def hasPlanRef_def planRefOf_def addPlan_def planKeyOf_def)

lemma memUpdateWorkPlan_eq:
  "memUpdateWorkPlan st plan =
     (if getPlan st (planKeyOf plan) = None then (Inl ErrNotFound, st) else (Inr plan, putPlan st plan))"
  by (simp add: memUpdateWorkPlan_def getPlan_def planKeyOf_def putPlan_def thas_def Let_def)

lemma memCreateWorkTask_eq:
  "memCreateWorkTask st task =
     (if getPlan st (planKey (wtProjectID task) (wtPlanID task)) = None then (Inl ErrNotFound, st)
      else if hasTaskRef st (taskRefOf task) then (Inl ErrDuplicate, st)
      else (Inr task, addTask st task))"
  by (simp add: memCreateWorkTask_def getPlan_def hasTaskRef_def taskRefOf_def addTask_def taskKeyOf_def
      thas_def)

lemma memUpdateWorkTask_eq:
  "memUpdateWorkTask st task =
     (if getTask st (taskKeyOf task) = None then (Inl ErrNotFound, st) else (Inr task, putTask st task))"
  by (simp add: memUpdateWorkTask_def getTask_def taskKeyOf_def putTask_def thas_def Let_def)

lemma memGetWorkPlan_Inr: "memGetWorkPlan st p i = Inr plan \<longleftrightarrow> getPlan st (planKey p i) = Some plan"
  by (auto simp: memGetWorkPlan_def getPlan_def split: option.splits)

lemma memGetWorkTask_Inr: "memGetWorkTask st p i = Inr task \<longleftrightarrow> getTask st (taskKey p i) = Some task"
  by (auto simp: memGetWorkTask_def getTask_def split: option.splits)

lemma memCreateAttachment_eq:
  "memCreateAttachment st a =
     (case getTask st (taskKey (atProjectID a) (atTaskID a)) of
        None \<Rightarrow> (Inl ErrNotFound, st)
      | Some task \<Rightarrow> if wtPlanID task \<noteq> atPlanID a then (Inl ErrNotFound, st)
                     else (Inr a, addAttachment st a))"
  by (simp add: memCreateAttachment_def getTask_def addAttachment_def Let_def split: option.split)

lemmas mem_eqs = memCreateWorkPlan_eq memUpdateWorkPlan_eq memCreateWorkTask_eq memUpdateWorkTask_eq
  memCreateAttachment_eq

lemma set_memListWorkTasks:
  "twf (tasks st) \<Longrightarrow>
   t \<in> set (memListWorkTasks st flt) \<longleftrightarrow> (\<exists>k. getTask st k = Some t) \<and> keepTask flt t"
  by (auto simp: memListWorkTasks_def tvals_tget getTask_def)

lemma set_memListWorkPlans:
  "twf (plans st) \<Longrightarrow>
   p \<in> set (memListWorkPlans st flt) \<longleftrightarrow> (\<exists>k. getPlan st k = Some p) \<and> keepPlan flt p"
  by (auto simp: memListWorkPlans_def tvals_tget getPlan_def)

lemma sorted_memListWorkTasks:
  "sorted (map (\<lambda>t. (wtCreatedAt t, wtTaskRef t)) (memListWorkTasks st flt))"
  unfolding memListWorkTasks_def
  by (rule sorted_sortBy_key) (auto simp: taskLess_def)

lemma sorted_memListWorkPlans:
  "sorted (map (\<lambda>p. (wpCreatedAt p, wpPlanRef p)) (memListWorkPlans st flt))"
  unfolding memListWorkPlans_def
  by (rule sorted_sortBy_key) (auto simp: planLess_def)

lemma twf_put [simp]:
  "twf (plans st) \<Longrightarrow> twf (plans (putPlan st p))"
  "twf (plans st) \<Longrightarrow> twf (plans (addPlan st p))"
  "twf (tasks st) \<Longrightarrow> twf (tasks (addTask st t))"
  "twf (tasks st) \<Longrightarrow> twf (tasks (putTask st t))"
  by (simp_all add: putTask_def putPlan_def addPlan_def addTask_def twf_tput)

lemma table_frames [simp]:
  "tasks (putPlan st p) = tasks st" "tasks (addPlan st p) = tasks st"
  "plans (putTask st t) = plans st" "plans (addTask st t) = plans st"
  "tasks (addAttachment st a) = tasks st" "plans (addAttachment st a) = plans st"
  by (simp_all add: putTask_def putPlan_def addPlan_def addTask_def addAttachment_def Let_def)

end
