(* ===== verification/WorkPlan_Service.thy ===== *)
theory WorkPlan_Service
  imports WorkPlan_Store
begin

section \<open>Work plans: the service\<close>

text \<open>
  \<open>internal/projectworkplan/service.go\<close>, method by method, over the memory store. A method
  takes the store, the time \<open>now\<close> its call of \<open>svc.now()\<close> returns, the identifier \<open>newID\<close>
  draws where it creates an object, and the input; it returns its value or error and the
  store. The service always has a store (\<open>New\<close>), so the \<open>svc.store == nil\<close> guards are not
  modelled. The status change handler is a callback over the store; when it fails, Go returns the
  updated plan beside the error, of which the model keeps the error, and the plan is in the store.
\<close>

subsection \<open>Statuses and transitions\<close>

definition isTerminalPlanStatus :: "string \<Rightarrow> bool" where
  "isTerminalPlanStatus status =
     (status = WorkPlanStatusDone \<or> status = WorkPlanStatusFailed
      \<or> status = WorkPlanStatusCancelled \<or> status = WorkPlanStatusSuperseded)"

definition isTerminalTaskStatus :: "string \<Rightarrow> bool" where
  "isTerminalTaskStatus status =
     (status = WorkTaskStatusDone \<or> status = WorkTaskStatusFailed
      \<or> status = WorkTaskStatusCancelled \<or> status = WorkTaskStatusSuperseded)"

definition releaseIsStale :: "string \<Rightarrow> bool" where
  "releaseIsStale status =
     (status \<in> {WorkTaskStatusVerifying, WorkTaskStatusDone, WorkTaskStatusFailed,
                WorkTaskStatusCancelled, WorkTaskStatusSuperseded})"

definition validateTransition ::
    "string \<Rightarrow> string \<Rightarrow> (string, string list) table \<Rightarrow> string \<Rightarrow> unit res" where
  "validateTransition from to allowed label =
     (let allowedNext = (case tget allowed from of None \<Rightarrow> [] | Some l \<Rightarrow> l);
          head = ''invalid '' @ label @ '' transition '' @ from @ '' -> '' @ to @ ''; ''
      in if to \<in> set allowedNext then Inr ()
         else if allowedNext = []
         then Inl (ErrInvalidInput (head @ ''no transitions are allowed from '' @ from))
         else Inl (ErrInvalidInput (head @ ''allowed from '' @ from @ '': '' @ joinWith '', '' allowedNext)))"

definition planTransitions :: "(string, string list) table" where
  "planTransitions =
    [(WorkPlanStatusPlanned, [WorkPlanStatusActive, WorkPlanStatusCancelled]),
     (WorkPlanStatusActive, [WorkPlanStatusBlocked, WorkPlanStatusNeedsReview, WorkPlanStatusDone,
        WorkPlanStatusFailed, WorkPlanStatusCancelled, WorkPlanStatusSuperseded]),
     (WorkPlanStatusBlocked, [WorkPlanStatusActive, WorkPlanStatusCancelled, WorkPlanStatusSuperseded]),
     (WorkPlanStatusNeedsReview, [WorkPlanStatusActive, WorkPlanStatusDone, WorkPlanStatusFailed,
        WorkPlanStatusCancelled]),
     (WorkPlanStatusDone, [WorkPlanStatusSuperseded]),
     (WorkPlanStatusFailed, [WorkPlanStatusSuperseded]),
     (WorkPlanStatusCancelled, [WorkPlanStatusSuperseded])]"

definition validatePlanTransition :: "string \<Rightarrow> string \<Rightarrow> unit res" where
  "validatePlanTransition from to =
     (if from = to then Inr () else validateTransition from to planTransitions ''work plan'')"

definition taskTransitions :: "(string, string list) table" where
  "taskTransitions =
    [(WorkTaskStatusPlanned, [WorkTaskStatusReady, WorkTaskStatusCancelled, WorkTaskStatusSuperseded]),
     (WorkTaskStatusReady, [WorkTaskStatusClaimed, WorkTaskStatusBlocked, WorkTaskStatusCancelled,
        WorkTaskStatusSuperseded]),
     (WorkTaskStatusClaimed, [WorkTaskStatusInProgress, WorkTaskStatusReady, WorkTaskStatusBlocked,
        WorkTaskStatusCancelled, WorkTaskStatusSuperseded]),
     (WorkTaskStatusInProgress, [WorkTaskStatusReady, WorkTaskStatusBlocked, WorkTaskStatusNeedsReview,
        WorkTaskStatusVerifying, WorkTaskStatusFailed, WorkTaskStatusCancelled, WorkTaskStatusSuperseded]),
     (WorkTaskStatusBlocked, [WorkTaskStatusReady, WorkTaskStatusCancelled, WorkTaskStatusSuperseded]),
     (WorkTaskStatusNeedsReview, [WorkTaskStatusReady, WorkTaskStatusVerifying, WorkTaskStatusDone,
        WorkTaskStatusFailed, WorkTaskStatusCancelled, WorkTaskStatusSuperseded]),
     (WorkTaskStatusVerifying, [WorkTaskStatusDone, WorkTaskStatusFailed, WorkTaskStatusBlocked,
        WorkTaskStatusCancelled, WorkTaskStatusSuperseded]),
     (WorkTaskStatusDone, [WorkTaskStatusSuperseded]),
     (WorkTaskStatusFailed, [WorkTaskStatusSuperseded]),
     (WorkTaskStatusCancelled, [WorkTaskStatusSuperseded])]"

definition validateTaskTransition :: "string \<Rightarrow> string \<Rightarrow> unit res" where
  "validateTaskTransition from to =
     (if from = to then Inr () else validateTransition from to taskTransitions ''work task'')"

definition safePlanStatus :: "string \<Rightarrow> string res" where
  "safePlanStatus status =
     (if trimSpace status \<in> set workPlanStatuses then Inr (trimSpace status)
      else Inl (ErrInvalidInput ''invalid work plan status''))"

definition safeTaskStatus :: "string \<Rightarrow> string res" where
  "safeTaskStatus status =
     (if trimSpace status \<in> set workTaskStatuses then Inr (trimSpace status)
      else Inl (ErrInvalidInput ''invalid work task status''))"

definition safeWorkPlanIsolationMode :: "string \<Rightarrow> string res" where
  "safeWorkPlanIsolationMode mode =
     (if trimSpace mode = [] \<or> trimSpace mode \<in> set workPlanIsolationModes then Inr (trimSpace mode)
      else Inl (ErrInvalidInput ''invalid isolation_mode''))"

definition safeDecompositionQuality :: "string \<Rightarrow> string res" where
  "safeDecompositionQuality quality =
     (if trimSpace quality \<in> set decompositionQualities then Inr (trimSpace quality)
      else Inl (ErrInvalidInput ''invalid decomposition_quality''))"

definition assessDecomposition ::
    "string list \<Rightarrow> string list \<Rightarrow> string list \<Rightarrow> string list \<Rightarrow> string \<Rightarrow> string \<Rightarrow> string \<Rightarrow> string \<Rightarrow> string" where
  "assessDecomposition evidence contextRefs files deps verify expected failure resume =
     (if evidence = [] then DecompositionMissingEvidence
      else if contextRefs = [] \<and> files = [] then DecompositionMissingContext
      else if trimSpace verify = [] then DecompositionMissingVerification
      else if trimSpace resume = [] then DecompositionMissingResume
      else if trimSpace expected = [] \<or> trimSpace failure = [] then DecompositionDraft
      else if length files > 8 then DecompositionTooBroad
      else DecompositionReady)"

subsection \<open>Plans\<close>

definition svcCreateWorkPlan ::
    "WorkPlanStore \<Rightarrow> time \<Rightarrow> string \<Rightarrow> CreateWorkPlanInput \<Rightarrow> WorkPlan res \<times> WorkPlanStore" where
  "svcCreateWorkPlan st now newID input =
     tryS (safeRef (cpProjectID input) ''project_id'') st (\<lambda>projectID.
     tryS (safeRef (cpPlanRef input) ''plan_ref'') st (\<lambda>planRef.
     tryS (safeOptionalRef (cpUserRequestRef input) ''user_request_ref'') st (\<lambda>userRequestRef.
     tryS (safeRequiredText (cpTitle input) ''title'' 200) st (\<lambda>title.
     tryS (safeRequiredText (cpGoalSummary input) ''goal_summary'' 500) st (\<lambda>goal.
     tryS (safeOptionalRef (cpOwnerAgent input) ''owner_agent'') st (\<lambda>owner.
     tryS (safeOptionalRef (cpCreatedByRunID input) ''created_by_run_id'') st (\<lambda>runID.
     tryS (safeOptionalRef (cpTraceID input) ''trace_id'') st (\<lambda>traceID.
     tryS (safeOptionalText (cpResumeSummary input) ''resume_summary'' 500) st (\<lambda>resume.
     tryS (safeWorkPlanIsolationMode (cpIsolationMode input)) st (\<lambda>isolationMode0.
     tryS (safeOptionalRef (cpParallelGroupRef input) ''parallel_group_ref'') st (\<lambda>parallelGroupRef.
     tryS (safeOptionalRef (cpWorkspaceRef input) ''workspace_ref'') st (\<lambda>workspaceRef.
     tryS (safeOptionalRef (cpGitBaseRef input) ''git_base_ref'') st (\<lambda>gitBaseRef.
     tryS (safeOptionalRef (cpGitBranchRef input) ''git_branch_ref'') st (\<lambda>gitBranchRef.
     tryS (safeOptionalRef (cpGitWorktreeRef input) ''git_worktree_ref'') st (\<lambda>gitWorktreeRef.
     let isolationMode =
           (if isolationMode0 = [] \<and> (gitWorktreeRef \<noteq> [] \<or> gitBranchRef \<noteq> [] \<or> workspaceRef \<noteq> [])
            then WorkPlanIsolationDedicatedWorktree else isolationMode0)
     in memCreateWorkPlan st
          \<lparr>wpID = newID, wpProjectID = projectID, wpPlanRef = planRef,
           wpUserRequestRef = userRequestRef, wpTitle = title, wpGoalSummary = goal,
           wpStatus = WorkPlanStatusPlanned, wpOwnerAgent = owner, wpCreatedByRunID = runID,
           wpTraceID = traceID, wpCurrentTaskID = [], wpResumeSummary = resume, wpOutcome = [],
           wpIsolationMode = isolationMode, wpParallelGroupRef = parallelGroupRef,
           wpWorkspaceRef = workspaceRef, wpGitBaseRef = gitBaseRef, wpGitBranchRef = gitBranchRef,
           wpGitWorktreeRef = gitWorktreeRef, wpCreatedAt = now, wpUpdatedAt = now\<rparr>)))))))))))))))"

definition svcGetWorkPlan :: "WorkPlanStore \<Rightarrow> string \<Rightarrow> string \<Rightarrow> WorkPlan res" where
  "svcGetWorkPlan st projectID0 planID0 =
     tryE (safeProjectObject projectID0 planID0 ''plan_id'') (\<lambda>(projectID, planID).
     memGetWorkPlan st projectID planID)"

definition svcResumeWorkPlan :: "WorkPlanStore \<Rightarrow> ResumeWorkPlanInput \<Rightarrow> WorkPlan res" where
  "svcResumeWorkPlan st input = svcGetWorkPlan st (rpProjectID input) (rpPlanID input)"

definition svcListWorkPlans :: "WorkPlanStore \<Rightarrow> WorkPlanFilter \<Rightarrow> WorkPlan list res" where
  "svcListWorkPlans st flt =
     tryE (safeRef (pfProjectID flt) ''project_id'') (\<lambda>projectID.
     tryE (setIf (pfStatus flt \<noteq> []) (safePlanStatus (pfStatus flt)) []) (\<lambda>_.
     tryE (setIf (pfOwnerAgent flt \<noteq> []) (safeOptionalRef (pfOwnerAgent flt) ''owner_agent'')
        (pfOwnerAgent flt)) (\<lambda>owner.
     Inr (memListWorkPlans st (flt\<lparr>pfProjectID := projectID, pfOwnerAgent := owner\<rparr>)))))"

record WorkPlanStatusChange =
  scProjectID :: string
  scPlanID :: string
  scPlanRef :: string
  scOldStatus :: string
  scNewStatus :: string
  scOwnerAgent :: string
  scChangedAt :: time

text \<open>\<open>HandleWorkPlanStatusChanged\<close> of the registered handler: an error or none, and the store.\<close>

type_synonym status_handler = "WorkPlanStatusChange \<Rightarrow> WorkPlanStore \<Rightarrow> error option \<times> WorkPlanStore"

definition updatePlanFields ::
    "WorkPlan \<Rightarrow> UpdateWorkPlanStatusInput \<Rightarrow> string \<Rightarrow> time \<Rightarrow> WorkPlan res" where
  "updatePlanFields plan input nxt now =
     tryE (setIf (upResumeSummary input \<noteq> [])
        (safeOptionalText (upResumeSummary input) ''resume_summary'' 500) (wpResumeSummary plan)) (\<lambda>resume.
     tryE (setIf (upOutcome input \<noteq> [])
        (safeOptionalText (upOutcome input) ''outcome'' 500) (wpOutcome plan)) (\<lambda>outcome.
     tryE (setIf (upCurrentTaskID input \<noteq> [])
        (safeOptionalRef (upCurrentTaskID input) ''current_task_id'') (wpCurrentTaskID plan)) (\<lambda>current.
     tryE (setIf (upSafeNextAction input \<noteq> [])
        (safeOptionalText (upSafeNextAction input) ''safe_next_action'' 500) []) (\<lambda>_.
     tryE (setIf (upRunID input \<noteq> []) (safeOptionalRef (upRunID input) ''run_id'') []) (\<lambda>_.
     tryE (setIf (upTraceID input \<noteq> [])
        (safeOptionalRef (upTraceID input) ''trace_id'') (wpTraceID plan)) (\<lambda>trace.
     Inr (plan\<lparr>wpResumeSummary := resume, wpOutcome := outcome, wpCurrentTaskID := current,
               wpTraceID := trace, wpStatus := nxt, wpUpdatedAt := now\<rparr>)))))))"

definition notifyStatusChange ::
    "status_handler option \<Rightarrow> string \<Rightarrow> WorkPlan \<Rightarrow> WorkPlanStore \<Rightarrow> WorkPlan res \<times> WorkPlanStore" where
  "notifyStatusChange handler oldStatus updated st =
     (case handler of
        None \<Rightarrow> (Inr updated, st)
      | Some h \<Rightarrow>
          if oldStatus \<noteq> wpStatus updated then
            (case h \<lparr>scProjectID = wpProjectID updated, scPlanID = wpID updated,
                     scPlanRef = wpPlanRef updated, scOldStatus = oldStatus,
                     scNewStatus = wpStatus updated, scOwnerAgent = wpOwnerAgent updated,
                     scChangedAt = wpUpdatedAt updated\<rparr> st of
               (Some e, st') \<Rightarrow> (Inl e, st')
             | (None, st') \<Rightarrow> (Inr updated, st'))
          else (Inr updated, st))"

definition svcUpdateWorkPlanStatus ::
    "status_handler option \<Rightarrow> WorkPlanStore \<Rightarrow> time \<Rightarrow> UpdateWorkPlanStatusInput
     \<Rightarrow> WorkPlan res \<times> WorkPlanStore" where
  "svcUpdateWorkPlanStatus handler st now input =
     tryS (safeProjectObject (upProjectID input) (upPlanID input) ''plan_id'') st (\<lambda>(projectID, planID).
     tryS (safePlanStatus (upStatus input)) st (\<lambda>nxt.
     tryS (memGetWorkPlan st projectID planID) st (\<lambda>plan.
     tryS (validatePlanTransition (wpStatus plan) nxt) st (\<lambda>_.
     tryS (updatePlanFields plan input nxt now) st (\<lambda>plan'.
     (case memUpdateWorkPlan st plan' of
        (Inl e, st') \<Rightarrow> (Inl e, st')
      | (Inr updated, st') \<Rightarrow> notifyStatusChange handler (wpStatus plan) updated st'))))))"

subsection \<open>Creating tasks\<close>

definition initialTaskStatus :: "CreateWorkTaskInput \<Rightarrow> string \<Rightarrow> string res" where
  "initialTaskStatus input quality =
     (if ctStatus input \<noteq> [] then
        tryE (safeTaskStatus (ctStatus input)) (\<lambda>status.
          if isTerminalTaskStatus status
          then Inl (ErrInvalidInput ''create task status cannot be terminal'') else Inr status)
      else Inr (if quality = DecompositionReady then WorkTaskStatusReady else WorkTaskStatusPlanned))"

definition buildTask where
  "buildTask now newID projectID planID taskRef title description owner runID traceID input =
     tryE (safeTextList (ctEvidenceNeeded input) ''evidence_needed'' 200) (\<lambda>evidence.
     tryE (safeRefList (ctContextPackRefs input) ''context_pack_refs'') (\<lambda>contextRefs.
     tryE (safePathList (ctFilesToRead input) ''files_to_read'') (\<lambda>filesToRead.
     tryE (safePathList (ctFilesToEdit input) ''files_to_edit'') (\<lambda>filesToEdit.
     tryE (safePathList (ctLikelyFilesAffected input) ''likely_files_affected'') (\<lambda>files.
     tryE (safeRefList (ctDependencyTaskIDs input) ''dependency_task_ids'') (\<lambda>deps.
     tryE (safeRequiredText (ctVerificationRequirement input) ''verification_requirement'' 500) (\<lambda>verify.
     tryE (safeOptionalText (ctExpectedOutput input) ''expected_output'' 500) (\<lambda>expected.
     tryE (safeOptionalText (ctFailureCriteria input) ''failure_criteria'' 500) (\<lambda>failure.
     tryE (safeOptionalText (ctReviewGate input) ''review_gate'' 500) (\<lambda>reviewGate.
     tryE (safeResumeInstructions (ctResumeInstructions input) ''resume_instructions'') (\<lambda>resume.
     tryE (safeRefList (ctKnowledgeCandidateRefs input) ''knowledge_candidate_refs'') (\<lambda>knowledgeRefs.
     let quality =
           (if ctDecompositionQuality input = []
            then assessDecomposition evidence contextRefs files deps verify expected failure resume
            else ctDecompositionQuality input)
     in tryE (safeDecompositionQuality quality) (\<lambda>_.
        tryE (initialTaskStatus input quality) (\<lambda>status.
        Inr \<lparr>wtID = newID, wtProjectID = projectID, wtPlanID = planID, wtTaskRef = taskRef,
             wtTitle = title, wtDescription = description, wtStatus = status, wtOwnerAgent = owner,
             wtClaimedByRunID = [], wtTraceID = traceID, wtEvidenceNeeded = evidence,
             wtContextPackRefs = contextRefs, wtFilesToRead = filesToRead,
             wtFilesToEdit = filesToEdit, wtLikelyFilesAffected = files,
             wtDependencyTaskIDs = deps, wtVerificationRequirement = verify,
             wtExpectedOutput = expected, wtFailureCriteria = failure, wtReviewGate = reviewGate,
             wtOutcome = [], wtResumeInstructions = resume, wtBlockedReason = [],
             wtBlockedByTaskIDs = [], wtKnowledgeCandidateRefs = knowledgeRefs, wtEvidenceRefs = [],
             wtClaimRefs = [], wtVerifierResultRefs = [], wtReviewResultRefs = [],
             wtReviewExemptReason = [], wtArtifactRefs = [], wtAgentRunIDs = optionalRefSlice runID,
             wtDecompositionQuality = quality, wtCreatedAt = now, wtUpdatedAt = now,
             wtClaimedAt = zeroTime, wtStartedAt = zeroTime, wtCompletedAt = zeroTime\<rparr>))))))))))))))"

definition svcCreateWorkTask ::
    "WorkPlanStore \<Rightarrow> time \<Rightarrow> string \<Rightarrow> CreateWorkTaskInput \<Rightarrow> WorkTask res \<times> WorkPlanStore" where
  "svcCreateWorkTask st now newID input =
     tryS (safeProjectObject (ctProjectID input) (ctPlanID input) ''plan_id'') st (\<lambda>(projectID, planID).
     tryS (memGetWorkPlan st projectID planID) st (\<lambda>_.
     tryS (safeRef (ctTaskRef input) ''task_ref'') st (\<lambda>taskRef.
     tryS (safeRequiredText (ctTitle input) ''title'' 200) st (\<lambda>title.
     tryS (safeOptionalText (ctDescription input) ''description'' 1000) st (\<lambda>description.
     tryS (safeOptionalRef (ctOwnerAgent input) ''owner_agent'') st (\<lambda>owner.
     tryS (safeOptionalRef (ctRunID input) ''run_id'') st (\<lambda>runID.
     tryS (safeOptionalRef (ctTraceID input) ''trace_id'') st (\<lambda>traceID.
     tryS (buildTask now newID projectID planID taskRef title description owner runID traceID input) st
       (\<lambda>task. memCreateWorkTask st task)))))))))"

definition svcUpdateWorkTask :: "WorkPlanStore \<Rightarrow> time \<Rightarrow> WorkTask \<Rightarrow> WorkTask res \<times> WorkPlanStore" where
  "svcUpdateWorkTask st now task =
     tryS (safeProjectObject (wtProjectID task) (wtID task) ''task_id'') st (\<lambda>_.
     memUpdateWorkTask st (task\<lparr>wtUpdatedAt := now\<rparr>))"

definition svcGetWorkTask :: "WorkPlanStore \<Rightarrow> string \<Rightarrow> string \<Rightarrow> WorkTask res" where
  "svcGetWorkTask st projectID0 taskID0 =
     tryE (safeProjectObject projectID0 taskID0 ''task_id'') (\<lambda>(projectID, taskID).
     memGetWorkTask st projectID taskID)"

end
