(* ===== verification/WorkPlan_Lifecycle.thy ===== *)
theory WorkPlan_Lifecycle
  imports WorkPlan_Service
begin

section \<open>Work plans: selecting, moving and completing tasks\<close>

text \<open>
  The second half of \<open>internal/projectworkplan/service.go\<close>: the list methods and
  \<open>GetNextWorkTask\<close>, the one routine \<open>transitionTask\<close> behind claim, release, start, block,
  complete and fail, scope expansion, and the attachments with the status changes they cause.
\<close>

subsection \<open>Listing\<close>

definition listTasks :: "WorkPlanStore \<Rightarrow> WorkTaskFilter \<Rightarrow> WorkTask list res" where
  "listTasks st flt =
     tryE (safeRef (tfProjectID flt) ''project_id'') (\<lambda>projectID.
     tryE (setIf (tfPlanID flt \<noteq> []) (safeOptionalRef (tfPlanID flt) ''plan_id'') []) (\<lambda>planID.
     tryE (setIf (tfStatus flt \<noteq> []) (safeTaskStatus (tfStatus flt)) []) (\<lambda>_.
     tryE (setIf (tfOwnerAgent flt \<noteq> []) (safeOptionalRef (tfOwnerAgent flt) ''owner_agent'') []) (\<lambda>owner.
     tryE (setIf (tfClaimedByRunID flt \<noteq> [])
        (safeOptionalRef (tfClaimedByRunID flt) ''claimed_by_run_id'') []) (\<lambda>claimed.
     Inr (memListWorkTasks st
       (flt\<lparr>tfProjectID := projectID, tfPlanID := planID, tfOwnerAgent := owner,
            tfClaimedByRunID := claimed\<rparr>)))))))"

definition openPlanIDs :: "WorkPlanStore \<Rightarrow> string \<Rightarrow> string list" where
  "openPlanIDs st projectID =
     map wpID (filter (\<lambda>plan. \<not> isTerminalPlanStatus (wpStatus plan))
       (memListWorkPlans st
         \<lparr>pfProjectID = projectID, pfStatus = [], pfOwnerAgent = [], pfPageSize = 0, pfPageToken = []\<rparr>))"

definition svcListOpenWorkTasks :: "WorkPlanStore \<Rightarrow> WorkTaskFilter \<Rightarrow> WorkTask list res" where
  "svcListOpenWorkTasks st flt =
     tryE (listTasks st flt) (\<lambda>ts.
     let open_ids = openPlanIDs st (tfProjectID flt)
     in Inr (filter (\<lambda>t. wtPlanID t \<in> set open_ids \<and> \<not> isTerminalTaskStatus (wtStatus t)) ts))"

definition svcListMineWorkTasks :: "WorkPlanStore \<Rightarrow> WorkTaskFilter \<Rightarrow> WorkTask list res" where
  "svcListMineWorkTasks st flt =
     (if isBlank (tfOwnerAgent flt) \<and> isBlank (tfClaimedByRunID flt)
      then Inl (ErrInvalidInput ''owner_agent or claimed_by_run_id is required'')
      else listTasks st flt)"

definition svcListBlockedWorkTasks :: "WorkPlanStore \<Rightarrow> WorkTaskFilter \<Rightarrow> WorkTask list res" where
  "svcListBlockedWorkTasks st flt = listTasks st (flt\<lparr>tfStatus := WorkTaskStatusBlocked\<rparr>)"

subsection \<open>The next task\<close>

text \<open>
  \<open>byID\<close> and \<open>done\<close> are the two maps of the method: the task of an identifier (the last one
  wins, as in the loop) and whether some task with it is done.
\<close>

definition byID :: "WorkTask list \<Rightarrow> string \<Rightarrow> WorkTask option" where
  "byID ts i = map_of (rev (map (\<lambda>t. (wtID t, t)) ts)) i"

definition doneIDs :: "WorkTask list \<Rightarrow> string list" where
  "doneIDs ts = map wtID (filter (\<lambda>t. wtStatus t = WorkTaskStatusDone) ts)"

definition depReady :: "WorkTask list \<Rightarrow> string \<Rightarrow> bool" where
  "depReady ts dep =
     (case byID ts dep of
        None \<Rightarrow> False
      | Some t \<Rightarrow> wtStatus t \<noteq> WorkTaskStatusBlocked \<and> dep \<in> set (doneIDs ts))"

definition isCandidate :: "WorkTask list \<Rightarrow> string \<Rightarrow> string \<Rightarrow> bool \<Rightarrow> WorkTask \<Rightarrow> bool" where
  "isCandidate ts ownerAgent runID includeMine t =
     (\<not> (wtStatus t \<noteq> WorkTaskStatusReady \<or> wtDecompositionQuality t \<noteq> DecompositionReady
          \<or> wtVerificationRequirement t = [])
      \<and> \<not> (ownerAgent \<noteq> [] \<and> wtOwnerAgent t \<noteq> [] \<and> wtOwnerAgent t \<noteq> ownerAgent)
      \<and> \<not> (wtClaimedByRunID t \<noteq> [] \<and> \<not> (includeMine \<and> wtClaimedByRunID t = runID))
      \<and> list_all (depReady ts) (wtDependencyTaskIDs t))"

definition candidateLess :: "string \<Rightarrow> WorkTask \<Rightarrow> WorkTask \<Rightarrow> bool" where
  "candidateLess ownerAgent a b =
     (if ownerAgent \<noteq> [] \<and> wtOwnerAgent a \<noteq> wtOwnerAgent b then wtOwnerAgent a = ownerAgent
      else if length (wtDependencyTaskIDs a) \<noteq> length (wtDependencyTaskIDs b)
      then length (wtDependencyTaskIDs a) < length (wtDependencyTaskIDs b)
      else if wtCreatedAt a \<noteq> wtCreatedAt b then wtCreatedAt a < wtCreatedAt b
      else wtTaskRef a < wtTaskRef b)"

definition taskOpen :: "WorkTask \<Rightarrow> bool" where
  "taskOpen t =
     (wtStatus t \<noteq> WorkTaskStatusDone \<and> wtStatus t \<noteq> WorkTaskStatusFailed
      \<and> wtStatus t \<noteq> WorkTaskStatusCancelled \<and> wtStatus t \<noteq> WorkTaskStatusSuperseded)"

definition summarizeTasks :: "WorkTask list \<Rightarrow> GetNextWorkTaskResult" where
  "summarizeTasks ts =
     \<lparr>grFound = False, grTask = zeroTask, grPlan = zeroPlan, grDependencySummary = [],
      grEvidenceRefs = [], grContextPackRefs = [], grResumeInstructions = [],
      grRequiredVerification = [], grSafeReason = [],
      grOpenCount = int (length (filter taskOpen ts)),
      grBlockedCount = int (length (filter (\<lambda>t. wtStatus t = WorkTaskStatusBlocked) ts)),
      grClaimedCount = int (length (filter
        (\<lambda>t. taskOpen t \<and> (wtStatus t = WorkTaskStatusClaimed \<or> wtClaimedByRunID t \<noteq> [])) ts)),
      grReason = []\<rparr>"

definition dependencySummary :: "WorkTask \<Rightarrow> WorkTask list \<Rightarrow> DependencySummary list" where
  "dependencySummary task ts =
     map (\<lambda>depID.
       let dep = (case byID ts depID of None \<Rightarrow> zeroTask | Some t \<Rightarrow> t)
       in \<lparr>dsTaskID = depID, dsStatus = wtStatus dep, dsReady = (wtStatus dep = WorkTaskStatusDone)\<rparr>)
     (wtDependencyTaskIDs task)"

definition activeTasks :: "WorkPlanStore \<Rightarrow> string \<Rightarrow> WorkTask list \<Rightarrow> WorkTask list" where
  "activeTasks st projectID ts = filter (\<lambda>t. wtPlanID t \<in> set (openPlanIDs st projectID)) ts"

definition chooseNext ::
    "WorkPlanStore \<Rightarrow> WorkTask list \<Rightarrow> string \<Rightarrow> string \<Rightarrow> bool \<Rightarrow> GetNextWorkTaskResult res" where
  "chooseNext st active ownerAgent runID includeMine =
     (case sortBy (candidateLess ownerAgent)
             (filter (isCandidate active ownerAgent runID includeMine) active) of
        [] \<Rightarrow> Inr ((summarizeTasks active)
          \<lparr>grReason := ''no ready task with complete dependencies and safe decomposition''\<rparr>)
      | task # _ \<Rightarrow>
          tryE (memGetWorkPlan st (wtProjectID task) (wtPlanID task)) (\<lambda>plan.
          Inr ((summarizeTasks active)
            \<lparr>grFound := True, grTask := task, grPlan := plan,
             grDependencySummary := dependencySummary task active,
             grEvidenceRefs := wtEvidenceRefs task, grContextPackRefs := wtContextPackRefs task,
             grResumeInstructions := wtResumeInstructions task,
             grRequiredVerification := wtVerificationRequirement task,
             grSafeReason := ''ready decomposition, unblocked dependencies, and verifier requirement present''\<rparr>)))"

definition svcGetNextWorkTask :: "WorkPlanStore \<Rightarrow> GetNextWorkTaskInput \<Rightarrow> GetNextWorkTaskResult res" where
  "svcGetNextWorkTask st input =
     tryE (safeRef (gnProjectID input) ''project_id'') (\<lambda>projectID.
     tryE (safeOptionalRef (gnPlanID input) ''plan_id'') (\<lambda>planID.
     tryE (safeOptionalRef (gnOwnerAgent input) ''owner_agent'') (\<lambda>ownerAgent.
     tryE (safeOptionalRef (gnRunID input) ''run_id'') (\<lambda>runID.
     tryE (safeOptionalRef (gnTraceID input) ''trace_id'') (\<lambda>_.
     tryE (listTasks st \<lparr>tfProjectID = projectID, tfPlanID = planID, tfStatus = [], tfOwnerAgent = [],
                        tfClaimedByRunID = [], tfPageSize = 0, tfPageToken = []\<rparr>) (\<lambda>ts.
     chooseNext st (activeTasks st projectID ts) ownerAgent runID (gnIncludeClaimedByMe input)))))))"

subsection \<open>Moving a task\<close>

definition allowsGitOpsRecoveryRerun :: "WorkTask \<Rightarrow> WorkTaskActionInput \<Rightarrow> string \<Rightarrow> bool" where
  "allowsGitOpsRecoveryRerun task input nxt =
     (wtStatus task = WorkTaskStatusVerifying \<and> nxt = WorkTaskStatusReady
      \<and> trimSpace (taSafeNextAction input) = ''gitops_recovery_failed_requeue_implementation''
      \<and> trimSpace (taRunID input) \<noteq> [])"

definition claimGuard :: "WorkTask \<Rightarrow> WorkTaskActionInput \<Rightarrow> string \<Rightarrow> unit res" where
  "claimGuard task input nxt =
     (if nxt = WorkTaskStatusClaimed then
        tryE (failIf (isBlank (taRunID input)) (ErrInvalidInput ''run_id is required to claim a task'')) (\<lambda>_.
        tryE (safeOptionalRef (taRunID input) ''run_id'') (\<lambda>runID.
        failIf (wtClaimedByRunID task \<noteq> [] \<and> wtClaimedByRunID task \<noteq> runID)
          (ErrInvalidInput ''task is claimed by another run'')))
      else Inr ())"

definition transitionGuards :: "WorkTask \<Rightarrow> WorkTaskActionInput \<Rightarrow> string \<Rightarrow> bool \<Rightarrow> unit res" where
  "transitionGuards task input nxt gitOpsRecoveryRerun =
     tryE (failIf (gitOpsRecoveryRerun \<and> wtClaimedByRunID task \<noteq> []
              \<and> trimSpace (taRunID input) \<noteq> wtClaimedByRunID task)
        (ErrInvalidInput ''gitops recovery rerun requires current claimed run'')) (\<lambda>_.
     tryE (failIf (nxt = WorkTaskStatusReady \<and> wtStatus task \<noteq> WorkTaskStatusReady
              \<and> wtStatus task \<noteq> WorkTaskStatusPlanned \<and> wtStatus task \<noteq> WorkTaskStatusClaimed
              \<and> wtStatus task \<noteq> WorkTaskStatusInProgress \<and> wtStatus task \<noteq> WorkTaskStatusBlocked
              \<and> wtStatus task \<noteq> WorkTaskStatusNeedsReview \<and> \<not> gitOpsRecoveryRerun)
        (ErrInvalidInput ''release requires claimed status'')) (\<lambda>_.
     tryE (failIf (nxt = WorkTaskStatusInProgress \<and> wtStatus task \<noteq> WorkTaskStatusClaimed)
        (ErrInvalidInput ''start requires claimed status'')) (\<lambda>_.
     tryE (failIf (nxt = WorkTaskStatusBlocked \<and> isBlank (taResumeInstructions input))
        (ErrInvalidInput ''resume_instructions is required'')) (\<lambda>_.
     tryE (if gitOpsRecoveryRerun then Inr () else validateTaskTransition (wtStatus task) nxt) (\<lambda>_.
     failIf (nxt = WorkTaskStatusReady \<and> wtDecompositionQuality task \<noteq> DecompositionReady)
       (ErrInvalidInput ''task decomposition is not ready''))))))"

definition applyScalars :: "WorkTask \<Rightarrow> WorkTaskActionInput \<Rightarrow> WorkTask res" where
  "applyScalars task input =
     tryE (setIf (taOwnerAgent input \<noteq> [])
        (safeOptionalRef (taOwnerAgent input) ''owner_agent'') (wtOwnerAgent task)) (\<lambda>owner.
     tryE (setIf (taRunID input \<noteq> [])
        (safeOptionalRef (taRunID input) ''run_id'') (wtClaimedByRunID task)) (\<lambda>claimed.
     tryE (setIf (taTraceID input \<noteq> [])
        (safeOptionalRef (taTraceID input) ''trace_id'') (wtTraceID task)) (\<lambda>trace.
     tryE (setIf (taOutcome input \<noteq> [])
        (safeOptionalText (taOutcome input) ''outcome'' 500) (wtOutcome task)) (\<lambda>outcome.
     tryE (setIf (taBlockedReason input \<noteq> [])
        (safeOptionalText (taBlockedReason input) ''blocked_reason'' 500) (wtBlockedReason task)) (\<lambda>reason.
     tryE (setIf (taResumeInstructions input \<noteq> [])
        (safeResumeInstructions (taResumeInstructions input) ''resume_instructions'')
        (wtResumeInstructions task)) (\<lambda>resume.
     Inr (task\<lparr>wtOwnerAgent := owner, wtClaimedByRunID := claimed,
               wtAgentRunIDs := (if taRunID input \<noteq> [] then appendUnique (wtAgentRunIDs task) claimed
                                 else wtAgentRunIDs task),
               wtTraceID := trace, wtOutcome := outcome, wtBlockedReason := reason,
               wtResumeInstructions := resume\<rparr>)))))))"

text \<open>\<open>if len(xs) > 0 { refs, err := safeRefList(xs); for ref in refs { acc = appendUnique(acc, ref) } }\<close>\<close>

definition mergeRefs :: "string list \<Rightarrow> string list \<Rightarrow> string \<Rightarrow> string list res" where
  "mergeRefs acc xs name =
     (if xs \<noteq> [] then tryE (safeRefList xs name) (\<lambda>refs. Inr (appendAllUnique acc refs)) else Inr acc)"

definition applyRefs :: "WorkTask \<Rightarrow> WorkTaskActionInput \<Rightarrow> WorkTask res" where
  "applyRefs task input =
     tryE (setIf (taBlockedByTaskIDs input \<noteq> [])
        (safeRefList (taBlockedByTaskIDs input) ''blocked_by_task_ids'') (wtBlockedByTaskIDs task)) (\<lambda>blockedBy.
     tryE (mergeRefs (wtContextPackRefs task) (taContextPackRefs input) ''context_pack_refs'') (\<lambda>contextRefs.
     tryE (mergeRefs (wtEvidenceRefs task) (taEvidenceRefs input) ''evidence_refs'') (\<lambda>evidence.
     tryE (mergeRefs (wtClaimRefs task) (taClaimRefs input) ''claim_refs'') (\<lambda>claims.
     tryE (mergeRefs (wtKnowledgeCandidateRefs task) (taKnowledgeRefs input) ''knowledge_candidate_refs'')
       (\<lambda>knowledge.
     tryE (setIf (taVerifierResultRefs input \<noteq> [])
        (safeRefList (taVerifierResultRefs input) ''verifier_result_refs'') (wtVerifierResultRefs task)) (\<lambda>verifier.
     tryE (setIf (taReviewResultRefs input \<noteq> [])
        (safeRefList (taReviewResultRefs input) ''review_result_refs'') (wtReviewResultRefs task)) (\<lambda>review.
     tryE (setIf (taReviewExemptReason input \<noteq> [])
        (safeOptionalText (taReviewExemptReason input) ''review_exempt_reason'' 300)
        (wtReviewExemptReason task)) (\<lambda>exempt.
     Inr (task\<lparr>wtBlockedByTaskIDs := blockedBy, wtContextPackRefs := contextRefs,
               wtEvidenceRefs := evidence, wtClaimRefs := claims,
               wtKnowledgeCandidateRefs := knowledge, wtVerifierResultRefs := verifier,
               wtReviewResultRefs := (if taReviewExemptReason input \<noteq> [] then [] else review),
               wtReviewExemptReason := exempt\<rparr>)))))))))"

definition enterStatus :: "WorkTask \<Rightarrow> string \<Rightarrow> time \<Rightarrow> WorkTask" where
  "enterStatus task nxt now =
     (let t1 = task\<lparr>wtStatus := nxt, wtUpdatedAt := now\<rparr>;
          t2 = (if nxt \<noteq> WorkTaskStatusBlocked then t1\<lparr>wtBlockedReason := [], wtBlockedByTaskIDs := []\<rparr>
                else t1)
      in if nxt = WorkTaskStatusClaimed then t2\<lparr>wtClaimedAt := now\<rparr>
         else if nxt = WorkTaskStatusReady then t2\<lparr>wtClaimedByRunID := [], wtClaimedAt := zeroTime\<rparr>
         else if nxt = WorkTaskStatusInProgress then t2\<lparr>wtStartedAt := now\<rparr>
         else if nxt = WorkTaskStatusDone \<or> nxt = WorkTaskStatusFailed then t2\<lparr>wtCompletedAt := now\<rparr>
         else t2)"

definition reviewsFor :: "Attachment list \<Rightarrow> string \<Rightarrow> Attachment list" where
  "reviewsFor as ref = filter (\<lambda>a. atKind a = ''review_result_ref'' \<and> atRef a = ref) as"

fun checkReviewRefs :: "Attachment list \<Rightarrow> string \<Rightarrow> string list \<Rightarrow> unit res" where
  "checkReviewRefs as claimedBy [] = Inr ()"
| "checkReviewRefs as claimedBy (ref # refs) =
     (let reviews = reviewsFor as ref
      in if reviews = []
         then Inl (ErrInvalidInput ''review_result_ref must be attached before completion'')
         else if claimedBy = [] then checkReviewRefs as claimedBy refs
         else if list_ex (\<lambda>r. atAttachedByRunID r \<noteq> [] \<and> atAttachedByRunID r \<noteq> claimedBy) reviews
         then checkReviewRefs as claimedBy refs
         else Inl (ErrInvalidInput ''review_result_ref must be attached by an independent run''))"

definition validateIndependentReviewRefs :: "WorkPlanStore \<Rightarrow> WorkTask \<Rightarrow> unit res" where
  "validateIndependentReviewRefs st task =
     tryE (memListAttachments st (wtProjectID task) (wtID task)) (\<lambda>as.
     checkReviewRefs as (wtClaimedByRunID task) (wtReviewResultRefs task))"

definition finishGuards :: "WorkPlanStore \<Rightarrow> WorkTask \<Rightarrow> string \<Rightarrow> unit res" where
  "finishGuards st task nxt =
     tryE (failIf (nxt = WorkTaskStatusBlocked \<and> wtBlockedReason task = [])
        (ErrInvalidInput ''blocked_reason is required'')) (\<lambda>_.
     tryE (failIf (nxt = WorkTaskStatusBlocked \<and> wtResumeInstructions task = [])
        (ErrInvalidInput ''resume_instructions is required'')) (\<lambda>_.
     tryE (failIf (nxt = WorkTaskStatusDone \<and> wtVerifierResultRefs task = [])
        (ErrInvalidInput ''verifier_result_refs are required before done'')) (\<lambda>_.
     tryE (failIf (nxt = WorkTaskStatusDone \<and> wtReviewResultRefs task = []
              \<and> isBlank (wtReviewExemptReason task))
        (ErrInvalidInput ''review_result_refs or review_exempt_reason is required before done'')) (\<lambda>_.
     if nxt = WorkTaskStatusDone \<and> wtReviewResultRefs task \<noteq> []
     then validateIndependentReviewRefs st task else Inr ()))))"

definition transitionTask ::
    "WorkPlanStore \<Rightarrow> time \<Rightarrow> WorkTaskActionInput \<Rightarrow> string \<Rightarrow> WorkTask res \<times> WorkPlanStore" where
  "transitionTask st now input nxt =
     tryS (safeProjectObject (taProjectID input) (taTaskID input) ''task_id'') st (\<lambda>(projectID, taskID).
     tryS (memGetWorkTask st projectID taskID) st (\<lambda>task.
     let gitOpsRecoveryRerun = allowsGitOpsRecoveryRerun task input nxt in
     tryS (claimGuard task input nxt) st (\<lambda>_.
     if nxt = WorkTaskStatusReady \<and> releaseIsStale (wtStatus task) \<and> \<not> gitOpsRecoveryRerun
     then (Inr task, st)
     else
       tryS (transitionGuards task input nxt gitOpsRecoveryRerun) st (\<lambda>_.
       tryS (applyScalars task input) st (\<lambda>task1.
       tryS (applyRefs task1 input) st (\<lambda>task2.
       let task3 = enterStatus task2 nxt now in
       tryS (finishGuards st task3 nxt) st (\<lambda>_.
       memUpdateWorkTask st task3)))))))"

definition svcClaimWorkTask where
  "svcClaimWorkTask st now input = transitionTask st now input WorkTaskStatusClaimed"

definition svcReleaseWorkTask where
  "svcReleaseWorkTask st now input = transitionTask st now input WorkTaskStatusReady"

definition svcStartWorkTask where
  "svcStartWorkTask st now input = transitionTask st now input WorkTaskStatusInProgress"

definition svcCompleteWorkTask where
  "svcCompleteWorkTask st now input = transitionTask st now input WorkTaskStatusDone"

definition svcFailWorkTask where
  "svcFailWorkTask st now input = transitionTask st now input WorkTaskStatusFailed"

definition svcBlockWorkTask where
  "svcBlockWorkTask st now input = transitionTask st now input WorkTaskStatusBlocked"

definition svcUpdateWorkTaskStatus ::
    "WorkPlanStore \<Rightarrow> time \<Rightarrow> UpdateWorkTaskStatusInput \<Rightarrow> WorkTask res \<times> WorkPlanStore" where
  "svcUpdateWorkTaskStatus st now input =
     tryS (safeTaskStatus (utStatus input)) st (\<lambda>nxt.
     transitionTask st now (WorkTaskActionInput.truncate input) nxt)"

definition svcExpandWorkTaskScope ::
    "WorkPlanStore \<Rightarrow> time \<Rightarrow> ExpandWorkTaskScopeInput \<Rightarrow> WorkTask res \<times> WorkPlanStore" where
  "svcExpandWorkTaskScope st now input =
     tryS (safeProjectObject (exProjectID input) (exTaskID input) ''task_id'') st (\<lambda>(projectID, taskID).
     tryS (safePathList (exFilesToEdit input) ''files_to_edit'') st (\<lambda>filesToEdit.
     tryS (failIf (filesToEdit = []) (ErrInvalidInput ''files_to_edit is required'')) st (\<lambda>_.
     tryS (safeResumeInstructions (exResumeInstructions input) ''resume_instructions'') st (\<lambda>resume.
     tryS (safeOptionalRef (exRunID input) ''run_id'') st (\<lambda>runID.
     tryS (safeOptionalRef (exTraceID input) ''trace_id'') st (\<lambda>traceID.
     tryS (memGetWorkTask st projectID taskID) st (\<lambda>task.
     memUpdateWorkTask st
       (task\<lparr>wtFilesToEdit := appendAllUnique (wtFilesToEdit task) filesToEdit,
             wtResumeInstructions := (if resume \<noteq> [] then resume else wtResumeInstructions task),
             wtAgentRunIDs := (if runID \<noteq> [] then appendUnique (wtAgentRunIDs task) runID
                               else wtAgentRunIDs task),
             wtTraceID := (if traceID \<noteq> [] then traceID else wtTraceID task),
             wtUpdatedAt := now\<rparr>))))))))"

subsection \<open>Attachments\<close>

text \<open>
  \<open>addAttachmentRef\<close> records the reference on the task. A verifier result moves a task in
  progress to verifying, a review result to needs-review.
\<close>

definition withAttachmentRef :: "WorkTask \<Rightarrow> string \<Rightarrow> string \<Rightarrow> WorkTask res" where
  "withAttachmentRef task kind ref =
     (if kind = ''evidence_ref''
      then Inr (task\<lparr>wtEvidenceRefs := appendUnique (wtEvidenceRefs task) ref\<rparr>)
      else if kind = ''context_pack_ref''
      then Inr (task\<lparr>wtContextPackRefs := appendUnique (wtContextPackRefs task) ref\<rparr>)
      else if kind = ''claim_ref''
      then Inr (task\<lparr>wtClaimRefs := appendUnique (wtClaimRefs task) ref\<rparr>)
      else if kind = ''verifier_result_ref'' then
        (let t = task\<lparr>wtVerifierResultRefs := appendUnique (wtVerifierResultRefs task) ref\<rparr>
         in if wtStatus t = WorkTaskStatusInProgress
            then tryE (validateTaskTransition (wtStatus t) WorkTaskStatusVerifying) (\<lambda>_.
                 Inr (t\<lparr>wtStatus := WorkTaskStatusVerifying\<rparr>))
            else Inr t)
      else if kind = ''review_result_ref'' then
        (let t = task\<lparr>wtReviewResultRefs := appendUnique (wtReviewResultRefs task) ref\<rparr>
         in if wtStatus t = WorkTaskStatusInProgress
            then tryE (validateTaskTransition (wtStatus t) WorkTaskStatusNeedsReview) (\<lambda>_.
                 Inr (t\<lparr>wtStatus := WorkTaskStatusNeedsReview\<rparr>))
            else Inr t)
      else if kind = ''knowledge_candidate_ref''
      then Inr (task\<lparr>wtKnowledgeCandidateRefs := appendUnique (wtKnowledgeCandidateRefs task) ref\<rparr>)
      else Inr task)"

definition addAttachmentRef ::
    "WorkPlanStore \<Rightarrow> time \<Rightarrow> WorkTask \<Rightarrow> string \<Rightarrow> string \<Rightarrow> unit res \<times> WorkPlanStore" where
  "addAttachmentRef st now task kind ref =
     tryS (withAttachmentRef task kind ref) st (\<lambda>t.
     case memUpdateWorkTask st (t\<lparr>wtUpdatedAt := now\<rparr>) of
       (Inl e, st') \<Rightarrow> (Inl e, st')
     | (Inr _, st') \<Rightarrow> (Inr (), st'))"

text \<open>
  \<open>attach\<close> calls \<open>svc.now()\<close> twice: \<open>now\<close> for the attachment, \<open>now'\<close> for the task. When the
  second write fails the attachment stays.
\<close>

definition attach ::
    "WorkPlanStore \<Rightarrow> time \<Rightarrow> time \<Rightarrow> string \<Rightarrow> string \<Rightarrow> AttachInput \<Rightarrow> Attachment res \<times> WorkPlanStore" where
  "attach st now now' newID kind input =
     tryS (safeProjectObject (aiProjectID input) (aiTaskID input) ''task_id'') st (\<lambda>(projectID, taskID).
     tryS (memGetWorkTask st projectID taskID) st (\<lambda>task.
     tryS (safeRef (aiRef input) kind) st (\<lambda>ref.
     tryS (safeOptionalRef (aiAttachedByRunID input) ''attached_by_run_id'') st (\<lambda>runID.
     tryS (failIf (kind = ''review_result_ref'' \<and> runID \<noteq> [] \<and> wtClaimedByRunID task \<noteq> []
              \<and> runID = wtClaimedByRunID task)
        (ErrInvalidInput ''review_result_ref must be attached by an independent run'')) st (\<lambda>_.
     tryS (safeOptionalRef (aiTraceID input) ''trace_id'') st (\<lambda>traceID.
     tryS (safeOptionalText (aiNote input) ''note'' 300) st (\<lambda>note.
     case memCreateAttachment st
       \<lparr>atID = newID, atProjectID = projectID, atPlanID = wtPlanID task, atTaskID = taskID,
        atKind = kind, atRef = ref, atAttachedByRunID = runID, atTraceID = traceID, atNote = note,
        atCreatedAt = now\<rparr> of
       (Inl e, st') \<Rightarrow> (Inl e, st')
     | (Inr created, st') \<Rightarrow>
         (case addAttachmentRef st' now' task kind ref of
            (Inl e, st'') \<Rightarrow> (Inl e, st'')
          | (Inr _, st'') \<Rightarrow> (Inr created, st'')))))))))"

definition svcAttachEvidence where
  "svcAttachEvidence st now now' newID input = attach st now now' newID ''evidence_ref'' input"

definition svcAttachContextPack where
  "svcAttachContextPack st now now' newID input = attach st now now' newID ''context_pack_ref'' input"

definition svcAttachClaim where
  "svcAttachClaim st now now' newID input = attach st now now' newID ''claim_ref'' input"

definition svcAttachVerifierResult where
  "svcAttachVerifierResult st now now' newID input = attach st now now' newID ''verifier_result_ref'' input"

definition svcAttachReviewResult where
  "svcAttachReviewResult st now now' newID input = attach st now now' newID ''review_result_ref'' input"

definition svcAttachKnowledgeCandidate where
  "svcAttachKnowledgeCandidate st now now' newID input =
     attach st now now' newID ''knowledge_candidate_ref'' input"

end
