(* ===== verification/WorkPlan_Lemmas.thy ===== *)
theory WorkPlan_Lemmas
  imports WorkPlan_Lifecycle
begin

section \<open>Work plans: lemmas about the operations\<close>

text \<open>
  One inversion lemma per operation (what a successful call did to the store), the fields
  each piece of \<open>transitionTask\<close> leaves alone, the transition tables as relations, and the
  invariant of the store with its preservation by every operation.
\<close>

subsection \<open>Transition tables\<close>

definition taskEdge :: "string \<Rightarrow> string \<Rightarrow> bool" where
  "taskEdge from to = (from = to \<or> to \<in> set (case tget taskTransitions from of None \<Rightarrow> [] | Some l \<Rightarrow> l))"

definition planEdge :: "string \<Rightarrow> string \<Rightarrow> bool" where
  "planEdge from to = (from = to \<or> to \<in> set (case tget planTransitions from of None \<Rightarrow> [] | Some l \<Rightarrow> l))"

lemma validateTaskTransition_Inr: "validateTaskTransition a b = Inr u \<longleftrightarrow> taskEdge a b"
  by (auto simp: validateTaskTransition_def validateTransition_def taskEdge_def Let_def)

lemma validatePlanTransition_Inr: "validatePlanTransition a b = Inr u \<longleftrightarrow> planEdge a b"
  by (auto simp: validatePlanTransition_def validateTransition_def planEdge_def Let_def)

lemma taskEdge_terminal:
  "isTerminalTaskStatus a \<Longrightarrow> taskEdge a b \<Longrightarrow> b = a \<or> b = WorkTaskStatusSuperseded"
  by (auto simp: isTerminalTaskStatus_def taskEdge_def taskTransitions_def tget_def)

lemma planEdge_terminal:
  "isTerminalPlanStatus a \<Longrightarrow> planEdge a b \<Longrightarrow> b = a \<or> b = WorkPlanStatusSuperseded"
  by (auto simp: isTerminalPlanStatus_def planEdge_def planTransitions_def tget_def)

lemma taskEdge_done:
  "taskEdge a WorkTaskStatusDone \<Longrightarrow>
   a = WorkTaskStatusDone \<or> a = WorkTaskStatusNeedsReview \<or> a = WorkTaskStatusVerifying"
  by (auto simp: taskEdge_def taskTransitions_def tget_def split: if_splits)

lemma taskEdge_claimed:
  "taskEdge a WorkTaskStatusClaimed \<Longrightarrow> a = WorkTaskStatusClaimed \<or> a = WorkTaskStatusReady"
  by (auto simp: taskEdge_def taskTransitions_def tget_def split: if_splits)

subsection \<open>Pieces of a transition\<close>

lemma applyScalars_frame:
  assumes "applyScalars task input = Inr t"
  shows "wtID t = wtID task" "wtProjectID t = wtProjectID task" "wtPlanID t = wtPlanID task"
    "wtTaskRef t = wtTaskRef task" "wtStatus t = wtStatus task"
    "wtDecompositionQuality t = wtDecompositionQuality task"
    "wtVerifierResultRefs t = wtVerifierResultRefs task"
    "wtReviewResultRefs t = wtReviewResultRefs task" "wtCreatedAt t = wtCreatedAt task"
    "wtContextPackRefs t = wtContextPackRefs task" "wtEvidenceRefs t = wtEvidenceRefs task"
    "wtClaimRefs t = wtClaimRefs task" "wtKnowledgeCandidateRefs t = wtKnowledgeCandidateRefs task"
    "wtDependencyTaskIDs t = wtDependencyTaskIDs task" "wtReviewExemptReason t = wtReviewExemptReason task"
    "wtBlockedByTaskIDs t = wtBlockedByTaskIDs task"
  using assms by (auto simp: applyScalars_def tryE_Inr)

lemma applyScalars_claim:
  "applyScalars task input = Inr t \<Longrightarrow>
   wtClaimedByRunID t = (if taRunID input \<noteq> [] then trimSpace (taRunID input) else wtClaimedByRunID task)"
proof -
  assume "applyScalars task input = Inr t"
  then obtain claimed where "setIf (taRunID input \<noteq> [])
      (safeOptionalRef (taRunID input) ''run_id'') (wtClaimedByRunID task) = Inr claimed"
    and "wtClaimedByRunID t = claimed"
    by (auto simp: applyScalars_def tryE_Inr)
  then show ?thesis
    by (auto simp: setIf_Inr safeOptionalRef_Inr safe_simps isBlank_def split: if_splits)
qed

lemma applyRefs_frame:
  assumes "applyRefs task input = Inr t"
  shows "wtID t = wtID task" "wtProjectID t = wtProjectID task" "wtPlanID t = wtPlanID task"
    "wtTaskRef t = wtTaskRef task" "wtStatus t = wtStatus task"
    "wtDecompositionQuality t = wtDecompositionQuality task" "wtCreatedAt t = wtCreatedAt task"
    "wtClaimedByRunID t = wtClaimedByRunID task" "wtDependencyTaskIDs t = wtDependencyTaskIDs task"
    "wtResumeInstructions t = wtResumeInstructions task" "wtBlockedReason t = wtBlockedReason task"
    "wtOwnerAgent t = wtOwnerAgent task" "wtAgentRunIDs t = wtAgentRunIDs task"
  using assms by (auto simp: applyRefs_def tryE_Inr)

lemma enterStatus_simps [simp]:
  "wtStatus (enterStatus t n now) = n" "wtUpdatedAt (enterStatus t n now) = now"
  "wtID (enterStatus t n now) = wtID t" "wtProjectID (enterStatus t n now) = wtProjectID t"
  "wtPlanID (enterStatus t n now) = wtPlanID t" "wtTaskRef (enterStatus t n now) = wtTaskRef t"
  "wtDecompositionQuality (enterStatus t n now) = wtDecompositionQuality t"
  "wtVerifierResultRefs (enterStatus t n now) = wtVerifierResultRefs t"
  "wtReviewResultRefs (enterStatus t n now) = wtReviewResultRefs t"
  "wtReviewExemptReason (enterStatus t n now) = wtReviewExemptReason t"
  "wtResumeInstructions (enterStatus t n now) = wtResumeInstructions t"
  "wtCreatedAt (enterStatus t n now) = wtCreatedAt t"
  "wtDependencyTaskIDs (enterStatus t n now) = wtDependencyTaskIDs t"
  "wtClaimedByRunID (enterStatus t n now) =
     (if n = WorkTaskStatusReady then [] else wtClaimedByRunID t)"
  "wtBlockedReason (enterStatus t n now) =
     (if n = WorkTaskStatusBlocked then wtBlockedReason t else [])"
  by (auto simp: enterStatus_def Let_def)

lemma checkReviewRefs_Inr:
  "checkReviewRefs as run refs = Inr u \<longleftrightarrow>
     (\<forall>ref \<in> set refs. \<exists>a \<in> set as. atKind a = ''review_result_ref'' \<and> atRef a = ref
        \<and> (run \<noteq> [] \<longrightarrow> atAttachedByRunID a \<noteq> [] \<and> atAttachedByRunID a \<noteq> run))"
proof (induction refs)
  case (Cons ref refs)
  have 1: "reviewsFor as ref = [] \<longleftrightarrow> \<not> (\<exists>a \<in> set as. atKind a = ''review_result_ref'' \<and> atRef a = ref)"
    by (auto simp: reviewsFor_def filter_empty_conv)
  have 2: "list_ex P (reviewsFor as ref) \<longleftrightarrow>
      (\<exists>a \<in> set as. atKind a = ''review_result_ref'' \<and> atRef a = ref \<and> P a)" for P
    by (auto simp: reviewsFor_def list_ex_iff)
  show ?case using Cons.IH by (auto simp: Let_def 1 2)
qed simp

lemma finishGuards_Inr:
  "finishGuards st t n = Inr u \<longleftrightarrow>
     (n = WorkTaskStatusBlocked \<longrightarrow> wtBlockedReason t \<noteq> [] \<and> wtResumeInstructions t \<noteq> []) \<and>
     (n = WorkTaskStatusDone \<longrightarrow> wtVerifierResultRefs t \<noteq> []
        \<and> (wtReviewResultRefs t = [] \<longrightarrow> \<not> isBlank (wtReviewExemptReason t))
        \<and> (wtReviewResultRefs t \<noteq> [] \<longrightarrow> validateIndependentReviewRefs st t = Inr ()))"
  by (auto simp: finishGuards_def res_simps split: if_splits)

lemma set_memListAttachments:
  "memListAttachments st p i = Inr as \<Longrightarrow> set as = set (attachmentsOf st (taskKey p i))"
  by (auto simp: memListAttachments_def split: if_splits)

lemma validateIndependentReviewRefs_Inr:
  assumes "validateIndependentReviewRefs st t = Inr u" and "ref \<in> set (wtReviewResultRefs t)"
  shows "\<exists>a \<in> set (attachmentsOf st (taskKeyOf t)). atKind a = ''review_result_ref'' \<and> atRef a = ref
     \<and> (wtClaimedByRunID t \<noteq> [] \<longrightarrow> atAttachedByRunID a \<noteq> [] \<and> atAttachedByRunID a \<noteq> wtClaimedByRunID t)"
proof -
  from assms(1) obtain as where as: "memListAttachments st (wtProjectID t) (wtID t) = Inr as"
    and ck: "checkReviewRefs as (wtClaimedByRunID t) (wtReviewResultRefs t) = Inr u"
    by (auto simp: validateIndependentReviewRefs_def res_simps)
  from ck assms(2) set_memListAttachments [OF as] show ?thesis
    by (auto simp: checkReviewRefs_Inr taskKeyOf_def)
qed

subsection \<open>Inversion of the operations\<close>

definition staleRelease :: "WorkTask \<Rightarrow> WorkTaskActionInput \<Rightarrow> string \<Rightarrow> bool" where
  "staleRelease task input nxt =
     (nxt = WorkTaskStatusReady \<and> releaseIsStale (wtStatus task)
      \<and> \<not> allowsGitOpsRecoveryRerun task input nxt)"

definition stepsTo ::
    "WorkPlanStore \<Rightarrow> time \<Rightarrow> WorkTaskActionInput \<Rightarrow> string \<Rightarrow> WorkTask \<Rightarrow> WorkTask \<Rightarrow> bool" where
  "stepsTo st now input nxt task t \<longleftrightarrow>
     transitionGuards task input nxt (allowsGitOpsRecoveryRerun task input nxt) = Inr () \<and>
     (\<exists>t1 t2. applyScalars task input = Inr t1 \<and> applyRefs t1 input = Inr t2
        \<and> t = enterStatus t2 nxt now) \<and>
     finishGuards st t nxt = Inr ()"

definition moveTask ::
    "WorkPlanStore \<Rightarrow> time \<Rightarrow> WorkTaskActionInput \<Rightarrow> string \<Rightarrow> WorkTask \<Rightarrow> WorkTask res \<times> WorkPlanStore" where
  "moveTask st now input nxt task =
     tryS (transitionGuards task input nxt (allowsGitOpsRecoveryRerun task input nxt)) st (\<lambda>_.
     tryS (applyScalars task input) st (\<lambda>task1.
     tryS (applyRefs task1 input) st (\<lambda>task2.
     tryS (finishGuards st (enterStatus task2 nxt now) nxt) st (\<lambda>_.
     memUpdateWorkTask st (enterStatus task2 nxt now)))))"

lemma moveTask_Inr:
  "moveTask st now input nxt task = (Inr t, st') \<longleftrightarrow>
     stepsTo st now input nxt task t \<and> getTask st (taskKeyOf t) \<noteq> None \<and> st' = putTask st t"
  by (auto simp: moveTask_def stepsTo_def tryS_Inr memUpdateWorkTask_eq)

lemma transitionTask_eq:
  "transitionTask st now input nxt =
     tryS (safeProjectObject (taProjectID input) (taTaskID input) ''task_id'') st (\<lambda>(projectID, taskID).
     tryS (memGetWorkTask st projectID taskID) st (\<lambda>task.
     tryS (claimGuard task input nxt) st (\<lambda>_.
     if staleRelease task input nxt then (Inr task, st) else moveTask st now input nxt task)))"
  unfolding transitionTask_def moveTask_def staleRelease_def Let_def by (rule refl)

lemma transitionTask_Inr:
  "transitionTask st now input nxt = (Inr t, st') \<longleftrightarrow>
     (\<exists>p i task. safeProjectObject (taProjectID input) (taTaskID input) ''task_id'' = Inr (p, i)
        \<and> getTask st (taskKey p i) = Some task \<and> claimGuard task input nxt = Inr ()
        \<and> (if staleRelease task input nxt then t = task \<and> st' = st
           else stepsTo st now input nxt task t \<and> getTask st (taskKeyOf t) \<noteq> None \<and> st' = putTask st t))"
  by (auto simp: transitionTask_eq tryS_Inr memGetWorkTask_Inr moveTask_Inr split: if_splits)

lemma transitionTask_cases:
  assumes "transitionTask st now input nxt = (Inr t, st')"
  obtains (stale) p i where
      "safeProjectObject (taProjectID input) (taTaskID input) ''task_id'' = Inr (p, i)"
      "getTask st (taskKey p i) = Some t" "staleRelease t input nxt" "st' = st"
  | (moved) p i task where
      "safeProjectObject (taProjectID input) (taTaskID input) ''task_id'' = Inr (p, i)"
      "getTask st (taskKey p i) = Some task" "claimGuard task input nxt = Inr ()"
      "\<not> staleRelease task input nxt" "stepsTo st now input nxt task t"
      "getTask st (taskKeyOf t) \<noteq> None" "st' = putTask st t"
  using assms by (auto simp: transitionTask_Inr split: if_splits)

lemma transitionTask_failed: "transitionTask st now input nxt = (Inl e, st') \<Longrightarrow> st' = st"
proof -
  have "moveTask st now input nxt task = (Inl e, st') \<Longrightarrow> st' = st" for task
    unfolding moveTask_def memUpdateWorkTask_eq by (auto elim!: tryS_failed split: if_splits)
  then show "transitionTask st now input nxt = (Inl e, st') \<Longrightarrow> st' = st"
    unfolding transitionTask_eq by (auto elim!: tryS_failed split: if_splits prod.splits)
qed

lemma stepsTo_frame:
  assumes "stepsTo st now input nxt task t"
  shows "wtID t = wtID task" "wtProjectID t = wtProjectID task" "wtPlanID t = wtPlanID task"
    "wtTaskRef t = wtTaskRef task" "wtStatus t = nxt" "wtUpdatedAt t = now"
    "wtDecompositionQuality t = wtDecompositionQuality task" "wtCreatedAt t = wtCreatedAt task"
    "wtDependencyTaskIDs t = wtDependencyTaskIDs task"
proof -
  from assms obtain t1 t2 where 1: "applyScalars task input = Inr t1" and 2: "applyRefs t1 input = Inr t2"
    and "t = enterStatus t2 nxt now" by (auto simp: stepsTo_def)
  then show "wtID t = wtID task" "wtProjectID t = wtProjectID task" "wtPlanID t = wtPlanID task"
    "wtTaskRef t = wtTaskRef task" "wtStatus t = nxt" "wtUpdatedAt t = now"
    "wtDecompositionQuality t = wtDecompositionQuality task" "wtCreatedAt t = wtCreatedAt task"
    "wtDependencyTaskIDs t = wtDependencyTaskIDs task"
    by (simp_all add: applyScalars_frame [OF 1] applyRefs_frame [OF 2])
qed

lemma stepsTo_keys:
  "stepsTo st now input nxt task t \<Longrightarrow> taskKeyOf t = taskKeyOf task \<and> taskRefOf t = taskRefOf task"
  by (simp add: taskKeyOf_def taskRefOf_def stepsTo_frame)

lemma stepsTo_claim:
  "stepsTo st now input nxt task t \<Longrightarrow>
   wtClaimedByRunID t =
     (if nxt = WorkTaskStatusReady then []
      else if taRunID input \<noteq> [] then trimSpace (taRunID input) else wtClaimedByRunID task)"
proof -
  assume "stepsTo st now input nxt task t"
  then obtain t1 t2 where 1: "applyScalars task input = Inr t1" and 2: "applyRefs t1 input = Inr t2"
    and "t = enterStatus t2 nxt now" by (auto simp: stepsTo_def)
  then show ?thesis
    by (simp add: applyScalars_claim [OF 1] applyRefs_frame [OF 2])
qed

lemma stepsTo_edge:
  "stepsTo st now input nxt task t \<Longrightarrow>
   allowsGitOpsRecoveryRerun task input nxt \<or> taskEdge (wtStatus task) nxt"
  by (auto simp: stepsTo_def transitionGuards_def res_simps validateTaskTransition_Inr split: if_splits)

lemma svcCreateWorkPlan_Inr:
  assumes "svcCreateWorkPlan st now newID input = (Inr p, st')"
  shows "\<not> hasPlanRef st (planRefOf p)" "st' = addPlan st p" "wpStatus p = WorkPlanStatusPlanned"
    "wpID p = newID" "safeRef (cpProjectID input) ''project_id'' = Inr (wpProjectID p)"
    "safeRef (cpPlanRef input) ''plan_ref'' = Inr (wpPlanRef p)" "wpCreatedAt p = now"
  using assms by (auto simp: svcCreateWorkPlan_def res_simps memCreateWorkPlan_eq Let_def split: if_splits)

lemma initialTaskStatus_Inr:
  "initialTaskStatus input q = Inr s \<Longrightarrow>
   s \<in> set workTaskStatuses \<and> \<not> isTerminalTaskStatus s \<and> (s = WorkTaskStatusBlocked \<longrightarrow> ctStatus input \<noteq> [])"
  by (auto simp: initialTaskStatus_def res_simps safeTaskStatus_def workTaskStatuses_def
      isTerminalTaskStatus_def split: if_splits)

lemma buildTask_Inr:
  assumes "buildTask now newID p i taskRef title desc owner run trace input = Inr t"
  shows "wtID t = newID" "wtProjectID t = p" "wtPlanID t = i" "wtTaskRef t = taskRef"
    "initialTaskStatus input (wtDecompositionQuality t) = Inr (wtStatus t)"
    "wtClaimedByRunID t = []" "wtVerifierResultRefs t = []" "wtReviewResultRefs t = []"
    "safeDecompositionQuality (wtDecompositionQuality t) \<noteq> Inl e"
    "wtVerificationRequirement t \<noteq> []" "normalRefs (wtDependencyTaskIDs t)"
    "ctDecompositionQuality input \<noteq> [] \<Longrightarrow> wtDecompositionQuality t = ctDecompositionQuality input"
  using assms by (auto simp: buildTask_def res_simps Let_def safe_simps dest: safeRefList_Inr)

lemma svcCreateWorkTask_Inr:
  assumes "svcCreateWorkTask st now newID input = (Inr t, st')"
  obtains p i taskRef title desc owner run trace where
    "safeProjectObject (ctProjectID input) (ctPlanID input) ''plan_id'' = Inr (p, i)"
    "getPlan st (planKey p i) \<noteq> None"
    "buildTask now newID p i taskRef title desc owner run trace input = Inr t"
    "safeRef (ctTaskRef input) ''task_ref'' = Inr taskRef"
    "\<not> hasTaskRef st (taskRefOf t)" "st' = addTask st t"
  using assms
  by (auto simp: svcCreateWorkTask_def res_simps memGetWorkPlan_Inr memCreateWorkTask_eq split: if_splits)

lemma svcExpandWorkTaskScope_Inr:
  assumes "svcExpandWorkTaskScope st now input = (Inr t, st')"
  obtains p i task where
    "safeProjectObject (exProjectID input) (exTaskID input) ''task_id'' = Inr (p, i)"
    "getTask st (taskKey p i) = Some task" "wtStatus t = wtStatus task" "taskKeyOf t = taskKeyOf task"
    "taskRefOf t = taskRefOf task" "wtPlanID t = wtPlanID task" "wtProjectID t = wtProjectID task"
    "wtBlockedReason t = wtBlockedReason task" "wtClaimedByRunID t = wtClaimedByRunID task"
    "wtVerifierResultRefs t = wtVerifierResultRefs task" "wtReviewResultRefs t = wtReviewResultRefs task"
    "wtReviewExemptReason t = wtReviewExemptReason task"
    "wtResumeInstructions task \<noteq> [] \<Longrightarrow> wtResumeInstructions t \<noteq> []" "st' = putTask st t"
  using assms
  by (auto simp: svcExpandWorkTaskScope_def res_simps memGetWorkTask_Inr memUpdateWorkTask_eq taskKeyOf_def
      taskRefOf_def split: if_splits)

lemma updatePlanFields_Inr:
  assumes "updatePlanFields plan input nxt now = Inr p"
  shows "wpID p = wpID plan" "wpProjectID p = wpProjectID plan" "wpPlanRef p = wpPlanRef plan"
    "wpStatus p = nxt" "wpUpdatedAt p = now" "wpCreatedAt p = wpCreatedAt plan"
  using assms by (auto simp: updatePlanFields_def res_simps)

lemma withAttachmentRef_Inr:
  assumes "withAttachmentRef task kind ref = Inr t"
  shows "wtID t = wtID task" "wtProjectID t = wtProjectID task" "wtPlanID t = wtPlanID task"
    "wtTaskRef t = wtTaskRef task" "wtClaimedByRunID t = wtClaimedByRunID task"
    "wtBlockedReason t = wtBlockedReason task" "wtResumeInstructions t = wtResumeInstructions task"
    "wtReviewExemptReason t = wtReviewExemptReason task"
    "wtVerifierResultRefs task \<noteq> [] \<Longrightarrow> ref \<noteq> [] \<Longrightarrow> wtVerifierResultRefs t \<noteq> []"
    "wtReviewResultRefs task \<noteq> [] \<Longrightarrow> ref \<noteq> [] \<Longrightarrow> wtReviewResultRefs t \<noteq> []"
    "wtStatus t = wtStatus task \<or> wtStatus task = WorkTaskStatusInProgress
       \<and> (kind = ''verifier_result_ref'' \<and> wtStatus t = WorkTaskStatusVerifying
          \<or> kind = ''review_result_ref'' \<and> wtStatus t = WorkTaskStatusNeedsReview)"
  using assms
  by (auto simp: withAttachmentRef_def Let_def res_simps appendUnique_def split: if_splits)
    (metis empty_iff insertCI set_append set_empty set_unique Diff_iff list.set(1) list.set(2) Un_iff singletonD)+

end
