(* ===== verification/WorkPlan_Invariant.thy ===== *)
theory WorkPlan_Invariant
  imports WorkPlan_Lemmas
begin

section \<open>Work plans: the invariant of the store\<close>

text \<open>
  The calls of the service as a step relation over the store, the reachable stores, and the
  invariant that all of them have: objects sit under their own key, references are indexed
  and name one object, tasks belong to a stored plan, attachments to a stored task of the
  same plan, and a done task has passed its gates. A creation step assumes that the random
  identifier is not in use.
\<close>

subsection \<open>Objects\<close>

definition planValid :: "WorkPlan \<Rightarrow> bool" where
  "planValid p = (wpStatus p \<in> set workPlanStatuses)"

text \<open>The gates of a done task: verifier results, and reviews or an exemption.\<close>

definition doneGates :: "WorkTask \<Rightarrow> bool" where
  "doneGates t =
     (wtStatus t = WorkTaskStatusDone \<longrightarrow>
        wtVerifierResultRefs t \<noteq> [] \<and> (wtReviewResultRefs t \<noteq> [] \<or> \<not> isBlank (wtReviewExemptReason t)))"

definition taskValid :: "WorkTask \<Rightarrow> bool" where
  "taskValid t = (wtStatus t \<in> set workTaskStatuses \<and> doneGates t)"

definition attachmentsValid :: "WorkPlanStore \<Rightarrow> bool" where
  "attachmentsValid st \<longleftrightarrow>
     (\<forall>k. \<forall>a \<in> set (attachmentsOf st k). k = taskKey (atProjectID a) (atTaskID a)
        \<and> (\<exists>t. getTask st k = Some t \<and> wtPlanID t = atPlanID a))"

definition tasksInPlans :: "WorkPlanStore \<Rightarrow> bool" where
  "tasksInPlans st \<longleftrightarrow>
     (\<forall>k t. getTask st k = Some t \<longrightarrow> getPlan st (planKey (wtProjectID t) (wtPlanID t)) \<noteq> None)"

definition storeInv :: "WorkPlanStore \<Rightarrow> bool" where
  "storeInv st \<longleftrightarrow>
     twf (plans st) \<and> twf (tasks st)
     \<and> keyed getPlan planKeyOf st \<and> keyed getTask taskKeyOf st
     \<and> indexed getPlan hasPlanRef planRefOf st \<and> indexed getTask hasTaskRef taskRefOf st
     \<and> injRefs getPlan planRefOf st \<and> injRefs getTask taskRefOf st
     \<and> allVals getPlan planValid st \<and> allVals getTask taskValid st
     \<and> tasksInPlans st \<and> attachmentsValid st"

lemma storeInvD:
  assumes "storeInv st"
  shows "twf (plans st)" "twf (tasks st)" "keyed getPlan planKeyOf st" "keyed getTask taskKeyOf st"
    "indexed getPlan hasPlanRef planRefOf st" "indexed getTask hasTaskRef taskRefOf st"
    "injRefs getPlan planRefOf st" "injRefs getTask taskRefOf st"
    "allVals getPlan planValid st" "allVals getTask taskValid st" "tasksInPlans st" "attachmentsValid st"
  using assms by (auto simp: storeInv_def)

lemma storeInv_empty: "storeInv newMemoryStore"
  by (simp add: storeInv_def newMemoryStore_def keyed_def indexed_def injRefs_def allVals_def
      tasksInPlans_def attachmentsValid_def getPlan_def getTask_def attachmentsOf_def)

subsection \<open>Writes\<close>

text \<open>Facts that do not depend on the table a write changes.\<close>

lemma pred_frames [simp]:
  "keyed getTask f (putPlan st p) = keyed getTask f st" "keyed getTask f (addPlan st p) = keyed getTask f st"
  "keyed getPlan g (putTask st t) = keyed getPlan g st" "keyed getPlan g (addTask st t) = keyed getPlan g st"
  "injRefs getTask h (putPlan st p) = injRefs getTask h st"
  "injRefs getTask h (addPlan st p) = injRefs getTask h st"
  "injRefs getPlan h' (putTask st t) = injRefs getPlan h' st"
  "injRefs getPlan h' (addTask st t) = injRefs getPlan h' st"
  "allVals getTask P (putPlan st p) = allVals getTask P st"
  "allVals getTask P (addPlan st p) = allVals getTask P st"
  "allVals getPlan Q (putTask st t) = allVals getPlan Q st"
  "allVals getPlan Q (addTask st t) = allVals getPlan Q st"
  "indexed getTask hasTaskRef h (putPlan st p) = indexed getTask hasTaskRef h st"
  "indexed getTask hasTaskRef h (addPlan st p) = indexed getTask hasTaskRef h st"
  "indexed getPlan hasPlanRef h' (putTask st t) = indexed getPlan hasPlanRef h' st"
  "indexed getPlan hasPlanRef h' (addTask st t) = indexed getPlan hasPlanRef h' st"
  "keyed getTask f (addAttachment st a) = keyed getTask f st"
  "keyed getPlan g (addAttachment st a) = keyed getPlan g st"
  "injRefs getTask h (addAttachment st a) = injRefs getTask h st"
  "injRefs getPlan h' (addAttachment st a) = injRefs getPlan h' st"
  "allVals getTask P (addAttachment st a) = allVals getTask P st"
  "allVals getPlan Q (addAttachment st a) = allVals getPlan Q st"
  "indexed getTask hasTaskRef h (addAttachment st a) = indexed getTask hasTaskRef h st"
  "indexed getPlan hasPlanRef h' (addAttachment st a) = indexed getPlan hasPlanRef h' st"
  by (simp_all add: keyed_def injRefs_def allVals_def indexed_def)

lemma planStore_get:
  "getPlan (putPlan st p) k = (if k = planKeyOf p then Some p else getPlan st k)"
  "getPlan (addPlan st p) k = (if k = planKeyOf p then Some p else getPlan st k)"
  by (rule planStore.get_put planStore.get_add)+

lemma taskStore_get:
  "getTask (putTask st t) k = (if k = taskKeyOf t then Some t else getTask st k)"
  "getTask (addTask st t) k = (if k = taskKeyOf t then Some t else getTask st k)"
  by (rule taskStore.get_put taskStore.get_add)+

lemma storeInv_addPlan:
  assumes "storeInv st" and "\<not> hasPlanRef st (planRefOf p)" and "planValid p"
  shows "storeInv (addPlan st p)"
  using assms
  by (simp add: storeInv_def planStore.adding.keyed_put planStore.indexed_add planStore.injRefs_add
      planStore.adding.allVals_put)
    (auto simp: tasksInPlans_def attachmentsValid_def planStore_get)

lemma storeInv_putPlan:
  assumes "storeInv st" and "getPlan st (planKeyOf p) = Some p0" and "planRefOf p = planRefOf p0"
    and "planValid p"
  shows "storeInv (putPlan st p)"
  using assms
  by (simp add: storeInv_def planStore.keyed_put planStore.indexed_put planStore.injRefs_put
      planStore.allVals_put)
    (auto simp: tasksInPlans_def attachmentsValid_def planStore_get)

lemma storeInv_addTask:
  assumes "storeInv st" and "\<not> hasTaskRef st (taskRefOf t)" and "taskValid t"
    and "getTask st (taskKeyOf t) = None"
    and "getPlan st (planKey (wtProjectID t) (wtPlanID t)) \<noteq> None"
  shows "storeInv (addTask st t)"
  using assms
  by (simp add: storeInv_def taskStore.adding.keyed_put taskStore.indexed_add taskStore.injRefs_add
      taskStore.adding.allVals_put)
    (fastforce simp: tasksInPlans_def attachmentsValid_def taskStore_get)

lemma storeInv_putTask:
  assumes "storeInv st" and "getTask st (taskKeyOf t) = Some t0" and "taskRefOf t = taskRefOf t0"
    and "wtPlanID t = wtPlanID t0" and "wtProjectID t = wtProjectID t0" and "taskValid t"
  shows "storeInv (putTask st t)"
  using assms
  by (simp add: storeInv_def taskStore.keyed_put taskStore.indexed_put taskStore.injRefs_put
      taskStore.allVals_put)
    (fastforce simp: tasksInPlans_def attachmentsValid_def taskStore_get)

lemma storeInv_addAttachment:
  assumes "storeInv st" and "getTask st (taskKey (atProjectID a) (atTaskID a)) = Some t"
    and "wtPlanID t = atPlanID a"
  shows "storeInv (addAttachment st a)"
  using assms
  by (simp add: storeInv_def)
    (fastforce simp: tasksInPlans_def attachmentsValid_def attachmentsOf_add split: if_splits)

subsection \<open>Operations\<close>

text \<open>A failed call leaves the store as it was.\<close>

lemma createPlan_failed: "svcCreateWorkPlan st now newID input = (Inl e, st') \<Longrightarrow> st' = st"
  unfolding svcCreateWorkPlan_def memCreateWorkPlan_eq Let_def
  by (auto elim!: tryS_failed split: if_splits)

lemma createTask_failed: "svcCreateWorkTask st now newID input = (Inl e, st') \<Longrightarrow> st' = st"
  unfolding svcCreateWorkTask_def memCreateWorkTask_eq
  by (auto elim!: tryS_failed split: if_splits prod.splits)

lemma expand_failed: "svcExpandWorkTaskScope st now input = (Inl e, st') \<Longrightarrow> st' = st"
  unfolding svcExpandWorkTaskScope_def memUpdateWorkTask_eq
  by (auto elim!: tryS_failed split: if_splits prod.splits)

lemma planStatus_failed: "svcUpdateWorkPlanStatus None st now input = (Inl e, st') \<Longrightarrow> st' = st"
  unfolding svcUpdateWorkPlanStatus_def memUpdateWorkPlan_eq notifyStatusChange_def
  by (auto elim!: tryS_failed split: if_splits prod.splits sum.splits)

lemma storeInv_createPlan:
  assumes "storeInv st" and "svcCreateWorkPlan st now newID input = (r, st')"
  shows "storeInv st'"
proof (cases r)
  case (Inr p)
  with svcCreateWorkPlan_Inr [of st now newID input p st'] assms show ?thesis
    by (auto intro!: storeInv_addPlan simp: planValid_def workPlanStatuses_def)
next
  case (Inl e)
  have "st' = st" using assms(2) Inl createPlan_failed by blast
  with assms show ?thesis by simp
qed

lemma planStatus_cases:
  assumes "svcUpdateWorkPlanStatus None st now input = (r, st')" and "keyed getPlan planKeyOf st"
  obtains (same) "st' = st"
  | (put) plan p nxt where "getPlan st (planKeyOf p) = Some plan" "planEdge (wpStatus plan) nxt"
      "wpStatus p = nxt" "planRefOf p = planRefOf plan" "safePlanStatus (upStatus input) = Inr nxt"
      "st' = putPlan st p" "r = Inr p"
proof (cases r)
  case (Inl e)
  have "st' = st" using assms(1) Inl planStatus_failed by blast
  with that(1) show ?thesis by simp
next
  case (Inr p)
  with assms(1) obtain a b plan nxt where plan: "getPlan st (planKey a b) = Some plan"
    and nxt: "safePlanStatus (upStatus input) = Inr nxt" "planEdge (wpStatus plan) nxt"
    and p: "updatePlanFields plan input nxt now = Inr p" and st': "st' = putPlan st p"
    by (auto simp: svcUpdateWorkPlanStatus_def tryS_Inr memGetWorkPlan_Inr validatePlanTransition_Inr
        memUpdateWorkPlan_eq notifyStatusChange_def split: if_splits)
  have "planKeyOf p = planKeyOf plan" "planRefOf p = planRefOf plan"
    by (simp_all add: planKeyOf_def planRefOf_def updatePlanFields_Inr [OF p])
  moreover have "planKeyOf plan = planKey a b" using assms(2) plan by (rule keyedD)
  ultimately show ?thesis
    using that(2) plan nxt st' Inr updatePlanFields_Inr(4) [OF p] by metis
qed

lemma storeInv_planStatus:
  assumes "storeInv st" and "svcUpdateWorkPlanStatus None st now input = (r, st')"
  shows "storeInv st'"
  using assms(2) storeInvD(3) [OF assms(1)]
proof (cases rule: planStatus_cases)
  case (put plan p nxt)
  then have "planValid p"
    by (auto simp: planValid_def safePlanStatus_def split: if_splits)
  with put assms(1) show ?thesis by (auto intro: storeInv_putPlan)
qed (use assms in simp)

lemma storeInv_createTask:
  assumes inv: "storeInv st" and op: "svcCreateWorkTask st now newID input = (r, st')"
    and fresh: "\<And>p. getTask st (taskKey p newID) = None"
  shows "storeInv st'"
proof (cases r)
  case (Inl e)
  have "st' = st" using op Inl createTask_failed by blast
  with inv show ?thesis by simp
next
  case (Inr t)
  with op obtain p i taskRef title desc owner run trace where
    plan: "getPlan st (planKey p i) \<noteq> None"
    and bt: "buildTask now newID p i taskRef title desc owner run trace input = Inr t"
    and ref: "\<not> hasTaskRef st (taskRefOf t)" and st': "st' = addTask st t"
    by (metis svcCreateWorkTask_Inr)
  note b = buildTask_Inr [OF bt]
  have "taskValid t"
    using initialTaskStatus_Inr [OF b(5)]
    by (auto simp: taskValid_def doneGates_def isTerminalTaskStatus_def)
  with inv ref plan fresh show ?thesis
    unfolding st' by (auto intro!: storeInv_addTask simp: b taskKeyOf_def)
qed

lemma finishGuards_doneGates: "finishGuards st t (wtStatus t) = Inr u \<Longrightarrow> doneGates t"
  by (auto simp: finishGuards_Inr doneGates_def)

lemma storeInv_transition:
  assumes inv: "storeInv st" and op: "transitionTask st now input nxt = (r, st')"
    and nxt: "nxt \<in> set workTaskStatuses"
  shows "storeInv st'"
proof (cases r)
  case (Inl e)
  with op inv transitionTask_failed show ?thesis by metis
next
  case (Inr t)
  show ?thesis
    using op [unfolded Inr]
  proof (cases rule: transitionTask_cases)
    case (moved p i task)
    have key: "taskKeyOf task = taskKey p i"
      using keyedD [OF storeInvD(4) [OF inv] moved(2)] .
    have "finishGuards st t (wtStatus t) = Inr ()"
      using moved(5) by (simp add: stepsTo_frame(5) [OF moved(5)]) (simp add: stepsTo_def)
    then have "taskValid t"
      using nxt by (simp add: taskValid_def finishGuards_doneGates stepsTo_frame [OF moved(5)])
    with moved inv key show ?thesis
      by (auto intro!: storeInv_putTask simp: stepsTo_keys [OF moved(5)] stepsTo_frame [OF moved(5)])
  qed (use inv in simp)
qed

lemma storeInv_expand:
  assumes inv: "storeInv st" and op: "svcExpandWorkTaskScope st now input = (r, st')"
  shows "storeInv st'"
proof (cases r)
  case (Inl e)
  have "st' = st" using op Inl expand_failed by blast
  with inv show ?thesis by simp
next
  case (Inr t)
  from op [unfolded Inr] show ?thesis
  proof (cases rule: svcExpandWorkTaskScope_Inr)
    case (1 p i task)
    have "taskValid task" using inv 1(2) by (auto simp: storeInv_def dest: allValsD)
    then have "taskValid t" using 1 by (auto simp: taskValid_def doneGates_def)
    moreover have "taskKeyOf task = taskKey p i"
      using keyedD [OF storeInvD(4) [OF inv] 1(2)] .
    ultimately show ?thesis using 1 inv by (auto intro!: storeInv_putTask)
  qed
qed

subsection \<open>Attaching\<close>

definition attachWrite ::
    "WorkPlanStore \<Rightarrow> time \<Rightarrow> string \<Rightarrow> WorkTask \<Rightarrow> Attachment \<Rightarrow> Attachment res \<times> WorkPlanStore" where
  "attachWrite st now' kind task a =
     (case memCreateAttachment st a of
        (Inl e, st') \<Rightarrow> (Inl e, st')
      | (Inr created, st') \<Rightarrow>
          (case addAttachmentRef st' now' task kind (atRef a) of
             (Inl e, st'') \<Rightarrow> (Inl e, st'')
           | (Inr _, st'') \<Rightarrow> (Inr created, st'')))"

lemma attach_eq:
  "attach st now now' newID kind input =
     tryS (safeProjectObject (aiProjectID input) (aiTaskID input) ''task_id'') st (\<lambda>(projectID, taskID).
     tryS (memGetWorkTask st projectID taskID) st (\<lambda>task.
     tryS (safeRef (aiRef input) kind) st (\<lambda>ref.
     tryS (safeOptionalRef (aiAttachedByRunID input) ''attached_by_run_id'') st (\<lambda>runID.
     tryS (failIf (kind = ''review_result_ref'' \<and> runID \<noteq> [] \<and> wtClaimedByRunID task \<noteq> []
              \<and> runID = wtClaimedByRunID task)
        (ErrInvalidInput ''review_result_ref must be attached by an independent run'')) st (\<lambda>_.
     tryS (safeOptionalRef (aiTraceID input) ''trace_id'') st (\<lambda>traceID.
     tryS (safeOptionalText (aiNote input) ''note'' 300) st (\<lambda>note.
     attachWrite st now' kind task
       \<lparr>atID = newID, atProjectID = projectID, atPlanID = wtPlanID task, atTaskID = taskID,
        atKind = kind, atRef = ref, atAttachedByRunID = runID, atTraceID = traceID, atNote = note,
        atCreatedAt = now\<rparr>)))))))"
  unfolding attach_def attachWrite_def Attachment.select_convs by (rule refl)

text \<open>A call that is refused writes nothing; otherwise it writes an attachment, then the task.\<close>

lemma attach_cases:
  assumes "attach st now now' newID kind input = (r, st')"
  obtains (refused) e where "st' = st" "r = Inl e"
  | (attached) p i task a where
      "getTask st (taskKey p i) = Some task" "safeRef (aiRef input) kind = Inr (atRef a)"
      "atProjectID a = p" "atTaskID a = i" "atPlanID a = wtPlanID task" "atKind a = kind"
      "safeOptionalRef (aiAttachedByRunID input) ''attached_by_run_id'' = Inr (atAttachedByRunID a)"
      "\<not> (kind = ''review_result_ref'' \<and> atAttachedByRunID a \<noteq> [] \<and> atAttachedByRunID a = wtClaimedByRunID task)"
      "safeProjectObject (aiProjectID input) (aiTaskID input) ''task_id'' = Inr (p, i)"
      "attachWrite st now' kind task a = (r, st')"
proof -
  note asm = assms [unfolded attach_eq]
  from asm show thesis
  proof (rule tryS_E, goal_cases)
    case (2 pi)
    obtain p i where pi: "pi = (p, i)" by (cases pi)
    from 2(2) [unfolded pi prod.case] show ?case
      using that(1)
      by (elim tryS_E; simp only: failIf_Inr memGetWorkTask_Inr)
        (rule that(2), use 2(1) pi in \<open>auto\<close>)
  qed (use that(1) in blast)
qed

lemma attachWrite_eq:
  assumes "getTask st (taskKey (atProjectID a) (atTaskID a)) = Some task" and "atPlanID a = wtPlanID task"
    and "keyed getTask taskKeyOf st"
  shows "attachWrite st now' kind task a =
     (case withAttachmentRef task kind (atRef a) of
        Inl e \<Rightarrow> (Inl e, addAttachment st a)
      | Inr t \<Rightarrow> (Inr a, putTask (addAttachment st a) (t\<lparr>wtUpdatedAt := now'\<rparr>)))"
proof -
  have "taskKeyOf task = taskKey (atProjectID a) (atTaskID a)"
    using keyedD [OF assms(3,1)] .
  then have "withAttachmentRef task kind (atRef a) = Inr t \<Longrightarrow>
      getTask st (taskKeyOf (t\<lparr>wtUpdatedAt := now'\<rparr>)) = Some task" for t
    using assms(1) withAttachmentRef_Inr(1,2) by (simp add: taskKeyOf_def)
  then show ?thesis
    using assms(1,2)
    by (auto simp: attachWrite_def memCreateAttachment_eq addAttachmentRef_def tryS_def memUpdateWorkTask_eq
        split: sum.splits)
qed

lemma storeInv_attach:
  assumes inv: "storeInv st" and op: "attach st now now' newID kind input = (r, st')"
  shows "storeInv st'"
  using op
proof (cases rule: attach_cases)
  case (attached p i task a)
  have task: "getTask st (taskKey (atProjectID a) (atTaskID a)) = Some task"
    using attached by simp
  have key: "taskKeyOf task = taskKey (atProjectID a) (atTaskID a)"
    using keyedD [OF storeInvD(4) [OF inv] task] .
  have inv1: "storeInv (addAttachment st a)"
    using inv task attached(5) by (auto intro: storeInv_addAttachment)
  have valid: "taskValid task" using inv task by (auto simp: storeInv_def dest: allValsD)
  have ne: "atRef a \<noteq> []" using attached(2) safeRef_nonempty by blast
  note w = attachWrite_eq [OF task attached(5) storeInvD(4) [OF inv], of now' kind]
  show ?thesis
  proof (cases "withAttachmentRef task kind (atRef a)")
    case (Inl e)
    with w attached(10) inv1 show ?thesis by simp
  next
    case (Inr t)
    note f = withAttachmentRef_Inr [OF Inr]
    have "taskValid (t\<lparr>wtUpdatedAt := now'\<rparr>)"
      using valid f ne by (auto simp: taskValid_def doneGates_def workTaskStatuses_def)
    then have "storeInv (putTask (addAttachment st a) (t\<lparr>wtUpdatedAt := now'\<rparr>))"
      using inv1 task key f by (auto intro!: storeInv_putTask simp: taskKeyOf_def taskRefOf_def)
    with w Inr attached(10) show ?thesis by simp
  qed
qed (use inv in simp)

end
