(* ===== verification/WorkPlan_Reachable.thy ===== *)
theory WorkPlan_Reachable
  imports WorkPlan_Invariant
begin

section \<open>Work plans: runs of the service\<close>

text \<open>
  One rule per public method that writes; any result, success or failure, is a step. The
  handler's own writes are steps of their own, so the plan status rule has no handler. The raw
  \<open>UpdateWorkTask\<close> is used by the workflow compiler to set dependencies, and its rule keeps
  to that: it does not change status, plan or references.
\<close>

definition attachKinds :: "string list" where
  "attachKinds = [''evidence_ref'', ''context_pack_ref'', ''claim_ref'', ''verifier_result_ref'',
     ''review_result_ref'', ''knowledge_candidate_ref'']"

definition sameCore :: "WorkTask \<Rightarrow> WorkTask \<Rightarrow> bool" where
  "sameCore t t0 =
     (wtProjectID t = wtProjectID t0 \<and> wtID t = wtID t0 \<and> wtPlanID t = wtPlanID t0
      \<and> wtTaskRef t = wtTaskRef t0 \<and> wtStatus t = wtStatus t0
      \<and> wtVerifierResultRefs t = wtVerifierResultRefs t0
      \<and> wtReviewResultRefs t = wtReviewResultRefs t0
      \<and> wtReviewExemptReason t = wtReviewExemptReason t0)"

inductive wpStep :: "WorkPlanStore \<Rightarrow> WorkPlanStore \<Rightarrow> bool" where
  create_plan: "svcCreateWorkPlan st now newID i = (r, st') \<Longrightarrow> \<forall>p. getPlan st (planKey p newID) = None
    \<Longrightarrow> wpStep st st'"
| plan_status: "svcUpdateWorkPlanStatus None st now ip = (r, st') \<Longrightarrow> wpStep st st'"
| create_task: "svcCreateWorkTask st now newID it = (rt, st') \<Longrightarrow> \<forall>p. getTask st (taskKey p newID) = None
    \<Longrightarrow> wpStep st st'"
| task_call: "(rt, st') \<in> {svcClaimWorkTask st now ia, svcReleaseWorkTask st now ia,
      svcStartWorkTask st now ia, svcCompleteWorkTask st now ia, svcFailWorkTask st now ia,
      svcBlockWorkTask st now ia} \<Longrightarrow> wpStep st st'"
| task_status: "svcUpdateWorkTaskStatus st now iu = (rt, st') \<Longrightarrow> wpStep st st'"
| expand: "svcExpandWorkTaskScope st now ie = (rt, st') \<Longrightarrow> wpStep st st'"
| attach_ref: "attach st now now' newID kind ii = (ra, st') \<Longrightarrow> kind \<in> set attachKinds \<Longrightarrow> wpStep st st'"
| update_task: "svcUpdateWorkTask st now t = (rt, st') \<Longrightarrow> getTask st (taskKeyOf t) = Some t0 \<Longrightarrow> sameCore t t0
    \<Longrightarrow> wpStep st st'"

inductive wpReachable :: "WorkPlanStore \<Rightarrow> bool" where
  init: "wpReachable newMemoryStore"
| step: "wpReachable st \<Longrightarrow> wpStep st st' \<Longrightarrow> wpReachable st'"

text \<open>Every task call is a transition to one of the statuses.\<close>

lemma task_call_transition:
  assumes "(r, st') \<in> {svcClaimWorkTask st now i, svcReleaseWorkTask st now i, svcStartWorkTask st now i,
     svcCompleteWorkTask st now i, svcFailWorkTask st now i, svcBlockWorkTask st now i}"
  shows "\<exists>nxt \<in> set workTaskStatuses. transitionTask st now i nxt = (r, st')"
  using assms
  by (auto simp: svcClaimWorkTask_def svcReleaseWorkTask_def svcStartWorkTask_def
      svcCompleteWorkTask_def svcFailWorkTask_def svcBlockWorkTask_def workTaskStatuses_def)

lemma svcUpdateWorkTaskStatus_cases:
  assumes "svcUpdateWorkTaskStatus st now iu = (r, st')"
  obtains (refused) "st' = st"
  | (moved) nxt where "nxt \<in> set workTaskStatuses"
      "transitionTask st now (WorkTaskActionInput.truncate iu) nxt = (r, st')"
  using assms unfolding svcUpdateWorkTaskStatus_def
  by (auto elim!: tryS_E simp: safeTaskStatus_def split: if_splits)

lemma svcUpdateWorkTask_cases:
  "svcUpdateWorkTask st now t = (r, st') \<Longrightarrow> st' = st \<or> st' = putTask st (t\<lparr>wtUpdatedAt := now\<rparr>)"
  unfolding svcUpdateWorkTask_def memUpdateWorkTask_eq
  by (auto elim!: tryS_E split: if_splits)

lemma storeInv_updateTask:
  assumes inv: "storeInv st" and op: "svcUpdateWorkTask st now t = (r, st')"
    and t0: "getTask st (taskKeyOf t) = Some t0" and core: "sameCore t t0"
  shows "storeInv st'"
proof -
  have "taskValid t0" using inv t0 by (auto simp: storeInv_def dest: allValsD)
  then have "taskValid (t\<lparr>wtUpdatedAt := now\<rparr>)"
    using core by (simp add: taskValid_def doneGates_def sameCore_def)
  then have "storeInv (putTask st (t\<lparr>wtUpdatedAt := now\<rparr>))"
    using inv t0 core by (auto intro!: storeInv_putTask simp: taskKeyOf_def taskRefOf_def sameCore_def)
  with inv svcUpdateWorkTask_cases [OF op] show ?thesis by auto
qed

lemma storeInv_step: "wpStep st st' \<Longrightarrow> storeInv st \<Longrightarrow> storeInv st'"
proof (induction rule: wpStep.induct)
  case (task_status st now iu rt st')
  from task_status.hyps show ?case
    by (rule svcUpdateWorkTaskStatus_cases) (use task_status.prems storeInv_transition in auto)
next
  case (task_call rt st' st now ia)
  then show ?case by (meson storeInv_transition task_call_transition)
next
  case (create_task st now newID it rt st')
  then show ?case by (blast intro: storeInv_createTask)
qed (blast intro: storeInv_createPlan storeInv_planStatus storeInv_expand storeInv_attach
    storeInv_updateTask)+

lemma reachable_inv: "wpReachable st \<Longrightarrow> storeInv st"
  by (induction rule: wpReachable.induct) (auto intro: storeInv_empty storeInv_step)

subsection \<open>A task through the steps\<close>

text \<open>What one step can do to a stored task: it stays, and its status moves along an edge.\<close>

definition taskMove :: "WorkTask \<Rightarrow> WorkTask \<Rightarrow> bool" where
  "taskMove t t' =
     (taskKeyOf t' = taskKeyOf t \<and> wtPlanID t' = wtPlanID t \<and> wtTaskRef t' = wtTaskRef t
      \<and> (taskEdge (wtStatus t) (wtStatus t')
         \<or> wtStatus t = WorkTaskStatusVerifying \<and> wtStatus t' = WorkTaskStatusReady))"

lemma taskMove_refl: "taskMove t t"
  by (simp add: taskMove_def taskEdge_def)

lemma taskEdge_attach:
  "taskEdge WorkTaskStatusInProgress WorkTaskStatusVerifying"
  "taskEdge WorkTaskStatusInProgress WorkTaskStatusNeedsReview"
  by (simp_all add: taskEdge_def taskTransitions_def tget_def)

lemma transition_taskMove:
  assumes "transitionTask st now input nxt = (r, st')" and "keyed getTask taskKeyOf st"
    and "getTask st k = Some t"
  shows "\<exists>t'. getTask st' k = Some t' \<and> taskMove t t'"
proof (cases r)
  case (Inl e)
  with assms transitionTask_failed taskMove_refl show ?thesis by metis
next
  case (Inr u)
  show ?thesis
    using assms(1) [unfolded Inr]
  proof (cases rule: transitionTask_cases)
    case (moved p i task)
    have key: "taskKeyOf u = taskKey p i"
      using keyedD [OF assms(2) moved(2)] stepsTo_keys [OF moved(5)] by simp
    have "taskMove task u"
      using stepsTo_edge [OF moved(5)] stepsTo_keys [OF moved(5)] stepsTo_frame [OF moved(5)]
      by (auto simp: taskMove_def allowsGitOpsRecoveryRerun_def)
    with moved assms(3) key show ?thesis
      by (cases "k = taskKey p i") (auto simp: taskStore_get taskMove_refl)
  qed (use assms(3) taskMove_refl in blast)
qed

lemma attach_taskMove:
  assumes "attach st now now' newID kind input = (r, st')" and "keyed getTask taskKeyOf st"
    and "getTask st k = Some t"
  shows "\<exists>t'. getTask st' k = Some t' \<and> taskMove t t'"
  using assms(1)
proof (cases rule: attach_cases)
  case (attached p i task a)
  have task: "getTask st (taskKey (atProjectID a) (atTaskID a)) = Some task"
    using attached by simp
  have key: "taskKeyOf task = taskKey p i"
    using keyedD [OF assms(2) attached(1)] .
  note w = attachWrite_eq [OF task attached(5) assms(2), of now' kind]
  show ?thesis
  proof (cases "withAttachmentRef task kind (atRef a)")
    case (Inl e)
    with w attached(10) assms(3) show ?thesis by (auto intro: taskMove_refl)
  next
    case (Inr u)
    note f = withAttachmentRef_Inr [OF Inr]
    have move: "taskMove task (u\<lparr>wtUpdatedAt := now'\<rparr>)"
      using f taskEdge_attach by (auto simp: taskMove_def taskKeyOf_def taskEdge_def)
    have ukey: "taskKeyOf (u\<lparr>wtUpdatedAt := now'\<rparr>) = taskKey p i"
      using f key by (simp add: taskKeyOf_def)
    from w Inr attached(10) have "st' = putTask (addAttachment st a) (u\<lparr>wtUpdatedAt := now'\<rparr>)" by simp
    with assms(3) attached(1) move ukey show ?thesis
      by (cases "k = taskKey p i") (auto simp: taskStore_get taskMove_refl)
  qed
qed (use assms(3) taskMove_refl in blast)

lemma create_keeps:
  assumes "svcCreateWorkTask st now newID input = (r, st')"
    and "\<forall>p. getTask st (taskKey p newID) = None" and "getTask st k = Some t"
  shows "getTask st' k = Some t"
proof (cases r)
  case (Inl e)
  have "st' = st" using assms(1) Inl createTask_failed by blast
  with assms show ?thesis by simp
next
  case (Inr u)
  from assms(1) [unfolded Inr] show ?thesis
  proof (cases rule: svcCreateWorkTask_Inr)
    case (1 p i taskRef title desc owner run trace)
    have "taskKeyOf u = taskKey p newID"
      by (simp add: taskKeyOf_def buildTask_Inr [OF 1(3)])
    with 1(6) assms(2,3) show ?thesis by (auto simp: taskStore_get)
  qed
qed

lemma expand_taskMove:
  assumes "svcExpandWorkTaskScope st now input = (r, st')" and "keyed getTask taskKeyOf st"
    and "getTask st k = Some t"
  shows "\<exists>t'. getTask st' k = Some t' \<and> taskMove t t'"
proof (cases r)
  case (Inl e)
  have "st' = st" using assms(1) Inl expand_failed by blast
  with assms taskMove_refl show ?thesis by metis
next
  case (Inr u)
  from assms(1) [unfolded Inr] show ?thesis
  proof (cases rule: svcExpandWorkTaskScope_Inr)
    case (1 p i task)
    have key: "taskKeyOf task = taskKey p i" using keyedD [OF assms(2) 1(2)] .
    have "wtTaskRef u = wtTaskRef task"
      using 1 by (simp add: taskRefOf_def taskRefKey_def joinKey_def)
    then have "taskMove task u" using 1 by (simp add: taskMove_def taskEdge_def)
    with 1 key assms(3) show ?thesis
      by (cases "k = taskKey p i") (auto simp: taskStore_get taskMove_refl)
  qed
qed

lemma createPlan_keeps: "svcCreateWorkPlan st now newID i = (r, st') \<Longrightarrow> getTask st' = getTask st"
  by (cases r) (auto dest: createPlan_failed svcCreateWorkPlan_Inr(2))

lemma planStatus_keeps:
  assumes "svcUpdateWorkPlanStatus None st now ip = (r, st')" and "keyed getPlan planKeyOf st"
  shows "getTask st' = getTask st"
  using assms by (cases rule: planStatus_cases) auto

lemma step_taskMove:
  assumes "wpStep st st'" and "storeInv st" and "getTask st k = Some t"
  shows "\<exists>t'. getTask st' k = Some t' \<and> taskMove t t'"
  using assms
proof (induction rule: wpStep.induct)
  case (task_status st now iu rt st')
  from task_status.hyps show ?case
    by (rule svcUpdateWorkTaskStatus_cases)
      (use task_status.prems transition_taskMove storeInvD(4) taskMove_refl in auto)
next
  case (task_call rt st' st now ia)
  then show ?case by (meson transition_taskMove storeInvD(4) task_call_transition)
next
  case (update_task st now u rt st' u0)
  define u' where "u' = u\<lparr>wtUpdatedAt := now\<rparr>"
  have move: "taskMove u0 u'"
    using update_task.hyps(3) by (simp add: u'_def taskMove_def sameCore_def taskKeyOf_def taskEdge_def)
  have key: "taskKeyOf u' = taskKeyOf u" by (simp add: u'_def taskKeyOf_def)
  consider "st' = st" | "st' = putTask st u'"
    using svcUpdateWorkTask_cases [OF update_task.hyps(1)] unfolding u'_def by metis
  then show ?case
  proof cases
    case 1
    with update_task.prems(2) taskMove_refl show ?thesis by blast
  next
    case 2
    then have get: "getTask st' k = (if k = taskKeyOf u then Some u' else Some t)"
      by (simp only: taskStore_get key update_task.prems(2))
    have "k = taskKeyOf u \<Longrightarrow> u0 = t" using update_task.hyps(2) update_task.prems(2) by simp
    with get move taskMove_refl show ?thesis by metis
  qed
next
  case (create_task st now newID it rt st')
  then show ?case using create_keeps taskMove_refl by blast
next
  case (create_plan st now newID i r st')
  then show ?case using createPlan_keeps taskMove_refl by metis
next
  case (plan_status st now ip r st')
  then show ?case using planStatus_keeps storeInvD(3) taskMove_refl by metis
next
  case (expand st now ie rt st')
  then show ?case using expand_taskMove storeInvD(4) by blast
next
  case (attach_ref st now now' newID kind ii ra st')
  then show ?case using attach_taskMove storeInvD(4) by blast
qed

end
