(* ===== verification/WorkPlan_Next.thy ===== *)
theory WorkPlan_Next
  imports WorkPlan_Reachable
begin

section \<open>Work plans: a concrete store\<close>

text \<open>
  One active plan with one task and its reviews, used to run the operations on concrete
  values. \<open>demo_simps\<close> evaluates the store and the input checks of such a run.
\<close>

definition demoPlan :: WorkPlan where
  "demoPlan = zeroPlan\<lparr>wpID := ''p1'', wpProjectID := ''m1'', wpPlanRef := ''pr1'',
     wpStatus := WorkPlanStatusActive\<rparr>"

definition demoTask :: "string \<Rightarrow> WorkTask" where
  "demoTask status = zeroTask\<lparr>wtID := ''t1'', wtProjectID := ''m1'', wtPlanID := ''p1'',
     wtTaskRef := ''tr1'', wtStatus := status, wtDecompositionQuality := DecompositionReady,
     wtVerificationRequirement := ''tests''\<rparr>"

definition demoReview :: "string \<Rightarrow> Attachment" where
  "demoReview run = \<lparr>atID = ''a1'', atProjectID = ''m1'', atPlanID = ''p1'', atTaskID = ''t1'',
     atKind = ''review_result_ref'', atRef = ''rev1'', atAttachedByRunID = run, atTraceID = [],
     atNote = [], atCreatedAt = 0\<rparr>"

definition demoStore :: "WorkTask \<Rightarrow> Attachment list \<Rightarrow> WorkPlanStore" where
  "demoStore task as = fold (\<lambda>a st. addAttachment st a) as (addTask (addPlan newMemoryStore demoPlan) task)"

definition demoAction :: WorkTaskActionInput where
  "demoAction = \<lparr>taProjectID = ''m1'', taTaskID = ''t1'', taOwnerAgent = [], taRunID = [], taTraceID = [],
     taOutcome = [], taSafeNextAction = [], taBlockedReason = [], taBlockedByTaskIDs = [],
     taContextPackRefs = [], taEvidenceRefs = [], taClaimRefs = [], taKnowledgeRefs = [],
     taResumeInstructions = [], taVerifierResultRefs = [], taReviewResultRefs = [],
     taReviewExemptReason = []\<rparr>"

lemma demo_key: "taskKey a b = taskKey c d \<longleftrightarrow> a @ nul @ b = c @ nul @ d"
  by (simp add: taskKey_def joinKey_def)

lemma getTask_new [simp]: "getTask newMemoryStore k = None" "getPlan newMemoryStore k = None"
  "attachmentsOf newMemoryStore k = []" "hasTaskRef newMemoryStore k = False"
  "hasPlanRef newMemoryStore k = False" "tasks newMemoryStore = []" "plans newMemoryStore = []"
  by (simp_all add: getTask_def getPlan_def newMemoryStore_def attachmentsOf_def hasTaskRef_def
      hasPlanRef_def thas_def)

lemma demoTask_simps [simp]:
  "wtID (demoTask s) = ''t1''" "wtProjectID (demoTask s) = ''m1''" "wtPlanID (demoTask s) = ''p1''"
  "wtStatus (demoTask s) = s" "wtTaskRef (demoTask s) = ''tr1''"
  "wtDecompositionQuality (demoTask s) = DecompositionReady"
  "wtVerificationRequirement (demoTask s) = ''tests''"
  "wtClaimedByRunID (demoTask s) = []" "wtOwnerAgent (demoTask s) = []"
  "wtDependencyTaskIDs (demoTask s) = []" "wtReviewResultRefs (demoTask s) = []"
  "wtVerifierResultRefs (demoTask s) = []" "wtBlockedReason (demoTask s) = []"
  by (simp_all add: demoTask_def zeroTask_def)

lemma demoAction_simps [simp]:
  "taProjectID demoAction = ''m1''" "taTaskID demoAction = ''t1''" "taOwnerAgent demoAction = []"
  "taRunID demoAction = []" "taTraceID demoAction = []" "taOutcome demoAction = []"
  "taSafeNextAction demoAction = []" "taBlockedReason demoAction = []"
  "taBlockedByTaskIDs demoAction = []" "taContextPackRefs demoAction = []"
  "taEvidenceRefs demoAction = []" "taClaimRefs demoAction = []" "taKnowledgeRefs demoAction = []"
  "taResumeInstructions demoAction = []" "taVerifierResultRefs demoAction = []"
  "taReviewResultRefs demoAction = []" "taReviewExemptReason demoAction = []"
  by (simp_all add: demoAction_def)

lemma demoReview_simps [simp]:
  "atProjectID (demoReview r) = ''m1''" "atTaskID (demoReview r) = ''t1''" "atPlanID (demoReview r) = ''p1''"
  "atKind (demoReview r) = ''review_result_ref''" "atRef (demoReview r) = ''rev1''"
  "atAttachedByRunID (demoReview r) = r"
  by (simp_all add: demoReview_def)

lemma demoPlan_simps [simp]:
  "wpID demoPlan = ''p1''" "wpProjectID demoPlan = ''m1''" "wpPlanRef demoPlan = ''pr1''"
  "wpStatus demoPlan = WorkPlanStatusActive"
  by (simp_all add: demoPlan_def zeroPlan_def)

lemma demo_words [simp]:
  "tidyWord ''m1''" "tidyWord ''t1''" "tidyWord ''p1''" "tidyWord ''r1''" "tidyWord ''r2''"
  "tidyWord ''v1''" "tidyWord ''rev1''" "tidyWord ''pr1''" "tidyWord ''ok''" "tidyWord ''tr1''" "tidyWord ''t9''"
  by (simp_all add: tidyWord_def tidyChar_def)

lemma getTask_addAttachments:
  "getTask (fold (\<lambda>a st. addAttachment st a) as st) = getTask st"
  "getPlan (fold (\<lambda>a st. addAttachment st a) as st) = getPlan st"
  by (induction as arbitrary: st) auto

lemma demo_getTask [simp]:
  "getTask (demoStore task as) k = (if k = taskKeyOf task then Some task else None)"
  "getPlan (demoStore task as) k = (if k = planKey ''m1'' ''p1'' then Some demoPlan else None)"
  by (auto simp: demoStore_def getTask_addAttachments taskStore_get planStore_get planKeyOf_def)

lemma demo_attachments:
  "attachmentsOf (demoStore task as) k =
     filter (\<lambda>a. taskKey (atProjectID a) (atTaskID a) = k) as"
proof -
  have "attachmentsOf (fold (\<lambda>a st. addAttachment st a) as st) k =
      attachmentsOf st k @ filter (\<lambda>a. taskKey (atProjectID a) (atTaskID a) = k) as" for st
    by (induction as arbitrary: st) (auto simp: attachmentsOf_add)
  then show ?thesis by (simp add: demoStore_def)
qed

lemma memListAttachments_eq:
  "memListAttachments st p i =
     (if getTask st (taskKey p i) = None then Inl ErrNotFound
      else Inr (sortBy attachmentLess (attachmentsOf st (taskKey p i))))"
  by (simp add: memListAttachments_def thas_def getTask_def)

lemma memGetWorkTask_eq:
  "memGetWorkTask st p i = (case getTask st (taskKey p i) of None \<Rightarrow> Inl ErrNotFound | Some t \<Rightarrow> Inr t)"
  by (simp add: memGetWorkTask_def getTask_def)

lemma tget_Cons: "tget ((k, v) # t) k' = (if k' = k then Some v else tget t k')"
  by (simp add: tget_def)

lemmas run_defs = transitionTask_def claimGuard_def transitionGuards_def applyScalars_def applyRefs_def
  mergeRefs_def enterStatus_def finishGuards_def validateIndependentReviewRefs_def
  validateTaskTransition_def validateTransition_def taskTransitions_def tget_Cons
  allowsGitOpsRecoveryRerun_def releaseIsStale_def memUpdateWorkTask_eq memGetWorkTask_eq
  memListAttachments_eq demo_attachments reviewsFor_def taskKeyOf_def Let_def

text \<open>Completing the task with a verifier and an independent review, and claiming it.\<close>

definition claimedTask :: "string \<Rightarrow> string \<Rightarrow> WorkTask" where
  "claimedTask status run = (demoTask status)\<lparr>wtClaimedByRunID := run\<rparr>"

definition completeAction :: "string \<Rightarrow> WorkTaskActionInput" where
  "completeAction run = demoAction\<lparr>taRunID := run, taVerifierResultRefs := [''v1''],
     taReviewResultRefs := [''rev1'']\<rparr>"

definition doneTask :: "string \<Rightarrow> WorkTask" where
  "doneTask run = (claimedTask WorkTaskStatusVerifying run)\<lparr>wtStatus := WorkTaskStatusDone,
     wtAgentRunIDs := (if run = [] then [] else [run]), wtVerifierResultRefs := [''v1''],
     wtReviewResultRefs := [''rev1''], wtUpdatedAt := 9, wtCompletedAt := 9\<rparr>"

lemma claim_run:
  "transitionTask (demoStore (demoTask WorkTaskStatusReady) []) 5 (demoAction\<lparr>taRunID := ''r1''\<rparr>)
     WorkTaskStatusClaimed =
   (Inr ((claimedTask WorkTaskStatusClaimed ''r1'')\<lparr>wtAgentRunIDs := [''r1''], wtUpdatedAt := 5, wtClaimedAt := 5\<rparr>),
    putTask (demoStore (demoTask WorkTaskStatusReady) [])
      ((claimedTask WorkTaskStatusClaimed ''r1'')\<lparr>wtAgentRunIDs := [''r1''], wtUpdatedAt := 5, wtClaimedAt := 5\<rparr>))"
  by (simp add: run_defs claimedTask_def appendUnique_def demoTask_def zeroTask_def)

lemma complete_run:
  "transitionTask (demoStore (claimedTask WorkTaskStatusVerifying ''r1'') [demoReview ''r2'']) 9
     (completeAction ''r1'') WorkTaskStatusDone =
   (Inr (doneTask ''r1''),
    putTask (demoStore (claimedTask WorkTaskStatusVerifying ''r1'') [demoReview ''r2'']) (doneTask ''r1''))"
  by (simp add: run_defs claimedTask_def doneTask_def completeAction_def appendUnique_def demoTask_def
      zeroTask_def)

section \<open>Work plans: the choice of the next task\<close>

text \<open>
  \<open>GetNextWorkTask\<close> filters the tasks of open plans to candidates and takes the first of a
  stable sort. The comparison \<open>candidateLess\<close> is an order on candidates only: it is the order
  of a key, because a candidate has no owner or the asking one.
\<close>

subsection \<open>The order of the candidates\<close>

definition candidateKey :: "string \<Rightarrow> WorkTask \<Rightarrow> nat \<times> nat \<times> time \<times> string" where
  "candidateKey ownerAgent t =
     (if ownerAgent \<noteq> [] \<and> wtOwnerAgent t \<noteq> ownerAgent then 1 else 0,
      length (wtDependencyTaskIDs t), wtCreatedAt t, wtTaskRef t)"

lemma candidateLess_key:
  assumes "isCandidate ts owner run mine a" and "isCandidate ts owner run mine b"
  shows "candidateLess owner a b \<longleftrightarrow> candidateKey owner a < candidateKey owner b"
proof -
  have "owner \<noteq> [] \<Longrightarrow> wtOwnerAgent a \<in> {[], owner} \<and> wtOwnerAgent b \<in> {[], owner}"
    using assms by (auto simp: isCandidate_def)
  then show ?thesis by (auto simp: candidateLess_def candidateKey_def)
qed

lemma isCandidate_deps:
  assumes "isCandidate ts owner run mine t" and "dep \<in> set (wtDependencyTaskIDs t)"
  shows "\<exists>d \<in> set ts. wtID d = dep \<and> wtStatus d = WorkTaskStatusDone"
proof -
  have "depReady ts dep" using assms by (simp add: isCandidate_def list_all_iff)
  then show ?thesis by (auto simp: depReady_def doneIDs_def split: option.splits)
qed

lemma candidate_conditions:
  "isCandidate ts owner run mine t \<Longrightarrow>
   wtStatus t = WorkTaskStatusReady \<and> wtDecompositionQuality t = DecompositionReady
   \<and> wtVerificationRequirement t \<noteq> [] \<and> (owner = [] \<or> wtOwnerAgent t \<in> {[], owner})
   \<and> (wtClaimedByRunID t = [] \<or> mine \<and> wtClaimedByRunID t = run)"
  by (auto simp: isCandidate_def)

subsection \<open>The chosen task\<close>

definition nextCandidates :: "WorkTask list \<Rightarrow> string \<Rightarrow> string \<Rightarrow> bool \<Rightarrow> WorkTask list" where
  "nextCandidates active owner run mine = filter (isCandidate active owner run mine) active"

lemma chooseNext_found:
  assumes "chooseNext st active owner run mine = Inr res" and "grFound res"
  obtains rest where "sortBy (candidateLess owner) (nextCandidates active owner run mine) = grTask res # rest"
    "memGetWorkPlan st (wtProjectID (grTask res)) (wtPlanID (grTask res)) = Inr (grPlan res)"
    "grDependencySummary res = dependencySummary (grTask res) active"
    "grRequiredVerification res = wtVerificationRequirement (grTask res)"
  using assms
  by (auto simp: chooseNext_def nextCandidates_def tryE_Inr summarizeTasks_def split: list.splits)

lemma chooseNext_none:
  assumes "chooseNext st active owner run mine = Inr res" and "\<not> grFound res"
  shows "nextCandidates active owner run mine = []"
proof (cases "sortBy (candidateLess owner) (nextCandidates active owner run mine)")
  case Nil
  then show ?thesis by (metis length_0_conv length_sortBy)
next
  case (Cons t rest)
  with assms show ?thesis
    by (auto simp: chooseNext_def nextCandidates_def tryE_Inr)
qed

lemma chooseNext_least:
  assumes "chooseNext st active owner run mine = Inr res" and "grFound res"
  shows "isCandidate active owner run mine (grTask res)" and "grTask res \<in> set active"
    and "\<And>c. c \<in> set active \<Longrightarrow> isCandidate active owner run mine c \<Longrightarrow>
      candidateKey owner (grTask res) \<le> candidateKey owner c"
proof -
  let ?cs = "nextCandidates active owner run mine"
  from assms obtain rest where hd: "sortBy (candidateLess owner) ?cs = grTask res # rest"
    by (rule chooseNext_found)
  then have "grTask res \<in> set ?cs" by (metis list.set_intros(1) set_sortBy)
  then show "isCandidate active owner run mine (grTask res)" "grTask res \<in> set active"
    by (auto simp: nextCandidates_def)
  fix c assume "c \<in> set active" "isCandidate active owner run mine c"
  then have "c \<in> set ?cs" by (simp add: nextCandidates_def)
  moreover have "\<And>a b. a \<in> set ?cs \<Longrightarrow> b \<in> set ?cs \<Longrightarrow>
      candidateLess owner a b \<longleftrightarrow> candidateKey owner a < candidateKey owner b"
    by (rule candidateLess_key [of active owner run mine]) (auto simp: nextCandidates_def)
  ultimately have "candidateKey owner (hd (sortBy (candidateLess owner) ?cs)) \<le> candidateKey owner c"
    by (rule hd_sortBy_key [rotated])
  with hd show "candidateKey owner (grTask res) \<le> candidateKey owner c" by simp
qed

text \<open>The inputs of the choice, after the checks.\<close>

lemma svcGetNextWorkTask_Inr:
  assumes "svcGetNextWorkTask st input = Inr res"
  obtains project plan owner run ts where
    "safeRef (gnProjectID input) ''project_id'' = Inr project"
    "safeOptionalRef (gnPlanID input) ''plan_id'' = Inr plan"
    "safeOptionalRef (gnOwnerAgent input) ''owner_agent'' = Inr owner"
    "safeOptionalRef (gnRunID input) ''run_id'' = Inr run"
    "ts = memListWorkTasks st \<lparr>tfProjectID = project, tfPlanID = plan, tfStatus = [], tfOwnerAgent = [],
        tfClaimedByRunID = [], tfPageSize = 0, tfPageToken = []\<rparr>"
    "chooseNext st (activeTasks st project ts) owner run (gnIncludeClaimedByMe input) = Inr res"
proof -
  from assms obtain project plan owner run ts where
    p: "safeRef (gnProjectID input) ''project_id'' = Inr project"
    and i: "safeOptionalRef (gnPlanID input) ''plan_id'' = Inr plan"
    and o: "safeOptionalRef (gnOwnerAgent input) ''owner_agent'' = Inr owner"
    and r: "safeOptionalRef (gnRunID input) ''run_id'' = Inr run"
    and l: "listTasks st \<lparr>tfProjectID = project, tfPlanID = plan, tfStatus = [], tfOwnerAgent = [],
        tfClaimedByRunID = [], tfPageSize = 0, tfPageToken = []\<rparr> = Inr ts"
    and c: "chooseNext st (activeTasks st project ts) owner run (gnIncludeClaimedByMe input) = Inr res"
    by (auto simp: svcGetNextWorkTask_def tryE_Inr)
  have "safeRef project ''project_id'' = Inr project" using p by (rule safeRef_idem)
  moreover have "setIf (plan \<noteq> []) (safeOptionalRef plan ''plan_id'') [] = Inr plan"
    using i safeOptionalRef_idem by (auto simp: setIf_def)
  ultimately have "ts = memListWorkTasks st \<lparr>tfProjectID = project, tfPlanID = plan, tfStatus = [],
      tfOwnerAgent = [], tfClaimedByRunID = [], tfPageSize = 0, tfPageToken = []\<rparr>"
    using l by (simp add: listTasks_def)
  with that p i o r c show thesis by blast
qed

text \<open>The active tasks of the call, in terms of the store.\<close>

definition openTask :: "WorkPlanStore \<Rightarrow> string \<Rightarrow> string \<Rightarrow> WorkTask \<Rightarrow> bool" where
  "openTask st project plan t \<longleftrightarrow>
     getTask st (taskKeyOf t) = Some t \<and> wtProjectID t = project \<and> (plan = [] \<or> wtPlanID t = plan)
     \<and> (\<exists>p. getPlan st (planKey project (wtPlanID t)) = Some p \<and> wpProjectID p = project
          \<and> wpID p = wtPlanID t \<and> \<not> isTerminalPlanStatus (wpStatus p))"

lemma set_openPlanIDs:
  assumes "storeInv st"
  shows "i \<in> set (openPlanIDs st project) \<longleftrightarrow>
    (\<exists>p. getPlan st (planKey project i) = Some p \<and> \<not> isTerminalPlanStatus (wpStatus p)
       \<and> wpProjectID p = project \<and> wpID p = i)"
  using storeInvD(1,3) [OF assms]
  by (auto simp: openPlanIDs_def set_memListWorkPlans keepPlan_def keyed_def planKeyOf_def image_iff)

lemma set_activeTasks:
  assumes "storeInv st"
  shows "t \<in> set (activeTasks st project (memListWorkTasks st
      \<lparr>tfProjectID = project, tfPlanID = plan, tfStatus = [], tfOwnerAgent = [], tfClaimedByRunID = [],
       tfPageSize = 0, tfPageToken = []\<rparr>)) \<longleftrightarrow> openTask st project plan t"
proof -
  have k: "(\<exists>k. getTask st k = Some t) \<longleftrightarrow> getTask st (taskKeyOf t) = Some t"
    using storeInvD(4) [OF assms] by (auto simp: keyed_def)
  show ?thesis
    using storeInvD(2) [OF assms]
    by (auto simp: activeTasks_def set_memListWorkTasks set_openPlanIDs [OF assms] keepTask_def
        openTask_def k)
qed

text \<open>The result of a call that found a task.\<close>

lemma next_found:
  assumes "svcGetNextWorkTask st input = Inr res" and "storeInv st" and "grFound res"
  obtains project plan owner run active where
    "safeRef (gnProjectID input) ''project_id'' = Inr project"
    "plan = trimSpace (gnPlanID input)" "owner = trimSpace (gnOwnerAgent input)"
    "run = trimSpace (gnRunID input)"
    "\<And>t. t \<in> set active \<longleftrightarrow> openTask st project plan t"
    "isCandidate active owner run (gnIncludeClaimedByMe input) (grTask res)"
    "openTask st project plan (grTask res)"
    "\<And>c. openTask st project plan c \<Longrightarrow> isCandidate active owner run (gnIncludeClaimedByMe input) c \<Longrightarrow>
        candidateKey owner (grTask res) \<le> candidateKey owner c"
    "getPlan st (planKey project (wtPlanID (grTask res))) = Some (grPlan res)"
proof -
  from assms(1) obtain project plan owner run ts where
    p: "safeRef (gnProjectID input) ''project_id'' = Inr project"
    and v: "safeOptionalRef (gnPlanID input) ''plan_id'' = Inr plan"
      "safeOptionalRef (gnOwnerAgent input) ''owner_agent'' = Inr owner"
      "safeOptionalRef (gnRunID input) ''run_id'' = Inr run"
    and ts: "ts = memListWorkTasks st \<lparr>tfProjectID = project, tfPlanID = plan, tfStatus = [],
        tfOwnerAgent = [], tfClaimedByRunID = [], tfPageSize = 0, tfPageToken = []\<rparr>"
    and c: "chooseNext st (activeTasks st project ts) owner run (gnIncludeClaimedByMe input) = Inr res"
    by (rule svcGetNextWorkTask_Inr)
  let ?active = "activeTasks st project ts"
  have act: "t \<in> set ?active \<longleftrightarrow> openTask st project plan t" for t
    using set_activeTasks [OF assms(2)] ts by simp
  note least = chooseNext_least [OF c assms(3)]
  from c assms(3) have "memGetWorkPlan st (wtProjectID (grTask res)) (wtPlanID (grTask res)) = Inr (grPlan res)"
    by (rule chooseNext_found)
  moreover have "wtProjectID (grTask res) = project"
    using least(2) act by (simp add: openTask_def)
  ultimately have "getPlan st (planKey project (wtPlanID (grTask res))) = Some (grPlan res)"
    by (simp add: memGetWorkPlan_Inr)
  with that [OF p v [THEN safeOptionalRef_value] act least(1)] least(2,3) act show thesis by blast
qed

subsection \<open>Concrete calls\<close>

lemma demo_tables:
  "tasks (demoStore t []) = [(taskKeyOf t, t)]" "plans (demoStore t []) = [(planKeyOf demoPlan, demoPlan)]"
  by (simp_all add: demoStore_def addTask_def addPlan_def newMemoryStore_def tput_def)

lemma demo_lists:
  "memListWorkTasks (demoStore t []) flt = (if keepTask flt t then [t] else [])"
  "memListWorkPlans (demoStore t []) pf = (if keepPlan pf demoPlan then [demoPlan] else [])"
  by (simp_all add: memListWorkTasks_def memListWorkPlans_def demo_tables tvals_def)

lemma storeInv_demo: "taskValid (demoTask s) \<Longrightarrow> storeInv (demoStore (demoTask s) [])"
proof -
  assume "taskValid (demoTask s)"
  moreover have "storeInv (addPlan newMemoryStore demoPlan)"
    by (rule storeInv_addPlan) (simp_all add: storeInv_empty planValid_def workPlanStatuses_def)
  ultimately show ?thesis
    unfolding demoStore_def
    by (auto intro!: storeInv_addTask simp: planStore_get planKeyOf_def)
qed

definition demo_next_input :: GetNextWorkTaskInput where
  "demo_next_input = \<lparr>gnProjectID = ''m1'', gnPlanID = [], gnOwnerAgent = [], gnRunID = [], gnTraceID = [],
     gnIncludeClaimedByMe = False\<rparr>"

definition demo_next_res :: GetNextWorkTaskResult where
  "demo_next_res = (summarizeTasks [demoTask WorkTaskStatusReady])
     \<lparr>grFound := True, grTask := demoTask WorkTaskStatusReady, grPlan := demoPlan,
      grRequiredVerification := ''tests'',
      grSafeReason := ''ready decomposition, unblocked dependencies, and verifier requirement present''\<rparr>"

definition demo_no_next_res :: GetNextWorkTaskResult where
  "demo_no_next_res = (summarizeTasks [demoTask WorkTaskStatusPlanned])
     \<lparr>grReason := ''no ready task with complete dependencies and safe decomposition''\<rparr>"

lemmas next_defs = svcGetNextWorkTask_def listTasks_def demo_lists keepTask_def keepPlan_def
  activeTasks_def openPlanIDs_def isTerminalPlanStatus_def chooseNext_def isCandidate_def
  dependencySummary_def demo_next_input_def memGetWorkPlan_def

lemma demo_memGetWorkPlan: "memGetWorkPlan (demoStore t []) ''m1'' ''p1'' = Inr demoPlan"
  by (simp add: memGetWorkPlan_Inr)

lemma demo_next:
  "svcGetNextWorkTask (demoStore (demoTask WorkTaskStatusReady) []) demo_next_input = Inr demo_next_res"
  by (simp add: next_defs demo_memGetWorkPlan [unfolded memGetWorkPlan_def] demo_next_res_def
      summarizeTasks_def demoTask_def zeroTask_def)

lemma demo_no_next:
  "svcGetNextWorkTask (demoStore (demoTask WorkTaskStatusPlanned) []) demo_next_input = Inr demo_no_next_res"
  by (simp add: next_defs demo_no_next_res_def summarizeTasks_def)

lemma demo_inv: "storeInv (demoStore (demoTask WorkTaskStatusReady) [])"
  by (rule storeInv_demo) (simp add: taskValid_def doneGates_def workTaskStatuses_def)

lemma demo_inv': "storeInv (demoStore (demoTask WorkTaskStatusPlanned) [])"
  by (rule storeInv_demo) (simp add: taskValid_def doneGates_def workTaskStatuses_def)

end
