(* ===== verification/WorkPlan_Runs.thy ===== *)
theory WorkPlan_Runs
  imports WorkPlan_Next
begin

section \<open>Work plans: a run from the empty store\<close>

text \<open>
  Creating a plan and a task and cancelling the task, computed call by call; the stores in
  between are the reachable states at which the properties of runs are exercised.
\<close>

definition demoPlanInput :: CreateWorkPlanInput where
  "demoPlanInput = \<lparr>cpProjectID = ''m1'', cpPlanRef = ''pr1'', cpUserRequestRef = [], cpTitle = ''ok'',
     cpGoalSummary = ''ok'', cpOwnerAgent = [], cpCreatedByRunID = [], cpTraceID = [],
     cpResumeSummary = [], cpIsolationMode = [], cpParallelGroupRef = [], cpWorkspaceRef = [],
     cpGitBaseRef = [], cpGitBranchRef = [], cpGitWorktreeRef = []\<rparr>"

definition createdPlan :: WorkPlan where
  "createdPlan = zeroPlan\<lparr>wpID := ''p1'', wpProjectID := ''m1'', wpPlanRef := ''pr1'', wpTitle := ''ok'',
     wpGoalSummary := ''ok'', wpStatus := WorkPlanStatusPlanned, wpCreatedAt := 4, wpUpdatedAt := 4\<rparr>"

definition plannedStore :: WorkPlanStore where
  "plannedStore = addPlan newMemoryStore createdPlan"

lemma createPlan_run:
  "svcCreateWorkPlan newMemoryStore 4 ''p1'' demoPlanInput = (Inr createdPlan, plannedStore)"
  by (simp add: svcCreateWorkPlan_def demoPlanInput_def safeWorkPlanIsolationMode_def memCreateWorkPlan_eq
      createdPlan_def zeroPlan_def plannedStore_def)

definition demoCreate :: CreateWorkTaskInput where
  "demoCreate = \<lparr>ctProjectID = ''m1'', ctPlanID = ''p1'', ctTaskRef = ''rev1'', ctTitle = ''ok'',
     ctDescription = [], ctStatus = [], ctOwnerAgent = [], ctRunID = [], ctTraceID = [],
     ctEvidenceNeeded = [], ctContextPackRefs = [], ctFilesToRead = [], ctFilesToEdit = [],
     ctLikelyFilesAffected = [], ctDependencyTaskIDs = [], ctVerificationRequirement = ''ok'',
     ctExpectedOutput = [], ctFailureCriteria = [], ctReviewGate = [], ctResumeInstructions = [],
     ctKnowledgeCandidateRefs = [], ctDecompositionQuality = []\<rparr>"

definition createdTask :: WorkTask where
  "createdTask = zeroTask\<lparr>wtID := ''t9'', wtProjectID := ''m1'', wtPlanID := ''p1'', wtTaskRef := ''rev1'',
     wtTitle := ''ok'', wtStatus := WorkTaskStatusPlanned, wtVerificationRequirement := ''ok'',
     wtDecompositionQuality := DecompositionMissingEvidence, wtCreatedAt := 3, wtUpdatedAt := 3\<rparr>"

lemma create_at:
  assumes "getPlan st (planKey ''m1'' ''p1'') = Some plan"
    and "\<not> hasTaskRef st (taskRefKey ''m1'' ''p1'' ''rev1'')"
  shows "svcCreateWorkTask st 3 ''t9'' demoCreate = (Inr createdTask, addTask st createdTask)"
proof -
  have trim: "trimSpace DecompositionMissingEvidence = DecompositionMissingEvidence" by (simp add: trimSpace_graphic graphic_def)
  have plan: "memGetWorkPlan st ''m1'' ''p1'' = Inr plan" using assms(1) by (simp add: memGetWorkPlan_Inr)
  show ?thesis
    by (simp add: svcCreateWorkTask_def demoCreate_def plan buildTask_def optionalRefSlice_def
        assessDecomposition_def safeDecompositionQuality_def decompositionQualities_def trim
        initialTaskStatus_def memCreateWorkTask_eq createdTask_def zeroTask_def taskRefOf_def assms Let_def)
qed

lemma create_run:
  "svcCreateWorkTask (demoStore (demoTask WorkTaskStatusReady) []) 3 ''t9'' demoCreate =
   (Inr createdTask, addTask (demoStore (demoTask WorkTaskStatusReady) []) createdTask)"
proof (rule create_at)
  show "getPlan (demoStore (demoTask WorkTaskStatusReady) []) (planKey ''m1'' ''p1'') = Some demoPlan"
    by simp
  show "\<not> hasTaskRef (demoStore (demoTask WorkTaskStatusReady) []) (taskRefKey ''m1'' ''p1'' ''rev1'')"
    by (simp add: demoStore_def addTask_def addPlan_def newMemoryStore_def hasTaskRef_def thas_def
        tput_def tget_def taskRefOf_def taskRefKey_def joinKey_def nul_def)
qed

definition taskedStore :: WorkPlanStore where
  "taskedStore = addTask plannedStore createdTask"

lemma createdTask_key: "taskKeyOf createdTask = taskKey ''m1'' ''t9''"
  by (simp add: taskKeyOf_def createdTask_def zeroTask_def)

lemma createTask_run: "svcCreateWorkTask plannedStore 3 ''t9'' demoCreate = (Inr createdTask, taskedStore)"
  unfolding taskedStore_def
  by (rule create_at [where plan = createdPlan])
    (simp_all add: plannedStore_def planStore_get planKeyOf_def createdPlan_def zeroPlan_def)

text \<open>Cancelling it, through the status update.\<close>

definition cancelInput :: UpdateWorkTaskStatusInput where
  "cancelInput = WorkTaskActionInput.extend (demoAction\<lparr>taTaskID := ''t9''\<rparr>)
     (UpdateWorkTaskStatusInput.fields WorkTaskStatusCancelled)"

definition cancelledTask :: WorkTask where
  "cancelledTask = createdTask\<lparr>wtStatus := WorkTaskStatusCancelled, wtUpdatedAt := 5\<rparr>"

definition cancelledStore :: WorkPlanStore where
  "cancelledStore = putTask taskedStore cancelledTask"

lemma getTask_tasked: "getTask taskedStore k = (if k = taskKey ''m1'' ''t9'' then Some createdTask else None)"
  by (simp add: taskedStore_def plannedStore_def taskStore_get createdTask_key)

lemma cancel_run: "svcUpdateWorkTaskStatus taskedStore 5 cancelInput = (Inr cancelledTask, cancelledStore)"
proof -
  have trim: "trimSpace WorkTaskStatusCancelled = WorkTaskStatusCancelled" by (simp add: trimSpace_graphic graphic_def)
  have trunc: "WorkTaskActionInput.truncate cancelInput = demoAction\<lparr>taTaskID := ''t9''\<rparr>"
    by (simp add: cancelInput_def WorkTaskActionInput.defs UpdateWorkTaskStatusInput.defs)
  have st: "utStatus cancelInput = WorkTaskStatusCancelled"
    by (simp add: cancelInput_def WorkTaskActionInput.defs UpdateWorkTaskStatusInput.defs)
  have word: "tidyWord ''t9''" by (simp add: tidyWord_def tidyChar_def)
  show ?thesis
    by (simp add: word svcUpdateWorkTaskStatus_def st trunc trim safeTaskStatus_def workTaskStatuses_def run_defs
        getTask_tasked cancelledStore_def cancelledTask_def createdTask_def zeroTask_def)
qed

lemma reach_plan: "wpReachable plannedStore"
  by (rule wpReachable.step [OF wpReachable.init wpStep.create_plan [OF createPlan_run]]) simp

lemma reach_tasked: "wpReachable taskedStore"
  by (rule wpReachable.step [OF reach_plan wpStep.create_task [OF createTask_run]])
    (simp add: plannedStore_def)

lemma reach_cancelled: "wpReachable cancelledStore"
  by (rule wpReachable.step [OF reach_tasked wpStep.task_status [OF cancel_run]])

lemma cancelled_task: "getTask cancelledStore (taskKey ''m1'' ''t9'') = Some cancelledTask"
  using createdTask_key by (simp add: cancelledStore_def cancelledTask_def taskStore_get taskKeyOf_def)

text \<open>Trying to start the cancelled task is a step that is refused.\<close>

lemma later_run: "wpStep\<^sup>*\<^sup>* cancelledStore (snd (svcStartWorkTask cancelledStore 6 i))"
  by (rule r_into_rtranclp, rule wpStep.task_call [of "fst (svcStartWorkTask cancelledStore 6 i)" _ _ 6 i]) simp

end
