(* ===== verification/WorkPlan_Properties.thy ===== *)
theory WorkPlan_Properties
  imports WorkPlan_Runs
begin

section \<open>Work plans: the properties\<close>

text \<open>
  What the work plan service guarantees, on its own definitions: the completion gates, the
  invariant of every reachable store, that finished tasks stay finished, exclusive claims, the
  choice of the next task, and the checks at the boundary. Each is followed by a run at
  concrete values where it has a hypothesis.
\<close>

subsection \<open>Completion\<close>

text \<open>
  C1. \<open>CompleteWorkTask\<close> makes a task done only from needs-review or verifying (or leaves it done),
  with verifier results recorded, and with an exemption reason or with review results, each
  attached to the task. The code calls this independent review; what it checks is that the
  reviewing run is not the claiming run that the call itself leaves: the run it names, none if
  that name is blank, or else the stored one. If it leaves none, any attachment counts, and the
  run that did the work can have reviewed it when another run completes the task.
\<close>

theorem done_requires_gates:
  assumes "svcCompleteWorkTask st now input = (Inr t, st')" and "keyed getTask taskKeyOf st"
  shows "\<exists>t0. getTask st (taskKeyOf t) = Some t0
      \<and> wtStatus t0 \<in> {WorkTaskStatusDone, WorkTaskStatusNeedsReview, WorkTaskStatusVerifying}
      \<and> getTask st' (taskKeyOf t) = Some t \<and> wtStatus t = WorkTaskStatusDone
      \<and> wtVerifierResultRefs t \<noteq> []
      \<and> (wtReviewResultRefs t \<noteq> [] \<or> \<not> isBlank (wtReviewExemptReason t))
      \<and> wtClaimedByRunID t = (if taRunID input = [] then wtClaimedByRunID t0 else trimSpace (taRunID input))
      \<and> (\<forall>ref \<in> set (wtReviewResultRefs t). \<exists>a \<in> set (attachmentsOf st (taskKeyOf t)).
           atKind a = ''review_result_ref'' \<and> atRef a = ref
           \<and> (wtClaimedByRunID t \<noteq> [] \<longrightarrow>
                atAttachedByRunID a \<noteq> [] \<and> atAttachedByRunID a \<noteq> wtClaimedByRunID t))"
  using assms(1) [unfolded svcCompleteWorkTask_def]
proof (cases rule: transitionTask_cases)
  case (moved p i task)
  have key: "taskKeyOf t = taskKey p i"
    using keyedD [OF assms(2) moved(2)] stepsTo_keys [OF moved(5)] by simp
  have edge: "taskEdge (wtStatus task) WorkTaskStatusDone"
    using stepsTo_edge [OF moved(5)] by (auto simp: allowsGitOpsRecoveryRerun_def)
  have fin: "finishGuards st t WorkTaskStatusDone = Inr ()"
    using moved(5) by (simp add: stepsTo_def)
  have rev: "\<forall>ref \<in> set (wtReviewResultRefs t). \<exists>a \<in> set (attachmentsOf st (taskKeyOf t)).
      atKind a = ''review_result_ref'' \<and> atRef a = ref
      \<and> (wtClaimedByRunID t \<noteq> [] \<longrightarrow>
           atAttachedByRunID a \<noteq> [] \<and> atAttachedByRunID a \<noteq> wtClaimedByRunID t)"
  proof
    fix ref assume ref: "ref \<in> set (wtReviewResultRefs t)"
    then have "validateIndependentReviewRefs st t = Inr ()"
      using fin by (auto simp: finishGuards_Inr)
    then show "\<exists>a \<in> set (attachmentsOf st (taskKeyOf t)).
      atKind a = ''review_result_ref'' \<and> atRef a = ref
      \<and> (wtClaimedByRunID t \<noteq> [] \<longrightarrow>
           atAttachedByRunID a \<noteq> [] \<and> atAttachedByRunID a \<noteq> wtClaimedByRunID t)"
      using ref by (rule validateIndependentReviewRefs_Inr)
  qed
  from fin have gates: "wtVerifierResultRefs t \<noteq> []"
      "wtReviewResultRefs t \<noteq> [] \<or> \<not> isBlank (wtReviewExemptReason t)"
    by (auto simp: finishGuards_Inr)
  show ?thesis
    using moved(2,7) key taskEdge_done [OF edge] gates rev stepsTo_frame(5) [OF moved(5)] stepsTo_claim [OF moved(5)]
    by (simp add: taskStore_get)
qed (auto simp: staleRelease_def)

theorem done_requires_gates_witness:
  "\<exists>t0. getTask (demoStore (claimedTask WorkTaskStatusVerifying ''r1'') [demoReview ''r2''])
      (taskKeyOf (doneTask ''r1'')) = Some t0
    \<and> wtStatus t0 = WorkTaskStatusVerifying"
proof -
  have "keyed getTask taskKeyOf (demoStore (claimedTask WorkTaskStatusVerifying ''r1'') [demoReview ''r2''])"
    by (simp add: keyed_def)
  from done_requires_gates [OF complete_run [folded svcCompleteWorkTask_def] this]
  show ?thesis by (simp add: taskKeyOf_def claimedTask_def doneTask_def)
qed

text \<open>
  Independence of reviews is decided by the run that completes the task, not by the run
  that did the work. Task \<open>t1\<close> was claimed and worked on by run \<open>r1\<close>, and its only review
  was attached by \<open>r1\<close> too. Completing it as \<open>r1\<close> is refused; completing it with the run
  identifier \<open>r2\<close>, or with a blank one, succeeds with the same self-review.
\<close>

theorem self_review_accepted:
  "let st = demoStore (claimedTask WorkTaskStatusVerifying ''r1'') [demoReview ''r1'']
   in fst (svcCompleteWorkTask st 9 (completeAction ''r1''))
        = Inl (ErrInvalidInput ''review_result_ref must be attached by an independent run'')
      \<and> svcCompleteWorkTask st 9 (completeAction ''r2'') = (Inr (doneTask ''r2''), putTask st (doneTask ''r2''))
      \<and> (\<exists>t. svcCompleteWorkTask st 9 (completeAction '' '') = (Inr t, putTask st t)
           \<and> wtStatus t = WorkTaskStatusDone \<and> wtClaimedByRunID t = [])"
proof -
  have blank: "trimSpace '' '' = []" by (simp add: trimSpace_blank)
  then show ?thesis
    by (simp add: svcCompleteWorkTask_def run_defs claimedTask_def doneTask_def completeAction_def
        appendUnique_def demoTask_def zeroTask_def safeOptionalRef_def)
qed

subsection \<open>Runs\<close>

text \<open>
  C12. Every store is well-formed that the service reaches from the empty one by calls of its public
  methods, except for an \<open>UpdateWorkTask\<close> that changes status, plan, reference or gate results of
  a task, which nothing checks and the program never sends: objects sit under their own key,
  references are indexed and name one object each, every task belongs to a stored plan, every
  attachment to a stored task of the same plan, statuses are known ones, and done tasks have
  passed their gates.
\<close>

theorem reachable_store_invariant: "wpReachable st \<Longrightarrow> storeInv st"
  by (rule reachable_inv)

theorem reachable_store_invariant_witness:
  "storeInv cancelledStore \<and> getTask cancelledStore (taskKey ''m1'' ''t9'') = Some cancelledTask"
  using reachable_store_invariant [OF reach_cancelled] cancelled_task by simp

text \<open>
  A task never disappears, and a task that has reached done, failed, cancelled or
  superseded keeps that status along every further run, or is superseded.
\<close>

theorem terminal_tasks_stay:
  assumes "wpReachable st" and "wpStep\<^sup>*\<^sup>* st st'" and "getTask st k = Some t"
    and "isTerminalTaskStatus (wtStatus t)"
  shows "\<exists>t'. getTask st' k = Some t' \<and> taskKeyOf t' = taskKeyOf t
    \<and> (wtStatus t' = wtStatus t \<or> wtStatus t' = WorkTaskStatusSuperseded)"
  using assms(2)
proof (induction rule: rtranclp_induct)
  case base
  with assms(3) show ?case by simp
next
  case (step y z)
  then obtain u where u: "getTask y k = Some u" "taskKeyOf u = taskKeyOf t"
      "wtStatus u = wtStatus t \<or> wtStatus u = WorkTaskStatusSuperseded" by blast
  have "wpReachable y"
    using step.hyps(1) by (induction rule: rtranclp_induct) (auto intro: assms(1) wpReachable.step)
  then have "storeInv y" by (rule reachable_inv)
  with step_taskMove [OF step.hyps(2)] u(1) obtain v where v: "getTask z k = Some v" "taskMove u v"
    by blast
  have fin: "isTerminalTaskStatus (wtStatus u)"
    using u(3) assms(4) by (auto simp: isTerminalTaskStatus_def)
  have "taskEdge (wtStatus u) (wtStatus v)"
    using v(2) fin by (auto simp: taskMove_def isTerminalTaskStatus_def)
  from taskEdge_terminal [OF fin this] u v show ?case by (auto simp: taskMove_def)
qed

theorem terminal_tasks_stay_witness:
  "\<exists>t'. getTask (snd (svcStartWorkTask cancelledStore 6 (demoAction\<lparr>taTaskID := ''t9''\<rparr>)))
      (taskKey ''m1'' ''t9'') = Some t'
    \<and> (wtStatus t' = WorkTaskStatusCancelled \<or> wtStatus t' = WorkTaskStatusSuperseded)"
  using terminal_tasks_stay [OF reach_cancelled later_run cancelled_task]
  by (auto simp: isTerminalTaskStatus_def cancelledTask_def)

text \<open>
  C13. Whoever claims a task holds it: after a successful claim by one run, a claim by a
  different run is refused and writes nothing.
\<close>

theorem claim_excludes_other_runs:
  assumes "svcClaimWorkTask st now input = (Inr t, st')" and "keyed getTask taskKeyOf st"
    and "taProjectID input' = taProjectID input" and "taTaskID input' = taTaskID input"
    and "trimSpace (taRunID input') \<noteq> trimSpace (taRunID input)"
  shows "wtClaimedByRunID t = trimSpace (taRunID input)
    \<and> (\<exists>e. svcClaimWorkTask st' now' input' = (Inl e, st'))"
  using assms(1) [unfolded svcClaimWorkTask_def]
proof (cases rule: transitionTask_cases)
  case (moved p i task)
  have key: "taskKeyOf t = taskKey p i"
    using keyedD [OF assms(2) moved(2)] stepsTo_keys [OF moved(5)] by simp
  have run: "\<not> isBlank (taRunID input)"
    using moved(3) by (auto simp: claimGuard_def res_simps)
  then have claimed: "wtClaimedByRunID t = trimSpace (taRunID input)"
    using stepsTo_claim [OF moved(5)] by auto
  have "\<exists>e. claimGuard t input' WorkTaskStatusClaimed = Inl e"
    using claimed run assms(5)
    by (cases "safeOptionalRef (taRunID input') ''run_id''")
      (auto simp: claimGuard_def failIf_def isBlank_def dest: safeOptionalRef_value)
  then have "\<exists>e. svcClaimWorkTask st' now' input' = (Inl e, st')"
    using moved(1,7) key assms(3,4)
    by (auto simp: svcClaimWorkTask_def transitionTask_eq memGetWorkTask_eq taskStore_get)
  with claimed show ?thesis by blast
qed (auto simp: staleRelease_def)

theorem claim_excludes_other_runs_witness:
  "\<exists>e st. svcClaimWorkTask st 7 (demoAction\<lparr>taRunID := ''r2''\<rparr>) = (Inl e, st)"
proof -
  let ?st = "demoStore (demoTask WorkTaskStatusReady) []"
  have "keyed getTask taskKeyOf ?st" by (simp add: keyed_def)
  from claim_excludes_other_runs [OF claim_run [folded svcClaimWorkTask_def] this,
      of "demoAction\<lparr>taRunID := ''r2''\<rparr>" 7]
  show ?thesis by simp blast
qed

text \<open>
  A call that fails writes nothing. (Attaching is the exception: see the attachment
  property.)
\<close>

theorem failed_calls_write_nothing:
  "(fst (svcCreateWorkPlan st now newID ip) = Inl e \<longrightarrow> snd (svcCreateWorkPlan st now newID ip) = st)
   \<and> (fst (svcUpdateWorkPlanStatus None st now iu) = Inl e \<longrightarrow>
        snd (svcUpdateWorkPlanStatus None st now iu) = st)
   \<and> (fst (svcCreateWorkTask st now newID it) = Inl e \<longrightarrow> snd (svcCreateWorkTask st now newID it) = st)
   \<and> (fst (transitionTask st now ia nxt) = Inl e \<longrightarrow> snd (transitionTask st now ia nxt) = st)
   \<and> (fst (svcExpandWorkTaskScope st now ie) = Inl e \<longrightarrow> snd (svcExpandWorkTaskScope st now ie) = st)"
  by (metis createPlan_failed planStatus_failed createTask_failed transitionTask_failed expand_failed
      prod.collapse)

theorem failed_calls_write_nothing_witness:
  "fst (transitionTask newMemoryStore 3 demoAction WorkTaskStatusReady) = Inl ErrNotFound
   \<and> snd (transitionTask newMemoryStore 3 demoAction WorkTaskStatusReady) = newMemoryStore"
proof -
  have "fst (transitionTask newMemoryStore 3 demoAction WorkTaskStatusReady) = Inl ErrNotFound"
    by (simp add: transitionTask_def memGetWorkTask_eq)
  then show ?thesis
    using failed_calls_write_nothing [of newMemoryStore 3 "[]" _ ErrNotFound _ _ demoAction WorkTaskStatusReady]
    by blast
qed

subsection \<open>The next task\<close>



text \<open>
  No other candidate comes before the task handed out: tasks of the asking agent come
  first, then fewer dependencies, then the older task, then the smaller reference.
\<close>

theorem next_task_is_least:
  assumes "svcGetNextWorkTask st input = Inr res" and "storeInv st" and "grFound res"
  shows "\<exists>project active. safeRef (gnProjectID input) ''project_id'' = Inr project
    \<and> (\<forall>t. t \<in> set active \<longleftrightarrow> openTask st project (trimSpace (gnPlanID input)) t)
    \<and> (\<forall>c \<in> set active.
         isCandidate active (trimSpace (gnOwnerAgent input)) (trimSpace (gnRunID input))
           (gnIncludeClaimedByMe input) c \<longrightarrow>
         candidateKey (trimSpace (gnOwnerAgent input)) (grTask res)
           \<le> candidateKey (trimSpace (gnOwnerAgent input)) c)"
  using assms by (cases rule: next_found) blast

theorem next_task_is_least_witness:
  "\<exists>project. safeRef ''m1'' ''project_id'' = Inr project"
  using next_task_is_least [OF demo_next demo_inv] by (auto simp: demo_next_res_def demo_next_input_def)

text \<open>When no task is handed out, the store holds no candidate.\<close>

theorem no_next_task_means_none:
  assumes "svcGetNextWorkTask st input = Inr res" and "storeInv st" and "\<not> grFound res"
  shows "\<exists>project active. safeRef (gnProjectID input) ''project_id'' = Inr project
    \<and> (\<forall>t. t \<in> set active \<longleftrightarrow> openTask st project (trimSpace (gnPlanID input)) t)
    \<and> (\<forall>t \<in> set active. \<not> isCandidate active (trimSpace (gnOwnerAgent input))
         (trimSpace (gnRunID input)) (gnIncludeClaimedByMe input) t)"
  using assms(1)
proof (cases rule: svcGetNextWorkTask_Inr)
  case (1 project plan owner run ts)
  let ?active = "activeTasks st project ts"
  note v = 1(2-4) [THEN safeOptionalRef_value]
  have "nextCandidates ?active owner run (gnIncludeClaimedByMe input) = []"
    using chooseNext_none [OF 1(6) assms(3)] .
  then have "\<forall>t \<in> set ?active. \<not> isCandidate ?active owner run (gnIncludeClaimedByMe input) t"
    by (simp add: nextCandidates_def filter_empty_conv)
  moreover have "\<forall>t. t \<in> set ?active \<longleftrightarrow> openTask st project plan t"
    using set_activeTasks [OF assms(2)] 1(5) by simp
  ultimately show ?thesis using 1(1) v by blast
qed

theorem no_next_task_means_none_witness:
  "\<not> isCandidate [demoTask WorkTaskStatusPlanned] [] [] False (demoTask WorkTaskStatusPlanned)
   \<and> (\<exists>project. safeRef ''m1'' ''project_id'' = Inr project)"
  using no_next_task_means_none [OF demo_no_next demo_inv']
  by (auto simp: demo_next_input_def demo_no_next_res_def isCandidate_def)

end
