(* ===== verification/WorkPlan_Boundary.thy ===== *)
theory WorkPlan_Boundary
  imports WorkPlan_Runs
begin

section \<open>Work plans: properties of the boundary\<close>

text \<open>
  What passes the input checks, how keys and lists come out, what a plan status update, a task
  creation and an attachment do.
\<close>

subsection \<open>Supporting lemmas\<close>

lemma distinct_tvals_keyed:
  assumes "twf t" and "\<And>k v. tget t k = Some v \<Longrightarrow> f v = k"
  shows "distinct (tvals t)"
proof -
  have "f v = k" if "(k, v) \<in> set t" for k v
    using assms that by (auto simp: twf_def tget_def)
  then have "map f (tvals t) = map fst t"
    by (induction t) (auto simp: tvals_def)
  then show ?thesis
    using assms(1) by (metis distinct_map twf_def)
qed

lemma twf_same_values:
  assumes "twf t" and "twf u" and "\<And>k. tget t k = tget u k"
  shows "set (tvals t) = set (tvals u)"
  using assms by (auto simp: tvals_tget)

lemma planRefOf_inj:
  "wpProjectID p = wpProjectID q \<Longrightarrow> wpPlanRef p = wpPlanRef q \<Longrightarrow> planRefOf p = planRefOf q"
  by (simp add: planRefOf_def)

lemma buildTask_values:
  assumes "buildTask now newID p i taskRef title desc owner run trace input = Inr t"
    and "ctDecompositionQuality input = []" and "ctStatus input = []"
  shows "wtDecompositionQuality t = assessDecomposition (wtEvidenceNeeded t) (wtContextPackRefs t)
      (wtLikelyFilesAffected t) (wtDependencyTaskIDs t) (wtVerificationRequirement t)
      (wtExpectedOutput t) (wtFailureCriteria t) (wtResumeInstructions t)"
    and "wtStatus t = (if wtDecompositionQuality t = DecompositionReady then WorkTaskStatusReady
      else WorkTaskStatusPlanned)"
    and "trimSpace (wtVerificationRequirement t) = wtVerificationRequirement t"
    and "trimSpace (wtExpectedOutput t) = wtExpectedOutput t"
    and "trimSpace (wtFailureCriteria t) = wtFailureCriteria t"
    and "trimSpace (wtResumeInstructions t) = wtResumeInstructions t"
    and "wtVerificationRequirement t \<noteq> []"
  using assms by (auto simp: buildTask_def tryE_Inr Let_def safe_simps initialTaskStatus_def)

lemma assessDecomposition_ready:
  "assessDecomposition ev ctx files deps verify expected failure resume = DecompositionReady \<longleftrightarrow>
     ev \<noteq> [] \<and> (ctx \<noteq> [] \<or> files \<noteq> []) \<and> trimSpace verify \<noteq> [] \<and> trimSpace resume \<noteq> []
     \<and> trimSpace expected \<noteq> [] \<and> trimSpace failure \<noteq> [] \<and> length files \<le> 8"
  by (auto simp: assessDecomposition_def)

subsection \<open>What passes the checks\<close>

text \<open>
  An accepted reference is the trimmed input, has 1 to 200 bytes, all of them letters,
  digits or one of \<open>._:/@+-\<close>, does not climb directories or start at the root, holds no
  credential marker, no e-mail address and no byte 0, and is accepted unchanged if checked again.
\<close>

theorem accepted_reference:
  assumes "safeRef v name = Inr r"
  shows "r = trimSpace v \<and> 0 < length r \<and> length r \<le> 200 \<and> (\<forall>c \<in> set r. inCls refRest c)
    \<and> noNul r \<and> \<not> contains r ''..'' \<and> \<not> hasPrefix r ''/'' \<and> \<not> containsUnsafeMarker r
    \<and> \<not> matchString emailPattern r \<and> safeRef r name' = Inr r"
  using assms safeRef_length [OF assms] safeRef_bytes [OF assms] safeRef_noNul [OF assms]
    safeRef_idem [OF assms]
  by (auto simp: safeRef_Inr)

theorem accepted_reference_witness: "noNul ''t1'' \<and> safeRef ''t1'' ''task_id'' = Inr ''t1''"
proof -
  have "safeRef ''t1'' ''task_id'' = Inr ''t1''" by simp
  from accepted_reference [OF this, of "''task_id''"] show ?thesis by blast
qed

text \<open>
  The two checked parts of a key determine it, and the key determines them: tasks of
  different projects, or with different identifiers, never share a place in the store.
\<close>

theorem keys_separate_objects:
  assumes "safeProjectObject a b n = Inr (p, i)" and "safeProjectObject a' b' n' = Inr (p', i')"
  shows "taskKey p i = taskKey p' i' \<longleftrightarrow> p = p' \<and> i = i'"
proof -
  have "noNul p" "noNul p'"
    using assms safeRef_noNul by (auto simp: safeProjectObject_Inr)
  then show ?thesis by (simp add: taskKey_def joinKey_inj noNul_def)
qed

theorem keys_separate_objects_witness: "taskKey ''m1'' ''t1'' \<noteq> taskKey ''p1'' ''t1''"
proof -
  have "safeProjectObject ''m1'' ''t1'' [] = Inr (''m1'', ''t1'')"
    and "safeProjectObject ''p1'' ''t1'' [] = Inr (''p1'', ''t1'')" by simp_all
  from keys_separate_objects [OF this] show ?thesis by simp
qed

text \<open>
  Lists of references are canonical: sorted, without duplicates or empty values, and equal
  exactly when they hold the same nonempty references.
\<close>

theorem reference_lists_canonical:
  "sorted (unique vs) \<and> distinct (unique vs) \<and> set (unique vs) = set vs - {[]}
   \<and> (unique vs = unique ws \<longleftrightarrow> set vs - {[]} = set ws - {[]})"
  by (metis distinct_unique set_unique sorted_unique unique_set_cong)

text \<open>
  Listing the plans of a project does not depend on the order in which the map is
  traversed: two stores with the same entries give the same list.
\<close>

theorem plan_list_order_independent:
  assumes "storeInv st" and "storeInv st'" and "\<And>k. getPlan st k = getPlan st' k"
  shows "memListWorkPlans st flt = memListWorkPlans st' flt"
proof -
  let ?key = "\<lambda>p. (wpCreatedAt p, wpPlanRef p)"
  let ?l = "filter (keepPlan flt) (tvals (plans st))"
  let ?l' = "filter (keepPlan flt) (tvals (plans st'))"
  have d: "distinct ?l" "distinct ?l'"
    using distinct_tvals_keyed [of "plans st" planKeyOf] distinct_tvals_keyed [of "plans st'" planKeyOf]
      storeInvD(1,3) [OF assms(1)] storeInvD(1,3) [OF assms(2)]
    by (simp_all add: keyed_def getPlan_def)
  have s: "set ?l = set ?l'"
    using twf_same_values [of "plans st" "plans st'"] storeInvD(1) [OF assms(1)] storeInvD(1) [OF assms(2)]
      assms(3) by (simp add: getPlan_def)
  have "inj_on ?key (set ?l)"
  proof (rule inj_onI)
    fix p q assume p: "p \<in> set ?l" and q: "q \<in> set ?l" and "?key p = ?key q"
    then have ref: "planRefOf p = planRefOf q"
      by (intro planRefOf_inj) (auto simp: keepPlan_def)
    from p q obtain k k' where k: "getPlan st k = Some p" "getPlan st k' = Some q"
      using storeInvD(1) [OF assms(1)] by (auto simp: tvals_tget getPlan_def)
    from injRefsD [OF storeInvD(7) [OF assms(1)] k ref] k show "p = q" by simp
  qed
  with d s show ?thesis
    unfolding memListWorkPlans_def
    by (intro sortBy_perm_unique [where key = ?key]) (auto simp: planLess_def)
qed

definition demoFilter :: WorkPlanFilter where
  "demoFilter = \<lparr>pfProjectID = ''m1'', pfStatus = [], pfOwnerAgent = [], pfPageSize = 0, pfPageToken = []\<rparr>"

theorem plan_list_order_independent_witness:
  "memListWorkPlans (demoStore (demoTask WorkTaskStatusReady) []) demoFilter =
     memListWorkPlans (demoStore (demoTask WorkTaskStatusPlanned) []) demoFilter
   \<and> memListWorkPlans (demoStore (demoTask WorkTaskStatusReady) []) demoFilter = [demoPlan]"
  using plan_list_order_independent [OF demo_inv demo_inv', of demoFilter]
  by (simp add: demo_lists keepPlan_def demoFilter_def)

subsection \<open>Plan status\<close>

text \<open>
  A plan status update moves along an edge of the transition table, stores the plan, and
  calls the registered handler exactly when the status changed, with the old and the new
  status, after the plan is stored; the handler sees that store.
\<close>

theorem plan_status_follows_table:
  assumes "svcUpdateWorkPlanStatus handler st now input = (Inr p, st')" and "keyed getPlan planKeyOf st"
  shows "\<exists>plan. getPlan st (planKeyOf p) = Some plan \<and> planEdge (wpStatus plan) (wpStatus p)
    \<and> wpStatus p = trimSpace (upStatus input) \<and> wpUpdatedAt p = now
    \<and> (case handler of
         None \<Rightarrow> st' = putPlan st p
       | Some h \<Rightarrow>
           if wpStatus plan = wpStatus p then st' = putPlan st p
           else h \<lparr>scProjectID = wpProjectID p, scPlanID = wpID p, scPlanRef = wpPlanRef p,
                   scOldStatus = wpStatus plan, scNewStatus = wpStatus p,
                   scOwnerAgent = wpOwnerAgent p, scChangedAt = now\<rparr> (putPlan st p) = (None, st'))"
proof -
  from assms(1) obtain a b plan nxt p' st1 where plan: "getPlan st (planKey a b) = Some plan"
    and nxt: "safePlanStatus (upStatus input) = Inr nxt" "planEdge (wpStatus plan) nxt"
    and p': "updatePlanFields plan input nxt now = Inr p'"
    and upd: "memUpdateWorkPlan st p' = (Inr p', st1)"
    and n: "notifyStatusChange handler (wpStatus plan) p' st1 = (Inr p, st')"
    by (auto simp: svcUpdateWorkPlanStatus_def tryS_Inr memGetWorkPlan_Inr validatePlanTransition_Inr
        memUpdateWorkPlan_eq split: if_splits)
  note f = updatePlanFields_Inr [OF p']
  have st1: "st1 = putPlan st p'" using upd by (auto simp: memUpdateWorkPlan_eq split: if_splits)
  have pp: "p = p'"
    using n by (auto simp: notifyStatusChange_def split: option.splits if_splits prod.splits)
  have key: "planKeyOf p' = planKey a b"
    using keyedD [OF assms(2) plan] f by (simp add: planKeyOf_def)
  have v: "nxt = trimSpace (upStatus input)"
    using nxt(1) by (auto simp: safePlanStatus_def split: if_splits)
  show ?thesis
    using plan nxt(2) n key f v unfolding pp st1
    by (auto simp: notifyStatusChange_def split: option.splits if_splits prod.splits)
qed

definition demoStatusInput :: UpdateWorkPlanStatusInput where
  "demoStatusInput = \<lparr>upProjectID = ''m1'', upPlanID = ''p1'', upStatus = WorkPlanStatusBlocked,
     upSafeNextAction = [], upResumeSummary = [], upOutcome = [], upCurrentTaskID = [], upRunID = [],
     upTraceID = []\<rparr>"

theorem plan_status_follows_table_witness:
  "planEdge WorkPlanStatusActive WorkPlanStatusBlocked \<and> \<not> planEdge WorkPlanStatusPlanned WorkPlanStatusDone"
proof -
  let ?st = "demoStore (demoTask WorkTaskStatusReady) []"
  have trim: "trimSpace WorkPlanStatusBlocked = WorkPlanStatusBlocked" by (simp add: trimSpace_graphic graphic_def)
  have "svcUpdateWorkPlanStatus None ?st 7 demoStatusInput =
      (Inr (demoPlan\<lparr>wpStatus := WorkPlanStatusBlocked, wpUpdatedAt := 7\<rparr>),
       putPlan ?st (demoPlan\<lparr>wpStatus := WorkPlanStatusBlocked, wpUpdatedAt := 7\<rparr>))"
    by (simp add: svcUpdateWorkPlanStatus_def demoStatusInput_def safePlanStatus_def workPlanStatuses_def trim
        demo_memGetWorkPlan validatePlanTransition_def validateTransition_def planTransitions_def tget_Cons
        updatePlanFields_def memUpdateWorkPlan_eq notifyStatusChange_def planKeyOf_def Let_def)
  from plan_status_follows_table [OF this] show ?thesis
    by (simp add: keyed_def planKeyOf_def planEdge_def planTransitions_def tget_Cons)
qed

subsection \<open>Creating tasks\<close>

text \<open>
  A task created without an explicit status or quality starts as ready exactly when it
  names evidence, a context pack or likely files (at most 8 of them), expected output, failure
  criteria and resume instructions; otherwise it starts as planned. The verification
  requirement is never empty.
\<close>

theorem created_task_ready_iff:
  assumes "svcCreateWorkTask st now newID input = (Inr t, st')"
    and "ctStatus input = []" and "ctDecompositionQuality input = []"
  shows "wtVerificationRequirement t \<noteq> [] \<and> wtStatus t \<in> {WorkTaskStatusReady, WorkTaskStatusPlanned}
    \<and> (wtStatus t = WorkTaskStatusReady \<longleftrightarrow>
         wtEvidenceNeeded t \<noteq> [] \<and> (wtContextPackRefs t \<noteq> [] \<or> wtLikelyFilesAffected t \<noteq> [])
         \<and> wtResumeInstructions t \<noteq> [] \<and> wtExpectedOutput t \<noteq> [] \<and> wtFailureCriteria t \<noteq> []
         \<and> length (wtLikelyFilesAffected t) \<le> 8)"
  using assms(1)
proof (cases rule: svcCreateWorkTask_Inr)
  case (1 p i taskRef title desc owner run trace)
  note b = buildTask_values [OF 1(3) assms(3,2)]
  show ?thesis
    using b(2,7) unfolding b(1) assessDecomposition_ready b(3-6) by auto
qed

theorem created_task_ready_iff_witness:
  "wtStatus createdTask \<noteq> WorkTaskStatusReady \<and> wtEvidenceNeeded createdTask = []"
  using created_task_ready_iff [OF create_run] by (simp add: demoCreate_def createdTask_def zeroTask_def)

subsection \<open>Attaching\<close>

text \<open>
  A successful attachment is recorded at the task and on the task; a verifier result moves
  a task in progress to verifying, a review result to needs-review, and no other attachment or
  status moves. A review attached by the run that holds the claim is never accepted.
\<close>

theorem attachment_effect:
  assumes "attach st now now' newID kind input = (Inr a, st')" and "keyed getTask taskKeyOf st"
  shows "\<exists>task t. getTask st (taskKeyOf t) = Some task \<and> getTask st' (taskKeyOf t) = Some t
    \<and> attachmentsOf st' (taskKeyOf t) = attachmentsOf st (taskKeyOf t) @ [a]
    \<and> atKind a = kind \<and> safeRef (aiRef input) kind = Inr (atRef a)
    \<and> (wtStatus t = wtStatus task \<or> wtStatus task = WorkTaskStatusInProgress
         \<and> (kind = ''verifier_result_ref'' \<and> wtStatus t = WorkTaskStatusVerifying
            \<or> kind = ''review_result_ref'' \<and> wtStatus t = WorkTaskStatusNeedsReview))
    \<and> \<not> (kind = ''review_result_ref'' \<and> atAttachedByRunID a \<noteq> []
          \<and> atAttachedByRunID a = wtClaimedByRunID task)"
  using assms(1)
proof (cases rule: attach_cases)
  case (attached p i task b)
  have task: "getTask st (taskKey (atProjectID b) (atTaskID b)) = Some task"
    using attached by simp
  have key: "taskKeyOf task = taskKey p i" using keyedD [OF assms(2) attached(1)] .
  from attachWrite_eq [OF task attached(5) assms(2), of now' kind] attached(10)
  obtain t where t: "withAttachmentRef task kind (atRef b) = Inr t" "a = b"
      "st' = putTask (addAttachment st b) (t\<lparr>wtUpdatedAt := now'\<rparr>)"
    by (auto split: sum.splits)
  note f = withAttachmentRef_Inr [OF t(1)]
  define u where "u = t\<lparr>wtUpdatedAt := now'\<rparr>"
  have u: "taskKeyOf u = taskKey p i" "wtStatus u = wtStatus t"
    using f key by (simp_all add: u_def taskKeyOf_def)
  have "getTask st' (taskKeyOf u) = Some u" using t(3) by (simp add: taskStore_get u_def)
  moreover have "attachmentsOf st' (taskKeyOf u) = attachmentsOf st (taskKeyOf u) @ [a]"
    using t(2,3) u attached(3,4) by (simp add: attachmentsOf_add)
  moreover have "getTask st (taskKeyOf u) = Some task" using u attached(1) by simp
  ultimately show ?thesis
    using attached(2,6,8) t(2) f(11) u(2) by (intro exI [of _ task] exI [of _ u]) simp
qed simp

definition demoAttach :: AttachInput where
  "demoAttach = \<lparr>aiProjectID = ''m1'', aiTaskID = ''t1'', aiRef = ''v1'', aiAttachedByRunID = ''r2'',
     aiTraceID = [], aiNote = []\<rparr>"

theorem attachment_effect_witness:
  "\<exists>t. getTask (snd (attach (demoStore (demoTask WorkTaskStatusInProgress) []) 3 4 ''a9''
          ''verifier_result_ref'' demoAttach)) (taskKey ''m1'' ''t1'') = Some t
     \<and> wtStatus t = WorkTaskStatusVerifying"
proof -
  let ?st = "demoStore (demoTask WorkTaskStatusInProgress) []"
  have k: "keyed getTask taskKeyOf ?st" by (simp add: keyed_def)
  obtain a st' where run: "attach ?st 3 4 ''a9'' ''verifier_result_ref'' demoAttach = (Inr a, st')"
      "getTask st' (taskKey ''m1'' ''t1'') \<noteq> None" "wtStatus (the (getTask st' (taskKey ''m1'' ''t1'')))
        = WorkTaskStatusVerifying"
    by (simp add: attach_def demoAttach_def memGetWorkTask_eq taskKeyOf_def memCreateAttachment_eq
        addAttachmentRef_def withAttachmentRef_def memUpdateWorkTask_eq taskStore_get
        validateTaskTransition_def validateTransition_def taskTransitions_def tget_Cons Let_def)
  from attachment_effect [OF run(1) k] run show ?thesis by auto
qed

end
