(* ===== verification/WorkPlan_Refinement.thy ===== *)
theory WorkPlan_Refinement
  imports WorkPlan_Runs
begin

section \<open>Work plans: the service refines a task board\<close>

text \<open>
  What the store of tasks promises, without its records: a board that shows the status of each
  task and whether its gates are met. Cards are added in a status that is not final, and one card
  at a time moves along an edge of the transition table, to done only with its gates met. Every
  call of the service is a move on this board.
\<close>

subsection \<open>The board\<close>

type_synonym card = "string \<times> bool"
type_synonym board = "string \<Rightarrow> card option"

definition cardMove :: "string \<Rightarrow> string \<Rightarrow> bool" where
  "cardMove s s' \<longleftrightarrow> taskEdge s s' \<or> s = WorkTaskStatusVerifying \<and> s' = WorkTaskStatusReady"

inductive boardStep :: "board \<Rightarrow> board \<Rightarrow> bool" where
  idle: "boardStep b b"
| add: "b k = None \<Longrightarrow> s \<in> set workTaskStatuses \<Longrightarrow> \<not> isTerminalTaskStatus s \<Longrightarrow> boardStep b (b(k \<mapsto> (s, False)))"
| move: "b k = Some (s, g) \<Longrightarrow> cardMove s s' \<Longrightarrow> s' \<in> set workTaskStatuses \<Longrightarrow> (s' = WorkTaskStatusDone \<longrightarrow> g')
    \<Longrightarrow> boardStep b (b(k \<mapsto> (s', g')))"

definition gatesMet :: "WorkTask \<Rightarrow> bool" where
  "gatesMet t \<longleftrightarrow> wtVerifierResultRefs t \<noteq> [] \<and> (wtReviewResultRefs t \<noteq> [] \<or> \<not> isBlank (wtReviewExemptReason t))"

definition cardOf :: "WorkTask \<Rightarrow> card" where
  "cardOf t = (wtStatus t, gatesMet t)"

definition boardOf :: "WorkPlanStore \<Rightarrow> board" where
  "boardOf st k = map_option cardOf (getTask st k)"

subsection \<open>Every call changes at most one task\<close>

definition oneTask :: "WorkPlanStore \<Rightarrow> WorkPlanStore \<Rightarrow> bool" where
  "oneTask st st' \<longleftrightarrow> getTask st' = getTask st
     \<or> (\<exists>k t. getTask st k \<noteq> None \<and> getTask st' = (getTask st)(k \<mapsto> t))
     \<or> (\<exists>k t. getTask st k = None \<and> getTask st' = (getTask st)(k \<mapsto> t)
          \<and> wtStatus t \<in> set workTaskStatuses \<and> \<not> isTerminalTaskStatus (wtStatus t) \<and> \<not> gatesMet t)"

lemma oneTask_same: "getTask st' = getTask st \<Longrightarrow> oneTask st st'"
  by (simp add: oneTask_def)

lemma oneTask_put:
  "getTask st (taskKeyOf t) \<noteq> None \<Longrightarrow> getTask st' = getTask (putTask st t) \<Longrightarrow> oneTask st st'"
  unfolding oneTask_def by (intro disjI2 disjI1 exI [of _ "taskKeyOf t"] exI [of _ t]) (auto simp: taskStore_get fun_eq_iff)

lemma oneTask_transition:
  assumes "transitionTask st now input nxt = (r, st')"
  shows "oneTask st st'"
proof (cases r)
  case (Inl e)
  with assms transitionTask_failed have "st' = st" by blast
  then show ?thesis by (simp add: oneTask_same)
next
  case (Inr u)
  from assms [unfolded Inr] show ?thesis
    by (cases rule: transitionTask_cases) (simp add: oneTask_same, simp add: oneTask_put [of _ u])
qed

lemma oneTask_create:
  assumes "svcCreateWorkTask st now newID input = (r, st')" and "\<forall>p. getTask st (taskKey p newID) = None"
  shows "oneTask st st'"
proof (cases r)
  case (Inl e)
  with assms(1) createTask_failed have "st' = st" by blast
  then show ?thesis by (simp add: oneTask_same)
next
  case (Inr t)
  from assms(1) [unfolded Inr] show ?thesis
  proof (cases rule: svcCreateWorkTask_Inr)
    case (1 p i taskRef title desc owner run trace)
    note b = buildTask_Inr [OF 1(3)]
    have "getTask st (taskKeyOf t) = None" using assms(2) by (simp add: taskKeyOf_def b)
    moreover have "getTask st' = (getTask st)(taskKeyOf t \<mapsto> t)" using 1(6) by (auto simp: taskStore_get fun_eq_iff)
    moreover have "wtStatus t \<in> set workTaskStatuses" "\<not> isTerminalTaskStatus (wtStatus t)" "\<not> gatesMet t"
      using initialTaskStatus_Inr [OF b(5)] b(7) by (simp_all add: gatesMet_def)
    ultimately show ?thesis unfolding oneTask_def by blast
  qed
qed

lemma oneTask_expand:
  assumes "svcExpandWorkTaskScope st now input = (r, st')" and "keyed getTask taskKeyOf st"
  shows "oneTask st st'"
proof (cases r)
  case (Inl e)
  with assms(1) expand_failed have "st' = st" by blast
  then show ?thesis by (simp add: oneTask_same)
next
  case (Inr u)
  from assms(1) [unfolded Inr] show ?thesis
  proof (cases rule: svcExpandWorkTaskScope_Inr)
    case (1 p i task)
    have "taskKeyOf u = taskKey p i" using 1 keyedD [OF assms(2) 1(2)] by simp
    then show ?thesis using 1 by (simp add: oneTask_put [of _ u])
  qed
qed

lemma oneTask_attach:
  assumes "attach st now now' newID kind input = (r, st')" and "keyed getTask taskKeyOf st"
  shows "oneTask st st'"
  using assms(1)
proof (cases rule: attach_cases)
  case (attached p i task a)
  have task: "getTask st (taskKey (atProjectID a) (atTaskID a)) = Some task" using attached by simp
  have key: "taskKeyOf task = taskKey p i" using keyedD [OF assms(2) attached(1)] .
  note w = attachWrite_eq [OF task attached(5) assms(2), of now' kind]
  show ?thesis
  proof (cases "withAttachmentRef task kind (atRef a)")
    case (Inl e)
    with w attached(10) show ?thesis by (auto intro!: oneTask_same)
  next
    case (Inr u)
    let ?u = "u\<lparr>wtUpdatedAt := now'\<rparr>"
    have "taskKeyOf ?u = taskKey p i" using withAttachmentRef_Inr [OF Inr] key by (simp add: taskKeyOf_def)
    moreover have "getTask st' = getTask (putTask st ?u)"
      using w Inr attached(10) by (auto simp: taskStore_get fun_eq_iff)
    ultimately show ?thesis using attached(1) by (simp add: oneTask_put [of _ ?u])
  qed
qed (simp add: oneTask_same)

lemma oneTask_update:
  assumes "svcUpdateWorkTask st now t = (r, st')" and "getTask st (taskKeyOf t) = Some t0"
  shows "oneTask st st'"
  using svcUpdateWorkTask_cases [OF assms(1)] oneTask_put [of st "t\<lparr>wtUpdatedAt := now\<rparr>" st'] assms(2)
  by (auto simp: oneTask_same taskKeyOf_def)

lemma step_oneTask:
  assumes "wpStep st st'" and "storeInv st"
  shows "oneTask st st'"
  using assms
proof (induction rule: wpStep.induct)
  case (task_status st now iu rt st')
  from task_status.hyps show ?case
    by (rule svcUpdateWorkTaskStatus_cases) (simp_all add: oneTask_same oneTask_transition)
next
  case (task_call rt st' st now ia)
  then show ?case using task_call_transition oneTask_transition by blast
next
  case (create_plan st now newID i r st')
  then show ?case using createPlan_keeps oneTask_same by blast
next
  case (plan_status st now ip r st')
  then show ?case using planStatus_keeps storeInvD(3) oneTask_same by metis
qed (blast intro: oneTask_create oneTask_expand oneTask_attach oneTask_update storeInvD(4))+

subsection \<open>The simulation\<close>

text \<open>
  C2. The service refines the board. From every reachable store, any call of the service is a step
  of the board: the board stays, or one card is added in a status that is not final with its gates
  open, or one card moves along an allowed edge, to done only when its gates are met. The calls
  are those of \<open>wpStep\<close>: of \<open>UpdateWorkTask\<close> only those that leave status, plan, reference and gate
  results of the task alone, as the workflow compiler does. The next property shows that the
  others are no steps of the board.
\<close>

theorem service_refines_board:
  assumes "wpReachable st" and "wpStep st st'"
  shows "boardStep (boardOf st) (boardOf st')"
proof -
  have inv: "storeInv st" using assms(1) by (rule reachable_inv)
  then have inv': "storeInv st'" using assms(2) storeInv_step by blast
  have upd: "boardOf st' = (boardOf st)(k \<mapsto> cardOf t)" if "getTask st' = (getTask st)(k \<mapsto> t)" for k t
    using that by (auto simp: boardOf_def fun_eq_iff)
  have "oneTask st st'" using step_oneTask assms(2) inv by blast
  then consider (same) "getTask st' = getTask st"
    | (moved) k t u where "getTask st k = Some t" "getTask st' = (getTask st)(k \<mapsto> u)"
    | (added) k u where "getTask st k = None" "getTask st' = (getTask st)(k \<mapsto> u)"
        "wtStatus u \<in> set workTaskStatuses" "\<not> isTerminalTaskStatus (wtStatus u)" "\<not> gatesMet u"
    unfolding oneTask_def by blast
  then show ?thesis
  proof cases
    case same
    then have "boardOf st' = boardOf st" by (simp add: boardOf_def fun_eq_iff)
    then show ?thesis by (simp add: boardStep.idle)
  next
    case added
    have "boardOf st' = (boardOf st)(k \<mapsto> (wtStatus u, False))" using upd [OF added(2)] added(5) by (simp add: cardOf_def)
    moreover have "boardOf st k = None" using added(1) by (simp add: boardOf_def)
    ultimately show ?thesis using added(3,4) boardStep.add by metis
  next
    case moved
    have "getTask st' k = Some u" using moved(2) by simp
    then have "taskMove t u" "taskValid u"
      using step_taskMove [OF assms(2) inv moved(1)] allValsD inv' by (auto simp: storeInv_def)
    then have "cardMove (wtStatus t) (wtStatus u)" "wtStatus u \<in> set workTaskStatuses"
      "wtStatus u = WorkTaskStatusDone \<longrightarrow> gatesMet u"
      by (simp_all add: taskMove_def cardMove_def taskValid_def doneGates_def gatesMet_def)
    moreover have "boardOf st k = Some (wtStatus t, gatesMet t)" using moved(1) by (simp add: boardOf_def cardOf_def)
    ultimately show ?thesis using upd [OF moved(2)] boardStep.move unfolding cardOf_def by metis
  qed
qed

theorem service_refines_board_witness:
  "boardStep (boardOf taskedStore) (boardOf cancelledStore)"
  by (rule service_refines_board [OF reach_tasked wpStep.task_status [OF cancel_run]])

lemma boardStep_done:
  assumes "boardStep b b'" and "b k = Some (s, g)" and "b' k = Some (WorkTaskStatusDone, False)" and "s \<noteq> WorkTaskStatusDone"
  shows False
  using assms by (cases rule: boardStep.cases) (auto split: if_splits)

text \<open>
  C32. \<open>UpdateWorkTask\<close> goes around the gates. In every reachable store, a stored task whose gates
  are not met can be put to done by this method, whatever its status: the call succeeds, changes
  no other task, and leaves a store that breaks the invariant and a board that no step leads to.
\<close>

theorem raw_update_skips_gates:
  assumes "wpReachable st" and "getTask st k = Some t0" and "\<not> gatesMet t0"
    and "safeProjectObject (wtProjectID t0) (wtID t0) ''task_id'' = Inr pq"
  shows "\<exists>t st'. svcUpdateWorkTask st now (t0\<lparr>wtStatus := WorkTaskStatusDone\<rparr>) = (Inr t, st')
    \<and> getTask st' = (getTask st)(k \<mapsto> t) \<and> wtStatus t = WorkTaskStatusDone \<and> \<not> gatesMet t
    \<and> \<not> storeInv st' \<and> \<not> boardStep (boardOf st) (boardOf st')"
proof -
  define t where "t = t0\<lparr>wtStatus := WorkTaskStatusDone, wtUpdatedAt := now\<rparr>"
  have inv: "storeInv st" by (rule reachable_inv [OF assms(1)])
  have k: "taskKeyOf t0 = k" using keyedD [OF storeInvD(4) [OF inv] assms(2)] .
  have key: "taskKeyOf t = k" "taskKeyOf (t0\<lparr>wtStatus := WorkTaskStatusDone\<rparr>) = k"
    using k by (simp_all add: t_def taskKeyOf_def)
  have g: "\<not> gatesMet t" using assms(3) by (simp add: t_def gatesMet_def)
  have call: "svcUpdateWorkTask st now (t0\<lparr>wtStatus := WorkTaskStatusDone\<rparr>) = (Inr t, putTask st t)"
    using assms(2,4) key by (simp add: svcUpdateWorkTask_def memUpdateWorkTask_eq t_def)
  have get: "getTask (putTask st t) = (getTask st)(k \<mapsto> t)"
    using key(1) by (auto simp: taskStore_get fun_eq_iff)
  have "\<not> storeInv (putTask st t)"
  proof
    assume "storeInv (putTask st t)"
    then have "allVals getTask taskValid (putTask st t)" by (simp add: storeInv_def)
    moreover have "getTask (putTask st t) k = Some t" by (simp add: get)
    ultimately have "taskValid t" by (rule allValsD)
    with g show False by (simp add: taskValid_def doneGates_def gatesMet_def t_def)
  qed
  moreover have "\<not> boardStep (boardOf st) (boardOf (putTask st t))"
  proof
    assume b: "boardStep (boardOf st) (boardOf (putTask st t))"
    have "taskValid t0" using inv assms(2) by (auto simp: storeInv_def dest: allValsD)
    with assms(3) have "wtStatus t0 \<noteq> WorkTaskStatusDone" by (auto simp: taskValid_def doneGates_def gatesMet_def)
    moreover have "boardOf st k = Some (wtStatus t0, False)" using assms(2,3) by (simp add: boardOf_def cardOf_def)
    moreover have "boardOf (putTask st t) k = Some (WorkTaskStatusDone, False)"
      using get g by (simp add: boardOf_def cardOf_def) (simp add: t_def)
    ultimately show False using boardStep_done [OF b] by blast
  qed
  ultimately show ?thesis using call get g by (intro exI [of _ t] exI [of _ "putTask st t"]) (simp add: t_def)
qed

theorem raw_update_skips_gates_witness:
  "\<exists>t st'. svcUpdateWorkTask taskedStore 7 (createdTask\<lparr>wtStatus := WorkTaskStatusDone\<rparr>) = (Inr t, st')
    \<and> getTask taskedStore (taskKey ''m1'' ''t9'') = Some createdTask \<and> wtStatus t = WorkTaskStatusDone \<and> \<not> storeInv st'"
proof -
  have g: "getTask taskedStore (taskKey ''m1'' ''t9'') = Some createdTask" by (simp add: getTask_tasked)
  have n: "\<not> gatesMet createdTask" by (simp add: gatesMet_def createdTask_def zeroTask_def)
  have "tidyWord ''m1''" "tidyWord ''t9''" by (simp_all add: tidyWord_def tidyChar_def)
  then have p: "safeProjectObject (wtProjectID createdTask) (wtID createdTask) ''task_id'' = Inr (''m1'', ''t9'')"
    by (simp add: createdTask_def zeroTask_def)
  from raw_update_skips_gates [OF reach_tasked g n p, of 7] g show ?thesis by blast
qed

end
