(* ===== verification/Chain_Model.thy ===== *)
theory Chain_Model
  imports WorkPlan_Lifecycle
begin

section \<open>Workflow chains: the data model\<close>

text \<open>
  \<open>internal/projectworkflowchain/model.go\<close>: the configuration of a chain of workflow stages,
  the run of a chain with one stage run per configured stage, and the inputs and results of
  the service. Of the types of \<open>projectworkflow\<close> that cross the interface to the workflow
  service, a workflow definition has only the field that the chain service reads, its
  identifier.
\<close>

subsection \<open>Constants\<close>

abbreviation ChainStatusPlanned :: string where "ChainStatusPlanned \<equiv> ''planned''"
abbreviation ChainStatusQueued :: string where "ChainStatusQueued \<equiv> ''queued''"
abbreviation ChainStatusCompleted :: string where "ChainStatusCompleted \<equiv> ''completed''"
abbreviation ChainStatusPostValidationPassed :: string where
  "ChainStatusPostValidationPassed \<equiv> ''post_validation_passed''"
abbreviation ChainStatusBlocked :: string where "ChainStatusBlocked \<equiv> ''blocked''"

definition chainStatuses :: "string list" where
  "chainStatuses = [ChainStatusPlanned, ChainStatusQueued, ChainStatusCompleted,
     ChainStatusPostValidationPassed, ChainStatusBlocked]"

abbreviation StageStatusPlanned :: string where "StageStatusPlanned \<equiv> ''planned''"
abbreviation StageStatusQueued :: string where "StageStatusQueued \<equiv> ''queued''"
abbreviation StageStatusCompleted :: string where "StageStatusCompleted \<equiv> ''completed''"
abbreviation StageStatusBlocked :: string where "StageStatusBlocked \<equiv> ''blocked''"

definition stageStatuses :: "string list" where
  "stageStatuses = [StageStatusPlanned, StageStatusQueued, StageStatusCompleted, StageStatusBlocked]"

abbreviation InputKindJiraIssueKey :: string where "InputKindJiraIssueKey \<equiv> ''jira_issue_key''"
abbreviation InputKindSafeRef :: string where "InputKindSafeRef \<equiv> ''safe_ref''"
abbreviation ContextProviderJira :: string where "ContextProviderJira \<equiv> ''jira''"
abbreviation ContextProviderConfluence :: string where "ContextProviderConfluence \<equiv> ''confluence''"
abbreviation ContextProviderIndexedRepo :: string where "ContextProviderIndexedRepo \<equiv> ''indexed_repo''"
abbreviation ContextModeLocalIngested :: string where "ContextModeLocalIngested \<equiv> ''local_ingested''"
abbreviation ContextModeIndexed :: string where "ContextModeIndexed \<equiv> ''indexed''"
abbreviation TriggerOnChainStart :: string where "TriggerOnChainStart \<equiv> ''on_chain_start''"
abbreviation TriggerAfterStageReviewPassed :: string where
  "TriggerAfterStageReviewPassed \<equiv> ''after_stage_review_passed''"
abbreviation GitOpsModeDraftPRAfterValidation :: string where
  "GitOpsModeDraftPRAfterValidation \<equiv> ''draft_pr_after_post_validation''"

subsection \<open>Records\<close>

record StageConfig =
  sgStageRef :: string
  sgWorkflowRef :: string
  sgTrigger :: string
  sgDependsOn :: "string list"
  sgAutomationRefTemplate :: string
  sgRequiredStatusBeforeNext :: string

record ChainConfig =
  ccProjectID :: string
  ccChainRef :: string
  ccEnabled :: bool
  ccInputKind :: string
  ccInputPattern :: string
  ccContextProvider :: string
  ccContextMode :: string
  ccDefaultTitleTemplate :: string
  ccGitOpsMode :: string
  ccGitOpsEnabled :: bool
  ccStages :: "StageConfig list"

record StageRun =
  srStageRef :: string
  srWorkflowRef :: string
  srWorkflowID :: string
  srStatus :: string
  srWorkPlanID :: string
  srWorkTaskIDs :: "string list"
  srAutomationIDs :: "string list"
  srStartedAt :: time
  srCompletedAt :: time
  srBlockedReason :: string

record ChainRun =
  crID :: string
  crProjectID :: string
  crChainRef :: string
  crInputRef :: string
  crStatus :: string
  crContextRefs :: "string list"
  crStageRuns :: "StageRun list"
  crWorkPlanIDs :: "string list"
  crAutomationIDs :: "string list"
  crCreatedByRunID :: string
  crTraceID :: string
  crGitOpsReady :: bool
  crPullRequestRef :: string
  crNextAction :: string
  crCreatedAt :: time
  crUpdatedAt :: time

record StartInput =
  siProjectID :: string
  siChainRef :: string
  siInputText :: string
  siCreatedByRunID :: string
  siTraceID :: string
  siDryRun :: bool

record StartResult =
  soProjectID :: string
  soChainRef :: string
  soInputRef :: string
  soStatus :: string
  soChainRunID :: string
  soStageRuns :: "StageRun list"
  soWorkPlanIDs :: "string list"
  soAutomationIDs :: "string list"
  soDryRun :: bool
  soNextAction :: string
  soPullRequestRef :: string

record ChainFilter =
  cfProjectID :: string
  cfChainRef :: string
  cfStatus :: string

record ListResult =
  lrChains :: "ChainConfig list"
  lrRuns :: "ChainRun list"

subsection \<open>Types at the interfaces of the service\<close>

record WorkflowFilter =
  wfProjectID :: string
  wfStatus :: string
  wfWorkflowRef :: string

record WorkflowDefinition =
  wdID :: string

record WorkflowCompileInput =
  wiProjectID :: string
  wiWorkflowID :: string
  wiUserRequestRef :: string
  wiCreatedByRunID :: string
  wiTraceID :: string
  wiTitleOverride :: string
  wiDryRun :: bool

record WorkflowCompileResult =
  woWorkPlanID :: string
  woWorkTaskIDs :: "string list"
  woReviewerTaskIDs :: "string list"
  woAutomationIDs :: "string list"

record GitOpsFinalizeInput =
  giProjectID :: string
  giChainRunID :: string
  giChainRef :: string
  giInputRef :: string
  giWorkPlan :: WorkPlan
  giStageRuns :: "StageRun list"
  giAutomationIDs :: "string list"
  giCreatedByRunID :: string
  giTraceID :: string

record GitOpsFinalizeResult =
  goCommitRef :: string
  goPushRef :: string
  goPullRequestRef :: string
  goEvidenceRefs :: "string list"
  goNoChanges :: bool
  goSkipped :: bool

end
