(* ===== verification/Graph_Search.thy ===== *)
theory Graph_Search
  imports Prelude
begin

section \<open>Depth-first search for a dependency cycle\<close>

text \<open>
  Two services check their configurations for cyclic dependencies with the same recursive closure
  over Go maps. The graph is the association list of the assignments that build the map: the
  last one of a node counts, and a node without one depends on nothing.
\<close>

type_synonym graph = "(string \<times> string list) list"

definition edgesOf :: "graph \<Rightarrow> string \<Rightarrow> string list" where
  "edgesOf g ref = (case find (\<lambda>e. fst e = ref) (rev g) of None \<Rightarrow> [] | Some e \<Rightarrow> snd e)"

lemma find_rev_member: "find P (rev xs) = Some x \<Longrightarrow> x \<in> set xs \<and> P x"
  by (metis find_Some_iff nth_mem set_rev)

lemma edgesOf_known: "edgesOf g ref \<noteq> [] \<Longrightarrow> ref \<in> fst ` set g"
  by (auto simp: edgesOf_def split: option.splits dest!: find_rev_member)

text \<open>The references that can still be visited, the measure of the search.\<close>

definition openNodes :: "graph \<Rightarrow> string list \<Rightarrow> nat" where
  "openNodes g visiting = card (fst ` set g - set visiting)"

lemma openNodes_less:
  assumes "ref \<in> fst ` set g" and "ref \<notin> set visiting"
  shows "openNodes g (ref # visiting) < openNodes g visiting"
  unfolding openNodes_def using assms by (intro psubset_card_mono) auto

lemma openNodes_le: "openNodes g (ref # visiting) \<le> openNodes g visiting"
  unfolding openNodes_def by (intro card_mono) auto

text \<open>
  The closure \<open>visit\<close>. \<open>visiting\<close> holds the references whose call is still running, which is
  what the map \<open>visiting\<close> says when a call starts; \<open>visited\<close> is the map \<open>visited\<close>. Once a
  call has found a cycle every caller returns, so the maps are no longer read.
\<close>

function (sequential) visit ::
    "graph \<Rightarrow> string list \<Rightarrow> string list \<Rightarrow> string \<Rightarrow> bool \<times> string list"
  and visitDeps ::
    "graph \<Rightarrow> string list \<Rightarrow> string list \<Rightarrow> string list \<Rightarrow> bool \<times> string list" where
  "visit g visiting visited ref =
     (if ref \<in> set visited then (False, visited)
      else if ref \<in> set visiting then (True, visited)
      else case visitDeps g (ref # visiting) visited (edgesOf g ref) of
             (True, v) \<Rightarrow> (True, v)
           | (False, v) \<Rightarrow> (False, ref # v))"
| "visitDeps g visiting visited [] = (False, visited)"
| "visitDeps g visiting visited (dep # deps) =
     (case visit g visiting visited dep of
        (True, v) \<Rightarrow> (True, v)
      | (False, v) \<Rightarrow> visitDeps g visiting v deps)"
  by pat_completeness auto

termination
proof (relation "inv_image (less_than <*lex*> less_than)
    (case_sum (\<lambda>(g, visiting, visited, ref). (openNodes g visiting, 1))
              (\<lambda>(g, visiting, visited, deps). (openNodes g visiting, 2 * length deps)))", goal_cases)
  case (2 g visiting visited ref)
  then show ?case
    using openNodes_less [of ref g visiting] openNodes_le [of g ref visiting] edgesOf_known [of g ref]
    by (cases "edgesOf g ref = []") (auto simp: le_less)
qed auto

text \<open>
  The loop over all nodes calls the closure as the loop over the dependencies of a node does,
  with no call running.
\<close>

definition cyclic :: "graph \<Rightarrow> bool" where
  "cyclic g = fst (visitDeps g [] [] (map fst g))"

subsection \<open>The search decides whether there is a cycle\<close>

definition edgeRel :: "graph \<Rightarrow> (string \<times> string) set" where
  "edgeRel g = {(ref, dep). dep \<in> set (edgesOf g ref)}"

lemma edgeRel_iff: "(ref, dep) \<in> edgeRel g \<longleftrightarrow> dep \<in> set (edgesOf g ref)"
  by (simp add: edgeRel_def)

lemma edgeRel_known: "(ref, dep) \<in> edgeRel g \<Longrightarrow> ref \<in> fst ` set g"
  by (rule edgesOf_known) (auto simp: edgeRel_iff)

lemma visit_sound:
  "fst (visit g visiting visited ref) \<Longrightarrow> \<forall>v \<in> set visiting. (v, ref) \<in> (edgeRel g)\<^sup>+
     \<Longrightarrow> \<exists>r. (r, r) \<in> (edgeRel g)\<^sup>+"
  "fst (visitDeps g visiting visited deps)
     \<Longrightarrow> \<forall>v \<in> set visiting. \<forall>d \<in> set deps. (v, d) \<in> (edgeRel g)\<^sup>+
     \<Longrightarrow> \<exists>r. (r, r) \<in> (edgeRel g)\<^sup>+"
proof (induction g visiting visited ref and g visiting visited deps rule: visit_visitDeps.induct)
  case (1 g visiting visited ref)
  show ?case
  proof (cases "ref \<in> set visiting")
    case True
    then show ?thesis using "1.prems"(2) by blast
  next
    case False
    with "1.prems"(1) have new: "ref \<notin> set visited" "fst (visitDeps g (ref # visiting) visited (edgesOf g ref))"
      by (auto simp del: visitDeps.simps split: if_splits prod.splits bool.splits)
    have "\<forall>v \<in> set (ref # visiting). \<forall>d \<in> set (edgesOf g ref). (v, d) \<in> (edgeRel g)\<^sup>+"
      using "1.prems"(2) by (auto simp: edgeRel_iff intro: trancl.intros)
    with "1.IH" [OF new(1) False new(2)] show ?thesis .
  qed
next
  case (2 g visiting visited)
  then show ?case by simp
next
  case (3 g visiting visited dep deps)
  show ?case
  proof (cases "visit g visiting visited dep")
    case (Pair b v)
    then show ?thesis
      using 3 by (cases b) (simp_all del: visit.simps)
  qed
qed

text \<open>A set of references that is closed under dependencies and holds no cycle.\<close>

definition settled :: "graph \<Rightarrow> string set \<Rightarrow> bool" where
  "settled g V \<longleftrightarrow>
     (\<forall>x \<in> V. set (edgesOf g x) \<subseteq> V \<and> (x, x) \<notin> (edgeRel g)\<^sup>+)"

lemma settled_reach: "(x, y) \<in> (edgeRel g)\<^sup>+ \<Longrightarrow> settled g V \<Longrightarrow> x \<in> V \<Longrightarrow> y \<in> V"
  by (induction rule: trancl_induct) (auto simp: settled_def edgeRel_iff)

lemma settled_insert:
  assumes "settled g V" and "set (edgesOf g ref) \<subseteq> V" and "ref \<notin> V"
  shows "settled g (insert ref V)"
proof -
  have "(ref, ref) \<notin> (edgeRel g)\<^sup>+"
  proof
    assume "(ref, ref) \<in> (edgeRel g)\<^sup>+"
    then obtain d where d: "(ref, d) \<in> edgeRel g" "(d, ref) \<in> (edgeRel g)\<^sup>*"
      by (meson tranclD)
    then have "d \<in> V" using assms(2) by (auto simp: edgeRel_iff)
    with d(2) assms(3) settled_reach [OF _ assms(1), of d ref] show False
      by (auto simp: rtrancl_eq_or_trancl)
  qed
  with assms show ?thesis by (auto simp: settled_def)
qed

text \<open>
  \<open>orderedBy deps vs\<close>: in the list of visited nodes, latest first, every node comes before
  its dependencies and no node occurs twice.
\<close>

fun orderedBy :: "(string \<Rightarrow> string list) \<Rightarrow> string list \<Rightarrow> bool" where
  "orderedBy deps [] = True"
| "orderedBy deps (v # vs) = (set (deps v) \<subseteq> set vs \<and> v \<notin> set vs \<and> orderedBy deps vs)"

lemma orderedBy_distinct: "orderedBy deps vs \<Longrightarrow> distinct vs"
  by (induction vs) auto

lemma orderedBy_split: "orderedBy deps (post @ v # pre) \<Longrightarrow> set (deps v) \<subseteq> set pre"
  by (induction post) auto

lemma visit_orders:
  "visit g visiting visited ref = (False, v) \<Longrightarrow> orderedBy (edgesOf g) visited
     \<Longrightarrow> set visited \<inter> set visiting = {}
     \<Longrightarrow> orderedBy (edgesOf g) v \<and> set v \<inter> set visiting = {} \<and> set visited \<subseteq> set v \<and> ref \<in> set v"
  "visitDeps g visiting visited deps = (False, v) \<Longrightarrow> orderedBy (edgesOf g) visited
     \<Longrightarrow> set visited \<inter> set visiting = {}
     \<Longrightarrow> orderedBy (edgesOf g) v \<and> set v \<inter> set visiting = {} \<and> set visited \<subseteq> set v \<and> set deps \<subseteq> set v"
proof (induction g visiting visited ref and g visiting visited deps arbitrary: v and v
    rule: visit_visitDeps.induct)
  case (1 g visiting visited ref)
  show ?case
  proof (cases "ref \<in> set visited")
    case True
    with 1 show ?thesis by simp
  next
    case False
    with "1.prems"(1) have nv: "ref \<notin> set visiting" by (auto simp del: visitDeps.simps split: if_splits)
    with False "1.prems"(1) obtain u where
      u: "visitDeps g (ref # visiting) visited (edgesOf g ref) = (False, u)" "v = ref # u"
      by (auto simp del: visitDeps.simps split: prod.splits bool.splits)
    have "set visited \<inter> set (ref # visiting) = {}" using False "1.prems"(3) by auto
    from "1.IH" [OF False nv u(1) "1.prems"(2) this] u(2) nv show ?thesis by auto
  qed
next
  case (2 g visiting visited)
  then show ?case by simp
next
  case (3 g visiting visited dep deps)
  obtain b u where p: "visit g visiting visited dep = (b, u)" by fastforce
  with "3.prems"(1) have b: "\<not> b" and d: "visitDeps g visiting u deps = (False, v)"
    by (auto simp del: visit.simps split: bool.splits)
  have p': "visit g visiting visited dep = (False, u)" using p b by simp
  note 1 = "3.IH"(1) [OF p' "3.prems"(2,3)]
  have "orderedBy (edgesOf g) v \<and> set v \<inter> set visiting = {} \<and> set u \<subseteq> set v \<and> set deps \<subseteq> set v"
    using "3.IH"(2) [OF p [symmetric] _ d] 1 b by simp
  with 1 show ?case by auto
qed

lemma orderedBy_settled: "orderedBy (edgesOf g) vs \<Longrightarrow> settled g (set vs)"
  by (induction vs) (simp_all add: settled_insert, simp add: settled_def)

lemma visitDeps_complete:
  assumes "visitDeps g [] [] roots = (False, v)" and "r \<in> set roots"
  shows "(r, r) \<notin> (edgeRel g)\<^sup>+"
proof -
  have v: "orderedBy (edgesOf g) v" "set roots \<subseteq> set v" using visit_orders(2) [OF assms(1)] by simp_all
  from v(2) assms(2) have "r \<in> set v" by blast
  with orderedBy_settled [OF v(1)] show ?thesis unfolding settled_def by blast
qed

lemma cyclic_iff: "cyclic g \<longleftrightarrow> \<not> acyclic (edgeRel g)"
proof
  assume "cyclic g"
  then have "fst (visitDeps g [] [] (map fst g))" by (simp only: cyclic_def)
  from visit_sound(2) [OF this] show "\<not> acyclic (edgeRel g)" by (simp add: acyclic_def)
next
  assume "\<not> acyclic (edgeRel g)"
  then obtain r where r: "(r, r) \<in> (edgeRel g)\<^sup>+" by (auto simp: acyclic_def)
  then have known: "r \<in> set (map fst g)" by (auto dest: tranclD edgeRel_known)
  show "cyclic g"
  proof (rule ccontr)
    assume "\<not> cyclic g"
    then have "visitDeps g [] [] (map fst g) = (False, snd (visitDeps g [] [] (map fst g)))"
      by (simp add: cyclic_def prod_eq_iff)
    from visitDeps_complete [OF this known] r show False by simp
  qed
qed

subsection \<open>Finite acyclic graphs\<close>

lemma acyclic_minimal:
  assumes "acyclic R" and "finite R" and "x \<in> P"
  obtains z where "z \<in> P" and "\<And>y. (z, y) \<in> R \<Longrightarrow> y \<notin> P"
proof -
  have "wf (R\<inverse>)" using assms(1,2) by (simp add: finite_acyclic_wf_converse)
  from wfE_min [OF this assms(3)] that show ?thesis by auto
qed

lemma finite_edgeRel: "finite (edgeRel g)"
proof (rule finite_subset)
  show "edgeRel g \<subseteq> (\<Union>ref \<in> fst ` set g. Pair ref ` set (edgesOf g ref))"
    by (clarify, frule edgeRel_known) (auto simp: edgeRel_iff)
qed simp

text \<open>If no node occurs twice, its edges are those it was given.\<close>

lemma find_rev_unique:
  assumes "distinct (map f xs)" and "x \<in> set xs"
  shows "find (\<lambda>y. f y = f x) (rev xs) = Some x"
proof (cases "find (\<lambda>y. f y = f x) (rev xs)")
  case None
  with assms(2) show ?thesis by (auto simp: find_None_iff)
next
  case (Some y)
  then have "y \<in> set xs" "f y = f x" using find_rev_member by fastforce+
  with assms have "y = x" by (simp add: distinct_map inj_on_def)
  with Some show ?thesis by simp
qed

lemma edgesOf_member: "distinct (map fst g) \<Longrightarrow> (ref, ds) \<in> set g \<Longrightarrow> edgesOf g ref = ds"
  using find_rev_unique [of fst g "(ref, ds)"] by (simp add: edgesOf_def)

end
