(* ===== verification/Chain_Validation.thy ===== *)
theory Chain_Validation
  imports Chain_Model Graph_Search
begin

section \<open>Workflow chains: configuration and input checks\<close>

text \<open>
  \<open>internal/projectworkflowchain/validation.go\<close>. \<open>rx\<close> stands for \<open>regexp.Compile\<close> on the
  input pattern a configuration supplies: \<open>None\<close> when the pattern does not compile, else
  its \<open>MatchString\<close>. The checks of this package are weaker copies of those of the work plan
  service and have the suffix \<open>_chain\<close>.
\<close>

type_synonym pattern_compiler = "string \<Rightarrow> (string \<Rightarrow> bool) option"

subsection \<open>Values\<close>

definition safeRef_chain :: "string \<Rightarrow> string \<Rightarrow> string res" where
  "safeRef_chain value0 name =
     (let value = trimSpace value0
      in if \<not> matchFull refPattern value then Inl (ErrInvalidInput (name @ '' must be a safe ref''))
         else Inr value)"

definition safeOptionalRef_chain :: "string \<Rightarrow> string \<Rightarrow> string res" where
  "safeOptionalRef_chain value0 name =
     (let value = trimSpace value0 in if value = [] then Inr [] else safeRef_chain value name)"

definition safeProjectObject_chain :: "string \<Rightarrow> string \<Rightarrow> string \<Rightarrow> (string \<times> string) res" where
  "safeProjectObject_chain projectID0 objectID0 field =
     tryE (safeRef_chain projectID0 ''project_id'') (\<lambda>projectID.
     tryE (safeRef_chain objectID0 field) (\<lambda>objectID.
     Inr (projectID, objectID)))"

definition containsSensitive :: "string \<Rightarrow> bool" where
  "containsSensitive value =
     (let lower = toLower value
      in contains lower ''token='' \<or> contains lower ''password'' \<or> contains lower ''secret''
         \<or> contains lower ''raw prompt''
         \<or> matchString emailPattern value \<or> matchString phonePattern value)"

definition safeText_chain :: "string \<Rightarrow> string \<Rightarrow> nat \<Rightarrow> string res" where
  "safeText_chain value0 name mx =
     (let value = trimSpace value0
      in if value = [] then Inr []
         else if length value > mx then Inl (ErrInvalidInput (name @ '' is too long''))
         else if containsSensitive value then Inl (ErrInvalidInput (name @ '' contains unsafe content''))
         else Inr value)"

subsection \<open>Input patterns\<close>

definition unboundedMarkers :: "string list" where
  "unboundedMarkers =
    [''.*'', ''.+'', ''(?s'', ''['' @ backslash @ ''s'' @ backslash @ ''S]'', ''(?='']"

definition validateInputPattern :: "pattern_compiler \<Rightarrow> string \<Rightarrow> unit res" where
  "validateInputPattern rx pattern0 =
     (let pattern = trimSpace pattern0
      in if pattern = [] then Inr ()
         else if length pattern > 128 then Inl (ErrInvalidInput ''input_pattern is too long'')
         else if \<not> hasPrefix pattern ''^'' \<or> \<not> hasSuffix pattern ''$''
         then Inl (ErrInvalidInput ''input_pattern must be anchored'')
         else if list_ex (contains pattern) unboundedMarkers
         then Inl (ErrInvalidInput ''input_pattern must be bounded'')
         else if rx pattern = None then Inl (ErrInvalidInput ''input_pattern must compile'')
         else Inr ())"

subsection \<open>Dependency cycles\<close>

text \<open>
  \<open>byRef[ref].DependsOn\<close>: the map keeps the last stage of a reference, and a reference of no
  stage gives the zero value, which depends on nothing.
\<close>

definition stageGraph :: "StageConfig list \<Rightarrow> graph" where
  "stageGraph stages = map (\<lambda>s. (sgStageRef s, sgDependsOn s)) stages"

definition depsOf :: "StageConfig list \<Rightarrow> string \<Rightarrow> string list" where
  "depsOf stages = edgesOf (stageGraph stages)"

definition hasDependencyCycle :: "StageConfig list \<Rightarrow> bool" where
  "hasDependencyCycle stages = cyclic (stageGraph stages)"

lemmas cycle_simps = hasDependencyCycle_def stageGraph_def cyclic_def edgesOf_def

subsection \<open>Configurations\<close>

definition stageField :: "nat \<Rightarrow> string \<Rightarrow> string" where
  "stageField i name = ''stages['' @ showNat i @ ''].'' @ name"

definition validateStage :: "nat \<Rightarrow> string list \<Rightarrow> StageConfig \<Rightarrow> unit res" where
  "validateStage i seen stage =
     (let trigger = firstNonEmpty [sgTrigger stage, TriggerAfterStageReviewPassed] in
      tryE (safeRef_chain (sgStageRef stage) (stageField i ''stage_ref'')) (\<lambda>_.
      tryE (failIf (sgStageRef stage \<in> set seen)
        (ErrInvalidInput (''duplicate stage_ref '' @ sgStageRef stage))) (\<lambda>_.
      tryE (safeRef_chain (sgWorkflowRef stage) (stageField i ''workflow_ref'')) (\<lambda>_.
      tryE (failIf (i = 0 \<and> trigger \<noteq> TriggerOnChainStart)
        (ErrInvalidInput ''first stage trigger must be on_chain_start'')) (\<lambda>_.
      tryE (failIf (trigger \<noteq> TriggerOnChainStart \<and> trigger \<noteq> TriggerAfterStageReviewPassed)
        (ErrInvalidInput (''unsupported stage trigger '' @ trigger))) (\<lambda>_.
      tryE (setIf (sgAutomationRefTemplate stage \<noteq> [])
        (safeText_chain (sgAutomationRefTemplate stage) (stageField i ''automation_ref_template'') 300) []) (\<lambda>_.
      failIf (trimSpace (sgRequiredStatusBeforeNext stage) \<notin> {[], StageStatusCompleted, ''done''})
        (ErrInvalidInput ''unsupported required_status_before_next''))))))))"

text \<open>The first loop: \<open>seen\<close> holds the stage references so far.\<close>

fun validateStages :: "nat \<Rightarrow> string list \<Rightarrow> StageConfig list \<Rightarrow> string list res" where
  "validateStages i seen [] = Inr seen"
| "validateStages i seen (stage # stages) =
     tryE (validateStage i seen stage) (\<lambda>_. validateStages (Suc i) (sgStageRef stage # seen) stages)"

definition isPostValidation :: "StageConfig \<Rightarrow> bool" where
  "isPostValidation stage = (sgStageRef stage = ''post-validation'' \<or> sgStageRef stage = ''post_validation'')"

text \<open>The second loop: every dependency, trimmed, is a stage.\<close>

fun validateDeps :: "string list \<Rightarrow> string list \<Rightarrow> unit res" where
  "validateDeps seen [] = Inr ()"
| "validateDeps seen (dep0 # deps) =
     tryE (safeRef_chain dep0 ''depends_on'') (\<lambda>dep.
     if dep \<notin> set seen then Inl (ErrInvalidInput (''missing stage dependency '' @ dep))
     else validateDeps seen deps)"

fun validateAllDeps :: "string list \<Rightarrow> StageConfig list \<Rightarrow> unit res" where
  "validateAllDeps seen [] = Inr ()"
| "validateAllDeps seen (stage # stages) =
     tryE (validateDeps seen (sgDependsOn stage)) (\<lambda>_. validateAllDeps seen stages)"

definition quoted :: "string \<Rightarrow> string" where
  "quoted s = CHR 0x22 # s @ [CHR 0x22]"

definition validateConfig :: "pattern_compiler \<Rightarrow> ChainConfig \<Rightarrow> unit res" where
  "validateConfig rx cfg =
     tryE (safeRef_chain (ccProjectID cfg) ''project_id'') (\<lambda>_.
     tryE (safeRef_chain (ccChainRef cfg) ''chain_ref'') (\<lambda>_.
     tryE (failIf (firstNonEmpty [ccInputKind cfg, InputKindSafeRef] \<notin> {InputKindJiraIssueKey, InputKindSafeRef})
       (ErrInvalidInput (''input_kind must be '' @ quoted InputKindJiraIssueKey @ '' or ''
          @ quoted InputKindSafeRef))) (\<lambda>_.
     tryE (validateInputPattern rx (ccInputPattern cfg)) (\<lambda>_.
     tryE (failIf (trimSpace (ccContextProvider cfg)
         \<notin> {[], ContextProviderJira, ContextProviderConfluence, ContextProviderIndexedRepo})
       (ErrInvalidInput ''context_provider is unsupported'')) (\<lambda>_.
     tryE (failIf (trimSpace (ccContextMode cfg) \<notin> {[], ContextModeLocalIngested, ContextModeIndexed})
       (ErrInvalidInput ''context_mode is unsupported'')) (\<lambda>_.
     tryE (failIf (ccContextProvider cfg = ContextProviderJira \<and> ccContextMode cfg \<noteq> []
         \<and> ccContextMode cfg \<noteq> ContextModeLocalIngested)
       (ErrInvalidInput ''jira context requires local_ingested mode'')) (\<lambda>_.
     tryE (failIf (ccGitOpsMode cfg \<noteq> [] \<and> ccGitOpsMode cfg \<noteq> GitOpsModeDraftPRAfterValidation)
       (ErrInvalidInput ''gitops_mode is unsupported'')) (\<lambda>_.
     tryE (failIf (ccGitOpsMode cfg = GitOpsModeDraftPRAfterValidation \<and> \<not> ccGitOpsEnabled cfg)
       (ErrInvalidInput ''draft_pr_after_post_validation requires project GitOps config'')) (\<lambda>_.
     tryE (failIf (ccStages cfg = []) (ErrInvalidInput ''at least one stage is required'')) (\<lambda>_.
     tryE (validateStages 0 [] (ccStages cfg)) (\<lambda>seen.
     tryE (validateAllDeps seen (ccStages cfg)) (\<lambda>_.
     tryE (failIf (hasDependencyCycle (ccStages cfg))
       (ErrInvalidInput ''workflow chain stage dependency cycle'')) (\<lambda>_.
     failIf (ccGitOpsMode cfg = GitOpsModeDraftPRAfterValidation
         \<and> \<not> list_ex isPostValidation (ccStages cfg))
       (ErrInvalidInput ''draft PR GitOps requires a post-validation stage''))))))))))))))"

subsection \<open>The input of a run\<close>

text \<open>
  \<open>strings.ToUpper\<close> as far as a Jira key can tell: ASCII letters, and the two other runes
  whose upper case is an ASCII letter (U+0131 and U+017F). Other runes do not match the key
  pattern whatever their case.
\<close>

definition upperByte :: "char \<Rightarrow> char" where
  "upperByte c = (let n = of_char c :: nat in if 97 \<le> n \<and> n \<le> 122 then char_of (n - 32) else c)"

fun toUpper :: "string \<Rightarrow> string" where
  "toUpper (a # b # s) =
     (if [a, b] = bytes [196, 177] then CHR ''I'' # toUpper s
      else if [a, b] = bytes [197, 191] then CHR ''S'' # toUpper s
      else upperByte a # toUpper (b # s))"
| "toUpper [a] = [upperByte a]"
| "toUpper [] = []"

definition jiraKeyPattern :: regex where
  "jiraKeyPattern =
     Seq (Cls upperCls) (Seq (plus (Cls (upperCls @ digitCls))) (Seq (lit ''-'') (plus (Cls digitCls))))"

definition normalizeInputRef :: "pattern_compiler \<Rightarrow> ChainConfig \<Rightarrow> string \<Rightarrow> string res" where
  "normalizeInputRef rx cfg inputText =
     (let value = trimSpace inputText; pattern = trimSpace (ccInputPattern cfg);
          kind = firstNonEmpty [ccInputKind cfg, InputKindSafeRef]
      in if value = [] then Inl (ErrInvalidInput ''input_text is required'')
         else if containsSensitive value then Inl (ErrInvalidInput ''input_text contains unsafe content'')
         else
           tryE (if pattern = [] then Inr ()
                 else case rx pattern of
                        None \<Rightarrow> Inl (ErrInvalidInput ''input_pattern must compile'')
                      | Some matches \<Rightarrow>
                          if \<not> matches value
                          then Inl (ErrInvalidInput ''input_text does not match configured input_pattern'')
                          else Inr ()) (\<lambda>_.
           if kind = InputKindJiraIssueKey then
             (let key = toUpper value
              in if \<not> matchFull jiraKeyPattern key
                 then Inl (ErrInvalidInput ''input_text must be a Jira issue key'')
                 else Inr (''jira:'' @ key))
           else if kind = InputKindSafeRef then
             tryE (safeRef_chain value ''input_text'') (\<lambda>ref. Inr (''input:'' @ ref))
           else Inl (ErrInvalidInput ''unsupported input_kind'')))"

end
