(* ===== verification/Chain_Store.thy ===== *)
theory Chain_Store
  imports Chain_Model Store_Interface
begin

section \<open>Workflow chains: the memory store\<close>

text \<open>
  \<open>internal/projectworkflowchain/store/memory.go\<close>: the runs under the pair of project and run
  identifier, and an index from the work plans of a run to the run. \<open>cloneRun\<close> only detaches
  slices.
\<close>

type_synonym run_key = "string \<times> string"
type_synonym plan_key = "string \<times> string"

record ChainStore =
  csRuns :: "(run_key, ChainRun) table"
  csPlanID :: "(plan_key, run_key) table"

definition newChainStore :: ChainStore where
  "newChainStore = \<lparr>csRuns = [], csPlanID = []\<rparr>"

definition runKeyOf :: "ChainRun \<Rightarrow> run_key" where
  "runKeyOf run = (crProjectID run, crID run)"

definition indexPlansLocked :: "run_key \<Rightarrow> ChainRun \<Rightarrow> (plan_key, run_key) table \<Rightarrow> (plan_key, run_key) table" where
  "indexPlansLocked key run idx =
     (let idx1 = fold (\<lambda>planID t. tput t (crProjectID run, planID) key) (crWorkPlanIDs run) idx
      in fold (\<lambda>stage t. if srWorkPlanID stage \<noteq> [] then tput t (crProjectID run, srWorkPlanID stage) key else t)
           (crStageRuns run) idx1)"

definition memCreateChainRun :: "ChainStore \<Rightarrow> ChainRun \<Rightarrow> ChainRun res \<times> ChainStore" where
  "memCreateChainRun st run =
     (let key = runKeyOf run
      in if thas (csRuns st) key then (Inl ErrDuplicate, st)
         else (Inr run, \<lparr>csRuns = tput (csRuns st) key run,
                         csPlanID = indexPlansLocked key run (csPlanID st)\<rparr>))"

definition memGetChainRun :: "ChainStore \<Rightarrow> string \<Rightarrow> string \<Rightarrow> ChainRun res" where
  "memGetChainRun st projectID chainRunID =
     (case tget (csRuns st) (projectID, chainRunID) of None \<Rightarrow> Inl ErrNotFound | Some run \<Rightarrow> Inr run)"

definition keepRun :: "ChainFilter \<Rightarrow> ChainRun \<Rightarrow> bool" where
  "keepRun flt run =
     ((cfProjectID flt = [] \<or> crProjectID run = cfProjectID flt)
      \<and> (cfChainRef flt = [] \<or> crChainRef run = cfChainRef flt)
      \<and> (cfStatus flt = [] \<or> crStatus run = cfStatus flt))"

definition runLess :: "ChainRun \<Rightarrow> ChainRun \<Rightarrow> bool" where
  "runLess a b =
     (if crCreatedAt a = crCreatedAt b then crID a < crID b else crCreatedAt a < crCreatedAt b)"

definition memListChainRuns :: "ChainStore \<Rightarrow> ChainFilter \<Rightarrow> ChainRun list" where
  "memListChainRuns st flt = sortBy runLess (filter (keepRun flt) (tvals (csRuns st)))"

definition dropIndex :: "run_key \<Rightarrow> (plan_key, run_key) table \<Rightarrow> (plan_key, run_key) table" where
  "dropIndex key idx = filter (\<lambda>(plan, existing). existing \<noteq> key) idx"

definition memUpdateChainRun :: "ChainStore \<Rightarrow> ChainRun \<Rightarrow> ChainRun res \<times> ChainStore" where
  "memUpdateChainRun st run =
     (let key = runKeyOf run
      in if \<not> thas (csRuns st) key then (Inl ErrNotFound, st)
         else (Inr run, \<lparr>csRuns = tput (csRuns st) key run,
                         csPlanID = indexPlansLocked key run (dropIndex key (csPlanID st))\<rparr>))"

definition memFindChainRunByWorkPlan :: "ChainStore \<Rightarrow> string \<Rightarrow> string \<Rightarrow> ChainRun res" where
  "memFindChainRunByWorkPlan st projectID workPlanID =
     (case tget (csPlanID st) (projectID, workPlanID) of
        None \<Rightarrow> Inl ErrNotFound
      | Some key \<Rightarrow> (case tget (csRuns st) key of None \<Rightarrow> Inl ErrNotFound | Some run \<Rightarrow> Inr run))"

subsection \<open>As a keyed store\<close>

definition getRun :: "ChainStore \<Rightarrow> run_key \<Rightarrow> ChainRun option" where
  "getRun st = tget (csRuns st)"

definition storeRun :: "ChainStore \<Rightarrow> ChainRun \<Rightarrow> ChainStore" where
  "storeRun st run = \<lparr>csRuns = tput (csRuns st) (runKeyOf run) run,
     csPlanID = indexPlansLocked (runKeyOf run) run (dropIndex (runKeyOf run) (csPlanID st))\<rparr>"

definition addRun :: "ChainStore \<Rightarrow> ChainRun \<Rightarrow> ChainStore" where
  "addRun st run = \<lparr>csRuns = tput (csRuns st) (runKeyOf run) run,
     csPlanID = indexPlansLocked (runKeyOf run) run (csPlanID st)\<rparr>"

interpretation runStore: keyed_store getRun storeRun runKeyOf
  by unfold_locales (simp add: getRun_def storeRun_def store_simps)

interpretation runAdd: keyed_store getRun addRun runKeyOf
  by unfold_locales (simp add: getRun_def addRun_def store_simps)

lemma memCreateChainRun_eq:
  "memCreateChainRun st run =
     (if getRun st (runKeyOf run) \<noteq> None then (Inl ErrDuplicate, st) else (Inr run, addRun st run))"
  by (simp add: memCreateChainRun_def getRun_def thas_def addRun_def Let_def)

lemma memUpdateChainRun_eq:
  "memUpdateChainRun st run =
     (if getRun st (runKeyOf run) = None then (Inl ErrNotFound, st) else (Inr run, storeRun st run))"
  by (simp add: memUpdateChainRun_def getRun_def thas_def storeRun_def Let_def)

lemma memGetChainRun_Inr: "memGetChainRun st p i = Inr run \<longleftrightarrow> getRun st (p, i) = Some run"
  by (auto simp: memGetChainRun_def getRun_def split: option.splits)

subsection \<open>The index of work plans\<close>

definition plansOf :: "ChainRun \<Rightarrow> string set" where
  "plansOf run = set (crWorkPlanIDs run) \<union> ({srWorkPlanID s |s. s \<in> set (crStageRuns run)} - {[]})"

lemma tget_foldPlans:
  "tget (fold (\<lambda>planID t. tput t (p, planID) key) ids idx) (q, i) =
     (if q = p \<and> i \<in> set ids then Some key else tget idx (q, i))"
  by (induction ids arbitrary: idx) (auto simp: store_simps)

lemma tget_foldStages:
  "tget (fold (\<lambda>stage t. if srWorkPlanID stage \<noteq> [] then tput t (p, srWorkPlanID stage) key else t) ss idx) (q, i) =
     (if q = p \<and> i \<noteq> [] \<and> (\<exists>s \<in> set ss. srWorkPlanID s = i) then Some key else tget idx (q, i))"
  by (induction ss arbitrary: idx) (auto simp: store_simps)

lemma tget_indexPlans:
  "tget (indexPlansLocked key run idx) (q, i) =
     (if q = crProjectID run \<and> i \<in> plansOf run then Some key else tget idx (q, i))"
  by (auto simp: indexPlansLocked_def Let_def tget_foldPlans tget_foldStages plansOf_def)

lemma twf_dropIndex: "twf idx \<Longrightarrow> twf (dropIndex key idx)"
  unfolding twf_def dropIndex_def by (induction idx) auto

lemma tget_member: "twf t \<Longrightarrow> tget t k = Some v \<longleftrightarrow> (k, v) \<in> set t"
  by (simp add: tget_def twf_def map_of_eq_Some_iff)

lemma tget_dropIndex:
  assumes "twf idx"
  shows "tget (dropIndex key idx) k = (if tget idx k = Some key then None else tget idx k)"
proof -
  have A: "tget (dropIndex key idx) k = Some v \<longleftrightarrow> tget idx k = Some v \<and> v \<noteq> key" for v
    unfolding tget_member [OF assms] tget_member [OF twf_dropIndex [OF assms]]
    by (auto simp: dropIndex_def)
  show ?thesis
  proof (cases "tget idx k")
    case None
    then show ?thesis using A by (cases "tget (dropIndex key idx) k") (simp_all, blast)
  next
    case (Some w)
    then show ?thesis using A [of w] A by (cases "tget (dropIndex key idx) k") force+
  qed
qed

lemma twf_fold: "(\<And>x t. twf t \<Longrightarrow> twf (f x t)) \<Longrightarrow> twf t \<Longrightarrow> twf (fold f xs t)"
  by (induction xs arbitrary: t) auto

lemma twf_indexPlans:
  assumes "twf idx"
  shows "twf (indexPlansLocked key run idx)"
proof -
  have "twf (fold (\<lambda>planID t. tput t (crProjectID run, planID) key) (crWorkPlanIDs run) idx)"
    by (rule twf_fold) (simp_all add: twf_tput assms)
  then show ?thesis
    unfolding indexPlansLocked_def Let_def by (rule twf_fold [rotated]) (simp add: twf_tput)
qed

text \<open>Every entry of the index leads to a stored run of its project that owns the plan.\<close>

definition indexSound :: "ChainStore \<Rightarrow> bool" where
  "indexSound st \<longleftrightarrow> twf (csPlanID st)
     \<and> (\<forall>p i key. tget (csPlanID st) (p, i) = Some key \<longrightarrow>
          (\<exists>run. getRun st key = Some run \<and> crProjectID run = p \<and> i \<in> plansOf run))"

text \<open>Every plan of a stored run is in the index.\<close>

definition indexComplete :: "ChainStore \<Rightarrow> bool" where
  "indexComplete st \<longleftrightarrow>
     (\<forall>k run i. getRun st k = Some run \<longrightarrow> i \<in> plansOf run \<longrightarrow> tget (csPlanID st) (crProjectID run, i) \<noteq> None)"

lemma indexSound_add:
  assumes "indexSound st" and "getRun st (runKeyOf run) = None"
  shows "indexSound (addRun st run)"
  using assms unfolding indexSound_def
  by (auto simp: addRun_def getRun_def store_simps tget_indexPlans twf_indexPlans runKeyOf_def
      split: if_splits)
    (metis option.distinct(1))+

lemma indexSound_store:
  assumes "indexSound st"
  shows "indexSound (storeRun st run)"
  using assms unfolding indexSound_def
  by (auto simp: storeRun_def getRun_def store_simps tget_indexPlans twf_indexPlans twf_dropIndex
      tget_dropIndex runKeyOf_def split: if_splits)

lemma indexComplete_add: "indexComplete st \<Longrightarrow> indexComplete (addRun st run)"
  unfolding indexComplete_def
  by (auto simp: addRun_def getRun_def store_simps tget_indexPlans split: if_splits)

text \<open>
  An update first drops every entry of the run. The index stays complete when no plan is
  shared: the dropped entries are those of the run's own plans.
\<close>

definition plansDisjoint :: "ChainStore \<Rightarrow> bool" where
  "plansDisjoint st \<longleftrightarrow>
     (\<forall>k k' r r'. getRun st k = Some r \<longrightarrow> getRun st k' = Some r' \<longrightarrow> k \<noteq> k' \<longrightarrow>
        crProjectID r = crProjectID r' \<longrightarrow> plansOf r \<inter> plansOf r' = {})"

end
