(* ===== verification/Chain_Service.thy ===== *)
theory Chain_Service
  imports Chain_Validation Chain_Store
begin

section \<open>Workflow chains: the service\<close>

text \<open>
  \<open>internal/projectworkflowchain/service.go\<close>. The service works on its own store and, through
  the Go interfaces \<open>WorkflowAPI\<close>, \<open>WorkPlanAPI\<close> and \<open>GitOpsFinalizer\<close>, on the state of other
  services, of type \<open>'w\<close> here; \<open>'w\<close> also holds the clock and the source of identifiers. The
  record \<open>ChainEnv\<close> collects these and the configurations. \<open>envErrorText\<close> is \<open>err.Error()\<close>.
  The guards against a missing store or service are left out, as in the work plan service;
  the optional finalizer is an option.
\<close>

record 'w ChainEnv =
  envConfigs :: "ChainConfig list"
  envCompilePattern :: pattern_compiler
  envErrorText :: "error \<Rightarrow> string"
  envNow :: "'w \<Rightarrow> time \<times> 'w"
  envNewID :: "'w \<Rightarrow> string \<times> 'w"
  envListWorkflows :: "'w \<Rightarrow> WorkflowFilter \<Rightarrow> WorkflowDefinition list res"
  envCompileWorkflow :: "'w \<Rightarrow> WorkflowCompileInput \<Rightarrow> WorkflowCompileResult res \<times> 'w"
  envGetWorkPlan :: "'w \<Rightarrow> string \<Rightarrow> string \<Rightarrow> WorkPlan res"
  envListOpenWorkTasks :: "'w \<Rightarrow> WorkTaskFilter \<Rightarrow> WorkTask list res"
  envUpdateWorkPlanStatus :: "'w \<Rightarrow> UpdateWorkPlanStatusInput \<Rightarrow> WorkPlan res \<times> 'w"
  envUpdateWorkTaskStatus :: "'w \<Rightarrow> UpdateWorkTaskStatusInput \<Rightarrow> WorkTask res \<times> 'w"
  envFinalize :: "('w \<Rightarrow> GitOpsFinalizeInput \<Rightarrow> GitOpsFinalizeResult res \<times> 'w) option"

type_synonym 'w chain_state = "'w \<times> ChainStore"

definition clockS :: "'w ChainEnv \<Rightarrow> ('w, time) act" where
  "clockS env w = (case envNow env w of (t, w') \<Rightarrow> (Inr t, w'))"

definition newIDS :: "'w ChainEnv \<Rightarrow> ('w, string) act" where
  "newIDS env w = (case envNewID env w of (i, w') \<Rightarrow> (Inr i, w'))"

definition onWorld :: "('w, 'a) act \<Rightarrow> ('w chain_state, 'a) act" where
  "onWorld m s = (case m (fst s) of (r, w') \<Rightarrow> (r, (w', snd s)))"

definition onStore :: "(ChainStore, 'a) act \<Rightarrow> ('w chain_state, 'a) act" where
  "onStore m s = (case m (snd s) of (r, cs') \<Rightarrow> (r, (fst s, cs')))"

subsection \<open>Lists and templates\<close>

definition appendUnique_chain :: "string list \<Rightarrow> string \<Rightarrow> string list" where
  "appendUnique_chain vs nxt =
     (if trimSpace nxt = [] then vs else if nxt \<in> set vs then vs else vs @ [nxt])"

definition appendUniqueMany :: "string list \<Rightarrow> string list \<Rightarrow> string list" where
  "appendUniqueMany vs nxt = fold (\<lambda>v acc. appendUnique_chain acc v) nxt vs"

definition renderTemplate :: "string \<Rightarrow> string \<Rightarrow> string \<Rightarrow> string" where
  "renderTemplate template chainRef inputRef =
     (let out = replaceAll ''{{input_ref}}'' inputRef (replaceAll ''{{chain_ref}}'' chainRef template)
      in if length out > 200 then trimSpace (take 200 out) else out)"

definition contextRefsForInput :: "ChainConfig \<Rightarrow> string \<Rightarrow> string list" where
  "contextRefsForInput cfg inputRef =
     (if ccContextProvider cfg = ContextProviderJira then [inputRef]
      else if ccContextProvider cfg = ContextProviderConfluence
      then [''confluence:'' @ trimPrefix inputRef ''input:'']
      else if ccContextProvider cfg = ContextProviderIndexedRepo
      then [''repo:'' @ trimPrefix inputRef ''input:'']
      else [])"

definition startResult :: "ChainRun \<Rightarrow> bool \<Rightarrow> StartResult" where
  "startResult run dryRun =
     \<lparr>soProjectID = crProjectID run, soChainRef = crChainRef run, soInputRef = crInputRef run,
      soStatus = crStatus run, soChainRunID = crID run, soStageRuns = crStageRuns run,
      soWorkPlanIDs = crWorkPlanIDs run, soAutomationIDs = crAutomationIDs run, soDryRun = dryRun,
      soNextAction = crNextAction run, soPullRequestRef = crPullRequestRef run\<rparr>"

definition zeroRun :: ChainRun where
  "zeroRun = \<lparr>crID = [], crProjectID = [], crChainRef = [], crInputRef = [], crStatus = [],
     crContextRefs = [], crStageRuns = [], crWorkPlanIDs = [], crAutomationIDs = [],
     crCreatedByRunID = [], crTraceID = [], crGitOpsReady = False, crPullRequestRef = [],
     crNextAction = [], crCreatedAt = zeroTime, crUpdatedAt = zeroTime\<rparr>"

subsection \<open>Configurations and workflows\<close>

fun configIn :: "pattern_compiler \<Rightarrow> ChainConfig list \<Rightarrow> string \<Rightarrow> string \<Rightarrow> ChainConfig res" where
  "configIn rx [] projectID chainRef = Inl (ErrInvalidInput ''workflow chain config not found'')"
| "configIn rx (cfg # cfgs) projectID chainRef =
     (if ccEnabled cfg \<and> ccProjectID cfg = projectID \<and> ccChainRef cfg = chainRef
      then tryE (validateConfig rx cfg) (\<lambda>_. Inr cfg)
      else configIn rx cfgs projectID chainRef)"

definition svcConfig :: "'w ChainEnv \<Rightarrow> string \<Rightarrow> string \<Rightarrow> ChainConfig res" where
  "svcConfig env = configIn (envCompilePattern env) (envConfigs env)"

definition resolveWorkflow :: "'w ChainEnv \<Rightarrow> 'w \<Rightarrow> string \<Rightarrow> string \<Rightarrow> WorkflowDefinition res" where
  "resolveWorkflow env w projectID workflowRef =
     tryE (envListWorkflows env w
       \<lparr>wfProjectID = projectID, wfStatus = ''enabled'', wfWorkflowRef = workflowRef\<rparr>) (\<lambda>workflows.
     if length workflows \<noteq> 1
     then Inl (ErrInvalidInput (''workflow_ref '' @ workflowRef
       @ '' must resolve to exactly one enabled workflow''))
     else Inr (hd workflows))"

fun resolveAll :: "'w ChainEnv \<Rightarrow> 'w \<Rightarrow> string \<Rightarrow> string list \<Rightarrow> StageConfig list \<Rightarrow> unit res" where
  "resolveAll env w projectID seen [] = Inr ()"
| "resolveAll env w projectID seen (stage # stages) =
     (if sgWorkflowRef stage \<in> set seen then resolveAll env w projectID seen stages
      else tryE (resolveWorkflow env w projectID (sgWorkflowRef stage)) (\<lambda>_.
           resolveAll env w projectID (sgWorkflowRef stage # seen) stages))"

definition validateConfiguredWorkflows :: "'w ChainEnv \<Rightarrow> 'w \<Rightarrow> ChainConfig \<Rightarrow> unit res" where
  "validateConfiguredWorkflows env w cfg =
     tryE (validateConfig (envCompilePattern env) cfg) (\<lambda>_.
     resolveAll env w (ccProjectID cfg) [] (ccStages cfg))"

subsection \<open>Compiling a stage\<close>

fun releaseTasks :: "'w ChainEnv \<Rightarrow> string \<Rightarrow> string list \<Rightarrow> ChainRun \<Rightarrow> WorkTask list \<Rightarrow> ('w, unit) act" where
  "releaseTasks env projectID compiledTasks run [] = retS ()"
| "releaseTasks env projectID compiledTasks run (task # ts) =
     (if wtID task \<notin> set compiledTasks \<or> wtStatus task \<noteq> WorkTaskStatusPlanned
      then releaseTasks env projectID compiledTasks run ts
      else seqS (\<lambda>w. envUpdateWorkTaskStatus env w
             \<lparr>taProjectID = projectID, taTaskID = wtID task, taOwnerAgent = [],
              taRunID = firstNonEmpty [crCreatedByRunID run, crID run], taTraceID = crTraceID run,
              taOutcome = [],
              taSafeNextAction = ''workflow chain released compiled stage task for automatic lifecycle execution'',
              taBlockedReason = [], taBlockedByTaskIDs = [], taContextPackRefs = [],
              taEvidenceRefs = [], taClaimRefs = [], taKnowledgeRefs = [], taResumeInstructions = [],
              taVerifierResultRefs = [], taReviewResultRefs = [], taReviewExemptReason = [],
              utStatus = WorkTaskStatusReady\<rparr>) (\<lambda>_.
           releaseTasks env projectID compiledTasks run ts))"

definition releaseCompiledTasks ::
    "'w ChainEnv \<Rightarrow> string \<Rightarrow> WorkflowCompileResult \<Rightarrow> ChainRun \<Rightarrow> ('w, unit) act" where
  "releaseCompiledTasks env projectID compiled run =
     (if woWorkPlanID compiled = [] \<or> (woWorkTaskIDs compiled = [] \<and> woReviewerTaskIDs compiled = [])
      then retS ()
      else seqS (\<lambda>w. (envListOpenWorkTasks env w
             \<lparr>tfProjectID = projectID, tfPlanID = woWorkPlanID compiled, tfStatus = [],
              tfOwnerAgent = [], tfClaimedByRunID = [], tfPageSize = 0, tfPageToken = []\<rparr>, w)) (\<lambda>ts.
           releaseTasks env projectID (woWorkTaskIDs compiled @ woReviewerTaskIDs compiled) run ts))"

definition activatePlan :: "'w ChainEnv \<Rightarrow> string \<Rightarrow> WorkflowCompileResult \<Rightarrow> ChainRun \<Rightarrow> ('w, unit) act" where
  "activatePlan env projectID compiled run =
     (if woWorkPlanID compiled = [] then retS ()
      else seqS (\<lambda>w. envUpdateWorkPlanStatus env w
             \<lparr>upProjectID = projectID, upPlanID = woWorkPlanID compiled, upStatus = WorkPlanStatusActive,
              upSafeNextAction = ''workflow chain stage automation may run through lifecycle triggers'',
              upResumeSummary = [], upOutcome = [], upCurrentTaskID = [],
              upRunID = firstNonEmpty [crCreatedByRunID run, crID run], upTraceID = crTraceID run\<rparr>)
             (\<lambda>_. retS ()))"

definition stageTitle :: "ChainConfig \<Rightarrow> ChainRun \<Rightarrow> StageConfig \<Rightarrow> string" where
  "stageTitle cfg run stage =
     (let title = renderTemplate
            (firstNonEmpty [ccDefaultTitleTemplate cfg, ''{{input_ref}} governed delivery''])
            (ccChainRef cfg) (crInputRef run)
      in if sgStageRef stage \<noteq> [] then title @ '' / '' @ sgStageRef stage else title)"

definition compileStage ::
    "'w ChainEnv \<Rightarrow> ChainConfig \<Rightarrow> ChainRun \<Rightarrow> StageConfig \<Rightarrow> bool \<Rightarrow> ('w, StageRun) act" where
  "compileStage env cfg run stage dryRun =
     seqS (\<lambda>w. (resolveWorkflow env w (ccProjectID cfg) (sgWorkflowRef stage), w)) (\<lambda>workflow.
     seqS (\<lambda>w. envCompileWorkflow env w
       \<lparr>wiProjectID = ccProjectID cfg, wiWorkflowID = wdID workflow, wiUserRequestRef = crInputRef run,
        wiCreatedByRunID = firstNonEmpty [crCreatedByRunID run, crID run], wiTraceID = crTraceID run,
        wiTitleOverride = stageTitle cfg run stage, wiDryRun = dryRun\<rparr>) (\<lambda>compiled.
     seqS (clockS env) (\<lambda>now.
     let stageRun = \<lparr>srStageRef = sgStageRef stage, srWorkflowRef = sgWorkflowRef stage,
           srWorkflowID = wdID workflow, srStatus = StageStatusQueued, srWorkPlanID = woWorkPlanID compiled,
           srWorkTaskIDs = appendUniqueMany (woWorkTaskIDs compiled) (woReviewerTaskIDs compiled),
           srAutomationIDs = woAutomationIDs compiled, srStartedAt = now, srCompletedAt = zeroTime,
           srBlockedReason = []\<rparr>
     in if dryRun then retS (stageRun\<lparr>srStatus := StageStatusPlanned\<rparr>)
        else
          seqS (activatePlan env (ccProjectID cfg) compiled run) (\<lambda>_.
          seqS (releaseCompiledTasks env (ccProjectID cfg) compiled run) (\<lambda>_.
          retS stageRun)))))"

subsection \<open>Start\<close>

fun dryRunStages ::
    "'w ChainEnv \<Rightarrow> ChainConfig \<Rightarrow> ChainRun \<Rightarrow> StageConfig list \<Rightarrow> StartResult \<Rightarrow> ('w, StartResult) act" where
  "dryRunStages env cfg run [] result = retS result"
| "dryRunStages env cfg run (stage # stages) result =
     seqS (compileStage env cfg run stage True) (\<lambda>stageRun.
     dryRunStages env cfg run stages
       (result\<lparr>soStageRuns := soStageRuns result @ [stageRun],
          soWorkPlanIDs := appendUnique_chain (soWorkPlanIDs result) (srWorkPlanID stageRun),
          soAutomationIDs := appendUniqueMany (soAutomationIDs result) (srAutomationIDs stageRun)\<rparr>))"

definition dryRunStart ::
    "'w ChainEnv \<Rightarrow> ChainConfig \<Rightarrow> string \<Rightarrow> string \<Rightarrow> string \<Rightarrow> ('w, StartResult) act" where
  "dryRunStart env cfg inputRef runID traceID =
     dryRunStages env cfg (zeroRun\<lparr>crInputRef := inputRef, crCreatedByRunID := runID, crTraceID := traceID\<rparr>)
       (ccStages cfg)
       \<lparr>soProjectID = ccProjectID cfg, soChainRef = ccChainRef cfg, soInputRef = inputRef,
        soStatus = ChainStatusPlanned, soChainRunID = [], soStageRuns = [], soWorkPlanIDs = [],
        soAutomationIDs = [], soDryRun = True,
        soNextAction = ''dry run only; no Work Plans or automations created'', soPullRequestRef = []\<rparr>"

definition plannedStage :: "StageConfig \<Rightarrow> StageRun" where
  "plannedStage stage = \<lparr>srStageRef = sgStageRef stage, srWorkflowRef = sgWorkflowRef stage,
     srWorkflowID = [], srStatus = StageStatusPlanned, srWorkPlanID = [], srWorkTaskIDs = [],
     srAutomationIDs = [], srStartedAt = zeroTime, srCompletedAt = zeroTime, srBlockedReason = []\<rparr>"

definition plannedRun ::
    "ChainConfig \<Rightarrow> string \<Rightarrow> string \<Rightarrow> string \<Rightarrow> string \<Rightarrow> time \<Rightarrow> ChainRun" where
  "plannedRun cfg chainRunID inputRef runID traceID now =
     \<lparr>crID = chainRunID, crProjectID = ccProjectID cfg, crChainRef = ccChainRef cfg,
      crInputRef = inputRef, crStatus = ChainStatusPlanned,
      crContextRefs = contextRefsForInput cfg inputRef,
      crStageRuns = map plannedStage (ccStages cfg), crWorkPlanIDs = [], crAutomationIDs = [],
      crCreatedByRunID = runID, crTraceID = traceID, crGitOpsReady = False, crPullRequestRef = [],
      crNextAction = ''compile first stage and activate its Work Plan'', crCreatedAt = now,
      crUpdatedAt = now\<rparr>"

definition startChain ::
    "'w ChainEnv \<Rightarrow> ChainConfig \<Rightarrow> string \<Rightarrow> string \<Rightarrow> string \<Rightarrow> ('w chain_state, StartResult) act" where
  "startChain env cfg inputRef runID traceID =
     seqS (onWorld (newIDS env)) (\<lambda>chainRunID.
     seqS (onWorld (clockS env)) (\<lambda>now.
     let run = plannedRun cfg chainRunID inputRef runID traceID now in
     seqS (onWorld (compileStage env cfg run (hd (ccStages cfg)) False)) (\<lambda>stage.
     seqS (onWorld (clockS env)) (\<lambda>now'.
     seqS (onStore (\<lambda>cs. memCreateChainRun cs
       (run\<lparr>crStageRuns := (crStageRuns run)[0 := stage],
            crWorkPlanIDs := appendUnique_chain (crWorkPlanIDs run) (srWorkPlanID stage),
            crAutomationIDs := appendUniqueMany (crAutomationIDs run) (srAutomationIDs stage),
            crStatus := ChainStatusQueued,
            crNextAction := ''decomposition automation will run when planned tasks transition to ready'',
            crUpdatedAt := now'\<rparr>))) (\<lambda>created.
     retS (startResult created False))))))"

definition svcStart :: "'w ChainEnv \<Rightarrow> StartInput \<Rightarrow> ('w chain_state, StartResult) act" where
  "svcStart env input =
     seqS (liftS (safeRef_chain (siProjectID input) ''project_id'')) (\<lambda>projectID.
     seqS (liftS (safeRef_chain (siChainRef input) ''chain_ref'')) (\<lambda>chainRef.
     seqS (liftS (safeOptionalRef_chain (siCreatedByRunID input) ''created_by_run_id'')) (\<lambda>runID.
     seqS (liftS (safeOptionalRef_chain (siTraceID input) ''trace_id'')) (\<lambda>traceID.
     seqS (liftS (svcConfig env projectID chainRef)) (\<lambda>cfg.
     seqS (liftS (normalizeInputRef (envCompilePattern env) cfg (siInputText input))) (\<lambda>inputRef.
     seqS (\<lambda>s. (validateConfiguredWorkflows env (fst s) cfg, s)) (\<lambda>_.
     if siDryRun input then onWorld (dryRunStart env cfg inputRef runID traceID)
     else startChain env cfg inputRef runID traceID)))))))"

end
