(* ===== verification/Chain_Lifecycle.thy ===== *)
theory Chain_Lifecycle
  imports Chain_Service
begin

section \<open>Workflow chains: advancing and finishing\<close>

text \<open>
  The rest of \<open>internal/projectworkflowchain/service.go\<close>: the choice of the next stage, the
  handler of work plan status changes that advances a chain, the GitOps output at its end
  with its retry, and the queries.
\<close>

subsection \<open>The next stage\<close>

text \<open>\<open>statusByRef[ref]\<close>: the status of the last stage run with the reference, else empty.\<close>

definition statusByRef :: "ChainRun \<Rightarrow> string \<Rightarrow> string" where
  "statusByRef run ref =
     (case find (\<lambda>s. srStageRef s = ref) (rev (crStageRuns run)) of None \<Rightarrow> [] | Some s \<Rightarrow> srStatus s)"

definition stageReady :: "ChainRun \<Rightarrow> StageConfig \<Rightarrow> bool" where
  "stageReady run stage =
     (statusByRef run (sgStageRef stage) = StageStatusPlanned
      \<and> list_all (\<lambda>dep. statusByRef run dep = StageStatusCompleted) (sgDependsOn stage))"

definition nextReadyStage :: "ChainConfig \<Rightarrow> ChainRun \<Rightarrow> StageConfig option" where
  "nextReadyStage cfg run = find (stageReady run) (ccStages cfg)"

definition allStagesCompleted :: "ChainRun \<Rightarrow> bool" where
  "allStagesCompleted run =
     (crStageRuns run \<noteq> [] \<and> list_all (\<lambda>s. srStatus s = StageStatusCompleted) (crStageRuns run))"

subsection \<open>GitOps output\<close>

definition isReasonByte :: "char \<Rightarrow> bool" where
  "isReasonByte c = inCls (lowerCls @ digitCls) c"

definition isReasonGap :: "char \<Rightarrow> bool" where
  "isReasonGap c = (c \<in> set ('':/ '' @ backslash @ bytes [9, 10]))"

text \<open>The loop over the reason; \<open>b\<close> is the builder. It ends when 80 bytes are collected.\<close>

fun reasonLoop :: "string \<Rightarrow> string \<Rightarrow> string" where
  "reasonLoop b [] = b"
| "reasonLoop b (c # s) =
     (let b' = (if isReasonByte c then b @ [c]
                else if c = CHR ''_'' \<or> c = CHR ''-'' then b @ [c]
                else if isReasonGap c then (if b \<noteq> [] \<and> \<not> hasSuffix b ''_'' then b @ ''_'' else b)
                else b)
      in if length b' \<ge> 80 then b' else reasonLoop b' s)"

definition gitOpsBlockedReason :: "string \<Rightarrow> string" where
  "gitOpsBlockedReason errText =
     (let reason = trimSpace errText
      in if reason = [] then ''gitops_finalize_failed''
         else let safe = trimCut (reasonLoop [] (toLower reason)) ''_-''
              in if safe = [] then ''gitops_finalize_failed'' else ''gitops_finalize_failed_'' @ safe)"

definition gitOpsSourceWorkPlanID :: "ChainRun \<Rightarrow> string" where
  "gitOpsSourceWorkPlanID run =
     (case find (\<lambda>s. srStageRef s = ''implementation'' \<and> trimSpace (srWorkPlanID s) \<noteq> [])
             (rev (crStageRuns run)) of
        Some s \<Rightarrow> srWorkPlanID s
      | None \<Rightarrow>
          (case find (\<lambda>s. trimSpace (srWorkPlanID s) \<noteq> []) (rev (crStageRuns run)) of
             Some s \<Rightarrow> srWorkPlanID s
           | None \<Rightarrow> if crWorkPlanIDs run = [] then [] else last (crWorkPlanIDs run)))"

text \<open>\<open>finalizeGitOps\<close> writes the run through its pointer, on its successful paths only.\<close>

definition finalizeGitOps :: "'w ChainEnv \<Rightarrow> ChainRun \<Rightarrow> ('w, ChainRun) act" where
  "finalizeGitOps env run =
     (case envFinalize env of
        None \<Rightarrow> retS (run\<lparr>crStatus := ChainStatusPostValidationPassed, crGitOpsReady := True,
          crNextAction := ''draft PR GitOps is allowed after configured GitOps checks pass''\<rparr>)
      | Some finalize \<Rightarrow>
          if trimSpace (crPullRequestRef run) \<noteq> [] then
            retS (run\<lparr>crStatus := ChainStatusCompleted, crGitOpsReady := False,
              crNextAction := ''workflow chain completed with draft PR GitOps output''\<rparr>)
          else
            let planID = gitOpsSourceWorkPlanID run in
            if planID = []
            then liftS (Inl (ErrInvalidInput ''final stage Work Plan is required for GitOps finalization''))
            else
              seqS (\<lambda>w. (envGetWorkPlan env w (crProjectID run) planID, w)) (\<lambda>plan.
              seqS (\<lambda>w. finalize w
                \<lparr>giProjectID = crProjectID run, giChainRunID = crID run, giChainRef = crChainRef run,
                 giInputRef = crInputRef run, giWorkPlan = plan, giStageRuns = crStageRuns run,
                 giAutomationIDs = crAutomationIDs run, giCreatedByRunID = crCreatedByRunID run,
                 giTraceID = crTraceID run\<rparr>) (\<lambda>result.
              if goSkipped result \<or> goNoChanges result \<or> trimSpace (goPullRequestRef result) = []
              then liftS (Inl (ErrInvalidInput ''GitOps finalization did not create a draft PR''))
              else retS (run\<lparr>crPullRequestRef := goPullRequestRef result,
                crStatus := ChainStatusCompleted, crGitOpsReady := False,
                crNextAction := ''workflow chain completed with draft PR GitOps output''\<rparr>))))"

definition setLastReason :: "string \<Rightarrow> StageRun list \<Rightarrow> StageRun list" where
  "setLastReason reason ss =
     (if ss = [] then ss else butlast ss @ [(last ss)\<lparr>srBlockedReason := reason\<rparr>])"

definition blockGitOps :: "'w ChainEnv \<Rightarrow> ChainRun \<Rightarrow> error \<Rightarrow> ChainRun" where
  "blockGitOps env run err =
     run\<lparr>crStatus := ChainStatusBlocked, crGitOpsReady := True,
         crNextAction := ''chain blocked while creating draft PR GitOps output'',
         crStageRuns := setLastReason (gitOpsBlockedReason (envErrorText env err)) (crStageRuns run)\<rparr>"

subsection \<open>Writing a run back\<close>

definition saveRun :: "'w ChainEnv \<Rightarrow> ChainRun \<Rightarrow> ('w chain_state, unit) act" where
  "saveRun env run =
     seqS (onWorld (clockS env)) (\<lambda>now.
     seqS (onStore (\<lambda>cs. memUpdateChainRun cs (run\<lparr>crUpdatedAt := now\<rparr>))) (\<lambda>_.
     retS ()))"

text \<open>\<open>_, _ = svc.store.UpdateChainRun(ctx, run); return err\<close>\<close>

definition saveAndFail :: "ChainRun \<Rightarrow> error \<Rightarrow> ('w chain_state, unit) act" where
  "saveAndFail run err s = (Inl err, (fst s, snd (memUpdateChainRun (snd s) run)))"

definition retryBlockedGitOps :: "'w ChainEnv \<Rightarrow> ChainRun \<Rightarrow> ('w chain_state, unit) act" where
  "retryBlockedGitOps env run s =
     (case finalizeGitOps env run (fst s) of
        (Inl err, w) \<Rightarrow>
          (case envNow env w of (now, w') \<Rightarrow>
             saveAndFail ((blockGitOps env run err)\<lparr>crUpdatedAt := now\<rparr>) err (w', snd s))
      | (Inr run', w) \<Rightarrow> saveRun env run' (w, snd s))"

subsection \<open>The status change handler\<close>

fun completeStages :: "'w ChainEnv \<Rightarrow> string \<Rightarrow> StageRun list \<Rightarrow> ('w, StageRun list \<times> bool) act" where
  "completeStages env planID [] = retS ([], False)"
| "completeStages env planID (s # ss) =
     (if srWorkPlanID s = planID \<and> srStatus s \<noteq> StageStatusCompleted then
        seqS (clockS env) (\<lambda>now.
        seqS (completeStages env planID ss) (\<lambda>(ss', changed).
        retS (s\<lparr>srStatus := StageStatusCompleted, srCompletedAt := now\<rparr> # ss', True)))
      else
        seqS (completeStages env planID ss) (\<lambda>(ss', changed). retS (s # ss', changed)))"

definition touchIf :: "'w ChainEnv \<Rightarrow> bool \<Rightarrow> ChainRun \<Rightarrow> ('w, ChainRun) act" where
  "touchIf env changed run =
     (if changed then seqS (clockS env) (\<lambda>now. retS (run\<lparr>crUpdatedAt := now\<rparr>)) else retS run)"

definition mapStage :: "string \<Rightarrow> (StageRun \<Rightarrow> StageRun) \<Rightarrow> StageRun list \<Rightarrow> StageRun list" where
  "mapStage ref f ss = map (\<lambda>s. if srStageRef s = ref then f s else s) ss"

definition blockStage :: "ChainRun \<Rightarrow> StageConfig \<Rightarrow> ChainRun" where
  "blockStage run nxt =
     run\<lparr>crStatus := ChainStatusBlocked, crNextAction := ''chain blocked while compiling next stage'',
         crStageRuns := mapStage (sgStageRef nxt)
           (\<lambda>s. s\<lparr>srStatus := StageStatusBlocked, srBlockedReason := ''compile_next_stage_failed''\<rparr>)
           (crStageRuns run)\<rparr>"

definition queueStage :: "ChainRun \<Rightarrow> StageConfig \<Rightarrow> StageRun \<Rightarrow> ChainRun" where
  "queueStage run nxt stageRun =
     run\<lparr>crStageRuns := mapStage (sgStageRef nxt) (\<lambda>_. stageRun) (crStageRuns run),
         crWorkPlanIDs := appendUnique_chain (crWorkPlanIDs run) (srWorkPlanID stageRun),
         crAutomationIDs := appendUniqueMany (crAutomationIDs run) (srAutomationIDs stageRun),
         crStatus := ChainStatusQueued,
         crNextAction := ''next stage automation will run when lifecycle gates are satisfied''\<rparr>"

definition startNextStage ::
    "'w ChainEnv \<Rightarrow> ChainConfig \<Rightarrow> ChainRun \<Rightarrow> StageConfig \<Rightarrow> ('w chain_state, unit) act" where
  "startNextStage env cfg run nxt s =
     (case compileStage env cfg run nxt False (fst s) of
        (Inl err, w) \<Rightarrow> saveAndFail (blockStage run nxt) err (w, snd s)
      | (Inr stageRun, w) \<Rightarrow> saveRun env (queueStage run nxt stageRun) (w, snd s))"

definition completeRun :: "ChainRun \<Rightarrow> ChainRun" where
  "completeRun run =
     run\<lparr>crStatus := ChainStatusCompleted, crNextAction := ''workflow chain completed''\<rparr>"

definition finishChain :: "'w ChainEnv \<Rightarrow> ChainConfig \<Rightarrow> ChainRun \<Rightarrow> ('w chain_state, unit) act" where
  "finishChain env cfg run s =
     (if ccGitOpsMode cfg = GitOpsModeDraftPRAfterValidation then
        (case finalizeGitOps env run (fst s) of
           (Inl err, w) \<Rightarrow> saveAndFail (blockGitOps env run err) err (w, snd s)
         | (Inr run', w) \<Rightarrow> saveRun env run' (w, snd s))
      else saveRun env (completeRun run) s)"

definition advanceChain ::
    "'w ChainEnv \<Rightarrow> WorkPlanStatusChange \<Rightarrow> ChainRun \<Rightarrow> ('w chain_state, unit) act" where
  "advanceChain env change run =
     seqS (liftS (svcConfig env (crProjectID run) (crChainRef run))) (\<lambda>cfg.
     seqS (onWorld (completeStages env (scPlanID change) (crStageRuns run))) (\<lambda>(ss, changed).
     seqS (onWorld (touchIf env changed (run\<lparr>crStageRuns := ss\<rparr>))) (\<lambda>run1.
     case nextReadyStage cfg run1 of
       Some nxt \<Rightarrow> startNextStage env cfg run1 nxt
     | None \<Rightarrow> if allStagesCompleted run1 then finishChain env cfg run1 else saveRun env run1)))"

definition handleWorkPlanStatusChanged ::
    "'w ChainEnv \<Rightarrow> WorkPlanStatusChange \<Rightarrow> ('w chain_state, unit) act" where
  "handleWorkPlanStatusChanged env change s =
     (if scNewStatus change \<noteq> WorkPlanStatusDone then (Inr (), s)
      else case memFindChainRunByWorkPlan (snd s) (scProjectID change) (scPlanID change) of
             Inl _ \<Rightarrow> (Inr (), s)
           | Inr run \<Rightarrow>
               if crStatus run = ChainStatusBlocked \<and> crGitOpsReady run \<and> allStagesCompleted run
               then retryBlockedGitOps env run s
               else advanceChain env change run s)"

subsection \<open>Queries and retry\<close>

definition svcGetChainRun :: "ChainStore \<Rightarrow> string \<Rightarrow> string \<Rightarrow> ChainRun res" where
  "svcGetChainRun cs projectID0 chainRunID0 =
     tryE (safeProjectObject_chain projectID0 chainRunID0 ''chain_run_id'') (\<lambda>(projectID, chainRunID).
     memGetChainRun cs projectID chainRunID)"

definition svcRetryGitOps :: "'w ChainEnv \<Rightarrow> string \<Rightarrow> string \<Rightarrow> ('w chain_state, ChainRun) act" where
  "svcRetryGitOps env projectID0 chainRunID0 =
     seqS (liftS (safeProjectObject_chain projectID0 chainRunID0 ''chain_run_id'')) (\<lambda>(projectID, chainRunID).
     seqS (\<lambda>s. (memGetChainRun (snd s) projectID chainRunID, s)) (\<lambda>run.
     if crStatus run \<noteq> ChainStatusBlocked \<or> \<not> crGitOpsReady run \<or> \<not> allStagesCompleted run
     then liftS (Inl (ErrInvalidInput ''chain is not ready for GitOps retry''))
     else seqS (retryBlockedGitOps env run) (\<lambda>_.
          \<lambda>s. (memGetChainRun (snd s) projectID chainRunID, s))))"

definition configLess :: "ChainConfig \<Rightarrow> ChainConfig \<Rightarrow> bool" where
  "configLess a b =
     (if ccProjectID a = ccProjectID b then ccChainRef a < ccChainRef b else ccProjectID a < ccProjectID b)"

definition svcListChains :: "'w ChainEnv \<Rightarrow> ChainStore \<Rightarrow> ChainFilter \<Rightarrow> ListResult res" where
  "svcListChains env cs flt =
     tryE (safeOptionalRef_chain (cfProjectID flt) ''project_id'') (\<lambda>projectID.
     tryE (safeOptionalRef_chain (cfChainRef flt) ''chain_ref'') (\<lambda>chainRef.
     tryE (safeOptionalRef_chain (cfStatus flt) ''status'') (\<lambda>status.
     let chains = filter (\<lambda>cfg. (projectID = [] \<or> ccProjectID cfg = projectID)
            \<and> (chainRef = [] \<or> ccChainRef cfg = chainRef)) (envConfigs env)
     in Inr \<lparr>lrChains = sortBy configLess chains,
             lrRuns = memListChainRuns cs
               \<lparr>cfProjectID = projectID, cfChainRef = chainRef, cfStatus = status\<rparr>\<rparr>)))"

end
