(* ===== verification/Chain_Invariant.thy ===== *)
theory Chain_Invariant
  imports Chain_Lifecycle
begin

section \<open>Workflow chains: the dependency graph\<close>

text \<open>
  What \<open>hasDependencyCycle\<close> decides, what a valid configuration guarantees, and why a chain
  always has a next stage: the dependencies of a valid configuration are well-founded, so
  among the planned stages one has no planned dependency.
\<close>

subsection \<open>Cycles\<close>

definition dependsRel :: "StageConfig list \<Rightarrow> (string \<times> string) set" where
  "dependsRel stages = {(ref, dep). dep \<in> set (depsOf stages ref)}"

lemma dependsRel_iff: "(ref, dep) \<in> dependsRel stages \<longleftrightarrow> dep \<in> set (depsOf stages ref)"
  by (simp add: dependsRel_def)

lemma dependsRel_edges: "dependsRel stages = edgeRel (stageGraph stages)"
  by (simp add: dependsRel_def edgeRel_def depsOf_def)

lemma hasDependencyCycle_acyclic: "hasDependencyCycle stages \<longleftrightarrow> \<not> acyclic (dependsRel stages)"
  by (simp add: hasDependencyCycle_def dependsRel_edges cyclic_iff)

subsection \<open>What a valid configuration guarantees\<close>

lemma validateStages_Inr:
  "validateStages i seen stages = Inr out \<Longrightarrow>
     distinct (map sgStageRef stages) \<and> sgStageRef ` set stages \<inter> set seen = {}
     \<and> set out = set seen \<union> sgStageRef ` set stages"
  by (induction i seen stages rule: validateStages.induct)
    (auto simp: tryE_Inr validateStage_def failIf_Inr)

lemma validateDeps_Inr: "validateDeps seen deps = Inr () \<Longrightarrow> d \<in> set deps \<Longrightarrow> trimSpace d \<in> set seen"
  by (induction seen deps rule: validateDeps.induct)
    (auto simp: tryE_Inr safeRef_chain_def Let_def split: if_splits)

lemma validateAllDeps_Inr:
  "validateAllDeps seen stages = Inr () \<Longrightarrow> s \<in> set stages \<Longrightarrow> d \<in> set (sgDependsOn s) \<Longrightarrow> trimSpace d \<in> set seen"
  by (induction seen stages rule: validateAllDeps.induct) (auto simp: tryE_Inr validateDeps_Inr)

lemma validateConfig_Inr:
  assumes "validateConfig rx cfg = Inr ()"
  shows "ccStages cfg \<noteq> []" and "distinct (map sgStageRef (ccStages cfg))"
    and "acyclic (dependsRel (ccStages cfg))"
    and "\<And>s d. s \<in> set (ccStages cfg) \<Longrightarrow> d \<in> set (sgDependsOn s)
           \<Longrightarrow> trimSpace d \<in> sgStageRef ` set (ccStages cfg)"
proof -
  show "ccStages cfg \<noteq> []" using assms by (auto simp: validateConfig_def tryE_Inr failIf_Inr)
  obtain seen where seen: "validateStages 0 [] (ccStages cfg) = Inr seen" "validateAllDeps seen (ccStages cfg) = Inr ()"
      "\<not> hasDependencyCycle (ccStages cfg)"
    using assms by (auto simp: validateConfig_def tryE_Inr failIf_Inr)
  note v = validateStages_Inr [OF seen(1)]
  show "distinct (map sgStageRef (ccStages cfg))" using v by blast
  show "acyclic (dependsRel (ccStages cfg))" using seen(3) by (simp add: hasDependencyCycle_acyclic)
  show "trimSpace d \<in> sgStageRef ` set (ccStages cfg)"
    if "s \<in> set (ccStages cfg)" "d \<in> set (sgDependsOn s)" for s d
    using validateAllDeps_Inr [OF seen(2) that] v by simp
qed

subsection \<open>Stages by reference\<close>

lemma depsOf_stage:
  "distinct (map sgStageRef stages) \<Longrightarrow> s \<in> set stages \<Longrightarrow> depsOf stages (sgStageRef s) = sgDependsOn s"
  unfolding depsOf_def by (rule edgesOf_member) (auto simp: stageGraph_def comp_def)

lemma statusByRef_stage:
  "distinct (map srStageRef (crStageRuns run)) \<Longrightarrow> s \<in> set (crStageRuns run)
   \<Longrightarrow> statusByRef run (srStageRef s) = srStatus s"
  using find_rev_unique [of srStageRef "crStageRuns run" s] by (simp add: statusByRef_def)

lemma statusByRef_cases:
  "statusByRef run ref = [] \<or> (\<exists>s \<in> set (crStageRuns run). statusByRef run ref = srStatus s)"
  unfolding statusByRef_def
  by (cases "find (\<lambda>s. srStageRef s = ref) (rev (crStageRuns run))")
    (auto dest: find_rev_member)

text \<open>The stage runs of a run are those of its configuration, in order.\<close>

definition stagesMatch :: "ChainConfig \<Rightarrow> ChainRun \<Rightarrow> bool" where
  "stagesMatch cfg run \<longleftrightarrow> map srStageRef (crStageRuns run) = map sgStageRef (ccStages cfg)"

lemma stagesMatch_run:
  assumes "stagesMatch cfg run" and "g \<in> set (ccStages cfg)"
  shows "\<exists>s \<in> set (crStageRuns run). srStageRef s = sgStageRef g"
  using assms unfolding stagesMatch_def by (metis image_eqI image_iff list.set_map)

lemma stagesMatch_config:
  assumes "stagesMatch cfg run" and "s \<in> set (crStageRuns run)"
  shows "\<exists>g \<in> set (ccStages cfg). sgStageRef g = srStageRef s"
  using assms unfolding stagesMatch_def by (metis image_eqI image_iff list.set_map)

definition canonicalDeps :: "ChainConfig \<Rightarrow> bool" where
  "canonicalDeps cfg \<longleftrightarrow> (\<forall>s \<in> set (ccStages cfg). \<forall>d \<in> set (sgDependsOn s). trimSpace d = d)"

subsection \<open>There is always a next stage\<close>

lemma next_stage_exists:
  assumes valid: "validateConfig rx cfg = Inr ()" and canon: "canonicalDeps cfg"
    and match: "stagesMatch cfg run"
    and st: "\<forall>s \<in> set (crStageRuns run). srStatus s \<in> {StageStatusPlanned, StageStatusCompleted}"
    and open_run: "\<not> allStagesCompleted run"
  shows "nextReadyStage cfg run \<noteq> None"
proof -
  note v = validateConfig_Inr [OF valid]
  have dist: "distinct (map srStageRef (crStageRuns run))" using match v(2) by (simp add: stagesMatch_def)
  have "crStageRuns run \<noteq> []" using match v(1) by (auto simp: stagesMatch_def)
  with open_run st obtain s where s: "s \<in> set (crStageRuns run)" "srStatus s = StageStatusPlanned"
    by (fastforce simp: allStagesCompleted_def list_all_iff)
  let ?P = "{ref. statusByRef run ref = StageStatusPlanned}"
  have p: "srStageRef s \<in> ?P" using statusByRef_stage [OF dist s(1)] s(2) by simp
  obtain z where z0: "z \<in> ?P" and min0: "\<And>y. (z, y) \<in> dependsRel (ccStages cfg) \<Longrightarrow> y \<notin> ?P"
    by (rule acyclic_minimal [OF v(3) _ p]) (simp_all add: dependsRel_edges finite_edgeRel that)
  have z: "statusByRef run z = StageStatusPlanned" using z0 by simp
  have min: "(z, y) \<in> dependsRel (ccStages cfg) \<Longrightarrow> statusByRef run y \<noteq> StageStatusPlanned" for y
    using min0 by simp
  from z obtain t where "find (\<lambda>t. srStageRef t = z) (rev (crStageRuns run)) = Some t"
    by (auto simp: statusByRef_def split: option.splits)
  then have t: "t \<in> set (crStageRuns run)" "srStageRef t = z"
    using find_rev_member by fastforce+
  from stagesMatch_config [OF match t(1)] t(2) obtain g where
    g: "g \<in> set (ccStages cfg)" "sgStageRef g = z" by blast
  have "statusByRef run d = StageStatusCompleted" if d: "d \<in> set (sgDependsOn g)" for d
  proof -
    have "(z, d) \<in> dependsRel (ccStages cfg)"
      using d g depsOf_stage [OF v(2) g(1)] by (simp add: dependsRel_iff)
    from min [OF this] have np: "statusByRef run d \<noteq> StageStatusPlanned" .
    have "d \<in> sgStageRef ` set (ccStages cfg)"
      using v(4) [OF g(1) d] canon g(1) d by (auto simp: canonicalDeps_def)
    then obtain u where u: "u \<in> set (crStageRuns run)" "srStageRef u = d"
      using stagesMatch_run [OF match] by blast
    with statusByRef_stage [OF dist u(1)] np st show ?thesis by force
  qed
  then have "stageReady run g" using z g(2) by (simp add: stageReady_def list_all_iff)
  with g(1) show ?thesis by (auto simp: nextReadyStage_def find_None_iff)
qed

lemma nextReadyStage_ready:
  assumes "nextReadyStage cfg run = Some g"
  shows "g \<in> set (ccStages cfg)" and "stageReady run g"
  using assms by (auto simp: nextReadyStage_def find_Some_iff)

section \<open>Workflow chains: runs of the service and their invariant\<close>

text \<open>
  A step is a call of \<open>Start\<close>, of the status change handler or of the GitOps retry, or a
  change in the world of the other services. \<open>runInv\<close> is what every stored run satisfies,
  \<open>chainInv\<close> adds the store: keys and the index of work plans.
\<close>

subsection \<open>The parts of a call\<close>

lemma configIn_Inr:
  "configIn rx cfgs p c = Inr cfg \<Longrightarrow>
     cfg \<in> set cfgs \<and> ccEnabled cfg \<and> ccProjectID cfg = p \<and> ccChainRef cfg = c \<and> validateConfig rx cfg = Inr ()"
  by (induction cfgs) (auto simp: tryE_Inr split: if_splits)

lemma svcConfig_Inr:
  "svcConfig env p c = Inr cfg \<Longrightarrow>
     ccProjectID cfg = p \<and> ccChainRef cfg = c \<and> validateConfig (envCompilePattern env) cfg = Inr ()"
  using configIn_Inr by (fastforce simp: svcConfig_def)

lemma onWorld_eq: "onWorld m s = (r, s') \<longleftrightarrow> m (fst s) = (r, fst s') \<and> snd s' = snd s"
  by (cases s') (auto simp: onWorld_def split: prod.splits)

lemma onStore_eq: "onStore m s = (r, s') \<longleftrightarrow> m (snd s) = (r, snd s') \<and> fst s' = fst s"
  by (cases s') (auto simp: onStore_def split: prod.splits)

lemma seqS_world: "(\<And>x t. snd t = snd s \<Longrightarrow> snd (snd (k x t)) = snd s) \<Longrightarrow>
   snd (snd (seqS (onWorld m) k s)) = snd s"
  by (auto simp: seqS_def onWorld_def split: prod.splits sum.splits)

lemma compileStage_Inr:
  assumes "compileStage env cfg run stage dry w = (Inr sr, w')"
  shows "srStageRef sr = sgStageRef stage \<and> srWorkflowRef sr = sgWorkflowRef stage
    \<and> srStatus sr = (if dry then StageStatusPlanned else StageStatusQueued)"
  using assms by (auto simp: compileStage_def res_simps Let_def split: if_splits)

lemma completeStages_Inr:
  "completeStages env plan ss w = (r, w') \<Longrightarrow>
   \<exists>ss' ch. r = Inr (ss', ch) \<and> list_all2 (\<lambda>s s'. srStageRef s' = srStageRef s \<and> srWorkPlanID s' = srWorkPlanID s
       \<and> srStatus s' = (if srWorkPlanID s = plan then StageStatusCompleted else srStatus s)) ss ss'"
proof (induction ss arbitrary: w r w')
  case Nil
  then show ?case by (auto simp: retS_eq)
next
  case (Cons s ss)
  show ?case
  proof (cases "srWorkPlanID s = plan \<and> srStatus s \<noteq> StageStatusCompleted")
    case True
    obtain now w1 where t: "envNow env w = (now, w1)" by fastforce
    obtain q w2 where q: "completeStages env plan ss w1 = (q, w2)" by fastforce
    from Cons.IH [OF q] obtain ss' ch where "q = Inr (ss', ch)" and
      l: "list_all2 (\<lambda>s s'. srStageRef s' = srStageRef s \<and> srWorkPlanID s' = srWorkPlanID s
       \<and> srStatus s' = (if srWorkPlanID s = plan then StageStatusCompleted else srStatus s)) ss ss'" by blast
    with True Cons.prems t q show ?thesis
      by (auto simp: seqS_def clockS_def retS_def)
  next
    case False
    obtain q w2 where q: "completeStages env plan ss w = (q, w2)" by fastforce
    from Cons.IH [OF q] obtain ss' ch where "q = Inr (ss', ch)" and
      l: "list_all2 (\<lambda>s s'. srStageRef s' = srStageRef s \<and> srWorkPlanID s' = srWorkPlanID s
       \<and> srStatus s' = (if srWorkPlanID s = plan then StageStatusCompleted else srStatus s)) ss ss'" by blast
    with False Cons.prems q show ?thesis
      by (auto simp: seqS_def retS_def)
  qed
qed

lemma finalizeGitOps_Inr:
  assumes "finalizeGitOps env run w = (Inr run', w')"
  obtains (ready) "envFinalize env = None" "crStatus run' = ChainStatusPostValidationPassed"
      "crGitOpsReady run'" "crStageRuns run' = crStageRuns run" "runKeyOf run' = runKeyOf run"
      "crChainRef run' = crChainRef run" "crPullRequestRef run' = crPullRequestRef run"
  | (finished) "crStatus run' = ChainStatusCompleted" "\<not> crGitOpsReady run'" "\<not> isBlank (crPullRequestRef run')"
      "crStageRuns run' = crStageRuns run" "runKeyOf run' = runKeyOf run" "crChainRef run' = crChainRef run"
  using assms
  by (cases "envFinalize env")
    (auto simp: finalizeGitOps_def res_simps Let_def runKeyOf_def isBlank_def split: if_splits)

text \<open>Both ways of writing a run back either leave the store alone or store the run.\<close>

lemma saveRun_store:
  assumes "saveRun env run s = (r, s')"
  shows "snd s' = snd s \<or> getRun (snd s) (runKeyOf run) \<noteq> None
    \<and> (\<exists>now. snd s' = storeRun (snd s) (run\<lparr>crUpdatedAt := now\<rparr>))"
  using assms
  by (auto simp: saveRun_def runKeyOf_def seqS_def onWorld_def onStore_def clockS_def retS_def memUpdateChainRun_eq
      split: prod.splits sum.splits if_splits)

lemma saveAndFail_store:
  assumes "saveAndFail run e s = (r, s')"
  shows "r = Inl e \<and> (snd s' = snd s \<or> getRun (snd s) (runKeyOf run) \<noteq> None \<and> snd s' = storeRun (snd s) run)"
  using assms by (auto simp: saveAndFail_def memUpdateChainRun_eq split: if_splits)

subsection \<open>The invariant of a run\<close>

definition runInv :: "'w ChainEnv \<Rightarrow> ChainRun \<Rightarrow> bool" where
  "runInv env run \<longleftrightarrow>
     (\<exists>cfg. svcConfig env (crProjectID run) (crChainRef run) = Inr cfg \<and> stagesMatch cfg run
        \<and> (crStatus run = ChainStatusPostValidationPassed \<or> crGitOpsReady run
             \<longrightarrow> ccGitOpsMode cfg = GitOpsModeDraftPRAfterValidation)
        \<and> (crStatus run = ChainStatusCompleted \<and> ccGitOpsMode cfg = GitOpsModeDraftPRAfterValidation
             \<longrightarrow> \<not> isBlank (crPullRequestRef run)))
     \<and> crStatus run \<in> set chainStatuses
     \<and> (\<forall>s \<in> set (crStageRuns run). srStatus s \<in> set stageStatuses)
     \<and> (crStatus run \<in> {ChainStatusCompleted, ChainStatusPostValidationPassed} \<or> crGitOpsReady run
          \<longrightarrow> allStagesCompleted run)"

definition chainInv :: "'w ChainEnv \<Rightarrow> ChainStore \<Rightarrow> bool" where
  "chainInv env cs \<longleftrightarrow> keyed getRun runKeyOf cs \<and> allVals getRun (runInv env) cs \<and> indexSound cs"

text \<open>Only these fields of a run matter to the invariant.\<close>

lemma runInv_cong:
  assumes "runInv env run" and "crProjectID run' = crProjectID run" and "crChainRef run' = crChainRef run"
    and "crStatus run' = crStatus run" and "crGitOpsReady run' = crGitOpsReady run"
    and "crStageRuns run' = crStageRuns run" and "crPullRequestRef run' = crPullRequestRef run"
  shows "runInv env run'"
  using assms by (simp add: runInv_def stagesMatch_def allStagesCompleted_def)

lemma allStages_status:
  assumes "allStagesCompleted run" shows "statusByRef run ref \<noteq> StageStatusPlanned"
  using assms statusByRef_cases [of run ref] by (auto simp: allStagesCompleted_def list_all_iff)

lemma nextReadyStage_open: "nextReadyStage cfg run = Some g \<Longrightarrow> \<not> allStagesCompleted run"
  using allStages_status nextReadyStage_ready(2) by (fastforce simp: stageReady_def)

lemma refs_mapStage:
  "(\<And>s. srStageRef (f s) = ref) \<Longrightarrow> map srStageRef (mapStage ref f ss) = map srStageRef ss"
  by (auto simp: mapStage_def)

lemma mapStage_statuses:
  "\<forall>s \<in> set ss. srStatus s \<in> A \<Longrightarrow> (\<And>s. srStatus (f s) \<in> A) \<Longrightarrow> \<forall>s \<in> set (mapStage ref f ss). srStatus s \<in> A"
  by (auto simp: mapStage_def)

lemma refs_setLastReason:
  "map srStageRef (setLastReason r ss) = map srStageRef ss \<and> map srStatus (setLastReason r ss) = map srStatus ss"
  by (cases ss rule: rev_cases) (auto simp: setLastReason_def)

lemma statuses_setLastReason:
  "(\<forall>s \<in> set (setLastReason r ss). P (srStatus s)) \<longleftrightarrow> (\<forall>s \<in> set ss. P (srStatus s))"
  using refs_setLastReason [of r ss] by (metis (no_types, lifting) image_eqI image_iff list.set_map)

lemma allStages_block [simp]:
  "allStagesCompleted (blockGitOps env run e) = allStagesCompleted run"
  using refs_setLastReason [of "gitOpsBlockedReason (envErrorText env e)" "crStageRuns run"]
    statuses_setLastReason [of "gitOpsBlockedReason (envErrorText env e)" "crStageRuns run"
      "\<lambda>st. st = StageStatusCompleted"]
  by (auto simp: allStagesCompleted_def blockGitOps_def list_all_iff)

subsection \<open>Steps keep the invariant\<close>

text \<open>A call leaves the store alone, or writes one run that satisfies the invariant.\<close>

definition stored :: "'w ChainEnv \<Rightarrow> ChainStore \<Rightarrow> ChainStore \<Rightarrow> bool" where
  "stored env cs cs' \<longleftrightarrow>
     cs' = cs \<or> (\<exists>run. getRun cs (runKeyOf run) \<noteq> None \<and> runInv env run \<and> cs' = storeRun cs run)"

lemma stored_inv: "stored env cs cs' \<Longrightarrow> chainInv env cs \<Longrightarrow> chainInv env cs'"
  by (auto simp: stored_def chainInv_def intro: runStore.keyed_put runStore.allVals_put indexSound_store)

lemma saveRun_stored:
  assumes "saveRun env run s = (r, s')" and "runInv env run"
  shows "stored env (snd s) (snd s')"
  using saveRun_store [OF assms(1)]
proof
  assume "getRun (snd s) (runKeyOf run) \<noteq> None \<and> (\<exists>now. snd s' = storeRun (snd s) (run\<lparr>crUpdatedAt := now\<rparr>))"
  then obtain now where now: "snd s' = storeRun (snd s) (run\<lparr>crUpdatedAt := now\<rparr>)"
    "getRun (snd s) (runKeyOf (run\<lparr>crUpdatedAt := now\<rparr>)) \<noteq> None" by (auto simp: runKeyOf_def)
  have "runInv env (run\<lparr>crUpdatedAt := now\<rparr>)" by (rule runInv_cong [OF assms(2)]) simp_all
  with now show ?thesis unfolding stored_def by blast
qed (simp add: stored_def)

lemma saveAndFail_stored: "saveAndFail run e s = (r, s') \<Longrightarrow> runInv env run \<Longrightarrow> stored env (snd s) (snd s')"
  using saveAndFail_store [of run e s r s'] by (auto simp: stored_def)

text \<open>A run of a GitOps chain with all stages completed.\<close>

definition finishing :: "'w ChainEnv \<Rightarrow> ChainRun \<Rightarrow> bool" where
  "finishing env run \<longleftrightarrow>
     (\<exists>cfg. svcConfig env (crProjectID run) (crChainRef run) = Inr cfg \<and> stagesMatch cfg run
        \<and> ccGitOpsMode cfg = GitOpsModeDraftPRAfterValidation)
     \<and> (\<forall>s \<in> set (crStageRuns run). srStatus s \<in> set stageStatuses) \<and> allStagesCompleted run"

lemma finalize_inv:
  assumes "finalizeGitOps env run w = (Inr run', w')" and "finishing env run"
  shows "runInv env run'"
  using assms(1)
proof (cases rule: finalizeGitOps_Inr)
  case ready
  then show ?thesis
    using assms(2) by (auto simp: runInv_def finishing_def runKeyOf_def stagesMatch_def allStagesCompleted_def
        chainStatuses_def)
next
  case finished
  then show ?thesis
    using assms(2) by (auto simp: runInv_def finishing_def runKeyOf_def stagesMatch_def allStagesCompleted_def
        chainStatuses_def)
qed

lemma blockGitOps_inv:
  assumes "finishing env run"
  shows "runInv env ((blockGitOps env run e)\<lparr>crUpdatedAt := t\<rparr>)" and "runInv env (blockGitOps env run e)"
proof -
  show 1: "runInv env (blockGitOps env run e)"
    using assms refs_setLastReason [of "gitOpsBlockedReason (envErrorText env e)" "crStageRuns run"]
      statuses_setLastReason [of "gitOpsBlockedReason (envErrorText env e)" "crStageRuns run"
        "\<lambda>st. st \<in> set stageStatuses"]
    by (auto simp: runInv_def finishing_def stagesMatch_def chainStatuses_def)
      (auto simp: blockGitOps_def)
  show "runInv env ((blockGitOps env run e)\<lparr>crUpdatedAt := t\<rparr>)"
    by (rule runInv_cong [OF 1]) simp_all
qed

lemma retry_stored:
  assumes "retryBlockedGitOps env run s = (r, s')" and "finishing env run"
  shows "stored env (snd s) (snd s')"
proof (cases "finalizeGitOps env run (fst s)")
  case (Pair q w)
  show ?thesis
  proof (cases q)
    case (Inl e)
    obtain now w' where t: "envNow env w = (now, w')" by fastforce
    with assms(1) Pair Inl
    have "saveAndFail ((blockGitOps env run e)\<lparr>crUpdatedAt := now\<rparr>) e (w', snd s) = (r, s')"
      by (simp add: retryBlockedGitOps_def)
    from saveAndFail_stored [OF this blockGitOps_inv(1) [OF assms(2)]] show ?thesis by simp
  next
    case (Inr run')
    with assms(1) Pair have "saveRun env run' (w, snd s) = (r, s')"
      by (simp add: retryBlockedGitOps_def)
    from saveRun_stored [OF this] finalize_inv [OF _ assms(2)] Pair Inr show ?thesis by auto
  qed
qed

text \<open>Recording the completed stages keeps the invariant.\<close>

lemma recorded_inv:
  assumes inv: "runInv env run"
    and ss: "list_all2 (\<lambda>s s'. srStageRef s' = srStageRef s \<and> srWorkPlanID s' = srWorkPlanID s
       \<and> srStatus s' = (if srWorkPlanID s = plan then StageStatusCompleted else srStatus s)) (crStageRuns run) ss"
  shows "runInv env (run\<lparr>crStageRuns := ss\<rparr>)"
proof -
  have refs: "map srStageRef ss = map srStageRef (crStageRuns run)"
    using ss by (induction rule: list_all2_induct) auto
  have st: "\<forall>s \<in> set ss. \<exists>t \<in> set (crStageRuns run). srStatus s \<in> {StageStatusCompleted, srStatus t}"
    using ss by (induction rule: list_all2_induct) auto
  have "allStagesCompleted run \<Longrightarrow> allStagesCompleted (run\<lparr>crStageRuns := ss\<rparr>)"
    using st refs by (fastforce simp: allStagesCompleted_def list_all_iff)
  moreover have "\<forall>s \<in> set ss. srStatus s \<in> set stageStatuses"
    using st inv by (fastforce simp: runInv_def stageStatuses_def)
  ultimately show ?thesis
    using inv refs by (auto simp: runInv_def stagesMatch_def)
qed

text \<open>A run that goes on, queued or blocked, keeps it with its stage references.\<close>

lemma runInv_open:
  assumes inv: "runInv env run" and "crProjectID run' = crProjectID run" and "crChainRef run' = crChainRef run"
    and refs: "map srStageRef (crStageRuns run') = map srStageRef (crStageRuns run)"
    and st: "\<forall>s \<in> set (crStageRuns run'). srStatus s \<in> set stageStatuses"
    and status: "crStatus run' \<in> {ChainStatusQueued, ChainStatusBlocked}" and gitops: "\<not> crGitOpsReady run'"
  shows "runInv env run'"
proof -
  obtain cfg where cfg: "svcConfig env (crProjectID run') (crChainRef run') = Inr cfg" and m: "stagesMatch cfg run"
    using inv assms(2,3) by (auto simp: runInv_def)
  have m': "stagesMatch cfg run'" using m refs by (simp add: stagesMatch_def)
  have s: "crStatus run' \<in> set chainStatuses" "crStatus run' \<noteq> ChainStatusCompleted"
    "crStatus run' \<noteq> ChainStatusPostValidationPassed"
    using status by (auto simp: chainStatuses_def)
  show ?thesis
    unfolding runInv_def using cfg m' s st gitops by simp
qed

lemma open_not_ready: "runInv env run \<Longrightarrow> \<not> allStagesCompleted run \<Longrightarrow> \<not> crGitOpsReady run"
  by (auto simp: runInv_def)

lemma runInv_statuses: "runInv env run \<Longrightarrow> s \<in> set (crStageRuns run) \<Longrightarrow> srStatus s \<in> set stageStatuses"
  by (simp add: runInv_def)

lemma blockStage_inv:
  assumes inv: "runInv env run" and "\<not> allStagesCompleted run"
  shows "runInv env (blockStage run nxt)"
  by (rule runInv_open [OF inv])
    (use open_not_ready [OF assms] runInv_statuses [OF inv] in
      \<open>auto simp: blockStage_def mapStage_def stageStatuses_def\<close>)

lemma queueStage_inv:
  assumes inv: "runInv env run" and "\<not> allStagesCompleted run"
    and sr: "srStageRef sr = sgStageRef nxt" "srStatus sr = StageStatusQueued"
  shows "runInv env (queueStage run nxt sr)"
  by (rule runInv_open [OF inv])
    (use open_not_ready [OF assms(1,2)] runInv_statuses [OF inv] sr in
      \<open>auto simp: queueStage_def mapStage_def stageStatuses_def\<close>)

lemma startNextStage_stored:
  assumes "startNextStage env cfg run nxt s = (r, s')" and "runInv env run" and "\<not> allStagesCompleted run"
  shows "stored env (snd s) (snd s')"
proof (cases "compileStage env cfg run nxt False (fst s)")
  case (Pair q w)
  show ?thesis
  proof (cases q)
    case (Inl e)
    with assms(1) Pair have "saveAndFail (blockStage run nxt) e (w, snd s) = (r, s')"
      by (simp add: startNextStage_def)
    from saveAndFail_stored [OF this blockStage_inv [OF assms(2,3)]] show ?thesis by simp
  next
    case (Inr sr)
    with assms(1) Pair have save: "saveRun env (queueStage run nxt sr) (w, snd s) = (r, s')"
      by (simp add: startNextStage_def)
    have "srStageRef sr = sgStageRef nxt \<and> srStatus sr = StageStatusQueued"
      using compileStage_Inr [of env cfg run nxt False] Pair Inr by auto
    from saveRun_stored [OF save queueStage_inv [OF assms(2,3)]] this show ?thesis by simp
  qed
qed

lemma finishChain_stored:
  assumes "finishChain env cfg run s = (r, s')" and inv: "runInv env run" and all: "allStagesCompleted run"
    and cfg: "svcConfig env (crProjectID run) (crChainRef run) = Inr cfg"
  shows "stored env (snd s) (snd s')"
proof (cases "ccGitOpsMode cfg = GitOpsModeDraftPRAfterValidation")
  case True
  have fin: "finishing env run" using inv all cfg True by (auto simp: finishing_def runInv_def)
  obtain q w where q: "finalizeGitOps env run (fst s) = (q, w)" by fastforce
  show ?thesis
  proof (cases q)
    case (Inl e)
    with assms(1) True q have "saveAndFail (blockGitOps env run e) e (w, snd s) = (r, s')"
      by (simp add: finishChain_def)
    from saveAndFail_stored [OF this blockGitOps_inv(2) [OF fin]] show ?thesis by simp
  next
    case (Inr run')
    with assms(1) True q have save: "saveRun env run' (w, snd s) = (r, s')" by (simp add: finishChain_def)
    from saveRun_stored [OF save finalize_inv [OF _ fin]] q Inr show ?thesis by simp
  qed
next
  case False
  with assms(1) have save: "saveRun env (completeRun run) s = (r, s')" by (simp add: finishChain_def)
  have "runInv env (completeRun run)"
    using inv all cfg False
    by (auto simp: runInv_def completeRun_def stagesMatch_def allStagesCompleted_def chainStatuses_def)
  from saveRun_stored [OF save this] show ?thesis .
qed

lemma touchIf_Inr:
  assumes "touchIf env ch run w = (r, w')"
  shows "\<exists>t. r = Inr (run\<lparr>crUpdatedAt := t\<rparr>)"
proof (cases ch)
  case True
  with assms show ?thesis
    by (cases "envNow env w") (auto simp: touchIf_def seqS_def clockS_def retS_def)
next
  case False
  with assms have "r = Inr (run\<lparr>crUpdatedAt := crUpdatedAt run\<rparr>)" by (simp add: touchIf_def retS_def)
  then show ?thesis by blast
qed

text \<open>The run an advance works on: the stages of the plan are recorded as completed.\<close>

lemma advanceChain_cases:
  assumes "advanceChain env change run s = (r, s')" and inv: "runInv env run"
  obtains cfg run1 w where "svcConfig env (crProjectID run) (crChainRef run) = Inr cfg"
    "runInv env run1" "runKeyOf run1 = runKeyOf run" "crChainRef run1 = crChainRef run"
    "list_all2 (\<lambda>s s'. srStageRef s' = srStageRef s \<and> srWorkPlanID s' = srWorkPlanID s
       \<and> srStatus s' = (if srWorkPlanID s = scPlanID change then StageStatusCompleted else srStatus s))
       (crStageRuns run) (crStageRuns run1)"
    "(case nextReadyStage cfg run1 of
       Some nxt \<Rightarrow> startNextStage env cfg run1 nxt
     | None \<Rightarrow> if allStagesCompleted run1 then finishChain env cfg run1 else saveRun env run1) (w, snd s) = (r, s')"
proof -
  obtain cfg where cfg: "svcConfig env (crProjectID run) (crChainRef run) = Inr cfg"
    using inv by (auto simp: runInv_def)
  obtain q w1 where q: "completeStages env (scPlanID change) (crStageRuns run) (fst s) = (q, w1)" by fastforce
  from completeStages_Inr [OF q] obtain ss ch where ss: "q = Inr (ss, ch)"
    and l: "list_all2 (\<lambda>s s'. srStageRef s' = srStageRef s \<and> srWorkPlanID s' = srWorkPlanID s
       \<and> srStatus s' = (if srWorkPlanID s = scPlanID change then StageStatusCompleted else srStatus s))
       (crStageRuns run) ss" by blast
  obtain p w2 where p: "touchIf env ch (run\<lparr>crStageRuns := ss\<rparr>) w1 = (p, w2)" by fastforce
  from touchIf_Inr [OF p] obtain t where t: "p = Inr (run\<lparr>crStageRuns := ss, crUpdatedAt := t\<rparr>)" by auto
  let ?run1 = "run\<lparr>crStageRuns := ss, crUpdatedAt := t\<rparr>"
  have "runInv env ?run1"
    by (rule runInv_cong [OF recorded_inv [OF inv l]]) simp_all
  moreover have "(case nextReadyStage cfg ?run1 of
       Some nxt \<Rightarrow> startNextStage env cfg ?run1 nxt
     | None \<Rightarrow> if allStagesCompleted ?run1 then finishChain env cfg ?run1 else saveRun env ?run1) (w2, snd s) = (r, s')"
    using assms(1) cfg q ss p t
    by (simp add: advanceChain_def seqS_def onWorld_def liftS_def)
  ultimately show ?thesis
    by (intro that [OF cfg]) (use l in \<open>simp_all add: runKeyOf_def\<close>)
qed

lemma advance_stored:
  assumes "advanceChain env change run s = (r, s')" and inv: "runInv env run"
  shows "stored env (snd s) (snd s')"
  using assms
proof (cases rule: advanceChain_cases)
  case (1 cfg run1 w)
  have cfg1: "svcConfig env (crProjectID run1) (crChainRef run1) = Inr cfg"
    using 1(1,3,4) by (simp add: runKeyOf_def)
  show ?thesis
  proof (cases "nextReadyStage cfg run1")
    case (Some nxt)
    with 1(6) startNextStage_stored [OF _ 1(2) nextReadyStage_open [OF Some]] show ?thesis by fastforce
  next
    case None
    with 1(6) finishChain_stored [OF _ 1(2) _ cfg1] saveRun_stored [OF _ 1(2)] show ?thesis
      by (fastforce split: if_splits)
  qed
qed

end
