(* ===== verification/Chain_Runs.thy ===== *)
theory Chain_Runs
  imports Chain_Invariant
begin

section \<open>Workflow chains: starting and reachable states\<close>

text \<open>
  The start of a chain, the steps of the service in a changing world, and what they reach.
\<close>

subsection \<open>Start\<close>

text \<open>What a successful non-dry start stores.\<close>

lemma startChain_cases:
  assumes "startChain env cfg inputRef runID traceID s = (r, s')"
    and cfg: "svcConfig env (ccProjectID cfg) (ccChainRef cfg) = Inr cfg"
  obtains (failed) e where "r = Inl e" "snd s' = snd s"
  | (started) run stage where "getRun (snd s) (runKeyOf run) = None" "snd s' = addRun (snd s) run"
      "crStageRuns run = (map plannedStage (ccStages cfg))[0 := stage]" "srStageRef stage = sgStageRef (hd (ccStages cfg))"
      "srStatus stage = StageStatusQueued" "crStatus run = ChainStatusQueued" "\<not> crGitOpsReady run"
      "crProjectID run = ccProjectID cfg" "crChainRef run = ccChainRef cfg" "crInputRef run = inputRef"
      "r = Inr (startResult run False)"
proof -
  obtain i w1 where 1: "envNewID env (fst s) = (i, w1)" by fastforce
  obtain t w2 where 2: "envNow env w1 = (t, w2)" by fastforce
  let ?run = "plannedRun cfg i inputRef runID traceID t"
  obtain q w3 where 3: "compileStage env cfg ?run (hd (ccStages cfg)) False w2 = (q, w3)" by fastforce
  show ?thesis
  proof (cases q)
    case (Inl e)
    with assms(1) 1 2 3 have "r = Inl e" "snd s' = snd s"
      by (auto simp: startChain_def seqS_def onWorld_def newIDS_def clockS_def Let_def)
    then show ?thesis by (rule failed)
  next
    case (Inr stage)
    have st: "srStageRef stage = sgStageRef (hd (ccStages cfg))" "srStatus stage = StageStatusQueued"
      using compileStage_Inr [OF 3 [unfolded Inr]] by simp_all
    obtain t' w4 where 4: "envNow env w3 = (t', w4)" by fastforce
    define run where "run = ?run\<lparr>crStageRuns := (crStageRuns ?run)[0 := stage],
            crWorkPlanIDs := appendUnique_chain (crWorkPlanIDs ?run) (srWorkPlanID stage),
            crAutomationIDs := appendUniqueMany (crAutomationIDs ?run) (srAutomationIDs stage),
            crStatus := ChainStatusQueued,
            crNextAction := ''decomposition automation will run when planned tasks transition to ready'',
            crUpdatedAt := t'\<rparr>"
    have eq: "(r, s') = (case memCreateChainRun (snd s) run of
        (Inl e, cs) \<Rightarrow> (Inl e, (w4, cs)) | (Inr c, cs) \<Rightarrow> (Inr (startResult c False), (w4, cs)))"
      using assms(1) 1 2 3 4 Inr
      by (simp add: startChain_def seqS_def onWorld_def onStore_def newIDS_def clockS_def retS_def Let_def
          run_def split: prod.splits sum.splits)
    show ?thesis
    proof (cases "getRun (snd s) (runKeyOf run)")
      case None
      with eq have "snd s' = addRun (snd s) run" "r = Inr (startResult run False)"
        by (simp_all add: memCreateChainRun_eq)
      with None st show ?thesis
        by (intro started [of run stage]) (simp_all add: run_def plannedRun_def)
    next
      case (Some u)
      with eq have "r = Inl ErrDuplicate" "snd s' = snd s" by (simp_all add: memCreateChainRun_eq)
      then show ?thesis by (rule failed)
    qed
  qed
qed

lemma dryRunStages_store:
  "snd (snd (onWorld m s)) = snd s"
  by (auto simp: onWorld_def split: prod.splits)

lemma svcStart_cases:
  assumes "svcStart env input s = (r, s')"
  obtains (failed) e where "r = Inl e" "snd s' = snd s"
  | (dry) "siDryRun input" "snd s' = snd s"
  | (started) cfg inputRef run stage where "\<not> siDryRun input"
      "svcConfig env (crProjectID run) (crChainRef run) = Inr cfg"
      "normalizeInputRef (envCompilePattern env) cfg (siInputText input) = Inr inputRef"
      "getRun (snd s) (runKeyOf run) = None" "snd s' = addRun (snd s) run"
      "crStageRuns run = (map plannedStage (ccStages cfg))[0 := stage]" "srStageRef stage = sgStageRef (hd (ccStages cfg))"
      "srStatus stage = StageStatusQueued" "crStatus run = ChainStatusQueued" "\<not> crGitOpsReady run"
      "crInputRef run = inputRef" "r = Inr (startResult run False)"
proof -
  consider (e) e where "r = Inl e" "snd s' = snd s"
    | (d) cfg inputRef runID traceID where "siDryRun input"
        "onWorld (dryRunStart env cfg inputRef runID traceID) s = (r, s')"
    | (go) p c cfg inputRef runID traceID where "\<not> siDryRun input" "svcConfig env p c = Inr cfg"
        "normalizeInputRef (envCompilePattern env) cfg (siInputText input) = Inr inputRef"
        "startChain env cfg inputRef runID traceID s = (r, s')"
    using assms unfolding svcStart_def
    by (auto elim!: seqS_cases simp: liftS_eq split: if_splits)
  then show ?thesis
  proof cases
    case e
    then show ?thesis by (rule failed)
  next
    case d
    then show ?thesis using dryRunStages_store by (metis dry snd_conv)
  next
    case go
    have cfg: "svcConfig env (ccProjectID cfg) (ccChainRef cfg) = Inr cfg"
      using go(2) svcConfig_Inr by fastforce
    from go(4) cfg show ?thesis
    proof (cases rule: startChain_cases)
      case (failed e)
      then show ?thesis by (rule that(1))
    next
      case (started run stage)
      with go cfg show ?thesis by (intro that(3) [of run cfg inputRef stage]) simp_all
    qed
  qed
qed

lemma started_inv:
  assumes "svcConfig env (crProjectID run) (crChainRef run) = Inr cfg"
    and "crStageRuns run = (map plannedStage (ccStages cfg))[0 := stage]"
    and "srStageRef stage = sgStageRef (hd (ccStages cfg))" and "srStatus stage = StageStatusQueued"
    and "crStatus run = ChainStatusQueued" and "\<not> crGitOpsReady run"
  shows "runInv env run"
proof -
  have ne: "ccStages cfg \<noteq> []"
    using svcConfig_Inr [OF assms(1)] validateConfig_Inr(1) by blast
  have "stagesMatch cfg run"
    using assms(2,3) ne by (cases "ccStages cfg") (simp_all add: stagesMatch_def plannedStage_def)
  moreover have "\<forall>s \<in> set (crStageRuns run). srStatus s \<in> set stageStatuses"
    using assms(2,4) ne
    by (cases "ccStages cfg") (auto simp: plannedStage_def stageStatuses_def)
  ultimately show ?thesis
    using assms unfolding runInv_def by (simp add: chainStatuses_def)
qed

subsection \<open>The handler and the retry\<close>

lemma found_run:
  assumes "memFindChainRunByWorkPlan cs p i = Inr run"
  shows "\<exists>key. tget (csPlanID cs) (p, i) = Some key \<and> getRun cs key = Some run"
  using assms by (auto simp: memFindChainRunByWorkPlan_def getRun_def split: option.splits)

lemma ready_finishing:
  "runInv env run \<Longrightarrow> crGitOpsReady run \<Longrightarrow> finishing env run"
  by (auto simp: runInv_def finishing_def)

lemma handle_stored:
  assumes "handleWorkPlanStatusChanged env change s = (r, s')" and inv: "chainInv env (snd s)"
  shows "stored env (snd s) (snd s')"
proof (cases "scNewStatus change \<noteq> WorkPlanStatusDone
    \<or> (\<exists>e. memFindChainRunByWorkPlan (snd s) (scProjectID change) (scPlanID change) = Inl e)")
  case True
  with assms(1) show ?thesis
    by (auto simp: handleWorkPlanStatusChanged_def stored_def split: if_splits)
next
  case False
  then obtain run where run: "memFindChainRunByWorkPlan (snd s) (scProjectID change) (scPlanID change) = Inr run"
    by (cases "memFindChainRunByWorkPlan (snd s) (scProjectID change) (scPlanID change)") auto
  obtain key where "getRun (snd s) key = Some run" using found_run [OF run] by blast
  then have ri: "runInv env run"
    using inv allValsD by (fastforce simp: chainInv_def)
  have "advanceChain env change run s = (r, s') \<or> crGitOpsReady run \<and> retryBlockedGitOps env run s = (r, s')"
    using assms(1) run False by (auto simp: handleWorkPlanStatusChanged_def split: if_splits)
  then show ?thesis
    using advance_stored [OF _ ri] retry_stored ready_finishing [OF ri] by blast
qed

lemma svcRetryGitOps_stored:
  assumes "svcRetryGitOps env p i s = (r, s')" and inv: "chainInv env (snd s)"
  shows "stored env (snd s) (snd s')"
proof -
  consider (same) "snd s' = snd s"
    | (go) projectID chainRunID run q where "memGetChainRun (snd s) projectID chainRunID = Inr run"
        "crGitOpsReady run" "retryBlockedGitOps env run s = (q, s')"
    using assms(1) unfolding svcRetryGitOps_def
    by (auto elim!: seqS_cases simp: liftS_eq split: if_splits prod.splits)
  then show ?thesis
  proof cases
    case same
    then show ?thesis by (simp add: stored_def)
  next
    case go
    then have "runInv env run"
      using inv by (auto simp: memGetChainRun_Inr chainInv_def dest: allValsD)
    with go retry_stored ready_finishing show ?thesis by blast
  qed
qed

subsection \<open>Reachable states\<close>

inductive chainStep :: "'w ChainEnv \<Rightarrow> 'w chain_state \<Rightarrow> 'w chain_state \<Rightarrow> bool" for env where
  start: "svcStart env input s = (r, s') \<Longrightarrow> chainStep env s s'"
| plan_changed: "handleWorkPlanStatusChanged env change s = (u, s') \<Longrightarrow> chainStep env s s'"
| retry: "svcRetryGitOps env p i s = (q, s') \<Longrightarrow> chainStep env s s'"
| world: "chainStep env (w, cs) (w', cs)"

inductive chainReachable :: "'w ChainEnv \<Rightarrow> 'w chain_state \<Rightarrow> bool" for env where
  init: "chainReachable env (w, newChainStore)"
| step: "chainReachable env s \<Longrightarrow> chainStep env s s' \<Longrightarrow> chainReachable env s'"

inductive_cases chainStepE: "chainStep env s s'"

lemma chainInv_empty: "chainInv env newChainStore"
  by (simp add: chainInv_def newChainStore_def keyed_def allVals_def indexSound_def getRun_def)

lemma chainInv_start:
  assumes "svcStart env input s = (r, s')" and inv: "chainInv env (snd s)"
  shows "chainInv env (snd s')"
  using assms(1)
proof (cases rule: svcStart_cases)
  case (started cfg inputRef run stage)
  have "runInv env run"
    using started by (intro started_inv [of env run cfg stage]) simp_all
  with inv started show ?thesis
    by (auto simp: chainInv_def intro: runAdd.keyed_put runAdd.allVals_put indexSound_add)
qed (use inv in simp_all)

lemma chainInv_step: "chainStep env s s' \<Longrightarrow> chainInv env (snd s) \<Longrightarrow> chainInv env (snd s')"
  by (erule chainStepE)
    (auto intro: chainInv_start stored_inv handle_stored svcRetryGitOps_stored)

lemma reachable_chainInv: "chainReachable env s \<Longrightarrow> chainInv env (snd s)"
  by (induction rule: chainReachable.induct) (auto simp: chainInv_empty intro: chainInv_step)

end
