(* ===== verification/Chain_Scenario.thy ===== *)
theory Chain_Scenario
  imports Chain_Runs
begin

section \<open>Workflow chains: a concrete chain\<close>

text \<open>
  A chain of two stages, with services that accept everything, used to run the operations on
  concrete values. The world is a counter that is the clock and numbers the work plans.
\<close>

lemma safeRef_chain_tidy [simp]: "tidyWord s \<Longrightarrow> safeRef_chain s name = Inr s"
  by (simp add: safeRef_chain_def tidy_refPattern)

lemma safeOptionalRef_chain_simps [simp]:
  "safeOptionalRef_chain [] name = Inr []"
  "tidyWord s \<Longrightarrow> safeOptionalRef_chain s name = Inr s"
  by (simp_all add: safeOptionalRef_chain_def tidyWord_nonempty)

lemma containsSensitive_tidy [simp]: "tidyWord s \<Longrightarrow> length s \<le> 5 \<Longrightarrow> \<not> containsSensitive s"
proof -
  assume s: "tidyWord s" and l: "length s \<le> 5"
  then have t: "list_all tidyChar s" by (simp add: tidyWord_def)
  have "\<not> contains s m" if "5 < length m" for m
    using that l sublist_length_le [of m s] by auto
  then have "\<not> contains s ''token=''" "\<not> contains s ''password''" "\<not> contains s ''secret''"
    "\<not> contains s ''raw prompt''"
    by simp_all
  then show ?thesis
    by (simp add: containsSensitive_def tidy_toLower [OF t] tidy_email [OF s] tidy_phone [OF s] Let_def)
qed

definition demoStage :: "string \<Rightarrow> string \<Rightarrow> string list \<Rightarrow> StageConfig" where
  "demoStage ref trigger deps = \<lparr>sgStageRef = ref, sgWorkflowRef = ''w1'', sgTrigger = trigger,
     sgDependsOn = deps, sgAutomationRefTemplate = [], sgRequiredStatusBeforeNext = []\<rparr>"

definition demoConfig :: "string \<Rightarrow> StageConfig list \<Rightarrow> ChainConfig" where
  "demoConfig mode stages = \<lparr>ccProjectID = ''m1'', ccChainRef = ''c1'', ccEnabled = True, ccInputKind = [],
     ccInputPattern = [], ccContextProvider = [], ccContextMode = [], ccDefaultTitleTemplate = [],
     ccGitOpsMode = mode, ccGitOpsEnabled = True, ccStages = stages\<rparr>"

definition twoStages :: "string list \<Rightarrow> string list \<Rightarrow> StageConfig list" where
  "twoStages depsA depsB = [demoStage ''a1'' TriggerOnChainStart depsA, demoStage ''b1'' [] depsB]"

lemma trim_words [simp]:
  "trimSpace TriggerOnChainStart = TriggerOnChainStart"
  "trimSpace TriggerAfterStageReviewPassed = TriggerAfterStageReviewPassed"
  "trimSpace InputKindSafeRef = InputKindSafeRef"
  by (simp_all add: trimSpace_graphic graphic_def)

lemma chain_words [simp]: "tidyWord ''a1''" "tidyWord ''b1''" "tidyWord ''c1''" "tidyWord ''w1''" "tidyWord ''m1''"
  by (simp_all add: tidyWord_def tidyChar_def)

lemma demo_cycle: "hasDependencyCycle (twoStages [] [''a1'']) = False"
  by (simp add: cycle_simps twoStages_def demoStage_def)

lemma demo_stages:
  "validateStages 0 [] (twoStages depsA depsB) = Inr [''b1'', ''a1'']"
  by (simp add: validateStage_def twoStages_def demoStage_def Let_def)

lemma demo_valid:
  assumes "validateAllDeps [''b1'', ''a1''] (twoStages depsA depsB) = Inr ()"
    and "\<not> hasDependencyCycle (twoStages depsA depsB)"
  shows "validateConfig rx (demoConfig [] (twoStages depsA depsB)) = Inr ()"
proof -
  have ne: "twoStages depsA depsB \<noteq> []" by (simp add: twoStages_def)
  show ?thesis
    by (simp add: validateConfig_def demoConfig_def validateInputPattern_def demo_stages assms ne)
qed

section \<open>Workflow chains: a run of two stages\<close>

text \<open>
  That chain started on the empty store, then advanced by the event that the
  work plan of its first stage is done.
\<close>

definition demoEnv :: "ChainConfig list \<Rightarrow> nat ChainEnv" where
  "demoEnv cfgs = \<lparr>envConfigs = cfgs, envCompilePattern = (\<lambda>_. None), envErrorText = (\<lambda>_. []),
     envNow = (\<lambda>w. (int w, Suc w)), envNewID = (\<lambda>w. (''r1'', Suc w)),
     envListWorkflows = (\<lambda>_ _. Inr [\<lparr>wdID = ''w1''\<rparr>]),
     envCompileWorkflow = (\<lambda>w _. (Inr \<lparr>woWorkPlanID = (if w < 3 then ''p1'' else ''p2''), woWorkTaskIDs = [],
        woReviewerTaskIDs = [], woAutomationIDs = []\<rparr>, w)),
     envGetWorkPlan = (\<lambda>_ _ _. Inr zeroPlan), envListOpenWorkTasks = (\<lambda>_ _. Inr []),
     envUpdateWorkPlanStatus = (\<lambda>w _. (Inr zeroPlan, w)),
     envUpdateWorkTaskStatus = (\<lambda>w _. (Inr zeroTask, w)), envFinalize = None\<rparr>"

definition linearConfig :: ChainConfig where
  "linearConfig = demoConfig [] (twoStages [] [''a1''])"

definition demoStart :: StartInput where
  "demoStart = \<lparr>siProjectID = ''m1'', siChainRef = ''c1'', siInputText = ''w1'', siCreatedByRunID = [],
     siTraceID = [], siDryRun = False\<rparr>"

lemma linear_valid: "validateConfig rx linearConfig = Inr ()"
  unfolding linearConfig_def
  by (rule demo_valid) (simp add: twoStages_def demoStage_def, simp add: demo_cycle)

lemma linear_fields [simp]:
  "ccProjectID linearConfig = ''m1''" "ccChainRef linearConfig = ''c1''" "ccEnabled linearConfig"
  "ccInputKind linearConfig = []" "ccInputPattern linearConfig = []" "ccContextProvider linearConfig = []"
  "ccGitOpsMode linearConfig = []" "ccDefaultTitleTemplate linearConfig = []"
  "ccStages linearConfig = [demoStage ''a1'' TriggerOnChainStart [], demoStage ''b1'' [] [''a1'']]"
  by (simp_all add: linearConfig_def demoConfig_def twoStages_def)

lemma demoStage_fields [simp]:
  "sgStageRef (demoStage r t d) = r" "sgWorkflowRef (demoStage r t d) = ''w1''" "sgDependsOn (demoStage r t d) = d"
  by (simp_all add: demoStage_def)

lemma demoEnv_fields [simp]:
  "envConfigs (demoEnv cfgs) = cfgs" "envNow (demoEnv cfgs) w = (int w, Suc w)"
  "envNewID (demoEnv cfgs) w = (''r1'', Suc w)" "envListWorkflows (demoEnv cfgs) w f = Inr [\<lparr>wdID = ''w1''\<rparr>]"
  "envCompileWorkflow (demoEnv cfgs) w i = (Inr \<lparr>woWorkPlanID = (if w < 3 then ''p1'' else ''p2''),
     woWorkTaskIDs = [], woReviewerTaskIDs = [], woAutomationIDs = []\<rparr>, w)"
  "envUpdateWorkPlanStatus (demoEnv cfgs) w j = (Inr zeroPlan, w)" "envFinalize (demoEnv cfgs) = None"
  by (simp_all add: demoEnv_def)

lemma linear_config: "svcConfig (demoEnv [linearConfig]) ''m1'' ''c1'' = Inr linearConfig"
  by (simp add: svcConfig_def linear_valid)

lemma p_words [simp]: "tidyWord ''p1''" "tidyWord ''p2''"
  by (simp_all add: tidyWord_def tidyChar_def)

lemma compile_run:
  "compileStage (demoEnv cfgs) cfg run (demoStage r t d) False w =
     (Inr \<lparr>srStageRef = r, srWorkflowRef = ''w1'', srWorkflowID = ''w1'', srStatus = StageStatusQueued,
       srWorkPlanID = (if w < 3 then ''p1'' else ''p2''), srWorkTaskIDs = [], srAutomationIDs = [],
       srStartedAt = int w, srCompletedAt = zeroTime, srBlockedReason = []\<rparr>, Suc w)"
  by (simp add: compileStage_def resolveWorkflow_def seqS_def clockS_def activatePlan_def
      releaseCompiledTasks_def retS_def appendUniqueMany_def Let_def)

definition startedRun :: ChainRun where
  "startedRun = zeroRun\<lparr>crID := ''r1'', crProjectID := ''m1'', crChainRef := ''c1'', crInputRef := ''input:w1'',
     crStatus := ChainStatusQueued, crStageRuns :=
       [\<lparr>srStageRef = ''a1'', srWorkflowRef = ''w1'', srWorkflowID = ''w1'', srStatus = StageStatusQueued,
         srWorkPlanID = ''p1'', srWorkTaskIDs = [], srAutomationIDs = [], srStartedAt = 2,
         srCompletedAt = zeroTime, srBlockedReason = []\<rparr>,
        plannedStage (demoStage ''b1'' [] [''a1''])],
     crWorkPlanIDs := [''p1''],
     crNextAction := ''decomposition automation will run when planned tasks transition to ready'',
     crCreatedAt := 1, crUpdatedAt := 3\<rparr>"

definition startedStore :: ChainStore where
  "startedStore = addRun newChainStore startedRun"

lemma getRun_new [simp]: "getRun newChainStore k = None"
  by (simp add: getRun_def newChainStore_def)

lemma normalize_run: "normalizeInputRef rx linearConfig ''w1'' = Inr ''input:w1''"
  by (simp add: normalizeInputRef_def Let_def)

lemma start_any:
  assumes cfg: "cfg = demoConfig [] (twoStages depsA depsB)" and valid: "\<And>rx. validateConfig rx cfg = Inr ()"
  shows "svcStart (demoEnv [cfg]) demoStart (0, newChainStore)
     = (Inr (startResult startedRun False), (4, startedStore))"
proof -
  have f: "ccProjectID cfg = ''m1''" "ccChainRef cfg = ''c1''" "ccEnabled cfg" "ccInputKind cfg = []"
    "ccInputPattern cfg = []" "ccContextProvider cfg = []" "ccDefaultTitleTemplate cfg = []"
    "ccStages cfg = [demoStage ''a1'' TriggerOnChainStart depsA, demoStage ''b1'' [] depsB]"
    by (simp_all add: cfg demoConfig_def twoStages_def)
  have wf: "validateConfiguredWorkflows (demoEnv [cfg]) w cfg = Inr ()" for w
    by (simp add: validateConfiguredWorkflows_def valid f resolveWorkflow_def)
  have found: "svcConfig (demoEnv [cfg]) ''m1'' ''c1'' = Inr cfg"
    by (simp add: svcConfig_def f valid)
  have norm: "normalizeInputRef rx cfg ''w1'' = Inr ''input:w1''" for rx
    by (simp add: normalizeInputRef_def f Let_def)
  have chain: "startChain (demoEnv [cfg]) cfg ''input:w1'' [] [] (0, newChainStore)
      = (Inr (startResult startedRun False), (4, startedStore))"
    by (simp add: startChain_def seqS_def onWorld_def onStore_def newIDS_def clockS_def retS_def compile_run f
        memCreateChainRun_eq startedStore_def startedRun_def plannedRun_def contextRefsForInput_def
        appendUnique_chain_def appendUniqueMany_def zeroRun_def plannedStage_def Let_def)
  show ?thesis
    unfolding svcStart_def demoStart_def
    by (simp add: found norm wf chain)
qed

lemma start_run:
  "svcStart (demoEnv [linearConfig]) demoStart (0, newChainStore)
     = (Inr (startResult startedRun False), (4, startedStore))"
  by (rule start_any [OF linearConfig_def linear_valid])

lemma start_reachable: "chainReachable (demoEnv [linearConfig]) (4, startedStore)"
  by (rule chainReachable.step [OF chainReachable.init chainStep.start [OF start_run]])

definition doneEvent :: WorkPlanStatusChange where
  "doneEvent = \<lparr>scProjectID = ''m1'', scPlanID = ''p1'', scPlanRef = [], scOldStatus = WorkPlanStatusActive,
     scNewStatus = WorkPlanStatusDone, scOwnerAgent = [], scChangedAt = 7\<rparr>"

lemma started_find: "memFindChainRunByWorkPlan startedStore ''m1'' ''p1'' = Inr startedRun"
  by (simp add: memFindChainRunByWorkPlan_def startedStore_def addRun_def newChainStore_def runKeyOf_def
      tget_indexPlans plansOf_def startedRun_def zeroRun_def store_simps)

text \<open>The second stage is queued, with a work plan of its own.\<close>

lemma advance_run:
  "fst (handleWorkPlanStatusChanged (demoEnv [linearConfig]) doneEvent (4, startedStore)) = Inr ()"
proof -
  have get: "getRun startedStore (''m1'', ''r1'') = Some startedRun"
    by (simp add: startedStore_def runAdd.get_put runKeyOf_def startedRun_def zeroRun_def)
  show ?thesis
    by (simp add: handleWorkPlanStatusChanged_def doneEvent_def started_find advanceChain_def seqS_def liftS_def
        onWorld_def clockS_def retS_def touchIf_def nextReadyStage_def stageReady_def statusByRef_def
        startNextStage_def compile_run saveRun_def onStore_def memUpdateChainRun_eq queueStage_def runKeyOf_def
        get linear_config startedRun_def zeroRun_def plannedStage_def)
qed

end
