(* ===== verification/Chain_Termination.thy ===== *)
theory Chain_Termination
  imports Chain_Scenario
begin

section \<open>Workflow chains: the notifications that advance a chain are bounded\<close>

text \<open>
  A chain has a measure: the number of its stages that are not completed. No notification of the
  handler raises it, and each successful one for a plan with an open stage lowers it.
\<close>

definition openStages :: "ChainRun \<Rightarrow> nat" where
  "openStages run = length (filter (\<lambda>st. st \<noteq> StageStatusCompleted) (map srStatus (crStageRuns run)))"

definition openAt :: "ChainStore \<Rightarrow> string \<times> string \<Rightarrow> nat" where
  "openAt cs k = (case getRun cs k of None \<Rightarrow> 0 | Some run \<Rightarrow> openStages run)"

subsection \<open>The measure of what is written\<close>

lemma saveRun_ok:
  assumes "saveRun env run s = (Inr u, s')"
  shows "\<exists>now. snd s' = storeRun (snd s) (run\<lparr>crUpdatedAt := now\<rparr>)"
  using assms
  by (auto simp: saveRun_def seqS_def onWorld_def onStore_def clockS_def retS_def memUpdateChainRun_eq
      split: prod.splits sum.splits if_splits)

lemma saveRun_get:
  assumes "saveRun env run s = (Inr u, s')"
  obtains now where "getRun (snd s') (runKeyOf run) = Some (run\<lparr>crUpdatedAt := now\<rparr>)"
  using saveRun_ok [OF assms] by (auto simp: runStore.get_put runKeyOf_def)

lemma open_mapStage:
  assumes "\<forall>s \<in> set ss. srStageRef s = ref \<longrightarrow> srStatus s \<noteq> StageStatusCompleted"
  shows "length (filter (\<lambda>st. st \<noteq> StageStatusCompleted) (map srStatus (mapStage ref f ss)))
    \<le> length (filter (\<lambda>st. st \<noteq> StageStatusCompleted) (map srStatus ss))"
  using assms by (induction ss) (auto simp: mapStage_def)

lemma ready_open:
  assumes "stagesMatch cfg run" and "distinct (map sgStageRef (ccStages cfg))" and "stageReady run g"
  shows "\<forall>s \<in> set (crStageRuns run). srStageRef s = sgStageRef g \<longrightarrow> srStatus s \<noteq> StageStatusCompleted"
proof (intro ballI impI)
  fix s assume s: "s \<in> set (crStageRuns run)" "srStageRef s = sgStageRef g"
  have "statusByRef run (srStageRef s) = srStatus s"
    using statusByRef_stage [OF _ s(1)] assms(1,2) by (simp add: stagesMatch_def)
  then have "srStatus s = StageStatusPlanned" using s(2) assms(3) unfolding stageReady_def by metis
  then show "srStatus s \<noteq> StageStatusCompleted" by simp
qed

text \<open>What a call on a run wrote: a run under the same key that is no more open, or nothing on failure.\<close>

definition wrote :: "ChainRun \<Rightarrow> ChainStore \<Rightarrow> unit res \<Rightarrow> ChainStore \<Rightarrow> bool" where
  "wrote run cs r cs' \<longleftrightarrow>
     (\<exists>run'. cs' = storeRun cs run' \<and> runKeyOf run' = runKeyOf run \<and> openStages run' \<le> openStages run)
     \<or> cs' = cs \<and> r \<noteq> Inr ()"

lemma wrote_trans: "wrote run1 cs r cs' \<Longrightarrow> runKeyOf run1 = runKeyOf run \<Longrightarrow> openStages run1 \<le> openStages run
    \<Longrightarrow> wrote run cs r cs'"
  unfolding wrote_def by (metis order_trans)

lemma saveRun_wrote:
  assumes "saveRun env run s = (r, s')"
  shows "wrote run (snd s) r (snd s')"
proof -
  have same: "runKeyOf (run\<lparr>crUpdatedAt := now\<rparr>) = runKeyOf run" "openStages (run\<lparr>crUpdatedAt := now\<rparr>) = openStages run" for now
    by (simp_all add: runKeyOf_def openStages_def)
  show ?thesis
  proof (cases r)
    case (Inr u)
    then obtain now where "snd s' = storeRun (snd s) (run\<lparr>crUpdatedAt := now\<rparr>)"
      using saveRun_ok [of env run s u s'] assms by auto
    then show ?thesis unfolding wrote_def using same by (metis order_refl)
  next
    case (Inl e)
    then show ?thesis
      using saveRun_store [OF assms] same unfolding wrote_def by (metis order_refl Inl_Inr_False)
  qed
qed

lemma saveAndFail_wrote: "saveAndFail run e s = (r, s') \<Longrightarrow> wrote run (snd s) r (snd s')"
  using saveAndFail_store [of run e s r s'] by (auto simp: wrote_def)

lemma startNext_wrote:
  assumes "startNextStage env cfg run nxt s = (r, s')"
    and o: "\<forall>s \<in> set (crStageRuns run). srStageRef s = sgStageRef nxt \<longrightarrow> srStatus s \<noteq> StageStatusCompleted"
  shows "wrote run (snd s) r (snd s')"
proof (cases "compileStage env cfg run nxt False (fst s)")
  case (Pair q w)
  show ?thesis
  proof (cases q)
    case (Inl e)
    with assms(1) Pair have "saveAndFail (blockStage run nxt) e (w, snd s) = (r, s')" by (simp add: startNextStage_def)
    moreover have "runKeyOf (blockStage run nxt) = runKeyOf run" "openStages (blockStage run nxt) \<le> openStages run"
      using open_mapStage [OF o] by (simp_all add: blockStage_def runKeyOf_def openStages_def)
    ultimately show ?thesis by (auto intro: wrote_trans dest!: saveAndFail_wrote)
  next
    case (Inr sr)
    with assms(1) Pair have "saveRun env (queueStage run nxt sr) (w, snd s) = (r, s')" by (simp add: startNextStage_def)
    moreover have "runKeyOf (queueStage run nxt sr) = runKeyOf run" "openStages (queueStage run nxt sr) \<le> openStages run"
      using open_mapStage [OF o] by (simp_all add: queueStage_def runKeyOf_def openStages_def)
    ultimately show ?thesis by (auto intro: wrote_trans dest!: saveRun_wrote)
  qed
qed

lemma blockGitOps_open: "runKeyOf (blockGitOps env run e) = runKeyOf run" "openStages (blockGitOps env run e) = openStages run"
  using refs_setLastReason [of "gitOpsBlockedReason (envErrorText env e)" "crStageRuns run"]
  by (simp_all add: blockGitOps_def runKeyOf_def openStages_def)

lemma finalize_open:
  "finalizeGitOps env run w = (Inr run', w') \<Longrightarrow> runKeyOf run' = runKeyOf run \<and> openStages run' = openStages run"
  by (erule finalizeGitOps_Inr) (simp_all add: openStages_def)

lemma finishChain_wrote:
  assumes "finishChain env cfg run s = (r, s')"
  shows "wrote run (snd s) r (snd s')"
proof (cases "ccGitOpsMode cfg = GitOpsModeDraftPRAfterValidation")
  case True
  obtain q w where q: "finalizeGitOps env run (fst s) = (q, w)" by fastforce
  show ?thesis
  proof (cases q)
    case (Inl e)
    with assms True q have "saveAndFail (blockGitOps env run e) e (w, snd s) = (r, s')" by (simp add: finishChain_def)
    from saveAndFail_wrote [OF this] show ?thesis by (auto intro: wrote_trans simp: blockGitOps_open)
  next
    case (Inr run')
    with assms True q have "saveRun env run' (w, snd s) = (r, s')" by (simp add: finishChain_def)
    from saveRun_wrote [OF this] show ?thesis
      using finalize_open [OF q [unfolded Inr]] by (auto intro: wrote_trans)
  qed
next
  case False
  with assms have "saveRun env (completeRun run) s = (r, s')" by (simp add: finishChain_def)
  moreover have "runKeyOf (completeRun run) = runKeyOf run" "openStages (completeRun run) = openStages run"
    by (simp_all add: completeRun_def runKeyOf_def openStages_def)
  ultimately show ?thesis by (auto intro: wrote_trans dest!: saveRun_wrote)
qed

lemma retry_wrote:
  assumes "retryBlockedGitOps env run s = (r, s')"
  shows "wrote run (snd s) r (snd s')"
proof -
  obtain q w where q: "finalizeGitOps env run (fst s) = (q, w)" by fastforce
  show ?thesis
  proof (cases q)
    case (Inl e)
    obtain now w' where t: "envNow env w = (now, w')" by fastforce
    with assms q Inl have "saveAndFail ((blockGitOps env run e)\<lparr>crUpdatedAt := now\<rparr>) e (w', snd s) = (r, s')"
      by (simp add: retryBlockedGitOps_def)
    moreover have "runKeyOf ((blockGitOps env run e)\<lparr>crUpdatedAt := now\<rparr>) = runKeyOf run"
      "openStages ((blockGitOps env run e)\<lparr>crUpdatedAt := now\<rparr>) = openStages run"
      using blockGitOps_open [of env run e] by (simp_all add: runKeyOf_def openStages_def)
    ultimately show ?thesis by (auto intro: wrote_trans dest!: saveAndFail_wrote)
  next
    case (Inr run')
    with assms q have "saveRun env run' (w, snd s) = (r, s')" by (simp add: retryBlockedGitOps_def)
    from saveRun_wrote [OF this] show ?thesis
      using finalize_open [OF q [unfolded Inr]] by (auto intro: wrote_trans)
  qed
qed

subsection \<open>The measure and the handler\<close>

definition planOpen :: "ChainRun \<Rightarrow> string \<Rightarrow> bool" where
  "planOpen run plan \<longleftrightarrow> (\<exists>s \<in> set (crStageRuns run). srWorkPlanID s = plan \<and> srStatus s \<noteq> StageStatusCompleted)"

lemma completed_open:
  assumes "list_all2 (\<lambda>s s'. srStageRef s' = srStageRef s \<and> srWorkPlanID s' = srWorkPlanID s
       \<and> srStatus s' = (if srWorkPlanID s = plan then StageStatusCompleted else srStatus s)) ss ss'"
  shows "length (filter (\<lambda>st. st \<noteq> StageStatusCompleted) (map srStatus ss'))
      + (if \<exists>s \<in> set ss. srWorkPlanID s = plan \<and> srStatus s \<noteq> StageStatusCompleted then 1 else 0)
    \<le> length (filter (\<lambda>st. st \<noteq> StageStatusCompleted) (map srStatus ss))"
  using assms by (induction rule: list_all2_induct) (auto split: if_splits)

lemma advance_wrote:
  assumes "advanceChain env change run s = (r, s')" and inv: "runInv env run"
  shows "\<exists>run1. wrote run1 (snd s) r (snd s') \<and> runKeyOf run1 = runKeyOf run
    \<and> openStages run1 + (if planOpen run (scPlanID change) then 1 else 0) \<le> openStages run"
  using assms
proof (cases rule: advanceChain_cases)
  case (1 cfg run1 w)
  have "openStages run1 + (if planOpen run (scPlanID change) then 1 else 0) \<le> openStages run"
    using completed_open [OF 1(5)] by (simp add: openStages_def planOpen_def)
  moreover have match: "stagesMatch cfg run1" using 1(1-4) by (auto simp: runInv_def runKeyOf_def)
  moreover have "distinct (map sgStageRef (ccStages cfg))"
    using svcConfig_Inr [OF 1(1)] validateConfig_Inr(2) by blast
  moreover have "wrote run1 (snd s) r (snd s')"
  proof (cases "nextReadyStage cfg run1")
    case (Some nxt)
    with 1(6) have "startNextStage env cfg run1 nxt (w, snd s) = (r, s')" by simp
    from startNext_wrote [OF this ready_open [OF match _ nextReadyStage_ready(2) [OF Some]]] calculation(3)
    show ?thesis by simp
  next
    case None
    with 1(6) show ?thesis
      using finishChain_wrote [of env cfg run1 "(w, snd s)" r s'] saveRun_wrote [of env run1 "(w, snd s)" r s']
      by (auto split: if_splits)
  qed
  ultimately show ?thesis using 1(3) by blast
qed

text \<open>A notification that has to move the chain: a plan is done that has an open stage.\<close>

definition effective :: "ChainStore \<Rightarrow> WorkPlanStatusChange \<Rightarrow> string \<times> string \<Rightarrow> bool" where
  "effective cs change k \<longleftrightarrow> scNewStatus change = WorkPlanStatusDone
     \<and> (\<exists>run. memFindChainRunByWorkPlan cs (scProjectID change) (scPlanID change) = Inr run
          \<and> runKeyOf run = k \<and> planOpen run (scPlanID change))"

lemma wrote_openAt:
  assumes "wrote run1 cs r cs'" and "runKeyOf run1 = runKeyOf run" and "getRun cs (runKeyOf run) = Some run"
    and "openStages run1 + d \<le> openStages run"
  shows "openAt cs' k \<le> openAt cs k" and "r = Inr () \<Longrightarrow> openAt cs' (runKeyOf run) + d \<le> openAt cs (runKeyOf run)"
proof -
  show "openAt cs' k \<le> openAt cs k"
    using assms by (auto simp: wrote_def openAt_def runStore.get_put)
  show "openAt cs' (runKeyOf run) + d \<le> openAt cs (runKeyOf run)" if "r = Inr ()"
    using assms that by (auto simp: wrote_def openAt_def runStore.get_put)
qed

lemma handle_openAt:
  assumes "handleWorkPlanStatusChanged env change s = (r, s')" and inv: "chainInv env (snd s)"
  shows "openAt (snd s') k \<le> openAt (snd s) k"
    and "r = Inr () \<Longrightarrow> effective (snd s) change k \<Longrightarrow> openAt (snd s') k < openAt (snd s) k"
proof -
  have "openAt (snd s') k \<le> openAt (snd s) k
    \<and> (r = Inr () \<longrightarrow> effective (snd s) change k \<longrightarrow> openAt (snd s') k < openAt (snd s) k)"
  proof (cases "scNewStatus change = WorkPlanStatusDone
      \<and> (\<exists>run. memFindChainRunByWorkPlan (snd s) (scProjectID change) (scPlanID change) = Inr run)")
    case False
    then have "s' = s"
      using assms(1) by (auto simp: handleWorkPlanStatusChanged_def split: if_splits sum.splits)
    then show ?thesis using False by (auto simp: effective_def)
  next
    case True
    then obtain run where run: "memFindChainRunByWorkPlan (snd s) (scProjectID change) (scPlanID change) = Inr run"
      by blast
    obtain key where key: "getRun (snd s) key = Some run" using found_run [OF run] by blast
    then have ri: "runInv env run" and at: "getRun (snd s) (runKeyOf run) = Some run"
      using inv allValsD keyedD by (fastforce simp: chainInv_def)+
    have eff: "effective (snd s) change k \<longleftrightarrow> k = runKeyOf run \<and> planOpen run (scPlanID change)"
      using True run by (auto simp: effective_def)
    show ?thesis
    proof (cases "crStatus run = ChainStatusBlocked \<and> crGitOpsReady run \<and> allStagesCompleted run")
      case True
      with assms(1) run \<open>scNewStatus change = WorkPlanStatusDone \<and> _\<close> have "retryBlockedGitOps env run s = (r, s')"
        by (simp add: handleWorkPlanStatusChanged_def)
      moreover have "\<not> planOpen run (scPlanID change)"
        using True by (auto simp: planOpen_def allStagesCompleted_def list_all_iff)
      ultimately show ?thesis
        using wrote_openAt(1) [OF retry_wrote [of env run s r s'] refl at, of 0] eff by auto
    next
      case False
      with assms(1) run True have "advanceChain env change run s = (r, s')"
        by (auto simp: handleWorkPlanStatusChanged_def)
      from advance_wrote [OF this ri] obtain run1 where w: "wrote run1 (snd s) r (snd s')" "runKeyOf run1 = runKeyOf run"
        "openStages run1 + (if planOpen run (scPlanID change) then 1 else 0) \<le> openStages run" by blast
      show ?thesis
        using wrote_openAt [OF w(1,2) at w(3)] eff by auto
    qed
  qed
  then show "openAt (snd s') k \<le> openAt (snd s) k"
    and "r = Inr () \<Longrightarrow> effective (snd s) change k \<Longrightarrow> openAt (snd s') k < openAt (snd s) k" by simp_all
qed

subsection \<open>Sequences of notifications\<close>

text \<open>\<open>notified env k s n t\<close>: notifications lead from \<open>s\<close> to \<open>t\<close>, and \<open>n\<close> of them succeeded and had to
  move the chain run \<open>k\<close>. Between them the world may change.\<close>

inductive notified :: "'w ChainEnv \<Rightarrow> string \<times> string \<Rightarrow> 'w chain_state \<Rightarrow> nat \<Rightarrow> 'w chain_state \<Rightarrow> bool"
  for env k s where
  start: "notified env k s 0 s"
| moved: "notified env k s n t \<Longrightarrow> effective (snd t) change k
    \<Longrightarrow> handleWorkPlanStatusChanged env change t = (Inr (), t') \<Longrightarrow> notified env k s (Suc n) t'"
| other: "notified env k s n t \<Longrightarrow> handleWorkPlanStatusChanged env change t = (r, t') \<Longrightarrow> notified env k s n t'"
| world: "notified env k s n (w, cs) \<Longrightarrow> notified env k s n (w', cs)"

lemma notified_bound:
  assumes "notified env k s n t" and "chainInv env (snd s)"
  shows "chainInv env (snd t) \<and> n + openAt (snd t) k \<le> openAt (snd s) k"
  using assms(1)
proof (induction rule: notified.induct)
  case start
  then show ?case using assms(2) by simp
next
  case (moved n t change t')
  then have "openAt (snd t') k < openAt (snd t) k" using handle_openAt(2) [OF moved(3)] by blast
  moreover have "chainInv env (snd t')" using stored_inv handle_stored [OF moved(3)] moved.IH by blast
  ultimately show ?case using moved.IH by simp
next
  case (other n t change r t')
  then have "openAt (snd t') k \<le> openAt (snd t) k" using handle_openAt(1) [OF other(2)] by blast
  moreover have "chainInv env (snd t')" using stored_inv handle_stored [OF other(2)] other.IH by blast
  ultimately show ?case using other.IH by simp
qed simp

text \<open>
  C14. The advance of a chain terminates. From every reachable state, whatever notifications follow
  and whatever the environment answers, at most as many of them succeed in completing a stage of a
  chain run as it has stages that are not completed; each takes one off what is left. So no
  sequence of notifications advances a chain for ever.
\<close>

theorem chain_advance_terminates:
  assumes "chainReachable env s" and "getRun (snd s) k = Some run" and "notified env k s n t"
  shows "n + openAt (snd t) k \<le> openStages run \<and> openStages run \<le> length (crStageRuns run)"
proof -
  have "chainInv env (snd s)" using assms(1) by (rule reachable_chainInv)
  from notified_bound [OF assms(3) this] have "n + openAt (snd t) k \<le> openAt (snd s) k" by blast
  moreover have "openStages run \<le> length (crStageRuns run)"
    unfolding openStages_def by (rule order_trans [OF length_filter_le]) simp
  ultimately show ?thesis by (simp add: openAt_def assms(2))
qed

theorem chain_advance_terminates_witness:
  "\<exists>t. notified (demoEnv [linearConfig]) (''m1'', ''r1'') (4, startedStore) 1 t \<and> openAt (snd t) (''m1'', ''r1'') \<le> 1"
proof -
  obtain t where t: "handleWorkPlanStatusChanged (demoEnv [linearConfig]) doneEvent (4, startedStore) = (Inr (), t)"
    using advance_run by (metis prod.collapse)
  have "effective startedStore doneEvent (''m1'', ''r1'')"
    using started_find by (auto simp: effective_def doneEvent_def runKeyOf_def planOpen_def startedRun_def zeroRun_def)
  then have n: "notified (demoEnv [linearConfig]) (''m1'', ''r1'') (4, startedStore) 1 t"
    using notified.moved [OF notified.start _ t, of "(''m1'', ''r1'')"] by simp
  have g: "getRun (snd (4 :: nat, startedStore)) (''m1'', ''r1'') = Some startedRun"
    by (simp add: startedStore_def runAdd.get_put runKeyOf_def startedRun_def zeroRun_def)
  have "openStages startedRun = 2" by (simp add: openStages_def startedRun_def plannedStage_def)
  with chain_advance_terminates [OF start_reachable g n] have "openAt (snd t) (''m1'', ''r1'') \<le> 1" by simp
  with n show ?thesis by blast
qed

end
