(* ===== verification/Chain_Properties.thy ===== *)
theory Chain_Properties
  imports Chain_Termination
begin

section \<open>Workflow chains: the properties\<close>

text \<open>
  What the chain service guarantees: its cycle check is exact, a valid chain never lacks a next
  stage, finished work moves the chain on, every reachable run and the index of work plans are
  consistent, refused and dry starts store nothing, and stored references and reasons are clean.
\<close>

subsection \<open>Supporting lemmas\<close>

lemma startNextStage_ok:
  assumes "startNextStage env cfg run nxt s = (Inr u, s')" and match: "stagesMatch cfg run"
    and nxt: "nxt \<in> set (ccStages cfg)"
  obtains run' where "getRun (snd s') (runKeyOf run) = Some run'" "crStatus run' = ChainStatusQueued"
    "\<exists>t \<in> set (crStageRuns run'). srStageRef t = sgStageRef nxt \<and> srStatus t = StageStatusQueued"
proof -
  obtain q w where q: "compileStage env cfg run nxt False (fst s) = (q, w)" by fastforce
  obtain sr where sr: "q = Inr sr" "saveRun env (queueStage run nxt sr) (w, snd s) = (Inr u, s')"
    using assms(1) q by (cases q) (auto simp: startNextStage_def saveAndFail_def)
  have st: "srStageRef sr = sgStageRef nxt" "srStatus sr = StageStatusQueued"
    using compileStage_Inr [OF q [unfolded sr(1)]] by simp_all
  from stagesMatch_run [OF match nxt] obtain t where "t \<in> set (crStageRuns run)" "srStageRef t = sgStageRef nxt"
    by blast
  then have "sr \<in> set (crStageRuns (queueStage run nxt sr))"
    by (force simp: queueStage_def mapStage_def)
  with sr(2) st show ?thesis
    by (elim saveRun_get) (rule that, auto simp: runKeyOf_def queueStage_def)
qed

lemma finishChain_ok:
  assumes "finishChain env cfg run s = (Inr u, s')" and all: "allStagesCompleted run"
  obtains run' where "getRun (snd s') (runKeyOf run) = Some run'" "allStagesCompleted run'"
    "crStatus run' \<in> {ChainStatusCompleted, ChainStatusPostValidationPassed}"
proof -
  have "\<exists>run1 s1. saveRun env run1 s1 = (Inr u, s') \<and> runKeyOf run1 = runKeyOf run \<and> allStagesCompleted run1
      \<and> crStatus run1 \<in> {ChainStatusCompleted, ChainStatusPostValidationPassed}"
  proof (cases "ccGitOpsMode cfg = GitOpsModeDraftPRAfterValidation")
    case True
    obtain q w where q: "finalizeGitOps env run (fst s) = (q, w)" by fastforce
    obtain run1 where r: "q = Inr run1" "saveRun env run1 (w, snd s) = (Inr u, s')"
      using assms(1) True q by (cases q) (auto simp: finishChain_def saveAndFail_def)
    from q [unfolded r(1)] have "runKeyOf run1 = runKeyOf run \<and> crStageRuns run1 = crStageRuns run
        \<and> crStatus run1 \<in> {ChainStatusCompleted, ChainStatusPostValidationPassed}"
      by (cases rule: finalizeGitOps_Inr) simp_all
    with r(2) all show ?thesis
      by (intro exI [of _ run1] exI [of _ "(w, snd s)"]) (simp add: allStagesCompleted_def)
  next
    case False
    with assms(1) have "saveRun env (completeRun run) s = (Inr u, s')" by (simp add: finishChain_def)
    with all show ?thesis
      by (intro exI [of _ "completeRun run"] exI [of _ s])
        (simp add: completeRun_def runKeyOf_def allStagesCompleted_def)
  qed
  then obtain run1 s1 where r: "saveRun env run1 s1 = (Inr u, s')" "runKeyOf run1 = runKeyOf run"
    "allStagesCompleted run1" "crStatus run1 \<in> {ChainStatusCompleted, ChainStatusPostValidationPassed}" by blast
  from saveRun_get [OF r(1)] obtain now
    where "getRun (snd s') (runKeyOf run1) = Some (run1\<lparr>crUpdatedAt := now\<rparr>)" .
  with r(2-4) show ?thesis
    by (intro that [of "run1\<lparr>crUpdatedAt := now\<rparr>"]) (simp_all add: allStagesCompleted_def)
qed

subsection \<open>Dependencies\<close>

text \<open>
  C26. The depth-first search decides exactly whether some stage depends on itself through one
  or more dependency edges, whatever the graph.
\<close>

theorem cycle_check_exact:
  "hasDependencyCycle stages \<longleftrightarrow>
     (\<exists>ref. (ref, ref) \<in> {(ref, dep). dep \<in> set (depsOf stages ref)}\<^sup>+)"
  using hasDependencyCycle_acyclic [of stages] by (auto simp: acyclic_def dependsRel_def)

text \<open>
  C3. A chain whose configuration is valid and whose dependencies are written without padding
  never stalls: when every stage is planned or completed and some stage is not completed, there
  is a next stage, it is planned, and all it depends on is completed.
\<close>

theorem valid_chain_never_stalls:
  assumes "validateConfig rx cfg = Inr ()" and "canonicalDeps cfg" and "stagesMatch cfg run"
    and "\<forall>s \<in> set (crStageRuns run). srStatus s \<in> {StageStatusPlanned, StageStatusCompleted}"
    and "\<not> allStagesCompleted run"
  shows "\<exists>nxt. nextReadyStage cfg run = Some nxt \<and> nxt \<in> set (ccStages cfg)
    \<and> statusByRef run (sgStageRef nxt) = StageStatusPlanned
    \<and> (\<forall>dep \<in> set (sgDependsOn nxt). statusByRef run dep = StageStatusCompleted)"
proof -
  obtain nxt where nxt: "nextReadyStage cfg run = Some nxt"
    using next_stage_exists [OF assms] by blast
  from nextReadyStage_ready [OF nxt] nxt show ?thesis
    by (auto simp: stageReady_def list_all_iff)
qed

definition halfRun :: "string list \<Rightarrow> ChainRun" where
  "halfRun deps = zeroRun\<lparr>crStageRuns :=
     [(plannedStage (demoStage ''a1'' TriggerOnChainStart []))\<lparr>srStatus := StageStatusCompleted\<rparr>,
      plannedStage (demoStage ''b1'' [] deps)]\<rparr>"

lemma halfRun_stages:
  "map srStageRef (crStageRuns (halfRun deps)) = [''a1'', ''b1'']"
  "map srStatus (crStageRuns (halfRun deps)) = [StageStatusCompleted, StageStatusPlanned]"
  by (simp_all add: halfRun_def plannedStage_def)

theorem valid_chain_never_stalls_witness:
  "\<exists>nxt. nextReadyStage linearConfig (halfRun [''a1'']) = Some nxt
     \<and> statusByRef (halfRun [''a1'']) (sgStageRef nxt) = StageStatusPlanned"
proof -
  have "canonicalDeps linearConfig" by (simp add: canonicalDeps_def)
  moreover have "stagesMatch linearConfig (halfRun [''a1''])" by (simp add: stagesMatch_def halfRun_stages)
  moreover have "\<forall>s \<in> set (crStageRuns (halfRun [''a1''])). srStatus s \<in> {StageStatusPlanned, StageStatusCompleted}"
    by (simp add: halfRun_def plannedStage_def)
  moreover have "\<not> allStagesCompleted (halfRun [''a1''])"
    by (simp add: halfRun_def plannedStage_def allStagesCompleted_def)
  ultimately show ?thesis
    using valid_chain_never_stalls [OF linear_valid [of "\<lambda>_. None"]] by blast
qed

text \<open>
  Without the restriction on padding the guarantee fails. The second stage depends on
  \<open>a1\<close> written with a space in front. The configuration passes validation, because the
  check trims the reference, but the run looks up the reference as written: with the first
  stage completed there is no next stage and the chain is not finished, for good.
\<close>

theorem padded_dependency_stalls:
  "validateConfig rx (demoConfig [] (twoStages [] ['' a1''])) = Inr ()
   \<and> nextReadyStage (demoConfig [] (twoStages [] ['' a1''])) (halfRun ['' a1'']) = None
   \<and> \<not> allStagesCompleted (halfRun ['' a1''])"
proof -
  have trim: "trimSpace '' a1'' = ''a1''" by (simp add: trimSpace_space)
  then have ref: "safeRef_chain '' a1'' n = Inr ''a1''" for n
    by (simp add: safeRef_chain_def tidy_refPattern)
  have "validateConfig rx (demoConfig [] (twoStages [] ['' a1''])) = Inr ()"
    by (rule demo_valid)
      (simp add: twoStages_def demoStage_def ref, simp add: cycle_simps twoStages_def demoStage_def)
  moreover have "nextReadyStage (demoConfig [] (twoStages [] ['' a1''])) (halfRun ['' a1'']) = None"
    by (simp add: nextReadyStage_def demoConfig_def twoStages_def stageReady_def statusByRef_def halfRun_def
        plannedStage_def zeroRun_def)
  moreover have "\<not> allStagesCompleted (halfRun ['' a1''])"
    by (simp add: halfRun_def plannedStage_def allStagesCompleted_def)
  ultimately show ?thesis by blast
qed

subsection \<open>Advancing\<close>

text \<open>
  C28. When the work plan of a stage of a queued run is done, all other stages are planned or
  completed, the dependencies of the configuration are written without padding, and the handler
  succeeds, the chain has moved: another stage is queued, or every stage is completed and the chain has finished.
\<close>

theorem done_plan_advances_chain:
  assumes "handleWorkPlanStatusChanged env change s = (Inr u, s')" and "chainInv env (snd s)"
    and "scNewStatus change = WorkPlanStatusDone"
    and "memFindChainRunByWorkPlan (snd s) (scProjectID change) (scPlanID change) = Inr run"
    and "crStatus run = ChainStatusQueued"
    and "\<forall>t \<in> set (crStageRuns run). srStatus t \<in> {StageStatusPlanned, StageStatusCompleted}
           \<or> srWorkPlanID t = scPlanID change"
    and "\<forall>cfg. svcConfig env (crProjectID run) (crChainRef run) = Inr cfg \<longrightarrow> canonicalDeps cfg"
  shows "\<exists>run'. getRun (snd s') (runKeyOf run) = Some run'
    \<and> (crStatus run' = ChainStatusQueued \<and> (\<exists>t \<in> set (crStageRuns run'). srStatus t = StageStatusQueued)
       \<or> crStatus run' \<in> {ChainStatusCompleted, ChainStatusPostValidationPassed} \<and> allStagesCompleted run')"
proof -
  obtain key where key: "getRun (snd s) key = Some run" using found_run [OF assms(4)] by blast
  have inv: "runInv env run" using assms(2) key allValsD by (fastforce simp: chainInv_def)
  have adv: "advanceChain env change run s = (Inr u, s')"
    using assms(1,3,4,5) by (simp add: handleWorkPlanStatusChanged_def)
  from adv inv show ?thesis
  proof (cases rule: advanceChain_cases)
    case (1 cfg run1 w)
    have match: "stagesMatch cfg run1"
      using 1(1-4) by (auto simp: runInv_def runKeyOf_def)
    have valid: "validateConfig (envCompilePattern env) cfg = Inr ()"
      using svcConfig_Inr [OF 1(1)] by blast
    have "\<forall>s' \<in> set (crStageRuns run1). srStatus s' \<in> {StageStatusPlanned, StageStatusCompleted}"
      using 1(5) assms(6) by (auto simp: list_all2_conv_all_nth in_set_conv_nth) (metis nth_mem)
    note exists = next_stage_exists [OF valid _ match this]
    show ?thesis
    proof (cases "nextReadyStage cfg run1")
      case (Some nxt)
      with 1(6) have "startNextStage env cfg run1 nxt (w, snd s) = (Inr u, s')" by simp
      then show ?thesis
        by (rule startNextStage_ok [OF _ match nextReadyStage_ready(1) [OF Some]])
          (use 1(3) in \<open>auto simp: runKeyOf_def\<close>)
    next
      case None
      with exists assms(7) 1(1) have all: "allStagesCompleted run1" by blast
      with None 1(6) have "finishChain env cfg run1 (w, snd s) = (Inr u, s')" by simp
      then show ?thesis
        by (rule finishChain_ok [OF _ all]) (use 1(3) in auto)
    qed
  qed
qed

theorem done_plan_advances_chain_witness:
  "\<exists>run'. getRun (snd (snd (handleWorkPlanStatusChanged (demoEnv [linearConfig]) doneEvent (4, startedStore))))
      (''m1'', ''r1'') = Some run'
    \<and> (crStatus run' = ChainStatusQueued \<and> (\<exists>t \<in> set (crStageRuns run'). srStatus t = StageStatusQueued)
       \<or> crStatus run' \<in> {ChainStatusCompleted, ChainStatusPostValidationPassed} \<and> allStagesCompleted run')"
proof -
  let ?env = "demoEnv [linearConfig]"
  let ?r = "handleWorkPlanStatusChanged ?env doneEvent (4, startedStore)"
  have run: "?r = (Inr (), snd ?r)" using advance_run by (metis prod.collapse)
  have inv: "chainInv ?env (snd (4 :: nat, startedStore))" using reachable_chainInv [OF start_reachable] by simp
  have find: "memFindChainRunByWorkPlan (snd (4 :: nat, startedStore)) (scProjectID doneEvent) (scPlanID doneEvent)
      = Inr startedRun"
    by (simp add: started_find doneEvent_def)
  have cfg: "svcConfig ?env (crProjectID startedRun) (crChainRef startedRun) = Inr linearConfig"
    by (simp add: startedRun_def linear_config)
  have only: "\<forall>t \<in> set (crStageRuns startedRun). srStatus t \<in> {StageStatusPlanned, StageStatusCompleted}
      \<or> srWorkPlanID t = scPlanID doneEvent"
    by (simp add: startedRun_def plannedStage_def doneEvent_def)
  have canon: "\<forall>cfg. svcConfig ?env (crProjectID startedRun) (crChainRef startedRun) = Inr cfg \<longrightarrow> canonicalDeps cfg"
    by (simp add: cfg canonicalDeps_def)
  have key: "runKeyOf startedRun = (''m1'', ''r1'')" by (simp add: runKeyOf_def startedRun_def)
  have "scNewStatus doneEvent = WorkPlanStatusDone" "crStatus startedRun = ChainStatusQueued"
    by (simp_all add: doneEvent_def startedRun_def)
  from done_plan_advances_chain [OF run inv this(1) find this(2) only canon] key show ?thesis by simp
qed

end
