(* ===== verification/Chain_Boundary.thy ===== *)
theory Chain_Boundary
  imports Chain_Scenario
begin

section \<open>Workflow chains: properties of the stored runs and of the boundary\<close>

text \<open>
  The invariant of every reachable store, the index of work plans, starts that store nothing,
  and the forms of stored input references and blocked reasons.
\<close>

subsection \<open>Reachable stores\<close>

text \<open>
  C27. In every reachable state every stored run belongs to a valid configuration and has one
  stage run per configured stage, in order; a run that is completed or past post-validation
  has all stages completed; and a completed run of a chain with draft-PR GitOps output has
  recorded a pull request.
\<close>

theorem reachable_runs_consistent:
  assumes "chainReachable env s" and "getRun (snd s) k = Some run"
  shows "runKeyOf run = k
    \<and> (\<exists>cfg. svcConfig env (crProjectID run) (crChainRef run) = Inr cfg
        \<and> map srStageRef (crStageRuns run) = map sgStageRef (ccStages cfg)
        \<and> \<not> (crStatus run = ChainStatusCompleted \<and> ccGitOpsMode cfg = GitOpsModeDraftPRAfterValidation
              \<and> isBlank (crPullRequestRef run)))
    \<and> crStatus run \<in> set chainStatuses
    \<and> (crStatus run \<in> {ChainStatusCompleted, ChainStatusPostValidationPassed} \<longrightarrow> allStagesCompleted run)"
proof -
  have inv: "chainInv env (snd s)" by (rule reachable_chainInv [OF assms(1)])
  then have "runInv env run" using assms(2) allValsD by (fastforce simp: chainInv_def)
  moreover have "runKeyOf run = k" using inv assms(2) keyedD by (fastforce simp: chainInv_def)
  ultimately show ?thesis by (auto simp: runInv_def stagesMatch_def)
qed

lemma started_get: "getRun startedStore (''m1'', ''r1'') = Some startedRun"
  by (simp add: startedStore_def runAdd.get_put runKeyOf_def startedRun_def zeroRun_def)

theorem reachable_runs_consistent_witness:
  "runKeyOf startedRun = (''m1'', ''r1'') \<and> map srStageRef (crStageRuns startedRun) = [''a1'', ''b1'']"
proof -
  have "getRun (snd (4 :: nat, startedStore)) (''m1'', ''r1'') = Some startedRun" by (simp add: started_get)
  from reachable_runs_consistent [OF start_reachable this] linear_config show ?thesis
    by (auto simp: startedRun_def)
qed

text \<open>
  C29. In every reachable state a work plan that is found in the index leads to a stored run of
  the same project that owns the plan.
\<close>

theorem index_leads_to_owner:
  assumes "chainReachable env s" and "memFindChainRunByWorkPlan (snd s) p plan = Inr run"
  shows "getRun (snd s) (runKeyOf run) = Some run \<and> crProjectID run = p
    \<and> (plan \<in> set (crWorkPlanIDs run) \<or> (\<exists>t \<in> set (crStageRuns run). srWorkPlanID t = plan))"
proof -
  have inv: "chainInv env (snd s)" by (rule reachable_chainInv [OF assms(1)])
  from found_run [OF assms(2)] obtain key where
    key: "tget (csPlanID (snd s)) (p, plan) = Some key" "getRun (snd s) key = Some run" by blast
  have "runKeyOf run = key" using inv key(2) keyedD by (fastforce simp: chainInv_def)
  moreover have "crProjectID run = p \<and> plan \<in> plansOf run"
  proof -
    from inv key(1) obtain r where "getRun (snd s) key = Some r" "crProjectID r = p" "plan \<in> plansOf r"
      unfolding chainInv_def indexSound_def by meson
    with key(2) show ?thesis by simp
  qed
  ultimately show ?thesis using key(2) by (auto simp: plansOf_def)
qed

theorem index_leads_to_owner_witness:
  "getRun startedStore (runKeyOf startedRun) = Some startedRun \<and> crProjectID startedRun = ''m1''"
proof -
  have "memFindChainRunByWorkPlan (snd (4 :: nat, startedStore)) ''m1'' ''p1'' = Inr startedRun"
    by (simp add: started_find)
  from index_leads_to_owner [OF start_reachable this] show ?thesis by simp
qed

subsection \<open>Starting\<close>

text \<open>
  A start that fails, and every dry run, leaves the stored runs as they were. A start that
  succeeds adds one run under a fresh key: the first configured stage is queued and every
  other stage is planned.
\<close>

theorem start_stores_one_run:
  assumes "svcStart env input s = (r, s')"
  shows "((\<exists>e. r = Inl e) \<or> siDryRun input) \<and> snd s' = snd s
    \<or> \<not> siDryRun input \<and> (\<exists>run. getRun (snd s) (runKeyOf run) = None \<and> getRun (snd s') (runKeyOf run) = Some run
        \<and> crStatus run = ChainStatusQueued
        \<and> map srStatus (crStageRuns run)
            = StageStatusQueued # replicate (length (crStageRuns run) - 1) StageStatusPlanned
        \<and> (\<forall>k. k \<noteq> runKeyOf run \<longrightarrow> getRun (snd s') k = getRun (snd s) k))"
  using assms
proof (cases rule: svcStart_cases)
  case (started cfg inputRef run stage)
  have ne: "ccStages cfg \<noteq> []"
    using svcConfig_Inr [OF started(2)] validateConfig_Inr(1) by blast
  have "map srStatus (map plannedStage ss) = replicate (length ss) StageStatusPlanned" for ss
    by (induction ss) (simp_all add: plannedStage_def)
  then have "map srStatus (crStageRuns run)
      = StageStatusQueued # replicate (length (crStageRuns run) - 1) StageStatusPlanned"
    using started(6,8) ne by (cases "ccStages cfg") (simp_all add: comp_def)
  with started(1,4,5,9) show ?thesis
    by (intro disjI2 conjI exI [of _ run]) (simp_all add: runAdd.get_put)
qed auto

theorem start_stores_one_run_witness:
  "\<exists>run. getRun startedStore (runKeyOf run) = Some run \<and> crStatus run = ChainStatusQueued"
  using start_stores_one_run [OF start_run] by (auto simp: demoStart_def)

text \<open>
  The first stage is started at once whatever it depends on. In this valid configuration the
  first stage depends on the second; \<open>Start\<close> queues the first although the second is only
  planned.
\<close>

theorem first_stage_ignores_dependencies:
  "let cfg = demoConfig [] (twoStages [''b1''] [])
   in validateConfig rx cfg = Inr ()
      \<and> sgDependsOn (hd (ccStages cfg)) = [''b1'']
      \<and> (\<exists>run. getRun (snd (snd (svcStart (demoEnv [cfg]) demoStart (0, newChainStore)))) (''m1'', ''r1'') = Some run
           \<and> statusByRef run ''a1'' = StageStatusQueued \<and> statusByRef run ''b1'' = StageStatusPlanned)"
proof -
  let ?cfg = "demoConfig [] (twoStages [''b1''] [])"
  have valid: "validateConfig rx ?cfg = Inr ()" for rx
    by (rule demo_valid)
      (simp add: twoStages_def demoStage_def, simp add: cycle_simps twoStages_def demoStage_def)
  have st: "statusByRef startedRun ''a1'' = StageStatusQueued" "statusByRef startedRun ''b1'' = StageStatusPlanned"
    by (simp_all add: statusByRef_def startedRun_def plannedStage_def)
  have first: "sgDependsOn (hd (ccStages ?cfg)) = [''b1'']" by (simp add: demoConfig_def twoStages_def)
  from st first valid show ?thesis
    by (simp add: Let_def start_any [OF refl valid] started_get)
qed

subsection \<open>References and reasons\<close>

text \<open>
  An accepted input text becomes either \<open>jira:\<close> and an upper-case issue key, or
  \<open>input:\<close> and a reference of 1 to 200 bytes of the reference alphabet; either way the text
  held no e-mail address and no secret marker.
\<close>

theorem input_reference_form:
  assumes "normalizeInputRef rx cfg inputText = Inr ref"
  shows "((\<exists>key. ref = ''jira:'' @ key \<and> matchFull jiraKeyPattern key \<and> key = toUpper (trimSpace inputText))
      \<or> ref = ''input:'' @ trimSpace inputText \<and> matchFull refPattern (trimSpace inputText))
    \<and> \<not> matchString emailPattern (trimSpace inputText)
    \<and> \<not> contains (toLower (trimSpace inputText)) ''secret''"
  using assms
  by (auto simp: normalizeInputRef_def Let_def tryE_Inr safeRef_chain_def containsSensitive_def
      split: if_splits)

theorem input_reference_form_witness: "matchFull refPattern ''w1'' \<and> \<not> matchString emailPattern ''w1''"
  using input_reference_form [OF normalize_run] by auto

definition reasonChar :: "char \<Rightarrow> bool" where
  "reasonChar c \<longleftrightarrow> isReasonByte c \<or> c = CHR ''_'' \<or> c = CHR ''-''"

lemma reasonLoop_length: "length b \<le> 79 \<Longrightarrow> length (reasonLoop b s) \<le> 80"
  by (induction b s rule: reasonLoop.induct) (auto simp: Let_def)

lemma reasonLoop_chars: "list_all reasonChar b \<Longrightarrow> list_all reasonChar (reasonLoop b s)"
  by (induction b s rule: reasonLoop.induct) (auto simp: Let_def reasonChar_def)

lemma trimCut_length: "length (trimCut s cs) \<le> length s"
  unfolding trimCut_def by (metis length_dropWhile_le length_rev order_trans)

lemma reason_prefix:
  "list_all reasonChar ''gitops_finalize_failed''" "list_all reasonChar ''gitops_finalize_failed_''"
  by (simp_all add: reasonChar_def isReasonByte_def inCls_def lowerCls_def digitCls_def rng_def)

text \<open>
  Whatever the text of an error, the reason stored for a blocked GitOps run consists of lower-case
  letters, digits, \<open>_\<close> and \<open>-\<close> only, at most 103 of them: no path, address or message text
  with other characters gets through.
\<close>

theorem blocked_reason_clean:
  "length (gitOpsBlockedReason errText) \<le> 103
   \<and> list_all (\<lambda>c. isReasonByte c \<or> c = CHR ''_'' \<or> c = CHR ''-'') (gitOpsBlockedReason errText)"
proof -
  define safe where "safe = trimCut (reasonLoop [] (toLower (trimSpace errText))) ''_-''"
  have "length safe \<le> 80"
    unfolding safe_def by (rule order_trans [OF trimCut_length reasonLoop_length]) simp
  moreover have "list_all reasonChar safe"
    using reasonLoop_chars [of "[]" "toLower (trimSpace errText)"] set_trimCut
    unfolding safe_def by (fastforce simp: list_all_iff)
  moreover have "gitOpsBlockedReason errText
      \<in> {''gitops_finalize_failed'', ''gitops_finalize_failed_'' @ safe}"
    by (auto simp: gitOpsBlockedReason_def safe_def Let_def)
  ultimately have "length (gitOpsBlockedReason errText) \<le> 103"
    and "list_all reasonChar (gitOpsBlockedReason errText)"
    using reason_prefix by auto
  then show ?thesis unfolding reasonChar_def by blast
qed

end
