(* ===== verification/Evidence_Model.thy ===== *)
theory Evidence_Model
  imports Prelude
begin

section \<open>Evidence graph: the data model\<close>

text \<open>
  \<open>internal/projectevidence/model.go\<close>: a claim with the evidence, decisions, actions, outcomes
  and links recorded for it, the filter of the listing and the inputs of the service. The lists
  hold the values that the \<open>switch\<close> statements of the service admit.
\<close>

subsection \<open>Constants\<close>

abbreviation ClaimStatusCandidate :: string where "ClaimStatusCandidate \<equiv> ''candidate''"
abbreviation PromotionStateCandidate :: string where "PromotionStateCandidate \<equiv> ''candidate''"
abbreviation PromotionStatePromoted :: string where "PromotionStatePromoted \<equiv> ''promoted''"
abbreviation OutcomeStatusPassed :: string where "OutcomeStatusPassed \<equiv> ''passed''"
abbreviation OutcomeStatusFailed :: string where "OutcomeStatusFailed \<equiv> ''failed''"

definition claimStatuses :: "string list" where
  "claimStatuses = [ClaimStatusCandidate, ''validated'', ''promoted'', ''rejected'']"

definition evidenceKinds :: "string list" where
  "evidenceKinds = [''context_pack'', ''file'', ''chunk'', ''symbol'', ''verifier'', ''claim_check'',
     ''artifact'', ''other'']"

definition decisionStates :: "string list" where
  "decisionStates = [''validated'', ''promoted'', ''rejected'']"

definition actionKinds :: "string list" where
  "actionKinds = [''code_change'', ''doc_change'', ''verifier_run'', ''config_change'',
     ''review_comment'', ''other'']"

definition outcomeKinds :: "string list" where
  "outcomeKinds = [''test'', ''build'', ''claim_check'', ''manual_review'', ''promotion'', ''failure'',
     ''other'']"

definition outcomeStatuses :: "string list" where
  "outcomeStatuses = [OutcomeStatusPassed, OutcomeStatusFailed, ''blocked'', ''unknown'']"

definition promotionStates :: "string list" where
  "promotionStates = [PromotionStateCandidate, ''validated'', PromotionStatePromoted, ''rejected'']"

subsection \<open>Records\<close>

record Claim =
  cmID :: string
  cmProjectID :: string
  cmRunID :: string
  cmTraceID :: string
  cmClaimRef :: string
  cmSummary :: string
  cmStatus :: string
  cmCreatedAt :: time
  cmUpdatedAt :: time

record Evidence =
  evID :: string
  evProjectID :: string
  evClaimID :: string
  evEvidenceRef :: string
  evEvidenceKind :: string
  evSourceRef :: string
  evSummary :: string
  evCreatedAt :: time

record Decision =
  dcID :: string
  dcProjectID :: string
  dcClaimID :: string
  dcDecisionRef :: string
  dcState :: string
  dcVerifierRef :: string
  dcRationale :: string
  dcDecidedAt :: time

record Action =
  acID :: string
  acProjectID :: string
  acClaimID :: string
  acDecisionID :: string
  acActionRef :: string
  acActionKind :: string
  acSummary :: string
  acChangedFiles :: "string list"
  acRunID :: string
  acCreatedAt :: time

record Outcome =
  ocID :: string
  ocProjectID :: string
  ocClaimID :: string
  ocActionID :: string
  ocOutcomeRef :: string
  ocOutcomeKind :: string
  ocStatus :: string
  ocVerifierRef :: string
  ocSummary :: string
  ocCreatedAt :: time

record ArtifactLink =
  alProjectID :: string
  alClaimID :: string
  alArtifactRef :: string
  alArtifactKind :: string
  alRunID :: string

record PromotionLink =
  plProjectID :: string
  plClaimID :: string
  plRunID :: string
  plArtifactRef :: string
  plPromotionState :: string
  plSourceRef :: string
  plVerifierRef :: string
  plDecisionRef :: string
  plActionRef :: string
  plOutcomeRef :: string
  plDecidedAt :: time

record ClaimRecord =
  rcClaim :: Claim
  rcEvidence :: "Evidence list"
  rcDecisions :: "Decision list"
  rcActions :: "Action list"
  rcOutcomes :: "Outcome list"
  rcArtifactLinks :: "ArtifactLink list"
  rcPromotionLinks :: "PromotionLink list"

record ClaimFilter =
  kfArtifactRef :: string
  kfPromotionState :: string
  kfOutcomeStatus :: string
  kfRunID :: string
  kfTraceID :: string

subsection \<open>Inputs\<close>

record CreateClaimInput =
  icProjectID :: string
  icRunID :: string
  icTraceID :: string
  icClaimRef :: string
  icSummary :: string
  icStatus :: string

record AppendEvidenceInput =
  ieProjectID :: string
  ieClaimID :: string
  ieEvidenceRef :: string
  ieEvidenceKind :: string
  ieSourceRef :: string
  ieSummary :: string

record CreateDecisionInput =
  idProjectID :: string
  idClaimID :: string
  idDecisionRef :: string
  idState :: string
  idVerifierRef :: string
  idRationale :: string

record CreateActionInput =
  iaProjectID :: string
  iaClaimID :: string
  iaDecisionID :: string
  iaActionRef :: string
  iaActionKind :: string
  iaSummary :: string
  iaChangedFiles :: "string list"
  iaRunID :: string

record CreateOutcomeInput =
  ioProjectID :: string
  ioClaimID :: string
  ioActionID :: string
  ioOutcomeRef :: string
  ioOutcomeKind :: string
  ioStatus :: string
  ioVerifierRef :: string
  ioSummary :: string

record LinkArtifactInput =
  ilProjectID :: string
  ilClaimID :: string
  ilArtifactRef :: string
  ilArtifactKind :: string
  ilRunID :: string

record LinkPromotionInput =
  ipProjectID :: string
  ipClaimID :: string
  ipRunID :: string
  ipArtifactRef :: string
  ipPromotionState :: string
  ipSourceRef :: string
  ipVerifierRef :: string
  ipDecisionRef :: string
  ipActionRef :: string
  ipOutcomeRef :: string

end
