(* ===== verification/Evidence_Store.thy ===== *)
theory Evidence_Store
  imports Evidence_Model Store_Interface
begin

section \<open>Evidence graph: the memory store\<close>

text \<open>
  \<open>internal/projectevidence/store/memory.go\<close>: the claims and the claim records, both under the
  key that joins the project and the claim identifier. A write appends to one list of one
  record. \<open>cloneRecord\<close>, \<open>cloneAction\<close> and \<open>cloneActions\<close> only detach slices.
\<close>

record EvidenceStore =
  esClaims :: "(string, Claim) table"
  esRecords :: "(string, ClaimRecord) table"

definition newEvidenceStore :: EvidenceStore where
  "newEvidenceStore = \<lparr>esClaims = [], esRecords = []\<rparr>"

definition claimKey :: "string \<Rightarrow> string \<Rightarrow> string" where
  "claimKey projectID claimID = joinKey projectID claimID"

definition newRecord :: "Claim \<Rightarrow> ClaimRecord" where
  "newRecord claim = \<lparr>rcClaim = claim, rcEvidence = [], rcDecisions = [], rcActions = [],
     rcOutcomes = [], rcArtifactLinks = [], rcPromotionLinks = []\<rparr>"

definition memCreateClaim :: "EvidenceStore \<Rightarrow> Claim \<Rightarrow> Claim res \<times> EvidenceStore" where
  "memCreateClaim st claim =
     (let key = claimKey (cmProjectID claim) (cmID claim)
      in (Inr claim, \<lparr>esClaims = tput (esClaims st) key claim,
                      esRecords = tput (esRecords st) key (newRecord claim)\<rparr>))"

definition memGetClaim :: "EvidenceStore \<Rightarrow> string \<Rightarrow> string \<Rightarrow> ClaimRecord res" where
  "memGetClaim st projectID claimID =
     (case tget (esRecords st) (claimKey projectID claimID) of
        None \<Rightarrow> Inl ErrNotFound | Some rec \<Rightarrow> Inr rec)"

definition setRecord :: "EvidenceStore \<Rightarrow> string \<Rightarrow> ClaimRecord \<Rightarrow> EvidenceStore" where
  "setRecord st key rec = st\<lparr>esRecords := tput (esRecords st) key rec\<rparr>"

definition memAppendEvidence :: "EvidenceStore \<Rightarrow> Evidence \<Rightarrow> Evidence res \<times> EvidenceStore" where
  "memAppendEvidence st evidence =
     (let key = claimKey (evProjectID evidence) (evClaimID evidence)
      in case tget (esRecords st) key of
        None \<Rightarrow> (Inl ErrNotFound, st)
      | Some rec \<Rightarrow> (Inr evidence, setRecord st key (rec\<lparr>rcEvidence := rcEvidence rec @ [evidence]\<rparr>)))"

definition memCreateDecision :: "EvidenceStore \<Rightarrow> Decision \<Rightarrow> Decision res \<times> EvidenceStore" where
  "memCreateDecision st decision =
     (let key = claimKey (dcProjectID decision) (dcClaimID decision)
      in case tget (esRecords st) key of
        None \<Rightarrow> (Inl ErrNotFound, st)
      | Some rec \<Rightarrow> (Inr decision, setRecord st key (rec\<lparr>rcDecisions := rcDecisions rec @ [decision]\<rparr>)))"

definition memCreateAction :: "EvidenceStore \<Rightarrow> Action \<Rightarrow> Action res \<times> EvidenceStore" where
  "memCreateAction st action =
     (let key = claimKey (acProjectID action) (acClaimID action)
      in case tget (esRecords st) key of
        None \<Rightarrow> (Inl ErrNotFound, st)
      | Some rec \<Rightarrow> (Inr action, setRecord st key (rec\<lparr>rcActions := rcActions rec @ [action]\<rparr>)))"

definition memCreateOutcome :: "EvidenceStore \<Rightarrow> Outcome \<Rightarrow> Outcome res \<times> EvidenceStore" where
  "memCreateOutcome st outcome =
     (let key = claimKey (ocProjectID outcome) (ocClaimID outcome)
      in case tget (esRecords st) key of
        None \<Rightarrow> (Inl ErrNotFound, st)
      | Some rec \<Rightarrow> (Inr outcome, setRecord st key (rec\<lparr>rcOutcomes := rcOutcomes rec @ [outcome]\<rparr>)))"

definition memLinkArtifact :: "EvidenceStore \<Rightarrow> ArtifactLink \<Rightarrow> ArtifactLink res \<times> EvidenceStore" where
  "memLinkArtifact st link =
     (let key = claimKey (alProjectID link) (alClaimID link)
      in case tget (esRecords st) key of
        None \<Rightarrow> (Inl ErrNotFound, st)
      | Some rec \<Rightarrow> (Inr link, setRecord st key (rec\<lparr>rcArtifactLinks := rcArtifactLinks rec @ [link]\<rparr>)))"

definition memLinkPromotion :: "EvidenceStore \<Rightarrow> PromotionLink \<Rightarrow> PromotionLink res \<times> EvidenceStore" where
  "memLinkPromotion st link =
     (let key = claimKey (plProjectID link) (plClaimID link)
      in case tget (esRecords st) key of
        None \<Rightarrow> (Inl ErrNotFound, st)
      | Some rec \<Rightarrow> (Inr link, setRecord st key (rec\<lparr>rcPromotionLinks := rcPromotionLinks rec @ [link]\<rparr>)))"

subsection \<open>Listing\<close>

definition hasArtifact :: "ClaimRecord \<Rightarrow> string \<Rightarrow> bool" where
  "hasArtifact rec artifactRef =
     (list_ex (\<lambda>l. alArtifactRef l = artifactRef) (rcArtifactLinks rec)
      \<or> list_ex (\<lambda>l. plArtifactRef l = artifactRef) (rcPromotionLinks rec))"

definition hasPromotionState :: "ClaimRecord \<Rightarrow> string \<Rightarrow> bool" where
  "hasPromotionState rec state = list_ex (\<lambda>l. plPromotionState l = state) (rcPromotionLinks rec)"

definition hasOutcomeStatus :: "ClaimRecord \<Rightarrow> string \<Rightarrow> bool" where
  "hasOutcomeStatus rec status = list_ex (\<lambda>x. ocStatus x = status) (rcOutcomes rec)"

definition matchesFilter :: "ClaimRecord \<Rightarrow> ClaimFilter \<Rightarrow> bool" where
  "matchesFilter rec flt =
     (if kfRunID flt \<noteq> [] \<and> cmRunID (rcClaim rec) \<noteq> kfRunID flt then False
      else if kfTraceID flt \<noteq> [] \<and> cmTraceID (rcClaim rec) \<noteq> kfTraceID flt then False
      else if kfArtifactRef flt \<noteq> [] \<and> \<not> hasArtifact rec (kfArtifactRef flt) then False
      else if kfPromotionState flt \<noteq> [] \<and> \<not> hasPromotionState rec (kfPromotionState flt) then False
      else if kfOutcomeStatus flt \<noteq> [] \<and> \<not> hasOutcomeStatus rec (kfOutcomeStatus flt) then False
      else True)"

definition claimLess :: "Claim \<Rightarrow> Claim \<Rightarrow> bool" where
  "claimLess = lessBy cmCreatedAt"

definition memListClaims :: "EvidenceStore \<Rightarrow> string \<Rightarrow> ClaimFilter \<Rightarrow> Claim list" where
  "memListClaims st projectID flt =
     sortBy claimLess (map rcClaim
       (filter (\<lambda>rec. cmProjectID (rcClaim rec) = projectID \<and> matchesFilter rec flt)
         (tvals (esRecords st))))"

subsection \<open>As a keyed store\<close>

definition recordKey :: "ClaimRecord \<Rightarrow> string" where
  "recordKey rec = claimKey (cmProjectID (rcClaim rec)) (cmID (rcClaim rec))"

definition getRecord :: "EvidenceStore \<Rightarrow> string \<Rightarrow> ClaimRecord option" where
  "getRecord st = tget (esRecords st)"

definition storeRecord :: "EvidenceStore \<Rightarrow> ClaimRecord \<Rightarrow> EvidenceStore" where
  "storeRecord st rec = setRecord st (recordKey rec) rec"

interpretation recs: keyed_store getRecord storeRecord recordKey
  by unfold_locales (simp add: getRecord_def storeRecord_def setRecord_def store_simps)

lemma memGetClaim_Inr: "memGetClaim st p c = Inr rec \<longleftrightarrow> getRecord st (claimKey p c) = Some rec"
  by (simp add: memGetClaim_def getRecord_def split: option.splits)

lemma getRecord_setRecord [store_simps]:
  "getRecord (setRecord st key rec) k = (if k = key then Some rec else getRecord st k)"
  by (simp add: getRecord_def setRecord_def store_simps)

lemma getRecord_create:
  "getRecord (snd (memCreateClaim st claim)) k =
     (if k = claimKey (cmProjectID claim) (cmID claim) then Some (newRecord claim) else getRecord st k)"
  by (simp add: memCreateClaim_def getRecord_def store_simps Let_def)

subsection \<open>One write\<close>

text \<open>The writes of the store as values, to reason about all of them at once.\<close>

datatype evidence_write =
    WriteClaim Claim | WriteEvidence Evidence | WriteDecision Decision | WriteAction Action
  | WriteOutcome Outcome | WriteArtifact ArtifactLink | WritePromotion PromotionLink

fun memWrite :: "EvidenceStore \<Rightarrow> evidence_write \<Rightarrow> evidence_write res \<times> EvidenceStore" where
  "memWrite st (WriteClaim x) = map_prod (map_sum id WriteClaim) id (memCreateClaim st x)"
| "memWrite st (WriteEvidence x) = map_prod (map_sum id WriteEvidence) id (memAppendEvidence st x)"
| "memWrite st (WriteDecision x) = map_prod (map_sum id WriteDecision) id (memCreateDecision st x)"
| "memWrite st (WriteAction x) = map_prod (map_sum id WriteAction) id (memCreateAction st x)"
| "memWrite st (WriteOutcome x) = map_prod (map_sum id WriteOutcome) id (memCreateOutcome st x)"
| "memWrite st (WriteArtifact x) = map_prod (map_sum id WriteArtifact) id (memLinkArtifact st x)"
| "memWrite st (WritePromotion x) = map_prod (map_sum id WritePromotion) id (memLinkPromotion st x)"

text \<open>
  The record a write belongs to, and that record with the object at the end of its list. A
  claim is not part of a list, it starts a record.
\<close>

fun writeKey :: "evidence_write \<Rightarrow> string" where
  "writeKey (WriteClaim x) = claimKey (cmProjectID x) (cmID x)"
| "writeKey (WriteEvidence x) = claimKey (evProjectID x) (evClaimID x)"
| "writeKey (WriteDecision x) = claimKey (dcProjectID x) (dcClaimID x)"
| "writeKey (WriteAction x) = claimKey (acProjectID x) (acClaimID x)"
| "writeKey (WriteOutcome x) = claimKey (ocProjectID x) (ocClaimID x)"
| "writeKey (WriteArtifact x) = claimKey (alProjectID x) (alClaimID x)"
| "writeKey (WritePromotion x) = claimKey (plProjectID x) (plClaimID x)"

fun addTo :: "ClaimRecord \<Rightarrow> evidence_write \<Rightarrow> ClaimRecord" where
  "addTo rec (WriteClaim x) = rec"
| "addTo rec (WriteEvidence x) = rec\<lparr>rcEvidence := rcEvidence rec @ [x]\<rparr>"
| "addTo rec (WriteDecision x) = rec\<lparr>rcDecisions := rcDecisions rec @ [x]\<rparr>"
| "addTo rec (WriteAction x) = rec\<lparr>rcActions := rcActions rec @ [x]\<rparr>"
| "addTo rec (WriteOutcome x) = rec\<lparr>rcOutcomes := rcOutcomes rec @ [x]\<rparr>"
| "addTo rec (WriteArtifact x) = rec\<lparr>rcArtifactLinks := rcArtifactLinks rec @ [x]\<rparr>"
| "addTo rec (WritePromotion x) = rec\<lparr>rcPromotionLinks := rcPromotionLinks rec @ [x]\<rparr>"

definition isClaim :: "evidence_write \<Rightarrow> bool" where
  "isClaim w = (case w of WriteClaim x \<Rightarrow> True | _ \<Rightarrow> False)"

lemma memWrite_cases:
  assumes "memWrite st w = (r, st')"
  obtains (missing) "\<not> isClaim w" "getRecord st (writeKey w) = None" "r = Inl ErrNotFound" "st' = st"
  | (made) claim where "w = WriteClaim claim" "r = Inr w"
      "\<And>k. getRecord st' k = (if k = writeKey w then Some (newRecord claim) else getRecord st k)"
  | (appended) rec where "\<not> isClaim w" "getRecord st (writeKey w) = Some rec" "r = Inr w"
      "\<And>k. getRecord st' k = (if k = writeKey w then Some (addTo rec w) else getRecord st k)"
  using assms getRecord_create
  by (cases w) (auto simp: isClaim_def memCreateClaim_def memAppendEvidence_def memCreateDecision_def
      memCreateAction_def memCreateOutcome_def memLinkArtifact_def memLinkPromotion_def Let_def
      getRecord_def setRecord_def store_simps split: option.splits)

end
