(* ===== verification/Safe_Identifier.thy ===== *)
theory Safe_Identifier
  imports Safe_Text
begin

section \<open>Identifiers, references and texts of the evidence services\<close>

text \<open>
  \<open>projectevidence\<close>, \<open>projectconfidence\<close> and \<open>projectknowledge\<close> hold copies of one set of
  checks that differ in their marker lists and in how they treat URLs. The definitions ending
  in \<open>With\<close> are this common code; a package instantiates them with its own predicates.
\<close>

subsection \<open>The common checks\<close>

definition identByte :: "char \<Rightarrow> bool" where
  "identByte c = (inCls (lowerCls @ upperCls @ digitCls) c \<or> c \<in> set ''_-./'')"

text \<open>\<open>prohibited\<close> is the disjunction of the marker and pattern tests of the package.\<close>

definition safeIdentifierWith :: "(string \<Rightarrow> bool) \<Rightarrow> string \<Rightarrow> string \<Rightarrow> string res" where
  "safeIdentifierWith prohibited value0 field =
     (let value = trimSpace value0
      in if value = [] then Inl (ErrInvalidInput (field @ '' is required''))
         else if length value > 200 \<or> prohibited value
         then Inl (ErrInvalidInput (field @ '' is unsafe''))
         else if \<not> list_all identByte value
         then Inl (ErrInvalidInput (field @ '' is unsafe''))
         else Inr value)"

definition rootMarker :: "string \<Rightarrow> bool" where
  "rootMarker value =
     (let normalized = toLower (replaceAll backslash ''/'' value)
      in contains normalized ''/home/'' \<or> contains normalized ''/users/''
         \<or> contains normalized ''wsl.localhost/'' \<or> contains normalized ''c:/'')"

definition safeRefIdentifierWith ::
    "(string \<Rightarrow> bool) \<Rightarrow> (string \<Rightarrow> bool) \<Rightarrow> (string \<Rightarrow> bool) \<Rightarrow> string \<Rightarrow> string \<Rightarrow> string res" where
  "safeRefIdentifierWith prohibited marker isURL value0 field =
     tryE (safeIdentifierWith prohibited value0 field) (\<lambda>value.
     let normalized = replaceAll backslash ''/'' value
     in if hasPrefix normalized ''/'' \<or> contains normalized ''..'' \<or> isAbs normalized
          \<or> marker normalized \<or> rootMarker normalized \<or> isURL normalized
        then Inl (ErrInvalidInput (field @ '' is unsafe'')) else Inr normalized)"

definition optionalWith :: "(string \<Rightarrow> string \<Rightarrow> string res) \<Rightarrow> string \<Rightarrow> string \<Rightarrow> string res" where
  "optionalWith check value0 field =
     (let value = trimSpace value0 in if value = [] then Inr [] else check value field)"

definition hasMarker :: "string list \<Rightarrow> string \<Rightarrow> bool" where
  "hasMarker markers value = (let normalized = toLower value in list_ex (contains normalized) markers)"

definition newline :: char where
  "newline = char_of (10 :: nat)"

definition looksLikeSourceDump :: "string \<Rightarrow> bool" where
  "looksLikeSourceDump value =
     (let normalized = toLower value
      in length (filter (\<lambda>c. c = newline) value) > 4 \<or> contains normalized ''package main''
         \<or> contains normalized ''func '' \<or> contains normalized ''-----begin''
         \<or> contains normalized ''traceback (most recent call last)''
         \<or> contains normalized [CHR 0x60, CHR 0x60, CHR 0x60])"

definition safeTextWith :: "(string \<Rightarrow> bool) \<Rightarrow> (string \<Rightarrow> bool) \<Rightarrow> string \<Rightarrow> string \<Rightarrow> nat \<Rightarrow> string res" where
  "safeTextWith prohibited isURL value0 field maxLength =
     (let value = trimSpace value0
      in if value = [] then Inr []
         else if length value > maxLength \<or> prohibited value \<or> looksLikeSourceDump value
           \<or> isURL value \<or> rootMarker value
         then Inl (ErrInvalidInput (field @ '' is unsafe'')) else Inr value)"

definition requiredWith :: "string res \<Rightarrow> string \<Rightarrow> string res" where
  "requiredWith checked field =
     tryE checked (\<lambda>value.
     if value = [] then Inl (ErrInvalidInput (field @ '' is required'')) else Inr value)"

text \<open>The checks of enumerations: \<open>switch status { case A, B: return status; default: error }\<close>.\<close>

definition safeEnum :: "string list \<Rightarrow> string \<Rightarrow> string \<Rightarrow> string res" where
  "safeEnum allowed label value =
     (if trimSpace value \<in> set allowed then Inr (trimSpace value)
      else Inl (ErrInvalidInput (label @ '' is invalid'')))"

subsection \<open>What a checked value satisfies\<close>

named_theorems ident_simps \<open>inversion of the identifier checks\<close>

lemma identByte_not_backslash: "list_all identByte s \<Longrightarrow> \<not> contains s backslash"
proof
  assume "list_all identByte s" and "contains s backslash"
  then have "CHR 0x5C \<in> set s" by (auto simp: backslash_def dest!: set_mono_sublist)
  with \<open>list_all identByte s\<close> have "identByte (CHR 0x5C)" by (auto simp: list_all_iff)
  then show False
    by (simp add: identByte_def inCls_def lowerCls_def upperCls_def digitCls_def rng_def)
qed

lemma safeIdentifierWith_Inr [ident_simps]:
  "safeIdentifierWith pr v f = Inr r \<longleftrightarrow>
     r = trimSpace v \<and> r \<noteq> [] \<and> length r \<le> 200 \<and> \<not> pr r \<and> list_all identByte r"
  by (auto simp: safeIdentifierWith_def Let_def split: if_splits)

lemma safeRefIdentifierWith_Inr [ident_simps]:
  "safeRefIdentifierWith pr mk url v f = Inr r \<longleftrightarrow>
     r = trimSpace v \<and> r \<noteq> [] \<and> length r \<le> 200 \<and> \<not> pr r \<and> list_all identByte r
     \<and> \<not> hasPrefix r ''/'' \<and> \<not> contains r ''..'' \<and> \<not> mk r \<and> \<not> rootMarker r \<and> \<not> url r"
  by (auto simp: safeRefIdentifierWith_def Let_def tryE_Inr safeIdentifierWith_Inr isAbs_def
      replaceAll_absent identByte_not_backslash split: if_splits)

lemma safeRefIdentifierWith_idem:
  "safeRefIdentifierWith pr mk url v f = Inr r \<Longrightarrow> safeRefIdentifierWith pr mk url r f' = Inr r"
  by (auto simp: ident_simps)

lemma optionalWith_Inr:
  "optionalWith check v f = Inr r \<longleftrightarrow> (if isBlank v then r = [] else check (trimSpace v) f = Inr r)"
  by (auto simp: optionalWith_def isBlank_def Let_def)

lemma safeEnum_Inr [ident_simps]: "safeEnum allowed l v = Inr r \<longleftrightarrow> r = trimSpace v \<and> r \<in> set allowed"
  by (auto simp: safeEnum_def)

lemma requiredWith_Inr [ident_simps]: "requiredWith c f = Inr r \<longleftrightarrow> c = Inr r \<and> r \<noteq> []"
  by (auto simp: requiredWith_def tryE_Inr split: if_splits)

lemma identByte_noNul: "list_all identByte s \<Longrightarrow> CHR 0x00 \<notin> set s"
proof
  assume "list_all identByte s" and "CHR 0x00 \<in> set s"
  then have "identByte (CHR 0x00)" by (auto simp: list_all_iff)
  then show False
    by (simp add: identByte_def inCls_def lowerCls_def upperCls_def digitCls_def rng_def)
qed

text \<open>An identifier cannot hold a marker, an address or a URL: they need other bytes.\<close>

lemma toLower_all:
  assumes "\<And>c. P c \<Longrightarrow> P (lowerByte c)" and "P CHR ''i''" and "P CHR ''k''"
  shows "list_all P s \<Longrightarrow> list_all P (toLower s)"
  by (induction s rule: toLower.induct) (simp_all add: assms)

lemma identByte_lower: "identByte c \<Longrightarrow> identByte (lowerByte c)"
  by (auto simp: identByte_def inCls_def lowerCls_def upperCls_def digitCls_def rng_def lowerByte_def Let_def)

lemma identByte_toLower: "list_all identByte s \<Longrightarrow> list_all identByte (toLower s)"
  by (rule toLower_all)
    (simp_all add: identByte_lower, simp_all add: identByte_def inCls_def lowerCls_def upperCls_def digitCls_def rng_def)

lemma identByte_absent: "list_all identByte s \<Longrightarrow> \<not> list_all identByte p \<Longrightarrow> \<not> contains s p"
  by (auto simp: list_all_iff dest!: set_mono_sublist)

lemma identByte_hasMarker:
  "list_all identByte s \<Longrightarrow> \<forall>m \<in> set markers. \<not> list_all identByte m \<Longrightarrow> \<not> hasMarker markers s"
  using identByte_absent [OF identByte_toLower [of s]] by (auto simp: hasMarker_def list_ex_iff Let_def)

lemma identByte_email: "list_all identByte s \<Longrightarrow> \<not> matchString emailPattern s"
proof
  assume s: "list_all identByte s" and "matchString emailPattern s"
  then obtain a m b where "s = a @ m @ b" and "accepts emailPattern m" by (auto simp: matchString_iff)
  then have "CHR ''@'' \<in> set s"
    using accepts_needs_char [of emailPattern m] by (auto simp: emailPattern_def)
  with s have "identByte (CHR ''@'')" by (auto simp: list_all_iff)
  then show False
    by (simp add: identByte_def inCls_def lowerCls_def upperCls_def digitCls_def rng_def)
qed

lemma identByte_graphic: "identByte c \<Longrightarrow> graphic c"
  by (auto simp: identByte_def inCls_def lowerCls_def upperCls_def digitCls_def rng_def graphic_def Let_def)

lemma ident_trimSpace: "list_all identByte s \<Longrightarrow> trimSpace s = s"
  by (cases "s = []") (auto intro!: trimSpace_graphic identByte_graphic simp: list_all_iff)

text \<open>A root marker has a slash.\<close>

lemma lowerByte_slash: "c \<noteq> CHR ''/'' \<Longrightarrow> lowerByte c \<noteq> CHR ''/''"
proof
  assume ne: "c \<noteq> CHR ''/''" and eq: "lowerByte c = CHR ''/''"
  have "c \<noteq> lowerByte c" using ne eq by simp
  then have n: "65 \<le> (of_char c :: nat)" "(of_char c :: nat) \<le> 90"
    and l: "lowerByte c = char_of ((of_char c :: nat) + 32)"
    by (simp_all add: lowerByte_def Let_def split: if_splits)
  then have "(of_char (lowerByte c) :: nat) = of_char c + 32"
    by (simp add: l)
  with eq n show False by simp
qed

lemma no_slash_rootMarker:
  assumes "list_all identByte s" and "CHR ''/'' \<notin> set s"
  shows "\<not> rootMarker s"
proof -
  have "list_all (\<lambda>c. c \<noteq> CHR ''/'') (toLower s)"
    using assms(2) lowerByte_slash by (intro toLower_all) (auto simp: list_all_iff)
  then have "CHR ''/'' \<notin> set (toLower s)" by (auto simp: list_all_iff)
  then show ?thesis
    by (auto simp: rootMarker_def Let_def replaceAll_absent [OF identByte_not_backslash [OF assms(1)]]
        dest!: set_mono_sublist)
qed

subsection \<open>Tidy words pass\<close>

lemma tidyChar_identByte: "tidyChar c \<Longrightarrow> identByte c"
  by (auto simp: identByte_def inCls_def lowerCls_def upperCls_def digitCls_def rng_def tidyChar_def Let_def)

lemma tidy_identBytes: "list_all tidyChar s \<Longrightarrow> list_all identByte s"
  by (auto simp: list_all_iff tidyChar_identByte)

lemma tidy_rootMarker: "tidyWord s \<Longrightarrow> \<not> rootMarker s"
  using tidy_root [of s] by (auto simp: containsRootMarker_def rootMarker_def Let_def)

lemma tidy_hasMarker:
  "tidyWord s \<Longrightarrow> \<forall>m \<in> set markers. \<not> list_all tidyChar m \<Longrightarrow> \<not> hasMarker markers s"
  using untidy_absent [of s] tidy_toLower [of s]
  by (auto simp: hasMarker_def list_ex_iff tidyWord_def Let_def)

lemma tidy_identifier:
  "tidyWord s \<Longrightarrow> \<not> pr s \<Longrightarrow> safeIdentifierWith pr s f = Inr s"
  by (auto simp: ident_simps tidy_identBytes tidyWord_def)

lemma tidy_refIdentifier:
  assumes s: "tidyWord s" and "\<not> pr s" and "\<not> mk s" and "\<not> url s"
  shows "safeRefIdentifierWith pr mk url s f = Inr s"
proof -
  have t: "list_all tidyChar s" using s by (simp add: tidyWord_def)
  have "\<forall>m \<in> {''..'', ''/''}. \<not> list_all tidyChar m" by (simp add: tidyChar_def)
  with untidy_absent [OF t] have "\<not> contains s ''..''" "\<not> hasPrefix s ''/''"
    by (auto dest: prefix_imp_sublist)
  with assms show ?thesis
    by (auto simp: ident_simps tidy_identBytes [OF t] tidy_rootMarker) (auto simp: tidyWord_def)
qed

lemma tidy_sourceDump: "tidyWord s \<Longrightarrow> \<not> looksLikeSourceDump s"
proof -
  assume s: "tidyWord s"
  then have t: "list_all tidyChar s" by (simp add: tidyWord_def)
  have "\<not> tidyChar newline" by (simp add: newline_def tidyChar_def)
  then have "filter (\<lambda>c. c = newline) s = []" using t by (auto simp: filter_empty_conv list_all_iff)
  moreover have "\<forall>m \<in> {''package main'', ''func '', ''-----begin'', ''traceback (most recent call last)'',
      [CHR 0x60, CHR 0x60, CHR 0x60]}. \<not> list_all tidyChar m"
    by (simp add: tidyChar_def)
  ultimately show ?thesis
    using untidy_absent [OF t] by (auto simp: looksLikeSourceDump_def tidy_toLower [OF t] Let_def)
qed

lemma tidy_text:
  "tidyWord s \<Longrightarrow> \<not> pr s \<Longrightarrow> \<not> url s \<Longrightarrow> 8 \<le> mx \<Longrightarrow> safeTextWith pr url s f mx = Inr s"
  by (simp add: safeTextWith_def tidy_sourceDump tidy_rootMarker Let_def) (simp add: tidyWord_def)

end
