(* ===== verification/Evidence_Checks.thy ===== *)
theory Evidence_Checks
  imports Evidence_Model Safe_Identifier "HOL-Library.Word"
begin

unbundle bit_operations_syntax

section \<open>Evidence graph: input checks and identifiers\<close>

text \<open>
  The checks of \<open>internal/projectevidence/service.go\<close>, as instances of \<open>Safe_Identifier\<close>, and
  the identifiers it generates. Two parts of the Go library stay parameters, the fields of
  \<open>NetLib\<close>: the host name of a parsed URL and the test for a loopback address. The last
  section shows which of the identifier checks can ever fail: an identifier has no byte that
  could be part of a marker, an address or a URL.
\<close>

subsection \<open>Markers\<close>

definition prohibitedMarkers :: "string list" where
  "prohibitedMarkers =
    [''match ('', ''select '', ''insert into'', ''update '', ''delete from'', ''pragma '', ''drop '',
     ''create ('', ''return n'', ''raw prompt'', ''raw completion'', ''raw source'', ''source dump'',
     ''raw stderr'', ''provider payload'', ''authorization:'', ''bearer '', ''begin private key'',
     ''api_key='', ''token='', ''secret='', ''password='', ''credential='']"

definition containsProhibitedMarker :: "string \<Rightarrow> bool" where
  "containsProhibitedMarker = hasMarker prohibitedMarkers"

definition containsProhibitedData :: "string \<Rightarrow> bool" where
  "containsProhibitedData value =
     (containsProhibitedMarker value \<or> matchString emailPattern value \<or> matchString phonePattern value)"

subsection \<open>URLs\<close>

text \<open>
  \<open>nlHost v\<close> is \<open>url.Parse(v)\<close> followed by \<open>Hostname()\<close>, \<open>None\<close> when the parser fails;
  \<open>nlLoopback h\<close> says that \<open>net.ParseIP(h)\<close> gives an address and it is a loopback address.
\<close>

record NetLib =
  nlHost :: "string \<Rightarrow> string option"
  nlLoopback :: "string \<Rightarrow> bool"

text \<open>
  \<open>strings.EqualFold\<close>, for a comparison with an ASCII text: beyond the ASCII letters the runes
  U+017F and U+212A fold to \<open>s\<close> and \<open>k\<close>.
\<close>

definition foldCase :: "string \<Rightarrow> string" where
  "foldCase s = map lowerByte (replaceAll runeU212A ''k'' (replaceAll (bytes [197, 191]) ''s'' s))"

definition equalFold :: "string \<Rightarrow> string \<Rightarrow> bool" where
  "equalFold a b = (foldCase a = foldCase b)"

definition containsURL :: "NetLib \<Rightarrow> string \<Rightarrow> bool" where
  "containsURL net value =
     (if \<not> contains value ''://'' then False
      else case nlHost net value of
        None \<Rightarrow> True
      | Some host \<Rightarrow> if equalFold host ''localhost'' then False else \<not> nlLoopback net host)"

subsection \<open>Identifiers and texts\<close>

definition safeIdentifier_ev :: "string \<Rightarrow> string \<Rightarrow> string res" where
  "safeIdentifier_ev =
     safeIdentifierWith (\<lambda>v. containsProhibitedMarker v \<or> matchString emailPattern v)"

definition safeOptionalIdentifier_ev :: "string \<Rightarrow> string \<Rightarrow> string res" where
  "safeOptionalIdentifier_ev = optionalWith safeIdentifier_ev"

definition safeRefIdentifier_ev :: "NetLib \<Rightarrow> string \<Rightarrow> string \<Rightarrow> string res" where
  "safeRefIdentifier_ev net =
     safeRefIdentifierWith (\<lambda>v. containsProhibitedMarker v \<or> matchString emailPattern v)
       containsProhibitedMarker (containsURL net)"

definition safeOptionalRefIdentifier_ev :: "NetLib \<Rightarrow> string \<Rightarrow> string \<Rightarrow> string res" where
  "safeOptionalRefIdentifier_ev net = optionalWith (safeRefIdentifier_ev net)"

definition safeOptionalText_ev :: "NetLib \<Rightarrow> string \<Rightarrow> string \<Rightarrow> nat \<Rightarrow> string res" where
  "safeOptionalText_ev net = safeTextWith containsProhibitedData (containsURL net)"

definition safeRequiredText_ev :: "NetLib \<Rightarrow> string \<Rightarrow> string \<Rightarrow> nat \<Rightarrow> string res" where
  "safeRequiredText_ev net value field mx = requiredWith (safeOptionalText_ev net value field mx) field"

definition isSafeRelativePathToken :: "string \<Rightarrow> bool" where
  "isSafeRelativePathToken path = (\<not> contains path ''//'' \<and> list_all identByte path)"

definition cleanPath :: "string \<Rightarrow> string" where
  "cleanPath raw = trimSpace (replaceAll backslash ''/'' raw)"

definition unsafeRelativePath :: "NetLib \<Rightarrow> string \<Rightarrow> bool" where
  "unsafeRelativePath net path =
     (length path > 300 \<or> hasPrefix path ''/'' \<or> contains path ''..'' \<or> isAbs path
      \<or> containsProhibitedData path \<or> containsURL net path \<or> rootMarker path
      \<or> looksLikeSourceDump path \<or> \<not> isSafeRelativePathToken path)"

fun safeRelativePaths :: "NetLib \<Rightarrow> string list \<Rightarrow> string list res" where
  "safeRelativePaths net [] = Inr []"
| "safeRelativePaths net (raw # paths) =
     (let path = cleanPath raw
      in if path = [] then safeRelativePaths net paths
         else if unsafeRelativePath net path
         then Inl (ErrInvalidInput ''changed file path is unsafe'')
         else tryE (safeRelativePaths net paths) (\<lambda>out. Inr (path # out)))"

subsection \<open>Enumerations\<close>

definition safeClaimStatus :: "string \<Rightarrow> string res" where
  "safeClaimStatus status =
     (if trimSpace status = [] then Inr ClaimStatusCandidate
      else safeEnum claimStatuses ''claim status'' status)"

definition safeEvidenceKind :: "string \<Rightarrow> string res" where
  "safeEvidenceKind = safeEnum evidenceKinds ''evidence_kind''"

definition safeDecisionState :: "string \<Rightarrow> string res" where
  "safeDecisionState = safeEnum decisionStates ''decision state''"

definition safeActionKind :: "string \<Rightarrow> string res" where
  "safeActionKind = safeEnum actionKinds ''action_kind''"

definition safeOutcomeKind :: "string \<Rightarrow> string res" where
  "safeOutcomeKind = safeEnum outcomeKinds ''outcome_kind''"

definition safeOutcomeStatus :: "string \<Rightarrow> string res" where
  "safeOutcomeStatus = safeEnum outcomeStatuses ''outcome status''"

definition safeOptionalOutcomeStatus :: "string \<Rightarrow> string res" where
  "safeOptionalOutcomeStatus status =
     (if trimSpace status = [] then Inr [] else safeOutcomeStatus (trimSpace status))"

definition safePromotionState :: "string \<Rightarrow> string res" where
  "safePromotionState = safeEnum promotionStates ''promotion state''"

definition safeOptionalPromotionState :: "string \<Rightarrow> string res" where
  "safeOptionalPromotionState state =
     (if trimSpace state = [] then Inr [] else safePromotionState (trimSpace state))"

subsection \<open>Generated identifiers\<close>

text \<open>\<open>newID\<close> is given the 16 bytes that \<open>rand.Read\<close> returned.\<close>

definition idAlphabet :: string where
  "idAlphabet = ''abcdefghijklmnop''"

fun letterEncode :: "8 word list \<Rightarrow> string" where
  "letterEncode [] = []"
| "letterEncode (value # vals) =
     idAlphabet ! unat (drop_bit 4 value) # idAlphabet ! unat (value AND 15) # letterEncode vals"

definition newID_ev :: "string \<Rightarrow> 8 word list \<Rightarrow> string" where
  "newID_ev pre b = pre @ ''_'' @ letterEncode b"

subsection \<open>What the checks amount to\<close>

lemma markers_not_ident: "\<forall>m \<in> set prohibitedMarkers. \<not> list_all identByte m"
  by (simp add: prohibitedMarkers_def identByte_def inCls_def lowerCls_def upperCls_def digitCls_def rng_def)

lemma ident_no_marker: "list_all identByte s \<Longrightarrow> \<not> containsProhibitedMarker s"
  unfolding containsProhibitedMarker_def by (rule identByte_hasMarker [OF _ markers_not_ident])

lemma ident_no_URL: "list_all identByte s \<Longrightarrow> \<not> containsURL net s"
  using identByte_absent [of s "''://''"]
  by (simp add: containsURL_def identByte_def inCls_def lowerCls_def upperCls_def digitCls_def rng_def)

lemma safeIdentifier_ev_Inr [ident_simps]:
  "safeIdentifier_ev v f = Inr r \<longleftrightarrow>
     r = trimSpace v \<and> r \<noteq> [] \<and> length r \<le> 200 \<and> list_all identByte r"
  by (auto simp: safeIdentifier_ev_def ident_simps ident_no_marker identByte_email)

definition refForm :: "string \<Rightarrow> bool" where
  "refForm r \<longleftrightarrow> r \<noteq> [] \<and> length r \<le> 200 \<and> list_all identByte r \<and> \<not> hasPrefix r ''/''
     \<and> \<not> contains r ''..'' \<and> \<not> rootMarker r"

lemma safeRefIdentifier_ev_Inr [ident_simps]:
  "safeRefIdentifier_ev net v f = Inr r \<longleftrightarrow> r = trimSpace v \<and> refForm r"
  by (auto simp: safeRefIdentifier_ev_def safeRefIdentifierWith_Inr ident_no_marker identByte_email
      ident_no_URL refForm_def)

lemma safeOptionalRefIdentifier_ev_Inr [ident_simps]:
  "safeOptionalRefIdentifier_ev net v f = Inr r \<longleftrightarrow> r = trimSpace v \<and> (r = [] \<or> refForm r)"
  by (auto simp: safeOptionalRefIdentifier_ev_def optionalWith_Inr ident_simps isBlank_def refForm_def)

lemma refForm_nonempty: "refForm r \<Longrightarrow> r \<noteq> []"
  by (simp add: refForm_def)

lemma refForm_noNul: "refForm r \<Longrightarrow> CHR 0x00 \<notin> set r"
  by (simp add: refForm_def identByte_noNul)

text \<open>The paths that are kept, in their order.\<close>

lemma safeRelativePaths_Inr:
  "safeRelativePaths net paths = Inr out \<longleftrightarrow>
     out = filter (\<lambda>p. p \<noteq> []) (map cleanPath paths) \<and> list_all (\<lambda>p. \<not> unsafeRelativePath net p) out"
proof (induction paths arbitrary: out)
  case Nil
  show ?case by auto
next
  case (Cons raw paths)
  show ?case
  proof (cases "cleanPath raw = []")
    case True
    with Cons.IH show ?thesis by simp
  next
    case False
    then show ?thesis by (cases out) (auto simp: tryE_Inr Cons.IH Let_def split: if_splits)
  qed
qed

subsection \<open>Generated identifiers are accepted and distinct\<close>

lemma letterEncode_length [simp]: "length (letterEncode b) = 2 * length b"
  by (induction b rule: letterEncode.induct) simp_all

lemma idAlphabet_nth: "i < 16 \<Longrightarrow> idAlphabet ! i \<in> set idAlphabet"
  by (rule nth_mem) (simp add: idAlphabet_def)

lemma nibbles: "unat (drop_bit 4 (w :: 8 word)) < 16" "unat (w AND 15) < 16"
proof -
  have "unat (drop_bit 4 w) = unat w div 16" by (simp add: drop_bit_eq_div unat_div)
  moreover have "unat w < 256" using unsigned_less [of w, where ?'a = nat] by simp
  ultimately show "unat (drop_bit 4 w) < 16" by (simp add: less_mult_imp_div_less)
  have "w AND 15 = take_bit 4 w" by (simp add: take_bit_eq_mask mask_numeral)
  then have "unat (w AND 15) = unat w mod 16" by (simp add: take_bit_eq_mod unat_mod)
  then show "unat (w AND 15) < 16" by simp
qed

lemma letterEncode_set: "set (letterEncode b) \<subseteq> set idAlphabet"
  by (induction b rule: letterEncode.induct) (simp_all add: idAlphabet_nth nibbles)

lemma letterEncode_inj: "letterEncode b = letterEncode b' \<Longrightarrow> b = b'"
proof (induction b arbitrary: b' rule: letterEncode.induct)
  case 1
  then show ?case by (cases b') simp_all
next
  case (2 v vs)
  then obtain w ws where b': "b' = w # ws" by (cases b') simp_all
  have d: "distinct idAlphabet" "length idAlphabet = 16" by (simp_all add: idAlphabet_def)
  from 2(2) b' have "unat (drop_bit 4 v) = unat (drop_bit 4 w)" "unat (v AND 15) = unat (w AND 15)"
    and "letterEncode vs = letterEncode ws"
    using d nibbles by (auto simp: nth_eq_iff_index_eq)
  then have "drop_bit 4 v = drop_bit 4 w" "take_bit 4 v = take_bit 4 w"
    by (simp_all add: word_unat_eq_iff take_bit_eq_mask mask_numeral)
  then have "v = w" by (metis bits_ident)
  with \<open>letterEncode vs = letterEncode ws\<close> 2(1) b' show ?case by simp
qed

lemma newID_inj: "newID_ev pre b = newID_ev pre b' \<Longrightarrow> b = b'"
  by (auto simp: newID_ev_def dest: letterEncode_inj)

lemma alphabet_ident: "c \<in> set idAlphabet \<Longrightarrow> identByte c \<and> c \<noteq> CHR ''/'' \<and> c \<noteq> CHR ''.''"
proof -
  have "list_all (\<lambda>c. identByte c \<and> c \<noteq> CHR ''/'' \<and> c \<noteq> CHR ''.'') idAlphabet"
    by (simp add: idAlphabet_def identByte_def inCls_def lowerCls_def rng_def)
  then show "c \<in> set idAlphabet \<Longrightarrow> identByte c \<and> c \<noteq> CHR ''/'' \<and> c \<noteq> CHR ''.''"
    by (simp add: list_all_iff)
qed

text \<open>The prefixes that the service uses give identifiers that its own checks accept.\<close>

definition idPrefixes :: "string list" where
  "idPrefixes = [''claim'', ''evidence'', ''decision'', ''action'', ''outcome'']"

lemma newID_refForm:
  assumes pre: "pre \<in> set idPrefixes" and b: "length b = 16"
  shows "refForm (newID_ev pre b)"
proof -
  have p: "list_all (\<lambda>c. identByte c \<and> c \<noteq> CHR ''/'' \<and> c \<noteq> CHR ''.'') (pre @ ''_'')"
    and l: "length pre \<le> 8" and ne: "pre \<noteq> []"
    using pre by (auto simp: idPrefixes_def identByte_def inCls_def lowerCls_def rng_def)
  then have all: "list_all (\<lambda>c. identByte c \<and> c \<noteq> CHR ''/'' \<and> c \<noteq> CHR ''.'') (newID_ev pre b)"
    using letterEncode_set [of b] alphabet_ident by (auto simp: newID_ev_def list_all_iff)
  then have "CHR ''/'' \<notin> set (newID_ev pre b)" "CHR ''.'' \<notin> set (newID_ev pre b)"
    and i: "list_all identByte (newID_ev pre b)"
    by (auto simp: list_all_iff)
  then show ?thesis
    using l b no_slash_rootMarker [OF i]
    by (auto simp: refForm_def newID_ev_def dest!: set_mono_sublist set_mono_prefix)
qed

text \<open>Values in the form the checks accept, and the empty value of an optional field.\<close>

lemma refForm_trim [simp]: "refForm r \<Longrightarrow> trimSpace r = r"
  by (simp add: refForm_def ident_trimSpace)

lemma safeRef_ev_refForm [simp]: "refForm r \<Longrightarrow> safeRefIdentifier_ev net r f = Inr r"
  by (simp add: safeRefIdentifier_ev_Inr)

lemma safeOptRef_ev_refForm [simp]:
  "refForm r \<Longrightarrow> safeOptionalRefIdentifier_ev net r f = Inr r"
  "safeOptionalRefIdentifier_ev net [] f = Inr []"
  by (simp_all add: safeOptionalRefIdentifier_ev_Inr)

lemma safeOptIdent_ev_Nil [simp]: "safeOptionalIdentifier_ev [] f = Inr []"
  by (simp add: safeOptionalIdentifier_ev_def optionalWith_def)

lemma tidy_refForm [simp]: "tidyWord s \<Longrightarrow> refForm s"
proof -
  assume s: "tidyWord s"
  then have "CHR ''/'' \<notin> set s" "CHR ''.'' \<notin> set s" "list_all identByte s"
    by (auto simp: tidyWord_def list_all_iff tidyChar_def tidyChar_identByte)
  then show ?thesis
    using s tidy_rootMarker [OF s] by (auto simp: refForm_def tidyWord_def dest!: set_mono_sublist set_mono_prefix)
qed

lemma tidy_ident_ev: "tidyWord s \<Longrightarrow> list_all identByte s"
  by (simp add: tidyWord_def tidy_identBytes)

lemma safeText_ev_tidy [simp]:
  "tidyWord s \<Longrightarrow> 8 \<le> mx \<Longrightarrow> safeOptionalText_ev net s f mx = Inr s"
  "tidyWord s \<Longrightarrow> 8 \<le> mx \<Longrightarrow> safeRequiredText_ev net s f mx = Inr s"
  "safeOptionalText_ev net [] f mx = Inr []"
proof -
  show A: "safeOptionalText_ev net s f mx = Inr s" if "tidyWord s" "8 \<le> mx" for s
    unfolding safeOptionalText_ev_def using that
    by (intro tidy_text) (simp_all add: containsProhibitedData_def ident_no_marker ident_no_URL tidy_ident_ev
        tidy_email tidy_phone)
  then show "tidyWord s \<Longrightarrow> 8 \<le> mx \<Longrightarrow> safeRequiredText_ev net s f mx = Inr s"
    by (simp add: safeRequiredText_ev_def requiredWith_def tidyWord_nonempty)
  show "safeOptionalText_ev net [] f mx = Inr []"
    by (simp add: safeOptionalText_ev_def safeTextWith_def)
qed

end
