(* ===== verification/Evidence_Service.thy ===== *)
theory Evidence_Service
  imports Evidence_Store Evidence_Checks
begin

section \<open>Evidence graph: the service\<close>

text \<open>
  The methods of \<open>internal/projectevidence/service.go\<close>. Every method that writes first checks its
  input against the record it reads, which gives the object to be stored (\<open>build...\<close>), and then
  appends it (\<open>svc...\<close>). The store is locked for each of the two parts and not in between, which
  is why they are separate here. A method takes the time that \<open>svc.now()\<close> returns and the random
  bytes of its identifier.
\<close>

subsection \<open>Searching a record\<close>

definition hasDecision :: "ClaimRecord \<Rightarrow> string \<Rightarrow> bool" where
  "hasDecision rec decisionID = list_ex (\<lambda>d. dcID d = decisionID) (rcDecisions rec)"

definition hasAction :: "ClaimRecord \<Rightarrow> string \<Rightarrow> bool" where
  "hasAction rec actionID = list_ex (\<lambda>a. acID a = actionID) (rcActions rec)"

definition hasArtifactLink :: "ClaimRecord \<Rightarrow> string \<Rightarrow> bool" where
  "hasArtifactLink rec artifactRef = list_ex (\<lambda>l. alArtifactRef l = artifactRef) (rcArtifactLinks rec)"

definition hasPassedOutcomeRef :: "ClaimRecord \<Rightarrow> string \<Rightarrow> bool" where
  "hasPassedOutcomeRef rec outcomeRef =
     list_ex (\<lambda>x. ocOutcomeRef x = outcomeRef \<and> ocStatus x = OutcomeStatusPassed) (rcOutcomes rec)"

definition findDecisionRef :: "ClaimRecord \<Rightarrow> string \<Rightarrow> Decision option" where
  "findDecisionRef rec ref = (if ref = [] then None else find (\<lambda>d. dcDecisionRef d = ref) (rcDecisions rec))"

definition findActionRef :: "ClaimRecord \<Rightarrow> string \<Rightarrow> Action option" where
  "findActionRef rec ref = (if ref = [] then None else find (\<lambda>a. acActionRef a = ref) (rcActions rec))"

definition findOutcomeRef :: "ClaimRecord \<Rightarrow> string \<Rightarrow> Outcome option" where
  "findOutcomeRef rec ref = (if ref = [] then None else find (\<lambda>x. ocOutcomeRef x = ref) (rcOutcomes rec))"

definition hasActionRef :: "ClaimRecord \<Rightarrow> string \<Rightarrow> bool" where
  "hasActionRef rec ref = (findActionRef rec ref \<noteq> None)"

definition hasOutcomeRef :: "ClaimRecord \<Rightarrow> string \<Rightarrow> bool" where
  "hasOutcomeRef rec ref = (findOutcomeRef rec ref \<noteq> None)"

definition outcomeBelongsToDecision :: "ClaimRecord \<Rightarrow> Outcome \<Rightarrow> string \<Rightarrow> bool" where
  "outcomeBelongsToDecision rec outcome decisionID =
     list_ex (\<lambda>a. acID a = ocActionID outcome \<and> acDecisionID a = decisionID) (rcActions rec)"

text \<open>The nested loops of \<open>promotionRunID\<close>, one function per loop.\<close>

fun runOfAction :: "string \<Rightarrow> Action list \<Rightarrow> string option" where
  "runOfAction actionRef [] = None"
| "runOfAction actionRef (action # actions) =
     (if actionRef \<noteq> [] \<and> acActionRef action = actionRef \<and> acRunID action \<noteq> [] then Some (acRunID action)
      else runOfAction actionRef actions)"

fun runOfActionID :: "string \<Rightarrow> Action list \<Rightarrow> string option" where
  "runOfActionID actionID [] = None"
| "runOfActionID actionID (action # actions) =
     (if acID action = actionID \<and> acRunID action \<noteq> [] then Some (acRunID action)
      else runOfActionID actionID actions)"

fun runOfOutcome :: "string \<Rightarrow> Action list \<Rightarrow> Outcome list \<Rightarrow> string option" where
  "runOfOutcome outcomeRef actions [] = None"
| "runOfOutcome outcomeRef actions (outcome # outcomes) =
     (if outcomeRef = [] \<or> ocOutcomeRef outcome \<noteq> outcomeRef then runOfOutcome outcomeRef actions outcomes
      else case runOfActionID (ocActionID outcome) actions of
        Some run \<Rightarrow> Some run | None \<Rightarrow> runOfOutcome outcomeRef actions outcomes)"

fun runOfLink :: "string \<Rightarrow> ArtifactLink list \<Rightarrow> string option" where
  "runOfLink artifactRef [] = None"
| "runOfLink artifactRef (link # links) =
     (if alArtifactRef link = artifactRef \<and> alRunID link \<noteq> [] then Some (alRunID link)
      else runOfLink artifactRef links)"

definition promotionRunID :: "ClaimRecord \<Rightarrow> string \<Rightarrow> string \<Rightarrow> string \<Rightarrow> string \<Rightarrow> string" where
  "promotionRunID rec runID actionRef outcomeRef artifactRef =
     (if runID \<noteq> [] then runID
      else case runOfAction actionRef (rcActions rec) of
        Some run \<Rightarrow> run
      | None \<Rightarrow> (case runOfOutcome outcomeRef (rcActions rec) (rcOutcomes rec) of
          Some run \<Rightarrow> run
        | None \<Rightarrow> (case runOfLink artifactRef (rcArtifactLinks rec) of
            Some run \<Rightarrow> run
          | None \<Rightarrow> cmRunID (rcClaim rec))))"

subsection \<open>Claims\<close>

definition buildClaim :: "NetLib \<Rightarrow> time \<Rightarrow> 8 word list \<Rightarrow> CreateClaimInput \<Rightarrow> Claim res" where
  "buildClaim net now rnd input =
     tryE (safeRefIdentifier_ev net (icProjectID input) ''project_id'') (\<lambda>projectID.
     tryE (safeOptionalRefIdentifier_ev net (icRunID input) ''run_id'') (\<lambda>runID.
     tryE (safeOptionalRefIdentifier_ev net (icTraceID input) ''trace_id'') (\<lambda>traceID.
     tryE (safeRefIdentifier_ev net (icClaimRef input) ''claim_ref'') (\<lambda>claimRef.
     tryE (safeRequiredText_ev net (icSummary input) ''summary'' 500) (\<lambda>summary.
     tryE (safeClaimStatus (icStatus input)) (\<lambda>status.
     Inr \<lparr>cmID = newID_ev ''claim'' rnd, cmProjectID = projectID, cmRunID = runID, cmTraceID = traceID,
        cmClaimRef = claimRef, cmSummary = summary, cmStatus = status, cmCreatedAt = now, cmUpdatedAt = now\<rparr>))))))"

definition svcCreateClaim ::
    "NetLib \<Rightarrow> EvidenceStore \<Rightarrow> time \<Rightarrow> 8 word list \<Rightarrow> CreateClaimInput \<Rightarrow> Claim res \<times> EvidenceStore" where
  "svcCreateClaim net st now rnd input = tryS (buildClaim net now rnd input) st (memCreateClaim st)"

text \<open>\<open>validateClaim\<close>, and \<open>GetClaim\<close>, which returns the record only.\<close>

definition validateClaim ::
    "NetLib \<Rightarrow> EvidenceStore \<Rightarrow> string \<Rightarrow> string \<Rightarrow> (string \<times> string \<times> ClaimRecord) res" where
  "validateClaim net st projectID0 claimID0 =
     tryE (safeRefIdentifier_ev net projectID0 ''project_id'') (\<lambda>projectID.
     tryE (safeRefIdentifier_ev net claimID0 ''claim_id'') (\<lambda>claimID.
     tryE (memGetClaim st projectID claimID) (\<lambda>rec.
     Inr (projectID, claimID, rec))))"

definition svcGetClaim :: "NetLib \<Rightarrow> EvidenceStore \<Rightarrow> string \<Rightarrow> string \<Rightarrow> ClaimRecord res" where
  "svcGetClaim net st projectID0 claimID0 =
     tryE (safeRefIdentifier_ev net projectID0 ''project_id'') (\<lambda>projectID.
     tryE (safeRefIdentifier_ev net claimID0 ''claim_id'') (\<lambda>claimID.
     memGetClaim st projectID claimID))"

definition svcListClaims :: "NetLib \<Rightarrow> EvidenceStore \<Rightarrow> string \<Rightarrow> ClaimFilter \<Rightarrow> Claim list res" where
  "svcListClaims net st projectID0 flt =
     tryE (safeRefIdentifier_ev net projectID0 ''project_id'') (\<lambda>projectID.
     tryE (safeOptionalRefIdentifier_ev net (kfArtifactRef flt) ''artifact_ref'') (\<lambda>artifactRef.
     tryE (safeOptionalPromotionState (kfPromotionState flt)) (\<lambda>state.
     tryE (safeOptionalOutcomeStatus (kfOutcomeStatus flt)) (\<lambda>status.
     tryE (safeOptionalRefIdentifier_ev net (kfRunID flt) ''run_id'') (\<lambda>runID.
     tryE (safeOptionalRefIdentifier_ev net (kfTraceID flt) ''trace_id'') (\<lambda>traceID.
     Inr (memListClaims st projectID \<lparr>kfArtifactRef = artifactRef, kfPromotionState = state,
        kfOutcomeStatus = status, kfRunID = runID, kfTraceID = traceID\<rparr>)))))))"

subsection \<open>Evidence, decisions, actions, outcomes\<close>

definition buildEvidence ::
    "NetLib \<Rightarrow> EvidenceStore \<Rightarrow> time \<Rightarrow> 8 word list \<Rightarrow> AppendEvidenceInput \<Rightarrow> Evidence res" where
  "buildEvidence net st now rnd input =
     tryE (validateClaim net st (ieProjectID input) (ieClaimID input)) (\<lambda>(projectID, claimID, rec).
     tryE (safeRefIdentifier_ev net (ieEvidenceRef input) ''evidence_ref'') (\<lambda>evidenceRef.
     tryE (safeEvidenceKind (ieEvidenceKind input)) (\<lambda>evidenceKind.
     tryE (safeOptionalRefIdentifier_ev net (ieSourceRef input) ''source_ref'') (\<lambda>sourceRef.
     tryE (safeOptionalText_ev net (ieSummary input) ''summary'' 500) (\<lambda>summary.
     Inr \<lparr>evID = newID_ev ''evidence'' rnd, evProjectID = projectID, evClaimID = claimID,
        evEvidenceRef = evidenceRef, evEvidenceKind = evidenceKind, evSourceRef = sourceRef,
        evSummary = summary, evCreatedAt = now\<rparr>)))))"

definition svcAppendEvidence ::
    "NetLib \<Rightarrow> EvidenceStore \<Rightarrow> time \<Rightarrow> 8 word list \<Rightarrow> AppendEvidenceInput \<Rightarrow> Evidence res \<times> EvidenceStore" where
  "svcAppendEvidence net st now rnd input = tryS (buildEvidence net st now rnd input) st (memAppendEvidence st)"

definition buildDecision ::
    "NetLib \<Rightarrow> EvidenceStore \<Rightarrow> time \<Rightarrow> 8 word list \<Rightarrow> CreateDecisionInput \<Rightarrow> Decision res" where
  "buildDecision net st now rnd input =
     tryE (validateClaim net st (idProjectID input) (idClaimID input)) (\<lambda>(projectID, claimID, rec).
     tryE (failIf (rcEvidence rec = []) (ErrInvalidInput ''evidence is required before decisions'')) (\<lambda>_.
     tryE (safeRefIdentifier_ev net (idDecisionRef input) ''decision_ref'') (\<lambda>decisionRef.
     tryE (safeDecisionState (idState input)) (\<lambda>state.
     tryE (safeRefIdentifier_ev net (idVerifierRef input) ''verifier_ref'') (\<lambda>verifierRef.
     tryE (safeRequiredText_ev net (idRationale input) ''rationale'' 500) (\<lambda>rationale.
     Inr \<lparr>dcID = newID_ev ''decision'' rnd, dcProjectID = projectID, dcClaimID = claimID,
        dcDecisionRef = decisionRef, dcState = state, dcVerifierRef = verifierRef,
        dcRationale = rationale, dcDecidedAt = now\<rparr>))))))"

definition svcCreateDecision ::
    "NetLib \<Rightarrow> EvidenceStore \<Rightarrow> time \<Rightarrow> 8 word list \<Rightarrow> CreateDecisionInput \<Rightarrow> Decision res \<times> EvidenceStore" where
  "svcCreateDecision net st now rnd input = tryS (buildDecision net st now rnd input) st (memCreateDecision st)"

definition buildAction ::
    "NetLib \<Rightarrow> EvidenceStore \<Rightarrow> time \<Rightarrow> 8 word list \<Rightarrow> CreateActionInput \<Rightarrow> Action res" where
  "buildAction net st now rnd input =
     tryE (validateClaim net st (iaProjectID input) (iaClaimID input)) (\<lambda>(projectID, claimID, rec).
     tryE (safeRefIdentifier_ev net (iaDecisionID input) ''decision_id'') (\<lambda>decisionID.
     tryE (failIf (\<not> hasDecision rec decisionID)
       (ErrInvalidInput ''decision_id must match an existing decision'')) (\<lambda>_.
     tryE (safeRefIdentifier_ev net (iaActionRef input) ''action_ref'') (\<lambda>actionRef.
     tryE (safeActionKind (iaActionKind input)) (\<lambda>actionKind.
     tryE (safeOptionalText_ev net (iaSummary input) ''summary'' 500) (\<lambda>summary.
     tryE (safeRelativePaths net (iaChangedFiles input)) (\<lambda>changedFiles.
     tryE (safeOptionalRefIdentifier_ev net (iaRunID input) ''run_id'') (\<lambda>runID.
     Inr \<lparr>acID = newID_ev ''action'' rnd, acProjectID = projectID, acClaimID = claimID,
        acDecisionID = decisionID, acActionRef = actionRef, acActionKind = actionKind,
        acSummary = summary, acChangedFiles = changedFiles, acRunID = runID, acCreatedAt = now\<rparr>))))))))"

definition svcCreateAction ::
    "NetLib \<Rightarrow> EvidenceStore \<Rightarrow> time \<Rightarrow> 8 word list \<Rightarrow> CreateActionInput \<Rightarrow> Action res \<times> EvidenceStore" where
  "svcCreateAction net st now rnd input = tryS (buildAction net st now rnd input) st (memCreateAction st)"

definition buildOutcome ::
    "NetLib \<Rightarrow> EvidenceStore \<Rightarrow> time \<Rightarrow> 8 word list \<Rightarrow> CreateOutcomeInput \<Rightarrow> Outcome res" where
  "buildOutcome net st now rnd input =
     tryE (validateClaim net st (ioProjectID input) (ioClaimID input)) (\<lambda>(projectID, claimID, rec).
     tryE (safeRefIdentifier_ev net (ioActionID input) ''action_id'') (\<lambda>actionID.
     tryE (failIf (\<not> hasAction rec actionID)
       (ErrInvalidInput ''action_id must match an existing action'')) (\<lambda>_.
     tryE (safeRefIdentifier_ev net (ioOutcomeRef input) ''outcome_ref'') (\<lambda>outcomeRef.
     tryE (safeOutcomeKind (ioOutcomeKind input)) (\<lambda>outcomeKind.
     tryE (safeOutcomeStatus (ioStatus input)) (\<lambda>status.
     tryE (safeOptionalRefIdentifier_ev net (ioVerifierRef input) ''verifier_ref'') (\<lambda>verifierRef.
     tryE (safeOptionalText_ev net (ioSummary input) ''summary'' 500) (\<lambda>summary.
     Inr \<lparr>ocID = newID_ev ''outcome'' rnd, ocProjectID = projectID, ocClaimID = claimID,
        ocActionID = actionID, ocOutcomeRef = outcomeRef, ocOutcomeKind = outcomeKind,
        ocStatus = status, ocVerifierRef = verifierRef, ocSummary = summary, ocCreatedAt = now\<rparr>))))))))"

definition svcCreateOutcome ::
    "NetLib \<Rightarrow> EvidenceStore \<Rightarrow> time \<Rightarrow> 8 word list \<Rightarrow> CreateOutcomeInput \<Rightarrow> Outcome res \<times> EvidenceStore" where
  "svcCreateOutcome net st now rnd input = tryS (buildOutcome net st now rnd input) st (memCreateOutcome st)"

subsection \<open>Links\<close>

definition buildArtifactLink :: "NetLib \<Rightarrow> EvidenceStore \<Rightarrow> LinkArtifactInput \<Rightarrow> ArtifactLink res" where
  "buildArtifactLink net st input =
     tryE (validateClaim net st (ilProjectID input) (ilClaimID input)) (\<lambda>(projectID, claimID, rec).
     tryE (safeRefIdentifier_ev net (ilArtifactRef input) ''artifact_ref'') (\<lambda>artifactRef.
     tryE (safeOptionalIdentifier_ev (ilArtifactKind input) ''artifact_kind'') (\<lambda>artifactKind.
     tryE (safeOptionalRefIdentifier_ev net (ilRunID input) ''run_id'') (\<lambda>runID.
     Inr \<lparr>alProjectID = projectID, alClaimID = claimID, alArtifactRef = artifactRef,
        alArtifactKind = artifactKind, alRunID = runID\<rparr>))))"

definition svcLinkArtifact ::
    "NetLib \<Rightarrow> EvidenceStore \<Rightarrow> LinkArtifactInput \<Rightarrow> ArtifactLink res \<times> EvidenceStore" where
  "svcLinkArtifact net st input = tryS (buildArtifactLink net st input) st (memLinkArtifact st)"

text \<open>
  The checks of \<open>LinkPromotion\<close> between the references of the link, from the check for
  \<open>verifier_ref\<close> to the check for a passed outcome. A reference that is not found counts as
  the zero value of its type, whose identifiers are empty.
\<close>

definition promotionGuards ::
    "ClaimRecord \<Rightarrow> string \<Rightarrow> string \<Rightarrow> string \<Rightarrow> string \<Rightarrow> string \<Rightarrow> unit res" where
  "promotionGuards rec state verifierRef decisionRef actionRef outcomeRef =
     tryE (failIf (state \<noteq> PromotionStateCandidate \<and> verifierRef = [])
       (ErrInvalidInput ''verifier_ref is required for promotion decisions'')) (\<lambda>_.
     tryE (failIf (state \<noteq> PromotionStateCandidate \<and> decisionRef = [])
       (ErrInvalidInput ''decision_ref is required for promotion decisions'')) (\<lambda>_.
     let decision = findDecisionRef rec decisionRef;
         decisionID = (case decision of None \<Rightarrow> [] | Some d \<Rightarrow> dcID d) in
     tryE (failIf (decisionRef \<noteq> [] \<and> decision = None)
       (ErrInvalidInput ''decision_ref must match an existing decision'')) (\<lambda>_.
     let action = findActionRef rec actionRef;
         actionID = (case action of None \<Rightarrow> [] | Some a \<Rightarrow> acID a);
         actionDecisionID = (case action of None \<Rightarrow> [] | Some a \<Rightarrow> acDecisionID a) in
     tryE (failIf (actionRef \<noteq> [] \<and> action = None)
       (ErrInvalidInput ''action_ref must match an existing action'')) (\<lambda>_.
     tryE (failIf (actionRef \<noteq> [] \<and> decisionRef \<noteq> [] \<and> actionDecisionID \<noteq> decisionID)
       (ErrInvalidInput ''action_ref must belong to decision_ref'')) (\<lambda>_.
     let outcome = findOutcomeRef rec outcomeRef;
         outcomeActionID = (case outcome of None \<Rightarrow> [] | Some x \<Rightarrow> ocActionID x);
         belongs = (case outcome of None \<Rightarrow> False | Some x \<Rightarrow> outcomeBelongsToDecision rec x decisionID) in
     tryE (failIf (outcomeRef \<noteq> [] \<and> outcome = None)
       (ErrInvalidInput ''outcome_ref must match an existing outcome'')) (\<lambda>_.
     tryE (failIf (outcomeRef \<noteq> [] \<and> actionRef \<noteq> [] \<and> outcomeActionID \<noteq> actionID)
       (ErrInvalidInput ''outcome_ref must belong to action_ref'')) (\<lambda>_.
     tryE (failIf (outcomeRef \<noteq> [] \<and> decisionRef \<noteq> [] \<and> actionRef = [] \<and> \<not> belongs)
       (ErrInvalidInput ''outcome_ref must belong to decision_ref'')) (\<lambda>_.
     tryE (failIf (state = PromotionStatePromoted \<and> outcomeRef = [])
       (ErrInvalidInput ''outcome_ref is required for promoted links'')) (\<lambda>_.
     failIf (state = PromotionStatePromoted \<and> \<not> hasPassedOutcomeRef rec outcomeRef)
       (ErrInvalidInput ''passed outcome_ref is required before promoted links''))))))))))"

definition buildPromotionLink ::
    "NetLib \<Rightarrow> EvidenceStore \<Rightarrow> time \<Rightarrow> LinkPromotionInput \<Rightarrow> PromotionLink res" where
  "buildPromotionLink net st now input =
     tryE (validateClaim net st (ipProjectID input) (ipClaimID input)) (\<lambda>(projectID, claimID, rec).
     tryE (safeRefIdentifier_ev net (ipArtifactRef input) ''artifact_ref'') (\<lambda>artifactRef.
     tryE (failIf (\<not> hasArtifactLink rec artifactRef)
       (ErrInvalidInput ''artifact_ref must match an existing artifact link'')) (\<lambda>_.
     tryE (safePromotionState (ipPromotionState input)) (\<lambda>state.
     tryE (safeRefIdentifier_ev net (ipSourceRef input) ''source_ref'') (\<lambda>sourceRef.
     tryE (safeOptionalRefIdentifier_ev net (ipVerifierRef input) ''verifier_ref'') (\<lambda>verifierRef.
     tryE (safeOptionalRefIdentifier_ev net (ipDecisionRef input) ''decision_ref'') (\<lambda>decisionRef.
     tryE (safeOptionalRefIdentifier_ev net (ipRunID input) ''run_id'') (\<lambda>runID.
     tryE (safeOptionalRefIdentifier_ev net (ipActionRef input) ''action_ref'') (\<lambda>actionRef.
     tryE (safeOptionalRefIdentifier_ev net (ipOutcomeRef input) ''outcome_ref'') (\<lambda>outcomeRef.
     tryE (promotionGuards rec state verifierRef decisionRef actionRef outcomeRef) (\<lambda>_.
     Inr \<lparr>plProjectID = projectID, plClaimID = claimID,
        plRunID = promotionRunID rec runID actionRef outcomeRef artifactRef,
        plArtifactRef = artifactRef, plPromotionState = state, plSourceRef = sourceRef,
        plVerifierRef = verifierRef, plDecisionRef = decisionRef, plActionRef = actionRef,
        plOutcomeRef = outcomeRef, plDecidedAt = now\<rparr>)))))))))))"

definition svcLinkPromotion ::
    "NetLib \<Rightarrow> EvidenceStore \<Rightarrow> time \<Rightarrow> LinkPromotionInput \<Rightarrow> PromotionLink res \<times> EvidenceStore" where
  "svcLinkPromotion net st now input = tryS (buildPromotionLink net st now input) st (memLinkPromotion st)"

end
