(* ===== verification/Evidence_Reachable.thy ===== *)
theory Evidence_Reachable
  imports Evidence_Service
begin

section \<open>Evidence graph: what the records satisfy\<close>

text \<open>
  The calls of concurrent clients interleave: between the checks of a call and its write other
  calls may write. A state is the store with the writes that have been checked and not yet
  done. The claims of a record hold in all these states, because records only grow.
\<close>

subsection \<open>Growing records\<close>

definition recExt :: "ClaimRecord \<Rightarrow> ClaimRecord \<Rightarrow> bool" where
  "recExt r r' \<longleftrightarrow> rcClaim r' = rcClaim r \<and> prefix (rcEvidence r) (rcEvidence r')
     \<and> prefix (rcDecisions r) (rcDecisions r') \<and> prefix (rcActions r) (rcActions r')
     \<and> prefix (rcOutcomes r) (rcOutcomes r') \<and> prefix (rcArtifactLinks r) (rcArtifactLinks r')
     \<and> prefix (rcPromotionLinks r) (rcPromotionLinks r')"

definition itemsOf :: "ClaimRecord \<Rightarrow> evidence_write set" where
  "itemsOf r = WriteEvidence ` set (rcEvidence r) \<union> WriteDecision ` set (rcDecisions r)
     \<union> WriteAction ` set (rcActions r) \<union> WriteOutcome ` set (rcOutcomes r)
     \<union> WriteArtifact ` set (rcArtifactLinks r) \<union> WritePromotion ` set (rcPromotionLinks r)"

subsection \<open>What is checked of an item\<close>

definition ownedBy :: "ClaimRecord \<Rightarrow> string \<Rightarrow> string \<Rightarrow> bool" where
  "ownedBy r p c \<longleftrightarrow> claimKey p c = recordKey r"

definition pathForm :: "string \<Rightarrow> bool" where
  "pathForm p \<longleftrightarrow> p \<noteq> [] \<and> length p \<le> 300 \<and> \<not> hasPrefix p ''/'' \<and> \<not> contains p ''..''
     \<and> \<not> contains p ''//'' \<and> list_all identByte p \<and> \<not> rootMarker p"

text \<open>
  The references of a promotion link lead to objects of the record, and those it names
  together belong together. A link that is more than a candidate has a verifier and a
  decision; a promoted one an outcome reference that some passed outcome has.
\<close>

definition promotionSound :: "ClaimRecord \<Rightarrow> PromotionLink \<Rightarrow> bool" where
  "promotionSound r p \<longleftrightarrow>
     (\<exists>l \<in> set (rcArtifactLinks r). alArtifactRef l = plArtifactRef p)
     \<and> plPromotionState p \<in> set promotionStates
     \<and> (plPromotionState p \<noteq> PromotionStateCandidate \<longrightarrow> plVerifierRef p \<noteq> [] \<and> plDecisionRef p \<noteq> [])
     \<and> (plDecisionRef p \<noteq> [] \<longrightarrow> (\<exists>d \<in> set (rcDecisions r). dcDecisionRef d = plDecisionRef p))
     \<and> (plActionRef p \<noteq> [] \<longrightarrow> (\<exists>a \<in> set (rcActions r). acActionRef a = plActionRef p))
     \<and> (plOutcomeRef p \<noteq> [] \<longrightarrow> (\<exists>x \<in> set (rcOutcomes r). ocOutcomeRef x = plOutcomeRef p))
     \<and> (plDecisionRef p \<noteq> [] \<and> plOutcomeRef p \<noteq> [] \<longrightarrow>
          (\<exists>d \<in> set (rcDecisions r). \<exists>a \<in> set (rcActions r). \<exists>x \<in> set (rcOutcomes r).
             dcDecisionRef d = plDecisionRef p \<and> acDecisionID a = dcID d \<and> ocActionID x = acID a
             \<and> ocOutcomeRef x = plOutcomeRef p \<and> (plActionRef p \<noteq> [] \<longrightarrow> acActionRef a = plActionRef p)))
     \<and> (plPromotionState p = PromotionStatePromoted \<longrightarrow> plOutcomeRef p \<noteq> []
          \<and> (\<exists>x \<in> set (rcOutcomes r). ocOutcomeRef x = plOutcomeRef p \<and> ocStatus x = OutcomeStatusPassed))"

fun itemOK :: "ClaimRecord \<Rightarrow> evidence_write \<Rightarrow> bool" where
  "itemOK r (WriteClaim x) = True"
| "itemOK r (WriteEvidence x) = (ownedBy r (evProjectID x) (evClaimID x) \<and> evEvidenceKind x \<in> set evidenceKinds)"
| "itemOK r (WriteDecision x) =
     (ownedBy r (dcProjectID x) (dcClaimID x) \<and> rcEvidence r \<noteq> [] \<and> dcState x \<in> set decisionStates
      \<and> dcVerifierRef x \<noteq> [])"
| "itemOK r (WriteAction x) =
     (ownedBy r (acProjectID x) (acClaimID x) \<and> acActionKind x \<in> set actionKinds
      \<and> (\<exists>d \<in> set (rcDecisions r). dcID d = acDecisionID x) \<and> list_all pathForm (acChangedFiles x))"
| "itemOK r (WriteOutcome x) =
     (ownedBy r (ocProjectID x) (ocClaimID x) \<and> ocOutcomeKind x \<in> set outcomeKinds
      \<and> ocStatus x \<in> set outcomeStatuses \<and> (\<exists>a \<in> set (rcActions r). acID a = ocActionID x))"
| "itemOK r (WriteArtifact x) = (ownedBy r (alProjectID x) (alClaimID x) \<and> alArtifactRef x \<noteq> [])"
| "itemOK r (WritePromotion x) = (ownedBy r (plProjectID x) (plClaimID x) \<and> promotionSound r x)"

lemma recExt_sets:
  assumes "recExt r r'"
  shows "set (rcEvidence r) \<subseteq> set (rcEvidence r')" "set (rcDecisions r) \<subseteq> set (rcDecisions r')"
    "set (rcActions r) \<subseteq> set (rcActions r')" "set (rcOutcomes r) \<subseteq> set (rcOutcomes r')"
    "set (rcArtifactLinks r) \<subseteq> set (rcArtifactLinks r')" "recordKey r' = recordKey r"
  using assms by (auto simp: recExt_def recordKey_def dest!: set_mono_prefix)

lemma promotionSound_mono: "recExt r r' \<Longrightarrow> promotionSound r p \<Longrightarrow> promotionSound r' p"
  unfolding promotionSound_def using recExt_sets [of r r'] by (elim conjE) (intro conjI; blast)

lemma itemOK_mono: "recExt r r' \<Longrightarrow> itemOK r w \<Longrightarrow> itemOK r' w"
proof (cases w)
  case (WritePromotion p)
  then show "recExt r r' \<Longrightarrow> itemOK r w \<Longrightarrow> itemOK r' w"
    using promotionSound_mono recExt_sets(6) by (simp add: ownedBy_def)
next
  case (WriteDecision d)
  then show "recExt r r' \<Longrightarrow> itemOK r w \<Longrightarrow> itemOK r' w"
    using recExt_sets(1,6) [of r r'] by (cases "rcEvidence r") (auto simp: ownedBy_def)
qed (use recExt_sets [of r r'] in \<open>auto simp: ownedBy_def\<close>)

interpretation grow: growing_record recExt addTo itemsOf itemOK
proof unfold_locales
  show "recExt r (addTo r i)" for r i by (cases i) (simp_all add: recExt_def)
  show "itemsOf (addTo r i) \<subseteq> insert i (itemsOf r)" for r i by (cases i) (auto simp: itemsOf_def)
qed (auto simp: recExt_def intro: itemOK_mono prefix_order.trans)

definition recordSound :: "ClaimRecord \<Rightarrow> bool" where
  "recordSound r \<longleftrightarrow> (\<forall>w \<in> itemsOf r. itemOK r w)"

lemma recordSound_new: "recordSound (newRecord claim)"
  by (simp add: recordSound_def itemsOf_def newRecord_def)

lemma recordSound_add: "recordSound r \<Longrightarrow> itemOK r w \<Longrightarrow> recordSound (addTo r w)"
  unfolding recordSound_def by (rule grow.all_ok_add)

lemma recordSound_items:
  "recordSound r \<longleftrightarrow> (\<forall>x \<in> set (rcEvidence r). itemOK r (WriteEvidence x))
     \<and> (\<forall>x \<in> set (rcDecisions r). itemOK r (WriteDecision x))
     \<and> (\<forall>x \<in> set (rcActions r). itemOK r (WriteAction x))
     \<and> (\<forall>x \<in> set (rcOutcomes r). itemOK r (WriteOutcome x))
     \<and> (\<forall>x \<in> set (rcArtifactLinks r). itemOK r (WriteArtifact x))
     \<and> (\<forall>x \<in> set (rcPromotionLinks r). itemOK r (WritePromotion x))"
  by (simp add: recordSound_def itemsOf_def ball_Un)

section \<open>Evidence graph: interleaved calls\<close>

subsection \<open>What the checks of a call establish\<close>

lemma find_Some_in: "find P xs = Some x \<Longrightarrow> x \<in> set xs \<and> P x"
  by (auto simp: find_Some_iff)

lemma find_refs:
  "findDecisionRef r ref = Some d \<Longrightarrow> d \<in> set (rcDecisions r) \<and> dcDecisionRef d = ref"
  "findActionRef r ref = Some a \<Longrightarrow> a \<in> set (rcActions r) \<and> acActionRef a = ref"
  "findOutcomeRef r ref = Some x \<Longrightarrow> x \<in> set (rcOutcomes r) \<and> ocOutcomeRef x = ref"
  by (auto simp: findDecisionRef_def findActionRef_def findOutcomeRef_def dest: find_Some_in split: if_splits)

lemma promotionGuards_Inr:
  assumes "promotionGuards r state v dr ar oref = Inr u"
  shows "state \<noteq> PromotionStateCandidate \<longrightarrow> v \<noteq> [] \<and> dr \<noteq> []"
    and "dr \<noteq> [] \<longrightarrow> (\<exists>d. findDecisionRef r dr = Some d)"
    and "ar \<noteq> [] \<longrightarrow> (\<exists>a. findActionRef r ar = Some a)"
    and "oref \<noteq> [] \<longrightarrow> (\<exists>x. findOutcomeRef r oref = Some x)"
    and "findDecisionRef r dr = Some d \<Longrightarrow> findActionRef r ar = Some a \<Longrightarrow> dr \<noteq> [] \<Longrightarrow> ar \<noteq> [] \<Longrightarrow> acDecisionID a = dcID d"
    and "findActionRef r ar = Some a \<Longrightarrow> findOutcomeRef r oref = Some x \<Longrightarrow> ar \<noteq> [] \<Longrightarrow> oref \<noteq> [] \<Longrightarrow> ocActionID x = acID a"
    and "findDecisionRef r dr = Some d \<Longrightarrow> findOutcomeRef r oref = Some x \<Longrightarrow> dr \<noteq> [] \<Longrightarrow> ar = [] \<Longrightarrow> oref \<noteq> []
       \<Longrightarrow> outcomeBelongsToDecision r x (dcID d)"
    and "state = PromotionStatePromoted \<longrightarrow> oref \<noteq> [] \<and> hasPassedOutcomeRef r oref"
  using assms by (auto simp: promotionGuards_def Let_def res_simps)

lemma promotionGuards_sound:
  assumes g: "promotionGuards r (plPromotionState p) (plVerifierRef p) (plDecisionRef p) (plActionRef p) (plOutcomeRef p) = Inr u"
    and l: "hasArtifactLink r (plArtifactRef p)" and s: "plPromotionState p \<in> set promotionStates"
  shows "promotionSound r p"
  unfolding promotionSound_def
proof (intro conjI impI)
  note G = promotionGuards_Inr [OF g]
  show "\<exists>l \<in> set (rcArtifactLinks r). alArtifactRef l = plArtifactRef p"
    using l by (auto simp: hasArtifactLink_def list_ex_iff)
  show "plPromotionState p \<in> set promotionStates" by (rule s)
  show "plVerifierRef p \<noteq> []" "plDecisionRef p \<noteq> []" if "plPromotionState p \<noteq> PromotionStateCandidate"
    using G(1) that by simp_all
  show "\<exists>d \<in> set (rcDecisions r). dcDecisionRef d = plDecisionRef p" if "plDecisionRef p \<noteq> []"
    using G(2) that find_refs(1) by blast
  show "\<exists>a \<in> set (rcActions r). acActionRef a = plActionRef p" if "plActionRef p \<noteq> []"
    using G(3) that find_refs(2) by blast
  show "\<exists>x \<in> set (rcOutcomes r). ocOutcomeRef x = plOutcomeRef p" if "plOutcomeRef p \<noteq> []"
    using G(4) that find_refs(3) by blast
  show "plOutcomeRef p \<noteq> []" if "plPromotionState p = PromotionStatePromoted"
    using G(8) that by simp
  show "\<exists>x \<in> set (rcOutcomes r). ocOutcomeRef x = plOutcomeRef p \<and> ocStatus x = OutcomeStatusPassed"
    if "plPromotionState p = PromotionStatePromoted"
    using G(8) that by (auto simp: hasPassedOutcomeRef_def list_ex_iff)
  show "\<exists>d \<in> set (rcDecisions r). \<exists>a \<in> set (rcActions r). \<exists>x \<in> set (rcOutcomes r).
             dcDecisionRef d = plDecisionRef p \<and> acDecisionID a = dcID d \<and> ocActionID x = acID a
             \<and> ocOutcomeRef x = plOutcomeRef p \<and> (plActionRef p \<noteq> [] \<longrightarrow> acActionRef a = plActionRef p)"
    if ne: "plDecisionRef p \<noteq> [] \<and> plOutcomeRef p \<noteq> []"
  proof -
    obtain d where d: "findDecisionRef r (plDecisionRef p) = Some d" using G(2) ne by blast
    obtain x where x: "findOutcomeRef r (plOutcomeRef p) = Some x" using G(4) ne by blast
    show ?thesis
    proof (cases "plActionRef p = []")
      case True
      with G(7) [OF d x] ne obtain a where "a \<in> set (rcActions r)" "acID a = ocActionID x" "acDecisionID a = dcID d"
        by (auto simp: outcomeBelongsToDecision_def list_ex_iff)
      with True find_refs(1) [OF d] find_refs(3) [OF x] show ?thesis by metis
    next
      case False
      then obtain a where a: "findActionRef r (plActionRef p) = Some a" using G(3) by blast
      have "acDecisionID a = dcID d" "ocActionID x = acID a"
        using G(5) [OF d a] G(6) [OF a x] ne False by simp_all
      with find_refs(1) [OF d] find_refs(2) [OF a] find_refs(3) [OF x] show ?thesis by metis
    qed
  qed
qed

lemma validateClaim_Inr:
  "validateClaim net st p0 c0 = Inr (p, c, r) \<Longrightarrow> getRecord st (claimKey p c) = Some r"
  by (auto simp: validateClaim_def res_simps memGetClaim_Inr)

lemma safe_path_form: "\<not> unsafeRelativePath net p \<Longrightarrow> p \<noteq> [] \<Longrightarrow> pathForm p"
  by (simp add: unsafeRelativePath_def pathForm_def isSafeRelativePathToken_def)

lemma safeRelativePaths_form: "safeRelativePaths net ps = Inr out \<Longrightarrow> list_all pathForm out"
  by (auto simp: safeRelativePaths_Inr list_all_iff intro: safe_path_form)

lemma enum_Inr:
  "safeEvidenceKind v = Inr s \<Longrightarrow> s \<in> set evidenceKinds"
  "safeDecisionState v = Inr s \<Longrightarrow> s \<in> set decisionStates"
  "safeActionKind v = Inr s \<Longrightarrow> s \<in> set actionKinds"
  "safeOutcomeKind v = Inr s \<Longrightarrow> s \<in> set outcomeKinds"
  "safeOutcomeStatus v = Inr s \<Longrightarrow> s \<in> set outcomeStatuses"
  "safePromotionState v = Inr s \<Longrightarrow> s \<in> set promotionStates"
  "safeClaimStatus v = Inr s \<Longrightarrow> s \<in> set claimStatuses"
  by (auto simp: safeEvidenceKind_def safeDecisionState_def safeActionKind_def safeOutcomeKind_def
      safeOutcomeStatus_def safePromotionState_def safeClaimStatus_def claimStatuses_def ident_simps
      split: if_splits)

subsection \<open>Steps\<close>

text \<open>The writes that some call has checked against a store.\<close>

inductive built :: "NetLib \<Rightarrow> EvidenceStore \<Rightarrow> evidence_write \<Rightarrow> bool" for net st where
  claim: "buildClaim net now rnd i1 = Inr x1 \<Longrightarrow> built net st (WriteClaim x1)"
| evidence: "buildEvidence net st now rnd i2 = Inr x2 \<Longrightarrow> built net st (WriteEvidence x2)"
| decision: "buildDecision net st now rnd i3 = Inr x3 \<Longrightarrow> built net st (WriteDecision x3)"
| action: "buildAction net st now rnd i4 = Inr x4 \<Longrightarrow> built net st (WriteAction x4)"
| outcome: "buildOutcome net st now rnd i5 = Inr x5 \<Longrightarrow> built net st (WriteOutcome x5)"
| artifact: "buildArtifactLink net st i6 = Inr x6 \<Longrightarrow> built net st (WriteArtifact x6)"
| promotion: "buildPromotionLink net st now i7 = Inr x7 \<Longrightarrow> built net st (WritePromotion x7)"

inductive_simps built_simps:
  "built net st (WriteClaim x)" "built net st (WriteEvidence x)" "built net st (WriteDecision x)"
  "built net st (WriteAction x)" "built net st (WriteOutcome x)" "built net st (WriteArtifact x)"
  "built net st (WritePromotion x)"

text \<open>
  A state is a store and the writes that are checked and not yet done. A claim starts a record,
  so its write needs an identifier that no record has; identifiers are 128 random bits.
\<close>

type_synonym evidence_state = "EvidenceStore \<times> evidence_write list"

inductive evidenceStep :: "NetLib \<Rightarrow> evidence_state \<Rightarrow> evidence_state \<Rightarrow> bool" for net where
  check: "built net st w \<Longrightarrow> evidenceStep net (st, ws) (st, w # ws)"
| commit: "w \<in> set ws \<Longrightarrow> memWrite st w = (r, st') \<Longrightarrow> (isClaim w \<longrightarrow> getRecord st (writeKey w) = None)
     \<Longrightarrow> evidenceStep net (st, ws) (st', remove1 w ws)"

inductive evidenceReachable :: "NetLib \<Rightarrow> evidence_state \<Rightarrow> bool" for net where
  init: "evidenceReachable net (newEvidenceStore, [])"
| step: "evidenceReachable net s \<Longrightarrow> evidenceStep net s s' \<Longrightarrow> evidenceReachable net s'"

inductive_cases evidenceStepE: "evidenceStep net (st, ws) (st', ws')"

lemma evidenceStep_cases:
  assumes "evidenceStep net (st, ws) (st', ws')"
  obtains (check) w where "built net st w" "st' = st" "ws' = w # ws"
  | (commit) w r where "w \<in> set ws" "ws' = remove1 w ws" "memWrite st w = (r, st')"
      "isClaim w \<longrightarrow> getRecord st (writeKey w) = None"
  using assms by (elim evidenceStepE) (use that in blast)+

subsection \<open>The invariant\<close>

definition evidenceInv :: "evidence_state \<Rightarrow> bool" where
  "evidenceInv s \<longleftrightarrow> keyed getRecord recordKey (fst s) \<and> twf (esRecords (fst s))
     \<and> allVals getRecord recordSound (fst s)
     \<and> (\<forall>w \<in> set (snd s). isClaim w \<or> (\<exists>r. getRecord (fst s) (writeKey w) = Some r \<and> itemOK r w))"

lemma built_itemOK:
  assumes "built net st w" and "\<not> isClaim w" and k: "keyed getRecord recordKey st"
  shows "\<exists>r. getRecord st (writeKey w) = Some r \<and> itemOK r w"
proof -
  have own: "ownedBy r p c" if "getRecord st (claimKey p c) = Some r" for r p c
    using keyedD [OF k that] by (simp add: ownedBy_def)
  from assms(1) show ?thesis
  proof cases
    case (evidence now rnd i x)
    then show ?thesis
      by (auto simp: buildEvidence_def res_simps dest!: validateClaim_Inr intro: own enum_Inr)
  next
    case (decision now rnd i x)
    then show ?thesis
      by (auto simp: buildDecision_def res_simps ident_simps refForm_nonempty
          dest!: validateClaim_Inr intro: own enum_Inr)
  next
    case (action now rnd i x)
    then show ?thesis
      by (auto simp: buildAction_def res_simps hasDecision_def list_ex_iff
          dest!: validateClaim_Inr intro: own enum_Inr safeRelativePaths_form)
  next
    case (outcome now rnd i x)
    then show ?thesis
      by (auto simp: buildOutcome_def res_simps hasAction_def list_ex_iff
          dest!: validateClaim_Inr intro: own enum_Inr)
  next
    case (artifact i x)
    then show ?thesis
      by (auto simp: buildArtifactLink_def res_simps ident_simps refForm_nonempty
          dest!: validateClaim_Inr intro: own)
  next
    case (promotion now i x)
    then obtain r where r: "getRecord st (claimKey (plProjectID x) (plClaimID x)) = Some r"
      and "hasArtifactLink r (plArtifactRef x)" "plPromotionState x \<in> set promotionStates"
      and "promotionGuards r (plPromotionState x) (plVerifierRef x) (plDecisionRef x) (plActionRef x) (plOutcomeRef x) = Inr ()"
      by (auto simp: buildPromotionLink_def res_simps dest!: validateClaim_Inr dest: enum_Inr(6))
    with promotionGuards_sound promotion(1) own [OF r] show ?thesis by auto
  qed (use assms(2) in \<open>simp add: isClaim_def\<close>)
qed

lemma memWrite_twf: "memWrite st w = (r, st') \<Longrightarrow> twf (esRecords st) \<Longrightarrow> twf (esRecords st')"
  by (cases w) (auto simp: memCreateClaim_def memAppendEvidence_def memCreateDecision_def
      memCreateAction_def memCreateOutcome_def memLinkArtifact_def memLinkPromotion_def Let_def
      setRecord_def twf_tput split: option.splits)

text \<open>A committed write extends the records that are there.\<close>

lemma commit_ext:
  assumes "memWrite st w = (r, st')" and "isClaim w \<longrightarrow> getRecord st (writeKey w) = None"
    and "getRecord st k = Some rec"
  shows "\<exists>rec'. getRecord st' k = Some rec' \<and> recExt rec rec'"
  using assms(1)
proof (cases rule: memWrite_cases)
  case missing
  with assms(3) grow.ext_refl show ?thesis by auto
next
  case (made claim)
  with assms(2,3) grow.ext_refl show ?thesis by (auto simp: isClaim_def)
next
  case (appended r0)
  with assms(3) grow.ext_refl grow.ext_add show ?thesis by auto
qed

lemma recordKey_new [simp]: "recordKey (newRecord claim) = claimKey (cmProjectID claim) (cmID claim)"
  by (simp add: recordKey_def newRecord_def)

lemma recordKey_addTo [simp]: "recordKey (addTo r w) = recordKey r"
  by (cases w) (simp_all add: recordKey_def)

lemma commit_records:
  assumes "memWrite st w = (r, st')" and k: "keyed getRecord recordKey st"
    and s: "allVals getRecord recordSound st"
    and ok: "isClaim w \<or> (\<exists>rec. getRecord st (writeKey w) = Some rec \<and> itemOK rec w)"
  shows "keyed getRecord recordKey st' \<and> allVals getRecord recordSound st'"
  using assms(1)
proof (cases rule: memWrite_cases)
  case missing
  with k s show ?thesis by simp
next
  case (made claim)
  with k s recordSound_new show ?thesis by (auto simp: keyed_def allVals_def)
next
  case (appended rec)
  have "recordKey rec = writeKey w" using keyedD [OF k appended(2)] .
  moreover have "recordSound (addTo rec w)"
    using recordSound_add [OF allValsD [OF s appended(2)]] ok appended(1,2) by simp
  ultimately show ?thesis using k s appended(4) by (auto simp: keyed_def allVals_def)
qed

lemma evidenceInv_init: "evidenceInv (newEvidenceStore, [])"
  by (simp add: evidenceInv_def newEvidenceStore_def keyed_def allVals_def getRecord_def)

lemma evidenceInv_step:
  assumes "evidenceStep net (st, ws) (st', ws')" and inv: "evidenceInv (st, ws)"
  shows "evidenceInv (st', ws')"
  using assms(1)
proof (cases rule: evidenceStep_cases)
  case (check w)
  with inv built_itemOK show ?thesis by (auto simp: evidenceInv_def)
next
  case (commit w r)
  have "isClaim v \<or> (\<exists>rec. getRecord st' (writeKey v) = Some rec \<and> itemOK rec v)" if "v \<in> set ws'" for v
  proof -
    have "v \<in> set ws" using that commit(1,2) set_remove1_subset by force
    with inv have "isClaim v \<or> (\<exists>rec. getRecord st (writeKey v) = Some rec \<and> itemOK rec v)"
      by (simp add: evidenceInv_def)
    then show ?thesis using commit_ext [OF commit(3,4)] itemOK_mono by blast
  qed
  moreover have "keyed getRecord recordKey st' \<and> allVals getRecord recordSound st'"
    using inv commit(1) by (intro commit_records [OF commit(3)]) (simp_all add: evidenceInv_def)
  moreover have "twf (esRecords st')"
    using memWrite_twf [OF commit(3)] inv by (simp add: evidenceInv_def)
  ultimately show ?thesis by (simp add: evidenceInv_def)
qed

lemma reachable_evidenceInv: "evidenceReachable net s \<Longrightarrow> evidenceInv s"
proof (induction rule: evidenceReachable.induct)
  case (step s s')
  then show ?case using evidenceInv_step by (cases s, cases s') blast
qed (rule evidenceInv_init)

lemma step_ext:
  assumes "evidenceStep net (st, ws) (st', ws')" and "getRecord st k = Some rec"
  shows "\<exists>rec'. getRecord st' k = Some rec' \<and> recExt rec rec'"
  using assms(1)
proof (cases rule: evidenceStep_cases)
  case (check w)
  with assms(2) grow.ext_refl show ?thesis by auto
next
  case (commit w r)
  then show ?thesis using commit_ext [OF commit(3,4) assms(2)] by simp
qed

subsection \<open>Whole calls\<close>

text \<open>
  A call that no other call interrupts: its check and its write. A new claim has an identifier
  that no record has.
\<close>

inductive evidenceCall :: "NetLib \<Rightarrow> EvidenceStore \<Rightarrow> EvidenceStore \<Rightarrow> bool" for net st where
  claim: "svcCreateClaim net st now rnd i1 = (r1, st') \<Longrightarrow>
      (\<forall>c. r1 = Inr c \<longrightarrow> getRecord st (claimKey (cmProjectID c) (cmID c)) = None) \<Longrightarrow> evidenceCall net st st'"
| evidence: "svcAppendEvidence net st now rnd i2 = (r2, st') \<Longrightarrow> evidenceCall net st st'"
| decision: "svcCreateDecision net st now rnd i3 = (r3, st') \<Longrightarrow> evidenceCall net st st'"
| action: "svcCreateAction net st now rnd i4 = (r4, st') \<Longrightarrow> evidenceCall net st st'"
| outcome: "svcCreateOutcome net st now rnd i5 = (r5, st') \<Longrightarrow> evidenceCall net st st'"
| artifact: "svcLinkArtifact net st i6 = (r6, st') \<Longrightarrow> evidenceCall net st st'"
| promotion: "svcLinkPromotion net st now i7 = (r7, st') \<Longrightarrow> evidenceCall net st st'"

lemma call_write:
  assumes "evidenceCall net st st'"
  shows "st' = st \<or> (\<exists>w r. built net st w \<and> memWrite st w = (r, st')
     \<and> (isClaim w \<longrightarrow> getRecord st (writeKey w) = None))"
  using assms
proof cases
  case (claim now rnd i r)
  then show ?thesis unfolding svcCreateClaim_def
    by (elim tryS_E) (auto intro!: exI [of _ "WriteClaim _"] built.claim simp: memCreateClaim_def Let_def)
next
  case (evidence now rnd i r)
  then show ?thesis unfolding svcAppendEvidence_def
    by (elim tryS_E) (auto intro!: exI [of _ "WriteEvidence _"] built.evidence simp: isClaim_def)
next
  case (decision now rnd i r)
  then show ?thesis unfolding svcCreateDecision_def
    by (elim tryS_E) (auto intro!: exI [of _ "WriteDecision _"] built.decision simp: isClaim_def)
next
  case (action now rnd i r)
  then show ?thesis unfolding svcCreateAction_def
    by (elim tryS_E) (auto intro!: exI [of _ "WriteAction _"] built.action simp: isClaim_def)
next
  case (outcome now rnd i r)
  then show ?thesis unfolding svcCreateOutcome_def
    by (elim tryS_E) (auto intro!: exI [of _ "WriteOutcome _"] built.outcome simp: isClaim_def)
next
  case (artifact i r)
  then show ?thesis unfolding svcLinkArtifact_def
    by (elim tryS_E) (auto intro!: exI [of _ "WriteArtifact _"] built.artifact simp: isClaim_def)
next
  case (promotion now i r)
  then show ?thesis unfolding svcLinkPromotion_def
    by (elim tryS_E) (auto intro!: exI [of _ "WritePromotion _"] built.promotion simp: isClaim_def)
qed

text \<open>A whole call is a check followed at once by its commit.\<close>

lemma call_steps:
  assumes "evidenceCall net st st'"
  shows "(evidenceStep net)\<^sup>*\<^sup>* (st, ws) (st', ws)"
proof (cases "st' = st")
  case False
  with call_write [OF assms] obtain w r where b: "built net st w" and m: "memWrite st w = (r, st')"
    and f: "isClaim w \<longrightarrow> getRecord st (writeKey w) = None"
    by blast
  have "evidenceStep net (st, ws) (st, w # ws)" by (rule evidenceStep.check [OF b])
  moreover have "evidenceStep net (st, w # ws) (st', ws)"
    using evidenceStep.commit [OF _ m f, of "w # ws"] by simp
  ultimately show ?thesis by (meson converse_rtranclp_into_rtranclp rtranclp.rtrancl_refl)
qed simp

lemma reachable_steps: "(evidenceStep net)\<^sup>*\<^sup>* s s' \<Longrightarrow> evidenceReachable net s \<Longrightarrow> evidenceReachable net s'"
  by (induction rule: rtranclp_induct) (auto intro: evidenceReachable.step)

lemma call_reachable:
  "evidenceCall net st st' \<Longrightarrow> evidenceReachable net (st, ws) \<Longrightarrow> evidenceReachable net (st', ws)"
  using reachable_steps call_steps by blast

end
