(* ===== verification/Evidence_Demo.thy ===== *)
theory Evidence_Demo
  imports Evidence_Reachable
begin

section \<open>Evidence graph: a concrete record\<close>

text \<open>
  A record that grows from a claim to a promoted artifact, by calls of the service. The
  random bytes of an identifier are sixteen equal bytes.
\<close>

definition demoNet :: NetLib where
  "demoNet = \<lparr>nlHost = (\<lambda>v. None), nlLoopback = (\<lambda>h. False)\<rparr>"

definition demoBytes :: "8 word \<Rightarrow> 8 word list" where
  "demoBytes n = replicate 16 n"

definition demoEvID :: "string \<Rightarrow> 8 word \<Rightarrow> string" where
  "demoEvID pre n = newID_ev pre (demoBytes n)"

lemma demoEvID_form [simp]: "pre \<in> set idPrefixes \<Longrightarrow> refForm (demoEvID pre n)"
  by (simp add: demoEvID_def demoBytes_def newID_refForm)

lemma demoEvID_inj [simp]: "demoEvID pre n = demoEvID pre m \<longleftrightarrow> n = m"
  by (auto simp: demoEvID_def demoBytes_def dest: newID_inj)

lemma newID_demo [simp]: "newID_ev pre (demoBytes n) = demoEvID pre n"
  by (simp add: demoEvID_def)

definition demoClaim :: Claim where
  "demoClaim = \<lparr>cmID = demoEvID ''claim'' 1, cmProjectID = ''m1'', cmRunID = [], cmTraceID = [],
     cmClaimRef = ''c1'', cmSummary = ''s1'', cmStatus = ''candidate'', cmCreatedAt = 1, cmUpdatedAt = 1\<rparr>"

definition demoEvidence :: Evidence where
  "demoEvidence = \<lparr>evID = demoEvID ''evidence'' 1, evProjectID = ''m1'', evClaimID = demoEvID ''claim'' 1,
     evEvidenceRef = ''e1'', evEvidenceKind = ''file'', evSourceRef = [], evSummary = [], evCreatedAt = 2\<rparr>"

definition demoDecision :: "8 word \<Rightarrow> string \<Rightarrow> string \<Rightarrow> Decision" where
  "demoDecision n ref state = \<lparr>dcID = demoEvID ''decision'' n, dcProjectID = ''m1'',
     dcClaimID = demoEvID ''claim'' 1, dcDecisionRef = ref, dcState = state, dcVerifierRef = ''v1'',
     dcRationale = ''r1'', dcDecidedAt = 3\<rparr>"

definition demoAction :: "8 word \<Rightarrow> string \<Rightarrow> Action" where
  "demoAction n ref = \<lparr>acID = demoEvID ''action'' n, acProjectID = ''m1'', acClaimID = demoEvID ''claim'' 1,
     acDecisionID = demoEvID ''decision'' n, acActionRef = ref, acActionKind = ''code_change'',
     acSummary = [], acChangedFiles = [], acRunID = [], acCreatedAt = 4\<rparr>"

definition demoOutcome :: "8 word \<Rightarrow> string \<Rightarrow> Outcome" where
  "demoOutcome n status = \<lparr>ocID = demoEvID ''outcome'' n, ocProjectID = ''m1'',
     ocClaimID = demoEvID ''claim'' 1, ocActionID = demoEvID ''action'' n, ocOutcomeRef = ''o1'',
     ocOutcomeKind = ''test'', ocStatus = status, ocVerifierRef = [], ocSummary = [], ocCreatedAt = 5\<rparr>"

definition demoLink :: ArtifactLink where
  "demoLink = \<lparr>alProjectID = ''m1'', alClaimID = demoEvID ''claim'' 1, alArtifactRef = ''a1'',
     alArtifactKind = [], alRunID = []\<rparr>"

definition demoPromotion :: PromotionLink where
  "demoPromotion = \<lparr>plProjectID = ''m1'', plClaimID = demoEvID ''claim'' 1, plRunID = [],
     plArtifactRef = ''a1'', plPromotionState = ''promoted'', plSourceRef = ''s1'', plVerifierRef = ''v1'',
     plDecisionRef = ''d1'', plActionRef = ''x1'', plOutcomeRef = ''o1'', plDecidedAt = 6\<rparr>"

definition demoRecord ::
    "Evidence list \<Rightarrow> Decision list \<Rightarrow> Action list \<Rightarrow> Outcome list \<Rightarrow> ArtifactLink list \<Rightarrow> PromotionLink list
      \<Rightarrow> ClaimRecord" where
  "demoRecord es ds as xs ls ps = \<lparr>rcClaim = demoClaim, rcEvidence = es, rcDecisions = ds, rcActions = as,
     rcOutcomes = xs, rcArtifactLinks = ls, rcPromotionLinks = ps\<rparr>"

definition demoStore :: "ClaimRecord \<Rightarrow> EvidenceStore" where
  "demoStore r = \<lparr>esClaims = [(recordKey (newRecord demoClaim), demoClaim)],
     esRecords = [(recordKey (newRecord demoClaim), r)]\<rparr>"

subsection \<open>The calls\<close>

abbreviation demoKey :: string where
  "demoKey \<equiv> claimKey ''m1'' (demoEvID ''claim'' 1)"

lemma tidy_m1 [simp]: "tidyWord [a, b] \<longleftrightarrow> tidyChar a \<and> tidyChar b"
  by (simp add: tidyWord_def)

lemmas tidy_eval = tidyChar_def tidyWord_def

lemma getRecord_demoStore [simp]: "getRecord (demoStore r) k = (if k = demoKey then Some r else None)"
  by (auto simp: demoStore_def getRecord_def tget_def demoClaim_def)

lemma demo_set [simp]: "setRecord (demoStore r) demoKey r' = demoStore r'"
  by (simp add: demoStore_def setRecord_def tput_def demoClaim_def)

lemma demo_tget [simp]: "tget (esRecords (demoStore r)) k = (if k = demoKey then Some r else None)"
  using getRecord_demoStore by (simp add: getRecord_def)

lemma claim_prefix [simp]: "''claim'' \<in> set idPrefixes" "''decision'' \<in> set idPrefixes"
  "''action'' \<in> set idPrefixes"
  by (simp_all add: idPrefixes_def)

lemma demo_validate [simp]:
  "validateClaim net (demoStore r) ''m1'' (demoEvID ''claim'' 1) = Inr (''m1'', demoEvID ''claim'' 1, r)"
  by (simp add: validateClaim_def memGetClaim_def tidy_eval)

lemma literal_trim:
  "trimSpace ''file'' = ''file''" "trimSpace ''validated'' = ''validated''" "trimSpace ''rejected'' = ''rejected''"
  "trimSpace ''code_change'' = ''code_change''" "trimSpace ''test'' = ''test''"
  "trimSpace ''failed'' = ''failed''" "trimSpace ''passed'' = ''passed''" "trimSpace ''promoted'' = ''promoted''"
  by (simp_all add: trimSpace_graphic graphic_def)

lemmas demo_enums = safeEvidenceKind_def safeDecisionState_def safeActionKind_def safeOutcomeKind_def
  safeOutcomeStatus_def safePromotionState_def safeEnum_def literal_trim evidenceKinds_def
  decisionStates_def actionKinds_def outcomeKinds_def outcomeStatuses_def promotionStates_def

lemma demoClaim_created:
  "svcCreateClaim net newEvidenceStore 1 (demoBytes 1)
      \<lparr>icProjectID = ''m1'', icRunID = [], icTraceID = [], icClaimRef = ''c1'', icSummary = ''s1'', icStatus = []\<rparr>
    = (Inr demoClaim, demoStore (demoRecord [] [] [] [] [] []))"
  by (simp add: svcCreateClaim_def buildClaim_def tidy_eval safeClaimStatus_def memCreateClaim_def
      demoStore_def demoRecord_def demoClaim_def newRecord_def newEvidenceStore_def tput_def
      recordKey_def Let_def)

lemma call_demoClaim: "evidenceCall net newEvidenceStore (demoStore (demoRecord [] [] [] [] [] []))"
  by (rule evidenceCall.claim [OF demoClaim_created]) (simp add: newEvidenceStore_def getRecord_def)

lemma call_demoEvidence:
  "evidenceCall net (demoStore (demoRecord [] ds as xs ls ps)) (demoStore (demoRecord [demoEvidence] ds as xs ls ps))"
proof (rule evidenceCall.evidence)
  show "svcAppendEvidence net (demoStore (demoRecord [] ds as xs ls ps)) 2 (demoBytes 1)
      \<lparr>ieProjectID = ''m1'', ieClaimID = demoEvID ''claim'' 1, ieEvidenceRef = ''e1'', ieEvidenceKind = ''file'',
       ieSourceRef = [], ieSummary = []\<rparr>
      = (Inr demoEvidence, demoStore (demoRecord [demoEvidence] ds as xs ls ps))"
    by (simp add: svcAppendEvidence_def buildEvidence_def tidy_eval demo_enums memAppendEvidence_def
        demoEvidence_def demoRecord_def Let_def)
qed

lemma call_demoDecision:
  assumes "es \<noteq> []" and "tidyWord ref" and "state \<in> {''validated'', ''rejected''}"
  shows "evidenceCall net (demoStore (demoRecord es ds as xs ls ps))
    (demoStore (demoRecord es (ds @ [demoDecision n ref state]) as xs ls ps))"
proof (rule evidenceCall.decision)
  show "svcCreateDecision net (demoStore (demoRecord es ds as xs ls ps)) 3 (demoBytes n)
      \<lparr>idProjectID = ''m1'', idClaimID = demoEvID ''claim'' 1, idDecisionRef = ref, idState = state,
       idVerifierRef = ''v1'', idRationale = ''r1''\<rparr>
      = (Inr (demoDecision n ref state), demoStore (demoRecord es (ds @ [demoDecision n ref state]) as xs ls ps))"
    using assms by (auto simp: svcCreateDecision_def buildDecision_def tidy_eval demo_enums
        memCreateDecision_def demoDecision_def demoRecord_def Let_def)
qed

lemma call_demoAction:
  assumes "demoDecision n dref state \<in> set ds" and "tidyWord ref"
  shows "evidenceCall net (demoStore (demoRecord es ds as xs ls ps))
    (demoStore (demoRecord es ds (as @ [demoAction n ref]) xs ls ps))"
proof (rule evidenceCall.action)
  have "hasDecision (demoRecord es ds as xs ls ps) (demoEvID ''decision'' n)"
    using assms(1) by (auto simp: hasDecision_def demoRecord_def list_ex_iff demoDecision_def intro!: bexI)
  then show "svcCreateAction net (demoStore (demoRecord es ds as xs ls ps)) 4 (demoBytes n)
      \<lparr>iaProjectID = ''m1'', iaClaimID = demoEvID ''claim'' 1, iaDecisionID = demoEvID ''decision'' n,
       iaActionRef = ref, iaActionKind = ''code_change'', iaSummary = [], iaChangedFiles = [], iaRunID = []\<rparr>
      = (Inr (demoAction n ref), demoStore (demoRecord es ds (as @ [demoAction n ref]) xs ls ps))"
    using assms(2) by (simp add: svcCreateAction_def buildAction_def demo_enums memCreateAction_def
        demoAction_def demoRecord_def tidyChar_def Let_def)
qed

lemma call_demoOutcome:
  assumes "demoAction n aref \<in> set as" and "status \<in> {''passed'', ''failed''}"
  shows "evidenceCall net (demoStore (demoRecord es ds as xs ls ps))
    (demoStore (demoRecord es ds as (xs @ [demoOutcome n status]) ls ps))"
proof (rule evidenceCall.outcome)
  have "hasAction (demoRecord es ds as xs ls ps) (demoEvID ''action'' n)"
    using assms(1) by (auto simp: hasAction_def demoRecord_def list_ex_iff demoAction_def intro!: bexI)
  then show "svcCreateOutcome net (demoStore (demoRecord es ds as xs ls ps)) 5 (demoBytes n)
      \<lparr>ioProjectID = ''m1'', ioClaimID = demoEvID ''claim'' 1, ioActionID = demoEvID ''action'' n,
       ioOutcomeRef = ''o1'', ioOutcomeKind = ''test'', ioStatus = status, ioVerifierRef = [], ioSummary = []\<rparr>
      = (Inr (demoOutcome n status), demoStore (demoRecord es ds as (xs @ [demoOutcome n status]) ls ps))"
    using assms(2) by (auto simp: svcCreateOutcome_def buildOutcome_def demo_enums memCreateOutcome_def
        demoOutcome_def demoRecord_def tidyChar_def Let_def)
qed

lemma call_demoLink:
  "evidenceCall net (demoStore (demoRecord es ds as xs [] ps)) (demoStore (demoRecord es ds as xs [demoLink] ps))"
proof (rule evidenceCall.artifact)
  show "svcLinkArtifact net (demoStore (demoRecord es ds as xs [] ps))
      \<lparr>ilProjectID = ''m1'', ilClaimID = demoEvID ''claim'' 1, ilArtifactRef = ''a1'', ilArtifactKind = [], ilRunID = []\<rparr>
      = (Inr demoLink, demoStore (demoRecord es ds as xs [demoLink] ps))"
    by (simp add: svcLinkArtifact_def buildArtifactLink_def memLinkArtifact_def demoLink_def demoRecord_def
        tidyChar_def Let_def)
qed

definition demoPromotionInput :: LinkPromotionInput where
  "demoPromotionInput = \<lparr>ipProjectID = ''m1'', ipClaimID = demoEvID ''claim'' 1, ipRunID = [],
     ipArtifactRef = ''a1'', ipPromotionState = ''promoted'', ipSourceRef = ''s1'', ipVerifierRef = ''v1'',
     ipDecisionRef = ''d1'', ipActionRef = ''x1'', ipOutcomeRef = ''o1''\<rparr>"

lemma no_runs:
  "\<forall>a \<in> set as. acRunID a = [] \<Longrightarrow> runOfAction ref as = None"
  "\<forall>a \<in> set as. acRunID a = [] \<Longrightarrow> runOfActionID i as = None"
  by (induction as) auto

lemma no_outcome_run: "\<forall>a \<in> set as. acRunID a = [] \<Longrightarrow> runOfOutcome ref as xs = None"
  by (induction xs) (simp_all add: no_runs(2))

text \<open>The outcome that is looked up is the first; a passed one may follow it.\<close>

lemma demo_promotes:
  assumes "''passed'' \<in> set (map ocStatus (demoOutcome 1 status # xs))"
    and "\<forall>x \<in> set xs. ocOutcomeRef x = ''o1''" and "\<forall>a \<in> set as. acRunID a = []"
  shows "svcLinkPromotion net
      (demoStore (demoRecord es (demoDecision 1 ''d1'' st # ds) (demoAction 1 ''x1'' # as)
         (demoOutcome 1 status # xs) [demoLink] [])) 6 demoPromotionInput
    = (Inr demoPromotion, demoStore (demoRecord es (demoDecision 1 ''d1'' st # ds) (demoAction 1 ''x1'' # as)
         (demoOutcome 1 status # xs) [demoLink] [demoPromotion]))"
    (is "svcLinkPromotion net (demoStore ?r) 6 _ = _")
proof -
  have o1: "ocOutcomeRef (demoOutcome 1 status) = ''o1''" by (simp add: demoOutcome_def)
  have "hasPassedOutcomeRef ?r ''o1''"
    using assms o1 by (auto simp: hasPassedOutcomeRef_def demoRecord_def list_ex_iff)
  moreover have "findDecisionRef ?r ''d1'' = Some (demoDecision 1 ''d1'' st)"
    "findActionRef ?r ''x1'' = Some (demoAction 1 ''x1'')" "findOutcomeRef ?r ''o1'' = Some (demoOutcome 1 status)"
    by (simp_all add: findDecisionRef_def findActionRef_def findOutcomeRef_def demoRecord_def
        demoDecision_def demoAction_def demoOutcome_def)
  ultimately have g: "promotionGuards ?r ''promoted'' ''v1'' ''d1'' ''x1'' ''o1'' = Inr ()"
    by (simp add: promotionGuards_def demoAction_def demoDecision_def demoOutcome_def)
  have l: "hasArtifactLink ?r ''a1''" by (simp add: hasArtifactLink_def demoRecord_def demoLink_def)
  have "\<forall>a \<in> set (demoAction 1 ''x1'' # as). acRunID a = []"
    using assms(3) by (simp add: demoAction_def)
  then have "promotionRunID ?r [] ''x1'' ''o1'' ''a1'' = []"
    by (simp add: promotionRunID_def demoRecord_def no_runs no_outcome_run demoLink_def demoClaim_def
        del: runOfOutcome.simps runOfAction.simps)
  show ?thesis
    using g l \<open>promotionRunID ?r [] _ _ _ = []\<close> by (simp add: svcLinkPromotion_def buildPromotionLink_def demoPromotionInput_def demo_enums
        memLinkPromotion_def tidyChar_def Let_def) (simp add: demoPromotion_def demoRecord_def)
qed

subsection \<open>Two runs\<close>

text \<open>The regular run: evidence, a decision, an action, a passed outcome, an artifact, a promotion.\<close>

definition demoFinal :: EvidenceStore where
  "demoFinal = demoStore (demoRecord [demoEvidence] [demoDecision 1 ''d1'' ''validated''] [demoAction 1 ''x1'']
     [demoOutcome 1 ''passed''] [demoLink] [demoPromotion])"

lemma demoStart_reachable: "evidenceReachable net (demoStore (demoRecord [demoEvidence] [] [] [] [] []), [])"
  by (rule call_reachable [OF call_demoEvidence]) (rule call_reachable [OF call_demoClaim evidenceReachable.init])

lemma demoDecided_reachable:
  "evidenceReachable net (demoStore (demoRecord [demoEvidence] [demoDecision 1 ''d1'' ''validated''] [demoAction 1 ''x1''] [] [] []), [])"
proof -
  have "evidenceReachable net (demoStore (demoRecord [demoEvidence] [demoDecision 1 ''d1'' ''validated''] [] [] [] []), [])"
    using call_reachable [OF call_demoDecision [where ref = "''d1''" and state = "''validated''" and n = 1] demoStart_reachable] by (simp add: tidyChar_def)
  from call_reachable [OF call_demoAction [where n = 1 and dref = "''d1''" and state = "''validated''" and ref = "''x1''"] this] show ?thesis
    by (simp add: tidyChar_def)
qed

lemma demoFinal_reachable: "evidenceReachable net (demoFinal, [])"
proof -
  have "evidenceReachable net (demoStore (demoRecord [demoEvidence] [demoDecision 1 ''d1'' ''validated''] [demoAction 1 ''x1'']
     [demoOutcome 1 ''passed''] [] []), [])"
    using call_reachable [OF call_demoOutcome [where n = 1 and aref = "''x1''" and status = "''passed''"] demoDecided_reachable] by simp
  then have "evidenceReachable net (demoStore (demoRecord [demoEvidence] [demoDecision 1 ''d1'' ''validated''] [demoAction 1 ''x1'']
     [demoOutcome 1 ''passed''] [demoLink] []), [])"
    by (rule call_reachable [OF call_demoLink])
  then show ?thesis unfolding demoFinal_def
    by (rule call_reachable [OF evidenceCall.promotion [OF demo_promotes], rotated -1]) (simp_all add: demoOutcome_def)
qed

text \<open>
  The other run: the outcome of the action failed, and another action, of a rejected decision,
  has a passed outcome under the same reference.
\<close>

definition sharedRecord :: "PromotionLink list \<Rightarrow> ClaimRecord" where
  "sharedRecord ps = demoRecord [demoEvidence] [demoDecision 1 ''d1'' ''validated'', demoDecision 2 ''d2'' ''rejected'']
     [demoAction 1 ''x1'', demoAction 2 ''x2''] [demoOutcome 1 ''failed'', demoOutcome 2 ''passed''] [demoLink] ps"

lemma shared_reachable: "evidenceReachable net (demoStore (sharedRecord []), [])"
proof -
  have "evidenceReachable net (demoStore (demoRecord [demoEvidence] [demoDecision 1 ''d1'' ''validated'', demoDecision 2 ''d2'' ''rejected'']
     [demoAction 1 ''x1''] [] [] []), [])"
    using call_reachable [OF call_demoDecision [where ref = "''d2''" and state = "''rejected''" and n = 2] demoDecided_reachable] by (simp add: tidyChar_def)
  from call_reachable [OF call_demoAction [where n = 2 and dref = "''d2''" and state = "''rejected''" and ref = "''x2''"] this]
  have "evidenceReachable net (demoStore (demoRecord [demoEvidence] [demoDecision 1 ''d1'' ''validated'', demoDecision 2 ''d2'' ''rejected'']
     [demoAction 1 ''x1'', demoAction 2 ''x2''] [] [] []), [])"
    by (simp add: tidyChar_def)
  from call_reachable [OF call_demoOutcome [where n = 1 and aref = "''x1''" and status = "''failed''"] this]
  have "evidenceReachable net (demoStore (demoRecord [demoEvidence] [demoDecision 1 ''d1'' ''validated'', demoDecision 2 ''d2'' ''rejected'']
     [demoAction 1 ''x1'', demoAction 2 ''x2''] [demoOutcome 1 ''failed''] [] []), [])"
    by simp
  from call_reachable [OF call_demoOutcome [where n = 2 and aref = "''x2''" and status = "''passed''"] this]
  have "evidenceReachable net (demoStore (demoRecord [demoEvidence] [demoDecision 1 ''d1'' ''validated'', demoDecision 2 ''d2'' ''rejected'']
     [demoAction 1 ''x1'', demoAction 2 ''x2''] [demoOutcome 1 ''failed'', demoOutcome 2 ''passed''] [] []), [])"
    by simp
  then show ?thesis unfolding sharedRecord_def by (rule call_reachable [OF call_demoLink])
qed

lemma shared_promotes:
  "svcLinkPromotion net (demoStore (sharedRecord [])) 6 demoPromotionInput
     = (Inr demoPromotion, demoStore (sharedRecord [demoPromotion]))"
  unfolding sharedRecord_def
  by (rule demo_promotes) (simp_all add: demoOutcome_def demoAction_def)

end
