(* ===== verification/Evidence_Properties.thy ===== *)
theory Evidence_Properties
  imports Evidence_Demo
begin

section \<open>Evidence graph: properties\<close>

text \<open>
  What the records of the evidence graph promise in every state that interleaved calls reach,
  and what the checks of the service let through.
\<close>

lemma reachable_sound:
  assumes "evidenceReachable net (st, ws)" and "getRecord st k = Some r"
  shows "recordSound r" and "recordKey r = k"
  using reachable_evidenceInv [OF assms(1)] assms(2)
  by (auto simp: evidenceInv_def dest: allValsD keyedD)

lemma reachable_twf: "evidenceReachable net (st, ws) \<Longrightarrow> twf (esRecords st)"
  using reachable_evidenceInv by (fastforce simp: evidenceInv_def)

text \<open>
  C4. Referential integrity under interleaving. In every state that interleaved calls reach, a
  stored record lies under the key of its claim, has evidence before it has decisions, its
  actions belong to its decisions, its outcomes to its actions, and its promotion links are
  sound: their references lead to objects of the record that belong together.
\<close>

theorem record_integrity:
  assumes "evidenceReachable net (st, ws)" and "getRecord st k = Some r"
  shows "k = claimKey (cmProjectID (rcClaim r)) (cmID (rcClaim r))
    \<and> (rcDecisions r \<noteq> [] \<longrightarrow> rcEvidence r \<noteq> [])
    \<and> (\<forall>a \<in> set (rcActions r). \<exists>d \<in> set (rcDecisions r). dcID d = acDecisionID a)
    \<and> (\<forall>x \<in> set (rcOutcomes r). \<exists>a \<in> set (rcActions r). acID a = ocActionID x)
    \<and> (\<forall>p \<in> set (rcPromotionLinks r). promotionSound r p)"
proof -
  have "rcDecisions r \<noteq> [] \<longrightarrow> rcEvidence r \<noteq> []"
    using reachable_sound(1) [OF assms] by (cases "rcDecisions r") (auto simp: recordSound_items)
  with reachable_sound [OF assms] show ?thesis by (auto simp: recordSound_items recordKey_def)
qed

theorem record_integrity_witness:
  "promotionSound (demoRecord [demoEvidence] [demoDecision 1 ''d1'' ''validated'']
     [demoAction 1 ''x1''] [demoOutcome 1 ''passed''] [demoLink] [demoPromotion]) demoPromotion"
  using record_integrity [OF demoFinal_reachable [of demoNet], of demoKey] by (simp add: demoFinal_def demoRecord_def)

text \<open>
  C5. A promoted artifact is backed by a chain. If the outcomes of the record have references of
  their own, a promoted link has a verifier, evidence, a decision it names, an action of this
  decision and a passed outcome of this action under the outcome reference of the link.
\<close>

theorem promoted_chain:
  assumes "evidenceReachable net (st, ws)" and "getRecord st k = Some r"
    and "p \<in> set (rcPromotionLinks r)" and "plPromotionState p = PromotionStatePromoted"
    and u: "inj_on ocOutcomeRef (set (rcOutcomes r))"
  shows "plVerifierRef p \<noteq> [] \<and> rcEvidence r \<noteq> [] \<and>
    (\<exists>d \<in> set (rcDecisions r). \<exists>a \<in> set (rcActions r). \<exists>x \<in> set (rcOutcomes r).
       dcDecisionRef d = plDecisionRef p \<and> acDecisionID a = dcID d \<and> ocActionID x = acID a
       \<and> ocOutcomeRef x = plOutcomeRef p \<and> ocStatus x = OutcomeStatusPassed)"
proof -
  have s: "promotionSound r p" using record_integrity [OF assms(1,2)] assms(3) by blast
  then have ne: "plDecisionRef p \<noteq> []" "plOutcomeRef p \<noteq> []" "plVerifierRef p \<noteq> []"
    using assms(4) by (simp_all add: promotionSound_def)
  obtain y where y: "y \<in> set (rcOutcomes r)" "ocOutcomeRef y = plOutcomeRef p" "ocStatus y = OutcomeStatusPassed"
    using s assms(4) unfolding promotionSound_def by blast
  obtain d a x where c: "d \<in> set (rcDecisions r)" "a \<in> set (rcActions r)" "x \<in> set (rcOutcomes r)"
    "dcDecisionRef d = plDecisionRef p" "acDecisionID a = dcID d" "ocActionID x = acID a"
    "ocOutcomeRef x = plOutcomeRef p"
    using s ne unfolding promotionSound_def by blast
  have "x = y" using inj_onD [OF u] c(3,7) y by simp
  moreover have "rcEvidence r \<noteq> []"
    using record_integrity [OF assms(1,2)] c(1) by auto
  ultimately show ?thesis using c y(3) ne by blast
qed

theorem promoted_chain_witness:
  "\<exists>d \<in> {demoDecision 1 ''d1'' ''validated''}. \<exists>a \<in> {demoAction 1 ''x1''}. \<exists>x \<in> {demoOutcome 1 ''passed''}.
     dcDecisionRef d = ''d1'' \<and> acDecisionID a = dcID d \<and> ocActionID x = acID a \<and> ocStatus x = ''passed''"
  using promoted_chain [OF demoFinal_reachable [of demoNet], of demoKey _ demoPromotion]
  by (simp add: demoFinal_def demoRecord_def demoPromotion_def)

text \<open>
  C40. Without references of their own the chain can break: the service promotes an artifact for
  a decision and an action whose only outcome failed, because another action has a passed
  outcome under the same reference.
\<close>

theorem shared_outcome_ref_promotes:
  "\<exists>st st' input l r. evidenceReachable net (st, []) \<and> svcLinkPromotion net st 6 input = (Inr l, st')
     \<and> plPromotionState l = PromotionStatePromoted \<and> plActionRef l \<noteq> []
     \<and> getRecord st' (claimKey (plProjectID l) (plClaimID l)) = Some r \<and> l \<in> set (rcPromotionLinks r)
     \<and> [ocStatus x. a \<leftarrow> rcActions r, acActionRef a = plActionRef l, x \<leftarrow> rcOutcomes r, ocActionID x = acID a]
         = [OutcomeStatusFailed]"
  by (rule exI [of _ "demoStore (sharedRecord [])"], rule exI [of _ "demoStore (sharedRecord [demoPromotion])"],
      rule exI [of _ demoPromotionInput], rule exI [of _ demoPromotion], rule exI [of _ "sharedRecord [demoPromotion]"])
    (simp add: shared_reachable shared_promotes,
     simp add: demoPromotion_def sharedRecord_def demoRecord_def demoAction_def demoOutcome_def)

text \<open>
  C30. Records only grow. Whatever calls follow, a stored record keeps its claim, and each of its
  lists keeps its items at the front.
\<close>

theorem records_only_grow:
  assumes "(evidenceStep net)\<^sup>*\<^sup>* s s'" and "getRecord (fst s) k = Some r"
  shows "\<exists>r'. getRecord (fst s') k = Some r' \<and> recExt r r'"
  using assms(1)
proof (induction rule: rtranclp_induct)
  case base
  show ?case using assms(2) grow.ext_refl by blast
next
  case (step t u)
  then obtain r1 where r1: "getRecord (fst t) k = Some r1" "recExt r r1" by blast
  then obtain r2 where "getRecord (fst u) k = Some r2" "recExt r1 r2"
    using step_ext [of net "fst t" "snd t" "fst u" "snd u"] step(2) by fastforce
  with r1(2) show ?case using grow.ext_trans by blast
qed

theorem records_only_grow_witness:
  "\<exists>r'. getRecord (demoStore (sharedRecord [demoPromotion])) demoKey = Some r' \<and> recExt (sharedRecord []) r'"
  using records_only_grow [OF call_steps [OF evidenceCall.promotion [OF shared_promotes [of demoNet]]], where k = demoKey and r = "sharedRecord []"]
  by simp

section \<open>Evidence graph: inputs and listings\<close>

text \<open>
  The exact effect of the input checks, the identifiers that come back, the run a promotion is
  attributed to, and the listing of claims.
\<close>

text \<open>
  A reference is accepted iff, after trimming, it has 1 to 200 bytes of letters, digits and
  \<open>_-./\<close>, does not start with a slash and holds neither \<open>..\<close> nor a root marker; it comes back
  trimmed. The checks for markers, e-mail addresses and URLs never reject a text of this form.
\<close>

theorem reference_acceptance_exact:
  "safeRefIdentifier_ev net v f = Inr r \<longleftrightarrow>
     r = trimSpace v \<and> 1 \<le> length r \<and> length r \<le> 200 \<and> list_all identByte r
     \<and> \<not> hasPrefix r ''/'' \<and> \<not> contains r ''..'' \<and> \<not> rootMarker r"
  by (auto simp: safeRefIdentifier_ev_Inr refForm_def Suc_le_eq)

text \<open>
  A phone number is accepted as a reference although the same service refuses it in a text.
\<close>

lemma phone_number_reference:
  "safeRefIdentifier_ev net ''555-123-4567'' f = Inr ''555-123-4567''
   \<and> safeOptionalText_ev net ''555-123-4567'' f mx = Inl (ErrInvalidInput (f @ '' is unsafe''))"
proof -
  let ?p = "''555-123-4567''"
  have t: "trimSpace ?p = ?p" by (rule trimSpace_graphic) (simp_all add: graphic_def)
  have i: "list_all identByte ?p"
    by (simp add: identByte_def inCls_def lowerCls_def upperCls_def digitCls_def rng_def)
  have "\<not> rootMarker ?p" by (rule no_slash_rootMarker [OF i]) simp
  with t i have "refForm ?p" by (simp add: refForm_def sublist_Cons_right)
  moreover have "matchString phonePattern ?p" by code_simp
  ultimately show ?thesis
    using t by (simp add: safeOptionalText_ev_def safeTextWith_def containsProhibitedData_def)
qed

text \<open>
  A claim that was created can be read back: the identifiers in the answer of \<open>CreateClaim\<close>
  are accepted by \<open>GetClaim\<close>, which returns the claim with empty lists.
\<close>

theorem created_claim_read_back:
  assumes "svcCreateClaim net st now rnd input = (Inr c, st')" and "length rnd = 16"
  shows "svcGetClaim net st' (cmProjectID c) (cmID c) = Inr (newRecord c)"
proof -
  have c: "buildClaim net now rnd input = Inr c" and st': "st' = snd (memCreateClaim st c)"
    using assms(1) by (auto simp: svcCreateClaim_def res_simps memCreateClaim_def Let_def)
  then have "cmID c = newID_ev ''claim'' rnd" "refForm (cmProjectID c)"
    by (auto simp: buildClaim_def res_simps ident_simps)
  then have "refForm (cmID c)" "refForm (cmProjectID c)"
    using newID_refForm assms(2) by (simp_all add: idPrefixes_def)
  then show ?thesis
    by (simp add: svcGetClaim_def memGetClaim_Inr st' getRecord_create)
qed

theorem created_claim_read_back_witness:
  "svcGetClaim demoNet (demoStore (newRecord demoClaim)) ''m1'' (demoEvID ''claim'' 1) = Inr (newRecord demoClaim)"
proof -
  have "svcCreateClaim demoNet newEvidenceStore 1 (demoBytes 1)
      \<lparr>icProjectID = ''m1'', icRunID = [], icTraceID = [], icClaimRef = ''c1'', icSummary = ''s1'', icStatus = []\<rparr>
      = (Inr demoClaim, demoStore (newRecord demoClaim))"
    by (simp add: demoClaim_created newRecord_def demoRecord_def)
  from created_claim_read_back [OF this] show ?thesis
    by (simp add: demoBytes_def) (simp add: demoClaim_def)
qed

text \<open>
  The run of a promotion is the first nonempty one of: the run given, the runs of the actions
  it names, the runs of the actions behind the outcomes it names, the runs of the links to its
  artifact; and else the run of the claim.
\<close>

definition runCandidates :: "ClaimRecord \<Rightarrow> string \<Rightarrow> string \<Rightarrow> string \<Rightarrow> string \<Rightarrow> string list" where
  "runCandidates r runID actionRef outcomeRef artifactRef =
     runID # (if actionRef = [] then [] else [acRunID a. a \<leftarrow> rcActions r, acActionRef a = actionRef])
     @ (if outcomeRef = [] then []
        else [acRunID a. x \<leftarrow> rcOutcomes r, ocOutcomeRef x = outcomeRef, a \<leftarrow> rcActions r, acID a = ocActionID x])
     @ [alRunID l. l \<leftarrow> rcArtifactLinks r, alArtifactRef l = artifactRef]"

lemma find_append: "find P (xs @ ys) = (case find P xs of None \<Rightarrow> find P ys | Some x \<Rightarrow> Some x)"
  by (induction xs) auto

lemma runOfAction_find:
  "runOfAction ref as = (if ref = [] then None else find (\<lambda>run. run \<noteq> []) [acRunID a. a \<leftarrow> as, acActionRef a = ref])"
  by (induction as) auto

lemma runOfActionID_find:
  "runOfActionID i as = find (\<lambda>run. run \<noteq> []) [acRunID a. a \<leftarrow> as, acID a = i]"
  by (induction as) auto

lemma runOfOutcome_find:
  "runOfOutcome ref as xs = (if ref = [] then None else
     find (\<lambda>run. run \<noteq> []) [acRunID a. x \<leftarrow> xs, ocOutcomeRef x = ref, a \<leftarrow> as, acID a = ocActionID x])"
  by (induction xs) (auto simp: runOfActionID_find find_append split: option.splits)

lemma runOfLink_find:
  "runOfLink ref ls = find (\<lambda>run. run \<noteq> []) [alRunID l. l \<leftarrow> ls, alArtifactRef l = ref]"
  by (induction ls) auto

theorem promotion_run_first_candidate:
  "promotionRunID r runID actionRef outcomeRef artifactRef =
     (case find (\<lambda>run. run \<noteq> []) (runCandidates r runID actionRef outcomeRef artifactRef) of
        Some run \<Rightarrow> run | None \<Rightarrow> cmRunID (rcClaim r))"
  by (simp add: promotionRunID_def runCandidates_def find_append runOfAction_find runOfOutcome_find
      runOfLink_find split: option.splits)

lemma has_iff:
  "hasArtifact r a \<longleftrightarrow> a \<in> alArtifactRef ` set (rcArtifactLinks r) \<union> plArtifactRef ` set (rcPromotionLinks r)"
  "hasPromotionState r s \<longleftrightarrow> s \<in> plPromotionState ` set (rcPromotionLinks r)"
  "hasOutcomeStatus r s \<longleftrightarrow> s \<in> ocStatus ` set (rcOutcomes r)"
  by (auto simp: hasArtifact_def hasPromotionState_def hasOutcomeStatus_def list_ex_iff image_iff)

lemma matchesFilter_iff:
  "matchesFilter r flt \<longleftrightarrow> (kfRunID flt = [] \<or> cmRunID (rcClaim r) = kfRunID flt)
     \<and> (kfTraceID flt = [] \<or> cmTraceID (rcClaim r) = kfTraceID flt)
     \<and> (kfArtifactRef flt = [] \<or> kfArtifactRef flt \<in> alArtifactRef ` set (rcArtifactLinks r) \<union> plArtifactRef ` set (rcPromotionLinks r))
     \<and> (kfPromotionState flt = [] \<or> kfPromotionState flt \<in> plPromotionState ` set (rcPromotionLinks r))
     \<and> (kfOutcomeStatus flt = [] \<or> kfOutcomeStatus flt \<in> ocStatus ` set (rcOutcomes r))"
  unfolding has_iff [symmetric] by (simp add: matchesFilter_def)

text \<open>
  In a reachable state \<open>ListClaims\<close> of the store returns exactly the claims of the project
  whose record matches every field set in the filter, each once, ordered by creation time.
\<close>

theorem list_claims_exact:
  assumes "evidenceReachable net (st, ws)"
  shows "set (memListClaims st p flt) =
      {rcClaim r |k r. getRecord st k = Some r \<and> cmProjectID (rcClaim r) = p
         \<and> (kfRunID flt = [] \<or> cmRunID (rcClaim r) = kfRunID flt)
         \<and> (kfTraceID flt = [] \<or> cmTraceID (rcClaim r) = kfTraceID flt)
         \<and> (kfArtifactRef flt = [] \<or> kfArtifactRef flt \<in> alArtifactRef ` set (rcArtifactLinks r) \<union> plArtifactRef ` set (rcPromotionLinks r))
         \<and> (kfPromotionState flt = [] \<or> kfPromotionState flt \<in> plPromotionState ` set (rcPromotionLinks r))
         \<and> (kfOutcomeStatus flt = [] \<or> kfOutcomeStatus flt \<in> ocStatus ` set (rcOutcomes r))}
    \<and> distinct (memListClaims st p flt) \<and> sorted (map cmCreatedAt (memListClaims st p flt))"
proof (intro conjI)
  have inv: "evidenceInv (st, ws)" by (rule reachable_evidenceInv [OF assms])
  then have t: "twf (esRecords st)" and k: "keyed getRecord recordKey st" by (simp_all add: evidenceInv_def)
  show "set (memListClaims st p flt) =
      {rcClaim r |k r. getRecord st k = Some r \<and> cmProjectID (rcClaim r) = p
         \<and> (kfRunID flt = [] \<or> cmRunID (rcClaim r) = kfRunID flt)
         \<and> (kfTraceID flt = [] \<or> cmTraceID (rcClaim r) = kfTraceID flt)
         \<and> (kfArtifactRef flt = [] \<or> kfArtifactRef flt \<in> alArtifactRef ` set (rcArtifactLinks r) \<union> plArtifactRef ` set (rcPromotionLinks r))
         \<and> (kfPromotionState flt = [] \<or> kfPromotionState flt \<in> plPromotionState ` set (rcPromotionLinks r))
         \<and> (kfOutcomeStatus flt = [] \<or> kfOutcomeStatus flt \<in> ocStatus ` set (rcOutcomes r))}"
    unfolding matchesFilter_iff [symmetric] memListClaims_def set_sortBy set_map set_filter tvals_tget [OF t] getRecord_def
    by blast
  have "inj_on (rcClaim \<circ> snd) (set (esRecords st))"
  proof (rule inj_onI)
    fix a b assume "a \<in> set (esRecords st)" "b \<in> set (esRecords st)" and eq: "(rcClaim \<circ> snd) a = (rcClaim \<circ> snd) b"
    then have "getRecord st (fst a) = Some (snd a)" "getRecord st (fst b) = Some (snd b)"
      using t by (simp_all add: getRecord_def tget_def twf_def map_of_eq_Some_iff)
    then have "recordKey (snd a) = fst a" "recordKey (snd b) = fst b" using keyedD [OF k] by simp_all
    then have "fst a = fst b" using eq by (simp add: recordKey_def)
    with \<open>getRecord st (fst a) = _\<close> \<open>getRecord st (fst b) = _\<close> show "a = b" by (simp add: prod_eq_iff)
  qed
  then have "distinct (map (rcClaim \<circ> snd) (esRecords st))"
    using t by (simp add: distinct_map twf_def)
  then have "distinct (map rcClaim (tvals (esRecords st)))" by (simp add: tvals_def)
  then show "distinct (memListClaims st p flt)"
    by (simp add: memListClaims_def distinct_map_filter)
  show "sorted (map cmCreatedAt (memListClaims st p flt))"
    unfolding memListClaims_def by (rule sorted_sortBy_key) (simp add: claimLess_def lessBy_def)
qed

theorem list_claims_exact_witness:
  "set (memListClaims demoFinal ''m1'' \<lparr>kfArtifactRef = ''a1'', kfPromotionState = ''promoted'',
     kfOutcomeStatus = ''passed'', kfRunID = [], kfTraceID = []\<rparr>) = {demoClaim}"
  using list_claims_exact [OF demoFinal_reachable [of demoNet], of "''m1''" "\<lparr>kfArtifactRef = ''a1'', kfPromotionState = ''promoted'',
     kfOutcomeStatus = ''passed'', kfRunID = [], kfTraceID = []\<rparr>"]
  by (simp add: demoFinal_def demoRecord_def demoClaim_def demoLink_def demoPromotion_def demoOutcome_def)

end
