(* ===== verification/Reliability_Model.thy ===== *)
theory Reliability_Model
  imports Go_Strings
begin

section \<open>Context reliability: the data model\<close>

text \<open>
  The results that \<open>internal/projectreliability\<close> hands to its clients: the health of a project's
  context graph (\<open>context_health.go\<close>), the check of the claims in documents (\<open>claims.go\<close>) and the
  impact analysis of changed paths (\<open>impact.go\<close>). The field \<open>ReasonCounts\<close> of a health and of a
  run is a Go map.
\<close>

abbreviation ContextHealthReady :: string where "ContextHealthReady \<equiv> ''ready''"
abbreviation ContextHealthWarmingUp :: string where "ContextHealthWarmingUp \<equiv> ''warming_up''"
abbreviation ContextHealthRunning :: string where "ContextHealthRunning \<equiv> ''running''"
abbreviation ContextHealthSyncing :: string where "ContextHealthSyncing \<equiv> ''syncing''"
abbreviation ContextHealthDegraded :: string where "ContextHealthDegraded \<equiv> ''degraded''"
abbreviation ContextHealthStale :: string where "ContextHealthStale \<equiv> ''stale''"
abbreviation ContextHealthEmpty :: string where "ContextHealthEmpty \<equiv> ''empty''"
abbreviation ContextHealthDisabled :: string where "ContextHealthDisabled \<equiv> ''disabled''"
abbreviation ContextHealthUnavailable :: string where "ContextHealthUnavailable \<equiv> ''unavailable''"

record RunSummary =
  rsID :: string
  rsStatus :: string
  rsTrigger :: string
  rsRunKind :: string
  rsMode :: string
  rsFilesSeen :: int
  rsFilesIngested :: int
  rsFilesSkipped :: int
  rsFilesUnchanged :: int
  rsChunksStored :: int
  rsSymbolsStored :: int
  rsErrorCategory :: string
  rsReasonCounts :: "(string, int) table"
  rsCurrentPhase :: string
  rsStartedAt :: time
  rsFinishedAt :: time
  rsHeartbeatAt :: time
  rsLastProgressAt :: time

record SearchIndexHealth =
  siStatus :: string
  siDegraded :: bool
  siReason :: string

record ContextHealth =
  chProjectID :: string
  chStatus :: string
  chEnabled :: bool
  chDigestMode :: string
  chUpdatePolicy :: string
  chWorkspaceMode :: string
  chGraphStorage :: string
  chValidationStatus :: string
  chStatusReason :: string
  chLatestRun :: "RunSummary option"
  chActiveRunID :: string
  chIndexedContentAvailable :: bool
  chEligibleFileCount :: int
  chIndexedSymbolCount :: int
  chIndexedChunkCount :: int
  chSearchIndex :: SearchIndexHealth
  chWorkspaceGitAvailable :: bool
  chReasonCounts :: "(string, int) table"
  chCheckedAt :: time

record ClaimDocument =
  cdPath :: string
  cdText :: string

record ClaimCheckRequest =
  ckProjectID :: string
  ckDocuments :: "ClaimDocument list"
  ckSelectedPaths :: "string list"
  ckKnownTools :: "string list"
  ckKnownRoutes :: "string list"
  ckIncludeVerified :: bool

record ClaimFinding =
  fdPath :: string
  fdLine :: int
  fdKind :: string
  fdClaim :: string
  fdStatus :: string
  fdEvidence :: string
  fdSafeMessage :: string

record ClaimCheckSummary =
  smTotal :: int
  smVerified :: int
  smActionable :: int
  smByStatus :: "(string, int) table"

record ClaimCheckResult =
  crsProjectID :: string
  crsSummary :: ClaimCheckSummary
  crsClaims :: "ClaimFinding list"
  crsVerifiedOmitted :: int
  crsAllVerified :: bool

record ImpactDomain =
  imName :: string
  imReason :: string
  imConfidence :: string
  imPaths :: "string list"

record SourceAnchor =
  saPath :: string
  saKind :: string

record ImpactAnalysisRequest =
  irProjectID :: string
  irChangedPaths :: "string list"
  irDiffScope :: string
  irMaxDiffBytes :: int

record ImpactAnalysis =
  iaaProjectID :: string
  iaaDiffScope :: string
  iaaChangedPaths :: "string list"
  iaaAffectedDomains :: "ImpactDomain list"
  iaaAffectedRoutes :: "string list"
  iaaAffectedTools :: "string list"
  iaaSecurityFlags :: "string list"
  iaaSourceAnchors :: "SourceAnchor list"
  iaaResidualUnknowns :: "string list"
  iaaPartial :: bool
  iaaPartialReason :: string
  iaaWorkspaceDiffUsed :: bool
  iaaWorkspaceTruncated :: bool

end
