(* ===== verification/Confidence_Model.thy ===== *)
theory Confidence_Model
  imports Evidence_Model Reliability_Model Store_Interface
begin

section \<open>Confidence scores: the data model\<close>

text \<open>
  \<open>internal/projectconfidence/model.go\<close> and the option and result types of \<open>input.go\<close>. An
  assessment has the score of a claim, the factors it is the sum of, and the inputs they were
  derived from. The request and response structs only carry these to the adapters.
\<close>

abbreviation ScoreBandHigh :: string where "ScoreBandHigh \<equiv> ''high''"
abbreviation ScoreBandMedium :: string where "ScoreBandMedium \<equiv> ''medium''"
abbreviation ScoreBandLow :: string where "ScoreBandLow \<equiv> ''low''"
abbreviation ScoreBandUnknown :: string where "ScoreBandUnknown \<equiv> ''unknown''"

abbreviation RecommendationPromote :: string where "RecommendationPromote \<equiv> ''promote''"
abbreviation RecommendationVerify :: string where "RecommendationVerify \<equiv> ''verify''"
abbreviation RecommendationReview :: string where "RecommendationReview \<equiv> ''review''"
abbreviation RecommendationReject :: string where "RecommendationReject \<equiv> ''reject''"
abbreviation RecommendationInsufficientEvidence :: string where
  "RecommendationInsufficientEvidence \<equiv> ''insufficient_evidence''"

abbreviation FactorStatusPositive :: string where "FactorStatusPositive \<equiv> ''positive''"
abbreviation FactorStatusNeutral :: string where "FactorStatusNeutral \<equiv> ''neutral''"
abbreviation FactorStatusNegative :: string where "FactorStatusNegative \<equiv> ''negative''"

definition scoreBands :: "string list" where
  "scoreBands = [ScoreBandHigh, ScoreBandMedium, ScoreBandLow, ScoreBandUnknown]"

definition recommendations :: "string list" where
  "recommendations = [RecommendationPromote, RecommendationVerify, RecommendationReview,
     RecommendationReject, RecommendationInsufficientEvidence]"

definition factorStatuses :: "string list" where
  "factorStatuses = [FactorStatusPositive, FactorStatusNeutral, FactorStatusNegative]"

record ConfidenceFactor =
  ftName :: string
  ftScoreDelta :: int
  ftWeight :: int
  ftStatus :: string
  ftSummary :: string
  ftSourceRef :: string

record ConfidenceInputs =
  inEvidenceCount :: int
  inEvidenceKinds :: "string list"
  inDecisionCount :: int
  inActionCount :: int
  inPassedOutcomeCount :: int
  inFailedOutcomeCount :: int
  inPromotionState :: string
  inContextHealthStatus :: string
  inContextHealthReason :: string
  inLatestRunAgeSeconds :: int
  inClaimCheckVerified :: int
  inClaimCheckActionable :: int
  inImpactPartial :: bool
  inImpactResidualUnknownCount :: int
  inImpactSecurityFlagCount :: int

record ConfidenceAssessment =
  caID :: string
  caProjectID :: string
  caClaimID :: string
  caClaimRef :: string
  caRunID :: string
  caTraceID :: string
  caScore :: int
  caBand :: string
  caRecommendation :: string
  caFactors :: "ConfidenceFactor list"
  caInputs :: ConfidenceInputs
  caCreatedAt :: time
  caUpdatedAt :: time

record AssessmentFilter =
  afBand :: string
  afMinScore :: "int option"
  afMaxScore :: "int option"
  afRecommendation :: string
  afRunID :: string
  afTraceID :: string

record ReliabilityInputOptions =
  roProjectID :: string
  roClaimID :: string
  roChangedPaths :: "string list"
  roClaimCheckDocs :: "ClaimDocument list"
  roClaimCheckPaths :: "string list"
  roClaimCheckTools :: "string list"
  roClaimCheckRoutes :: "string list"
  roIncludeVerified :: bool

record ReliabilityInputs =
  riClaim :: ClaimRecord
  riHealth :: ContextHealth
  riClaimCheck :: "ClaimCheckResult option"
  riImpact :: "ImpactAnalysis option"

section \<open>Confidence scores: the memory store\<close>

text \<open>
  \<open>internal/projectconfidence/store/memory.go\<close>: one assessment per claim, the last one that was
  stored. \<open>cloneAssessment\<close> only detaches slices.
\<close>

record ConfidenceStore =
  fsAssessments :: "(string, ConfidenceAssessment) table"

definition newConfidenceStore :: ConfidenceStore where
  "newConfidenceStore = \<lparr>fsAssessments = []\<rparr>"

definition assessmentKey :: "string \<Rightarrow> string \<Rightarrow> string" where
  "assessmentKey projectID claimID = joinKey projectID claimID"

definition memCreateAssessment ::
    "ConfidenceStore \<Rightarrow> ConfidenceAssessment \<Rightarrow> ConfidenceAssessment res \<times> ConfidenceStore" where
  "memCreateAssessment st a =
     (Inr a, \<lparr>fsAssessments = tput (fsAssessments st) (assessmentKey (caProjectID a) (caClaimID a)) a\<rparr>)"

definition memGetAssessment :: "ConfidenceStore \<Rightarrow> string \<Rightarrow> string \<Rightarrow> ConfidenceAssessment res" where
  "memGetAssessment st projectID claimID =
     (case tget (fsAssessments st) (assessmentKey projectID claimID) of
        None \<Rightarrow> Inl ErrNotFound | Some a \<Rightarrow> Inr a)"

definition matchesFilter_cf :: "ConfidenceAssessment \<Rightarrow> AssessmentFilter \<Rightarrow> bool" where
  "matchesFilter_cf a flt =
     (if afBand flt \<noteq> [] \<and> caBand a \<noteq> afBand flt then False
      else if afMinScore flt \<noteq> None \<and> caScore a < the (afMinScore flt) then False
      else if afMaxScore flt \<noteq> None \<and> caScore a > the (afMaxScore flt) then False
      else if afRecommendation flt \<noteq> [] \<and> caRecommendation a \<noteq> afRecommendation flt then False
      else if afRunID flt \<noteq> [] \<and> caRunID a \<noteq> afRunID flt then False
      else if afTraceID flt \<noteq> [] \<and> caTraceID a \<noteq> afTraceID flt then False
      else True)"

definition assessmentLess :: "ConfidenceAssessment \<Rightarrow> ConfidenceAssessment \<Rightarrow> bool" where
  "assessmentLess a b =
     (if caCreatedAt a = caCreatedAt b then caClaimID a < caClaimID b else caCreatedAt a < caCreatedAt b)"

definition memListAssessments ::
    "ConfidenceStore \<Rightarrow> string \<Rightarrow> AssessmentFilter \<Rightarrow> ConfidenceAssessment list" where
  "memListAssessments st projectID flt =
     sortBy assessmentLess
       (filter (\<lambda>a. caProjectID a = projectID \<and> matchesFilter_cf a flt) (tvals (fsAssessments st)))"

subsection \<open>As a keyed store\<close>

definition assessmentKeyOf :: "ConfidenceAssessment \<Rightarrow> string" where
  "assessmentKeyOf a = assessmentKey (caProjectID a) (caClaimID a)"

definition getAssessment :: "ConfidenceStore \<Rightarrow> string \<Rightarrow> ConfidenceAssessment option" where
  "getAssessment st = tget (fsAssessments st)"

definition storeAssessment :: "ConfidenceStore \<Rightarrow> ConfidenceAssessment \<Rightarrow> ConfidenceStore" where
  "storeAssessment st a = snd (memCreateAssessment st a)"

interpretation assessments: keyed_store getAssessment storeAssessment assessmentKeyOf
  by unfold_locales
    (simp add: getAssessment_def storeAssessment_def memCreateAssessment_def assessmentKeyOf_def store_simps)

lemma memCreateAssessment_eq: "memCreateAssessment st a = (Inr a, storeAssessment st a)"
  by (simp add: storeAssessment_def memCreateAssessment_def)

lemma memGetAssessment_Inr:
  "memGetAssessment st p c = Inr a \<longleftrightarrow> getAssessment st (assessmentKey p c) = Some a"
  by (simp add: memGetAssessment_def getAssessment_def split: option.splits)

lemma twf_storeAssessment: "twf (fsAssessments st) \<Longrightarrow> twf (fsAssessments (storeAssessment st a))"
  by (simp add: storeAssessment_def memCreateAssessment_def twf_tput)

end
