(* ===== verification/Confidence_Checks.thy ===== *)
theory Confidence_Checks
  imports Confidence_Model Evidence_Checks
begin

section \<open>Confidence scores: input checks\<close>

text \<open>
  The checks at the end of \<open>internal/projectconfidence/service.go\<close>: the package has its own copy
  of the identifier and text checks. They differ from those of \<open>projectevidence\<close> in one marker,
  in that an identifier must not look like a phone number, and in that every URL is refused.
  \<open>ConfLib\<close> holds what the package takes from other packages: \<open>clAbsURL v\<close> says that \<open>url.Parse\<close>
  succeeds on \<open>v\<close> with a scheme and a host, \<open>clSha256\<close> is \<open>sha256.Sum256\<close>.
\<close>

record ConfLib =
  clAbsURL :: "string \<Rightarrow> bool"
  clSha256 :: "string \<Rightarrow> 8 word list"

definition prohibitedMarkers_cf :: "string list" where
  "prohibitedMarkers_cf =
    [''match ('', ''select '', ''insert into'', ''update '', ''delete from'', ''pragma '', ''drop '',
     ''create ('', ''return n'', ''raw prompt'', ''raw completion'', ''raw source'', ''source dump'',
     ''raw stderr'', ''stderr:'', ''provider payload'', ''authorization:'', ''bearer '', ''begin private key'',
     ''api_key='', ''token='', ''secret='', ''password='', ''credential='']"

definition containsProhibitedMarker_cf :: "string \<Rightarrow> bool" where
  "containsProhibitedMarker_cf = hasMarker prohibitedMarkers_cf"

definition containsProhibitedData_cf :: "string \<Rightarrow> bool" where
  "containsProhibitedData_cf value =
     (containsProhibitedMarker_cf value \<or> matchString emailPattern value \<or> matchString phonePattern value)"

definition containsURL_cf :: "ConfLib \<Rightarrow> string \<Rightarrow> bool" where
  "containsURL_cf lib value =
     (if contains (toLower value) ''www.'' then True
      else if clAbsURL lib value then True
      else contains value ''://'')"

definition safeIdentifier_cf :: "string \<Rightarrow> string \<Rightarrow> string res" where
  "safeIdentifier_cf = safeIdentifierWith containsProhibitedData_cf"

definition safeOptionalIdentifier_cf :: "string \<Rightarrow> string \<Rightarrow> string res" where
  "safeOptionalIdentifier_cf = optionalWith safeIdentifier_cf"

definition safeRefIdentifier_cf :: "ConfLib \<Rightarrow> string \<Rightarrow> string \<Rightarrow> string res" where
  "safeRefIdentifier_cf lib =
     safeRefIdentifierWith containsProhibitedData_cf containsProhibitedMarker_cf (containsURL_cf lib)"

definition safeOptionalRefIdentifier_cf :: "ConfLib \<Rightarrow> string \<Rightarrow> string \<Rightarrow> string res" where
  "safeOptionalRefIdentifier_cf lib = optionalWith (safeRefIdentifier_cf lib)"

definition safeOptionalText_cf :: "ConfLib \<Rightarrow> string \<Rightarrow> string \<Rightarrow> nat \<Rightarrow> string res" where
  "safeOptionalText_cf lib = safeTextWith containsProhibitedData_cf (containsURL_cf lib)"

definition safeRequiredText_cf :: "ConfLib \<Rightarrow> string \<Rightarrow> string \<Rightarrow> nat \<Rightarrow> string res" where
  "safeRequiredText_cf lib value field mx = requiredWith (safeOptionalText_cf lib value field mx) field"

subsection \<open>Enumerations\<close>

definition safeBand :: "string \<Rightarrow> string res" where
  "safeBand = safeEnum scoreBands ''score band''"

definition safeOptionalBand :: "string \<Rightarrow> string res" where
  "safeOptionalBand band = (if trimSpace band = [] then Inr [] else safeBand (trimSpace band))"

definition safeRecommendation :: "string \<Rightarrow> string res" where
  "safeRecommendation = safeEnum recommendations ''recommendation''"

definition safeOptionalRecommendation :: "string \<Rightarrow> string res" where
  "safeOptionalRecommendation r = (if trimSpace r = [] then Inr [] else safeRecommendation (trimSpace r))"

definition safeFactorStatus :: "string \<Rightarrow> string res" where
  "safeFactorStatus = safeEnum factorStatuses ''factor status''"

definition safeEvidenceKind_cf :: "string \<Rightarrow> string res" where
  "safeEvidenceKind_cf = safeEnum evidenceKinds ''evidence_kind''"

definition safeClaimStatus_cf :: "string \<Rightarrow> string res" where
  "safeClaimStatus_cf = safeEnum claimStatuses ''claim status''"

definition safeDecisionState_cf :: "string \<Rightarrow> string res" where
  "safeDecisionState_cf = safeEnum decisionStates ''decision state''"

definition safeActionKind_cf :: "string \<Rightarrow> string res" where
  "safeActionKind_cf = safeEnum actionKinds ''action_kind''"

definition safeOutcomeKind_cf :: "string \<Rightarrow> string res" where
  "safeOutcomeKind_cf = safeEnum outcomeKinds ''outcome_kind''"

definition safeOutcomeStatus_cf :: "string \<Rightarrow> string res" where
  "safeOutcomeStatus_cf = safeEnum outcomeStatuses ''outcome status''"

definition safePromotionState_cf :: "string \<Rightarrow> string res" where
  "safePromotionState_cf = safeEnum promotionStates ''promotion state''"

subsection \<open>Checking a list of values\<close>

text \<open>\<open>for _, x := range xs { if _, err := f(x); err != nil { return err } }\<close>\<close>

fun checkAll :: "('a \<Rightarrow> 'b res) \<Rightarrow> 'a list \<Rightarrow> unit res" where
  "checkAll f [] = Inr ()"
| "checkAll f (x # xs) = tryE (f x) (\<lambda>_. checkAll f xs)"

lemma checkAll_Inr [res_simps]: "checkAll f xs = Inr u \<longleftrightarrow> (\<forall>x \<in> set xs. \<exists>y. f x = Inr y)"
  by (induction xs) (auto simp: tryE_Inr)

lemma checkAll_append: "checkAll f (xs @ ys) = tryE (checkAll f xs) (\<lambda>_. checkAll f ys)"
proof (induction xs)
  case (Cons x xs)
  then show ?case by (cases "f x") simp_all
qed simp

text \<open>\<open>if _, err := f(...); err != nil { return err }\<close>: the value is not used.\<close>

definition check :: "'a res \<Rightarrow> unit res" where
  "check r = tryE r (\<lambda>_. Inr ())"

lemma check_Inr [res_simps]: "check r = Inr u \<longleftrightarrow> (\<exists>x. r = Inr x)"
  by (cases r) (simp_all add: check_def)

lemma check_simps [simp]: "check (Inr x) = Inr ()" "check (Inl e) = Inl e"
  by (simp_all add: check_def)

end
