(* ===== verification/Confidence_Score.thy ===== *)
theory Confidence_Score
  imports Confidence_Checks
begin

section \<open>Confidence scores: scoring a claim\<close>

text \<open>
  \<open>internal/projectconfidence/service.go\<close>: the inputs of a score, its factors, the recommendation
  and \<open>Score\<close>. A Go \<open>*T\<close> argument that may be nil is an option.
\<close>

subsection \<open>Checks of the claim record\<close>

definition validateDecisionMeta :: "ConfLib \<Rightarrow> Decision \<Rightarrow> unit res" where
  "validateDecisionMeta lib d =
     tryE (safeRefIdentifier_cf lib (dcID d) ''decision_id'') (\<lambda>_.
     tryE (safeRefIdentifier_cf lib (dcDecisionRef d) ''decision_ref'') (\<lambda>_.
     tryE (safeDecisionState_cf (dcState d)) (\<lambda>_.
     tryE (safeRefIdentifier_cf lib (dcVerifierRef d) ''verifier_ref'') (\<lambda>_.
     check (safeRequiredText_cf lib (dcRationale d) ''decision_rationale'' 500)))))"

definition validateActionMeta :: "ConfLib \<Rightarrow> Action \<Rightarrow> unit res" where
  "validateActionMeta lib a =
     tryE (safeRefIdentifier_cf lib (acID a) ''action_id'') (\<lambda>_.
     tryE (safeRefIdentifier_cf lib (acDecisionID a) ''action_decision_id'') (\<lambda>_.
     tryE (safeRefIdentifier_cf lib (acActionRef a) ''action_ref'') (\<lambda>_.
     tryE (safeActionKind_cf (acActionKind a)) (\<lambda>_.
     tryE (safeOptionalText_cf lib (acSummary a) ''action_summary'' 500) (\<lambda>_.
     tryE (safeOptionalRefIdentifier_cf lib (acRunID a) ''action_run_id'') (\<lambda>_.
     checkAll (\<lambda>f. safeRefIdentifier_cf lib f ''changed_file'') (acChangedFiles a)))))))"

definition validateOutcomeMeta :: "ConfLib \<Rightarrow> Outcome \<Rightarrow> unit res" where
  "validateOutcomeMeta lib x =
     tryE (safeRefIdentifier_cf lib (ocOutcomeRef x) ''outcome_ref'') (\<lambda>_.
     tryE (safeRefIdentifier_cf lib (ocActionID x) ''outcome_action_id'') (\<lambda>_.
     tryE (safeOutcomeKind_cf (ocOutcomeKind x)) (\<lambda>_.
     tryE (safeOutcomeStatus_cf (ocStatus x)) (\<lambda>_.
     tryE (safeOptionalRefIdentifier_cf lib (ocVerifierRef x) ''outcome_verifier_ref'') (\<lambda>_.
     check (safeOptionalText_cf lib (ocSummary x) ''outcome_summary'' 500))))))"

definition validateArtifactMeta :: "ConfLib \<Rightarrow> ArtifactLink \<Rightarrow> unit res" where
  "validateArtifactMeta lib l =
     tryE (safeRefIdentifier_cf lib (alArtifactRef l) ''artifact_ref'') (\<lambda>_.
     tryE (safeOptionalIdentifier_cf (alArtifactKind l) ''artifact_kind'') (\<lambda>_.
     check (safeOptionalRefIdentifier_cf lib (alRunID l) ''artifact_run_id'')))"

definition validatePromotionMeta :: "ConfLib \<Rightarrow> PromotionLink \<Rightarrow> unit res" where
  "validatePromotionMeta lib l =
     tryE (safeRefIdentifier_cf lib (plArtifactRef l) ''promotion_artifact_ref'') (\<lambda>_.
     tryE (safePromotionState_cf (plPromotionState l)) (\<lambda>_.
     tryE (safeRefIdentifier_cf lib (plSourceRef l) ''promotion_source_ref'') (\<lambda>_.
     tryE (safeOptionalRefIdentifier_cf lib (plVerifierRef l) ''promotion_verifier_ref'') (\<lambda>_.
     tryE (safeOptionalRefIdentifier_cf lib (plDecisionRef l) ''promotion_decision_ref'') (\<lambda>_.
     tryE (safeOptionalRefIdentifier_cf lib (plActionRef l) ''promotion_action_ref'') (\<lambda>_.
     tryE (safeOptionalRefIdentifier_cf lib (plOutcomeRef l) ''promotion_outcome_ref'') (\<lambda>_.
     check (safeOptionalRefIdentifier_cf lib (plRunID l) ''promotion_run_id''))))))))"

definition validateClaimRecordMetadata :: "ConfLib \<Rightarrow> ClaimRecord \<Rightarrow> unit res" where
  "validateClaimRecordMetadata lib rec =
     tryE (safeOptionalText_cf lib (cmSummary (rcClaim rec)) ''claim_summary'' 500) (\<lambda>_.
     tryE (setIf (cmStatus (rcClaim rec) \<noteq> []) (safeClaimStatus_cf (cmStatus (rcClaim rec))) []) (\<lambda>_.
     tryE (checkAll (\<lambda>e. safeOptionalText_cf lib (evSummary e) ''evidence_summary'' 500) (rcEvidence rec)) (\<lambda>_.
     tryE (checkAll (validateDecisionMeta lib) (rcDecisions rec)) (\<lambda>_.
     tryE (checkAll (validateActionMeta lib) (rcActions rec)) (\<lambda>_.
     tryE (checkAll (validateOutcomeMeta lib) (rcOutcomes rec)) (\<lambda>_.
     tryE (checkAll (validateArtifactMeta lib) (rcArtifactLinks rec)) (\<lambda>_.
     checkAll (validatePromotionMeta lib) (rcPromotionLinks rec))))))))"

subsection \<open>Inputs\<close>

definition validateEvidenceInput :: "ConfLib \<Rightarrow> Evidence \<Rightarrow> unit res" where
  "validateEvidenceInput lib e =
     tryE (safeRefIdentifier_cf lib (evID e) ''evidence_id'') (\<lambda>_.
     tryE (safeRefIdentifier_cf lib (evEvidenceRef e) ''evidence_ref'') (\<lambda>_.
     check (setIf (evSourceRef e \<noteq> []) (safeRefIdentifier_cf lib (evSourceRef e) ''source_ref'') [])))"

text \<open>The keys of \<open>kindSet\<close>, sorted; the order in which they are checked does not matter.\<close>

definition evidenceKindsOf :: "ClaimRecord \<Rightarrow> string list" where
  "evidenceKindsOf rec = sort (remdups (map evEvidenceKind (rcEvidence rec)))"

text \<open>
  \<open>now.Sub(t)\<close> saturates at the largest duration. The seconds of a duration are a float64 in Go;
  for durations over 97 days its rounding could give the next second, which no threshold of the
  score can see.
\<close>

definition maxDuration :: int where
  "maxDuration = 2 ^ 63 - 1"

definition ageSeconds :: "time \<Rightarrow> time \<Rightarrow> int" where
  "ageSeconds now progress = (let age = min maxDuration (now - progress)
     in if age < 0 then 0 else age div 1000000000)"

definition latestRunAge :: "time \<Rightarrow> ContextHealth \<Rightarrow> int" where
  "latestRunAge now health =
     (case chLatestRun health of
        None \<Rightarrow> 0
      | Some run \<Rightarrow> if rsLastProgressAt run = zeroTime then 0 else ageSeconds now (rsLastProgressAt run))"

definition countStatus :: "string \<Rightarrow> Outcome list \<Rightarrow> int" where
  "countStatus status xs = int (length (filter (\<lambda>x. ocStatus x = status) xs))"

fun promotionStateOf :: "string \<Rightarrow> PromotionLink list \<Rightarrow> string" where
  "promotionStateOf state [] = state"
| "promotionStateOf state (link # links) =
     promotionStateOf
       (if state = [] \<or> plPromotionState link = PromotionStatePromoted \<or> plPromotionState link = ''rejected''
        then plPromotionState link else state) links"

definition claimCheckMessages :: "ClaimCheckResult option \<Rightarrow> string list" where
  "claimCheckMessages cc =
     (case cc of None \<Rightarrow> [] | Some r \<Rightarrow> filter (\<lambda>m. m \<noteq> []) (map fdSafeMessage (crsClaims r)))"

definition impactRefs :: "ImpactAnalysis option \<Rightarrow> string list" where
  "impactRefs impact =
     (case impact of None \<Rightarrow> [] | Some i \<Rightarrow> iaaResidualUnknowns i @ iaaSecurityFlags i)"

definition buildInputs ::
    "ConfLib \<Rightarrow> time \<Rightarrow> ClaimRecord \<Rightarrow> ContextHealth \<Rightarrow> ClaimCheckResult option \<Rightarrow> ImpactAnalysis option
      \<Rightarrow> ConfidenceInputs res" where
  "buildInputs lib now rec health cc impact =
     tryE (checkAll (validateEvidenceInput lib) (rcEvidence rec)) (\<lambda>_.
     let kinds = evidenceKindsOf rec; reason = trimSpace (chStatusReason health) in
     tryE (checkAll safeEvidenceKind_cf kinds) (\<lambda>_.
     tryE (setIf (reason \<noteq> []) (safeOptionalText_cf lib reason ''context_health_reason'' 200) []) (\<lambda>_.
     tryE (checkAll (\<lambda>x. safeRefIdentifier_cf lib (ocID x) ''outcome_id'') (rcOutcomes rec)) (\<lambda>_.
     tryE (checkAll (\<lambda>l. safePromotionState_cf (plPromotionState l)) (rcPromotionLinks rec)) (\<lambda>_.
     tryE (checkAll (\<lambda>m. safeOptionalText_cf lib m ''claim_check_safe_message'' 300) (claimCheckMessages cc)) (\<lambda>_.
     tryE (checkAll (\<lambda>v. safeOptionalIdentifier_cf v ''impact_ref'') (impactRefs impact)) (\<lambda>_.
     Inr \<lparr>inEvidenceCount = int (length (rcEvidence rec)), inEvidenceKinds = kinds,
        inDecisionCount = int (length (rcDecisions rec)), inActionCount = int (length (rcActions rec)),
        inPassedOutcomeCount = countStatus OutcomeStatusPassed (rcOutcomes rec),
        inFailedOutcomeCount = countStatus OutcomeStatusFailed (rcOutcomes rec),
        inPromotionState = promotionStateOf [] (rcPromotionLinks rec),
        inContextHealthStatus = trimSpace (chStatus health), inContextHealthReason = reason,
        inLatestRunAgeSeconds = latestRunAge now health,
        inClaimCheckVerified = (case cc of None \<Rightarrow> 0 | Some r \<Rightarrow> smVerified (crsSummary r)),
        inClaimCheckActionable = (case cc of None \<Rightarrow> 0 | Some r \<Rightarrow> smActionable (crsSummary r)),
        inImpactPartial = (case impact of None \<Rightarrow> False | Some i \<Rightarrow> iaaPartial i),
        inImpactResidualUnknownCount = (case impact of None \<Rightarrow> 0 | Some i \<Rightarrow> int (length (iaaResidualUnknowns i))),
        inImpactSecurityFlagCount = (case impact of None \<Rightarrow> 0 | Some i \<Rightarrow> int (length (iaaSecurityFlags i)))\<rparr>)))))))"

subsection \<open>Factors\<close>

definition factor ::
    "string \<Rightarrow> int \<Rightarrow> int \<Rightarrow> string \<Rightarrow> string \<Rightarrow> string \<Rightarrow> ConfidenceFactor" where
  "factor name delta weight status summary ref =
     \<lparr>ftName = name, ftScoreDelta = delta, ftWeight = weight, ftStatus = status, ftSummary = summary,
      ftSourceRef = ref\<rparr>"

definition evidenceCountFactor :: "int \<Rightarrow> ConfidenceFactor" where
  "evidenceCountFactor count =
     (if count = 0 then factor ''evidence_count'' (-25) 25 FactorStatusNegative ''no evidence refs are linked'' ''claim.evidence''
      else if count = 1 then factor ''evidence_count'' (-10) 25 FactorStatusNegative ''one evidence ref is linked'' ''claim.evidence''
      else if count \<le> 3 then factor ''evidence_count'' 10 25 FactorStatusPositive ''two or three evidence refs are linked'' ''claim.evidence''
      else factor ''evidence_count'' 15 25 FactorStatusPositive ''four or more evidence refs are linked'' ''claim.evidence'')"

definition evidenceDiversityFactor :: "int \<Rightarrow> ConfidenceFactor" where
  "evidenceDiversityFactor kindCount =
     (if kindCount \<le> 1 then factor ''evidence_kind_diversity'' (-5) 10 FactorStatusNegative ''evidence uses one kind or none'' ''claim.evidence_kinds''
      else if kindCount = 2 then factor ''evidence_kind_diversity'' 5 10 FactorStatusPositive ''evidence uses two kinds'' ''claim.evidence_kinds''
      else factor ''evidence_kind_diversity'' 10 10 FactorStatusPositive ''evidence uses at least three kinds'' ''claim.evidence_kinds'')"

definition contextHealthFactor :: "string \<Rightarrow> ConfidenceFactor" where
  "contextHealthFactor status =
     (if status = ContextHealthReady then factor ''context_health'' 10 20 FactorStatusPositive ''context graph is ready'' ''context_health.status''
      else if status \<in> {ContextHealthSyncing, ContextHealthWarmingUp}
      then factor ''context_health'' (-5) 20 FactorStatusNegative ''context graph is catching up'' ''context_health.status''
      else if status = ContextHealthStale then factor ''context_health'' (-10) 20 FactorStatusNegative ''context graph is stale'' ''context_health.status''
      else if status \<in> {ContextHealthDegraded, ContextHealthEmpty, ContextHealthDisabled, ContextHealthUnavailable}
      then factor ''context_health'' (-20) 20 FactorStatusNegative ''context graph is degraded or unavailable'' ''context_health.status''
      else factor ''context_health'' (-20) 20 FactorStatusNegative ''context health status is missing'' ''context_health.status'')"

definition freshnessFactor :: "RunSummary option \<Rightarrow> int \<Rightarrow> ConfidenceFactor" where
  "freshnessFactor latest age =
     (if latest = None \<or> rsLastProgressAt (the latest) = zeroTime
      then factor ''latest_ingestion_freshness'' (-10) 10 FactorStatusNegative ''latest ingestion progress is unavailable'' ''context_health.latest_run''
      else if age \<le> 86400 then factor ''latest_ingestion_freshness'' 10 10 FactorStatusPositive ''latest ingestion progressed within 24 hours'' ''context_health.latest_run''
      else if age \<le> 604800 then factor ''latest_ingestion_freshness'' 0 10 FactorStatusNeutral ''latest ingestion progressed within seven days'' ''context_health.latest_run''
      else factor ''latest_ingestion_freshness'' (-10) 10 FactorStatusNegative ''latest ingestion is older than seven days'' ''context_health.latest_run'')"

definition claimCheckFactor :: "ClaimCheckResult option \<Rightarrow> ConfidenceInputs \<Rightarrow> ConfidenceFactor" where
  "claimCheckFactor result inputs =
     (if result = None \<or> smTotal (crsSummary (the result)) = 0
      then factor ''claim_checks'' 0 15 FactorStatusNeutral ''claim checks are unavailable'' ''claim_check.summary''
      else if inClaimCheckActionable inputs > 0
      then factor ''claim_checks'' (-15) 15 FactorStatusNegative ''actionable stale or unverified claim checks exist'' ''claim_check.summary''
      else factor ''claim_checks'' 10 15 FactorStatusPositive ''all checked claims are verified'' ''claim_check.summary'')"

definition impactFactor :: "ImpactAnalysis option \<Rightarrow> ConfidenceInputs \<Rightarrow> ConfidenceFactor" where
  "impactFactor impact inputs =
     (if impact = None
      then factor ''impact_analysis'' 0 15 FactorStatusNeutral ''impact analysis is unavailable'' ''impact.summary''
      else let (delta, status, summary) =
             (if inImpactPartial inputs \<or> inImpactResidualUnknownCount inputs > 0
              then (-10, FactorStatusNegative, ''impact analysis is partial or has residual unknowns'')
              else (5, FactorStatusPositive, ''impact analysis found no residual unknowns''));
             (delta', status', summary') =
             (if inImpactSecurityFlagCount inputs > 0
              then (delta - 10, FactorStatusNegative, ''impact analysis has security flags'')
              else (delta, status, summary))
           in factor ''impact_analysis'' delta' 15 status' summary' ''impact.summary'')"

definition hasDecisionState :: "ClaimRecord \<Rightarrow> string \<Rightarrow> bool" where
  "hasDecisionState rec state = list_ex (\<lambda>d. dcState d = state) (rcDecisions rec)"

definition lifecycleFactors :: "ClaimRecord \<Rightarrow> ConfidenceInputs \<Rightarrow> ConfidenceFactor list" where
  "lifecycleFactors rec inputs =
     (if hasDecisionState rec ''rejected''
      then [factor ''evidence_graph_rejected_decision'' (-30) 30 FactorStatusNegative ''claim has a rejected decision'' ''claim.decisions'']
      else if hasDecisionState rec ''validated'' \<or> hasDecisionState rec ''promoted''
      then [factor ''evidence_graph_validated_decision'' 10 10 FactorStatusPositive ''claim has a validated or promoted decision'' ''claim.decisions'']
      else [])
     @ (if inPassedOutcomeCount inputs > 0
        then [factor ''evidence_graph_passed_outcome'' 15 15 FactorStatusPositive ''claim has a passed outcome'' ''claim.outcomes''] else [])
     @ (if inFailedOutcomeCount inputs > 0
        then [factor ''evidence_graph_failed_outcome'' (-20) 20 FactorStatusNegative ''claim has a failed outcome'' ''claim.outcomes''] else [])
     @ (if inPromotionState inputs = PromotionStatePromoted \<and> inPassedOutcomeCount inputs > 0
        then [factor ''evidence_graph_promoted_link'' 15 15 FactorStatusPositive ''claim has a promoted link with a passed outcome'' ''claim.promotions''] else [])
     @ (if cmStatus (rcClaim rec) = ClaimStatusCandidate \<and> inDecisionCount inputs = 0
          \<and> inPassedOutcomeCount inputs = 0 \<and> inFailedOutcomeCount inputs = 0 \<and> inPromotionState inputs = []
        then [factor ''evidence_graph_candidate_only'' (-10) 10 FactorStatusNegative ''claim remains candidate-only'' ''claim.status''] else [])"

text \<open>The factors in the order in which \<open>Score\<close> adds them.\<close>

definition scoreFactors ::
    "ClaimRecord \<Rightarrow> ContextHealth \<Rightarrow> ClaimCheckResult option \<Rightarrow> ImpactAnalysis option \<Rightarrow> ConfidenceInputs
      \<Rightarrow> ConfidenceFactor list" where
  "scoreFactors rec health cc impact inputs =
     [evidenceCountFactor (inEvidenceCount inputs),
      evidenceDiversityFactor (int (length (inEvidenceKinds inputs))),
      contextHealthFactor (inContextHealthStatus inputs),
      freshnessFactor (chLatestRun health) (inLatestRunAgeSeconds inputs),
      claimCheckFactor cc inputs, impactFactor impact inputs]
     @ lifecycleFactors rec inputs"

definition validateFactor :: "ConfLib \<Rightarrow> ConfidenceFactor \<Rightarrow> unit res" where
  "validateFactor lib f =
     tryE (safeIdentifier_cf (ftName f) ''factor_name'') (\<lambda>_.
     tryE (safeRequiredText_cf lib (ftSummary f) ''factor_summary'' 300) (\<lambda>_.
     tryE (safeRefIdentifier_cf lib (ftSourceRef f) ''factor_source_ref'') (\<lambda>_.
     check (safeFactorStatus (ftStatus f)))))"

text \<open>The closure \<open>add\<close>, with the factors and the score so far as its state.\<close>

fun addFactors :: "ConfLib \<Rightarrow> ConfidenceFactor list \<Rightarrow> ConfidenceFactor list \<times> int
      \<Rightarrow> (ConfidenceFactor list \<times> int) res" where
  "addFactors lib [] (factors, score) = Inr (factors, score)"
| "addFactors lib (f # fs) (factors, score) =
     tryE (validateFactor lib f) (\<lambda>_. addFactors lib fs (factors @ [f], score + ftScoreDelta f))"

subsection \<open>Score, band and recommendation\<close>

definition clampScore :: "int \<Rightarrow> int" where
  "clampScore score = (if score < 0 then 0 else if score > 100 then 100 else score)"

definition scoreBand :: "int \<Rightarrow> string" where
  "scoreBand score =
     (if score = 0 then ScoreBandUnknown else if score \<ge> 85 then ScoreBandHigh
      else if score \<ge> 60 then ScoreBandMedium else ScoreBandLow)"

definition isDegradedContext :: "string \<Rightarrow> bool" where
  "isDegradedContext status =
     (status \<in> {ContextHealthDegraded, ContextHealthEmpty, ContextHealthDisabled, ContextHealthUnavailable})"

definition recommendationFor ::
    "int \<Rightarrow> string \<Rightarrow> ClaimRecord \<Rightarrow> ConfidenceInputs \<Rightarrow> bool \<Rightarrow> bool \<Rightarrow> string" where
  "recommendationFor score band rec inputs claimCheckAvailable impactAvailable =
     (if hasDecisionState rec ''rejected'' \<or> inFailedOutcomeCount inputs > 0 then RecommendationReject
      else if inEvidenceCount inputs = 0 \<or> score = 0 \<or> band = ScoreBandUnknown then RecommendationInsufficientEvidence
      else if score \<ge> 85 \<and> inPassedOutcomeCount inputs > 0 \<and> inClaimCheckActionable inputs = 0
        \<and> \<not> isDegradedContext (inContextHealthStatus inputs)
      then (if \<not> claimCheckAvailable \<or> \<not> impactAvailable then RecommendationVerify else RecommendationPromote)
      else if score \<ge> 60 \<and> score \<le> 84 then RecommendationVerify
      else if score \<ge> 40 \<and> score \<le> 59 \<or> inImpactPartial inputs \<or> inContextHealthStatus inputs = ContextHealthStale
        \<or> isDegradedContext (inContextHealthStatus inputs) \<or> inClaimCheckActionable inputs > 0
      then RecommendationReview
      else RecommendationVerify)"

definition letterEncode_cf :: "8 word list \<Rightarrow> string" where
  "letterEncode_cf = letterEncode"

definition deterministicID :: "ConfLib \<Rightarrow> string \<Rightarrow> string \<Rightarrow> string" where
  "deterministicID lib projectID claimID =
     ''confidence_'' @ letterEncode_cf (take 12 (clSha256 lib (projectID @ [CHR 0x00] @ claimID)))"

definition validateAssessment :: "ConfLib \<Rightarrow> ConfidenceAssessment \<Rightarrow> unit res" where
  "validateAssessment lib a =
     tryE (safeRefIdentifier_cf lib (caID a) ''assessment_id'') (\<lambda>_.
     tryE (safeRefIdentifier_cf lib (caProjectID a) ''project_id'') (\<lambda>_.
     tryE (safeRefIdentifier_cf lib (caClaimID a) ''claim_id'') (\<lambda>_.
     tryE (safeRefIdentifier_cf lib (caClaimRef a) ''claim_ref'') (\<lambda>_.
     tryE (safeOptionalRefIdentifier_cf lib (caRunID a) ''run_id'') (\<lambda>_.
     tryE (safeOptionalRefIdentifier_cf lib (caTraceID a) ''trace_id'') (\<lambda>_.
     tryE (failIf (caScore a < 0 \<or> caScore a > 100) (ErrInvalidInput ''score is out of bounds'')) (\<lambda>_.
     tryE (safeBand (caBand a)) (\<lambda>_.
     tryE (safeRecommendation (caRecommendation a)) (\<lambda>_.
     tryE (failIf (caFactors a = []) (ErrInvalidInput ''factors are required'')) (\<lambda>_.
     tryE (checkAll (validateFactor lib) (caFactors a)) (\<lambda>_.
     tryE (checkAll safeEvidenceKind_cf (inEvidenceKinds (caInputs a))) (\<lambda>_.
     check (setIf (inPromotionState (caInputs a) \<noteq> [])
       (safePromotionState_cf (inPromotionState (caInputs a))) [])))))))))))))"

definition mismatch :: "string \<Rightarrow> string \<Rightarrow> bool" where
  "mismatch other projectID = (other \<noteq> [] \<and> other \<noteq> projectID)"

definition svcScore ::
    "ConfLib \<Rightarrow> time \<Rightarrow> time \<Rightarrow> ClaimRecord \<Rightarrow> ContextHealth \<Rightarrow> ClaimCheckResult option \<Rightarrow> ImpactAnalysis option
      \<Rightarrow> ConfidenceAssessment res" where
  "svcScore lib now1 now2 rec health cc impact =
     tryE (safeRefIdentifier_cf lib (cmProjectID (rcClaim rec)) ''project_id'') (\<lambda>projectID.
     tryE (safeRefIdentifier_cf lib (cmID (rcClaim rec)) ''claim_id'') (\<lambda>claimID.
     tryE (safeRefIdentifier_cf lib (cmClaimRef (rcClaim rec)) ''claim_ref'') (\<lambda>claimRef.
     tryE (safeOptionalRefIdentifier_cf lib (cmRunID (rcClaim rec)) ''run_id'') (\<lambda>runID.
     tryE (safeOptionalRefIdentifier_cf lib (cmTraceID (rcClaim rec)) ''trace_id'') (\<lambda>traceID.
     tryE (validateClaimRecordMetadata lib rec) (\<lambda>_.
     tryE (failIf (mismatch (chProjectID health) projectID) (ErrInvalidInput ''context health project mismatch'')) (\<lambda>_.
     tryE (failIf (cc \<noteq> None \<and> mismatch (crsProjectID (the cc)) projectID) (ErrInvalidInput ''claim check project mismatch'')) (\<lambda>_.
     tryE (failIf (impact \<noteq> None \<and> mismatch (iaaProjectID (the impact)) projectID) (ErrInvalidInput ''impact project mismatch'')) (\<lambda>_.
     tryE (buildInputs lib now1 rec health cc impact) (\<lambda>inputs.
     tryE (addFactors lib (scoreFactors rec health cc impact inputs) ([], 50)) (\<lambda>(factors, score0).
     let score = clampScore score0;
         band = (if inContextHealthStatus inputs = [] then ScoreBandUnknown else scoreBand score);
         recommendation = recommendationFor score band rec inputs
           (cc \<noteq> None \<and> smTotal (crsSummary (the cc)) > 0) (impact \<noteq> None);
         assessment = \<lparr>caID = deterministicID lib projectID claimID, caProjectID = projectID,
           caClaimID = claimID, caClaimRef = claimRef, caRunID = runID, caTraceID = traceID,
           caScore = score, caBand = band, caRecommendation = recommendation, caFactors = factors,
           caInputs = inputs, caCreatedAt = now2, caUpdatedAt = now2\<rparr> in
     tryE (validateAssessment lib assessment) (\<lambda>_. Inr assessment))))))))))))"

end
