(* ===== verification/Confidence_Service.thy ===== *)
theory Confidence_Service
  imports Confidence_Score Confidence_Model
begin

section \<open>Confidence scores: the service and its inputs\<close>

text \<open>
  The stored assessments (\<open>ScoreClaim\<close>, \<open>GetAssessment\<close>, \<open>ListAssessments\<close>) and the adapter of
  \<open>input.go\<close>, which collects the inputs of a score from four providers. The providers are Go
  interfaces: fields of \<open>InputAdapter\<close> over a world of any type. A nil adapter, an adapter without
  a provider and a service without a store are \<open>None\<close>.
\<close>

subsection \<open>Assessments\<close>

definition svcScoreClaim ::
    "ConfLib \<Rightarrow> ConfidenceStore option \<Rightarrow> time \<Rightarrow> time \<Rightarrow> ReliabilityInputs
      \<Rightarrow> ConfidenceAssessment res \<times> ConfidenceStore option" where
  "svcScoreClaim lib store now1 now2 inputs =
     tryS (svcScore lib now1 now2 (riClaim inputs) (riHealth inputs) (riClaimCheck inputs) (riImpact inputs)) store (\<lambda>a.
     case store of
       None \<Rightarrow> (Inr a, None)
     | Some st \<Rightarrow> (case memCreateAssessment st a of (r, st') \<Rightarrow> (r, Some st')))"

definition svcGetAssessment ::
    "ConfLib \<Rightarrow> ConfidenceStore option \<Rightarrow> string \<Rightarrow> string \<Rightarrow> ConfidenceAssessment res" where
  "svcGetAssessment lib store projectID0 claimID0 =
     (case store of None \<Rightarrow> Inl (ErrInvalidInput ''store is required'')
      | Some st \<Rightarrow>
          tryE (safeRefIdentifier_cf lib projectID0 ''project_id'') (\<lambda>projectID.
          tryE (safeRefIdentifier_cf lib claimID0 ''claim_id'') (\<lambda>claimID.
          memGetAssessment st projectID claimID)))"

definition outOfBounds :: "int option \<Rightarrow> bool" where
  "outOfBounds m = (case m of None \<Rightarrow> False | Some n \<Rightarrow> n < 0 \<or> n > 100)"

definition validateFilter :: "ConfLib \<Rightarrow> AssessmentFilter \<Rightarrow> AssessmentFilter res" where
  "validateFilter lib flt =
     tryE (safeOptionalBand (afBand flt)) (\<lambda>band.
     tryE (safeOptionalRecommendation (afRecommendation flt)) (\<lambda>recommendation.
     tryE (safeOptionalRefIdentifier_cf lib (afRunID flt) ''run_id'') (\<lambda>runID.
     tryE (safeOptionalRefIdentifier_cf lib (afTraceID flt) ''trace_id'') (\<lambda>traceID.
     tryE (failIf (outOfBounds (afMinScore flt)) (ErrInvalidInput ''min_score is out of bounds'')) (\<lambda>_.
     tryE (failIf (outOfBounds (afMaxScore flt)) (ErrInvalidInput ''max_score is out of bounds'')) (\<lambda>_.
     tryE (failIf (afMinScore flt \<noteq> None \<and> afMaxScore flt \<noteq> None \<and> the (afMinScore flt) > the (afMaxScore flt))
       (ErrInvalidInput ''min_score exceeds max_score'')) (\<lambda>_.
     Inr (flt\<lparr>afBand := band, afRecommendation := recommendation, afRunID := runID, afTraceID := traceID\<rparr>))))))))"

definition svcListAssessments ::
    "ConfLib \<Rightarrow> ConfidenceStore option \<Rightarrow> string \<Rightarrow> AssessmentFilter \<Rightarrow> ConfidenceAssessment list res" where
  "svcListAssessments lib store projectID0 flt0 =
     (case store of None \<Rightarrow> Inl (ErrInvalidInput ''store is required'')
      | Some st \<Rightarrow>
          tryE (safeRefIdentifier_cf lib projectID0 ''project_id'') (\<lambda>projectID.
          tryE (validateFilter lib flt0) (\<lambda>flt.
          Inr (memListAssessments st projectID flt))))"

subsection \<open>Paths\<close>

definition unsafeChangedPath :: "ConfLib \<Rightarrow> string \<Rightarrow> bool" where
  "unsafeChangedPath lib path =
     (length path > 300 \<or> hasPrefix path ''/'' \<or> contains path ''..'' \<or> isAbs path
      \<or> containsProhibitedData_cf path \<or> containsURL_cf lib path \<or> rootMarker path
      \<or> looksLikeSourceDump path \<or> contains path ''//'')"

definition safeChangedPath :: "ConfLib \<Rightarrow> string \<Rightarrow> string res" where
  "safeChangedPath lib path0 =
     (let path = trimSpace (replaceAll backslash ''/'' path0)
      in if path = [] then Inr []
         else if unsafeChangedPath lib path then Inl (ErrInvalidInput ''changed path is unsafe'')
         else if \<not> list_all identByte path then Inl (ErrInvalidInput ''changed path is unsafe'')
         else Inr path)"

definition safeClaimCheckPath :: "ConfLib \<Rightarrow> string \<Rightarrow> string res" where
  "safeClaimCheckPath lib path =
     tryE (safeChangedPath lib path) (\<lambda>normalized.
     if normalized = [] then Inl (ErrInvalidInput ''claim check path is required'')
     else if normalized = ''README.md'' \<or> hasPrefix normalized ''docs/'' \<or> hasPrefix normalized ''api/''
       \<or> normalized = ''.ai/skills/mivia-mcp/SKILL.md''
     then Inr normalized
     else Inl (ErrInvalidInput ''claim check path is out of scope''))"

text \<open>The closure \<open>add\<close>: \<open>seen\<close> is the set of the paths in \<open>out\<close>.\<close>

fun addPaths :: "ConfLib \<Rightarrow> string list \<Rightarrow> string list \<Rightarrow> string list res" where
  "addPaths lib out [] = Inr out"
| "addPaths lib out (path # paths) =
     tryE (safeChangedPath lib path) (\<lambda>normalized.
     if normalized = [] \<or> normalized \<in> set out then addPaths lib out paths
     else addPaths lib (out @ [normalized]) paths)"

definition confidenceChangedPaths :: "ConfLib \<Rightarrow> ClaimRecord \<Rightarrow> string list \<Rightarrow> string list res" where
  "confidenceChangedPaths lib rec requested =
     tryE (addPaths lib [] requested) (\<lambda>out1.
     tryE (addPaths lib out1 (concat (map acChangedFiles (rcActions rec)))) (\<lambda>out2.
     Inr (sort out2)))"

definition claimCheckRequest :: "ConfLib \<Rightarrow> string \<Rightarrow> ReliabilityInputOptions \<Rightarrow> ClaimCheckRequest res" where
  "claimCheckRequest lib projectID options =
     tryE (mapE (\<lambda>doc. tryE (safeClaimCheckPath lib (cdPath doc)) (\<lambda>path.
       Inr \<lparr>cdPath = path, cdText = cdText doc\<rparr>)) (roClaimCheckDocs options)) (\<lambda>docs.
     tryE (mapE (safeClaimCheckPath lib) (roClaimCheckPaths options)) (\<lambda>paths.
     Inr \<lparr>ckProjectID = projectID, ckDocuments = docs, ckSelectedPaths = paths,
        ckKnownTools = roClaimCheckTools options, ckKnownRoutes = roClaimCheckRoutes options,
        ckIncludeVerified = roIncludeVerified options\<rparr>))"

subsection \<open>The adapter\<close>

record 'w InputAdapter =
  adEvidence :: "(string \<Rightarrow> string \<Rightarrow> ('w, ClaimRecord) act) option"
  adHealth :: "(string \<Rightarrow> ('w, ContextHealth) act) option"
  adChecker :: "(ClaimCheckRequest \<Rightarrow> ('w, ClaimCheckResult) act) option"
  adImpact :: "(ImpactAnalysisRequest \<Rightarrow> ('w, ImpactAnalysis) act) option"

definition adapterCheck ::
    "ConfLib \<Rightarrow> 'w InputAdapter \<Rightarrow> string \<Rightarrow> ReliabilityInputOptions \<Rightarrow> ('w, ClaimCheckResult option) act" where
  "adapterCheck lib ad projectID options =
     (case adChecker ad of
        None \<Rightarrow> retS None
      | Some checker \<Rightarrow>
          if roClaimCheckDocs options \<noteq> [] \<or> roClaimCheckPaths options \<noteq> [] then
            seqS (liftS (claimCheckRequest lib projectID options)) (\<lambda>request.
            seqS (checker request) (\<lambda>result. retS (Some result)))
          else retS None)"

definition adapterImpact ::
    "'w InputAdapter \<Rightarrow> string \<Rightarrow> string list \<Rightarrow> ('w, ImpactAnalysis option) act" where
  "adapterImpact ad projectID changedPaths =
     (case adImpact ad of
        None \<Rightarrow> retS None
      | Some analyze \<Rightarrow>
          if changedPaths \<noteq> [] then
            seqS (analyze \<lparr>irProjectID = projectID, irChangedPaths = changedPaths, irDiffScope = [], irMaxDiffBytes = 0\<rparr>)
              (\<lambda>impact. retS (Some impact))
          else retS None)"

definition adapterBuild ::
    "ConfLib \<Rightarrow> 'w InputAdapter option \<Rightarrow> ReliabilityInputOptions \<Rightarrow> ('w, ReliabilityInputs) act" where
  "adapterBuild lib adapter options =
     (case adapter of
        None \<Rightarrow> liftS (Inl (ErrInvalidInput ''reliability input adapter is required''))
      | Some ad \<Rightarrow> (case adEvidence ad of
        None \<Rightarrow> liftS (Inl (ErrInvalidInput ''evidence claim reader is required''))
      | Some getClaim \<Rightarrow> (case adHealth ad of
        None \<Rightarrow> liftS (Inl (ErrInvalidInput ''context health provider is required''))
      | Some contextHealth \<Rightarrow>
          seqS (liftS (safeRefIdentifier_cf lib (roProjectID options) ''project_id'')) (\<lambda>projectID.
          seqS (liftS (safeRefIdentifier_cf lib (roClaimID options) ''claim_id'')) (\<lambda>claimID.
          seqS (getClaim projectID claimID) (\<lambda>rec.
          if mismatch (cmProjectID (rcClaim rec)) projectID
          then liftS (Inl (ErrInvalidInput ''claim project mismatch''))
          else if mismatch (cmID (rcClaim rec)) claimID
          then liftS (Inl (ErrInvalidInput ''claim id mismatch''))
          else
            seqS (contextHealth projectID) (\<lambda>health.
            seqS (adapterCheck lib ad projectID options) (\<lambda>cc.
            seqS (liftS (confidenceChangedPaths lib rec (roChangedPaths options))) (\<lambda>changedPaths.
            seqS (adapterImpact ad projectID changedPaths) (\<lambda>impact.
            retS \<lparr>riClaim = rec, riHealth = health, riClaimCheck = cc, riImpact = impact\<rparr>))))))))))"

text \<open>\<open>ScoreClaimWithInputs\<close>, over the world and the store.\<close>

definition svcScoreClaimWithInputs ::
    "ConfLib \<Rightarrow> 'w InputAdapter option \<Rightarrow> time \<Rightarrow> time \<Rightarrow> ReliabilityInputOptions
      \<Rightarrow> ('w \<times> ConfidenceStore option, ConfidenceAssessment) act" where
  "svcScoreClaimWithInputs lib ad now1 now2 options =
     (\<lambda>(w, store). case adapterBuild lib ad options w of
        (Inl e, w') \<Rightarrow> (Inl e, (w', store))
      | (Inr inputs, w') \<Rightarrow>
          (case svcScoreClaim lib store now1 now2 inputs of (r, store') \<Rightarrow> (r, (w', store'))))"

end
