(* ===== verification/Confidence_Lemmas.thy ===== *)
theory Confidence_Lemmas
  imports Confidence_Service
begin

section \<open>Confidence scores: what scoring computes\<close>

subsection \<open>Plain texts pass the text check\<close>

text \<open>
  The texts of the factors are written in the code: lower-case letters, digits, spaces and
  \<open>_-.\<close>. For such a text the check comes down to the few markers of these bytes.
\<close>

definition plainByte :: "char \<Rightarrow> bool" where
  "plainByte c = (inCls (lowerCls @ digitCls) c \<or> c \<in> set '' _-.'')"

definition plainMarkers :: "string list" where
  "plainMarkers = [''select '', ''insert into'', ''update '', ''delete from'', ''pragma '', ''drop '',
     ''return n'', ''raw prompt'', ''raw completion'', ''raw source'', ''source dump'', ''raw stderr'',
     ''provider payload'', ''bearer '', ''begin private key'', ''func '', ''package main'', ''www.'', ''-----begin'']"

definition plainText :: "string \<Rightarrow> bool" where
  "plainText s = (s \<noteq> [] \<and> hd s \<noteq> CHR '' '' \<and> last s \<noteq> CHR '' '' \<and> list_all plainByte s
     \<and> \<not> list_ex (contains s) plainMarkers \<and> \<not> matchString phonePattern s)"

lemma plainByte_lower: "plainByte c \<Longrightarrow> lowerByte c = c \<and> (of_char c :: nat) < 128"
  by (auto simp: plainByte_def inCls_def lowerCls_def digitCls_def rng_def lowerByte_def Let_def)

lemma ascii_toLower:
  "list_all (\<lambda>c. lowerByte c = c \<and> (of_char c :: nat) < 128) s \<Longrightarrow> toLower s = s"
  by (induction s rule: toLower.induct) (auto simp: runeU0130_def runeU212A_def bytes_def)

lemma plain_toLower: "list_all plainByte s \<Longrightarrow> toLower s = s"
  by (rule ascii_toLower) (auto simp: list_all_iff plainByte_lower)

lemma plain_trim: "plainText s \<Longrightarrow> trimSpace s = s"
proof -
  assume s: "plainText s"
  have "graphic c" if "plainByte c" "c \<noteq> CHR '' ''" for c
    using that by (auto simp: plainByte_def inCls_def lowerCls_def digitCls_def rng_def graphic_def Let_def)
  then show "trimSpace s = s"
    using s by (intro trimSpace_graphic) (auto simp: plainText_def list_all_iff)
qed

lemma plain_absent: "list_all plainByte s \<Longrightarrow> \<not> list_all plainByte p \<Longrightarrow> \<not> contains s p"
  by (auto simp: list_all_iff dest!: set_mono_sublist)

lemmas plainByte_eval = plainByte_def inCls_def lowerCls_def digitCls_def rng_def

lemma markers_plain: "\<forall>m \<in> set prohibitedMarkers_cf. m \<in> set plainMarkers \<or> \<not> list_all plainByte m"
  by (simp add: prohibitedMarkers_cf_def plainMarkers_def plainByte_eval)

lemma plain_no_marker: "plainText s \<Longrightarrow> \<not> containsProhibitedMarker_cf s"
  using markers_plain plain_absent [of s]
  by (fastforce simp: plainText_def containsProhibitedMarker_cf_def hasMarker_def list_ex_iff plain_toLower Let_def)

lemma plain_no_email: "list_all plainByte s \<Longrightarrow> \<not> matchString emailPattern s"
proof
  assume s: "list_all plainByte s" and "matchString emailPattern s"
  then obtain a m b where "s = a @ m @ b" and "accepts emailPattern m" by (auto simp: matchString_iff)
  then have "CHR ''@'' \<in> set s"
    using accepts_needs_char [of emailPattern m] by (auto simp: emailPattern_def)
  with s show False by (auto simp: list_all_iff plainByte_eval)
qed

lemma plain_no_dump: "plainText s \<Longrightarrow> \<not> looksLikeSourceDump s"
proof -
  assume s: "plainText s"
  then have p: "list_all plainByte s" by (simp add: plainText_def)
  have "plainByte c \<Longrightarrow> (of_char c :: nat) \<ge> 32" for c
    by (auto simp: plainByte_eval Let_def)
  moreover have "(of_char newline :: nat) = 10" by (simp add: newline_def)
  ultimately have "\<not> plainByte newline" by force
  then have n: "filter (\<lambda>c. c = newline) s = []" using p by (auto simp: filter_empty_conv list_all_iff)
  have "\<not> contains s ''package main''" "\<not> contains s ''func ''" "\<not> contains s ''-----begin''"
    using s by (simp_all add: plainText_def plainMarkers_def)
  moreover have "\<not> list_all plainByte ''traceback (most recent call last)''"
    "\<not> list_all plainByte [CHR 0x60, CHR 0x60, CHR 0x60]"
    by (simp_all add: plainByte_eval)
  ultimately show ?thesis
    using n plain_absent [OF p] by (simp add: looksLikeSourceDump_def plain_toLower [OF p] Let_def)
qed

lemma plain_no_root: "list_all plainByte s \<Longrightarrow> \<not> rootMarker s"
proof -
  assume p: "list_all plainByte s"
  have "\<not> list_all plainByte backslash" by (simp add: backslash_def plainByte_eval)
  then have "replaceAll backslash ''/'' s = s"
    using replaceAll_absent plain_absent [OF p] by blast
  moreover have "\<forall>m \<in> {''/home/'', ''/users/'', ''wsl.localhost/'', ''c:/''}. \<not> list_all plainByte m"
    by (simp add: plainByte_eval)
  ultimately show ?thesis using plain_absent [OF p] by (auto simp: rootMarker_def plain_toLower [OF p] Let_def)
qed

text \<open>What is used of \<open>url.Parse\<close> and \<open>sha256.Sum256\<close>: an absolute URL with a host has \<open>://\<close> in it,
  and a digest has 32 bytes.\<close>

definition confLaw :: "ConfLib \<Rightarrow> bool" where
  "confLaw lib \<longleftrightarrow> (\<forall>v. clAbsURL lib v \<longrightarrow> contains v ''://'') \<and> (\<forall>v. length (clSha256 lib v) = 32)"

lemma law_URL: "confLaw lib \<Longrightarrow> \<not> contains v ''://'' \<Longrightarrow> containsURL_cf lib v \<longleftrightarrow> contains (toLower v) ''www.''"
  by (auto simp: containsURL_cf_def confLaw_def)

lemma plain_text:
  assumes lib: "confLaw lib" and s: "plainText s" and "length s \<le> mx"
  shows "safeRequiredText_cf lib s f mx = Inr s"
proof -
  have p: "list_all plainByte s" and w: "\<not> contains s ''www.''"
    using s by (simp_all add: plainText_def plainMarkers_def)
  have "\<not> list_all plainByte ''://''" by (simp add: plainByte_eval)
  then have "\<not> containsURL_cf lib s"
    using law_URL [OF lib] plain_absent [OF p] w by (simp add: plain_toLower [OF p])
  with assms show ?thesis
    by (simp add: safeRequiredText_cf_def requiredWith_def safeOptionalText_cf_def safeTextWith_def Let_def
        plain_trim containsProhibitedData_cf_def plain_no_marker plain_no_email [OF p] plain_no_dump
        plain_no_root [OF p] plainText_def)
qed

subsection \<open>Identifiers\<close>

lemma markers_not_ident_cf: "\<forall>m \<in> set prohibitedMarkers_cf. \<not> list_all identByte m"
  by (simp add: prohibitedMarkers_cf_def identByte_def inCls_def lowerCls_def upperCls_def digitCls_def rng_def)

lemma ident_no_marker_cf: "list_all identByte s \<Longrightarrow> \<not> containsProhibitedMarker_cf s"
  unfolding containsProhibitedMarker_cf_def by (rule identByte_hasMarker [OF _ markers_not_ident_cf])

lemma ident_data_cf: "list_all identByte s \<Longrightarrow> containsProhibitedData_cf s \<longleftrightarrow> matchString phonePattern s"
  by (simp add: containsProhibitedData_cf_def ident_no_marker_cf identByte_email)

lemma safeIdentifier_cf_Inr [ident_simps]:
  "safeIdentifier_cf v f = Inr r \<longleftrightarrow> r = trimSpace v \<and> r \<noteq> [] \<and> length r \<le> 200 \<and> list_all identByte r
     \<and> \<not> matchString phonePattern r"
  by (auto simp: safeIdentifier_cf_def safeIdentifierWith_Inr ident_data_cf)

text \<open>The references both services accept, without phone numbers and \<open>www.\<close>.\<close>

definition refForm_cf :: "string \<Rightarrow> bool" where
  "refForm_cf r \<longleftrightarrow> refForm r \<and> \<not> matchString phonePattern r \<and> \<not> contains (toLower r) ''www.''"

lemma ident_no_colon: "list_all identByte s \<Longrightarrow> \<not> contains s ''://''"
  by (rule identByte_absent)
    (simp_all add: identByte_def inCls_def lowerCls_def upperCls_def digitCls_def rng_def)

lemma safeRefIdentifier_cf_form:
  assumes "safeRefIdentifier_cf lib v f = Inr r"
  shows "r = trimSpace v \<and> refForm_cf r"
proof -
  have i: "list_all identByte r" and *: "r = trimSpace v" "r \<noteq> []" "length r \<le> 200" "\<not> containsProhibitedData_cf r"
    "\<not> hasPrefix r ''/''" "\<not> contains r ''..''" "\<not> rootMarker r" "\<not> containsURL_cf lib r"
    using assms unfolding safeRefIdentifier_cf_def safeRefIdentifierWith_Inr by blast+
  have "\<not> contains (toLower r) ''www.''" using *(8) by (auto simp: containsURL_cf_def)
  with i * show ?thesis using ident_data_cf [OF i] by (simp add: refForm_cf_def refForm_def)
qed

lemma safeRefIdentifier_cf_Inr:
  assumes lib: "confLaw lib"
  shows "safeRefIdentifier_cf lib v f = Inr r \<longleftrightarrow> r = trimSpace v \<and> refForm_cf r"
proof
  show "safeRefIdentifier_cf lib v f = Inr r \<Longrightarrow> r = trimSpace v \<and> refForm_cf r"
    by (rule safeRefIdentifier_cf_form)
  assume r: "r = trimSpace v \<and> refForm_cf r"
  then have i: "list_all identByte r" unfolding refForm_cf_def refForm_def by blast
  show "safeRefIdentifier_cf lib v f = Inr r"
    using r law_URL [OF lib ident_no_colon [OF i]] ident_no_marker_cf [OF i] ident_data_cf [OF i]
    unfolding safeRefIdentifier_cf_def safeRefIdentifierWith_Inr refForm_cf_def refForm_def by blast
qed

lemma safeOptRef_cf_Inr:
  assumes "confLaw lib"
  shows "safeOptionalRefIdentifier_cf lib v f = Inr r \<longleftrightarrow> r = trimSpace v \<and> (r = [] \<or> refForm_cf r)"
  using safeRefIdentifier_cf_Inr [OF assms]
  by (auto simp: safeOptionalRefIdentifier_cf_def optionalWith_Inr isBlank_def refForm_cf_def refForm_def)

lemma refForm_cf_trim [simp]: "refForm_cf r \<Longrightarrow> trimSpace r = r"
  by (simp add: refForm_cf_def)

section \<open>Confidence scores: no factor makes scoring fail\<close>

text \<open>
  The names, texts and references of the factors are literals of the code; each passes the
  checks of \<open>validateFactor\<close>, and so does the identifier that is derived from the claim. So a
  score fails only when a check of its inputs fails.
\<close>

subsection \<open>References written in the code\<close>

definition plainRefByte :: "char \<Rightarrow> bool" where
  "plainRefByte c = (inCls lowerCls c \<or> c \<in> set ''_.'')"

definition plainRef :: "string \<Rightarrow> bool" where
  "plainRef r = (r \<noteq> [] \<and> length r \<le> 200 \<and> list_all plainRefByte r \<and> \<not> contains r ''..'' \<and> \<not> contains r ''www.'')"

lemma phone_needs_digit:
  assumes "matchString phonePattern s"
  shows "\<exists>c \<in> set s. inCls digitCls c"
proof -
  obtain a m b where s: "s = a @ m @ b" and m: "accepts phonePattern m"
    using assms by (auto simp: matchString_iff)
  then have "\<exists>c \<in> set m. inCls digitCls c"
    by (auto simp: phonePattern_def opt_def accepts_Seq accepts_Cls)
  then show ?thesis using s by auto
qed

lemma plainRefByte_ident: "plainRefByte c \<Longrightarrow> identByte c \<and> plainByte c \<and> c \<noteq> CHR ''/'' \<and> \<not> inCls digitCls c"
  by (auto simp: plainRefByte_def plainByte_def identByte_def inCls_def lowerCls_def upperCls_def digitCls_def
      rng_def Let_def)

lemma plainRef_form: "plainRef r \<Longrightarrow> refForm_cf r"
proof -
  assume r: "plainRef r"
  then have all: "list_all plainRefByte r" by (simp add: plainRef_def)
  then have i: "list_all identByte r" and p: "list_all plainByte r" and sl: "CHR ''/'' \<notin> set r"
    and d: "\<not> (\<exists>c \<in> set r. inCls digitCls c)"
    using plainRefByte_ident by (auto simp: list_all_iff)
  from sl have "\<not> hasPrefix r ''/''" by (auto dest: set_mono_prefix)
  with r i no_slash_rootMarker [OF i sl] d show ?thesis
    by (auto simp: refForm_cf_def refForm_def plainRef_def plain_toLower [OF p] dest: phone_needs_digit)
qed

subsection \<open>Factors\<close>

definition goodFactor :: "ConfidenceFactor \<Rightarrow> bool" where
  "goodFactor f = (plainRef (ftName f) \<and> plainText (ftSummary f) \<and> length (ftSummary f) \<le> 300
     \<and> plainRef (ftSourceRef f) \<and> ftStatus f \<in> set factorStatuses)"

lemma status_trim: "x \<in> set factorStatuses \<Longrightarrow> trimSpace x = x"
  by (rule trimSpace_graphic) (auto simp: factorStatuses_def graphic_def)

lemma goodFactor_valid:
  assumes "confLaw lib" and f: "goodFactor f"
  shows "validateFactor lib f = Inr ()"
proof -
  have n: "refForm_cf (ftName f)" and r: "refForm_cf (ftSourceRef f)"
    using f by (simp_all add: goodFactor_def plainRef_form)
  have "safeIdentifier_cf (ftName f) ''factor_name'' = Inr (ftName f)"
    using n refForm_cf_trim [OF n] unfolding safeIdentifier_cf_Inr refForm_cf_def refForm_def by simp
  moreover have "safeRefIdentifier_cf lib (ftSourceRef f) ''factor_source_ref'' = Inr (ftSourceRef f)"
    using r by (simp add: safeRefIdentifier_cf_Inr [OF assms(1)])
  moreover have "safeRequiredText_cf lib (ftSummary f) ''factor_summary'' 300 = Inr (ftSummary f)"
    using f by (intro plain_text [OF assms(1)]) (simp_all add: goodFactor_def)
  moreover have "safeFactorStatus (ftStatus f) = Inr (ftStatus f)"
    using f by (simp add: safeFactorStatus_def safeEnum_Inr goodFactor_def status_trim)
  ultimately show ?thesis by (simp add: validateFactor_def)
qed

lemma plainText_noDigit:
  "s \<noteq> [] \<Longrightarrow> hd s \<noteq> CHR '' '' \<Longrightarrow> last s \<noteq> CHR '' ''
    \<Longrightarrow> list_all (\<lambda>c. plainByte c \<and> \<not> inCls digitCls c) s \<Longrightarrow> \<not> list_ex (contains s) plainMarkers \<Longrightarrow> plainText s"
  using phone_needs_digit by (auto simp: plainText_def list_all_iff)

lemmas literal_simps = plainMarkers_def plainByte_eval sublist_Cons_right plainRef_def plainRefByte_def

text \<open>The literals, in the order in which the factors use them.\<close>

definition factorRefs :: "string list" where
  "factorRefs =
    [''evidence_count'', ''claim.evidence'', ''evidence_kind_diversity'',
     ''claim.evidence_kinds'', ''context_health'', ''context_health.status'',
     ''latest_ingestion_freshness'', ''context_health.latest_run'', ''claim_checks'',
     ''claim_check.summary'', ''impact_analysis'', ''impact.summary'',
     ''evidence_graph_rejected_decision'', ''claim.decisions'',
     ''evidence_graph_validated_decision'', ''evidence_graph_passed_outcome'',
     ''claim.outcomes'', ''evidence_graph_failed_outcome'', ''evidence_graph_promoted_link'',
     ''claim.promotions'', ''evidence_graph_candidate_only'', ''claim.status'']"

definition factorTexts :: "string list" where
  "factorTexts =
    [''no evidence refs are linked'', ''one evidence ref is linked'',
     ''two or three evidence refs are linked'', ''four or more evidence refs are linked'',
     ''evidence uses one kind or none'', ''evidence uses two kinds'',
     ''evidence uses at least three kinds'', ''context graph is ready'',
     ''context graph is catching up'', ''context graph is stale'',
     ''context graph is degraded or unavailable'', ''context health status is missing'',
     ''latest ingestion progress is unavailable'',
     ''latest ingestion progressed within seven days'']"

definition factorTexts2 :: "string list" where
  "factorTexts2 =
    [''latest ingestion is older than seven days'', ''claim checks are unavailable'',
     ''actionable stale or unverified claim checks exist'', ''all checked claims are verified'',
     ''impact analysis is unavailable'',
     ''impact analysis is partial or has residual unknowns'',
     ''impact analysis found no residual unknowns'', ''impact analysis has security flags'',
     ''claim has a rejected decision'', ''claim has a validated or promoted decision'',
     ''claim has a passed outcome'', ''claim has a failed outcome'',
     ''claim has a promoted link with a passed outcome'', ''claim remains candidate-only'']"

lemma plain_refs: "list_all plainRef factorRefs"
  by (simp add: factorRefs_def literal_simps)

lemma plain_texts: "list_all plainText factorTexts"
  by (simp add: factorTexts_def) (simp add: plainText_noDigit literal_simps)

lemma plain_texts2: "list_all plainText factorTexts2"
  by (simp add: factorTexts2_def) (simp add: plainText_noDigit literal_simps)

lemma within_day: "plainText ''latest ingestion progressed within 24 hours''"
proof -
  have "\<not> matchString phonePattern ''latest ingestion progressed within 24 hours''" by code_simp
  then show ?thesis by (simp add: plainText_def literal_simps)
qed

lemma good_factor:
  "n \<in> set factorRefs \<Longrightarrow> t \<in> set (''latest ingestion progressed within 24 hours'' # factorTexts @ factorTexts2)
    \<Longrightarrow> r \<in> set factorRefs \<Longrightarrow> st \<in> set factorStatuses \<Longrightarrow> length t \<le> 300 \<Longrightarrow> goodFactor (factor n d w st t r)"
  using plain_refs plain_texts plain_texts2 within_day
  by (auto simp: goodFactor_def factor_def list_all_iff)

lemmas in_literals = factorRefs_def factorTexts_def factorTexts2_def factorStatuses_def

lemma good_if: "goodFactor f \<Longrightarrow> goodFactor g \<Longrightarrow> goodFactor (if c then f else g)"
  by simp

lemma good_evidence: "goodFactor (evidenceCountFactor n)"
  unfolding evidenceCountFactor_def by (intro good_if good_factor) (simp_all add: in_literals)

lemma good_diversity: "goodFactor (evidenceDiversityFactor n)"
  unfolding evidenceDiversityFactor_def by (intro good_if good_factor) (simp_all add: in_literals)

lemma good_context: "goodFactor (contextHealthFactor status)"
  unfolding contextHealthFactor_def by (intro good_if good_factor) (simp_all add: in_literals)

lemma good_freshness: "goodFactor (freshnessFactor latest age)"
  unfolding freshnessFactor_def by (intro good_if good_factor) (simp_all add: in_literals)

lemma good_claimCheck: "goodFactor (claimCheckFactor cc inputs)"
  unfolding claimCheckFactor_def by (intro good_if good_factor) (simp_all add: in_literals)

lemma good_impact: "goodFactor (impactFactor impact inputs)"
proof -
  have g: "goodFactor (factor ''impact_analysis'' d 15 st t ''impact.summary'')"
    if "st \<in> set factorStatuses" "t \<in> set factorTexts2" "length t \<le> 300" for d st t
    using that by (intro good_factor) (auto simp: factorRefs_def)
  show ?thesis
    by (cases impact; cases "inImpactPartial inputs \<or> inImpactResidualUnknownCount inputs > 0")
      (simp_all add: impactFactor_def g factorStatuses_def factorTexts2_def)
qed

lemma good_lifecycle: "f \<in> set (lifecycleFactors rec inputs) \<Longrightarrow> goodFactor f"
proof -
  have i: "list_all goodFactor (if c then fs else gs)" if "list_all goodFactor fs" "list_all goodFactor gs" for c fs gs
    using that by simp
  have one: "list_all goodFactor [f]" if "goodFactor f" for f using that by simp
  have a: "list_all goodFactor (fs @ gs)" if "list_all goodFactor fs" "list_all goodFactor gs" for fs gs
    using that by simp
  have n: "list_all goodFactor []" by simp
  have "list_all goodFactor (lifecycleFactors rec inputs)"
    unfolding lifecycleFactors_def by (intro i one a n good_factor) (simp_all add: in_literals)
  then show "f \<in> set (lifecycleFactors rec inputs) \<Longrightarrow> goodFactor f" by (simp add: list_all_iff)
qed

lemma good_factors: "f \<in> set (scoreFactors rec health cc impact inputs) \<Longrightarrow> goodFactor f"
  using good_evidence good_diversity good_context good_freshness good_claimCheck good_impact good_lifecycle
  by (auto simp: scoreFactors_def)

subsection \<open>Adding the factors\<close>

lemma addFactors_eq:
  "addFactors lib fs (acc, s) =
     tryE (checkAll (validateFactor lib) fs) (\<lambda>_. Inr (acc @ fs, s + sum_list (map ftScoreDelta fs)))"
proof (induction fs arbitrary: acc s)
  case (Cons f fs)
  then show ?case by (cases "validateFactor lib f") (simp_all add: algebra_simps)
qed simp

lemma factors_added:
  assumes "confLaw lib"
  shows "addFactors lib (scoreFactors rec health cc impact inputs) ([], 50)
    = Inr (scoreFactors rec health cc impact inputs, 50 + sum_list (map ftScoreDelta (scoreFactors rec health cc impact inputs)))"
proof -
  have "checkAll (validateFactor lib) (scoreFactors rec health cc impact inputs) = Inr ()"
    using good_factors goodFactor_valid [OF assms] by (auto simp: checkAll_Inr)
  then show ?thesis by (simp add: addFactors_eq)
qed

end
