(* ===== verification/Confidence_Results.thy ===== *)
theory Confidence_Results
  imports Confidence_Lemmas
begin

section \<open>Confidence scores: what a score consists of\<close>

subsection \<open>The result of a score\<close>

definition factorSum :: "ConfidenceFactor list \<Rightarrow> int" where
  "factorSum fs = 50 + sum_list (map ftScoreDelta fs)"

definition bandOf :: "int \<Rightarrow> string \<Rightarrow> string" where
  "bandOf score status = (if status = [] then ScoreBandUnknown else scoreBand score)"

lemma scored:
  assumes "svcScore lib t1 t2 rec health cc impact = Inr a"
  obtains inputs where "buildInputs lib t1 rec health cc impact = Inr inputs" "caInputs a = inputs"
    "caFactors a = scoreFactors rec health cc impact inputs"
    "caScore a = clampScore (factorSum (caFactors a))"
    "caBand a = bandOf (caScore a) (inContextHealthStatus inputs)"
    "caRecommendation a = recommendationFor (caScore a) (caBand a) rec inputs
      (cc \<noteq> None \<and> smTotal (crsSummary (the cc)) > 0) (impact \<noteq> None)"
    "validateAssessment lib a = Inr ()"
  using assms unfolding svcScore_def
  by (auto simp: tryE_Inr addFactors_eq Let_def bandOf_def factorSum_def)

lemma inputs_of:
  assumes "buildInputs lib t1 rec health cc impact = Inr inputs"
  shows "inEvidenceCount inputs = int (length (rcEvidence rec))" "inEvidenceKinds inputs = evidenceKindsOf rec"
    "inPassedOutcomeCount inputs = countStatus OutcomeStatusPassed (rcOutcomes rec)"
    "inFailedOutcomeCount inputs = countStatus OutcomeStatusFailed (rcOutcomes rec)"
    "inDecisionCount inputs = int (length (rcDecisions rec))"
    "inPromotionState inputs = promotionStateOf [] (rcPromotionLinks rec)"
    "inContextHealthStatus inputs = trimSpace (chStatus health)"
    "inLatestRunAgeSeconds inputs = latestRunAge t1 health"
    "inClaimCheckActionable inputs = (case cc of None \<Rightarrow> 0 | Some r \<Rightarrow> smActionable (crsSummary r))"
    "inImpactPartial inputs = (case impact of None \<Rightarrow> False | Some i \<Rightarrow> iaaPartial i)"
    "inImpactResidualUnknownCount inputs = (case impact of None \<Rightarrow> 0 | Some i \<Rightarrow> int (length (iaaResidualUnknowns i)))"
    "inImpactSecurityFlagCount inputs = (case impact of None \<Rightarrow> 0 | Some i \<Rightarrow> int (length (iaaSecurityFlags i)))"
  using assms unfolding buildInputs_def by (auto simp: tryE_Inr Let_def)

lemma countStatus_pos: "countStatus s xs > 0 \<longleftrightarrow> list_ex (\<lambda>x. ocStatus x = s) xs"
  by (induction xs) (auto simp: countStatus_def)

lemma countStatus_zero: "countStatus s xs = 0 \<longleftrightarrow> \<not> list_ex (\<lambda>x. ocStatus x = s) xs"
  using countStatus_pos [of s xs] by (auto simp: countStatus_def)

lemma factor_simp: "ftName (factor n d w st t r) = n" "ftScoreDelta (factor n d w st t r) = d"
  by (simp_all add: factor_def)

lemma basic_names:
  "ftName (evidenceCountFactor n) = ''evidence_count''"
  "ftName (evidenceDiversityFactor n) = ''evidence_kind_diversity''"
  "ftName (contextHealthFactor status) = ''context_health''"
  "ftName (freshnessFactor latest age) = ''latest_ingestion_freshness''"
  "ftName (claimCheckFactor cc inputs) = ''claim_checks''"
  by (simp_all only: evidenceCountFactor_def evidenceDiversityFactor_def contextHealthFactor_def freshnessFactor_def
      claimCheckFactor_def factor_simp if_distrib [of ftName] if_cancel)

lemma impact_name: "ftName (impactFactor impact inputs) = ''impact_analysis''"
  by (simp add: impactFactor_def factor_simp split: prod.splits)

definition lifecycleNames :: "string list" where
  "lifecycleNames = [''evidence_graph_rejected_decision'', ''evidence_graph_validated_decision'',
     ''evidence_graph_passed_outcome'', ''evidence_graph_failed_outcome'', ''evidence_graph_promoted_link'',
     ''evidence_graph_candidate_only'']"

lemma lifecycle_names: "subseq (map ftName (lifecycleFactors rec inputs)) lifecycleNames"
proof -
  have "subseq (map ftName (if c then [factor n d w st t r] else if e then [factor m d' w' st' t' r'] else [])) [n, m]"
    "subseq (map ftName (if c then [factor n d w st t r] else [])) [n]" for c e n d w st t r m d' w' st' t' r'
    by (simp_all add: factor_simp)
  then have "subseq (map ftName (lifecycleFactors rec inputs))
    ([''evidence_graph_rejected_decision'', ''evidence_graph_validated_decision''] @
     [''evidence_graph_passed_outcome''] @ [''evidence_graph_failed_outcome''] @ [''evidence_graph_promoted_link''] @
     [''evidence_graph_candidate_only''])"
    unfolding lifecycleFactors_def map_append by (intro list_emb_append_mono)
  then show ?thesis by (simp add: lifecycleNames_def)
qed

lemma factor_names:
  "map ftName (scoreFactors rec health cc impact inputs) =
     [''evidence_count'', ''evidence_kind_diversity'', ''context_health'', ''latest_ingestion_freshness'',
      ''claim_checks'', ''impact_analysis''] @ map ftName (lifecycleFactors rec inputs)"
  by (simp only: scoreFactors_def map_append list.map basic_names impact_name)

lemma factors_subseq:
  "subseq (map ftName (scoreFactors rec health cc impact inputs))
     ([''evidence_count'', ''evidence_kind_diversity'', ''context_health'', ''latest_ingestion_freshness'',
       ''claim_checks'', ''impact_analysis''] @ lifecycleNames)"
  unfolding factor_names subseq_append' by (rule lifecycle_names)

lemma factors_once: "distinct (map ftName (scoreFactors rec health cc impact inputs))"
proof -
  have "distinct xs" if "subseq xs ys" "distinct ys" for xs ys :: "string list"
    using that by (auto simp: subseq_conv_nths)
  from this [OF factors_subseq] show ?thesis by (simp add: lifecycleNames_def)
qed

lemma factors_number:
  "6 \<le> length (scoreFactors rec health cc impact inputs)" "length (scoreFactors rec health cc impact inputs) \<le> 12"
  using list_emb_length [OF factors_subseq [of rec health cc impact inputs]]
  by (simp_all add: scoreFactors_def lifecycleNames_def)

subsection \<open>When a claim is scored\<close>

text \<open>The identifier of an assessment, and its other computed fields, pass \<open>validateAssessment\<close>.\<close>

lemma letters_plain: "list_all plainRefByte (letterEncode b) \<and> CHR ''.'' \<notin> set (letterEncode b)"
proof -
  have "list_all (\<lambda>c. plainRefByte c \<and> c \<noteq> CHR ''.'') idAlphabet"
    by (simp add: idAlphabet_def plainRefByte_def inCls_def lowerCls_def rng_def)
  then show ?thesis using letterEncode_set [of b] by (auto simp: list_all_iff)
qed

lemma deterministicID_form: "refForm_cf (deterministicID lib p c)"
proof (rule plainRef_form)
  let ?e = "letterEncode (take 12 (clSha256 lib (p @ [CHR 0x00] @ c)))"
  have "length ?e \<le> 24" by simp
  moreover have "list_all plainRefByte (''confidence_'' @ ?e)"
    using letters_plain by (simp add: plainRefByte_def inCls_def lowerCls_def rng_def)
  moreover have "CHR ''.'' \<notin> set (''confidence_'' @ ?e)"
    using letters_plain by simp
  moreover from this have "\<not> contains (''confidence_'' @ ?e) ''..''" "\<not> contains (''confidence_'' @ ?e) ''www.''"
    by (auto dest!: set_mono_sublist)
  ultimately show "plainRef (deterministicID lib p c)"
    by (simp add: plainRef_def deterministicID_def letterEncode_cf_def)
qed

text \<open>So do the identifiers of the evidence service.\<close>

lemma newID_form_cf:
  assumes "pre \<in> set idPrefixes" and "length b = 16"
  shows "refForm_cf (newID_ev pre b)"
proof (rule plainRef_form)
  have d: "CHR ''.'' \<notin> set (pre @ ''_'' @ letterEncode b)" and p: "list_all plainRefByte (pre @ ''_'')"
    and l: "length pre \<le> 8"
    using assms(1) letters_plain [of b] by (auto simp: idPrefixes_def plainRefByte_def inCls_def lowerCls_def rng_def)
  then have "\<not> contains (pre @ ''_'' @ letterEncode b) ''..''" "\<not> contains (pre @ ''_'' @ letterEncode b) ''www.''"
    by (auto dest!: set_mono_sublist)
  then show "plainRef (newID_ev pre b)"
    using p l letters_plain [of b] assms(2) by (simp add: plainRef_def newID_ev_def)
qed

lemma enum_trim: "x \<in> set scoreBands \<union> set recommendations \<union> set evidenceKinds \<union> set promotionStates \<Longrightarrow> trimSpace x = x"
  by (rule trimSpace_graphic) (auto simp: scoreBands_def recommendations_def evidenceKinds_def promotionStates_def graphic_def)

lemma band_in: "bandOf score status \<in> set scoreBands"
  by (simp add: bandOf_def scoreBand_def scoreBands_def)

lemma recommendation_in: "recommendationFor score band rec inputs x y \<in> set recommendations"
  by (simp add: recommendationFor_def recommendations_def)

lemma promotionStateOf_in: "promotionStateOf state links \<in> insert state (set (map plPromotionState links))"
  by (induction links arbitrary: state) fastforce+

lemma inputs_valid:
  assumes "buildInputs lib t1 rec health cc impact = Inr inputs"
  shows "checkAll safeEvidenceKind_cf (inEvidenceKinds inputs) = Inr ()"
    and "inPromotionState inputs \<noteq> [] \<Longrightarrow> \<exists>r. safePromotionState_cf (inPromotionState inputs) = Inr r"
proof -
  have k: "checkAll safeEvidenceKind_cf (evidenceKindsOf rec) = Inr ()"
    and p: "checkAll (\<lambda>l. safePromotionState_cf (plPromotionState l)) (rcPromotionLinks rec) = Inr ()"
    using assms unfolding buildInputs_def by (auto simp: tryE_Inr Let_def)
  from k show "checkAll safeEvidenceKind_cf (inEvidenceKinds inputs) = Inr ()"
    by (simp add: inputs_of(2) [OF assms])
  show "\<exists>r. safePromotionState_cf (inPromotionState inputs) = Inr r" if "inPromotionState inputs \<noteq> []"
    using that p promotionStateOf_in [of "[]" "rcPromotionLinks rec"]
    unfolding inputs_of(6) [OF assms] by (auto simp: checkAll_Inr)
qed

lemma assessment_valid:
  assumes lib: "confLaw lib" and b: "buildInputs lib t1 rec health cc impact = Inr inputs"
    and refs: "refForm_cf p" "refForm_cf c" "refForm_cf cr" "r = [] \<or> refForm_cf r" "t = [] \<or> refForm_cf t"
  shows "validateAssessment lib \<lparr>caID = deterministicID lib p c, caProjectID = p, caClaimID = c, caClaimRef = cr,
      caRunID = r, caTraceID = t, caScore = clampScore s, caBand = bandOf n status,
      caRecommendation = recommendationFor n' band rec inputs x y,
      caFactors = scoreFactors rec health cc impact inputs, caInputs = inputs, caCreatedAt = now, caUpdatedAt = now\<rparr>
    = Inr ()"
proof -
  have ne: "scoreFactors rec health cc impact inputs \<noteq> []" by (simp add: scoreFactors_def)
  have o: "safeOptionalRefIdentifier_cf lib v f = Inr v" if "v = [] \<or> refForm_cf v" for v f
    using that by (auto simp: safeOptRef_cf_Inr [OF lib])
  have m: "safeRefIdentifier_cf lib v f = Inr v" if "refForm_cf v" for v f
    using that by (simp add: safeRefIdentifier_cf_Inr [OF lib])
  have f: "checkAll (validateFactor lib) (scoreFactors rec health cc impact inputs) = Inr ()"
    using good_factors goodFactor_valid [OF lib] by (auto simp: checkAll_Inr)
  have e: "safeBand (bandOf n status) = Inr (bandOf n status)"
    "safeRecommendation (recommendationFor n' band rec inputs x y) = Inr (recommendationFor n' band rec inputs x y)"
    using band_in recommendation_in enum_trim by (simp_all add: safeBand_def safeRecommendation_def safeEnum_Inr)
  have pr: "check (setIf (inPromotionState inputs \<noteq> []) (safePromotionState_cf (inPromotionState inputs)) []) = Inr ()"
    using inputs_valid(2) [OF b] by (cases "inPromotionState inputs = []") (auto simp: check_Inr)
  show ?thesis
    unfolding validateAssessment_def
    by (simp add: m o refs deterministicID_form f e ne pr inputs_valid(1) [OF b] clampScore_def)
qed

text \<open>The references of a claim that a score needs.\<close>

definition claimRefsOK :: "Claim \<Rightarrow> bool" where
  "claimRefsOK c \<longleftrightarrow> refForm_cf (trimSpace (cmProjectID c)) \<and> refForm_cf (trimSpace (cmID c))
     \<and> refForm_cf (trimSpace (cmClaimRef c)) \<and> (isBlank (cmRunID c) \<or> refForm_cf (trimSpace (cmRunID c)))
     \<and> (isBlank (cmTraceID c) \<or> refForm_cf (trimSpace (cmTraceID c)))"

definition sameProject :: "ClaimRecord \<Rightarrow> ContextHealth \<Rightarrow> ClaimCheckResult option \<Rightarrow> ImpactAnalysis option \<Rightarrow> bool" where
  "sameProject rec health cc impact \<longleftrightarrow>
     (let p = trimSpace (cmProjectID (rcClaim rec))
      in chProjectID health \<in> {[], p} \<and> (cc = None \<or> crsProjectID (the cc) \<in> {[], p})
         \<and> (impact = None \<or> iaaProjectID (the impact) \<in> {[], p}))"

lemma failIf_no: "\<not> b \<Longrightarrow> failIf b e = Inr ()"
  by simp

lemma score_returns:
  assumes lib: "confLaw lib" and ok: "claimRefsOK (rcClaim rec)" "validateClaimRecordMetadata lib rec = Inr ()"
    "sameProject rec health cc impact" and b: "buildInputs lib t1 rec health cc impact = Inr inputs"
  shows "\<exists>a. svcScore lib t1 t2 rec health cc impact = Inr a"
proof -
  let ?c = "rcClaim rec"
  have refs: "refForm_cf (trimSpace (cmProjectID ?c))" "refForm_cf (trimSpace (cmID ?c))"
    "refForm_cf (trimSpace (cmClaimRef ?c))" "trimSpace (cmRunID ?c) = [] \<or> refForm_cf (trimSpace (cmRunID ?c))"
    "trimSpace (cmTraceID ?c) = [] \<or> refForm_cf (trimSpace (cmTraceID ?c))"
    using ok by (simp_all add: claimRefsOK_def isBlank_def)
  have m: "safeRefIdentifier_cf lib v f = Inr (trimSpace v)" if "refForm_cf (trimSpace v)" for v f
    using that by (simp add: safeRefIdentifier_cf_Inr [OF lib])
  have o: "safeOptionalRefIdentifier_cf lib v f = Inr (trimSpace v)"
    if "trimSpace v = [] \<or> refForm_cf (trimSpace v)" for v f
    using that by (simp add: safeOptRef_cf_Inr [OF lib])
  have p: "\<not> mismatch (chProjectID health) (trimSpace (cmProjectID ?c))"
    "\<not> (cc \<noteq> None \<and> mismatch (crsProjectID (the cc)) (trimSpace (cmProjectID ?c)))"
    "\<not> (impact \<noteq> None \<and> mismatch (iaaProjectID (the impact)) (trimSpace (cmProjectID ?c)))"
    using ok by (auto simp: sameProject_def mismatch_def Let_def)
  show "\<exists>a. svcScore lib t1 t2 rec health cc impact = Inr a"
    unfolding svcScore_def m [OF refs(1)] m [OF refs(2)] m [OF refs(3)] o [OF refs(4)] o [OF refs(5)] ok(2) b tryE_simps
      p [THEN failIf_no] factors_added [OF lib] Let_def case_prod_conv bandOf_def [symmetric]
      assessment_valid [OF lib b refs]
    by blast
qed

lemma score_needs:
  assumes "svcScore lib t1 t2 rec health cc impact = Inr a"
  shows "claimRefsOK (rcClaim rec)" and "validateClaimRecordMetadata lib rec = Inr ()"
    and "sameProject rec health cc impact" and "\<exists>i. buildInputs lib t1 rec health cc impact = Inr i"
proof -
  have id: "p = trimSpace v" if "safeRefIdentifier_cf lib v f = Inr p" for v f p
    using safeRefIdentifier_cf_form [OF that] by simp
  show "sameProject rec health cc impact" and "\<exists>i. buildInputs lib t1 rec health cc impact = Inr i"
    using assms unfolding svcScore_def by (auto simp: tryE_Inr failIf_Inr sameProject_def mismatch_def Let_def dest: id)
  have blank: "isBlank v \<longleftrightarrow> trimSpace v = []" for v by (simp add: isBlank_def)
  show "validateClaimRecordMetadata lib rec = Inr ()"
    using assms unfolding svcScore_def by (auto simp: tryE_Inr)
  have o: "trimSpace v = [] \<or> refForm_cf (trimSpace v)" if "safeOptionalRefIdentifier_cf lib v f = Inr r" for v f r
    using that safeRefIdentifier_cf_form [of lib "trimSpace v" f r]
    by (auto simp: safeOptionalRefIdentifier_cf_def optionalWith_Inr isBlank_def split: if_splits)
  show "claimRefsOK (rcClaim rec)"
    using assms unfolding svcScore_def claimRefsOK_def blank
    by (auto simp: tryE_Inr dest!: safeRefIdentifier_cf_form o)
qed

subsection \<open>How records and scores move together\<close>

lemma clampScore_mono: "s \<le> s' \<Longrightarrow> clampScore s \<le> clampScore s'"
  by (simp add: clampScore_def)

lemma evidenceCount_mono: "0 \<le> m \<Longrightarrow> m \<le> n \<Longrightarrow> ftScoreDelta (evidenceCountFactor m) \<le> ftScoreDelta (evidenceCountFactor n)"
  by (auto simp: evidenceCountFactor_def factor_simp)

lemma diversity_mono: "m \<le> n \<Longrightarrow> ftScoreDelta (evidenceDiversityFactor m) \<le> ftScoreDelta (evidenceDiversityFactor n)"
  by (simp add: evidenceDiversityFactor_def factor_simp)

lemma kinds_mono: "length (evidenceKindsOf rec) \<le> length (evidenceKindsOf (rec\<lparr>rcEvidence := rcEvidence rec @ es\<rparr>))"
  by (simp add: evidenceKindsOf_def length_remdups_card_conv card_mono)

text \<open>The other factors read the inputs only through these values.\<close>

lemma same_factors:
  assumes "inClaimCheckActionable i = inClaimCheckActionable j" "inImpactPartial i = inImpactPartial j"
    "inImpactResidualUnknownCount i = inImpactResidualUnknownCount j"
    "inImpactSecurityFlagCount i = inImpactSecurityFlagCount j"
  shows "claimCheckFactor cc i = claimCheckFactor cc j" "impactFactor impact i = impactFactor impact j"
  using assms by (simp_all add: claimCheckFactor_def impactFactor_def)

lemma lifecycle_same:
  assumes "rcDecisions rec = rcDecisions rec'" "cmStatus (rcClaim rec) = cmStatus (rcClaim rec')"
    "inPassedOutcomeCount i = inPassedOutcomeCount j" "inFailedOutcomeCount i = inFailedOutcomeCount j"
    "inPromotionState i = inPromotionState j" "inDecisionCount i = inDecisionCount j"
  shows "lifecycleFactors rec i = lifecycleFactors rec' j"
  using assms by (simp add: lifecycleFactors_def hasDecisionState_def)

lemma lifecycle_failed:
  assumes "ocStatus x = OutcomeStatusFailed" and r: "rec' = rec\<lparr>rcOutcomes := rcOutcomes rec @ [x]\<rparr>"
    and "inPassedOutcomeCount i = countStatus OutcomeStatusPassed (rcOutcomes rec)"
    "inPassedOutcomeCount j = countStatus OutcomeStatusPassed (rcOutcomes rec')"
    "inFailedOutcomeCount i = countStatus OutcomeStatusFailed (rcOutcomes rec)"
    "inFailedOutcomeCount j = countStatus OutcomeStatusFailed (rcOutcomes rec')"
    "inPromotionState i = inPromotionState j" "inDecisionCount i = inDecisionCount j"
  shows "sum_list (map ftScoreDelta (lifecycleFactors rec' j)) \<le> sum_list (map ftScoreDelta (lifecycleFactors rec i))"
    and "inFailedOutcomeCount j > 0"
proof -
  have p: "inPassedOutcomeCount j = inPassedOutcomeCount i" and f: "inFailedOutcomeCount j = inFailedOutcomeCount i + 1"
    and pos: "inFailedOutcomeCount i \<ge> 0" and h: "hasDecisionState rec' = hasDecisionState rec"
    and s: "cmStatus (rcClaim rec') = cmStatus (rcClaim rec)"
    using assms by (simp_all add: countStatus_def hasDecisionState_def fun_eq_iff)
  have "ftScoreDelta (factor n d w st t rf) = d" for n d w st t rf by (rule factor_simp)
  note [simp] = this
  show "sum_list (map ftScoreDelta (lifecycleFactors rec' j)) \<le> sum_list (map ftScoreDelta (lifecycleFactors rec i))"
    using pos assms(7,8) by (simp add: lifecycleFactors_def p f h s del: of_nat_0_less_iff)
  show "inFailedOutcomeCount j > 0" using f pos by simp
qed

end
