(* ===== verification/Confidence_Demo.thy ===== *)
theory Confidence_Demo
  imports Confidence_Results Evidence_Demo
begin

section \<open>Confidence scores: a concrete score\<close>

text \<open>
  The record that the evidence service grows in \<open>Evidence_Demo\<close>, scored with a ready context, a
  clean claim check and a complete impact analysis.
\<close>

definition demoConf :: ConfLib where
  "demoConf = \<lparr>clAbsURL = (\<lambda>v. False), clSha256 = (\<lambda>v. replicate 32 0)\<rparr>"

definition demoRun :: RunSummary where
  "demoRun = \<lparr>rsID = ''r1'', rsStatus = [], rsTrigger = [], rsRunKind = [], rsMode = [], rsFilesSeen = 1,
     rsFilesIngested = 1, rsFilesSkipped = 0, rsFilesUnchanged = 0, rsChunksStored = 1, rsSymbolsStored = 1,
     rsErrorCategory = [], rsReasonCounts = [], rsCurrentPhase = [], rsStartedAt = 1, rsFinishedAt = 6,
     rsHeartbeatAt = 6, rsLastProgressAt = 6\<rparr>"

definition demoHealth :: "string \<Rightarrow> ContextHealth" where
  "demoHealth status = \<lparr>chProjectID = ''m1'', chStatus = status, chEnabled = True, chDigestMode = [], chUpdatePolicy = [],
     chWorkspaceMode = [], chGraphStorage = [], chValidationStatus = [], chStatusReason = [],
     chLatestRun = Some demoRun, chActiveRunID = [], chIndexedContentAvailable = True, chEligibleFileCount = 1,
     chIndexedSymbolCount = 1, chIndexedChunkCount = 1, chSearchIndex = \<lparr>siStatus = [], siDegraded = False, siReason = []\<rparr>,
     chWorkspaceGitAvailable = True, chReasonCounts = [], chCheckedAt = 6\<rparr>"

definition demoCheck :: ClaimCheckResult where
  "demoCheck = \<lparr>crsProjectID = ''m1'', crsSummary = \<lparr>smTotal = 1, smVerified = 1, smActionable = 0, smByStatus = []\<rparr>,
     crsClaims = [], crsVerifiedOmitted = 1, crsAllVerified = True\<rparr>"

definition demoImpact :: ImpactAnalysis where
  "demoImpact = \<lparr>iaaProjectID = ''m1'', iaaDiffScope = [], iaaChangedPaths = [''a1''], iaaAffectedDomains = [],
     iaaAffectedRoutes = [], iaaAffectedTools = [], iaaSecurityFlags = [], iaaSourceAnchors = [],
     iaaResidualUnknowns = [], iaaPartial = False, iaaPartialReason = [], iaaWorkspaceDiffUsed = False,
     iaaWorkspaceTruncated = False\<rparr>"

definition demoScored :: "Evidence list \<Rightarrow> Outcome list \<Rightarrow> ClaimRecord" where
  "demoScored es xs = demoRecord es [demoDecision 1 ''d1'' ''validated''] [demoAction 1 ''x1''] xs
     [demoLink] [demoPromotion]"

lemma demoConf_law: "confLaw demoConf"
  by (simp add: confLaw_def demoConf_def)

subsection \<open>Its checks\<close>

lemma tidy_no_dot: "tidyWord s \<Longrightarrow> CHR ''.'' \<notin> set s"
  by (auto simp: tidyWord_def list_all_iff tidyChar_def)

lemma tidy_form_cf: "tidyWord s \<Longrightarrow> refForm_cf s"
proof -
  assume s: "tidyWord s"
  then have "toLower s = s" by (simp add: tidyWord_def tidy_toLower)
  then show ?thesis
    using s tidy_no_dot [OF s] by (auto simp: refForm_cf_def tidy_phone dest!: set_mono_sublist)
qed

lemma demoID_form_cf: "pre \<in> set idPrefixes \<Longrightarrow> refForm_cf (demoEvID pre n)"
  by (simp add: demoEvID_def demoBytes_def newID_form_cf)

lemma tidy_text_cf:
  assumes "tidyWord s" and "8 \<le> mx"
  shows "safeOptionalText_cf demoConf s f mx = Inr s"
proof -
  have i: "list_all identByte s" using assms(1) by (simp add: tidyWord_def tidy_identBytes)
  have "\<not> containsURL_cf demoConf s"
    using tidy_form_cf [OF assms(1)] law_URL [OF demoConf_law ident_no_colon [OF i]] by (simp add: refForm_cf_def)
  then show ?thesis
    unfolding safeOptionalText_cf_def
    using assms by (intro tidy_text) (simp_all add: ident_data_cf [OF i] tidy_phone)
qed

lemma demo_checks [simp]:
  "refForm_cf v \<Longrightarrow> safeRefIdentifier_cf demoConf v f = Inr v"
  "safeOptionalRefIdentifier_cf demoConf [] f = Inr []"
  "refForm_cf v \<Longrightarrow> safeOptionalRefIdentifier_cf demoConf v f = Inr v"
  "safeOptionalIdentifier_cf [] f = Inr []"
  "safeOptionalText_cf demoConf [] f mx = Inr []"
  by (simp_all add: safeRefIdentifier_cf_Inr [OF demoConf_law] safeOptRef_cf_Inr [OF demoConf_law]
      safeOptionalIdentifier_cf_def optionalWith_def safeOptionalText_cf_def safeTextWith_def)

lemma demo_required [simp]:
  "tidyWord s \<Longrightarrow> 8 \<le> mx \<Longrightarrow> safeRequiredText_cf demoConf s f mx = Inr s"
  by (simp add: safeRequiredText_cf_def requiredWith_def tidy_text_cf tidyWord_nonempty)

lemmas demo_enums_cf = safeEvidenceKind_cf_def safeDecisionState_cf_def safeActionKind_cf_def safeOutcomeKind_cf_def
  safeOutcomeStatus_cf_def safePromotionState_cf_def safeClaimStatus_cf_def safeEnum_def literal_trim evidenceKinds_def
  decisionStates_def actionKinds_def outcomeKinds_def outcomeStatuses_def promotionStates_def claimStatuses_def

lemma tidy_short: "list_all tidyChar [a, b] \<Longrightarrow> tidyWord [a, b]"
  by (simp add: tidyWord_def)

lemma candidate_trim: "trimSpace ''candidate'' = ''candidate''" "trimSpace ''ready'' = ''ready''"
  by (simp_all add: trimSpace_graphic graphic_def)

lemma demo_prefixes: "''evidence'' \<in> set idPrefixes" "''outcome'' \<in> set idPrefixes"
  by (simp_all add: idPrefixes_def)

lemma demo_metadata:
  assumes "set es \<subseteq> {demoEvidence}" and "\<forall>x \<in> set xs. \<exists>st \<in> {''passed'', ''failed''}. x = demoOutcome 1 st"
  shows "validateClaimRecordMetadata demoConf (demoScored es xs) = Inr ()"
proof -
  have e: "checkAll (\<lambda>e. safeOptionalText_cf demoConf (evSummary e) ''evidence_summary'' 500) es = Inr ()"
    using assms(1) by (auto simp: checkAll_Inr demoEvidence_def)
  have x: "checkAll (validateOutcomeMeta demoConf) xs = Inr ()"
    using assms(2) by (fastforce simp: checkAll_Inr validateOutcomeMeta_def demoOutcome_def tidy_form_cf tidyChar_def
        demo_enums_cf demoID_form_cf)
  show ?thesis
    by (simp add: validateClaimRecordMetadata_def demoScored_def demoRecord_def e x)
      (simp add: demoClaim_def validateDecisionMeta_def demoDecision_def validateActionMeta_def demoAction_def
        validateArtifactMeta_def demoLink_def validatePromotionMeta_def demoPromotion_def demoID_form_cf
        tidy_form_cf tidyChar_def tidy_text_cf demo_enums_cf candidate_trim)
qed

lemma demo_inputs:
  assumes "set es \<subseteq> {demoEvidence}" and "\<forall>x \<in> set xs. \<exists>st \<in> {''passed'', ''failed''}. x = demoOutcome 1 st"
    and "cc \<in> {None, Some demoCheck}" and "impact \<in> {None, Some demoImpact}"
  shows "\<exists>i. buildInputs demoConf t (demoScored es xs) (demoHealth status) cc impact = Inr i"
proof -
  have e: "checkAll (validateEvidenceInput demoConf) es = Inr ()"
    using assms(1) by (auto simp: checkAll_Inr validateEvidenceInput_def demoEvidence_def tidy_form_cf tidyChar_def
        demoID_form_cf demo_prefixes)
  have k: "checkAll safeEvidenceKind_cf (evidenceKindsOf (demoScored es xs)) = Inr ()"
    using assms(1) by (auto simp: checkAll_Inr evidenceKindsOf_def demoScored_def demoRecord_def demoEvidence_def
        demo_enums_cf)
  have x: "checkAll (\<lambda>x. safeRefIdentifier_cf demoConf (ocID x) ''outcome_id'') xs = Inr ()"
    using assms(2) by (fastforce simp: checkAll_Inr demoOutcome_def demoID_form_cf demo_prefixes)
  show ?thesis
    using k assms(3,4)
    by (auto simp: buildInputs_def Let_def demoScored_def demoRecord_def e x demoHealth_def demoPromotion_def
        demo_enums_cf claimCheckMessages_def impactRefs_def demoCheck_def demoImpact_def)
qed

lemma demo_scored_any:
  assumes "set es \<subseteq> {demoEvidence}" and "\<forall>x \<in> set xs. \<exists>st \<in> {''passed'', ''failed''}. x = demoOutcome 1 st"
    and "cc \<in> {None, Some demoCheck}" and "impact \<in> {None, Some demoImpact}"
  shows "\<exists>a. svcScore demoConf t tt (demoScored es xs) (demoHealth status) cc impact = Inr a"
proof -
  obtain i where i: "buildInputs demoConf t (demoScored es xs) (demoHealth status) cc impact = Inr i"
    using demo_inputs [OF assms] by blast
  show ?thesis
    by (rule score_returns [OF demoConf_law _ demo_metadata [OF assms(1,2)] _ i])
      (use assms(3,4) in \<open>auto simp: claimRefsOK_def sameProject_def demoScored_def demoRecord_def demoClaim_def demoHealth_def
        demoCheck_def demoImpact_def tidy_form_cf tidyChar_def demoID_form_cf isBlank_def\<close>)
qed

lemma demo_scored:
  assumes "set es \<subseteq> {demoEvidence}" and "\<forall>x \<in> set xs. \<exists>st \<in> {''passed'', ''failed''}. x = demoOutcome 1 st"
  shows "\<exists>a. svcScore demoConf t tt (demoScored es xs) (demoHealth status) (Some demoCheck) (Some demoImpact) = Inr a"
  using demo_scored_any [OF assms] by simp

text \<open>With its evidence and its passed outcome the record has the full score.\<close>

lemma demo_full_score:
  assumes "svcScore demoConf 6 t2 (demoScored [demoEvidence] [demoOutcome 1 ''passed'']) (demoHealth ''ready'')
    (Some demoCheck) (Some demoImpact) = Inr a"
  shows "caScore a = 100"
proof -
  let ?r = "demoScored [demoEvidence] [demoOutcome 1 ''passed'']"
  obtain i where i: "buildInputs demoConf 6 ?r (demoHealth ''ready'') (Some demoCheck) (Some demoImpact) = Inr i"
    and f: "caFactors a = scoreFactors ?r (demoHealth ''ready'') (Some demoCheck) (Some demoImpact) i"
    and s: "caScore a = clampScore (factorSum (caFactors a))"
    using scored [OF assms] by blast
  note eqs = inputs_of [OF i]
  have d: "ftScoreDelta (evidenceCountFactor (inEvidenceCount i)) = -10"
    "ftScoreDelta (evidenceDiversityFactor (int (length (inEvidenceKinds i)))) = -5"
    unfolding eqs evidenceKindsOf_def demoScored_def demoRecord_def
    by (simp_all add: evidenceCountFactor_def evidenceDiversityFactor_def factor_simp)
  have c: "ftScoreDelta (contextHealthFactor (inContextHealthStatus i)) = 10"
    unfolding eqs by (simp add: demoHealth_def candidate_trim contextHealthFactor_def factor_simp)
  have r: "ftScoreDelta (freshnessFactor (chLatestRun (demoHealth ''ready'')) (inLatestRunAgeSeconds i)) = 10"
    unfolding eqs by (simp add: demoHealth_def demoRun_def latestRunAge_def ageSeconds_def freshnessFactor_def
        zeroTime_def maxDuration_def factor_simp)
  have k: "ftScoreDelta (claimCheckFactor (Some demoCheck) i) = 10"
    "ftScoreDelta (impactFactor (Some demoImpact) i) = 5"
    by (simp_all add: claimCheckFactor_def impactFactor_def eqs demoCheck_def demoImpact_def factor_simp)
  have l: "sum_list (map ftScoreDelta (lifecycleFactors ?r i)) = 40"
    by (simp add: lifecycleFactors_def eqs countStatus_def hasDecisionState_def demoScored_def demoRecord_def
        demoDecision_def demoOutcome_def demoPromotion_def demoClaim_def factor_simp)
  show ?thesis
    unfolding s f scoreFactors_def factorSum_def by (simp add: d c r k l clampScore_def)
qed

end
