(* ===== verification/Confidence_Properties.thy ===== *)
theory Confidence_Properties
  imports Confidence_Demo
begin

section \<open>Confidence scores: properties\<close>

text \<open>What a score is, when it is computed, and how it moves with the record of its claim.\<close>

text \<open>
  C25. A score is the clamped sum of its factors. It is 50 plus the deltas of the factors, cut to
  0 to 100; each of the six to ten factors occurs once; and the band follows from the score and
  from whether the health of the context is known.
\<close>

theorem score_is_clamped_sum:
  assumes "svcScore lib t1 t2 rec health cc impact = Inr a"
  shows "caScore a = max 0 (min 100 (50 + sum_list (map ftScoreDelta (caFactors a))))
    \<and> distinct (map ftName (caFactors a)) \<and> 6 \<le> length (caFactors a)
    \<and> caBand a = (if isBlank (chStatus health) \<or> caScore a = 0 then ScoreBandUnknown
        else if caScore a \<ge> 85 then ScoreBandHigh else if caScore a \<ge> 60 then ScoreBandMedium else ScoreBandLow)"
proof -
  obtain inputs where b: "buildInputs lib t1 rec health cc impact = Inr inputs"
    and f: "caFactors a = scoreFactors rec health cc impact inputs"
    and s: "caScore a = clampScore (factorSum (caFactors a))"
    and d: "caBand a = bandOf (caScore a) (inContextHealthStatus inputs)"
    using scored [OF assms] by blast
  have "caScore a = max 0 (min 100 (50 + sum_list (map ftScoreDelta (caFactors a))))"
    unfolding s by (simp add: clampScore_def factorSum_def)
  moreover have "distinct (map ftName (caFactors a)) \<and> 6 \<le> length (caFactors a)"
    unfolding f by (simp only: factors_once factors_number simp_thms)
  ultimately show ?thesis
    using d by (auto simp: bandOf_def scoreBand_def isBlank_def inputs_of(7) [OF b])
qed

theorem score_is_clamped_sum_witness:
  "\<exists>a. svcScore demoConf 6 6 (demoScored [] []) (demoHealth []) (Some demoCheck) (Some demoImpact) = Inr a
     \<and> caScore a \<le> 100 \<and> distinct (map ftName (caFactors a)) \<and> caBand a = ScoreBandUnknown"
proof -
  obtain a where a: "svcScore demoConf 6 6 (demoScored [] []) (demoHealth []) (Some demoCheck) (Some demoImpact) = Inr a"
    using demo_scored [where es = "[]" and xs = "[]" and t = 6 and tt = 6 and status = "[]"] by auto
  from a score_is_clamped_sum [OF a] show ?thesis by (auto simp: demoHealth_def isBlank_def)
qed

text \<open>
  C11. Promotion is recommended under exact conditions. A score recommends to promote a claim iff
  it is at least 85, the claim has evidence, no rejected decision, a passed and no failed
  outcome, claim checks were made and found nothing actionable, an impact analysis was made, and
  the health of the context is known and not degraded.
\<close>

theorem promote_iff:
  assumes "svcScore lib t1 t2 rec health cc impact = Inr a"
  shows "caRecommendation a = RecommendationPromote \<longleftrightarrow>
    caScore a \<ge> 85 \<and> rcEvidence rec \<noteq> [] \<and> \<not> list_ex (\<lambda>d. dcState d = ''rejected'') (rcDecisions rec)
    \<and> list_ex (\<lambda>x. ocStatus x = OutcomeStatusPassed) (rcOutcomes rec)
    \<and> \<not> list_ex (\<lambda>x. ocStatus x = OutcomeStatusFailed) (rcOutcomes rec)
    \<and> (\<exists>r. cc = Some r \<and> smTotal (crsSummary r) > 0 \<and> smActionable (crsSummary r) = 0)
    \<and> impact \<noteq> None \<and> \<not> isBlank (chStatus health) \<and> \<not> isDegradedContext (trimSpace (chStatus health))"
proof -
  obtain inputs where b: "buildInputs lib t1 rec health cc impact = Inr inputs"
    and d: "caBand a = bandOf (caScore a) (inContextHealthStatus inputs)"
    and r: "caRecommendation a = recommendationFor (caScore a) (caBand a) rec inputs
      (cc \<noteq> None \<and> smTotal (crsSummary (the cc)) > 0) (impact \<noteq> None)"
    using scored [OF assms] by blast
  note in_eqs = inputs_of(1,3,4,7,9) [OF b]
  have "caBand a = ScoreBandUnknown \<longleftrightarrow> isBlank (chStatus health) \<or> caScore a = 0"
    using d by (simp add: bandOf_def scoreBand_def isBlank_def in_eqs)
  then show ?thesis
    unfolding r recommendationFor_def in_eqs countStatus_pos countStatus_zero hasDecisionState_def
    by (cases cc) (simp_all add: countStatus_zero)
qed

theorem promote_iff_witness:
  "\<exists>a. svcScore demoConf 6 6 (demoScored [demoEvidence] [demoOutcome 1 ''passed'']) (demoHealth ''ready'')
     (Some demoCheck) (Some demoImpact) = Inr a \<and> caRecommendation a = RecommendationPromote"
proof -
  obtain a where a: "svcScore demoConf 6 6 (demoScored [demoEvidence] [demoOutcome 1 ''passed'']) (demoHealth ''ready'')
    (Some demoCheck) (Some demoImpact) = Inr a"
    using demo_scored [where es = "[demoEvidence]" and xs = "[demoOutcome 1 ''passed'']" and t = 6 and tt = 6 and status = "''ready''"] by auto
  have "caRecommendation a = RecommendationPromote"
    unfolding promote_iff [OF a] using demo_full_score [OF a]
    by (simp add: demoScored_def demoRecord_def demoDecision_def demoOutcome_def demoCheck_def demoHealth_def
        candidate_trim isDegradedContext_def isBlank_def)
  with a show ?thesis by blast
qed

text \<open>
  C24. Only the inputs can make a score fail. A score is computed iff the references of the claim
  have the form of references without phone numbers and URLs, the metadata of the record passes
  its checks, health, claim check and impact are of the project of the claim, and the inputs pass
  theirs: no factor, no identifier and no result that the code itself makes is ever refused.
\<close>

theorem score_returns_iff:
  assumes "confLaw lib"
  shows "(\<exists>a. svcScore lib t1 t2 rec health cc impact = Inr a) \<longleftrightarrow>
    claimRefsOK (rcClaim rec) \<and> validateClaimRecordMetadata lib rec = Inr ()
    \<and> sameProject rec health cc impact \<and> (\<exists>inputs. buildInputs lib t1 rec health cc impact = Inr inputs)"
proof
  have blank: "isBlank v \<longleftrightarrow> trimSpace v = []" for v by (simp add: isBlank_def)
  assume "\<exists>a. svcScore lib t1 t2 rec health cc impact = Inr a"
  then show "claimRefsOK (rcClaim rec) \<and> validateClaimRecordMetadata lib rec = Inr ()
    \<and> sameProject rec health cc impact \<and> (\<exists>inputs. buildInputs lib t1 rec health cc impact = Inr inputs)"
    unfolding svcScore_def claimRefsOK_def sameProject_def mismatch_def blank
    by (auto simp: tryE_Inr failIf_Inr Let_def safeRefIdentifier_cf_Inr [OF assms] safeOptRef_cf_Inr [OF assms])
next
  show "\<exists>a. svcScore lib t1 t2 rec health cc impact = Inr a"
    if "claimRefsOK (rcClaim rec) \<and> validateClaimRecordMetadata lib rec = Inr ()
      \<and> sameProject rec health cc impact \<and> (\<exists>inputs. buildInputs lib t1 rec health cc impact = Inr inputs)"
    using that score_returns [OF assms] by blast
qed

theorem score_returns_iff_witness:
  "\<not> (\<exists>a. svcScore demoConf 6 6 (demoScored [] []\<lparr>rcClaim := demoClaim\<lparr>cmClaimRef := ''555-123-4567''\<rparr>\<rparr>)
     (demoHealth []) None None = Inr a)"
proof -
  let ?p = "''555-123-4567''"
  have t: "trimSpace ?p = ?p" by (rule trimSpace_graphic) (simp_all add: graphic_def)
  have "matchString phonePattern ?p" by code_simp
  then have "\<not> refForm_cf (trimSpace ?p)" unfolding t refForm_cf_def by blast
  then have "\<not> claimRefsOK (demoClaim\<lparr>cmClaimRef := ?p\<rparr>)" unfolding claimRefsOK_def by simp
  then show ?thesis unfolding score_returns_iff [OF demoConf_law] by simp
qed

text \<open>
  Evidence never lowers a score. If a claim is scored before and after evidence is appended to
  its record, with all else equal, the second score is at least the first.
\<close>

theorem evidence_never_lowers:
  assumes "svcScore lib t1 t2 rec health cc impact = Inr a"
    and "svcScore lib t1 t3 (rec\<lparr>rcEvidence := rcEvidence rec @ es\<rparr>) health cc impact = Inr a'"
  shows "caScore a \<le> caScore a'"
proof -
  let ?rec' = "rec\<lparr>rcEvidence := rcEvidence rec @ es\<rparr>"
  obtain i where i: "buildInputs lib t1 rec health cc impact = Inr i"
    "caFactors a = scoreFactors rec health cc impact i" "caScore a = clampScore (factorSum (caFactors a))"
    using scored [OF assms(1)] by blast
  obtain j where j: "buildInputs lib t1 ?rec' health cc impact = Inr j"
    "caFactors a' = scoreFactors ?rec' health cc impact j" "caScore a' = clampScore (factorSum (caFactors a'))"
    using scored [OF assms(2)] by blast
  note eqs = inputs_of [OF i(1)] inputs_of [OF j(1)]
  have c: "claimCheckFactor cc i = claimCheckFactor cc j" "impactFactor impact i = impactFactor impact j"
    by (rule same_factors; simp add: eqs)+
  have l: "lifecycleFactors rec i = lifecycleFactors ?rec' j"
    by (rule lifecycle_same) (simp_all add: eqs)
  have "ftScoreDelta (evidenceCountFactor (inEvidenceCount i)) \<le> ftScoreDelta (evidenceCountFactor (inEvidenceCount j))"
    by (rule evidenceCount_mono) (simp_all add: eqs)
  moreover have "ftScoreDelta (evidenceDiversityFactor (int (length (inEvidenceKinds i))))
      \<le> ftScoreDelta (evidenceDiversityFactor (int (length (inEvidenceKinds j))))"
    by (rule diversity_mono) (simp add: eqs kinds_mono)
  moreover have "inContextHealthStatus i = inContextHealthStatus j" "inLatestRunAgeSeconds i = inLatestRunAgeSeconds j"
    by (simp_all add: eqs)
  ultimately have "factorSum (caFactors a) \<le> factorSum (caFactors a')"
    unfolding i(2) j(2) by (simp add: factorSum_def scoreFactors_def c l)
  then show ?thesis unfolding i(3) j(3) by (rule clampScore_mono)
qed

theorem evidence_never_lowers_witness:
  "\<exists>a a'. svcScore demoConf 6 6 (demoScored [] []) (demoHealth []) (Some demoCheck) (Some demoImpact) = Inr a
     \<and> svcScore demoConf 6 6 (demoScored [demoEvidence] []) (demoHealth []) (Some demoCheck) (Some demoImpact) = Inr a'
     \<and> caScore a \<le> caScore a'"
proof -
  obtain a where a: "svcScore demoConf 6 6 (demoScored [] []) (demoHealth []) (Some demoCheck) (Some demoImpact) = Inr a"
    using demo_scored [where es = "[]" and xs = "[]" and t = 6 and tt = 6 and status = "[]"] by auto
  obtain a' where a': "svcScore demoConf 6 6 (demoScored [demoEvidence] []) (demoHealth []) (Some demoCheck) (Some demoImpact) = Inr a'"
    using demo_scored [where es = "[demoEvidence]" and xs = "[]" and t = 6 and tt = 6 and status = "[]"] by auto
  have e: "demoScored [] []\<lparr>rcEvidence := rcEvidence (demoScored [] []) @ [demoEvidence]\<rparr> = demoScored [demoEvidence] []"
    by (simp add: demoScored_def demoRecord_def)
  from evidence_never_lowers [OF a, where es = "[demoEvidence]" and a' = a', unfolded e, OF a'] a a'
  show ?thesis by blast
qed

text \<open>
  C34. A failed outcome vetoes. If a claim is scored before and after a failed outcome is appended
  to its record, with all else equal, the score does not rise and the recommendation is to reject.
\<close>

theorem failed_outcome_vetoes:
  assumes "svcScore lib t1 t2 rec health cc impact = Inr a" and "ocStatus x = OutcomeStatusFailed"
    and "svcScore lib t1 t3 (rec\<lparr>rcOutcomes := rcOutcomes rec @ [x]\<rparr>) health cc impact = Inr a'"
  shows "caScore a' \<le> caScore a \<and> caRecommendation a' = RecommendationReject"
proof -
  let ?rec' = "rec\<lparr>rcOutcomes := rcOutcomes rec @ [x]\<rparr>"
  obtain i where i: "buildInputs lib t1 rec health cc impact = Inr i"
    "caFactors a = scoreFactors rec health cc impact i" "caScore a = clampScore (factorSum (caFactors a))"
    using scored [OF assms(1)] by blast
  obtain j where j: "buildInputs lib t1 ?rec' health cc impact = Inr j"
    "caFactors a' = scoreFactors ?rec' health cc impact j" "caScore a' = clampScore (factorSum (caFactors a'))"
    "caRecommendation a' = recommendationFor (caScore a') (caBand a') ?rec' j
      (cc \<noteq> None \<and> smTotal (crsSummary (the cc)) > 0) (impact \<noteq> None)"
    using scored [OF assms(3)] by blast
  note eqs = inputs_of [OF i(1)] inputs_of [OF j(1)]
  have c: "claimCheckFactor cc i = claimCheckFactor cc j" "impactFactor impact i = impactFactor impact j"
    by (rule same_factors; simp add: eqs)+
  have "evidenceKindsOf ?rec' = evidenceKindsOf rec" by (simp add: evidenceKindsOf_def)
  moreover have "inContextHealthStatus i = inContextHealthStatus j" "inLatestRunAgeSeconds i = inLatestRunAgeSeconds j"
    by (simp_all add: eqs)
  moreover have l: "sum_list (map ftScoreDelta (lifecycleFactors ?rec' j)) \<le> sum_list (map ftScoreDelta (lifecycleFactors rec i))"
    and f: "inFailedOutcomeCount j > 0"
    using lifecycle_failed [OF assms(2) refl, of i rec j] by (simp_all add: eqs)
  ultimately have "factorSum (caFactors a') \<le> factorSum (caFactors a)"
    unfolding i(2) j(2) by (simp add: factorSum_def scoreFactors_def c eqs)
  then have "caScore a' \<le> caScore a" unfolding i(3) j(3) by (rule clampScore_mono)
  with f show ?thesis by (simp add: j(4) recommendationFor_def)
qed

theorem failed_outcome_vetoes_witness:
  "\<exists>a a'. svcScore demoConf 6 6 (demoScored [] []) (demoHealth []) (Some demoCheck) (Some demoImpact) = Inr a
     \<and> svcScore demoConf 6 6 (demoScored [] [demoOutcome 1 ''failed'']) (demoHealth []) (Some demoCheck) (Some demoImpact) = Inr a'
     \<and> caScore a' \<le> caScore a \<and> caRecommendation a' = RecommendationReject"
proof -
  obtain a where a: "svcScore demoConf 6 6 (demoScored [] []) (demoHealth []) (Some demoCheck) (Some demoImpact) = Inr a"
    using demo_scored [where es = "[]" and xs = "[]" and t = 6 and tt = 6 and status = "[]"] by auto
  obtain a' where a': "svcScore demoConf 6 6 (demoScored [] [demoOutcome 1 ''failed'']) (demoHealth []) (Some demoCheck) (Some demoImpact) = Inr a'"
    using demo_scored [where es = "[]" and xs = "[demoOutcome 1 ''failed'']" and t = 6 and tt = 6 and status = "[]"] by auto
  have x: "ocStatus (demoOutcome 1 ''failed'') = OutcomeStatusFailed" by (simp add: demoOutcome_def)
  have e: "demoScored [] []\<lparr>rcOutcomes := rcOutcomes (demoScored [] []) @ [demoOutcome 1 ''failed'']\<rparr>
      = demoScored [] [demoOutcome 1 ''failed'']"
    by (simp add: demoScored_def demoRecord_def)
  from failed_outcome_vetoes [OF a x, where a' = a', unfolded e, OF a'] a a' show ?thesis by blast
qed

end
