(* ===== verification/Confidence_Boundary.thy ===== *)
theory Confidence_Boundary
  imports Confidence_Demo Evidence_Properties
begin

section \<open>Confidence scores: stored assessments, and claims of the evidence service\<close>

text \<open>
  The states of the store that scoring reaches, reading assessments back, the paths that are sent
  to the impact analysis, and which claims of the evidence service can be scored.
\<close>

subsection \<open>The assessments of a store\<close>

definition assessmentOK :: "ConfidenceAssessment \<Rightarrow> bool" where
  "assessmentOK a \<longleftrightarrow> refForm_cf (caID a) \<and> refForm_cf (caProjectID a) \<and> refForm_cf (caClaimID a)
     \<and> refForm_cf (caClaimRef a) \<and> (caRunID a = [] \<or> refForm_cf (caRunID a))
     \<and> (caTraceID a = [] \<or> refForm_cf (caTraceID a)) \<and> 0 \<le> caScore a \<and> caScore a \<le> 100
     \<and> caBand a \<in> set scoreBands \<and> caRecommendation a \<in> set recommendations
     \<and> list_all goodFactor (caFactors a) \<and> caCreatedAt a = caUpdatedAt a"

lemma opt_form_cf:
  "safeOptionalRefIdentifier_cf lib v f = Inr r \<Longrightarrow> r = [] \<or> refForm_cf r"
  by (auto simp: safeOptionalRefIdentifier_cf_def optionalWith_Inr dest: safeRefIdentifier_cf_form split: if_splits)

lemma scored_OK:
  assumes "svcScore lib t1 t2 rec health cc impact = Inr a"
  shows "assessmentOK a"
proof -
  have refs: "refForm_cf (caProjectID a)" "refForm_cf (caClaimID a)" "refForm_cf (caClaimRef a)"
    "caRunID a = [] \<or> refForm_cf (caRunID a)" "caTraceID a = [] \<or> refForm_cf (caTraceID a)"
    "refForm_cf (caID a)" "caCreatedAt a = caUpdatedAt a"
    using assms unfolding svcScore_def
    by (auto simp: tryE_Inr addFactors_eq Let_def deterministicID_form dest: safeRefIdentifier_cf_form opt_form_cf)
  obtain inputs where "caFactors a = scoreFactors rec health cc impact inputs"
    and "caScore a = clampScore (factorSum (caFactors a))"
    and "caBand a = bandOf (caScore a) (inContextHealthStatus inputs)"
    and "caRecommendation a = recommendationFor (caScore a) (caBand a) rec inputs
      (cc \<noteq> None \<and> smTotal (crsSummary (the cc)) > 0) (impact \<noteq> None)"
    using scored [OF assms] by blast
  then have "list_all goodFactor (caFactors a)" "0 \<le> caScore a" "caScore a \<le> 100"
    "caBand a \<in> set scoreBands" "caRecommendation a \<in> set recommendations"
    using good_factors band_in recommendation_in by (simp_all add: list_all_iff clampScore_def)
  with refs show ?thesis by (simp add: assessmentOK_def)
qed

inductive confidenceReachable :: "ConfLib \<Rightarrow> ConfidenceStore \<Rightarrow> bool" for lib where
  init: "confidenceReachable lib newConfidenceStore"
| score: "confidenceReachable lib st \<Longrightarrow> svcScoreClaim lib (Some st) t1 t2 inputs = (r, Some st')
    \<Longrightarrow> confidenceReachable lib st'"

lemma scoreClaim_store:
  assumes "svcScoreClaim lib (Some st) t1 t2 inputs = (r, Some st')"
  shows "(\<exists>a. r = Inr a \<and> assessmentOK a \<and> st' = storeAssessment st a) \<or> (\<exists>e. r = Inl e \<and> st' = st)"
proof (cases "svcScore lib t1 t2 (riClaim inputs) (riHealth inputs) (riClaimCheck inputs) (riImpact inputs)")
  case (Inr a)
  with assms have "r = Inr a" "st' = storeAssessment st a" by (simp_all add: svcScoreClaim_def memCreateAssessment_eq)
  with scored_OK [OF Inr] show ?thesis by blast
next
  case (Inl e)
  with assms have "r = Inl e" "st' = st" by (simp_all add: svcScoreClaim_def)
  then show ?thesis by blast
qed

definition confidenceInv :: "ConfidenceStore \<Rightarrow> bool" where
  "confidenceInv st \<longleftrightarrow> allVals getAssessment assessmentOK st \<and> keyed getAssessment assessmentKeyOf st"

lemma reachable_confidenceInv: "confidenceReachable lib st \<Longrightarrow> confidenceInv st"
proof (induction rule: confidenceReachable.induct)
  case init
  show ?case by (simp add: confidenceInv_def allVals_def keyed_def getAssessment_def newConfidenceStore_def)
next
  case (score st t1 t2 inputs r st')
  then show ?case
    using scoreClaim_store [OF score(2)] assessments.allVals_put assessments.keyed_put
    unfolding confidenceInv_def by blast
qed

definition demoInputs :: ReliabilityInputs where
  "demoInputs = \<lparr>riClaim = demoScored [demoEvidence] [demoOutcome 1 ''passed''], riHealth = demoHealth ''ready'',
     riClaimCheck = Some demoCheck, riImpact = Some demoImpact\<rparr>"

lemma demo_scoreClaim:
  "\<exists>a. svcScoreClaim demoConf (Some newConfidenceStore) 6 6 demoInputs = (Inr a, Some (storeAssessment newConfidenceStore a))"
proof -
  obtain a where "svcScore demoConf 6 6 (riClaim demoInputs) (riHealth demoInputs) (riClaimCheck demoInputs)
      (riImpact demoInputs) = Inr a"
    using demo_scored [where es = "[demoEvidence]" and xs = "[demoOutcome 1 ''passed'']" and t = 6 and tt = 6
        and status = "''ready''"] by (auto simp: demoInputs_def)
  then show ?thesis by (simp add: svcScoreClaim_def memCreateAssessment_eq)
qed

text \<open>
  C36. Stored assessments are well formed. In every state of the store that scoring reaches, an
  assessment lies under the key of its project and claim, its references have their form, its
  score is from 0 to 100, its band and recommendation are among those of the model, its factors
  are ones the code writes, and it has one time.
\<close>

theorem stored_assessments_typed:
  assumes "confidenceReachable lib st" and "getAssessment st k = Some a"
  shows "k = assessmentKeyOf a \<and> assessmentOK a"
  using reachable_confidenceInv [OF assms(1)] assms(2)
  by (auto simp: confidenceInv_def allVals_def keyed_def)

theorem stored_assessments_typed_witness:
  "\<exists>st a. getAssessment st (assessmentKeyOf a) = Some a \<and> assessmentOK a"
proof -
  obtain a where a: "svcScoreClaim demoConf (Some newConfidenceStore) 6 6 demoInputs
      = (Inr a, Some (storeAssessment newConfidenceStore a))"
    using demo_scoreClaim by blast
  have r: "confidenceReachable demoConf (storeAssessment newConfidenceStore a)"
    by (rule confidenceReachable.score [OF confidenceReachable.init a])
  from stored_assessments_typed [OF r assessments.get_put_same] assessments.get_put_same show ?thesis by blast
qed

lemma safeRef_cf_idem:
  "safeRefIdentifier_cf lib v f = Inr r \<Longrightarrow> safeRefIdentifier_cf lib r f' = Inr r"
  unfolding safeRefIdentifier_cf_def by (rule safeRefIdentifierWith_idem)

text \<open>
  A scored claim is read back. The identifiers in the answer of \<open>ScoreClaim\<close> are accepted by
  \<open>GetAssessment\<close>, which returns the same assessment; a later score of the claim replaces it.
\<close>

theorem scored_claim_read_back:
  assumes "svcScoreClaim lib (Some st) t1 t2 inputs = (Inr a, Some st')"
  shows "svcGetAssessment lib (Some st') (caProjectID a) (caClaimID a) = Inr a"
proof -
  have s: "svcScore lib t1 t2 (riClaim inputs) (riHealth inputs) (riClaimCheck inputs) (riImpact inputs) = Inr a"
    and st: "st' = storeAssessment st a"
    using assms unfolding svcScoreClaim_def by (auto simp: tryS_Inr memCreateAssessment_eq)
  have i: "safeRefIdentifier_cf lib (caProjectID a) f = Inr (caProjectID a)"
    "safeRefIdentifier_cf lib (caClaimID a) f = Inr (caClaimID a)" for f
    using s unfolding svcScore_def by (auto simp: tryE_Inr addFactors_eq Let_def dest: safeRef_cf_idem)
  have "getAssessment st' (assessmentKey (caProjectID a) (caClaimID a)) = Some a"
    using assessments.get_put_same [of st a] by (simp add: st assessmentKeyOf_def)
  then show ?thesis by (simp add: svcGetAssessment_def i memGetAssessment_Inr)
qed

theorem scored_claim_read_back_witness:
  "\<exists>st' a. svcGetAssessment demoConf (Some st') (caProjectID a) (caClaimID a) = Inr a"
proof -
  obtain a where a: "svcScoreClaim demoConf (Some newConfidenceStore) 6 6 demoInputs
      = (Inr a, Some (storeAssessment newConfidenceStore a))"
    using demo_scoreClaim by blast
  from scored_claim_read_back [OF a] show ?thesis by blast
qed

subsection \<open>Scoring with collected inputs\<close>

lemma adapterBuild_claim:
  assumes "adapterBuild lib adapter options w = (Inr inputs, w')"
  obtains p c where "safeRefIdentifier_cf lib (roProjectID options) ''project_id'' = Inr p"
    "safeRefIdentifier_cf lib (roClaimID options) ''claim_id'' = Inr c"
    "\<not> mismatch (cmProjectID (rcClaim (riClaim inputs))) p" "\<not> mismatch (cmID (rcClaim (riClaim inputs))) c"
proof -
  obtain ad getClaim contextHealth
    where ad: "adapter = Some ad" "adEvidence ad = Some getClaim" "adHealth ad = Some contextHealth"
    using assms unfolding adapterBuild_def by (auto simp: liftS_def split: option.splits)
  let ?tail = "\<lambda>p rec. seqS (contextHealth p) (\<lambda>health. seqS (adapterCheck lib ad p options) (\<lambda>cc.
      seqS (liftS (confidenceChangedPaths lib rec (roChangedPaths options))) (\<lambda>changedPaths.
      seqS (adapterImpact ad p changedPaths) (\<lambda>impact.
      retS \<lparr>riClaim = rec, riHealth = health, riClaimCheck = cc, riImpact = impact\<rparr>))))"
  let ?rest = "\<lambda>p c rec. if mismatch (cmProjectID (rcClaim rec)) p then liftS (Inl (ErrInvalidInput ''claim project mismatch''))
      else if mismatch (cmID (rcClaim rec)) c then liftS (Inl (ErrInvalidInput ''claim id mismatch'')) else ?tail p rec"
  have b: "seqS (liftS (safeRefIdentifier_cf lib (roProjectID options) ''project_id'')) (\<lambda>p.
      seqS (liftS (safeRefIdentifier_cf lib (roClaimID options) ''claim_id'')) (\<lambda>c. seqS (getClaim p c) (?rest p c))) w
    = (Inr inputs, w')"
    using assms unfolding adapterBuild_def ad option.case .
  obtain p where p: "safeRefIdentifier_cf lib (roProjectID options) ''project_id'' = Inr p"
    using b by (cases "safeRefIdentifier_cf lib (roProjectID options) ''project_id''") (simp_all only: seqS_lift, simp)
  obtain c where c: "safeRefIdentifier_cf lib (roClaimID options) ''claim_id'' = Inr c"
    using b unfolding p seqS_lift
    by (cases "safeRefIdentifier_cf lib (roClaimID options) ''claim_id''") (simp_all only: seqS_lift, simp)
  note ids = p c
  have "seqS (getClaim p c) (?rest p c) w = (Inr inputs, w')" using b unfolding p c seqS_lift .
  then obtain rec w1 where r: "?rest p c rec w1 = (Inr inputs, w')" unfolding seqS_Inr [of "getClaim p c"] by blast
  then have n: "\<not> mismatch (cmProjectID (rcClaim rec)) p" "\<not> mismatch (cmID (rcClaim rec)) c"
    and t: "?tail p rec w1 = (Inr inputs, w')"
    by (simp_all add: liftS_eq split: if_splits)
  from t have "riClaim inputs = rec" unfolding seqS_Inr retS_eq by fastforce
  with ids n that show thesis by blast
qed

lemma checked_id:
  assumes "safeRefIdentifier_cf lib v f = Inr r" and "safeRefIdentifier_cf lib w f' = Inr p" and "\<not> mismatch v p"
  shows "r = p"
proof -
  have r: "r = trimSpace v" "r \<noteq> []"
    using safeRefIdentifier_cf_form [OF assms(1)] unfolding refForm_cf_def refForm_def by blast+
  have p: "trimSpace p = p" using safeRefIdentifier_cf_form [OF assms(2)] refForm_cf_trim by blast
  have "v \<noteq> []" using r by auto
  with assms(3) have "v = p" by (simp add: mismatch_def)
  with r(1) p show ?thesis by simp
qed

text \<open>
  C35. What is scored is what was asked for. Whatever the four providers answer, an assessment that
  \<open>ScoreClaimWithInputs\<close> returns is of the requested project and claim, and it is the one the store
  holds for them afterwards.
\<close>

theorem scored_claim_is_requested:
  assumes "svcScoreClaimWithInputs lib adapter t1 t2 options (w, Some st) = (Inr a, (w', Some st'))"
  shows "caProjectID a = trimSpace (roProjectID options) \<and> caClaimID a = trimSpace (roClaimID options)
    \<and> getAssessment st' (assessmentKey (trimSpace (roProjectID options)) (trimSpace (roClaimID options))) = Some a"
proof -
  obtain inputs where b: "adapterBuild lib adapter options w = (Inr inputs, w')"
    and s: "svcScoreClaim lib (Some st) t1 t2 inputs = (Inr a, Some st')"
    using assms unfolding svcScoreClaimWithInputs_def by (auto split: prod.splits sum.splits)
  obtain p c where p: "safeRefIdentifier_cf lib (roProjectID options) ''project_id'' = Inr p"
    "safeRefIdentifier_cf lib (roClaimID options) ''claim_id'' = Inr c"
    "\<not> mismatch (cmProjectID (rcClaim (riClaim inputs))) p" "\<not> mismatch (cmID (rcClaim (riClaim inputs))) c"
    using adapterBuild_claim [OF b] by blast
  have sc: "svcScore lib t1 t2 (riClaim inputs) (riHealth inputs) (riClaimCheck inputs) (riImpact inputs) = Inr a"
    and st: "st' = storeAssessment st a"
    using s unfolding svcScoreClaim_def by (auto simp: tryS_Inr memCreateAssessment_eq)
  have "safeRefIdentifier_cf lib (cmProjectID (rcClaim (riClaim inputs))) ''project_id'' = Inr (caProjectID a)"
    "safeRefIdentifier_cf lib (cmID (rcClaim (riClaim inputs))) ''claim_id'' = Inr (caClaimID a)"
    using sc unfolding svcScore_def by (auto simp: tryE_Inr addFactors_eq Let_def)
  then have "caProjectID a = p" "caClaimID a = c"
    using checked_id p by blast+
  then have "caProjectID a = trimSpace (roProjectID options)" "caClaimID a = trimSpace (roClaimID options)"
    using safeRefIdentifier_cf_form [OF p(1)] safeRefIdentifier_cf_form [OF p(2)] by blast+
  then show ?thesis
    using assessments.get_put_same [of st a] by (simp add: st assessmentKeyOf_def)
qed

definition demoAdapter :: "unit InputAdapter" where
  "demoAdapter = \<lparr>adEvidence = Some (\<lambda>p c. retS (demoScored [demoEvidence] [demoOutcome 1 ''passed''])),
     adHealth = Some (\<lambda>p. retS (demoHealth ''ready'')), adChecker = None, adImpact = None\<rparr>"

definition demoOptions :: ReliabilityInputOptions where
  "demoOptions = \<lparr>roProjectID = '' m1'', roClaimID = demoEvID ''claim'' 1, roChangedPaths = [], roClaimCheckDocs = [],
     roClaimCheckPaths = [], roClaimCheckTools = [], roClaimCheckRoutes = [], roIncludeVerified = False\<rparr>"

lemma demo_build: "adapterBuild demoConf (Some demoAdapter) demoOptions ()
    = (Inr \<lparr>riClaim = demoScored [demoEvidence] [demoOutcome 1 ''passed''], riHealth = demoHealth ''ready'',
        riClaimCheck = None, riImpact = None\<rparr>, ())"
proof -
  have t: "tidyWord ''m1''" by (simp add: tidyWord_def tidyChar_def)
  have "trimSpace '' m1'' = ''m1''" unfolding trimSpace_space by (rule tidyWord_trimSpace [OF t])
  then have "safeRefIdentifier_cf demoConf '' m1'' f = Inr ''m1''" for f
    using tidy_form_cf [OF t] by (simp add: safeRefIdentifier_cf_Inr [OF demoConf_law])
  then show ?thesis
    by (simp add: adapterBuild_def demoAdapter_def demoOptions_def demoID_form_cf)
      (simp add: demoScored_def demoRecord_def demoClaim_def mismatch_def seqS_def retS_def adapterCheck_def
        adapterImpact_def liftS_def confidenceChangedPaths_def demoAction_def)
qed

theorem scored_claim_is_requested_witness:
  "\<exists>a st'. svcScoreClaimWithInputs demoConf (Some demoAdapter) 6 6 demoOptions ((), Some newConfidenceStore)
      = (Inr a, ((), Some st')) \<and> caProjectID a = ''m1'' \<and> caClaimID a = demoEvID ''claim'' 1"
proof -
  obtain a where "svcScore demoConf 6 6 (demoScored [demoEvidence] [demoOutcome 1 ''passed'']) (demoHealth ''ready'') None None = Inr a"
    using demo_scored_any [where es = "[demoEvidence]" and xs = "[demoOutcome 1 ''passed'']" and t = 6 and tt = 6
        and status = "''ready''" and cc = None and impact = None] by auto
  then have s: "svcScoreClaimWithInputs demoConf (Some demoAdapter) 6 6 demoOptions ((), Some newConfidenceStore)
      = (Inr a, ((), Some (storeAssessment newConfidenceStore a)))"
    by (simp add: svcScoreClaimWithInputs_def demo_build svcScoreClaim_def memCreateAssessment_eq)
  have t: "tidyWord ''m1''" by (simp add: tidyWord_def tidyChar_def)
  have "trimSpace '' m1'' = ''m1''" unfolding trimSpace_space by (rule tidyWord_trimSpace [OF t])
  with scored_claim_is_requested [OF s] s demoID_form_cf [of "''claim''" 1] show ?thesis
    by (auto simp: demoOptions_def idPrefixes_def)
qed

subsection \<open>Changed paths\<close>

definition normalPath :: "string \<Rightarrow> string" where
  "normalPath raw = trimSpace (replaceAll backslash ''/'' raw)"

definition cleanRelative :: "string \<Rightarrow> bool" where
  "cleanRelative p \<longleftrightarrow> p \<noteq> [] \<and> length p \<le> 300 \<and> list_all identByte p \<and> \<not> hasPrefix p ''/''
     \<and> \<not> contains p ''..'' \<and> \<not> contains p ''//'' \<and> \<not> rootMarker p"

lemma safeChangedPath_Inr:
  assumes "safeChangedPath lib raw = Inr p"
  shows "p = normalPath raw" and "p = [] \<or> cleanRelative p"
  using assms
  by (auto simp: safeChangedPath_def normalPath_def cleanRelative_def unsafeChangedPath_def Let_def split: if_splits)

lemma addPaths_Cons:
  assumes "addPaths lib out (r # raws) = Inr ps"
  obtains out' where "addPaths lib out' raws = Inr ps" "set out' = set out \<union> (if normalPath r = [] then {} else {normalPath r})"
    "distinct out \<Longrightarrow> distinct out'" "list_all cleanRelative out \<Longrightarrow> list_all cleanRelative out'"
proof -
  obtain p where p: "safeChangedPath lib r = Inr p"
    and rest: "(if p = [] \<or> p \<in> set out then addPaths lib out raws else addPaths lib (out @ [p]) raws) = Inr ps"
    using assms by (auto simp: tryE_Inr)
  note q = safeChangedPath_Inr [OF p]
  show thesis
  proof (cases "p = [] \<or> p \<in> set out")
    case True
    with rest q(1) show thesis by (intro that [of out]) auto
  next
    case False
    with rest q show thesis by (intro that [of "out @ [p]"]) auto
  qed
qed

lemma addPaths_Inr:
  "addPaths lib out raws = Inr ps \<Longrightarrow>
     set ps = set out \<union> {normalPath r |r. r \<in> set raws \<and> normalPath r \<noteq> []}
     \<and> (distinct out \<longrightarrow> distinct ps) \<and> (list_all cleanRelative out \<longrightarrow> list_all cleanRelative ps)"
proof (induction raws arbitrary: out)
  case (Cons r raws)
  obtain out' where o: "addPaths lib out' raws = Inr ps"
    "set out' = set out \<union> (if normalPath r = [] then {} else {normalPath r})"
    "distinct out \<Longrightarrow> distinct out'" "list_all cleanRelative out \<Longrightarrow> list_all cleanRelative out'"
    using addPaths_Cons [OF Cons.prems] by blast
  have "set ps = set out \<union> {normalPath r' |r'. r' \<in> set (r # raws) \<and> normalPath r' \<noteq> []}"
    using Cons.IH [OF o(1)] o(2) by auto
  with Cons.IH [OF o(1)] o(3,4) show ?case by blast
qed simp

text \<open>
  The impact analysis gets clean paths, each once. The paths sent to it are, in order and
  without duplicates, exactly the nonempty normal forms of the requested paths and of the files
  of the actions; each is relative, of identifier bytes, and free of \<open>..\<close>, double slashes and
  root markers.
\<close>

theorem changed_paths_exact:
  assumes "confidenceChangedPaths lib rec requested = Inr ps"
  shows "sorted ps \<and> distinct ps \<and> list_all cleanRelative ps
    \<and> set ps = {normalPath r |r. r \<in> set (requested @ concat (map acChangedFiles (rcActions rec))) \<and> normalPath r \<noteq> []}"
proof -
  obtain out1 out2 where o1: "addPaths lib [] requested = Inr out1"
    and o2: "addPaths lib out1 (concat (map acChangedFiles (rcActions rec))) = Inr out2" and ps: "ps = sort out2"
    using assms by (auto simp: confidenceChangedPaths_def tryE_Inr)
  note one = addPaths_Inr [OF o1] and two = addPaths_Inr [OF o2]
  have "distinct ps" "list_all cleanRelative ps"
    using two one by (simp_all add: ps list_all_iff)
  moreover have "set ps = {normalPath r |r. r \<in> set (requested @ concat (map acChangedFiles (rcActions rec))) \<and> normalPath r \<noteq> []}"
    using two one by (auto simp: ps)
  ultimately show ?thesis by (simp add: ps)
qed

lemma tidy_changed_path:
  assumes "tidyWord s"
  shows "safeChangedPath demoConf s = Inr s"
proof -
  have i: "list_all identByte s" using assms by (simp add: tidyWord_def tidy_identBytes)
  have sl: "CHR ''/'' \<notin> set s" using assms by (auto simp: tidyWord_def list_all_iff tidyChar_def)
  have "\<not> containsURL_cf demoConf s"
    using tidy_form_cf [OF assms] law_URL [OF demoConf_law ident_no_colon [OF i]] by (simp add: refForm_cf_def)
  moreover have "\<not> hasPrefix s ''/''" "\<not> contains s ''//''" "\<not> contains s ''..''"
    using sl tidy_no_dot [OF assms] by (auto dest!: set_mono_sublist set_mono_prefix)
  ultimately show ?thesis
    using assms i by (simp add: safeChangedPath_def unsafeChangedPath_def replaceAll_absent identByte_not_backslash
        isAbs_def ident_data_cf tidy_phone tidy_rootMarker tidy_sourceDump Let_def)
      (simp add: tidyWord_def)
qed

theorem changed_paths_exact_witness:
  "confidenceChangedPaths demoConf (demoScored [] []) [''m2'', ''m1'', ''m2''] = Inr [''m1'', ''m2'']
   \<and> sorted [''m1'', ''m2''] \<and> cleanRelative ''m1''"
proof -
  have "safeChangedPath demoConf ''m1'' = Inr ''m1''" "safeChangedPath demoConf ''m2'' = Inr ''m2''"
    by (rule tidy_changed_path; simp add: tidyWord_def tidyChar_def)+
  then have c: "confidenceChangedPaths demoConf (demoScored [] []) [''m2'', ''m1'', ''m2''] = Inr [''m1'', ''m2'']"
    by (simp add: confidenceChangedPaths_def demoScored_def demoRecord_def demoAction_def)
  from changed_paths_exact [OF c] c show ?thesis by (simp del: sorted_simps)
qed

subsection \<open>Claims of the evidence service\<close>

lemma created_claim:
  assumes "svcCreateClaim net st now rnd input = (Inr c, st')"
  shows "cmID c = newID_ev ''claim'' rnd" "refForm (cmProjectID c)" "refForm (cmClaimRef c)"
    "cmRunID c = [] \<or> refForm (cmRunID c)" "cmTraceID c = [] \<or> refForm (cmTraceID c)"
    "cmStatus c \<in> set claimStatuses"
  using assms by (auto simp: svcCreateClaim_def buildClaim_def memCreateClaim_def res_simps ident_simps Let_def
      dest: enum_Inr(7))

definition noContact :: "string \<Rightarrow> bool" where
  "noContact r \<longleftrightarrow> \<not> matchString phonePattern r \<and> \<not> contains (toLower r) ''www.''"

lemma refForm_cf_iff: "refForm r \<Longrightarrow> refForm_cf r \<longleftrightarrow> noContact r"
  by (simp add: refForm_cf_def noContact_def)

lemma noContact_Nil: "noContact []"
  using phone_needs_digit [of "[]"] by (auto simp: noContact_def)

lemma claimStatus_ok: "s \<in> set claimStatuses \<Longrightarrow> s \<noteq> [] \<and> safeClaimStatus_cf s = Inr s"
proof -
  assume s: "s \<in> set claimStatuses"
  then have "trimSpace s = s" "s \<noteq> []"
    by (auto simp: claimStatuses_def intro!: trimSpace_graphic simp: graphic_def)
  with s show ?thesis by (simp add: safeClaimStatus_cf_def safeEnum_def)
qed

text \<open>
  C39. Which new claims can be scored. A claim that the evidence service has just created is scored
  from a context health, without a claim check and an impact analysis, iff the health names its
  project or none, the reason of the health passes the text check of the confidence service, none
  of the references of the claim has a phone number or \<open>www.\<close> in it, and its summary passes the
  text check.
\<close>

theorem created_claim_scored_iff:
  assumes lib: "confLaw lib" and c: "svcCreateClaim net st now rnd input = (Inr c, st')" and "length rnd = 16"
  shows "(\<exists>a. svcScore lib t1 t2 (newRecord c) health None None = Inr a) \<longleftrightarrow>
    chProjectID health \<in> {[], cmProjectID c}
    \<and> (\<exists>s. safeOptionalText_cf lib (trimSpace (chStatusReason health)) ''context_health_reason'' 200 = Inr s)
    \<and> list_all noContact [cmProjectID c, cmClaimRef c, cmRunID c, cmTraceID c]
    \<and> (\<exists>s. safeOptionalText_cf lib (cmSummary c) ''claim_summary'' 500 = Inr s)"
proof -
  note f = created_claim [OF c]
  have o: "isBlank r \<or> refForm_cf (trimSpace r) \<longleftrightarrow> noContact r" if "r = [] \<or> refForm r" for r
    using that refForm_cf_iff noContact_Nil by (auto simp: isBlank_def)
  have "claimRefsOK c \<longleftrightarrow> list_all noContact [cmProjectID c, cmClaimRef c, cmRunID c, cmTraceID c]"
    using f(2,3) newID_form_cf [OF _ assms(3)] unfolding claimRefsOK_def o [OF f(4)] o [OF f(5)]
    by (simp add: refForm_cf_iff f(1))
  moreover have "validateClaimRecordMetadata lib (newRecord c) = Inr () \<longleftrightarrow>
      (\<exists>s. safeOptionalText_cf lib (cmSummary c) ''claim_summary'' 500 = Inr s)"
    using claimStatus_ok [OF f(6)] by (simp add: validateClaimRecordMetadata_def newRecord_def tryE_Inr)
  moreover have "sameProject (newRecord c) health None None \<longleftrightarrow> chProjectID health \<in> {[], cmProjectID c}"
    using f(2) by (simp add: sameProject_def newRecord_def)
  moreover have "(\<exists>i. buildInputs lib t1 (newRecord c) health None None = Inr i) \<longleftrightarrow>
      (\<exists>s. safeOptionalText_cf lib (trimSpace (chStatusReason health)) ''context_health_reason'' 200 = Inr s)"
  proof (cases "trimSpace (chStatusReason health) = []")
    case True
    moreover have "safeOptionalText_cf lib [] ''context_health_reason'' 200 = Inr []"
      by (simp add: safeOptionalText_cf_def safeTextWith_def)
    ultimately show ?thesis
      by (simp add: buildInputs_def newRecord_def Let_def evidenceKindsOf_def claimCheckMessages_def impactRefs_def)
  next
    case False
    then show ?thesis
      by (simp add: buildInputs_def newRecord_def Let_def evidenceKindsOf_def claimCheckMessages_def impactRefs_def
          tryE_Inr setIf_def)
  qed
  ultimately show ?thesis
    using score_returns [OF lib, of "newRecord c" health None None t1] score_needs [of lib t1 t2 "newRecord c" health None None]
    by (auto simp: newRecord_def)
qed

theorem created_claim_scored_iff_witness:
  "\<exists>a. svcScore demoConf 6 6 (newRecord demoClaim) (demoHealth []) None None = Inr a"
proof -
  have c: "svcCreateClaim demoNet newEvidenceStore 1 (demoBytes 1)
      \<lparr>icProjectID = ''m1'', icRunID = [], icTraceID = [], icClaimRef = ''c1'', icSummary = ''s1'', icStatus = []\<rparr>
      = (Inr demoClaim, demoStore (demoRecord [] [] [] [] [] []))"
    by (rule demoClaim_created)
  have w: "tidyWord ''m1''" "tidyWord ''c1''" "tidyWord ''s1''" by (simp_all add: tidyWord_def tidyChar_def)
  have h: "chProjectID (demoHealth []) = cmProjectID demoClaim" "trimSpace (chStatusReason (demoHealth [])) = []"
    by (simp_all add: demoHealth_def demoClaim_def)
  have r: "safeOptionalText_cf demoConf [] ''context_health_reason'' 200 = Inr []"
    by (simp add: safeOptionalText_cf_def safeTextWith_def)
  have "list_all noContact [''m1'', ''c1'', [], []]"
    using refForm_cf_iff tidy_form_cf w noContact_Nil by simp
  then show ?thesis
    using created_claim_scored_iff [OF demoConf_law c, of 6 6 "demoHealth []"] tidy_text_cf [OF w(3)] h r
    by (simp add: demoBytes_def) (simp add: demoClaim_def)
qed

lemma phone_claim_created:
  "\<exists>c st'. svcCreateClaim demoNet newEvidenceStore 1 (demoBytes 1)
      \<lparr>icProjectID = ''m1'', icRunID = [], icTraceID = [], icClaimRef = ''555-123-4567'', icSummary = ''s1'', icStatus = []\<rparr>
    = (Inr c, st') \<and> cmClaimRef c = ''555-123-4567''"
  using phone_number_reference [of demoNet "''claim_ref''" 0]
  by (simp add: svcCreateClaim_def buildClaim_def tidy_eval safeClaimStatus_def memCreateClaim_def Let_def)

text \<open>
  The evidence service accepts claims that can never be scored: a claim under a phone number is
  created, and no health, claim check or impact analysis lets the confidence service score it.
\<close>

theorem accepted_claim_never_scored:
  "\<exists>input c st'. svcCreateClaim demoNet newEvidenceStore 1 (demoBytes 1) input = (Inr c, st')
     \<and> \<not> (\<exists>lib t1 t2 health cc impact a. svcScore lib t1 t2 (newRecord c) health cc impact = Inr a)"
proof -
  let ?p = "''555-123-4567''"
  have t: "trimSpace ?p = ?p" by (rule trimSpace_graphic) (simp_all add: graphic_def)
  have "matchString phonePattern ?p" by code_simp
  then have n: "\<not> refForm_cf (trimSpace ?p)" unfolding t refForm_cf_def by blast
  obtain c st' where c: "svcCreateClaim demoNet newEvidenceStore 1 (demoBytes 1)
      \<lparr>icProjectID = ''m1'', icRunID = [], icTraceID = [], icClaimRef = ?p, icSummary = ''s1'', icStatus = []\<rparr> = (Inr c, st')"
    and r: "cmClaimRef c = ?p"
    using phone_claim_created by blast
  have "\<not> claimRefsOK (rcClaim (newRecord c))" using n unfolding claimRefsOK_def newRecord_def by (simp add: r)
  then have "svcScore lib t1 t2 (newRecord c) health cc impact \<noteq> Inr a" for lib t1 t2 health cc impact a
    using score_needs(1) by blast
  with c show ?thesis by blast
qed

end
