(* ===== verification/Workflow_Model.thy ===== *)
theory Workflow_Model
  imports Prelude Store_Interface
begin

section \<open>Workflows: data model\<close>

text \<open>
  The types of \<open>internal/projectworkflow/model.go\<close> and the inputs of the service: one record
  per struct, with the fields in the order of the source.
\<close>

abbreviation WorkflowStatusDraft :: string where "WorkflowStatusDraft \<equiv> ''draft''"
abbreviation WorkflowStatusEnabled :: string where "WorkflowStatusEnabled \<equiv> ''enabled''"
abbreviation WorkflowStatusDisabled :: string where "WorkflowStatusDisabled \<equiv> ''disabled''"
abbreviation WorkflowStatusSuperseded :: string where "WorkflowStatusSuperseded \<equiv> ''superseded''"

definition workflowStatuses :: "string list" where
  "workflowStatuses =
    [WorkflowStatusDraft, WorkflowStatusEnabled, WorkflowStatusDisabled, WorkflowStatusSuperseded]"

abbreviation WorkflowStepKindWorkPlan :: string where "WorkflowStepKindWorkPlan \<equiv> ''work_plan''"
abbreviation WorkflowStepKindWorkTask :: string where "WorkflowStepKindWorkTask \<equiv> ''work_task''"
abbreviation WorkflowStepKindAutomation :: string where "WorkflowStepKindAutomation \<equiv> ''automation''"
abbreviation WorkflowStepKindAutomationBatch :: string where
  "WorkflowStepKindAutomationBatch \<equiv> ''automation_batch''"
abbreviation WorkflowStepKindReviewGate :: string where "WorkflowStepKindReviewGate \<equiv> ''review_gate''"

definition stepKinds :: "string list" where
  "stepKinds =
    [WorkflowStepKindWorkPlan, WorkflowStepKindWorkTask, WorkflowStepKindAutomation,
     WorkflowStepKindAutomationBatch, WorkflowStepKindReviewGate]"

definition reviewGateDecisions :: "string list" where
  "reviewGateDecisions = [''approved'', ''rejected'', ''needs_changes'', ''blocked'']"

record WorkflowAgentDefinition =
  waID :: string
  waDisplayName :: string
  waPurpose :: string
  waInstructions :: string
  waAllowedSkills :: "string list"
  waAllowedTools :: "string list"
  waAllowedCommands :: "string list"
  waDeniedCommands :: "string list"
  waWorkspaceMode :: string
  waNetworkPolicy :: string
  waSecretPolicy :: string
  waLogPolicy :: string
  waMaxRuntime :: string
  waMaxRetries :: int
  waCreatedAt :: time
  waUpdatedAt :: time

record WorkflowPermissionSnapshot =
  wnID :: string
  wnProjectID :: string
  wnAgentID :: string
  wnWorkflowID :: string
  wnInstructions :: string
  wnAllowedSkills :: "string list"
  wnAllowedTools :: "string list"
  wnAllowedCommands :: "string list"
  wnDeniedCommands :: "string list"
  wnWorkspaceMode :: string
  wnNetworkPolicy :: string
  wnSecretPolicy :: string
  wnLogPolicy :: string
  wnMaxRuntime :: string
  wnMaxRetries :: int
  wnContentHash :: string
  wnCreatedByRunID :: string
  wnTraceID :: string
  wnCreatedAt :: time
  wnUpdatedAt :: time

record WorkflowStep =
  wkID :: string
  wkKind :: string
  wkTitle :: string
  wkAgent :: string
  wkDependsOn :: "string list"
  wkDescription :: string
  wkEvidenceNeeded :: "string list"
  wkContextPackRefs :: "string list"
  wkFilesToRead :: "string list"
  wkFilesToEdit :: "string list"
  wkLikelyFilesAffected :: "string list"
  wkVerificationRequirement :: string
  wkExpectedOutput :: string
  wkFailureCriteria :: string
  wkReviewGate :: string
  wkResumeInstructions :: string
  wkMaxParallelTasks :: int
  wkAutomationStatus :: string
  wkTriggerKind :: string
  wkSchedulePolicy :: string

record WorkflowReviewGate =
  wgID :: string
  wgAppliesTo :: "string list"
  wgReviewerAgent :: string
  wgRequired :: bool
  wgIndependentFromOwner :: bool
  wgRequiredArtifacts :: "string list"
  wgAllowedActions :: "string list"
  wgInstructions :: string

record WorkflowDefinition =
  wdID :: string
  wdProjectID :: string
  wdWorkflowRef :: string
  wdTitle :: string
  wdPurpose :: string
  wdStatus :: string
  wdAgents :: "WorkflowAgentDefinition list"
  wdSteps :: "WorkflowStep list"
  wdReviewGates :: "WorkflowReviewGate list"
  wdPermissionSnapshots :: "WorkflowPermissionSnapshot list"
  wdCreatedByRunID :: string
  wdTraceID :: string
  wdCreatedAt :: time
  wdUpdatedAt :: time

record WorkflowValidationIssue =
  wvCode :: string
  wvSeverity :: string
  wvFieldPath :: string
  wvMessage :: string

record WorkflowCompileInput =
  wiProjectID :: string
  wiWorkflowID :: string
  wiUserRequestRef :: string
  wiCreatedByRunID :: string
  wiTraceID :: string
  wiTitleOverride :: string
  wiDryRun :: bool

record WorkflowCompileResult =
  woWorkflowID :: string
  woWorkPlanID :: string
  woWorkTaskIDs :: "string list"
  woReviewerTaskIDs :: "string list"
  woAutomationIDs :: "string list"
  woPermissionSnapshotIDs :: "string list"
  woValidationIssues :: "WorkflowValidationIssue list"
  woDryRun :: bool
  woCompiledAt :: time

subsection \<open>Inputs of the service\<close>

record CreateWorkflowInput =
  wcDefinition :: WorkflowDefinition
  wcCreatedByRunID :: string
  wcTraceID :: string

record ImportWorkflowTOMLInput =
  wmProjectID :: string
  wmData :: string
  wmCreatedByRunID :: string
  wmTraceID :: string

record ImportWorkflowTOMLResult =
  wrWorkflows :: "WorkflowDefinition list"
  wrPermissionSnapshots :: "WorkflowPermissionSnapshot list"
  wrValidationIssues :: "WorkflowValidationIssue list"
  wrPermissionSnapshotIDs :: "string list"

record UpdateWorkflowStatusInput =
  wuProjectID :: string
  wuWorkflowID :: string
  wuStatus :: string

record WorkflowFilter =
  wfProjectID :: string
  wfStatus :: string
  wfWorkflowRef :: string

record PermissionSnapshotFilter =
  wqProjectID :: string
  wqWorkflowID :: string
  wqAgentID :: string

subsection \<open>Zero values\<close>

definition zeroStep :: WorkflowStep where
  "zeroStep = \<lparr>wkID = [], wkKind = [], wkTitle = [], wkAgent = [], wkDependsOn = [], wkDescription = [],
     wkEvidenceNeeded = [], wkContextPackRefs = [], wkFilesToRead = [], wkFilesToEdit = [],
     wkLikelyFilesAffected = [], wkVerificationRequirement = [], wkExpectedOutput = [],
     wkFailureCriteria = [], wkReviewGate = [], wkResumeInstructions = [], wkMaxParallelTasks = 0,
     wkAutomationStatus = [], wkTriggerKind = [], wkSchedulePolicy = []\<rparr>"

definition zeroSnapshot :: WorkflowPermissionSnapshot where
  "zeroSnapshot = \<lparr>wnID = [], wnProjectID = [], wnAgentID = [], wnWorkflowID = [], wnInstructions = [],
     wnAllowedSkills = [], wnAllowedTools = [], wnAllowedCommands = [], wnDeniedCommands = [],
     wnWorkspaceMode = [], wnNetworkPolicy = [], wnSecretPolicy = [], wnLogPolicy = [], wnMaxRuntime = [],
     wnMaxRetries = 0, wnContentHash = [], wnCreatedByRunID = [], wnTraceID = [],
     wnCreatedAt = zeroTime, wnUpdatedAt = zeroTime\<rparr>"

definition emptyWorkflow :: WorkflowDefinition where
  "emptyWorkflow = \<lparr>wdID = [], wdProjectID = [], wdWorkflowRef = [], wdTitle = [], wdPurpose = [], wdStatus = [],
     wdAgents = [], wdSteps = [], wdReviewGates = [], wdPermissionSnapshots = [], wdCreatedByRunID = [],
     wdTraceID = [], wdCreatedAt = zeroTime, wdUpdatedAt = zeroTime\<rparr>"

definition emptyCompileResult :: WorkflowCompileResult where
  "emptyCompileResult = \<lparr>woWorkflowID = [], woWorkPlanID = [], woWorkTaskIDs = [], woReviewerTaskIDs = [],
     woAutomationIDs = [], woPermissionSnapshotIDs = [], woValidationIssues = [], woDryRun = False,
     woCompiledAt = zeroTime\<rparr>"

lemma zeroStep_simps [simp]: "wkKind zeroStep = []" "wkDependsOn zeroStep = []" "wkID zeroStep = []"
  by (simp_all add: zeroStep_def)

section \<open>Workflows: the memory store\<close>

text \<open>
  \<open>internal/projectworkflow/store/memory.go\<close>: the workflows under project and identifier, the
  index of their references, and the permission snapshots. The clone functions only detach
  slices.
\<close>

type_synonym workflow_key = "string \<times> string"

record WorkflowStore =
  wsWorkflows :: "(workflow_key, WorkflowDefinition) table"
  wsWorkflowRef :: "(workflow_key, string) table"
  wsSnapshots :: "(workflow_key, WorkflowPermissionSnapshot) table"

definition newWorkflowStore :: WorkflowStore where
  "newWorkflowStore = \<lparr>wsWorkflows = [], wsWorkflowRef = [], wsSnapshots = []\<rparr>"

definition workflowKey :: "WorkflowDefinition \<Rightarrow> workflow_key" where
  "workflowKey workflow = (wdProjectID workflow, wdID workflow)"

definition workflowRefKey :: "WorkflowDefinition \<Rightarrow> workflow_key" where
  "workflowRefKey workflow = (wdProjectID workflow, wdWorkflowRef workflow)"

definition snapshotKey :: "WorkflowPermissionSnapshot \<Rightarrow> workflow_key" where
  "snapshotKey snap = (wnProjectID snap, wnID snap)"

definition memCreateWorkflow :: "WorkflowDefinition \<Rightarrow> (WorkflowStore, WorkflowDefinition) act" where
  "memCreateWorkflow workflow st =
     (if thas (wsWorkflows st) (workflowKey workflow) then (Inl ErrDuplicate, st)
      else if thas (wsWorkflowRef st) (workflowRefKey workflow) then (Inl ErrDuplicate, st)
      else (Inr workflow,
            st\<lparr>wsWorkflows := tput (wsWorkflows st) (workflowKey workflow) workflow,
               wsWorkflowRef := tput (wsWorkflowRef st) (workflowRefKey workflow) (wdID workflow)\<rparr>))"

definition memGetWorkflow :: "string \<Rightarrow> string \<Rightarrow> WorkflowStore \<Rightarrow> WorkflowDefinition res" where
  "memGetWorkflow projectID workflowID st =
     (case tget (wsWorkflows st) (projectID, workflowID) of None \<Rightarrow> Inl ErrNotFound | Some w \<Rightarrow> Inr w)"

definition keepWorkflow :: "WorkflowFilter \<Rightarrow> WorkflowDefinition \<Rightarrow> bool" where
  "keepWorkflow flt w =
     (wdProjectID w = wfProjectID flt \<and> (wfStatus flt = [] \<or> wdStatus w = wfStatus flt)
      \<and> (wfWorkflowRef flt = [] \<or> wdWorkflowRef w = wfWorkflowRef flt))"

definition workflowLess :: "WorkflowDefinition \<Rightarrow> WorkflowDefinition \<Rightarrow> bool" where
  "workflowLess a b =
     (if wdCreatedAt a = wdCreatedAt b then wdWorkflowRef a < wdWorkflowRef b else wdCreatedAt a < wdCreatedAt b)"

definition memListWorkflows :: "WorkflowFilter \<Rightarrow> WorkflowStore \<Rightarrow> WorkflowDefinition list" where
  "memListWorkflows flt st = sortBy workflowLess (filter (keepWorkflow flt) (tvals (wsWorkflows st)))"

definition dropRef :: "workflow_key \<Rightarrow> (workflow_key, string) table \<Rightarrow> (workflow_key, string) table" where
  "dropRef key idx = filter (\<lambda>(k, v). k \<noteq> key) idx"

definition memUpdateWorkflow :: "WorkflowDefinition \<Rightarrow> (WorkflowStore, WorkflowDefinition) act" where
  "memUpdateWorkflow workflow st =
     (case tget (wsWorkflows st) (workflowKey workflow) of
        None \<Rightarrow> (Inl ErrNotFound, st)
      | Some existing \<Rightarrow>
          if wdWorkflowRef existing \<noteq> wdWorkflowRef workflow \<and> thas (wsWorkflowRef st) (workflowRefKey workflow)
          then (Inl ErrDuplicate, st)
          else
            (Inr workflow,
             st\<lparr>wsWorkflows := tput (wsWorkflows st) (workflowKey workflow) workflow,
                wsWorkflowRef :=
                  (if wdWorkflowRef existing \<noteq> wdWorkflowRef workflow
                   then tput (dropRef (wdProjectID workflow, wdWorkflowRef existing) (wsWorkflowRef st))
                          (workflowRefKey workflow) (wdID workflow)
                   else wsWorkflowRef st)\<rparr>))"

definition memCreatePermissionSnapshot ::
    "WorkflowPermissionSnapshot \<Rightarrow> (WorkflowStore, WorkflowPermissionSnapshot) act" where
  "memCreatePermissionSnapshot snap st =
     (if thas (wsSnapshots st) (snapshotKey snap) then (Inl ErrDuplicate, st)
      else (Inr snap, st\<lparr>wsSnapshots := tput (wsSnapshots st) (snapshotKey snap) snap\<rparr>))"

definition memGetPermissionSnapshot ::
    "string \<Rightarrow> string \<Rightarrow> WorkflowStore \<Rightarrow> WorkflowPermissionSnapshot res" where
  "memGetPermissionSnapshot projectID snapshotID st =
     (case tget (wsSnapshots st) (projectID, snapshotID) of None \<Rightarrow> Inl ErrNotFound | Some s \<Rightarrow> Inr s)"

definition keepSnapshot :: "PermissionSnapshotFilter \<Rightarrow> WorkflowPermissionSnapshot \<Rightarrow> bool" where
  "keepSnapshot flt s =
     (wnProjectID s = wqProjectID flt \<and> (wqWorkflowID flt = [] \<or> wnWorkflowID s = wqWorkflowID flt)
      \<and> (wqAgentID flt = [] \<or> wnAgentID s = wqAgentID flt))"

definition snapshotLess :: "WorkflowPermissionSnapshot \<Rightarrow> WorkflowPermissionSnapshot \<Rightarrow> bool" where
  "snapshotLess a b =
     (if wnCreatedAt a = wnCreatedAt b then wnID a < wnID b else wnCreatedAt a < wnCreatedAt b)"

definition memListPermissionSnapshots ::
    "PermissionSnapshotFilter \<Rightarrow> WorkflowStore \<Rightarrow> WorkflowPermissionSnapshot list" where
  "memListPermissionSnapshots flt st = sortBy snapshotLess (filter (keepSnapshot flt) (tvals (wsSnapshots st)))"

subsection \<open>As an indexed store\<close>

definition getWorkflow :: "WorkflowStore \<Rightarrow> workflow_key \<Rightarrow> WorkflowDefinition option" where
  "getWorkflow st = tget (wsWorkflows st)"

definition refTaken :: "WorkflowStore \<Rightarrow> workflow_key \<Rightarrow> bool" where
  "refTaken st = thas (wsWorkflowRef st)"

definition getSnapshot :: "WorkflowStore \<Rightarrow> workflow_key \<Rightarrow> WorkflowPermissionSnapshot option" where
  "getSnapshot st = tget (wsSnapshots st)"

definition putWorkflow :: "WorkflowStore \<Rightarrow> WorkflowDefinition \<Rightarrow> WorkflowStore" where
  "putWorkflow st w = st\<lparr>wsWorkflows := tput (wsWorkflows st) (workflowKey w) w\<rparr>"

definition addWorkflow :: "WorkflowStore \<Rightarrow> WorkflowDefinition \<Rightarrow> WorkflowStore" where
  "addWorkflow st w =
     st\<lparr>wsWorkflows := tput (wsWorkflows st) (workflowKey w) w,
        wsWorkflowRef := tput (wsWorkflowRef st) (workflowRefKey w) (wdID w)\<rparr>"

definition addSnapshot :: "WorkflowStore \<Rightarrow> WorkflowPermissionSnapshot \<Rightarrow> WorkflowStore" where
  "addSnapshot st s = st\<lparr>wsSnapshots := tput (wsSnapshots st) (snapshotKey s) s\<rparr>"

interpretation workflows: indexed_store getWorkflow putWorkflow workflowKey refTaken addWorkflow workflowRefKey
  by unfold_locales
    (simp_all add: getWorkflow_def putWorkflow_def addWorkflow_def refTaken_def store_simps)

interpretation snapshots: keyed_store getSnapshot addSnapshot snapshotKey
  by unfold_locales (simp add: getSnapshot_def addSnapshot_def store_simps)

text \<open>Writes to one table leave the others alone.\<close>

lemma workflow_frames [simp]:
  "getSnapshot (putWorkflow st w) = getSnapshot st" "getSnapshot (addWorkflow st w) = getSnapshot st"
  "getWorkflow (addSnapshot st s) = getWorkflow st" "refTaken (addSnapshot st s) = refTaken st"
  by (simp_all add: getSnapshot_def putWorkflow_def addWorkflow_def addSnapshot_def getWorkflow_def refTaken_def)

lemma memCreateWorkflow_eq:
  "memCreateWorkflow w st =
     (if getWorkflow st (workflowKey w) \<noteq> None \<or> refTaken st (workflowRefKey w)
      then (Inl ErrDuplicate, st) else (Inr w, addWorkflow st w))"
  by (simp add: memCreateWorkflow_def getWorkflow_def refTaken_def addWorkflow_def thas_def)

text \<open>An update that keeps the reference.\<close>

lemma memUpdateWorkflow_same:
  "getWorkflow st (workflowKey w) = Some existing \<Longrightarrow> wdWorkflowRef existing = wdWorkflowRef w
   \<Longrightarrow> memUpdateWorkflow w st = (Inr w, putWorkflow st w)"
  by (simp add: memUpdateWorkflow_def getWorkflow_def putWorkflow_def)

lemma memCreatePermissionSnapshot_eq:
  "memCreatePermissionSnapshot s st =
     (if getSnapshot st (snapshotKey s) \<noteq> None then (Inl ErrDuplicate, st) else (Inr s, addSnapshot st s))"
  by (simp add: memCreatePermissionSnapshot_def getSnapshot_def addSnapshot_def thas_def)

lemma memGetWorkflow_Inr: "memGetWorkflow p i st = Inr w \<longleftrightarrow> getWorkflow st (p, i) = Some w"
  by (auto simp: memGetWorkflow_def getWorkflow_def split: option.splits)

lemma memGetPermissionSnapshot_Inr:
  "memGetPermissionSnapshot p i st = Inr s \<longleftrightarrow> getSnapshot st (p, i) = Some s"
  by (auto simp: memGetPermissionSnapshot_def getSnapshot_def split: option.splits)

end
