(* ===== verification/Workflow_Validation.thy ===== *)
theory Workflow_Validation
  imports Workflow_Model Safe_Text Graph_Search
begin

section \<open>Workflows: validation\<close>

text \<open>
  \<open>internal/projectworkflow/validation.go\<close>. The validator does not stop at the first problem: it
  appends issues to a list. A check is modelled by the issues it appends, in order; those whose
  result the code uses also return it. The regular expressions are those of the work plan
  service. The marker lists are the package's own.
\<close>

subsection \<open>Issues\<close>

abbreviation workflowIssueError :: string where "workflowIssueError \<equiv> ''error''"
abbreviation workflowIssueWarning :: string where "workflowIssueWarning \<equiv> ''warning''"

type_synonym issues = "WorkflowValidationIssue list"

definition issue :: "string \<Rightarrow> string \<Rightarrow> string \<Rightarrow> WorkflowValidationIssue" where
  "issue code field message =
     \<lparr>wvCode = code, wvSeverity = workflowIssueError, wvFieldPath = field, wvMessage = message\<rparr>"

definition warning :: "string \<Rightarrow> string \<Rightarrow> string \<Rightarrow> WorkflowValidationIssue" where
  "warning code field message =
     \<lparr>wvCode = code, wvSeverity = workflowIssueWarning, wvFieldPath = field, wvMessage = message\<rparr>"

definition addIf :: "bool \<Rightarrow> WorkflowValidationIssue \<Rightarrow> issues" where
  "addIf b i = (if b then [i] else [])"

definition isErrorIssue :: "WorkflowValidationIssue \<Rightarrow> bool" where
  "isErrorIssue i = (wvSeverity i = workflowIssueError \<or> wvSeverity i = [])"

definition hasErrorIssues :: "issues \<Rightarrow> bool" where
  "hasErrorIssues is = list_ex isErrorIssue is"

subsection \<open>Texts and references\<close>

definition unsafeWorkflowMarkers :: "string list" where
  "unsafeWorkflowMarkers =
    [''begin '', ''api_key'', ''token='', ''password='', ''secret='', ''credential='', ''raw_prompt'',
     ''raw prompt'', ''raw_completion'', ''raw completion'', ''raw_stderr'', ''raw stderr'', ''raw_source'',
     ''raw source'', ''source dump'', ''provider_payload'', ''provider payload'', ''ghp_'']"

definition containsUnsafeWorkflowText :: "string \<Rightarrow> bool" where
  "containsUnsafeWorkflowText value =
     (if matchString emailPattern value \<or> matchString phonePattern value then True
      else let lower = toLower value in list_ex (contains lower) unsafeWorkflowMarkers)"

definition containsRootMarker_wf :: "string \<Rightarrow> bool" where
  "containsRootMarker_wf value =
     (let lower = toLower (replaceAll backslash ''/'' (trimSpace value))
      in contains lower ''c:/'' \<or> contains lower ''//wsl.localhost/'' \<or> contains lower ''/home/''
         \<or> contains lower ''/users/'' \<or> contains lower ''/var/'' \<or> contains lower ''/tmp/''
         \<or> contains lower ''/etc/'')"

definition safeWorkflowRef :: "string \<Rightarrow> bool" where
  "safeWorkflowRef value0 =
     (let value = trimSpace value0
      in matchFull refPattern value \<and> \<not> contains value backslash \<and> \<not> contains value ''..''
         \<and> \<not> hasPrefix value ''/'' \<and> \<not> isAbs value \<and> \<not> matchString emailPattern value
         \<and> \<not> containsRootMarker_wf value \<and> \<not> containsUnsafeWorkflowText value)"

definition optionalRef :: "string \<Rightarrow> string \<Rightarrow> bool \<times> issues" where
  "optionalRef value0 field =
     (let value = trimSpace value0
      in if value = [] then (True, [])
         else if \<not> safeWorkflowRef value
         then (False, [issue ''unsafe_ref'' field ''field must be a safe metadata ref''])
         else (True, []))"

definition requireRef :: "string \<Rightarrow> string \<Rightarrow> bool \<times> issues" where
  "requireRef value field =
     (if trimSpace value = [] then (False, [issue ''required'' field ''field is required''])
      else optionalRef value field)"

definition unsafeText :: "string \<Rightarrow> bool" where
  "unsafeText value = (containsUnsafeWorkflowText value \<or> containsRootMarker_wf value)"

definition optionalText :: "string \<Rightarrow> string \<Rightarrow> nat \<Rightarrow> issues" where
  "optionalText value0 field mx =
     (let value = trimSpace value0
      in if value = [] then []
         else if length value > mx then [issue ''too_long'' field ''field is too long'']
         else addIf (unsafeText value) (issue ''unsafe_text'' field ''field contains unsafe text marker''))"

definition requireText :: "string \<Rightarrow> string \<Rightarrow> nat \<Rightarrow> issues" where
  "requireText value field mx =
     (if trimSpace value = [] then [issue ''required'' field ''field is required'']
      else optionalText value field mx)"

definition resumeInstructions :: "string \<Rightarrow> string \<Rightarrow> issues" where
  "resumeInstructions value0 field =
     (let value = trimSpace value0
      in if value = [] then []
         else addIf (unsafeText value) (issue ''unsafe_text'' field ''field contains unsafe text marker''))"

definition indexedField :: "string \<Rightarrow> nat \<Rightarrow> string" where
  "indexedField field i = field @ ''['' @ showNat i @ '']''"

definition refList :: "string list \<Rightarrow> string \<Rightarrow> issues" where
  "refList vs field = concat (map (\<lambda>(i, v). snd (optionalRef v (indexedField field i))) (enumerate 0 vs))"

definition textList :: "string list \<Rightarrow> string \<Rightarrow> nat \<Rightarrow> issues" where
  "textList vs field mx = concat (map (\<lambda>(i, v). optionalText v (indexedField field i) mx) (enumerate 0 vs))"

definition unsafeStepPath :: "string \<Rightarrow> bool" where
  "unsafeStepPath v =
     (contains v backslash \<or> contains v ''..'' \<or> hasPrefix v ''/'' \<or> isAbs v
      \<or> containsUnsafeWorkflowText v \<or> containsRootMarker_wf v)"

definition safePathList_wf :: "string list \<Rightarrow> string \<Rightarrow> issues" where
  "safePathList_wf vs field =
     concat (map (\<lambda>(i, v).
       let trimmed = trimSpace v
       in addIf (trimmed \<noteq> [] \<and> unsafeStepPath trimmed)
            (issue ''unsafe_path'' (indexedField field i)
              ''path must be relative metadata without roots or traversal'')) (enumerate 0 vs))"

subsection \<open>The parts of a workflow\<close>

definition validateRequired :: "WorkflowDefinition \<Rightarrow> issues" where
  "validateRequired def =
     snd (requireRef (wdID def) ''id'') @ requireText (wdTitle def) ''title'' 200
     @ requireText (wdPurpose def) ''purpose'' 500
     @ addIf (wdAgents def = []) (issue ''required'' ''agents'' ''workflow must declare at least one agent'')
     @ addIf (wdSteps def = []) (issue ''required'' ''steps'' ''workflow must declare at least one step'')"

definition validateWorkflowRefs :: "WorkflowDefinition \<Rightarrow> issues" where
  "validateWorkflowRefs def =
     snd (optionalRef (wdProjectID def) ''project_id'') @ snd (optionalRef (wdWorkflowRef def) ''workflow_ref'')
     @ snd (optionalRef (wdStatus def) ''status'') @ snd (optionalRef (wdCreatedByRunID def) ''created_by_run_id'')
     @ snd (optionalRef (wdTraceID def) ''trace_id'')"

text \<open>The check of an identifier that must be unique: the issues and the identifiers seen.\<close>

definition uniqueID :: "string \<Rightarrow> string \<Rightarrow> string \<Rightarrow> string list \<Rightarrow> issues \<times> string list" where
  "uniqueID ident field message seen =
     (case requireRef ident field of
        (False, is) \<Rightarrow> (is, seen)
      | (True, is) \<Rightarrow> (is @ addIf (ident \<in> set seen) (issue ''duplicate_ref'' field message), ident # seen))"

definition agentIssues :: "string \<Rightarrow> WorkflowAgentDefinition \<Rightarrow> issues" where
  "agentIssues base agent =
     optionalText (waDisplayName agent) (base @ ''.display_name'') 200
     @ requireText (waPurpose agent) (base @ ''.purpose'') 500
     @ optionalText (waInstructions agent) (base @ ''.instructions'') 2000
     @ refList (waAllowedSkills agent) (base @ ''.allowed_skills'')
     @ refList (waAllowedTools agent) (base @ ''.allowed_tools'')
     @ textList (waAllowedCommands agent) (base @ ''.allowed_commands'') 200
     @ textList (waDeniedCommands agent) (base @ ''.denied_commands'') 200
     @ snd (optionalRef (waWorkspaceMode agent) (base @ ''.workspace_mode''))
     @ snd (optionalRef (waNetworkPolicy agent) (base @ ''.network_policy''))
     @ snd (optionalRef (waMaxRuntime agent) (base @ ''.max_runtime''))
     @ (if waSecretPolicy agent = []
        then [warning ''defaulted'' (base @ ''.secret_policy'') ''agent secret_policy defaults to deny'']
        else addIf (waSecretPolicy agent \<noteq> ''deny'')
          (issue ''unsafe_policy'' (base @ ''.secret_policy'') ''agent secret_policy must be deny''))
     @ (if waLogPolicy agent = []
        then [warning ''defaulted'' (base @ ''.log_policy'') ''agent log_policy defaults to metadata_only'']
        else addIf (waLogPolicy agent \<noteq> ''metadata_only'')
          (issue ''unsafe_policy'' (base @ ''.log_policy'') ''agent log_policy must be metadata_only''))
     @ addIf (waMaxRetries agent < 0)
         (issue ''invalid_value'' (base @ ''.max_retries'') ''agent max_retries cannot be negative'')"

fun validateAgents :: "nat \<Rightarrow> string list \<Rightarrow> WorkflowAgentDefinition list \<Rightarrow> issues" where
  "validateAgents i seen [] = []"
| "validateAgents i seen (agent # agents) =
     (let base = indexedField ''agents'' i;
          (is, seen') = uniqueID (waID agent) (base @ ''.id'') ''agent id must be unique'' seen
      in is @ agentIssues base agent @ validateAgents (Suc i) seen' agents)"

definition knownStepKind :: "string \<Rightarrow> bool" where
  "knownStepKind kind = (kind \<in> set stepKinds)"

definition knownReviewAction :: "string \<Rightarrow> bool" where
  "knownReviewAction action = (action \<in> set reviewGateDecisions)"

definition stepIssues :: "string \<Rightarrow> WorkflowStep \<Rightarrow> issues" where
  "stepIssues base step =
     addIf (\<not> knownStepKind (wkKind step))
       (issue ''unknown_step_kind'' (base @ ''.kind'') ''step kind is not supported'')
     @ requireText (wkTitle step) (base @ ''.title'') 200
     @ snd (optionalRef (wkAgent step) (base @ ''.agent''))
     @ refList (wkDependsOn step) (base @ ''.depends_on'')
     @ optionalText (wkDescription step) (base @ ''.description'') 1000
     @ textList (wkEvidenceNeeded step) (base @ ''.evidence_needed'') 200
     @ refList (wkContextPackRefs step) (base @ ''.context_pack_refs'')
     @ safePathList_wf (wkFilesToRead step) (base @ ''.files_to_read'')
     @ safePathList_wf (wkFilesToEdit step) (base @ ''.files_to_edit'')
     @ safePathList_wf (wkLikelyFilesAffected step) (base @ ''.likely_files_affected'')
     @ optionalText (wkVerificationRequirement step) (base @ ''.verification_requirement'') 500
     @ optionalText (wkExpectedOutput step) (base @ ''.expected_output'') 500
     @ optionalText (wkFailureCriteria step) (base @ ''.failure_criteria'') 500
     @ optionalText (wkReviewGate step) (base @ ''.review_gate'') 500
     @ resumeInstructions (wkResumeInstructions step) (base @ ''.resume_instructions'')
     @ snd (optionalRef (wkAutomationStatus step) (base @ ''.automation_status''))
     @ snd (optionalRef (wkTriggerKind step) (base @ ''.trigger_kind''))
     @ snd (optionalRef (wkSchedulePolicy step) (base @ ''.schedule_policy''))
     @ addIf (wkMaxParallelTasks step < 0)
         (issue ''invalid_value'' (base @ ''.max_parallel_tasks'') ''max_parallel_tasks must be positive when set'')"

text \<open>The first loop over the steps: its issues, and the identifiers in \<open>stepIDs\<close> at its end.\<close>

fun validateStepFields :: "nat \<Rightarrow> string list \<Rightarrow> WorkflowStep list \<Rightarrow> issues \<times> string list" where
  "validateStepFields i seen [] = ([], seen)"
| "validateStepFields i seen (step # steps) =
     (let base = indexedField ''steps'' i;
          (is, seen') = uniqueID (wkID step) (base @ ''.id'') ''step id must be unique'' seen;
          (rest, out) = validateStepFields (Suc i) seen' steps
      in (is @ stepIssues base step @ rest, out))"

definition isAutomationStep :: "WorkflowStep \<Rightarrow> bool" where
  "isAutomationStep step =
     (wkKind step = WorkflowStepKindAutomation \<or> wkKind step = WorkflowStepKindAutomationBatch)"

definition stepLinkIssues :: "string list \<Rightarrow> string list \<Rightarrow> string \<Rightarrow> WorkflowStep \<Rightarrow> issues" where
  "stepLinkIssues stepIDs agentIDs base step =
     addIf (isAutomationStep step \<and> wkAgent step = [])
       (issue ''required'' (base @ ''.agent'') ''automation steps must reference a declared agent'')
     @ addIf (wkAgent step \<noteq> [] \<and> wkAgent step \<notin> set agentIDs)
       (issue ''unknown_agent'' (base @ ''.agent'') ''step references an unknown agent'')
     @ concat (map (\<lambda>dep. addIf (dep \<noteq> [] \<and> dep \<notin> set stepIDs)
         (issue ''unknown_dependency'' (base @ ''.depends_on'') ''dependency references an unknown step''))
         (wkDependsOn step))"

subsection \<open>Dependency cycles\<close>

text \<open>
  The map \<open>graph\<close> of the dependencies. Its search, other than that of \<open>Graph_Search\<close>, asks
  first whether the call of a step is still running, and skips the dependencies that are no
  key of the map.
\<close>

definition stepEdges :: "WorkflowStep list \<Rightarrow> graph" where
  "stepEdges steps = map (\<lambda>s. (wkID s, wkDependsOn s)) steps"

definition isNode :: "graph \<Rightarrow> string \<Rightarrow> bool" where
  "isNode g ref = (ref \<in> set (map fst g))"

function (sequential) visitStep ::
    "graph \<Rightarrow> string list \<Rightarrow> string list \<Rightarrow> string \<Rightarrow> bool \<times> string list"
  and visitStepDeps ::
    "graph \<Rightarrow> string list \<Rightarrow> string list \<Rightarrow> string list \<Rightarrow> bool \<times> string list" where
  "visitStep g visiting visited ident =
     (if ident \<in> set visiting then (True, visited)
      else if ident \<in> set visited then (False, visited)
      else case visitStepDeps g (ident # visiting) visited (edgesOf g ident) of
             (True, v) \<Rightarrow> (True, v)
           | (False, v) \<Rightarrow> (False, ident # v))"
| "visitStepDeps g visiting visited [] = (False, visited)"
| "visitStepDeps g visiting visited (dep # deps) =
     (if \<not> isNode g dep then visitStepDeps g visiting visited deps
      else case visitStep g visiting visited dep of
        (True, v) \<Rightarrow> (True, v)
      | (False, v) \<Rightarrow> visitStepDeps g visiting v deps)"
  by pat_completeness auto

termination
proof (relation "inv_image (less_than <*lex*> less_than)
    (case_sum (\<lambda>(g, visiting, visited, ident). (openNodes g visiting, 1))
              (\<lambda>(g, visiting, visited, deps). (openNodes g visiting, 2 * length deps)))", goal_cases)
  case (2 g visiting visited ident)
  then show ?case
    using openNodes_less [of ident g visiting] openNodes_le [of g ident visiting] edgesOf_known [of g ident]
    by (cases "edgesOf g ident = []") (auto simp: le_less)
qed auto

definition hasDependencyCycle_wf :: "WorkflowStep list \<Rightarrow> bool" where
  "hasDependencyCycle_wf steps =
     (let g = stepEdges steps in fst (visitStepDeps g [] [] (map fst g)))"

definition validateSteps :: "WorkflowAgentDefinition list \<Rightarrow> WorkflowStep list \<Rightarrow> issues" where
  "validateSteps agents steps =
     (let (is, stepIDs) = validateStepFields 0 [] steps;
          agentIDs = filter (\<lambda>i. i \<noteq> []) (map waID agents)
      in is
         @ concat (map (\<lambda>(i, step). stepLinkIssues stepIDs agentIDs (indexedField ''steps'' i) step)
             (enumerate 0 steps))
         @ addIf (hasDependencyCycle_wf steps)
             (issue ''dependency_cycle'' ''steps'' ''step dependencies must not contain a cycle''))"

subsection \<open>Gates and snapshots\<close>

definition gateIssues :: "string list \<Rightarrow> string list \<Rightarrow> string \<Rightarrow> WorkflowReviewGate \<Rightarrow> issues" where
  "gateIssues stepIDs agentIDs base gate =
     refList (wgAppliesTo gate) (base @ ''.applies_to'')
     @ concat (map (\<lambda>stepID. addIf (stepID \<noteq> [] \<and> stepID \<notin> set stepIDs)
         (issue ''unknown_step'' (base @ ''.applies_to'') ''review gate applies_to references an unknown step''))
         (wgAppliesTo gate))
     @ (let (ok, is) = requireRef (wgReviewerAgent gate) (base @ ''.reviewer_agent'')
        in is @ addIf (ok \<and> wgReviewerAgent gate \<notin> set agentIDs)
             (issue ''unknown_reviewer_agent'' (base @ ''.reviewer_agent'')
               ''review gate reviewer_agent references an unknown agent''))
     @ (if wgRequired gate then requireText (wgInstructions gate) (base @ ''.instructions'') 2000
        else optionalText (wgInstructions gate) (base @ ''.instructions'') 2000)
     @ refList (wgRequiredArtifacts gate) (base @ ''.required_artifacts'')
     @ concat (map (\<lambda>action. addIf (\<not> knownReviewAction action)
         (issue ''unknown_allowed_action'' (base @ ''.allowed_actions'') ''allowed action is not supported''))
         (wgAllowedActions gate))"

fun gateListIssues :: "string list \<Rightarrow> string list \<Rightarrow> nat \<Rightarrow> string list \<Rightarrow> WorkflowReviewGate list \<Rightarrow> issues" where
  "gateListIssues stepIDs agentIDs i seen [] = []"
| "gateListIssues stepIDs agentIDs i seen (gate # gates) =
     (let base = indexedField ''review_gates'' i;
          (is, seen') = uniqueID (wgID gate) (base @ ''.id'') ''review gate id must be unique'' seen
      in is @ gateIssues stepIDs agentIDs base gate @ gateListIssues stepIDs agentIDs (Suc i) seen' gates)"

definition validateGates :: "WorkflowDefinition \<Rightarrow> issues" where
  "validateGates def =
     gateListIssues (map wkID (wdSteps def)) (map waID (wdAgents def)) 0 [] (wdReviewGates def)"

definition snapshotIssues :: "string \<Rightarrow> WorkflowPermissionSnapshot \<Rightarrow> issues" where
  "snapshotIssues base snap =
     snd (requireRef (wnID snap) (base @ ''.id'')) @ snd (optionalRef (wnProjectID snap) (base @ ''.project_id''))
     @ snd (optionalRef (wnAgentID snap) (base @ ''.agent_id''))
     @ snd (optionalRef (wnWorkflowID snap) (base @ ''.workflow_id''))
     @ optionalText (wnInstructions snap) (base @ ''.instructions'') 2000
     @ refList (wnAllowedSkills snap) (base @ ''.allowed_skills'')
     @ refList (wnAllowedTools snap) (base @ ''.allowed_tools'')
     @ textList (wnAllowedCommands snap) (base @ ''.allowed_commands'') 200
     @ textList (wnDeniedCommands snap) (base @ ''.denied_commands'') 200
     @ snd (optionalRef (wnWorkspaceMode snap) (base @ ''.workspace_mode''))
     @ snd (optionalRef (wnNetworkPolicy snap) (base @ ''.network_policy''))
     @ snd (optionalRef (wnSecretPolicy snap) (base @ ''.secret_policy''))
     @ snd (optionalRef (wnLogPolicy snap) (base @ ''.log_policy''))
     @ snd (optionalRef (wnMaxRuntime snap) (base @ ''.max_runtime''))
     @ snd (optionalRef (wnContentHash snap) (base @ ''.content_hash''))
     @ snd (optionalRef (wnCreatedByRunID snap) (base @ ''.created_by_run_id''))
     @ snd (optionalRef (wnTraceID snap) (base @ ''.trace_id''))"

definition validatePermissionSnapshots :: "WorkflowPermissionSnapshot list \<Rightarrow> issues" where
  "validatePermissionSnapshots snapshots =
     concat (map (\<lambda>(i, snap). snapshotIssues (indexedField ''permission_snapshots'' i) snap) (enumerate 0 snapshots))"

definition validateWorkflow :: "WorkflowDefinition \<Rightarrow> issues" where
  "validateWorkflow def =
     validateRequired def @ validateWorkflowRefs def @ validateAgents 0 [] (wdAgents def)
     @ validateSteps (wdAgents def) (wdSteps def) @ validateGates def
     @ validatePermissionSnapshots (wdPermissionSnapshots def)"

definition validWorkflow :: "WorkflowDefinition \<Rightarrow> bool" where
  "validWorkflow def = (\<not> hasErrorIssues (validateWorkflow def))"

end
