(* ===== verification/Workflow_Toml.thy ===== *)
theory Workflow_Toml
  imports Workflow_Validation
begin

section \<open>Workflows: definitions read from TOML\<close>

text \<open>
  \<open>internal/projectworkflow/toml.go\<close>. The TOML decoder is a library of its own; it is a
  parameter here, \<open>None\<close> when it returns an error. Modelled are the types it fills, their
  conversion to workflow definitions with its defaults, and the validation of what was read.
  A pointer field is an option.
\<close>

record workflowAgentDefinitionTOML =
  taID :: string
  taDisplayName :: string
  taPurpose :: string
  taInstructions :: string
  taAllowedSkills :: "string list"
  taAllowedTools :: "string list"
  taAllowedCommands :: "string list"
  taDeniedCommands :: "string list"
  taWorkspaceMode :: string
  taNetworkPolicy :: string
  taSecretPolicy :: string
  taLogPolicy :: string
  taMaxRuntime :: string
  taMaxRetries :: int

record workflowStepTOML =
  tsID :: string
  tsKind :: string
  tsTitle :: string
  tsAgent :: string
  tsDependsOn :: "string list"
  tsDescription :: string
  tsEvidenceNeeded :: "string list"
  tsContextPackRefs :: "string list"
  tsFilesToRead :: "string list"
  tsFilesToEdit :: "string list"
  tsLikelyFilesAffected :: "string list"
  tsVerificationRequirement :: string
  tsExpectedOutput :: string
  tsFailureCriteria :: string
  tsReviewGate :: string
  tsResumeInstructions :: string
  tsMaxParallelTasks :: "int option"
  tsAutomationStatus :: string
  tsTriggerKind :: string
  tsSchedulePolicy :: string

record workflowReviewGateTOML =
  tgID :: string
  tgAppliesTo :: "string list"
  tgReviewerAgent :: string
  tgRequired :: bool
  tgIndependentFromOwner :: "bool option"
  tgRequiredArtifacts :: "string list"
  tgAllowedActions :: "string list"
  tgInstructions :: string

record workflowPermissionSnapshotTOML =
  tnID :: string
  tnProjectID :: string
  tnAgentID :: string
  tnWorkflowID :: string
  tnInstructions :: string
  tnAllowedSkills :: "string list"
  tnAllowedTools :: "string list"
  tnAllowedCommands :: "string list"
  tnDeniedCommands :: "string list"
  tnWorkspaceMode :: string
  tnNetworkPolicy :: string
  tnSecretPolicy :: string
  tnLogPolicy :: string
  tnMaxRuntime :: string
  tnMaxRetries :: int
  tnContentHash :: string
  tnCreatedByRunID :: string
  tnTraceID :: string

record workflowTOML =
  twID :: string
  twProjectID :: string
  twWorkflowRef :: string
  twTitle :: string
  twPurpose :: string
  twStatus :: string
  twAgents :: "workflowAgentDefinitionTOML list"
  twSteps :: "workflowStepTOML list"
  twReviewGatesRaw :: "workflowReviewGateTOML list"
  twPermissionSnapshots :: "workflowPermissionSnapshotTOML list"
  twCreatedByRunID :: string
  twTraceID :: string

text \<open>A document repeats the fields of one workflow and may hold a list of workflows.\<close>

record workflowTOMLDocument =
  tdSingle :: workflowTOML
  tdWorkflows :: "workflowTOML list"

type_synonym toml_decoder = "string \<Rightarrow> workflowTOMLDocument option"

subsection \<open>Conversion\<close>

definition toAgent :: "workflowAgentDefinitionTOML \<Rightarrow> WorkflowAgentDefinition" where
  "toAgent agent = \<lparr>waID = taID agent, waDisplayName = taDisplayName agent, waPurpose = taPurpose agent,
     waInstructions = taInstructions agent, waAllowedSkills = taAllowedSkills agent,
     waAllowedTools = taAllowedTools agent, waAllowedCommands = taAllowedCommands agent,
     waDeniedCommands = taDeniedCommands agent, waWorkspaceMode = taWorkspaceMode agent,
     waNetworkPolicy = taNetworkPolicy agent,
     waSecretPolicy = (if taSecretPolicy agent = [] then ''deny'' else taSecretPolicy agent),
     waLogPolicy = (if taLogPolicy agent = [] then ''metadata_only'' else taLogPolicy agent),
     waMaxRuntime = taMaxRuntime agent, waMaxRetries = taMaxRetries agent,
     waCreatedAt = zeroTime, waUpdatedAt = zeroTime\<rparr>"

definition toMaxParallelTasks :: "int option \<Rightarrow> int" where
  "toMaxParallelTasks v = (case v of None \<Rightarrow> 0 | Some n \<Rightarrow> if n \<le> 0 then - 1 else n)"

definition toStep :: "workflowStepTOML \<Rightarrow> WorkflowStep" where
  "toStep step = \<lparr>wkID = tsID step, wkKind = tsKind step, wkTitle = tsTitle step, wkAgent = tsAgent step,
     wkDependsOn = tsDependsOn step, wkDescription = tsDescription step,
     wkEvidenceNeeded = tsEvidenceNeeded step, wkContextPackRefs = tsContextPackRefs step,
     wkFilesToRead = tsFilesToRead step, wkFilesToEdit = tsFilesToEdit step,
     wkLikelyFilesAffected = tsLikelyFilesAffected step,
     wkVerificationRequirement = tsVerificationRequirement step, wkExpectedOutput = tsExpectedOutput step,
     wkFailureCriteria = tsFailureCriteria step, wkReviewGate = tsReviewGate step,
     wkResumeInstructions = tsResumeInstructions step,
     wkMaxParallelTasks = toMaxParallelTasks (tsMaxParallelTasks step),
     wkAutomationStatus = tsAutomationStatus step, wkTriggerKind = tsTriggerKind step,
     wkSchedulePolicy = tsSchedulePolicy step\<rparr>"

definition toGate :: "workflowReviewGateTOML \<Rightarrow> WorkflowReviewGate" where
  "toGate gate = \<lparr>wgID = tgID gate, wgAppliesTo = tgAppliesTo gate, wgReviewerAgent = tgReviewerAgent gate,
     wgRequired = tgRequired gate,
     wgIndependentFromOwner = (case tgIndependentFromOwner gate of None \<Rightarrow> True | Some b \<Rightarrow> b),
     wgRequiredArtifacts = tgRequiredArtifacts gate, wgAllowedActions = tgAllowedActions gate,
     wgInstructions = tgInstructions gate\<rparr>"

definition toSnapshot :: "workflowPermissionSnapshotTOML \<Rightarrow> WorkflowPermissionSnapshot" where
  "toSnapshot snap = \<lparr>wnID = tnID snap, wnProjectID = tnProjectID snap, wnAgentID = tnAgentID snap,
     wnWorkflowID = tnWorkflowID snap, wnInstructions = tnInstructions snap,
     wnAllowedSkills = tnAllowedSkills snap, wnAllowedTools = tnAllowedTools snap,
     wnAllowedCommands = tnAllowedCommands snap, wnDeniedCommands = tnDeniedCommands snap,
     wnWorkspaceMode = tnWorkspaceMode snap, wnNetworkPolicy = tnNetworkPolicy snap,
     wnSecretPolicy = tnSecretPolicy snap, wnLogPolicy = tnLogPolicy snap,
     wnMaxRuntime = tnMaxRuntime snap, wnMaxRetries = tnMaxRetries snap,
     wnContentHash = tnContentHash snap, wnCreatedByRunID = tnCreatedByRunID snap,
     wnTraceID = tnTraceID snap, wnCreatedAt = zeroTime, wnUpdatedAt = zeroTime\<rparr>"

definition toDefinition :: "workflowTOML \<Rightarrow> WorkflowDefinition" where
  "toDefinition w = \<lparr>wdID = twID w, wdProjectID = twProjectID w, wdWorkflowRef = twWorkflowRef w,
     wdTitle = twTitle w, wdPurpose = twPurpose w, wdStatus = twStatus w,
     wdAgents = map toAgent (twAgents w), wdSteps = map toStep (twSteps w),
     wdReviewGates = map toGate (twReviewGatesRaw w),
     wdPermissionSnapshots = map toSnapshot (twPermissionSnapshots w),
     wdCreatedByRunID = twCreatedByRunID w, wdTraceID = twTraceID w,
     wdCreatedAt = zeroTime, wdUpdatedAt = zeroTime\<rparr>"

definition workflowFieldPath :: "nat \<Rightarrow> string \<Rightarrow> string" where
  "workflowFieldPath index field =
     (let pre = indexedField ''workflows'' index in if field = [] then pre else pre @ ''.'' @ field)"

definition documentIssues :: "WorkflowDefinition list \<Rightarrow> issues" where
  "documentIssues definitions =
     concat (map (\<lambda>(index, def).
       map (\<lambda>i. if length definitions > 1 then i\<lparr>wvFieldPath := workflowFieldPath index (wvFieldPath i)\<rparr> else i)
         (validateWorkflow def)) (enumerate 0 definitions))"

definition parseWorkflowTOML :: "toml_decoder \<Rightarrow> string \<Rightarrow> (WorkflowDefinition list \<times> issues) option" where
  "parseWorkflowTOML decode data =
     (case decode data of
        None \<Rightarrow> None
      | Some doc \<Rightarrow>
          let definitions =
                (if tdWorkflows doc \<noteq> [] then map toDefinition (tdWorkflows doc)
                 else [toDefinition (tdSingle doc)])
          in Some (definitions, documentIssues definitions))"

end
