(* ===== verification/Automation_Model.thy ===== *)
theory Automation_Model
  imports Prelude WorkPlan_Model
begin

section \<open>Automations: the types other services use\<close>

text \<open>
  The types of \<open>internal/projectautomation/model.go\<close> at the interfaces of the service: an
  automation, the input that creates one, and the check of its permission. The
  service and its store follow in the other theories whose names begin with \<open>Automation\<close>.
\<close>

abbreviation AutomationStatusDraft :: string where "AutomationStatusDraft \<equiv> ''draft''"
abbreviation AutomationStatusEnabled :: string where "AutomationStatusEnabled \<equiv> ''enabled''"
abbreviation TriggerKindManual :: string where "TriggerKindManual \<equiv> ''manual''"
abbreviation TriggerKindAutomatic :: string where "TriggerKindAutomatic \<equiv> ''automatic''"
abbreviation AutomationSourceWorkflow :: string where "AutomationSourceWorkflow \<equiv> ''workflow''"
abbreviation RunnerKindCodexCLI :: string where "RunnerKindCodexCLI \<equiv> ''codex_cli''"

definition PermissionSnapshotRefPrefix :: string where
  "PermissionSnapshotRefPrefix = ''permission_snapshot:''"

record Automation =
  auID :: string
  auProjectID :: string
  auAutomationRef :: string
  auTitle :: string
  auPurpose :: string
  auStatus :: string
  auAgentID :: string
  auPlanID :: string
  auAllowedTaskRefs :: "string list"
  auRequiredReviewTaskIDs :: "string list"
  auTriggerKind :: string
  auSourceKind :: string
  auSchedulePolicy :: string
  auPermissionRef :: string
  auCreatedByRunID :: string
  auTraceID :: string
  auCreatedAt :: time
  auUpdatedAt :: time

record CreateAutomationInput =
  jaProjectID :: string
  jaAutomationRef :: string
  jaTitle :: string
  jaPurpose :: string
  jaStatus :: string
  jaAgentID :: string
  jaPlanID :: string
  jaAllowedTaskRefs :: "string list"
  jaRequiredReviewTaskIDs :: "string list"
  jaTriggerKind :: string
  jaSchedulePolicy :: string
  jaPermissionRef :: string
  jaSourceKind :: string
  jaCreatedByRunID :: string
  jaTraceID :: string

record PermissionCheckInput =
  pkProjectID :: string
  pkAutomationID :: string
  pkAutomationRef :: string
  pkAgentID :: string
  pkPermissionRef :: string
  pkRunnerKind :: string
  pkRunnerExecution :: string

record PermissionSnapshotMetadata =
  pmPermissionRef :: string
  pmAgentID :: string
  pmAllowedRunnerKinds :: "string list"
  pmDeniedCommands :: "string list"

section \<open>Automations: runs, batches and the service's environment\<close>

text \<open>
  The remaining types of \<open>internal/projectautomation/model.go\<close> that the modelled operations use,
  and what the service gets from outside. The work task service, the permission resolver and
  the availability of the codex binary are parameters over a world \<open>'w\<close>; calls that only read
  are functions of the world. \<open>aeErrorText\<close> is \<open>err.Error()\<close>.
\<close>

abbreviation RunStatusQueued :: string where "RunStatusQueued \<equiv> ''queued''"
abbreviation RunStatusRunning :: string where "RunStatusRunning \<equiv> ''running''"
abbreviation RunStatusFailed :: string where "RunStatusFailed \<equiv> ''failed''"
abbreviation RunStatusBlocked :: string where "RunStatusBlocked \<equiv> ''blocked''"
abbreviation RunStatusPolicyDenied :: string where "RunStatusPolicyDenied \<equiv> ''policy_denied''"
abbreviation BatchStatusPlanned :: string where "BatchStatusPlanned \<equiv> ''planned''"
abbreviation RunnerKindManual :: string where "RunnerKindManual \<equiv> ''manual''"
abbreviation AutomationSourceManual :: string where "AutomationSourceManual \<equiv> ''manual''"
abbreviation RunnerExecutionExternal :: string where "RunnerExecutionExternal \<equiv> ''external''"
abbreviation RunnerExecutionInProcess :: string where "RunnerExecutionInProcess \<equiv> ''in_process''"

definition automationStatuses :: "string list" where
  "automationStatuses =
    [AutomationStatusDraft, AutomationStatusEnabled, ''disabled'', ''running'', ''paused'', ''failed'',
     ''cancelled'', ''superseded'']"

record AutomationRun =
  arID :: string
  arProjectID :: string
  arAutomationID :: string
  arAgentID :: string
  arPlanID :: string
  arTaskID :: string
  arWorkTaskStatus :: string
  arStatus :: string
  arRunnerKind :: string
  arAgentRunID :: string
  arTraceID :: string
  arAttemptCount :: int
  arOrchestratorRunID :: string
  arParentRunID :: string
  arWorkerRunIDs :: "string list"
  arParallelGroupID :: string
  arFailureCategory :: string
  arSafeSummary :: string
  arClaimID :: string
  arRunnerID :: string
  arClaimedAt :: time
  arLastHeartbeatAt :: time
  arLeaseExpiresAt :: time
  arStartedAt :: time
  arFinishedAt :: time
  arCreatedAt :: time
  arUpdatedAt :: time

definition zeroAutomationRun :: AutomationRun where
  "zeroAutomationRun = \<lparr>arID = [], arProjectID = [], arAutomationID = [], arAgentID = [], arPlanID = [], arTaskID = [],
     arWorkTaskStatus = [], arStatus = [], arRunnerKind = [], arAgentRunID = [], arTraceID = [],
     arAttemptCount = 0, arOrchestratorRunID = [], arParentRunID = [], arWorkerRunIDs = [],
     arParallelGroupID = [], arFailureCategory = [], arSafeSummary = [], arClaimID = [], arRunnerID = [],
     arClaimedAt = zeroTime, arLastHeartbeatAt = zeroTime, arLeaseExpiresAt = zeroTime,
     arStartedAt = zeroTime, arFinishedAt = zeroTime, arCreatedAt = zeroTime, arUpdatedAt = zeroTime\<rparr>"

record AutomationAttempt =
  atID :: string
  atProjectID :: string
  atAutomationRunID :: string
  atAttemptNumber :: int
  atRunnerKind :: string
  atCommandRef :: string
  atInputSummaryHash :: string
  atOutputSummaryHash :: string
  atStatus :: string
  atFailureCategory :: string
  atDurationMS :: int
  atVerifierResultRefs :: "string list"
  atEvidenceRefs :: "string list"
  atClaimRefs :: "string list"
  atKnowledgeRefs :: "string list"
  atCreatedAt :: time
  atFinishedAt :: time

record AutomationParallelBatch =
  abID :: string
  abProjectID :: string
  abAutomationRunID :: string
  abOrchestratorRunID :: string
  abPlanID :: string
  abTaskIDs :: "string list"
  abStatus :: string
  abSafetyReason :: string
  abConflictSummary :: string
  abCreatedAt :: time
  abUpdatedAt :: time

record UpdateAutomationStatusInput =
  jsProjectID :: string
  jsAutomationID :: string
  jsStatus :: string
  jsRunID :: string
  jsTraceID :: string

record AutomationFilter =
  jfProjectID :: string
  jfStatus :: string
  jfAgentID :: string

record SubmitRunInput =
  jrProjectID :: string
  jrAutomationID :: string
  jrPlanID :: string
  jrTaskID :: string
  jrOwnerAgent :: string
  jrRunnerKind :: string
  jrOrchestratorRunID :: string
  jrParentRunID :: string
  jrEvidenceRefs :: "string list"
  jrVerifierRefs :: "string list"
  jrSafeNextAction :: string

record RunFilter =
  jqProjectID :: string
  jqAutomationID :: string
  jqPlanID :: string
  jqStatus :: string
  jqOrchestratorRunID :: string

record ComputeParallelBatchInput =
  jbProjectID :: string
  jbAutomationRunID :: string
  jbOrchestratorRunID :: string
  jbPlanID :: string
  jbTaskIDs :: "string list"
  jbMaxTasks :: int

text \<open>The options that the modelled operations read.\<close>

record AutomationOptions =
  aoRunnerEnabled :: bool
  aoRequireCodexWhenAvailable :: bool
  aoAllowManualRunner :: bool
  aoRunnerExecution :: string
  aoMaxParallelTasks :: int

text \<open>The defaults that \<open>New\<close> sets.\<close>

definition withDefaults :: "AutomationOptions \<Rightarrow> AutomationOptions" where
  "withDefaults opts =
     opts\<lparr>aoMaxParallelTasks := (if aoMaxParallelTasks opts \<le> 0 then 1 else aoMaxParallelTasks opts),
        aoRunnerExecution := (if trimSpace (aoRunnerExecution opts) = [] then RunnerExecutionInProcess
                              else aoRunnerExecution opts)\<rparr>"

record 'w AutomationEnv =
  aeOptions :: AutomationOptions
  aeNow :: "'w \<Rightarrow> time \<times> 'w"
  aeNewID :: "string \<Rightarrow> 'w \<Rightarrow> string \<times> 'w"
  aeErrorText :: "error \<Rightarrow> string"
  aeCodexAvailable :: "'w \<Rightarrow> bool"
  aeGetWorkTask :: "string \<Rightarrow> string \<Rightarrow> 'w \<Rightarrow> WorkTask res"
  aeListOpenWorkTasks :: "WorkTaskFilter \<Rightarrow> 'w \<Rightarrow> WorkTask list res"
  aeUpdateWorkTaskStatus :: "(UpdateWorkTaskStatusInput \<Rightarrow> ('w, WorkTask) act) option"
  aePermission :: "(PermissionCheckInput \<Rightarrow> 'w \<Rightarrow> PermissionSnapshotMetadata res) option"

end
