(* ===== verification/Workflow_Service.thy ===== *)
theory Workflow_Service
  imports Workflow_Toml Workflow_Model Automation_Model WorkPlan_Model
begin

section \<open>Workflows: the catalogue\<close>

text \<open>
  \<open>internal/projectworkflow/service.go\<close>: workflows are created or imported from TOML, read,
  listed and moved between statuses; an import also stores a permission snapshot for each
  agent, and \<open>CheckAutomationPermission\<close> resolves the references to them.

  \<open>WorkflowEnv\<close> collects what the service gets from outside: clock and identifiers, the TOML
  decoder, the services the compiler calls, over a state \<open>'w\<close> of their own. \<open>weDigest\<close> stands
  for the hexadecimal SHA-256 digest of the JSON encoding of a payload, \<open>weFormatIssues\<close> for
  \<open>%v\<close> on issues and \<open>weErrorText\<close> for \<open>err.Error()\<close>. \<open>weRange\<close> is the order in which a Go map
  of work tasks is iterated. The guards against a missing store or service are left out.
\<close>

record PermissionPayload =
  ppAgentID :: string
  ppInstructions :: string
  ppAllowedSkills :: "string list"
  ppAllowedTools :: "string list"
  ppAllowedCommands :: "string list"
  ppDeniedCommands :: "string list"
  ppWorkspaceMode :: string
  ppNetworkPolicy :: string
  ppSecretPolicy :: string
  ppLogPolicy :: string
  ppMaxRuntime :: string
  ppMaxRetries :: int

record CompileOptions =
  coBranchPrefix :: string
  coBranchSummaryTemplate :: string

record 'w WorkflowEnv =
  weNow :: "'w \<Rightarrow> time \<times> 'w"
  weNewID :: "string \<Rightarrow> 'w \<Rightarrow> string \<times> 'w"
  weDigest :: "PermissionPayload \<Rightarrow> string"
  weDecodeTOML :: toml_decoder
  weFormatIssues :: "issues \<Rightarrow> string"
  weErrorText :: "error \<Rightarrow> string"
  weCompileOptions :: "(string, CompileOptions) table"
  weCreateWorkPlan :: "CreateWorkPlanInput \<Rightarrow> ('w, WorkPlan) act"
  weCreateWorkTask :: "CreateWorkTaskInput \<Rightarrow> ('w, WorkTask) act"
  weUpdateWorkTask :: "WorkTask \<Rightarrow> ('w, WorkTask) act"
  weCreateAutomation :: "CreateAutomationInput \<Rightarrow> ('w, Automation) act"
  weRange :: "WorkTask list \<Rightarrow> WorkTask list"

type_synonym 'w workflow_state = "'w \<times> WorkflowStore"

definition nowS :: "'w WorkflowEnv \<Rightarrow> 'w \<Rightarrow> ('e + time) \<times> 'w" where
  "nowS env w = (case weNow env w of (t, w') \<Rightarrow> (Inr t, w'))"

definition newIDS_wf :: "'w WorkflowEnv \<Rightarrow> string \<Rightarrow> 'w \<Rightarrow> ('e + string) \<times> 'w" where
  "newIDS_wf env pre w = (case weNewID env pre w of (i, w') \<Rightarrow> (Inr i, w'))"

definition inWorld :: "('w \<Rightarrow> ('e + 'a) \<times> 'w) \<Rightarrow> 'w \<times> 's \<Rightarrow> ('e + 'a) \<times> ('w \<times> 's)" where
  "inWorld m s = (case m (fst s) of (r, w') \<Rightarrow> (r, (w', snd s)))"

definition inStore :: "('s \<Rightarrow> ('e + 'a) \<times> 's) \<Rightarrow> 'w \<times> 's \<Rightarrow> ('e + 'a) \<times> ('w \<times> 's)" where
  "inStore m s = (case m (snd s) of (r, st') \<Rightarrow> (r, (fst s, st')))"

definition readStore :: "('s \<Rightarrow> 'e + 'a) \<Rightarrow> 'w \<times> 's \<Rightarrow> ('e + 'a) \<times> ('w \<times> 's)" where
  "readStore f s = (f (snd s), s)"

definition setCompileOptionsByProject :: "(string \<times> CompileOptions) list \<Rightarrow> (string, CompileOptions) table" where
  "setCompileOptionsByProject options =
     fold (\<lambda>(projectID, opt) t.
       let p = trimSpace projectID in if p = [] then t else tput t p opt) options []"

subsection \<open>Checks\<close>

definition safeOptionalWorkflowRef :: "string \<Rightarrow> string \<Rightarrow> string res" where
  "safeOptionalWorkflowRef value0 field =
     (let value = trimSpace value0
      in if value = [] then Inr []
         else if \<not> safeWorkflowRef value then Inl (ErrInvalidInput (field @ '' is unsafe''))
         else Inr value)"

definition safeRequiredWorkflowRef :: "string \<Rightarrow> string \<Rightarrow> string res" where
  "safeRequiredWorkflowRef value0 field =
     tryE (safeOptionalWorkflowRef value0 field) (\<lambda>value.
     if value = [] then Inl (ErrInvalidInput (field @ '' is required'')) else Inr value)"

definition safeWorkflowObject :: "string \<Rightarrow> string \<Rightarrow> string \<Rightarrow> (string \<times> string) res" where
  "safeWorkflowObject projectID0 objectID0 field =
     tryE (safeRequiredWorkflowRef projectID0 ''project_id'') (\<lambda>projectID.
     tryE (safeRequiredWorkflowRef objectID0 field) (\<lambda>objectID.
     Inr (projectID, objectID)))"

definition safeWorkflowStatus :: "string \<Rightarrow> string res" where
  "safeWorkflowStatus status =
     (if trimSpace status \<in> set workflowStatuses then Inr (trimSpace status)
      else Inl (ErrInvalidInput ''invalid workflow status''))"

definition allowedWorkflowTransitions :: "string \<Rightarrow> string list" where
  "allowedWorkflowTransitions from =
     (if from = WorkflowStatusDraft
      then [WorkflowStatusEnabled, WorkflowStatusDisabled, WorkflowStatusSuperseded]
      else if from = WorkflowStatusEnabled then [WorkflowStatusDisabled, WorkflowStatusSuperseded]
      else if from = WorkflowStatusDisabled then [WorkflowStatusEnabled, WorkflowStatusSuperseded]
      else [])"

definition validateWorkflowStatusTransition :: "string \<Rightarrow> string \<Rightarrow> unit res" where
  "validateWorkflowStatusTransition from nxt =
     (if from = nxt then Inr ()
      else if nxt \<in> set (allowedWorkflowTransitions from) then Inr ()
      else Inl (ErrInvalidInput (''invalid workflow transition '' @ from @ '' -> '' @ nxt)))"

subsection \<open>Permission snapshots\<close>

definition sortedCopy :: "string list \<Rightarrow> string list" where
  "sortedCopy vs = sort vs"

definition safeHashText :: "string \<Rightarrow> string" where
  "safeHashText value =
     map (\<lambda>c. let n = of_char c :: nat in if 48 \<le> n \<and> n \<le> 57 then char_of (n - 48 + 103) else c) value"

definition permissionSnapshotContentHash :: "'w WorkflowEnv \<Rightarrow> WorkflowPermissionSnapshot \<Rightarrow> string" where
  "permissionSnapshotContentHash env snap =
     ''sha256-'' @ safeHashText (weDigest env
       \<lparr>ppAgentID = wnAgentID snap, ppInstructions = wnInstructions snap,
        ppAllowedSkills = sortedCopy (wnAllowedSkills snap), ppAllowedTools = sortedCopy (wnAllowedTools snap),
        ppAllowedCommands = sortedCopy (wnAllowedCommands snap),
        ppDeniedCommands = sortedCopy (wnDeniedCommands snap), ppWorkspaceMode = wnWorkspaceMode snap,
        ppNetworkPolicy = wnNetworkPolicy snap, ppSecretPolicy = wnSecretPolicy snap,
        ppLogPolicy = wnLogPolicy snap, ppMaxRuntime = wnMaxRuntime snap, ppMaxRetries = wnMaxRetries snap\<rparr>)"

definition tokenByte :: "char \<Rightarrow> string" where
  "tokenByte c =
     (let n = of_char c :: nat
      in if 97 \<le> n \<and> n \<le> 122 then [c]
         else if 48 \<le> n \<and> n \<le> 57 then [char_of (97 + (n - 48))]
         else if c = CHR ''.'' then ''-dot-'' else if c = CHR ''_'' then ''-under-''
         else if c = CHR '':'' then ''-colon-'' else if c = CHR ''/'' then ''-slash-''
         else if c = CHR ''@'' then ''-at-'' else if c = CHR ''+'' then ''-plus-''
         else if c = CHR ''-'' then ''-'' else [])"

definition safeRefToken :: "string \<Rightarrow> string" where
  "safeRefToken value = trimCut (concat (map tokenByte (trimSpace (toLower value)))) ''-''"

definition permissionSnapshotID :: "string \<Rightarrow> string \<Rightarrow> string" where
  "permissionSnapshotID workflowID0 agentID0 =
     (let workflowID = safeRefToken workflowID0; agentID = safeRefToken agentID0
      in ''permission-snapshot-'' @ (if workflowID = [] then ''workflow'' else workflowID) @ ''-''
         @ (if agentID = [] then ''agent'' else agentID))"

definition agentSnapshot ::
    "'w WorkflowEnv \<Rightarrow> WorkflowDefinition \<Rightarrow> WorkflowAgentDefinition \<Rightarrow> time \<Rightarrow> WorkflowPermissionSnapshot" where
  "agentSnapshot env workflow agent now =
     (let snap = \<lparr>wnID = permissionSnapshotID (wdID workflow) (waID agent), wnProjectID = wdProjectID workflow,
        wnAgentID = waID agent, wnWorkflowID = wdID workflow, wnInstructions = trimSpace (waInstructions agent),
        wnAllowedSkills = sortedCopy (waAllowedSkills agent), wnAllowedTools = sortedCopy (waAllowedTools agent),
        wnAllowedCommands = sortedCopy (waAllowedCommands agent),
        wnDeniedCommands = sortedCopy (waDeniedCommands agent), wnWorkspaceMode = trimSpace (waWorkspaceMode agent),
        wnNetworkPolicy = trimSpace (waNetworkPolicy agent),
        wnSecretPolicy = firstNonEmpty [waSecretPolicy agent, ''deny''],
        wnLogPolicy = firstNonEmpty [waLogPolicy agent, ''metadata_only''],
        wnMaxRuntime = trimSpace (waMaxRuntime agent), wnMaxRetries = waMaxRetries agent, wnContentHash = [],
        wnCreatedByRunID = wdCreatedByRunID workflow, wnTraceID = wdTraceID workflow,
        wnCreatedAt = now, wnUpdatedAt = now\<rparr>
      in snap\<lparr>wnContentHash := permissionSnapshotContentHash env snap\<rparr>)"

definition permissionSnapshotForAgent ::
    "'w WorkflowEnv \<Rightarrow> WorkflowDefinition \<Rightarrow> WorkflowAgentDefinition \<Rightarrow> ('w, WorkflowPermissionSnapshot) act" where
  "permissionSnapshotForAgent env workflow agent =
     seqS (nowS env) (\<lambda>now.
     let snap = agentSnapshot env workflow agent now;
         is = validateWorkflow (emptyWorkflow\<lparr>wdID := wdID workflow, wdProjectID := wdProjectID workflow,
                wdTitle := wdTitle workflow, wdPurpose := wdPurpose workflow, wdStatus := wdStatus workflow,
                wdAgents := wdAgents workflow, wdSteps := wdSteps workflow,
                wdReviewGates := wdReviewGates workflow, wdPermissionSnapshots := [snap]\<rparr>)
     in if hasErrorIssues is
        then liftS (Inl (ErrInvalidInput (''permission snapshot validation failed: '' @ weFormatIssues env is)))
        else retS snap)"

fun mapS :: "('a \<Rightarrow> 's \<Rightarrow> ('e + 'b) \<times> 's) \<Rightarrow> 'a list \<Rightarrow> 's \<Rightarrow> ('e + 'b list) \<times> 's" where
  "mapS f [] = retS []"
| "mapS f (x # xs) = seqS (f x) (\<lambda>y. seqS (mapS f xs) (\<lambda>ys. retS (y # ys)))"

definition permissionSnapshotsForWorkflow ::
    "'w WorkflowEnv \<Rightarrow> WorkflowDefinition \<Rightarrow> ('w, WorkflowPermissionSnapshot list) act" where
  "permissionSnapshotsForWorkflow env workflow = mapS (permissionSnapshotForAgent env workflow) (wdAgents workflow)"

subsection \<open>Creation and import\<close>

definition stampAgent :: "time \<Rightarrow> WorkflowAgentDefinition \<Rightarrow> WorkflowAgentDefinition" where
  "stampAgent now agent =
     agent\<lparr>waCreatedAt := (if waCreatedAt agent = zeroTime then now else waCreatedAt agent), waUpdatedAt := now\<rparr>"

definition preparedStatus :: "bool \<Rightarrow> string \<Rightarrow> string res" where
  "preparedStatus importMode status0 =
     tryE (setIf (\<not> importMode \<and> status0 \<noteq> []) (safeWorkflowStatus status0) WorkflowStatusDraft) (\<lambda>status.
     Inr (if importMode \<and> trimSpace status0 = WorkflowStatusEnabled then WorkflowStatusEnabled else status))"

definition prepareWorkflow ::
    "'w WorkflowEnv \<Rightarrow> WorkflowDefinition \<Rightarrow> string \<Rightarrow> string \<Rightarrow> bool \<Rightarrow> ('w, WorkflowDefinition) act" where
  "prepareWorkflow env def runID traceID importMode =
     seqS (liftS (safeRequiredWorkflowRef (wdProjectID def) ''project_id'')) (\<lambda>projectID.
     seqS (liftS (safeOptionalWorkflowRef (wdID def) ''id'')) (\<lambda>workflowID0.
     seqS (if workflowID0 = [] then newIDS_wf env ''workflow'' else retS workflowID0) (\<lambda>workflowID.
     seqS (liftS (safeOptionalWorkflowRef (wdWorkflowRef def) ''workflow_ref'')) (\<lambda>workflowRef.
     seqS (liftS (safeOptionalWorkflowRef (firstNonEmpty [runID, wdCreatedByRunID def]) ''created_by_run_id'')) (\<lambda>run.
     seqS (liftS (safeOptionalWorkflowRef (firstNonEmpty [traceID, wdTraceID def]) ''trace_id'')) (\<lambda>trace.
     seqS (liftS (preparedStatus importMode (wdStatus def))) (\<lambda>status.
     seqS (nowS env) (\<lambda>now.
     retS (def\<lparr>wdID := workflowID, wdProjectID := projectID,
       wdWorkflowRef := (if workflowRef = [] then workflowID else workflowRef), wdStatus := status,
       wdCreatedByRunID := run, wdTraceID := trace,
       wdCreatedAt := (if wdCreatedAt def = zeroTime then now else wdCreatedAt def), wdUpdatedAt := now,
       wdAgents := map (stampAgent now) (wdAgents def)\<rparr>)))))))))"

definition svcCreateWorkflow ::
    "'w WorkflowEnv \<Rightarrow> CreateWorkflowInput \<Rightarrow> ('w workflow_state, WorkflowDefinition) act" where
  "svcCreateWorkflow env input =
     seqS (inWorld (prepareWorkflow env (wcDefinition input) (wcCreatedByRunID input) (wcTraceID input) False))
       (\<lambda>workflow.
     if hasErrorIssues (validateWorkflow workflow)
     then liftS (Inl (ErrInvalidInput ''workflow validation failed''))
     else inStore (memCreateWorkflow workflow))"

definition svcValidateWorkflowTOML ::
    "'w WorkflowEnv \<Rightarrow> string \<Rightarrow> (WorkflowDefinition list \<times> issues) res" where
  "svcValidateWorkflowTOML env data =
     (case parseWorkflowTOML (weDecodeTOML env) data of
        None \<Rightarrow> Inl (ErrInvalidInput ''workflow TOML parse failed'')
      | Some (defs, is) \<Rightarrow> if hasErrorIssues is then Inr ([], is) else Inr (defs, is))"

text \<open>One turn of the first loop of \<open>ImportWorkflowTOML\<close>: the workflow with its snapshots.\<close>

definition prepareImport ::
    "'w WorkflowEnv \<Rightarrow> string \<Rightarrow> ImportWorkflowTOMLInput \<Rightarrow> WorkflowDefinition
      \<Rightarrow> ('w, WorkflowDefinition \<times> WorkflowPermissionSnapshot list) act" where
  "prepareImport env projectID input def =
     seqS (prepareWorkflow env (def\<lparr>wdProjectID := projectID\<rparr>) (wmCreatedByRunID input) (wmTraceID input) True)
       (\<lambda>workflow.
     seqS (permissionSnapshotsForWorkflow env workflow) (\<lambda>snapshots.
     retS (workflow\<lparr>wdPermissionSnapshots := snapshots\<rparr>, snapshots)))"

text \<open>The second loop stores them. An error keeps the result collected so far.\<close>

type_synonym import_failure = "ImportWorkflowTOMLResult \<times> error"

definition keepResult :: "'p \<Rightarrow> ('s, 'a) act \<Rightarrow> 's \<Rightarrow> (('p \<times> error) + 'a) \<times> 's" where
  "keepResult partial m s = (case m s of (Inl e, s') \<Rightarrow> (Inl (partial, e), s') | (Inr x, s') \<Rightarrow> (Inr x, s'))"

fun storeSnapshots ::
    "WorkflowPermissionSnapshot list \<Rightarrow> ImportWorkflowTOMLResult
      \<Rightarrow> WorkflowStore \<Rightarrow> (import_failure + ImportWorkflowTOMLResult) \<times> WorkflowStore" where
  "storeSnapshots [] result = retS result"
| "storeSnapshots (snap # snaps) result =
     seqS (keepResult result (memCreatePermissionSnapshot snap)) (\<lambda>created.
     storeSnapshots snaps (result\<lparr>wrPermissionSnapshots := wrPermissionSnapshots result @ [created],
       wrPermissionSnapshotIDs := wrPermissionSnapshotIDs result @ [wnID created]\<rparr>))"

fun storeImported ::
    "(WorkflowDefinition \<times> WorkflowPermissionSnapshot list) list \<Rightarrow> ImportWorkflowTOMLResult
      \<Rightarrow> WorkflowStore \<Rightarrow> (import_failure + ImportWorkflowTOMLResult) \<times> WorkflowStore" where
  "storeImported [] result = retS result"
| "storeImported ((workflow, snaps) # rest) result =
     seqS (keepResult result (memCreateWorkflow workflow)) (\<lambda>created.
     seqS (storeSnapshots snaps (result\<lparr>wrWorkflows := wrWorkflows result @ [created]\<rparr>)) (\<lambda>result'.
     storeImported rest result'))"

definition emptyImport :: "issues \<Rightarrow> ImportWorkflowTOMLResult" where
  "emptyImport is = \<lparr>wrWorkflows = [], wrPermissionSnapshots = [], wrValidationIssues = is,
     wrPermissionSnapshotIDs = []\<rparr>"

definition svcImportWorkflowTOML ::
    "'w WorkflowEnv \<Rightarrow> ImportWorkflowTOMLInput \<Rightarrow> 'w workflow_state
      \<Rightarrow> (import_failure + ImportWorkflowTOMLResult) \<times> 'w workflow_state" where
  "svcImportWorkflowTOML env input =
     seqS (keepResult (emptyImport []) (liftS (safeRequiredWorkflowRef (wmProjectID input) ''project_id'')))
       (\<lambda>projectID.
     case parseWorkflowTOML (weDecodeTOML env) (wmData input) of
       None \<Rightarrow> liftS (Inl (emptyImport [], ErrInvalidInput ''workflow TOML parse failed''))
     | Some (defs, is) \<Rightarrow>
         if hasErrorIssues is
         then liftS (Inl (emptyImport is, ErrInvalidInput ''workflow validation failed''))
         else
           seqS (keepResult (emptyImport []) (inWorld (mapS (prepareImport env projectID input) defs)))
             (\<lambda>prepared. inStore (storeImported prepared (emptyImport is))))"

subsection \<open>Reading and status\<close>

definition svcGetWorkflow :: "string \<Rightarrow> string \<Rightarrow> WorkflowStore \<Rightarrow> WorkflowDefinition res" where
  "svcGetWorkflow projectID0 workflowID0 st =
     tryE (safeWorkflowObject projectID0 workflowID0 ''workflow_id'') (\<lambda>(projectID, workflowID).
     memGetWorkflow projectID workflowID st)"

definition svcListWorkflows :: "WorkflowFilter \<Rightarrow> WorkflowStore \<Rightarrow> WorkflowDefinition list res" where
  "svcListWorkflows flt st =
     tryE (safeRequiredWorkflowRef (wfProjectID flt) ''project_id'') (\<lambda>projectID.
     tryE (setIf (wfStatus flt \<noteq> []) (safeWorkflowStatus (wfStatus flt)) []) (\<lambda>status.
     tryE (setIf (wfWorkflowRef flt \<noteq> []) (safeOptionalWorkflowRef (wfWorkflowRef flt) ''workflow_ref'') []) (\<lambda>ref.
     Inr (memListWorkflows (flt\<lparr>wfProjectID := projectID, wfStatus := status, wfWorkflowRef := ref\<rparr>) st))))"

definition svcUpdateWorkflowStatus ::
    "'w WorkflowEnv \<Rightarrow> UpdateWorkflowStatusInput \<Rightarrow> ('w workflow_state, WorkflowDefinition) act" where
  "svcUpdateWorkflowStatus env input =
     seqS (liftS (safeWorkflowObject (wuProjectID input) (wuWorkflowID input) ''workflow_id'')) (\<lambda>(projectID, workflowID).
     seqS (liftS (safeWorkflowStatus (wuStatus input))) (\<lambda>nxt.
     seqS (readStore (memGetWorkflow projectID workflowID)) (\<lambda>workflow.
     seqS (liftS (validateWorkflowStatusTransition (wdStatus workflow) nxt)) (\<lambda>_.
     seqS (inWorld (nowS env)) (\<lambda>now.
     inStore (memUpdateWorkflow (workflow\<lparr>wdStatus := nxt, wdUpdatedAt := now\<rparr>)))))))"

definition malformedSnapshotRef :: error where
  "malformedSnapshotRef = ErrInvalidInput ''malformed_permission_snapshot_ref''"

definition svcCheckAutomationPermission ::
    "PermissionCheckInput \<Rightarrow> WorkflowStore \<Rightarrow> PermissionSnapshotMetadata res" where
  "svcCheckAutomationPermission input st =
     tryE (safeRequiredWorkflowRef (pkProjectID input) ''project_id'') (\<lambda>projectID.
     let permissionRef = trimSpace (pkPermissionRef input) in
     if \<not> hasPrefix permissionRef PermissionSnapshotRefPrefix then Inl malformedSnapshotRef
     else
       case safeRequiredWorkflowRef (trimPrefix permissionRef PermissionSnapshotRefPrefix) ''permission_snapshot_id'' of
         Inl e \<Rightarrow> Inl malformedSnapshotRef
       | Inr snapshotID \<Rightarrow>
           (case memGetPermissionSnapshot projectID snapshotID st of
              Inl e \<Rightarrow> Inl (ErrInvalidInput ''permission_snapshot_unavailable'')
            | Inr snap \<Rightarrow>
                if wnAgentID snap \<noteq> trimSpace (pkAgentID input)
                then Inl (ErrInvalidInput ''permission_agent_mismatch'')
                else Inr \<lparr>pmPermissionRef = permissionRef, pmAgentID = wnAgentID snap,
                          pmAllowedRunnerKinds = [RunnerKindCodexCLI], pmDeniedCommands = wnDeniedCommands snap\<rparr>))"

end
