(* ===== verification/Workflow_Compiler.thy ===== *)
theory Workflow_Compiler
  imports Workflow_Service
begin

section \<open>Workflows: planning a compilation\<close>

text \<open>
  The parts of \<open>internal/projectworkflow/compiler.go\<close> that compute: the compile graph with the
  work tasks in dependency order, the references an automation may run, the dependencies of a
  compiled task, and the names and texts of what the compiler creates.
\<close>

subsection \<open>Steps and gates by step\<close>

text \<open>\<open>stepsByID\<close>: the last step of an identifier; a key that is missing gives the zero step.\<close>

definition stepOf :: "WorkflowStep list \<Rightarrow> string \<Rightarrow> WorkflowStep option" where
  "stepOf steps ident = find (\<lambda>s. wkID s = ident) (rev steps)"

definition stepAt :: "WorkflowStep list \<Rightarrow> string \<Rightarrow> WorkflowStep" where
  "stepAt steps ident = (case stepOf steps ident of None \<Rightarrow> zeroStep | Some s \<Rightarrow> s)"

definition requiredGatesByStep :: "WorkflowReviewGate list \<Rightarrow> string \<Rightarrow> WorkflowReviewGate list" where
  "requiredGatesByStep gates stepID =
     concat (map (\<lambda>gate. map (\<lambda>_. gate) (filter (\<lambda>s. s = stepID) (wgAppliesTo gate))) (filter wgRequired gates))"

definition isTaskStep :: "WorkflowStep list \<Rightarrow> string \<Rightarrow> bool" where
  "isTaskStep steps ident = (wkKind (stepAt steps ident) = WorkflowStepKindWorkTask)"

definition hasTaskProducingDependency :: "WorkflowStep list \<Rightarrow> WorkflowStep \<Rightarrow> bool" where
  "hasTaskProducingDependency steps step = list_ex (isTaskStep steps) (wkDependsOn step)"

definition checkIndependence :: "WorkflowReviewGate list \<Rightarrow> WorkflowStep \<Rightarrow> unit res" where
  "checkIndependence gates step =
     (case find (\<lambda>gate. wgIndependentFromOwner gate \<and> wgReviewerAgent gate = wkAgent step) gates of
        Some gate \<Rightarrow> Inl (ErrInvalidInput (''review gate '' @ wgID gate @ '' requires independent reviewer''))
      | None \<Rightarrow> Inr ())"

definition checkAutomationStep :: "WorkflowDefinition \<Rightarrow> WorkflowStep \<Rightarrow> unit res" where
  "checkAutomationStep workflow step =
     (let gates = requiredGatesByStep (wdReviewGates workflow) (wkID step) in
      tryE (failIf (gates = [])
        (ErrInvalidInput (''automation step '' @ wkID step @ '' is missing a required review gate''))) (\<lambda>_.
      tryE (checkIndependence gates step) (\<lambda>_.
      failIf (\<not> hasTaskProducingDependency (wdSteps workflow) step)
        (ErrInvalidInput (''automation step '' @ wkID step @ '' must depend on at least one work task step'')))))"

fun planAutomations :: "WorkflowDefinition \<Rightarrow> WorkflowStep list \<Rightarrow> WorkflowStep list res" where
  "planAutomations workflow [] = Inr []"
| "planAutomations workflow (step # steps) =
     (if isAutomationStep step
      then tryE (checkAutomationStep workflow step) (\<lambda>_.
           tryE (planAutomations workflow steps) (\<lambda>rest. Inr (step # rest)))
      else planAutomations workflow steps)"

subsection \<open>Work tasks in dependency order\<close>

record plannedTask =
  ptStep :: WorkflowStep
  ptID :: string

definition openSteps :: "WorkflowStep list \<Rightarrow> string list \<Rightarrow> nat" where
  "openSteps steps visiting = openNodes (stepEdges steps) visiting"

lemma stepOf_Some: "stepOf steps ident = Some s \<Longrightarrow> s \<in> set steps \<and> wkID s = ident"
  unfolding stepOf_def by (drule find_rev_member) simp

lemma stepAt_known: "wkKind (stepAt steps ident) \<noteq> [] \<Longrightarrow> ident \<in> fst ` set (stepEdges steps)"
  by (auto simp: stepAt_def stepEdges_def image_image dest: stepOf_Some split: option.splits)

lemma stepAt_deps: "wkDependsOn (stepAt steps ident) \<noteq> [] \<Longrightarrow> ident \<in> fst ` set (stepEdges steps)"
  by (auto simp: stepAt_def stepEdges_def image_image dest: stepOf_Some split: option.splits)

lemma openSteps_less:
  "ident \<in> fst ` set (stepEdges steps) \<Longrightarrow> ident \<notin> set visiting
   \<Longrightarrow> openSteps steps (ident # visiting) < openSteps steps visiting"
  unfolding openSteps_def by (rule openNodes_less)

text \<open>
  The closure \<open>visit\<close>. As in \<open>Graph_Search\<close>, \<open>visiting\<close> holds the steps whose call is running.
  The tasks are appended to \<open>graph.tasks\<close> when their call ends; each takes a new identifier.
\<close>

function (sequential) visitTask ::
    "'w WorkflowEnv \<Rightarrow> WorkflowDefinition \<Rightarrow> string list \<Rightarrow> string list \<Rightarrow> plannedTask list \<Rightarrow> string
      \<Rightarrow> ('w, string list \<times> plannedTask list) act"
  and visitTaskDeps ::
    "'w WorkflowEnv \<Rightarrow> WorkflowDefinition \<Rightarrow> string list \<Rightarrow> string list \<Rightarrow> plannedTask list \<Rightarrow> string list
      \<Rightarrow> ('w, string list \<times> plannedTask list) act" where
  "visitTask env flow visiting visited tasks stepID w =
     (if stepID \<in> set visited then (Inr (visited, tasks), w)
      else if stepID \<in> set visiting then (Inl (ErrInvalidInput ''workflow task dependency cycle''), w)
      else if \<not> isTaskStep (wdSteps flow) stepID then (Inr (visited, tasks), w)
      else
        case visitTaskDeps env flow (stepID # visiting) visited tasks (wkDependsOn (stepAt (wdSteps flow) stepID)) w of
          (Inl e, w1) \<Rightarrow> (Inl e, w1)
        | (Inr (visited1, tasks1), w1) \<Rightarrow>
            let step = stepAt (wdSteps flow) stepID in
            (case checkIndependence (requiredGatesByStep (wdReviewGates flow) (wkID step)) step of
               Inl e \<Rightarrow> (Inl e, w1)
             | Inr _ \<Rightarrow>
                 (case weNewID env ''work_task'' w1 of
                    (i, w2) \<Rightarrow> (Inr (stepID # visited1, tasks1 @ [\<lparr>ptStep = step, ptID = i\<rparr>]), w2))))"
| "visitTaskDeps env flow visiting visited tasks [] w = (Inr (visited, tasks), w)"
| "visitTaskDeps env flow visiting visited tasks (dep # deps) w =
     (case visitTask env flow visiting visited tasks dep w of
        (Inl e, w1) \<Rightarrow> (Inl e, w1)
      | (Inr (visited1, tasks1), w1) \<Rightarrow> visitTaskDeps env flow visiting visited1 tasks1 deps w1)"
  by pat_completeness auto

termination
proof (relation "inv_image (less_than <*lex*> less_than)
    (case_sum (\<lambda>(env, flow, visiting, visited, tasks, stepID, w). (openSteps (wdSteps flow) visiting, 1))
              (\<lambda>(env, flow, visiting, visited, tasks, deps, w). (openSteps (wdSteps flow) visiting, 2 * length deps)))",
    goal_cases)
  case (2 env flow visiting visited tasks stepID w)
  then have "stepID \<in> fst ` set (stepEdges (wdSteps flow))"
    by (intro stepAt_known) (simp add: isTaskStep_def)
  then show ?case using 2 openSteps_less by (auto simp: le_less)
qed auto

record compileGraph =
  cgTasks :: "plannedTask list"
  cgAutomationSteps :: "WorkflowStep list"

definition planCompileGraph :: "'w WorkflowEnv \<Rightarrow> WorkflowDefinition \<Rightarrow> ('w, compileGraph) act" where
  "planCompileGraph env workflow =
     seqS (liftS (planAutomations workflow (wdSteps workflow))) (\<lambda>automationSteps.
     seqS (visitTaskDeps env workflow [] [] [] (map wkID (wdSteps workflow))) (\<lambda>(visited, tasks).
     retS \<lparr>cgTasks = tasks, cgAutomationSteps = automationSteps\<rparr>))"

subsection \<open>The tasks an automation may run\<close>

text \<open>
  The closure \<open>visit\<close> of \<open>allowedTaskRefs\<close>. Its map \<open>seen\<close> is split into the steps whose call
  is running and those whose call has ended.
\<close>

definition taskRefAt :: "WorkflowStep list \<Rightarrow> (string, WorkTask) table \<Rightarrow> string \<Rightarrow> string list" where
  "taskRefAt steps taskByStep stepID =
     (let byKind = (if isTaskStep steps stepID then [wkID (stepAt steps stepID)] else [])
      in case tget taskByStep stepID of
           None \<Rightarrow> byKind
         | Some task \<Rightarrow> if wtTaskRef task \<noteq> [] then [wtTaskRef task] else byKind)"

function (sequential) visitRefs ::
    "WorkflowStep list \<Rightarrow> (string, WorkTask) table \<Rightarrow> string list \<Rightarrow> string list \<times> string list \<Rightarrow> string
      \<Rightarrow> string list \<times> string list"
  and visitRefsDeps ::
    "WorkflowStep list \<Rightarrow> (string, WorkTask) table \<Rightarrow> string list \<Rightarrow> string list \<times> string list \<Rightarrow> string list
      \<Rightarrow> string list \<times> string list" where
  "visitRefs steps taskByStep running (ended, out) stepID =
     (if stepID \<in> set ended \<or> stepID \<in> set running then (ended, out)
      else case visitRefsDeps steps taskByStep (stepID # running) (ended, out) (wkDependsOn (stepAt steps stepID)) of
             (ended1, out1) \<Rightarrow> (stepID # ended1, out1 @ taskRefAt steps taskByStep stepID))"
| "visitRefsDeps steps taskByStep running st [] = st"
| "visitRefsDeps steps taskByStep running st (dep # deps) =
     visitRefsDeps steps taskByStep running (visitRefs steps taskByStep running st dep) deps"
  by pat_completeness auto

termination
proof (relation "inv_image (less_than <*lex*> less_than)
    (case_sum (\<lambda>(steps, taskByStep, running, st, stepID). (openSteps steps running, 1))
              (\<lambda>(steps, taskByStep, running, st, deps). (openSteps steps running, 2 * length deps)))", goal_cases)
  case (2 steps taskByStep running ended out stepID)
  have le: "openSteps steps (stepID # running) \<le> openSteps steps running"
    unfolding openSteps_def by (rule openNodes_le)
  show ?case
  proof (cases "wkDependsOn (stepAt steps stepID) = []")
    case True
    with le show ?thesis by (auto simp: le_less)
  next
    case False
    then show ?thesis using 2 openSteps_less [OF stepAt_deps [OF False]] by auto
  qed
qed auto

definition allowedTaskRefs :: "WorkflowStep \<Rightarrow> WorkflowStep list \<Rightarrow> (string, WorkTask) table \<Rightarrow> string list" where
  "allowedTaskRefs step steps taskByStep =
     snd (visitRefsDeps steps taskByStep [] ([], []) (wkDependsOn step))"

subsection \<open>Dependencies of a compiled task\<close>

definition lookupIDs :: "(string, string list) table \<Rightarrow> string \<Rightarrow> string list" where
  "lookupIDs t key = (case tget t key of None \<Rightarrow> [] | Some ids \<Rightarrow> ids)"

definition taskIDAt :: "(string, WorkTask) table \<Rightarrow> string \<Rightarrow> string list" where
  "taskIDAt taskByStep key = (case tget taskByStep key of None \<Rightarrow> [] | Some task \<Rightarrow> [wtID task])"

definition addID :: "string \<Rightarrow> string list \<Rightarrow> string list" where
  "addID ident0 out = (let ident = trimSpace ident0 in if ident = [] \<or> ident \<in> set out then out else out @ [ident])"

definition dependencyIDs ::
    "WorkflowStep list \<Rightarrow> (string, WorkTask) table \<Rightarrow> (string, string list) table
      \<Rightarrow> (string, string list) table \<Rightarrow> string \<Rightarrow> string list" where
  "dependencyIDs steps taskByStep taskReviews automationReviews depID =
     (let depStep = stepAt steps depID
      in if wkKind depStep = WorkflowStepKindWorkTask then taskIDAt taskByStep depID
         else if isAutomationStep depStep
         then lookupIDs automationReviews depID
              @ concat (map (\<lambda>taskRef. taskIDAt taskByStep taskRef @ lookupIDs taskReviews taskRef)
                  (allowedTaskRefs depStep steps taskByStep))
         else [])"

definition compiledDependencyTaskIDs ::
    "WorkflowStep \<Rightarrow> WorkflowStep list \<Rightarrow> (string, WorkTask) table \<Rightarrow> (string, string list) table
      \<Rightarrow> (string, string list) table \<Rightarrow> string list" where
  "compiledDependencyTaskIDs step steps taskByStep taskReviews automationReviews =
     fold addID (concat (map (dependencyIDs steps taskByStep taskReviews automationReviews) (wkDependsOn step))) []"

end
