(* ===== verification/Workflow_Names.thy ===== *)
theory Workflow_Names
  imports Workflow_Compiler
begin

section \<open>Workflows: names and texts of compiled objects\<close>

text \<open>
  The helpers at the end of \<open>internal/projectworkflow/compiler.go\<close>: references cut to 200
  bytes, tokens for branches and worktrees, descriptions, and the inputs of the tasks.
\<close>

subsection \<open>References\<close>

definition refTail :: string where
  "refTail = ''.:/@+-''"

definition trimRight :: "string \<Rightarrow> string \<Rightarrow> string" where
  "trimRight s cs = rev (dropWhile (\<lambda>c. c \<in> set cs) (rev s))"

definition truncateRef :: "string \<Rightarrow> string" where
  "truncateRef value0 =
     (let value = trimSpace value0 in if length value \<le> 200 then value else trimRight (take 200 value) refTail)"

definition refWithSuffix :: "string \<Rightarrow> string \<Rightarrow> string" where
  "refWithSuffix base0 suffix0 =
     (let base1 = trimSpace base0; suf = trimSpace suffix0
      in if suf = [] then truncateRef base1
         else if length suf > 198 then truncateRef suf
         else
           let maxBase = 200 - length suf - 1;
               base = (if length base1 > maxBase then trimRight (take maxBase base1) refTail else base1)
           in if base = [] then truncateRef suf else base @ '':'' @ suf)"

definition compilePlanRef :: "string \<Rightarrow> string \<Rightarrow> string \<Rightarrow> string" where
  "compilePlanRef workflowRef runID suf =
     (let base = trimSpace workflowRef
      in refWithSuffix (if trimSpace runID \<noteq> [] then base @ '':'' @ trimSpace runID else base) suf)"

definition compileAutomationRef :: "string \<Rightarrow> string \<Rightarrow> string" where
  "compileAutomationRef planRef stepID = refWithSuffix planRef stepID"

subsection \<open>Tokens\<close>

text \<open>
  The loop that \<open>safeCompileGitToken\<close> and \<open>safeCompileBranchSegment\<close> share: kept bytes are
  copied, each run of others after the first kept byte becomes one dash. The bytes of a rune
  outside ASCII are one run, so the loop over runes can be read as a loop over bytes.
\<close>

fun dashed :: "(char \<Rightarrow> bool) \<Rightarrow> bool \<Rightarrow> bool \<Rightarrow> string \<Rightarrow> string" where
  "dashed ok lastDash started [] = []"
| "dashed ok lastDash started (c # s) =
     (if ok c then c # dashed ok False True s
      else if \<not> lastDash \<and> started then CHR ''-'' # dashed ok True started s
      else dashed ok lastDash started s)"

definition safeCompileBranchSegment :: "string \<Rightarrow> string" where
  "safeCompileBranchSegment value =
     trimCut (dashed (inCls (lowerCls @ upperCls @ digitCls)) False False (trimSpace value)) ''-''"

definition safeCompileGitToken :: "string \<Rightarrow> string" where
  "safeCompileGitToken value =
     (let out = trimCut (dashed (inCls (lowerCls @ digitCls)) False False (trimSpace (toLower value))) ''-''
      in if length out > 96 then trimCut (take 96 out) ''-'' else out)"

text \<open>\<open>strings.Split(value, "/")\<close>\<close>

fun splitSlash :: "string \<Rightarrow> string list" where
  "splitSlash [] = [[]]"
| "splitSlash (c # s) =
     (if c = CHR ''/'' then [] # splitSlash s
      else case splitSlash s of [] \<Rightarrow> [[c]] | p # ps \<Rightarrow> (c # p) # ps)"

definition safeCompileBranchName :: "string \<Rightarrow> string" where
  "safeCompileBranchName value =
     (let out = trimCut (joinWith ''/'' (map safeCompileBranchSegment (splitSlash value))) ''/-''
      in if length out > 160 then trimCut (take 160 out) ''/-'' else out)"

definition renderCompileBranchSummary :: "string \<Rightarrow> string \<Rightarrow> string \<Rightarrow> string \<Rightarrow> string" where
  "renderCompileBranchSummary template0 userRequestRef workflowRef token =
     (let template = trimSpace template0
      in if template = [] then []
         else safeCompileBranchName
           (replaceAll ''{{token}}'' token
             (replaceAll ''{{workflow_ref}}'' workflowRef
               (replaceAll ''{{user_request_ref}}'' userRequestRef
                 (replaceAll ''{{ticket_ref}}'' (trimPrefix userRequestRef ''jira:'') template)))))"

record compileIsolation =
  isParallelGroupRef :: string
  isWorkspaceRef :: string
  isGitBranchRef :: string
  isGitWorktreeRef :: string

definition compileIsolationRefs ::
    "WorkflowDefinition \<Rightarrow> string \<Rightarrow> string \<Rightarrow> string \<Rightarrow> CompileOptions \<Rightarrow> compileIsolation" where
  "compileIsolationRefs workflow planRef userRequestRef runID options =
     (let t1 = safeCompileGitToken (firstNonEmpty [planRef, userRequestRef, runID, wdWorkflowRef workflow, wdID workflow]);
          t2 = (if t1 = [] then safeCompileGitToken (wdProjectID workflow) else t1);
          token = (if t2 = [] then ''workflow'' else t2);
          summary = renderCompileBranchSummary (coBranchSummaryTemplate options) userRequestRef (wdWorkflowRef workflow) token;
          branchToken = (if summary \<noteq> [] then summary else token);
          branchPrefix = (if trimSpace (coBranchPrefix options) = [] \<and> coBranchSummaryTemplate options = []
                          then ''mivia/'' else coBranchPrefix options)
      in \<lparr>isParallelGroupRef = ''workflow/'' @ token, isWorkspaceRef = ''workflow/'' @ token,
          isGitBranchRef = branchPrefix @ branchToken, isGitWorktreeRef = ''workflow/'' @ token\<rparr>)"

subsection \<open>Texts\<close>

definition truncateForCompile :: "string \<Rightarrow> nat \<Rightarrow> string" where
  "truncateForCompile value0 mx =
     (let value = trimSpace value0 in if length value \<le> mx then value else trimSpace (take mx value))"

definition safeOptionalCompileText :: "string \<Rightarrow> string \<Rightarrow> nat \<Rightarrow> string res" where
  "safeOptionalCompileText value0 field mx =
     (let value = trimSpace value0
      in if value = [] then Inr []
         else if length value > mx \<or> containsUnsafeWorkflowText value \<or> containsRootMarker_wf value
         then Inl (ErrInvalidInput (field @ '' is unsafe'')) else Inr value)"

definition descriptionWithAgentInstructions :: "string \<Rightarrow> string \<Rightarrow> string" where
  "descriptionWithAgentInstructions description0 instructions0 =
     (let description = trimSpace description0; instructions = trimSpace instructions0
      in if instructions = [] then truncateForCompile description 1000
         else if description = [] then truncateForCompile (''Agent instructions: '' @ instructions) 1000
         else truncateForCompile (''Agent instructions: '' @ instructions @ '' Task description: '' @ description) 1000)"

definition reviewGateDescription :: "WorkflowReviewGate \<Rightarrow> string \<Rightarrow> string" where
  "reviewGateDescription gate reviewerInstructions =
     descriptionWithAgentInstructions (''Gate instructions: '' @ wgInstructions gate) reviewerInstructions"

definition workflowAgentInstructions :: "WorkflowDefinition \<Rightarrow> string \<Rightarrow> string" where
  "workflowAgentInstructions workflow agentID =
     (case find (\<lambda>agent. waID agent = trimSpace agentID) (wdAgents workflow) of
        None \<Rightarrow> [] | Some agent \<Rightarrow> trimSpace (waInstructions agent))"

definition compileReviewGate :: "WorkflowReviewGate list \<Rightarrow> string" where
  "compileReviewGate gates =
     (let ids = filter (\<lambda>i. trimSpace i \<noteq> []) (map wgID gates)
      in if ids = [] then [] else truncateForCompile (''required review gates: '' @ joinWith '','' ids) 500)"

definition fallbackList :: "string list \<Rightarrow> string \<Rightarrow> string list" where
  "fallbackList vs fallback =
     (let out = filter (\<lambda>v. trimSpace v \<noteq> []) vs in if out = [] then [fallback] else out)"

definition reviewFilesToRead :: "WorkTask \<Rightarrow> string list" where
  "reviewFilesToRead task =
     fold addID (wtFilesToRead task @ wtFilesToEdit task @ wtLikelyFilesAffected task) []"

definition reviewerEvidence :: "WorkflowReviewGate \<Rightarrow> string list" where
  "reviewerEvidence gate =
     [''changed files'', ''evidence refs'', ''verifier refs'', ''reviewed task id''] @ wgRequiredArtifacts gate"

definition reviewerAutomationEvidence :: "WorkflowReviewGate \<Rightarrow> string \<Rightarrow> string list" where
  "reviewerAutomationEvidence gate stepID =
     [''automation ref'', ''permission snapshot ref'', ''allowed task refs'', ''automation step '' @ stepID]
     @ wgRequiredArtifacts gate"

subsection \<open>Inputs of the work tasks\<close>

definition compileTaskInput ::
    "WorkflowDefinition \<Rightarrow> string \<Rightarrow> string \<Rightarrow> string \<Rightarrow> WorkflowStep \<Rightarrow> CreateWorkTaskInput" where
  "compileTaskInput workflow planID runID traceID step =
     (let gates = requiredGatesByStep (wdReviewGates workflow) (wkID step);
          evidence = wkEvidenceNeeded step @ map (\<lambda>gate. ''review gate '' @ wgID gate) gates
      in \<lparr>ctProjectID = wdProjectID workflow, ctPlanID = planID, ctTaskRef = wkID step, ctTitle = wkTitle step,
          ctDescription = descriptionWithAgentInstructions (wkDescription step)
            (workflowAgentInstructions workflow (wkAgent step)),
          ctStatus = [], ctOwnerAgent = wkAgent step, ctRunID = runID,
          ctTraceID = firstNonEmpty [traceID, wdTraceID workflow],
          ctEvidenceNeeded = fallbackList evidence ''implementation-evidence-required'',
          ctContextPackRefs = wkContextPackRefs step, ctFilesToRead = wkFilesToRead step,
          ctFilesToEdit = wkFilesToEdit step, ctLikelyFilesAffected = wkLikelyFilesAffected step,
          ctDependencyTaskIDs = [],
          ctVerificationRequirement =
            firstNonEmpty [wkVerificationRequirement step, ''orchestrator runs focused verifier''],
          ctExpectedOutput = firstNonEmpty [wkExpectedOutput step, ''bounded implementation artifact''],
          ctFailureCriteria =
            firstNonEmpty [wkFailureCriteria step, ''block if evidence or verifier scope is missing''],
          ctReviewGate = firstNonEmpty [wkReviewGate step, compileReviewGate gates],
          ctResumeInstructions =
            firstNonEmpty [wkResumeInstructions step, ''resume from task metadata and attached refs only''],
          ctKnowledgeCandidateRefs = [], ctDecompositionQuality = DecompositionReady\<rparr>)"

definition reviewTaskInput ::
    "WorkflowDefinition \<Rightarrow> string \<Rightarrow> string \<Rightarrow> string \<Rightarrow> WorkTask \<Rightarrow> WorkflowReviewGate \<Rightarrow> CreateWorkTaskInput" where
  "reviewTaskInput workflow planID runID traceID reviewed gate =
     \<lparr>ctProjectID = wdProjectID workflow, ctPlanID = planID,
      ctTaskRef = ''review-'' @ wtTaskRef reviewed @ ''-'' @ wgID gate, ctTitle = ''Review '' @ wtTitle reviewed,
      ctDescription = reviewGateDescription gate (workflowAgentInstructions workflow (wgReviewerAgent gate)),
      ctStatus = [], ctOwnerAgent = wgReviewerAgent gate, ctRunID = runID,
      ctTraceID = firstNonEmpty [traceID, wdTraceID workflow], ctEvidenceNeeded = reviewerEvidence gate,
      ctContextPackRefs = wtContextPackRefs reviewed, ctFilesToRead = reviewFilesToRead reviewed,
      ctFilesToEdit = [], ctLikelyFilesAffected = wtLikelyFilesAffected reviewed,
      ctDependencyTaskIDs = [wtID reviewed], ctVerificationRequirement = ''attach review_result_ref'',
      ctExpectedOutput = ''decision and rationale'',
      ctFailureCriteria = ''block on self-review, missing evidence, missing verifier, or unclear decision'',
      ctReviewGate = ''review gate '' @ wgID gate,
      ctResumeInstructions =
        ''review only the referenced task, changed files, evidence refs, verifier refs, and gate instructions'',
      ctKnowledgeCandidateRefs = [], ctDecompositionQuality = DecompositionReady\<rparr>"

definition reviewAutomationTaskInput ::
    "WorkflowDefinition \<Rightarrow> string \<Rightarrow> string \<Rightarrow> string \<Rightarrow> WorkflowStep \<Rightarrow> WorkflowReviewGate \<Rightarrow> CreateWorkTaskInput" where
  "reviewAutomationTaskInput workflow planID runID traceID step gate =
     \<lparr>ctProjectID = wdProjectID workflow, ctPlanID = planID,
      ctTaskRef = ''review-'' @ wkID step @ ''-'' @ wgID gate, ctTitle = ''Review '' @ wkTitle step,
      ctDescription = reviewGateDescription gate (workflowAgentInstructions workflow (wgReviewerAgent gate)),
      ctStatus = [], ctOwnerAgent = wgReviewerAgent gate, ctRunID = runID,
      ctTraceID = firstNonEmpty [traceID, wdTraceID workflow],
      ctEvidenceNeeded = reviewerAutomationEvidence gate (wkID step),
      ctContextPackRefs = wkContextPackRefs step, ctFilesToRead = wkFilesToRead step, ctFilesToEdit = [],
      ctLikelyFilesAffected = wkLikelyFilesAffected step, ctDependencyTaskIDs = [],
      ctVerificationRequirement = ''attach review_result_ref before automation execution'',
      ctExpectedOutput = ''automation review decision placeholder'',
      ctFailureCriteria = ''block on self-review, missing automation ref, missing verifier, or unclear decision'',
      ctReviewGate = ''review gate '' @ wgID gate,
      ctResumeInstructions =
        ''review only the automation step metadata, allowed task refs, permission snapshot ref, and gate instructions'',
      ctKnowledgeCandidateRefs = [], ctDecompositionQuality = DecompositionReady\<rparr>"

end
