(* ===== verification/Workflow_Compile.thy ===== *)
theory Workflow_Compile
  imports Workflow_Names
begin

section \<open>Workflows: compilation\<close>

text \<open>
  \<open>CompileWorkflow\<close> of \<open>internal/projectworkflow/compiler.go\<close>: an enabled workflow becomes a
  work plan, its work tasks and reviewer tasks, and the automations that run them. An error
  keeps the result collected so far, as the code returns both.

  \<open>wrapError\<close> is \<open>fmt.Errorf("...: %w", err)\<close>. The four loops that create automations compute
  their inputs from values that no automation changes; they are modelled as one loop over the
  list of all inputs, each with the text of its error.
\<close>

type_synonym compile_failure = "WorkflowCompileResult \<times> error"

definition wrapError :: "string \<Rightarrow> 'a res \<Rightarrow> 'a res" where
  "wrapError pre r = (case r of Inl (ErrInvalidInput s) \<Rightarrow> Inl (ErrInvalidInput (pre @ '': '' @ s)) | x \<Rightarrow> x)"

definition wrapS :: "string \<Rightarrow> ('s, 'a) act \<Rightarrow> ('s, 'a) act" where
  "wrapS pre m s = (case m s of (r, s') \<Rightarrow> (wrapError pre r, s'))"

subsection \<open>Snapshots\<close>

fun ensureAgents ::
    "'w WorkflowEnv \<Rightarrow> WorkflowDefinition \<Rightarrow> WorkflowAgentDefinition list
      \<Rightarrow> (string, WorkflowPermissionSnapshot) table
      \<Rightarrow> ('w workflow_state, (string, WorkflowPermissionSnapshot) table) act" where
  "ensureAgents env workflow [] byAgent = retS byAgent"
| "ensureAgents env workflow (agent # agents) byAgent =
     seqS (inWorld (permissionSnapshotForAgent env workflow agent)) (\<lambda>expected.
     case tget byAgent (waID agent) of
       Some existing \<Rightarrow>
         if wnID existing \<noteq> []
         then if wnContentHash existing \<noteq> wnContentHash expected
              then liftS (Inl (ErrInvalidInput
                (''permission snapshot '' @ wnID existing @ '' does not match agent definition'')))
              else ensureAgents env workflow agents byAgent
         else seqS (inStore (memCreatePermissionSnapshot expected)) (\<lambda>created.
              ensureAgents env workflow agents (tput byAgent (waID agent) created))
     | None \<Rightarrow>
         seqS (inStore (memCreatePermissionSnapshot expected)) (\<lambda>created.
         ensureAgents env workflow agents (tput byAgent (waID agent) created)))"

definition byAgentID :: "WorkflowPermissionSnapshot list \<Rightarrow> (string, WorkflowPermissionSnapshot) table" where
  "byAgentID snapshots = fold (\<lambda>snap t. tput t (wnAgentID snap) snap) snapshots []"

definition snapshotAt :: "(string, WorkflowPermissionSnapshot) table \<Rightarrow> string \<Rightarrow> WorkflowPermissionSnapshot" where
  "snapshotAt t agentID = (case tget t agentID of None \<Rightarrow> zeroSnapshot | Some s \<Rightarrow> s)"

definition ensureCompileSnapshots ::
    "'w WorkflowEnv \<Rightarrow> WorkflowDefinition \<Rightarrow> ('w workflow_state, WorkflowPermissionSnapshot list) act" where
  "ensureCompileSnapshots env workflow =
     seqS (readStore (\<lambda>st. Inr (memListPermissionSnapshots
       \<lparr>wqProjectID = wdProjectID workflow, wqWorkflowID = wdID workflow, wqAgentID = []\<rparr> st))) (\<lambda>existing.
     seqS (ensureAgents env workflow (wdAgents workflow) (byAgentID existing)) (\<lambda>byAgent.
     retS (map (\<lambda>agent. snapshotAt byAgent (waID agent)) (wdAgents workflow))))"

subsection \<open>Work tasks\<close>

text \<open>
  What the loops know of the compilation: the workflow, the plan and the run. The loops over
  tasks return the tasks by step; those over gates the reviewers by reviewed step, the reviews,
  and the result so far.
\<close>

record compileRun =
  krWorkflow :: WorkflowDefinition
  krPlan :: WorkPlan
  krRunID :: string
  krTraceID :: string

fun createTasks ::
    "'w WorkflowEnv \<Rightarrow> compileRun \<Rightarrow> plannedTask list \<Rightarrow> (string, WorkTask) table \<Rightarrow> WorkflowCompileResult
      \<Rightarrow> 'w \<Rightarrow> (compile_failure + (string, WorkTask) table \<times> WorkflowCompileResult) \<times> 'w" where
  "createTasks env run [] taskByStep result = retS (taskByStep, result)"
| "createTasks env run (item # items) taskByStep result =
     seqS (keepResult result (wrapS (''create compiled work task '' @ wkID (ptStep item))
       (weCreateWorkTask env
         (compileTaskInput (krWorkflow run) (wpID (krPlan run)) (krRunID run) (krTraceID run) (ptStep item)))))
       (\<lambda>created.
     createTasks env run items (tput taskByStep (wkID (ptStep item)) created)
       (result\<lparr>woWorkTaskIDs := woWorkTaskIDs result @ [wtID created]\<rparr>))"

record plannedReview =
  prStep :: WorkflowStep
  prGate :: WorkflowReviewGate
  prTask :: WorkTask

definition appendID :: "(string, string list) table \<Rightarrow> string \<Rightarrow> string \<Rightarrow> (string, string list) table" where
  "appendID t key ident = tput t key (lookupIDs t key @ [ident])"

type_synonym reviews = "(string, string list) table \<times> plannedReview list \<times> WorkflowCompileResult"

text \<open>A planned reviewer: the reviewed step, the gate, the input of the task, the error text.\<close>

type_synonym review_plan = "string \<times> WorkflowStep \<times> WorkflowReviewGate \<times> CreateWorkTaskInput \<times> string"

fun createReviews ::
    "'w WorkflowEnv \<Rightarrow> review_plan list \<Rightarrow> reviews \<Rightarrow> 'w \<Rightarrow> (compile_failure + reviews) \<times> 'w" where
  "createReviews env [] acc = retS acc"
| "createReviews env ((key, step, gate, input, text) # plans) (byStep, reviews, result) =
     seqS (keepResult result (wrapS text (weCreateWorkTask env input))) (\<lambda>reviewer.
     createReviews env plans
       (appendID byStep key (wtID reviewer),
        reviews @ [\<lparr>prStep = step, prGate = gate, prTask = reviewer\<rparr>],
        result\<lparr>woReviewerTaskIDs := woReviewerTaskIDs result @ [wtID reviewer]\<rparr>))"

definition taskReviewPlans :: "compileRun \<Rightarrow> WorkTask list \<Rightarrow> review_plan list" where
  "taskReviewPlans run tasks =
     concat (map (\<lambda>task. map (\<lambda>gate.
       (wtTaskRef task, stepAt (wdSteps (krWorkflow run)) (wtTaskRef task), gate,
        reviewTaskInput (krWorkflow run) (wpID (krPlan run)) (krRunID run) (krTraceID run) task gate,
        ''create compiled review task '' @ wtTaskRef task @ ''/'' @ wgID gate))
       (requiredGatesByStep (wdReviewGates (krWorkflow run)) (wtTaskRef task))) tasks)"

definition automationReviewPlans :: "compileRun \<Rightarrow> WorkflowStep list \<Rightarrow> review_plan list" where
  "automationReviewPlans run steps =
     concat (map (\<lambda>step. map (\<lambda>gate.
       (wkID step, step, gate,
        reviewAutomationTaskInput (krWorkflow run) (wpID (krPlan run)) (krRunID run) (krTraceID run) step gate,
        ''create compiled automation review task '' @ wkID step @ ''/'' @ wgID gate))
       (requiredGatesByStep (wdReviewGates (krWorkflow run)) (wkID step))) steps)"

fun updateDependencies ::
    "'w WorkflowEnv \<Rightarrow> compileRun \<Rightarrow> (string, string list) table \<Rightarrow> (string, string list) table
      \<Rightarrow> plannedTask list \<Rightarrow> (string, WorkTask) table \<Rightarrow> WorkflowCompileResult
      \<Rightarrow> 'w \<Rightarrow> (compile_failure + (string, WorkTask) table) \<times> 'w" where
  "updateDependencies env run taskReviews automationReviews [] taskByStep result = retS taskByStep"
| "updateDependencies env run taskReviews automationReviews (item # items) taskByStep result =
     (let step = ptStep item;
          task = (case tget taskByStep (wkID step) of None \<Rightarrow> zeroTask | Some task \<Rightarrow> task);
          deps = compiledDependencyTaskIDs step (wdSteps (krWorkflow run)) taskByStep taskReviews automationReviews
      in seqS (keepResult result (wrapS (''update compiled work task dependencies '' @ wkID step)
           (weUpdateWorkTask env (task\<lparr>wtDependencyTaskIDs := deps\<rparr>)))) (\<lambda>updated.
         updateDependencies env run taskReviews automationReviews items
           (tput taskByStep (wkID step) updated) result))"

subsection \<open>Automations\<close>

type_synonym automation_plan = "CreateAutomationInput \<times> string"

fun createAutomations ::
    "'w WorkflowEnv \<Rightarrow> automation_plan list \<Rightarrow> WorkflowCompileResult
      \<Rightarrow> 'w \<Rightarrow> (compile_failure + WorkflowCompileResult) \<times> 'w" where
  "createAutomations env [] result = retS result"
| "createAutomations env ((input, text) # plans) result =
     (\<lambda>w. case weCreateAutomation env input w of
        (Inl e, w') \<Rightarrow> (Inl (result, ErrInvalidInput (text @ '': '' @ weErrorText env e)), w')
      | (Inr automation, w') \<Rightarrow>
          createAutomations env plans
            (result\<lparr>woAutomationIDs := woAutomationIDs result @ [auID automation]\<rparr>) w')"

text \<open>The fields that all compiled automations share.\<close>

definition automationInput ::
    "compileRun \<Rightarrow> (string, WorkflowPermissionSnapshot) table \<Rightarrow> string \<Rightarrow> string \<Rightarrow> CreateAutomationInput" where
  "automationInput run snapshotByAgent agentID suf =
     \<lparr>jaProjectID = wdProjectID (krWorkflow run),
      jaAutomationRef = compileAutomationRef (wpPlanRef (krPlan run)) suf,
      jaTitle = [], jaPurpose = [], jaStatus = AutomationStatusEnabled, jaAgentID = agentID,
      jaPlanID = wpID (krPlan run), jaAllowedTaskRefs = [], jaRequiredReviewTaskIDs = [],
      jaTriggerKind = TriggerKindAutomatic, jaSchedulePolicy = ''on-ready-task'',
      jaPermissionRef = PermissionSnapshotRefPrefix @ wnID (snapshotAt snapshotByAgent agentID),
      jaSourceKind = AutomationSourceWorkflow,
      jaCreatedByRunID = firstNonEmpty [krRunID run, wdCreatedByRunID (krWorkflow run)],
      jaTraceID = firstNonEmpty [krTraceID run, wdTraceID (krWorkflow run)]\<rparr>"

definition reviewAutomation ::
    "compileRun \<Rightarrow> (string, WorkflowPermissionSnapshot) table \<Rightarrow> string \<Rightarrow> string \<Rightarrow> plannedReview \<Rightarrow> automation_plan" where
  "reviewAutomation run snapshotByAgent purpose text review =
     (let names = wkID (prStep review) @ ''-'' @ wgID (prGate review) in
      ((automationInput run snapshotByAgent (wgReviewerAgent (prGate review)) (''review-'' @ names))
         \<lparr>jaTitle := ''Review '' @ wkTitle (prStep review), jaPurpose := purpose,
          jaAllowedTaskRefs := [wtTaskRef (prTask review)]\<rparr>,
       text @ wkID (prStep review) @ ''/'' @ wgID (prGate review)))"

definition stepAutomation ::
    "compileRun \<Rightarrow> (string, WorkflowPermissionSnapshot) table \<Rightarrow> (string, WorkTask) table
      \<Rightarrow> (string, string list) table \<Rightarrow> WorkflowStep \<Rightarrow> automation_plan" where
  "stepAutomation run snapshotByAgent taskByStep automationReviews step =
     ((automationInput run snapshotByAgent (wkAgent step) (wkID step))
        \<lparr>jaTitle := wkTitle step,
         jaPurpose := firstNonEmpty [wkDescription step, ''Run workflow automation step '' @ wkID step],
         jaStatus := firstNonEmpty [wkAutomationStatus step, AutomationStatusDraft],
         jaAllowedTaskRefs := allowedTaskRefs step (wdSteps (krWorkflow run)) taskByStep,
         jaRequiredReviewTaskIDs := lookupIDs automationReviews (wkID step),
         jaTriggerKind := firstNonEmpty [wkTriggerKind step, TriggerKindManual],
         jaSchedulePolicy := wkSchedulePolicy step\<rparr>,
      ''create compiled automation '' @ wkID step)"

definition runsAutomatically :: "WorkflowStep \<Rightarrow> bool" where
  "runsAutomatically step =
     (firstNonEmpty [wkAutomationStatus step, AutomationStatusDraft] = AutomationStatusEnabled
      \<and> firstNonEmpty [wkTriggerKind step, TriggerKindManual] = TriggerKindAutomatic)"

definition coveredTaskRefs ::
    "WorkflowStep list \<Rightarrow> WorkflowStep list \<Rightarrow> (string, WorkTask) table \<Rightarrow> string list" where
  "coveredTaskRefs automationSteps steps taskByStep =
     concat (map (\<lambda>step. allowedTaskRefs step steps taskByStep) (filter runsAutomatically automationSteps))"

text \<open>The task references of the planned tasks as the last loop reads them.\<close>

definition compiledRef :: "(string, WorkTask) table \<Rightarrow> plannedTask \<Rightarrow> string" where
  "compiledRef taskByStep item =
     (case tget taskByStep (wkID (ptStep item)) of None \<Rightarrow> [] | Some task \<Rightarrow> wtTaskRef task)"

definition taskAutomation ::
    "compileRun \<Rightarrow> (string, WorkflowPermissionSnapshot) table \<Rightarrow> (string, WorkTask) table \<Rightarrow> plannedTask
      \<Rightarrow> automation_plan" where
  "taskAutomation run snapshotByAgent taskByStep item =
     (let step = ptStep item in
      ((automationInput run snapshotByAgent (wkAgent step) (wkID step))
         \<lparr>jaTitle := wkTitle step,
          jaPurpose := firstNonEmpty [wkDescription step, ''Run workflow task '' @ wkID step],
          jaAllowedTaskRefs := [compiledRef taskByStep item]\<rparr>,
       ''create compiled task automation '' @ wkID step))"

definition automationPlans ::
    "compileRun \<Rightarrow> compileGraph \<Rightarrow> (string, WorkflowPermissionSnapshot) table \<Rightarrow> (string, WorkTask) table
      \<Rightarrow> (string, string list) table \<Rightarrow> plannedReview list \<Rightarrow> plannedReview list \<Rightarrow> automation_plan list" where
  "automationPlans run graph snapshotByAgent taskByStep automationReviewIDs taskReviews automationReviews =
     map (reviewAutomation run snapshotByAgent ''Automatically run independent workflow task review.''
       ''create compiled task review automation '') taskReviews
     @ map (reviewAutomation run snapshotByAgent ''Automatically run independent workflow automation review.''
       ''create compiled automation review '') automationReviews
     @ map (stepAutomation run snapshotByAgent taskByStep automationReviewIDs) (cgAutomationSteps graph)
     @ map (taskAutomation run snapshotByAgent taskByStep)
         (filter (\<lambda>item. compiledRef taskByStep item
             \<notin> set (coveredTaskRefs (cgAutomationSteps graph) (wdSteps (krWorkflow run)) taskByStep))
           (cgTasks graph))"

subsection \<open>Dry runs\<close>

text \<open>\<open>n\<close> new identifiers with one prefix, and the identifiers of a dry run in code order.\<close>

fun newIDs :: "'w WorkflowEnv \<Rightarrow> string \<Rightarrow> nat \<Rightarrow> 'w \<Rightarrow> string list \<times> 'w" where
  "newIDs env pre 0 w = ([], w)"
| "newIDs env pre (Suc n) w =
     (case weNewID env pre w of (i, w1) \<Rightarrow> case newIDs env pre n w1 of (is, w2) \<Rightarrow> (i # is, w2))"

text \<open>A reviewer and its automation, for each of \<open>n\<close> gates.\<close>

fun dryReviews :: "'w WorkflowEnv \<Rightarrow> nat \<Rightarrow> WorkflowCompileResult \<Rightarrow> 'w \<Rightarrow> WorkflowCompileResult \<times> 'w" where
  "dryReviews env 0 result w = (result, w)"
| "dryReviews env (Suc n) result w =
     (case weNewID env ''work_task'' w of (t, w1) \<Rightarrow>
      case weNewID env ''automation'' w1 of (a, w2) \<Rightarrow>
        dryReviews env n (result\<lparr>woReviewerTaskIDs := woReviewerTaskIDs result @ [t],
          woAutomationIDs := woAutomationIDs result @ [a]\<rparr>) w2)"

fun dryTasks ::
    "'w WorkflowEnv \<Rightarrow> WorkflowDefinition \<Rightarrow> plannedTask list \<Rightarrow> WorkflowCompileResult \<Rightarrow> 'w
      \<Rightarrow> WorkflowCompileResult \<times> 'w" where
  "dryTasks env workflow [] result w = (result, w)"
| "dryTasks env workflow (item # items) result w =
     (case dryReviews env (length (requiredGatesByStep (wdReviewGates workflow) (wkID (ptStep item))))
         (result\<lparr>woWorkTaskIDs := woWorkTaskIDs result @ [ptID item]\<rparr>) w of
        (result1, w1) \<Rightarrow> dryTasks env workflow items result1 w1)"

fun dryAutomationReviews ::
    "'w WorkflowEnv \<Rightarrow> WorkflowDefinition \<Rightarrow> WorkflowStep list \<Rightarrow> WorkflowCompileResult \<Rightarrow> 'w
      \<Rightarrow> WorkflowCompileResult \<times> 'w" where
  "dryAutomationReviews env workflow [] result w = (result, w)"
| "dryAutomationReviews env workflow (step # steps) result w =
     (case dryReviews env (length (requiredGatesByStep (wdReviewGates workflow) (wkID step))) result w of
        (result1, w1) \<Rightarrow> dryAutomationReviews env workflow steps result1 w1)"

definition dryAutomations :: "'w WorkflowEnv \<Rightarrow> nat \<Rightarrow> WorkflowCompileResult \<Rightarrow> 'w \<Rightarrow> WorkflowCompileResult \<times> 'w" where
  "dryAutomations env n result w =
     (case newIDs env ''automation'' n w of
        (is, w') \<Rightarrow> (result\<lparr>woAutomationIDs := woAutomationIDs result @ is\<rparr>, w'))"

definition uncoveredTasks :: "WorkflowDefinition \<Rightarrow> compileGraph \<Rightarrow> plannedTask list" where
  "uncoveredTasks workflow graph =
     filter (\<lambda>item. wkID (ptStep item)
       \<notin> set (coveredTaskRefs (cgAutomationSteps graph) (wdSteps workflow) [])) (cgTasks graph)"

definition dryRunCompileResult ::
    "'w WorkflowEnv \<Rightarrow> WorkflowDefinition \<Rightarrow> compileGraph \<Rightarrow> 'w \<Rightarrow> WorkflowCompileResult \<times> 'w" where
  "dryRunCompileResult env workflow graph w =
     (case weNewID env ''work_plan'' w of (planID, w1) \<Rightarrow>
      case weNow env w1 of (now, w2) \<Rightarrow>
      case dryTasks env workflow (cgTasks graph)
          (emptyCompileResult\<lparr>woWorkflowID := wdID workflow, woWorkPlanID := planID, woDryRun := True,
             woCompiledAt := now\<rparr>) w2 of (r3, w3) \<Rightarrow>
      case dryAutomationReviews env workflow (cgAutomationSteps graph) r3 w3 of (r4, w4) \<Rightarrow>
      case dryAutomations env (length (cgAutomationSteps graph)) r4 w4 of (r5, w5) \<Rightarrow>
      case dryAutomations env (length (uncoveredTasks workflow graph)) r5 w5 of (r6, w6) \<Rightarrow>
        (r6\<lparr>woPermissionSnapshotIDs :=
            map (\<lambda>agent. PermissionSnapshotRefPrefix @ waID agent) (wdAgents workflow)\<rparr>, w6))"

subsection \<open>The compiler\<close>

definition compilePlanInput ::
    "'w WorkflowEnv \<Rightarrow> WorkflowDefinition \<Rightarrow> string \<Rightarrow> string \<Rightarrow> string \<Rightarrow> string \<Rightarrow> string \<Rightarrow> CreateWorkPlanInput" where
  "compilePlanInput env workflow planRef userRequestRef titleOverride runID traceID =
     (let options = (case tget (weCompileOptions env) (wdProjectID workflow) of
            None \<Rightarrow> \<lparr>coBranchPrefix = [], coBranchSummaryTemplate = []\<rparr> | Some found \<Rightarrow> found);
          isolation = compileIsolationRefs workflow planRef userRequestRef runID options
      in \<lparr>cpProjectID = wdProjectID workflow, cpPlanRef = planRef, cpUserRequestRef = userRequestRef,
          cpTitle = firstNonEmpty [titleOverride, wdTitle workflow], cpGoalSummary = wdPurpose workflow,
          cpOwnerAgent = ''workflow-compiler'', cpCreatedByRunID = firstNonEmpty [runID, wdCreatedByRunID workflow],
          cpTraceID = firstNonEmpty [traceID, wdTraceID workflow],
          cpResumeSummary = ''Compiled from workflow '' @ wdWorkflowRef workflow
            @ ''; execute ready Work Tasks through governed automation.'',
          cpIsolationMode = WorkPlanIsolationDedicatedWorktree,
          cpParallelGroupRef = isParallelGroupRef isolation, cpWorkspaceRef = isWorkspaceRef isolation,
          cpGitBaseRef = [], cpGitBranchRef = isGitBranchRef isolation,
          cpGitWorktreeRef = isGitWorktreeRef isolation\<rparr>)"

text \<open>The loops, from the created plan and the snapshots on.\<close>

definition compileObjects ::
    "'w WorkflowEnv \<Rightarrow> compileRun \<Rightarrow> compileGraph \<Rightarrow> (string, WorkflowPermissionSnapshot) table
      \<Rightarrow> WorkflowCompileResult \<Rightarrow> 'w \<Rightarrow> (compile_failure + WorkflowCompileResult) \<times> 'w" where
  "compileObjects env run graph snapshotByAgent result0 =
     seqS (createTasks env run (cgTasks graph) [] result0) (\<lambda>(taskByStep, result1).
     seqS (createReviews env (taskReviewPlans run (weRange env (tvals taskByStep))) ([], [], result1))
       (\<lambda>(taskReviewIDs, taskReviews, result2).
     seqS (createReviews env (automationReviewPlans run (cgAutomationSteps graph)) ([], [], result2))
       (\<lambda>(automationReviewIDs, automationReviews, result3).
     seqS (updateDependencies env run taskReviewIDs automationReviewIDs (cgTasks graph) taskByStep result3)
       (\<lambda>updated.
     createAutomations env
       (automationPlans run graph snapshotByAgent updated automationReviewIDs taskReviews automationReviews)
       result3))))"

definition compileEnabled ::
    "'w WorkflowEnv \<Rightarrow> WorkflowDefinition \<Rightarrow> compileGraph \<Rightarrow> string \<Rightarrow> string \<Rightarrow> string \<Rightarrow> string
      \<Rightarrow> 'w workflow_state \<Rightarrow> (compile_failure + WorkflowCompileResult) \<times> 'w workflow_state" where
  "compileEnabled env workflow graph userRequestRef titleOverride runID traceID =
     seqS (inWorld (newIDS_wf env ''compile'')) (\<lambda>suf.
     let planRef = compilePlanRef (wdWorkflowRef workflow) runID suf in
     seqS (keepResult emptyCompileResult (inWorld (weCreateWorkPlan env
       (compilePlanInput env workflow planRef userRequestRef titleOverride runID traceID)))) (\<lambda>plan.
     seqS (inWorld (nowS env)) (\<lambda>now.
     let result = emptyCompileResult\<lparr>woWorkflowID := wdID workflow, woWorkPlanID := wpID plan, woCompiledAt := now\<rparr> in
     seqS (keepResult result (ensureCompileSnapshots env workflow)) (\<lambda>snapshots.
     inWorld (compileObjects env
       \<lparr>krWorkflow = workflow, krPlan = plan, krRunID = runID, krTraceID = traceID\<rparr> graph
       (byAgentID snapshots) (result\<lparr>woPermissionSnapshotIDs := map wnID snapshots\<rparr>))))))"

definition compileIssues :: "WorkflowDefinition \<Rightarrow> issues" where
  "compileIssues workflow =
     validateWorkflow workflow
     @ addIf (wdStatus workflow \<noteq> WorkflowStatusEnabled)
         (issue ''workflow_not_enabled'' ''status'' ''workflow must be enabled before compilation'')"

definition failCompile ::
    "'w WorkflowEnv \<Rightarrow> WorkflowCompileResult \<Rightarrow> error \<Rightarrow> 'w workflow_state
      \<Rightarrow> (compile_failure + 'a) \<times> 'w workflow_state" where
  "failCompile env result e = seqS (inWorld (nowS env)) (\<lambda>now. liftS (Inl (result\<lparr>woCompiledAt := now\<rparr>, e)))"

definition compileStored ::
    "'w WorkflowEnv \<Rightarrow> WorkflowDefinition \<Rightarrow> bool \<Rightarrow> string \<Rightarrow> string \<Rightarrow> string \<Rightarrow> string
      \<Rightarrow> 'w workflow_state \<Rightarrow> (compile_failure + WorkflowCompileResult) \<times> 'w workflow_state" where
  "compileStored env workflow dryRun userRequestRef titleOverride runID traceID =
     (let refused = emptyCompileResult\<lparr>woWorkflowID := wdID workflow, woDryRun := dryRun\<rparr> in
      if hasErrorIssues (compileIssues workflow)
      then failCompile env (refused\<lparr>woValidationIssues := compileIssues workflow\<rparr>)
        (ErrInvalidInput ''workflow validation failed'')
      else (\<lambda>s. case inWorld (planCompileGraph env workflow) s of
          (Inl e, s1) \<Rightarrow> failCompile env refused e s1
        | (Inr graph, s1) \<Rightarrow>
            if dryRun
            then (case dryRunCompileResult env workflow graph (fst s1) of (r, w') \<Rightarrow> (Inr r, (w', snd s1)))
            else compileEnabled env workflow graph userRequestRef titleOverride runID traceID s1))"

definition svcCompileWorkflow ::
    "'w WorkflowEnv \<Rightarrow> WorkflowCompileInput \<Rightarrow> 'w workflow_state
      \<Rightarrow> (compile_failure + WorkflowCompileResult) \<times> 'w workflow_state" where
  "svcCompileWorkflow env input =
     seqS (keepResult emptyCompileResult (liftS (safeRequiredWorkflowRef (wiProjectID input) ''project_id''))) (\<lambda>projectID.
     seqS (keepResult emptyCompileResult (liftS (safeRequiredWorkflowRef (wiWorkflowID input) ''workflow_id''))) (\<lambda>workflowID.
     seqS (keepResult emptyCompileResult (liftS (safeOptionalWorkflowRef (wiCreatedByRunID input) ''created_by_run_id''))) (\<lambda>runID.
     seqS (keepResult emptyCompileResult (liftS (safeOptionalWorkflowRef (wiTraceID input) ''trace_id''))) (\<lambda>traceID.
     seqS (keepResult emptyCompileResult (liftS (safeOptionalWorkflowRef (wiUserRequestRef input) ''user_request_ref''))) (\<lambda>userRequestRef.
     seqS (keepResult emptyCompileResult (liftS (safeOptionalCompileText (wiTitleOverride input) ''title_override'' 200))) (\<lambda>titleOverride.
     seqS (keepResult emptyCompileResult (readStore (memGetWorkflow projectID workflowID))) (\<lambda>workflow.
     compileStored env workflow (wiDryRun input) userRequestRef titleOverride runID traceID)))))))"

end
