(* ===== verification/Workflow_Graph.thy ===== *)
theory Workflow_Graph
  imports Workflow_Compiler
begin

section \<open>Workflows: what validation and planning guarantee\<close>

text \<open>
  The issues of a valid workflow are warnings, so its step identifiers are unique and its
  dependencies acyclic. The planner is the search of \<open>Graph_Search\<close> on the graph of the work
  task steps: its tasks are the visited nodes, earliest first.
\<close>

subsection \<open>Errors among issues\<close>

lemma hasErrorIssues_simps [simp]:
  "hasErrorIssues [] = False" "hasErrorIssues (is @ js) = (hasErrorIssues is \<or> hasErrorIssues js)"
  "hasErrorIssues (i # is) = (isErrorIssue i \<or> hasErrorIssues is)"
  "hasErrorIssues (concat iss) = (\<exists>is \<in> set iss. hasErrorIssues is)"
  by (auto simp: hasErrorIssues_def list_ex_iff)

lemma isErrorIssue_simps [simp]: "isErrorIssue (issue c f m)" "\<not> isErrorIssue (warning c f m)"
  by (simp_all add: isErrorIssue_def issue_def warning_def)

lemma addIf_error [simp]: "hasErrorIssues (addIf b i) = (b \<and> isErrorIssue i)"
  by (simp add: addIf_def)

lemma requireRef_errors [simp]:
  "hasErrorIssues (snd (requireRef v f)) \<longleftrightarrow> \<not> fst (requireRef v f)"
  "fst (requireRef v f) \<longleftrightarrow> trimSpace v \<noteq> [] \<and> safeWorkflowRef v"
  by (simp_all add: requireRef_def optionalRef_def Let_def safeWorkflowRef_def)

lemma uniqueID_errors:
  "uniqueID ident f m seen = (is, seen') \<Longrightarrow> \<not> hasErrorIssues is
   \<Longrightarrow> safeWorkflowRef ident \<and> trimSpace ident \<noteq> [] \<and> ident \<notin> set seen \<and> seen' = ident # seen"
proof -
  assume u: "uniqueID ident f m seen = (is, seen')" and ne: "\<not> hasErrorIssues is"
  obtain ok js where r: "requireRef ident f = (ok, js)" by fastforce
  then have e: "hasErrorIssues js \<longleftrightarrow> \<not> ok" "ok \<longleftrightarrow> trimSpace ident \<noteq> [] \<and> safeWorkflowRef ident"
    using requireRef_errors [of ident f] by simp_all
  show ?thesis using u ne r e by (cases ok) (auto simp: uniqueID_def)
qed

lemma validateStepFields_ids:
  "validateStepFields i seen steps = (is, out) \<Longrightarrow> \<not> hasErrorIssues is
   \<Longrightarrow> distinct (map wkID steps) \<and> wkID ` set steps \<inter> set seen = {}
     \<and> set out = set seen \<union> wkID ` set steps
     \<and> (\<forall>s \<in> set steps. safeWorkflowRef (wkID s) \<and> trimSpace (wkID s) \<noteq> [] \<and> knownStepKind (wkKind s))"
proof (induction i seen steps arbitrary: "is" out rule: validateStepFields.induct)
  case (2 i seen step steps)
  obtain js seen' where u: "uniqueID (wkID step) (indexedField ''steps'' i @ ''.id'') ''step id must be unique'' seen = (js, seen')"
    by fastforce
  obtain ks out' where r: "validateStepFields (Suc i) seen' steps = (ks, out')" by fastforce
  have "is": "is = js @ stepIssues (indexedField ''steps'' i) step @ ks" and out: "out' = out"
    using "2.prems"(1) u r by (simp_all add: Let_def)
  have ne: "\<not> hasErrorIssues js" "\<not> hasErrorIssues ks" "knownStepKind (wkKind step)"
    using "2.prems"(2) unfolding "is" by (simp_all add: stepIssues_def)
  from uniqueID_errors [OF u ne(1)] have seen': "seen' = wkID step # seen" "wkID step \<notin> set seen"
    "safeWorkflowRef (wkID step)" "trimSpace (wkID step) \<noteq> []" by blast+
  from "2.IH" [OF refl u [symmetric] refl r ne(2)] seen' ne(3) show ?case
    unfolding out by auto
qed simp

subsection \<open>The cycle check\<close>

definition knownGraph :: "graph \<Rightarrow> graph" where
  "knownGraph g = map (\<lambda>(i, ds). (i, filter (isNode g) ds)) g"

lemma find_map: "find P (map f xs) = map_option f (find (\<lambda>x. P (f x)) xs)"
  by (induction xs) auto

lemma edgesOf_known_graph: "edgesOf (knownGraph g) i = filter (isNode g) (edgesOf g i)"
proof -
  have "find (\<lambda>e. fst e = i) (rev (knownGraph g))
      = map_option (\<lambda>(i, ds). (i, filter (isNode g) ds)) (find (\<lambda>e. fst e = i) (rev g))"
    by (simp add: knownGraph_def rev_map find_map case_prod_unfold)
  then show ?thesis by (auto simp: edgesOf_def split: option.splits)
qed

lemma visitStep_visit:
  "orderedBy (edgesOf (knownGraph g)) visited \<Longrightarrow> set visited \<inter> set visiting = {}
     \<Longrightarrow> visitStep g visiting visited i = visit (knownGraph g) visiting visited i"
  "orderedBy (edgesOf (knownGraph g)) visited \<Longrightarrow> set visited \<inter> set visiting = {}
     \<Longrightarrow> visitStepDeps g visiting visited deps = visitDeps (knownGraph g) visiting visited (filter (isNode g) deps)"
proof (induction g visiting visited i and g visiting visited deps rule: visitStep_visitStepDeps.induct)
  case (1 g visiting visited i)
  show ?case
  proof (cases "i \<in> set visiting \<or> i \<in> set visited")
    case True
    with "1.prems"(2) show ?thesis by auto
  next
    case False
    with "1.prems" have "set visited \<inter> set (i # visiting) = {}" by auto
    from "1.IH" [OF _ _ "1.prems"(1) this] False show ?thesis
      by (simp add: edgesOf_known_graph)
  qed
next
  case (2 g visiting visited)
  then show ?case by simp
next
  case (3 g visiting visited dep deps)
  show ?case
  proof (cases "isNode g dep")
    case False
    with 3 show ?thesis by simp
  next
    case True
    obtain b u where p: "visit (knownGraph g) visiting visited dep = (b, u)" by fastforce
    note eq = "3.IH"(2) [OF _ "3.prems"]
    have q: "visitStep g visiting visited dep = (b, u)" using eq True p by simp
    show ?thesis
    proof (cases b)
      case True
      with p q \<open>isNode g dep\<close> show ?thesis by simp
    next
      case False
      with p have p': "visit (knownGraph g) visiting visited dep = (False, u)" by simp
      from visit_orders(1) [OF p' "3.prems"] have
        "orderedBy (edgesOf (knownGraph g)) u" "set u \<inter> set visiting = {}" by blast+
      from "3.IH"(3) [OF _ q [symmetric] _ this] p q False \<open>isNode g dep\<close> show ?thesis by simp
    qed
  qed
qed

theorem hasDependencyCycle_wf_iff:
  "hasDependencyCycle_wf steps \<longleftrightarrow> \<not> acyclic (edgeRel (knownGraph (stepEdges steps)))"
proof -
  let ?g = "stepEdges steps"
  have "filter (isNode ?g) (map fst ?g) = map fst ?g"
    by (auto simp: isNode_def filter_id_conv)
  moreover have "map fst (knownGraph ?g) = map fst ?g"
    by (simp add: knownGraph_def case_prod_unfold)
  ultimately show ?thesis
    unfolding hasDependencyCycle_wf_def Let_def
    by (simp add: visitStep_visit(2) cyclic_iff [symmetric] cyclic_def)
qed

subsection \<open>The graph of the work tasks\<close>

definition taskDeps :: "WorkflowStep list \<Rightarrow> string \<Rightarrow> string list" where
  "taskDeps steps i = (if isTaskStep steps i then filter (isTaskStep steps) (wkDependsOn (stepAt steps i)) else [])"

definition taskGraph :: "WorkflowStep list \<Rightarrow> graph" where
  "taskGraph steps = map (\<lambda>s. (wkID s, taskDeps steps (wkID s))) steps"

lemma isTaskStep_known: "isTaskStep steps i \<Longrightarrow> \<exists>s \<in> set steps. wkID s = i \<and> stepAt steps i = s"
  by (auto simp: isTaskStep_def stepAt_def dest: stepOf_Some split: option.splits)

lemma edgesOf_taskGraph: "edgesOf (taskGraph steps) i = taskDeps steps i"
proof -
  have f: "find (\<lambda>e. fst e = i) (rev (taskGraph steps))
      = map_option (\<lambda>s. (wkID s, taskDeps steps (wkID s))) (stepOf steps i)"
    by (simp add: taskGraph_def rev_map find_map stepOf_def)
  show ?thesis
  proof (cases "stepOf steps i")
    case None
    then have "\<not> isTaskStep steps i" by (simp add: isTaskStep_def stepAt_def)
    with None f show ?thesis by (simp add: edgesOf_def taskDeps_def)
  next
    case (Some s)
    then have "wkID s = i" by (blast dest: stepOf_Some)
    with Some f show ?thesis by (simp add: edgesOf_def)
  qed
qed

lemma edgesOf_stepEdges: "edgesOf (stepEdges steps) i = wkDependsOn (stepAt steps i)"
proof -
  have "find (\<lambda>e. fst e = i) (rev (stepEdges steps)) = map_option (\<lambda>s. (wkID s, wkDependsOn s)) (stepOf steps i)"
    by (simp add: stepEdges_def rev_map find_map stepOf_def)
  then show ?thesis by (auto simp: edgesOf_def stepAt_def split: option.splits)
qed

lemma taskGraph_acyclic:
  assumes "\<not> hasDependencyCycle_wf steps"
  shows "acyclic (edgeRel (taskGraph steps))"
proof (rule acyclic_subset)
  show "acyclic (edgeRel (knownGraph (stepEdges steps)))"
    using assms by (simp add: hasDependencyCycle_wf_iff)
  show "edgeRel (taskGraph steps) \<subseteq> edgeRel (knownGraph (stepEdges steps))"
  proof clarify
    fix i d
    assume "(i, d) \<in> edgeRel (taskGraph steps)"
    then have d: "d \<in> set (wkDependsOn (stepAt steps i))" "isTaskStep steps d"
      by (simp_all add: edgeRel_def edgesOf_taskGraph taskDeps_def split: if_splits)
    from isTaskStep_known [OF d(2)] obtain t where "t \<in> set steps" "wkID t = d" by blast
    then have "isNode (stepEdges steps) d" by (force simp: isNode_def stepEdges_def)
    with d(1) show "(i, d) \<in> edgeRel (knownGraph (stepEdges steps))"
      by (simp add: edgeRel_def edgesOf_known_graph edgesOf_stepEdges)
  qed
qed

subsection \<open>The planner is the search\<close>

definition independent :: "WorkflowDefinition \<Rightarrow> string \<Rightarrow> bool" where
  "independent flow i =
     (let step = stepAt (wdSteps flow) i
      in checkIndependence (requiredGatesByStep (wdReviewGates flow) (wkID step)) step = Inr ())"

abbreviation plannedFor :: "WorkflowDefinition \<Rightarrow> string list \<Rightarrow> plannedTask list \<Rightarrow> bool" where
  "plannedFor flow visited tasks \<equiv> map ptStep tasks = map (stepAt (wdSteps flow)) (rev visited)"

abbreviation searchTasks :: "WorkflowDefinition \<Rightarrow> string list \<Rightarrow> string list \<Rightarrow> string list \<Rightarrow> bool \<times> string list" where
  "searchTasks flow visiting visited roots \<equiv>
     visitDeps (taskGraph (wdSteps flow)) visiting visited (filter (isTaskStep (wdSteps flow)) roots)"

lemma visitTask_success:
  "visitTask env flow visiting visited tasks i w = (Inr (v, ts), w')
     \<Longrightarrow> plannedFor flow visited tasks \<Longrightarrow> \<forall>x \<in> set visited. isTaskStep (wdSteps flow) x \<and> independent flow x
     \<Longrightarrow> plannedFor flow v ts \<and> (\<forall>x \<in> set v. isTaskStep (wdSteps flow) x \<and> independent flow x)
       \<and> (if isTaskStep (wdSteps flow) i then visit (taskGraph (wdSteps flow)) visiting visited i = (False, v)
          else v = visited)"
  "visitTaskDeps env flow visiting visited tasks deps w = (Inr (v, ts), w')
     \<Longrightarrow> plannedFor flow visited tasks \<Longrightarrow> \<forall>x \<in> set visited. isTaskStep (wdSteps flow) x \<and> independent flow x
     \<Longrightarrow> plannedFor flow v ts \<and> (\<forall>x \<in> set v. isTaskStep (wdSteps flow) x \<and> independent flow x)
       \<and> searchTasks flow visiting visited deps = (False, v)"
proof (induction env flow visiting visited tasks i w and env flow visiting visited tasks deps w
    arbitrary: v ts w' and v ts w' rule: visitTask_visitTaskDeps.induct)
  case (1 env flow visiting visited tasks i w)
  let ?step = "stepAt (wdSteps flow) i"
  show ?case
  proof (cases "i \<in> set visited")
    case True
    with 1 show ?thesis by auto
  next
    case False
    with "1.prems"(1) have nv: "i \<notin> set visiting" by (auto simp del: visitTaskDeps.simps split: if_splits)
    show ?thesis
    proof (cases "isTaskStep (wdSteps flow) i")
      case False
      with 1 nv \<open>i \<notin> set visited\<close> show ?thesis by simp
    next
      case True
      then have deps: "edgesOf (taskGraph (wdSteps flow)) i
          = filter (isTaskStep (wdSteps flow)) (wkDependsOn ?step)"
        by (simp add: edgesOf_taskGraph taskDeps_def)
      from "1.prems"(1) False nv True obtain v1 ts1 w1 where
        d: "visitTaskDeps env flow (i # visiting) visited tasks (wkDependsOn ?step) w = (Inr (v1, ts1), w1)"
        and ind: "independent flow i" and v: "v = i # v1" and ts: "map ptStep ts = map ptStep ts1 @ [?step]"
        by (auto simp: independent_def Let_def simp del: visitTaskDeps.simps split: prod.splits sum.splits)
      have nt: "\<not> \<not> isTaskStep (wdSteps flow) i" using True by simp
      from "1.IH" [OF False nv nt d "1.prems"(2,3)] have
        p: "plannedFor flow v1 ts1" and q: "\<forall>x \<in> set v1. isTaskStep (wdSteps flow) x \<and> independent flow x"
        and s: "searchTasks flow (i # visiting) visited (wkDependsOn ?step) = (False, v1)" by blast+
      have "visit (taskGraph (wdSteps flow)) visiting visited i = (False, v)"
        using False nv s by (simp add: deps v del: visitDeps.simps)
      with p q v ts True ind show ?thesis by simp
    qed
  qed
next
  case (2 env flow visiting visited tasks w)
  then show ?case by simp
next
  case (3 env flow visiting visited tasks dep deps w)
  from "3.prems"(1) obtain v1 ts1 w1 where
    a: "visitTask env flow visiting visited tasks dep w = (Inr (v1, ts1), w1)"
    and b: "visitTaskDeps env flow visiting v1 ts1 deps w1 = (Inr (v, ts), w')"
    by (auto simp del: visitTask.simps split: prod.splits sum.splits)
  note x = "3.IH"(1) [OF a "3.prems"(2,3)]
  have p1: "plannedFor flow v1 ts1" and q1: "\<forall>x \<in> set v1. isTaskStep (wdSteps flow) x \<and> independent flow x"
    using x by blast+
  have y: "plannedFor flow v ts \<and> (\<forall>x \<in> set v. isTaskStep (wdSteps flow) x \<and> independent flow x)
       \<and> searchTasks flow visiting v1 deps = (False, v)"
    using "3.IH"(2) [OF a [symmetric] refl refl b p1 q1] .
  show ?case
  proof (cases "isTaskStep (wdSteps flow) dep")
    case True
    with x y show ?thesis by (simp del: visit.simps)
  next
    case False
    with x y show ?thesis by (simp del: visit.simps)
  qed
qed

lemma visitTask_succeeds:
  "visit (taskGraph (wdSteps flow)) visiting visited i = (False, v) \<Longrightarrow> isTaskStep (wdSteps flow) i
     \<Longrightarrow> \<forall>x. isTaskStep (wdSteps flow) x \<longrightarrow> independent flow x \<Longrightarrow> \<forall>x \<in> set visiting. isTaskStep (wdSteps flow) x
     \<Longrightarrow> \<exists>ts w'. visitTask env flow visiting visited tasks i w = (Inr (v, ts), w')"
  "searchTasks flow visiting visited deps = (False, v)
     \<Longrightarrow> \<forall>x. isTaskStep (wdSteps flow) x \<longrightarrow> independent flow x \<Longrightarrow> \<forall>x \<in> set visiting. isTaskStep (wdSteps flow) x
     \<Longrightarrow> \<exists>ts w'. visitTaskDeps env flow visiting visited tasks deps w = (Inr (v, ts), w')"
proof (induction env flow visiting visited tasks i w and env flow visiting visited tasks deps w
    arbitrary: v and v rule: visitTask_visitTaskDeps.induct)
  case (1 env flow visiting visited tasks i w)
  let ?step = "stepAt (wdSteps flow) i"
  show ?case
  proof (cases "i \<in> set visited")
    case True
    with 1 show ?thesis by auto
  next
    case False
    with "1.prems"(1) have nv: "i \<notin> set visiting" by (auto simp del: visitDeps.simps split: if_splits)
    have deps: "edgesOf (taskGraph (wdSteps flow)) i
        = filter (isTaskStep (wdSteps flow)) (wkDependsOn ?step)"
      using "1.prems"(2) by (simp add: edgesOf_taskGraph taskDeps_def)
    from "1.prems"(1) False nv obtain u where
      u: "searchTasks flow (i # visiting) visited (wkDependsOn ?step) = (False, u)" and v: "v = i # u"
      unfolding visit.simps [of _ _ _ i] deps by (auto split: prod.splits bool.splits)
    have nt: "\<not> \<not> isTaskStep (wdSteps flow) i" using "1.prems"(2) by simp
    have vs: "\<forall>x \<in> set (i # visiting). isTaskStep (wdSteps flow) x" using "1.prems"(2,4) by simp
    from "1.IH" [OF False nv nt u "1.prems"(3) vs] obtain ts1 w1 where
      d: "visitTaskDeps env flow (i # visiting) visited tasks (wkDependsOn ?step) w = (Inr (u, ts1), w1)"
      by blast
    have "checkIndependence (requiredGatesByStep (wdReviewGates flow) (wkID ?step)) ?step = Inr ()"
      using "1.prems"(2,3) by (simp add: independent_def Let_def)
    with d False nv "1.prems"(2) v show ?thesis
      by (auto simp: Let_def simp del: visitTaskDeps.simps split: prod.splits)
  qed
next
  case (2 env flow visiting visited tasks w)
  then show ?case by simp
next
  case (3 env flow visiting visited tasks dep deps w)
  have "\<exists>v1 ts1 w1. visitTask env flow visiting visited tasks dep w = (Inr (v1, ts1), w1)
      \<and> searchTasks flow visiting v1 deps = (False, v)"
  proof (cases "isTaskStep (wdSteps flow) dep")
    case False
    with "3.prems"(3) have "dep \<notin> set visiting" by blast
    with False have "visitTask env flow visiting visited tasks dep w = (Inr (visited, tasks), w)" by simp
    with False "3.prems"(1) show ?thesis by (simp del: visit.simps visitTask.simps)
  next
    case True
    with "3.prems"(1) obtain v1 where
      a: "visit (taskGraph (wdSteps flow)) visiting visited dep = (False, v1)"
      and b: "searchTasks flow visiting v1 deps = (False, v)"
      by (auto simp del: visit.simps split: prod.splits bool.splits)
    with "3.IH"(1) [OF a True "3.prems"(2,3)] show ?thesis by blast
  qed
  then obtain v1 ts1 w1 where a: "visitTask env flow visiting visited tasks dep w = (Inr (v1, ts1), w1)"
    and b: "searchTasks flow visiting v1 deps = (False, v)" by blast
  from "3.IH"(2) [OF a [symmetric] refl refl b "3.prems"(2,3)] a show ?case
    by (simp del: visitTask.simps)
qed

subsection \<open>Valid workflows\<close>

lemma validWorkflow_steps:
  assumes "validWorkflow def"
  shows "distinct (map wkID (wdSteps def))" and "\<not> hasDependencyCycle_wf (wdSteps def)"
    and "\<And>s. s \<in> set (wdSteps def) \<Longrightarrow> safeWorkflowRef (wkID s) \<and> trimSpace (wkID s) \<noteq> []"
proof -
  have v: "\<not> hasErrorIssues (validateSteps (wdAgents def) (wdSteps def))"
    using assms by (simp add: validWorkflow_def validateWorkflow_def)
  obtain js ids where f: "validateStepFields 0 [] (wdSteps def) = (js, ids)" by fastforce
  have ne: "\<not> hasErrorIssues js" and c: "\<not> hasDependencyCycle_wf (wdSteps def)"
    using v by (simp_all add: validateSteps_def f Let_def)
  from validateStepFields_ids [OF f ne] show "distinct (map wkID (wdSteps def))"
    and "\<And>s. s \<in> set (wdSteps def) \<Longrightarrow> safeWorkflowRef (wkID s) \<and> trimSpace (wkID s) \<noteq> []" by blast+
  show "\<not> hasDependencyCycle_wf (wdSteps def)" by (rule c)
qed

lemma stepAt_member:
  assumes "validWorkflow def" and "s \<in> set (wdSteps def)"
  shows "stepAt (wdSteps def) (wkID s) = s"
  unfolding stepAt_def stepOf_def
  using find_rev_unique [OF validWorkflow_steps(1) [OF assms(1)] assms(2)] by simp

lemma find_SomeD: "find P xs = Some x \<Longrightarrow> x \<in> set xs \<and> P x"
  by (metis find_Some_iff nth_mem)

subsection \<open>The planned tasks\<close>

definition taskNames :: "plannedTask list \<Rightarrow> string list" where
  "taskNames tasks = map (\<lambda>t. wkID (ptStep t)) tasks"

lemma stepAt_id: "isTaskStep steps i \<Longrightarrow> wkID (stepAt steps i) = i"
  using isTaskStep_known by blast

lemma plannedFor_names:
  assumes "plannedFor flow v tasks" and "\<forall>x \<in> set v. isTaskStep (wdSteps flow) x"
  shows "taskNames tasks = rev v"
proof -
  have "taskNames tasks = map wkID (map ptStep tasks)" by (simp add: taskNames_def)
  also have "\<dots> = map (\<lambda>i. wkID (stepAt (wdSteps flow) i)) (rev v)" unfolding assms(1) by simp
  also have "\<dots> = rev v" using assms(2) by (intro map_idI) (simp add: stepAt_id)
  finally show ?thesis .
qed

lemma planTasks_search:
  assumes "visitTaskDeps env flow [] [] [] roots w = (Inr (v, ts), w')"
  shows "taskNames ts = rev v" and "plannedFor flow v ts" and "orderedBy (taskDeps (wdSteps flow)) v"
    and "set (filter (isTaskStep (wdSteps flow)) roots) \<subseteq> set v"
    and "\<And>x. x \<in> set v \<Longrightarrow> isTaskStep (wdSteps flow) x \<and> independent flow x"
proof -
  have r: "plannedFor flow v ts \<and> (\<forall>x \<in> set v. isTaskStep (wdSteps flow) x \<and> independent flow x)
       \<and> searchTasks flow [] [] roots = (False, v)"
    by (rule visitTask_success(2) [OF assms]) simp_all
  then have s: "searchTasks flow [] [] roots = (False, v)" by blast
  have "edgesOf (taskGraph (wdSteps flow)) = taskDeps (wdSteps flow)"
    by (rule ext) (rule edgesOf_taskGraph)
  with visit_orders(2) [OF s] show "orderedBy (taskDeps (wdSteps flow)) v"
    and "set (filter (isTaskStep (wdSteps flow)) roots) \<subseteq> set v" by simp_all
  from r show "plannedFor flow v ts" and
    "\<And>x. x \<in> set v \<Longrightarrow> isTaskStep (wdSteps flow) x \<and> independent flow x" by blast+
  from r show "taskNames ts = rev v" by (intro plannedFor_names) blast+
qed

lemma planCompileGraph_Inr:
  assumes "planCompileGraph env flow w = (Inr g, w')"
  obtains v where "planAutomations flow (wdSteps flow) = Inr (cgAutomationSteps g)"
    and "visitTaskDeps env flow [] [] [] (map wkID (wdSteps flow)) w = (Inr (v, cgTasks g), w')"
proof -
  from assms obtain as v ts where
    "planAutomations flow (wdSteps flow) = Inr as"
    "visitTaskDeps env flow [] [] [] (map wkID (wdSteps flow)) w = (Inr (v, ts), w')"
    "g = \<lparr>cgTasks = ts, cgAutomationSteps = as\<rparr>"
    unfolding planCompileGraph_def
    by (auto simp only: seqS_Inr liftS_eq retS_eq prod.case sum.inject split_paired_Ex)
  then show thesis by (intro that) simp_all
qed

lemma planned_order:
  assumes "planCompileGraph env flow w = (Inr g, w')"
  shows "distinct (taskNames (cgTasks g))"
    and "set (taskNames (cgTasks g)) = {i. isTaskStep (wdSteps flow) i}"
    and "cgTasks g = pre @ t # post \<Longrightarrow> d \<in> set (wkDependsOn (ptStep t)) \<Longrightarrow> isTaskStep (wdSteps flow) d
           \<Longrightarrow> d \<in> set (taskNames pre)"
    and "t \<in> set (cgTasks g) \<Longrightarrow> ptStep t = stepAt (wdSteps flow) (wkID (ptStep t))"
proof -
  obtain v where p: "visitTaskDeps env flow [] [] [] (map wkID (wdSteps flow)) w = (Inr (v, cgTasks g), w')"
    using planCompileGraph_Inr [OF assms] by blast
  note s = planTasks_search [OF p]
  show "distinct (taskNames (cgTasks g))" using s(1) orderedBy_distinct [OF s(3)] by simp
  have "{i. isTaskStep (wdSteps flow) i} \<subseteq> set v"
  proof clarify
    fix i assume i: "isTaskStep (wdSteps flow) i"
    then obtain u where "u \<in> set (wdSteps flow)" "wkID u = i" using isTaskStep_known by blast
    then have "i \<in> set (filter (isTaskStep (wdSteps flow)) (map wkID (wdSteps flow)))" using i by force
    with s(4) show "i \<in> set v" by blast
  qed
  with s(5) s(1) show "set (taskNames (cgTasks g)) = {i. isTaskStep (wdSteps flow) i}" by auto
  show at: "ptStep t = stepAt (wdSteps flow) (wkID (ptStep t))" if t: "t \<in> set (cgTasks g)" for t
  proof -
    from t have "ptStep t \<in> set (map (stepAt (wdSteps flow)) (rev v))" unfolding s(2) [symmetric] by simp
    then obtain i where "i \<in> set v" "ptStep t = stepAt (wdSteps flow) i" by auto
    with s(5) show ?thesis by (simp add: stepAt_id)
  qed
  show "d \<in> set (taskNames pre)"
    if split: "cgTasks g = pre @ t # post" and d: "d \<in> set (wkDependsOn (ptStep t))" "isTaskStep (wdSteps flow) d"
  proof -
    let ?i = "wkID (ptStep t)"
    have "rev v = taskNames pre @ ?i # taskNames post" using s(1) split by (simp add: taskNames_def)
    then have v: "v = rev (taskNames post) @ ?i # rev (taskNames pre)" by (metis rev_rev_ident rev_append rev.simps(2) append_assoc append_Cons append_Nil)
    have "isTaskStep (wdSteps flow) ?i" using s(5) [of ?i] v by simp
    then have "d \<in> set (taskDeps (wdSteps flow) ?i)"
      using d at [of t] split by (simp add: taskDeps_def)
    moreover have "set (taskDeps (wdSteps flow) ?i) \<subseteq> set (rev (taskNames pre))"
      using s(3) unfolding v by (rule orderedBy_split)
    ultimately show ?thesis by auto
  qed
qed

lemma planAutomations_Inr:
  "planAutomations flow steps = Inr as \<longleftrightarrow>
     as = filter isAutomationStep steps \<and> (\<forall>s \<in> set as. checkAutomationStep flow s = Inr ())"
  by (induction steps arbitrary: "as") (auto simp: res_simps)

lemma planTasks_succeeds:
  assumes "validWorkflow flow" and "\<And>x. isTaskStep (wdSteps flow) x \<Longrightarrow> independent flow x"
  shows "\<exists>v ts w'. visitTaskDeps env flow [] [] [] roots w = (Inr (v, ts), w')"
proof -
  let ?r = "searchTasks flow [] [] roots"
  have ac: "acyclic (edgeRel (taskGraph (wdSteps flow)))"
    using validWorkflow_steps(2) [OF assms(1)] by (rule taskGraph_acyclic)
  have "\<not> fst ?r"
  proof
    assume "fst ?r"
    from visit_sound(2) [OF this] ac show False by (simp add: acyclic_def)
  qed
  then have "?r = (False, snd ?r)" by (simp add: prod_eq_iff)
  from visitTask_succeeds(2) [OF this] assms(2) show ?thesis by fastforce
qed

end
