(* ===== verification/Workflow_Counts.thy ===== *)
theory Workflow_Counts
  imports Workflow_Compile Workflow_Graph "HOL-Library.Multiset"
begin

section \<open>Workflows: what a compilation creates\<close>

text \<open>
  A compilation that succeeds creates one work task for each planned task, one reviewer for
  each required gate of a task or automation step, one automation for each reviewer, each
  automation step and each task no automatic automation runs. A dry run announces the same
  numbers. The compiler relies on one law of the work plan service, which the locale states:
  a task keeps the reference it was created with.
\<close>

locale work_task_api =
  fixes createTask :: "CreateWorkTaskInput \<Rightarrow> ('w, WorkTask) act"
    and updateTask :: "WorkTask \<Rightarrow> ('w, WorkTask) act"
  assumes create_ref: "createTask input w = (Inr t, w') \<Longrightarrow> wtTaskRef t = trimSpace (ctTaskRef input)"
    and update_ref: "updateTask task w = (Inr t, w') \<Longrightarrow> wtTaskRef t = wtTaskRef task"
begin

lemma update_ref_deps:
  "updateTask (task\<lparr>wtDependencyTaskIDs := ids\<rparr>) w = (Inr t, w') \<Longrightarrow> wtTaskRef t = wtTaskRef task"
  by (drule update_ref) simp

end

subsection \<open>Results of the sequencing operators\<close>

lemma keepResult_Inr [res_simps]: "keepResult p m s = (Inr x, s') \<longleftrightarrow> m s = (Inr x, s')"
  by (auto simp: keepResult_def split: prod.splits sum.splits)

lemma wrapS_Inr [res_simps]: "wrapS pre m s = (Inr x, s') \<longleftrightarrow> m s = (Inr x, s')"
  by (auto simp: wrapS_def wrapError_def split: prod.splits sum.splits error.splits)

lemma inWorld_Inr [res_simps]:
  "inWorld m s = (Inr x, s') \<longleftrightarrow> m (fst s) = (Inr x, fst s') \<and> snd s' = snd s"
  by (cases s') (auto simp: inWorld_def split: prod.splits)

lemma tput_fresh: "k \<notin> fst ` set t \<Longrightarrow> tput t k v = t @ [(k, v)]"
  unfolding tput_def by (induction t) auto

subsection \<open>Work tasks\<close>

lemma createTasks_Inr:
  assumes api: "work_task_api (weCreateWorkTask env) u"
  shows "createTasks env run items tbl res w = (Inr (tbl', res'), w')
    \<Longrightarrow> distinct (taskNames items) \<Longrightarrow> set (taskNames items) \<inter> fst ` set tbl = {}
    \<Longrightarrow> \<forall>i \<in> set (taskNames items). trimSpace i = i
    \<Longrightarrow> \<exists>ts. tbl' = tbl @ zip (taskNames items) ts \<and> map wtTaskRef ts = taskNames items
          \<and> res' = res\<lparr>woWorkTaskIDs := woWorkTaskIDs res @ map wtID ts\<rparr>"
proof (induction items arbitrary: tbl res w)
  case Nil
  then show ?case by (auto simp: res_simps taskNames_def)
next
  case (Cons item items)
  let ?k = "wkID (ptStep item)"
  from Cons.prems(1) obtain t w1 where
    c: "weCreateWorkTask env (compileTaskInput (krWorkflow run) (wpID (krPlan run)) (krRunID run) (krTraceID run) (ptStep item)) w
          = (Inr t, w1)"
    and r: "createTasks env run items (tput tbl ?k t) (res\<lparr>woWorkTaskIDs := woWorkTaskIDs res @ [wtID t]\<rparr>) w1
          = (Inr (tbl', res'), w')"
    by (auto simp: res_simps)
  have k: "?k \<notin> fst ` set tbl" "trimSpace ?k = ?k" using Cons.prems(3,4) by (auto simp: taskNames_def)
  have ref: "wtTaskRef t = ?k"
    using work_task_api.create_ref [OF api c] k(2) by (simp add: compileTaskInput_def Let_def)
  have "distinct (taskNames items)" "set (taskNames items) \<inter> fst ` set (tput tbl ?k t) = {}"
    "\<forall>i \<in> set (taskNames items). trimSpace i = i"
    using Cons.prems(2-4) unfolding tput_fresh [OF k(1)] by (auto simp: taskNames_def)
  from Cons.IH [OF r this] obtain ts where
    "tbl' = tput tbl ?k t @ zip (taskNames items) ts" "map wtTaskRef ts = taskNames items"
    "res' = res\<lparr>woWorkTaskIDs := (woWorkTaskIDs res @ [wtID t]) @ map wtID ts\<rparr>" by auto
  with ref show ?case
    by (intro exI [of _ "t # ts"]) (simp add: tput_fresh [OF k(1)] taskNames_def)
qed

subsection \<open>Reviewers\<close>

lemma createReviews_Inr:
  "createReviews env plans (byStep, reviews, res) w = (Inr (byStep', reviews', res'), w')
   \<Longrightarrow> \<exists>ids rs. length ids = length plans \<and> length rs = length plans \<and> reviews' = reviews @ rs
         \<and> res' = res\<lparr>woReviewerTaskIDs := woReviewerTaskIDs res @ ids\<rparr>"
proof (induction plans arbitrary: byStep reviews res w)
  case Nil
  then show ?case by (auto simp: res_simps)
next
  case (Cons plan plans)
  obtain key step gate input msg where plan: "plan = (key, step, gate, input, msg)" by (cases plan)
  from Cons.prems obtain t w1 where
    r: "createReviews env plans (appendID byStep key (wtID t),
          reviews @ [\<lparr>prStep = step, prGate = gate, prTask = t\<rparr>],
          res\<lparr>woReviewerTaskIDs := woReviewerTaskIDs res @ [wtID t]\<rparr>) w1 = (Inr (byStep', reviews', res'), w')"
    by (auto simp: plan res_simps)
  from Cons.IH [OF r] obtain ids rs where
    "length ids = length plans" "length rs = length plans"
    "reviews' = (reviews @ [\<lparr>prStep = step, prGate = gate, prTask = t\<rparr>]) @ rs"
    "res' = res\<lparr>woReviewerTaskIDs := (woReviewerTaskIDs res @ [wtID t]) @ ids\<rparr>" by auto
  then show ?case
    by (intro exI [of _ "wtID t # ids"] exI [of _ "\<lparr>prStep = step, prGate = gate, prTask = t\<rparr> # rs"]) simp
qed

definition gateCount :: "WorkflowDefinition \<Rightarrow> string \<Rightarrow> nat" where
  "gateCount flow i = length (requiredGatesByStep (wdReviewGates flow) i)"

lemma length_taskReviewPlans:
  "length (taskReviewPlans run tasks) = sum_list (map (\<lambda>t. gateCount (krWorkflow run) (wtTaskRef t)) tasks)"
  by (simp add: taskReviewPlans_def length_concat comp_def gateCount_def)

lemma length_automationReviewPlans:
  "length (automationReviewPlans run steps) = sum_list (map (\<lambda>s. gateCount (krWorkflow run) (wkID s)) steps)"
  by (simp add: automationReviewPlans_def length_concat comp_def gateCount_def)

lemma sum_list_mset: "mset xs = mset ys \<Longrightarrow> sum_list (map f xs) = sum_list (map (f :: 'a \<Rightarrow> nat) ys)"
  by (metis mset_map sum_mset_sum_list)

subsection \<open>Dependencies and automations\<close>

lemma updateDependencies_Inr:
  assumes api: "work_task_api c (weUpdateWorkTask env)"
  shows "updateDependencies env run tr ar items tbl res w = (Inr tbl', w')
    \<Longrightarrow> \<forall>i \<in> set (taskNames items). tget tbl i \<noteq> None
    \<Longrightarrow> map_option wtTaskRef (tget tbl' k) = map_option wtTaskRef (tget tbl k)"
proof (induction items arbitrary: tbl w)
  case Nil
  then show ?case by (simp add: res_simps)
next
  case (Cons item items)
  from Cons.prems(2) obtain task where t: "tget tbl (wkID (ptStep item)) = Some task"
    by (auto simp: taskNames_def)
  with Cons.prems(1) obtain t w1 ids where
    u: "weUpdateWorkTask env (task\<lparr>wtDependencyTaskIDs := ids\<rparr>) w = (Inr t, w1)"
    and r: "updateDependencies env run tr ar items (tput tbl (wkID (ptStep item)) t) res w1 = (Inr tbl', w')"
    by (auto simp: Let_def res_simps)
  have "\<forall>i \<in> set (taskNames items). tget (tput tbl (wkID (ptStep item)) t) i \<noteq> None"
    using Cons.prems(2) by (simp add: store_simps taskNames_def)
  from work_task_api.update_ref_deps [OF api u] t Cons.IH [OF r this] show ?case
    by (simp add: store_simps)
qed

lemma createAutomations_Inr:
  "createAutomations env plans res w = (Inr res', w')
   \<Longrightarrow> \<exists>ids. length ids = length plans \<and> res' = res\<lparr>woAutomationIDs := woAutomationIDs res @ ids\<rparr>"
proof (induction plans arbitrary: res w)
  case Nil
  then show ?case by (auto simp: res_simps)
next
  case (Cons plan plans)
  obtain input msg where plan: "plan = (input, msg)" by (cases plan)
  obtain q w1 where q: "weCreateAutomation env input w = (q, w1)" by fastforce
  with Cons.prems obtain a where "q = Inr a" by (cases q) (simp_all add: plan)
  with Cons.prems q have
    r: "createAutomations env plans (res\<lparr>woAutomationIDs := woAutomationIDs res @ [auID a]\<rparr>) w1 = (Inr res', w')"
    by (simp add: plan)
  from Cons.IH [OF r] obtain ids where
    "length ids = length plans" "res' = res\<lparr>woAutomationIDs := (woAutomationIDs res @ [auID a]) @ ids\<rparr>" by auto
  then show ?case by (intro exI [of _ "auID a # ids"]) simp
qed

subsection \<open>Covered tasks\<close>

lemma visitRefs_cong:
  assumes "\<And>i. taskRefAt steps t1 i = taskRefAt steps t2 i"
  shows "visitRefs steps t1 running st i = visitRefs steps t2 running st i"
    and "visitRefsDeps steps t1 running st deps = visitRefsDeps steps t2 running st deps"
  using assms
proof (induction steps t1 running st i and steps t1 running st deps rule: visitRefs_visitRefsDeps.induct)
  case (1 steps taskByStep running ended out stepID)
  show ?case
  proof (cases "stepID \<in> set ended \<or> stepID \<in> set running")
    case True
    then show ?thesis by simp
  next
    case False
    from "1.IH" [OF False "1.prems"] "1.prems" False show ?thesis by simp
  qed
qed simp_all

lemma taskRefAt_created:
  assumes "map wtTaskRef ts = names" and "distinct names" and "set names = {i. isTaskStep steps i}"
    and "[] \<notin> set names" and "\<And>k. map_option wtTaskRef (tget tbl k) = map_option wtTaskRef (tget (zip names ts) k)"
  shows "taskRefAt steps tbl i = taskRefAt steps [] i"
    and "i \<in> set names \<Longrightarrow> map_option wtTaskRef (tget tbl i) = Some i"
proof -
  have len: "length names = length ts" using assms(1) by auto
  have at: "map_option wtTaskRef (tget tbl i) = (if i \<in> set names then Some i else None)" for i
  proof (cases "i \<in> set names")
    case True
    then obtain n where n: "n < length names" "names ! n = i" by (auto simp: in_set_conv_nth)
    then have "tget (zip names ts) i = Some (ts ! n)"
      unfolding tget_def n(2) [symmetric] using assms(2) len n(1) by (intro map_of_zip_nth) simp_all
    moreover have "wtTaskRef (ts ! n) = i" using n len assms(1) by (metis nth_map)
    ultimately show ?thesis using True assms(5) [of i] by simp
  next
    case False
    then have "tget (zip names ts) i = None" by (auto simp: tget_def map_of_eq_None_iff dest: set_zip_leftD)
    with False assms(5) [of i] show ?thesis by simp
  qed
  show "i \<in> set names \<Longrightarrow> map_option wtTaskRef (tget tbl i) = Some i" by (simp add: at)
  show "taskRefAt steps tbl i = taskRefAt steps [] i"
  proof (cases "isTaskStep steps i")
    case True
    then have "i \<in> set names" "i \<noteq> []" using assms(3,4) by auto
    with at [of i] True show ?thesis by (auto simp: taskRefAt_def stepAt_id)
  next
    case False
    then have "i \<notin> set names" using assms(3) by simp
    with at [of i] show ?thesis by (simp add: taskRefAt_def)
  qed
qed

subsection \<open>The dry run\<close>

lemma newIDs_length: "newIDs env pre n w = (is, w') \<Longrightarrow> length is = n"
  by (induction n arbitrary: w "is") (auto split: prod.splits)

text \<open>What the loops of a dry run change: how many identifiers of each kind they add.\<close>

definition grows :: "nat \<Rightarrow> nat \<Rightarrow> nat \<Rightarrow> WorkflowCompileResult \<Rightarrow> WorkflowCompileResult \<Rightarrow> bool" where
  "grows tasks reviewers automations r r' \<longleftrightarrow>
     length (woWorkTaskIDs r') = length (woWorkTaskIDs r) + tasks
     \<and> length (woReviewerTaskIDs r') = length (woReviewerTaskIDs r) + reviewers
     \<and> length (woAutomationIDs r') = length (woAutomationIDs r) + automations"

lemma dryReviews_grows: "dryReviews env n r w = (r', w') \<Longrightarrow> grows 0 n n r r'"
  by (induction n arbitrary: r w) (fastforce simp: grows_def split: prod.splits)+

lemma dryTasks_grows:
  "dryTasks env flow items r w = (r', w')
   \<Longrightarrow> grows (length items) (sum_list (map (gateCount flow) (taskNames items)))
        (sum_list (map (gateCount flow) (taskNames items))) r r'"
proof (induction items arbitrary: r w)
  case (Cons item items)
  from Cons.prems obtain r1 w1 where
    d: "dryReviews env (gateCount flow (wkID (ptStep item))) (r\<lparr>woWorkTaskIDs := woWorkTaskIDs r @ [ptID item]\<rparr>) w = (r1, w1)"
    and t: "dryTasks env flow items r1 w1 = (r', w')"
    by (auto simp: gateCount_def split: prod.splits)
  from dryReviews_grows [OF d] Cons.IH [OF t] show ?case by (simp add: grows_def taskNames_def)
qed (simp add: grows_def taskNames_def)

lemma dryAutomationReviews_grows:
  "dryAutomationReviews env flow steps r w = (r', w')
   \<Longrightarrow> grows 0 (sum_list (map (\<lambda>s. gateCount flow (wkID s)) steps))
        (sum_list (map (\<lambda>s. gateCount flow (wkID s)) steps)) r r'"
proof (induction steps arbitrary: r w)
  case (Cons step steps)
  from Cons.prems obtain r1 w1 where
    d: "dryReviews env (gateCount flow (wkID step)) r w = (r1, w1)"
    and t: "dryAutomationReviews env flow steps r1 w1 = (r', w')"
    by (auto simp: gateCount_def split: prod.splits)
  from dryReviews_grows [OF d] Cons.IH [OF t] show ?case by (simp add: grows_def)
qed (simp add: grows_def)

lemma dryAutomations_grows: "dryAutomations env n r w = (r', w') \<Longrightarrow> grows 0 0 n r r'"
  by (auto simp: dryAutomations_def grows_def newIDs_length split: prod.splits)

text \<open>The numbers of a compilation.\<close>

definition reviewerTotal :: "WorkflowDefinition \<Rightarrow> compileGraph \<Rightarrow> nat" where
  "reviewerTotal flow graph =
     sum_list (map (gateCount flow) (taskNames (cgTasks graph)))
     + sum_list (map (\<lambda>s. gateCount flow (wkID s)) (cgAutomationSteps graph))"

definition automationTotal :: "WorkflowDefinition \<Rightarrow> compileGraph \<Rightarrow> nat" where
  "automationTotal flow graph =
     reviewerTotal flow graph + length (cgAutomationSteps graph) + length (uncoveredTasks flow graph)"

lemma dryRun_counts:
  assumes "dryRunCompileResult env flow graph w = (r, w')"
  shows "grows (length (cgTasks graph)) (reviewerTotal flow graph) (automationTotal flow graph) emptyCompileResult r"
    and "length (woPermissionSnapshotIDs r) = length (wdAgents flow)"
proof -
  from assms obtain planID now r0 w2 r3 w3 r4 w4 r5 w5 r6 where
    r0: "r0 = emptyCompileResult\<lparr>woWorkflowID := wdID flow, woWorkPlanID := planID, woDryRun := True, woCompiledAt := now\<rparr>"
    and 3: "dryTasks env flow (cgTasks graph) r0 w2 = (r3, w3)"
    and 4: "dryAutomationReviews env flow (cgAutomationSteps graph) r3 w3 = (r4, w4)"
    and 5: "dryAutomations env (length (cgAutomationSteps graph)) r4 w4 = (r5, w5)"
    and 6: "dryAutomations env (length (uncoveredTasks flow graph)) r5 w5 = (r6, w')"
    and r: "r = r6\<lparr>woPermissionSnapshotIDs := map (\<lambda>agent. PermissionSnapshotRefPrefix @ waID agent) (wdAgents flow)\<rparr>"
    by (auto simp: dryRunCompileResult_def split: prod.splits)
  from dryTasks_grows [OF 3] dryAutomationReviews_grows [OF 4] dryAutomations_grows [OF 5] dryAutomations_grows [OF 6]
  show "grows (length (cgTasks graph)) (reviewerTotal flow graph) (automationTotal flow graph) emptyCompileResult r"
    by (simp add: grows_def r r0 reviewerTotal_def automationTotal_def)
  show "length (woPermissionSnapshotIDs r) = length (wdAgents flow)" by (simp add: r)
qed

subsection \<open>The compilation\<close>

definition canonicalSteps :: "WorkflowDefinition \<Rightarrow> bool" where
  "canonicalSteps flow \<longleftrightarrow> (\<forall>s \<in> set (wdSteps flow). trimSpace (wkID s) = wkID s)"

lemma allowedTaskRefs_cong:
  "(\<And>i. taskRefAt steps t1 i = taskRefAt steps t2 i) \<Longrightarrow> allowedTaskRefs step steps t1 = allowedTaskRefs step steps t2"
  unfolding allowedTaskRefs_def by (subst visitRefs_cong(2)) simp_all

lemma planned_names:
  assumes "planCompileGraph env flow w = (Inr graph, w1)" and "validWorkflow flow" and "canonicalSteps flow"
    and "i \<in> set (taskNames (cgTasks graph))"
  shows "trimSpace i = i" and "i \<noteq> []"
proof -
  have "isTaskStep (wdSteps flow) i" using planned_order(2) [OF assms(1)] assms(4) by blast
  then obtain s where s: "s \<in> set (wdSteps flow)" "wkID s = i" using isTaskStep_known by blast
  with assms(3) show "trimSpace i = i" by (auto simp: canonicalSteps_def)
  with validWorkflow_steps(3) [OF assms(2) s(1)] s(2) show "i \<noteq> []" by auto
qed

lemma compileObjects_counts:
  assumes api: "work_task_api (weCreateWorkTask env) (weUpdateWorkTask env)"
    and perm: "\<And>xs. mset (weRange env xs) = mset xs"
    and plan: "planCompileGraph env flow w0 = (Inr graph, w1)" and valid: "validWorkflow flow"
    and canon: "canonicalSteps flow" and flow: "krWorkflow run = flow"
    and obj: "compileObjects env run graph sba res w = (Inr r, w')"
  shows "grows (length (cgTasks graph)) (reviewerTotal flow graph) (automationTotal flow graph) res r"
    and "woPermissionSnapshotIDs r = woPermissionSnapshotIDs res"
proof -
  let ?names = "taskNames (cgTasks graph)"
  note names = planned_order(1,2) [OF plan] planned_names [OF plan valid canon]
  from obj obtain tbl r1 a1 tr tv r2 a2 ar av r3 a3 upd a4 where
    1: "createTasks env run (cgTasks graph) [] res w = (Inr (tbl, r1), a1)" and
    2: "createReviews env (taskReviewPlans run (weRange env (tvals tbl))) ([], [], r1) a1 = (Inr (tr, tv, r2), a2)" and
    3: "createReviews env (automationReviewPlans run (cgAutomationSteps graph)) ([], [], r2) a2 = (Inr (ar, av, r3), a3)" and
    4: "updateDependencies env run tr ar (cgTasks graph) tbl r3 a3 = (Inr upd, a4)" and
    5: "createAutomations env (automationPlans run graph sba upd ar tv av) r3 a4 = (Inr r, w')"
    unfolding compileObjects_def by (auto simp only: seqS_Inr prod.case split_paired_Ex)
  obtain ts where ts: "tbl = zip ?names ts" "map wtTaskRef ts = ?names"
    "r1 = res\<lparr>woWorkTaskIDs := woWorkTaskIDs res @ map wtID ts\<rparr>"
    using createTasks_Inr [OF api 1] names by auto
  have len: "length ts = length ?names" using ts(2) by (metis length_map)
  then have vals: "tvals tbl = ts" by (simp add: ts(1) tvals_def)
  have c2: "length (taskReviewPlans run (weRange env (tvals tbl))) = sum_list (map (gateCount flow) ?names)"
    unfolding length_taskReviewPlans vals flow sum_list_mset [OF perm] ts(2) [symmetric] by (simp add: comp_def)
  have c3: "length (automationReviewPlans run (cgAutomationSteps graph))
      = sum_list (map (\<lambda>s. gateCount flow (wkID s)) (cgAutomationSteps graph))"
    by (simp add: length_automationReviewPlans flow)
  obtain ids2 where r2: "length ids2 = sum_list (map (gateCount flow) ?names)" "length tv = length ids2"
    "r2 = r1\<lparr>woReviewerTaskIDs := woReviewerTaskIDs r1 @ ids2\<rparr>"
    using createReviews_Inr [OF 2] unfolding c2 by auto
  obtain ids3 where r3: "length ids3 = length (automationReviewPlans run (cgAutomationSteps graph))"
    "length av = length ids3" "r3 = r2\<lparr>woReviewerTaskIDs := woReviewerTaskIDs r2 @ ids3\<rparr>"
    using createReviews_Inr [OF 3] by auto
  have known: "\<forall>i \<in> set ?names. tget tbl i \<noteq> None"
    using len map_fst_zip [of ?names ts] by (simp add: ts(1) tget_def map_of_eq_None_iff flip: set_map)
  have upd: "\<And>k. map_option wtTaskRef (tget upd k) = map_option wtTaskRef (tget (zip ?names ts) k)"
    using updateDependencies_Inr [OF api 4 known] ts(1) by simp
  have "[] \<notin> set ?names" using names(4) by blast
  note refs = taskRefAt_created [OF ts(2) names(1,2) this upd]
  have cov: "coveredTaskRefs (cgAutomationSteps graph) (wdSteps flow) upd
      = coveredTaskRefs (cgAutomationSteps graph) (wdSteps flow) []"
    unfolding coveredTaskRefs_def by (simp add: allowedTaskRefs_cong [OF refs(1)])
  have ref: "compiledRef upd item = wkID (ptStep item)" if "item \<in> set (cgTasks graph)" for item
    using refs(2) [of "wkID (ptStep item)"] that by (force simp: compiledRef_def taskNames_def)
  have unc: "filter (\<lambda>item. compiledRef upd item
        \<notin> set (coveredTaskRefs (cgAutomationSteps graph) (wdSteps (krWorkflow run)) upd)) (cgTasks graph)
      = uncoveredTasks flow graph"
    unfolding uncoveredTasks_def flow cov by (rule filter_cong) (simp_all add: ref)
  have "length (automationPlans run graph sba upd ar tv av) = automationTotal flow graph"
    unfolding automationPlans_def unc by (simp add: r2 r3 c3 automationTotal_def reviewerTotal_def)
  with createAutomations_Inr [OF 5] obtain ids5 where
    r: "length ids5 = automationTotal flow graph" "r = r3\<lparr>woAutomationIDs := woAutomationIDs r3 @ ids5\<rparr>" by auto
  show "grows (length (cgTasks graph)) (reviewerTotal flow graph) (automationTotal flow graph) res r"
    using len by (simp add: grows_def r r3 r2 ts(3) c3 reviewerTotal_def taskNames_def)
  show "woPermissionSnapshotIDs r = woPermissionSnapshotIDs res" by (simp add: r r3 r2 ts(3))
qed

lemma compileIssues_valid:
  "\<not> hasErrorIssues (compileIssues flow) \<longleftrightarrow> validWorkflow flow \<and> wdStatus flow = WorkflowStatusEnabled"
  by (auto simp: compileIssues_def validWorkflow_def)

lemma ensureCompileSnapshots_length:
  "ensureCompileSnapshots env flow s = (Inr snaps, s') \<Longrightarrow> length snaps = length (wdAgents flow)"
  by (auto simp: ensureCompileSnapshots_def res_simps)

text \<open>A successful compilation of a stored workflow, taken apart.\<close>

lemma compileEnabled_Inr:
  assumes "compileEnabled env flow graph u tt rn tc s = (Inr r, s')"
  obtains run sba res w w' where "krWorkflow run = flow"
    and "compileObjects env run graph sba res w = (Inr r, w')"
    and "grows 0 0 0 emptyCompileResult res" and "length (woPermissionSnapshotIDs res) = length (wdAgents flow)"
proof -
  from assms obtain suf s1 plan s2 now s3 snaps s4 where
    sn: "ensureCompileSnapshots env flow s3 = (Inr snaps, s4)" and
    ob: "compileObjects env \<lparr>krWorkflow = flow, krPlan = plan, krRunID = rn, krTraceID = tc\<rparr> graph (byAgentID snaps)
      (emptyCompileResult\<lparr>woWorkflowID := wdID flow, woWorkPlanID := wpID plan, woCompiledAt := now,
        woPermissionSnapshotIDs := map wnID snaps\<rparr>) (fst s4) = (Inr r, fst s')"
    unfolding compileEnabled_def Let_def by (auto simp only: seqS_Inr keepResult_Inr inWorld_Inr)
  show thesis
    by (rule that [OF _ ob]) (simp_all add: grows_def ensureCompileSnapshots_length [OF sn])
qed

lemma compileStored_Inr:
  assumes "compileStored env flow False u tt rn tc s = (Inr r, s')"
  obtains graph s1 where "validWorkflow flow" and "wdStatus flow = WorkflowStatusEnabled"
    and "\<not> hasErrorIssues (compileIssues flow)"
    and "inWorld (planCompileGraph env flow) s = (Inr graph, s1)"
    and "compileEnabled env flow graph u tt rn tc s1 = (Inr r, s')"
proof -
  have v: "\<not> hasErrorIssues (compileIssues flow)"
    using assms by (auto simp: compileStored_def failCompile_def res_simps split: if_splits)
  obtain q s1 where q: "inWorld (planCompileGraph env flow) s = (q, s1)"
    by (cases "inWorld (planCompileGraph env flow) s")
  with assms v obtain graph where "q = Inr graph"
    by (cases q) (auto simp: compileStored_def failCompile_def res_simps)
  with assms v q that show thesis by (simp add: compileStored_def compileIssues_valid)
qed

text \<open>The checked inputs do not depend on \<open>DryRun\<close>.\<close>

lemma compile_inputs:
  assumes "svcCompileWorkflow env input s = (Inr r, s')"
    and "svcGetWorkflow (wiProjectID input) (wiWorkflowID input) (snd s) = Inr flow"
  obtains u tt rn tc where "compileStored env flow (wiDryRun input) u tt rn tc s = (Inr r, s')"
    and "svcCompileWorkflow env (input\<lparr>wiDryRun := True\<rparr>) s = compileStored env flow True u tt rn tc s"
proof -
  from assms(1) obtain p i rn tc u tt g where
    in1: "safeRequiredWorkflowRef (wiProjectID input) ''project_id'' = Inr p"
    "safeRequiredWorkflowRef (wiWorkflowID input) ''workflow_id'' = Inr i"
    "safeOptionalWorkflowRef (wiCreatedByRunID input) ''created_by_run_id'' = Inr rn"
    "safeOptionalWorkflowRef (wiTraceID input) ''trace_id'' = Inr tc"
    "safeOptionalWorkflowRef (wiUserRequestRef input) ''user_request_ref'' = Inr u"
    "safeOptionalCompileText (wiTitleOverride input) ''title_override'' 200 = Inr tt"
    and g: "memGetWorkflow p i (snd s) = Inr g"
    and c: "compileStored env g (wiDryRun input) u tt rn tc s = (Inr r, s')"
    unfolding svcCompileWorkflow_def
    by (auto simp only: seqS_Inr keepResult_Inr liftS_eq readStore_def prod.inject)
  have "g = flow" using assms(2) in1(1,2) g by (simp add: svcGetWorkflow_def safeWorkflowObject_def)
  with in1 g c show thesis
    by (intro that [of u tt rn tc])
      (simp_all add: svcCompileWorkflow_def keepResult_def liftS_def readStore_def seqS_def)
qed

end
