(* ===== verification/Workflow_Demo.thy ===== *)
theory Workflow_Demo
  imports Workflow_Counts WorkPlan_Lifecycle
begin

section \<open>Workflows: a concrete workflow\<close>

text \<open>
  A workflow of two work tasks, written in the wrong order, and an automation over them, with a
  required review of the automation by an independent agent.
\<close>

subsection \<open>Tidy words pass the checks\<close>

lemma tidy_unsafeWorkflowText: "tidyWord s \<Longrightarrow> \<not> containsUnsafeWorkflowText s"
proof -
  assume s: "tidyWord s"
  then have t: "list_all tidyChar s" by (simp add: tidyWord_def)
  have "\<forall>m \<in> set unsafeWorkflowMarkers. \<not> list_all tidyChar m"
    by (simp add: unsafeWorkflowMarkers_def tidyChar_def)
  with untidy_absent [OF t] tidy_toLower [OF t] tidy_email [OF s] tidy_phone [OF s] show ?thesis
    by (auto simp: containsUnsafeWorkflowText_def list_ex_iff Let_def)
qed

lemma tidy_rootMarker_wf: "tidyWord s \<Longrightarrow> \<not> containsRootMarker_wf s"
proof -
  assume s: "tidyWord s"
  then have t: "list_all tidyChar s" by (simp add: tidyWord_def)
  have "\<forall>m \<in> {backslash, ''c:/'', ''//wsl.localhost/'', ''/home/'', ''/users/'', ''/var/'', ''/tmp/'', ''/etc/''}.
      \<not> list_all tidyChar m"
    by (simp add: tidyChar_def backslash_def)
  with untidy_absent [OF t] show ?thesis
    by (auto simp: containsRootMarker_wf_def untidy_replaceAll [OF t] tidy_toLower [OF t] tidyWord_trimSpace [OF s] Let_def)
qed

lemma safeWorkflowRef_tidy [simp]: "tidyWord s \<Longrightarrow> safeWorkflowRef s"
proof -
  assume s: "tidyWord s"
  then have t: "list_all tidyChar s" by (simp add: tidyWord_def)
  have "\<forall>m \<in> {backslash, ''..'', ''/''}. \<not> list_all tidyChar m"
    by (simp add: tidyChar_def backslash_def)
  with untidy_absent [OF t] have "\<not> contains s backslash" "\<not> contains s ''..''" "\<not> hasPrefix s ''/''"
    by (auto dest: prefix_imp_sublist)
  with s show ?thesis
    by (simp add: safeWorkflowRef_def Let_def tidyWord_trimSpace tidy_refPattern isAbs_def tidy_email
        tidy_rootMarker_wf tidy_unsafeWorkflowText)
qed

lemma wf_checks_tidy [simp]:
  assumes "tidyWord s"
  shows "optionalRef s f = (True, [])" "requireRef s f = (True, [])"
    "8 \<le> mx \<Longrightarrow> optionalText s f mx = []" "8 \<le> mx \<Longrightarrow> requireText s f mx = []"
proof -
  have "length s \<le> 8" using assms by (simp add: tidyWord_def)
  with assms show "optionalRef s f = (True, [])" "requireRef s f = (True, [])"
    "8 \<le> mx \<Longrightarrow> optionalText s f mx = []" "8 \<le> mx \<Longrightarrow> requireText s f mx = []"
    by (simp_all add: optionalRef_def requireRef_def optionalText_def requireText_def Let_def tidyWord_trimSpace
        unsafeText_def tidy_rootMarker_wf tidy_unsafeWorkflowText addIf_def tidyWord_nonempty)
qed

lemma wf_checks_Nil [simp]:
  "optionalRef [] f = (True, [])" "optionalText [] f mx = []" "resumeInstructions [] f = []"
  "refList [] f = []" "textList [] f mx = []" "safePathList_wf [] f = []"
  by (simp_all add: optionalRef_def optionalText_def resumeInstructions_def refList_def textList_def
      safePathList_wf_def)

lemma refList_tidy [simp]: "\<forall>v \<in> set vs. tidyWord v \<Longrightarrow> refList vs f = []"
  by (auto simp: refList_def in_set_enumerate_eq)

subsection \<open>The workflow\<close>

definition demoAgent :: "string \<Rightarrow> WorkflowAgentDefinition" where
  "demoAgent i = \<lparr>waID = i, waDisplayName = [], waPurpose = i, waInstructions = [], waAllowedSkills = [],
     waAllowedTools = [], waAllowedCommands = [], waDeniedCommands = [], waWorkspaceMode = [],
     waNetworkPolicy = [], waSecretPolicy = ''deny'', waLogPolicy = ''metadata_only'', waMaxRuntime = [],
     waMaxRetries = 0, waCreatedAt = zeroTime, waUpdatedAt = zeroTime\<rparr>"

definition demoFlowStep :: "string \<Rightarrow> string \<Rightarrow> string list \<Rightarrow> WorkflowStep" where
  "demoFlowStep i kind deps = zeroStep\<lparr>wkID := i, wkKind := kind, wkTitle := ''t1'', wkAgent := ''a1'', wkDependsOn := deps\<rparr>"

definition demoGate :: "string list \<Rightarrow> WorkflowReviewGate" where
  "demoGate steps = \<lparr>wgID = ''g1'', wgAppliesTo = steps, wgReviewerAgent = ''b1'', wgRequired = True,
     wgIndependentFromOwner = True, wgRequiredArtifacts = [], wgAllowedActions = [], wgInstructions = ''g1''\<rparr>"

definition demoWorkflow :: "WorkflowStep list \<Rightarrow> string list \<Rightarrow> WorkflowDefinition" where
  "demoWorkflow steps gated = emptyWorkflow\<lparr>wdID := ''w1'', wdProjectID := ''m1'', wdWorkflowRef := ''w1'', wdTitle := ''w1'',
     wdPurpose := ''w1'', wdStatus := WorkflowStatusEnabled, wdAgents := [demoAgent ''a1'', demoAgent ''b1''],
     wdSteps := steps, wdReviewGates := [demoGate gated]\<rparr>"

lemma demoAgent_fields [simp]:
  "waID (demoAgent i) = i" "waDeniedCommands (demoAgent i) = []"
  by (simp_all add: demoAgent_def)

lemma demoFlowStep_fields [simp]:
  "wkID (demoFlowStep i kind deps) = i" "wkKind (demoFlowStep i kind deps) = kind"
  "wkDependsOn (demoFlowStep i kind deps) = deps" "wkAgent (demoFlowStep i kind deps) = ''a1''"
  "wkAutomationStatus (demoFlowStep i kind deps) = []" "wkTriggerKind (demoFlowStep i kind deps) = []"
  by (simp_all add: demoFlowStep_def zeroStep_def)

lemma demoGate_fields [simp]:
  "wgID (demoGate ss) = ''g1''" "wgAppliesTo (demoGate ss) = ss" "wgReviewerAgent (demoGate ss) = ''b1''"
  "wgRequired (demoGate ss)" "wgIndependentFromOwner (demoGate ss)"
  by (simp_all add: demoGate_def)

lemma demoWorkflow_fields [simp]:
  "wdID (demoWorkflow ss g) = ''w1''" "wdProjectID (demoWorkflow ss g) = ''m1''"
  "wdWorkflowRef (demoWorkflow ss g) = ''w1''" "wdStatus (demoWorkflow ss g) = WorkflowStatusEnabled"
  "wdAgents (demoWorkflow ss g) = [demoAgent ''a1'', demoAgent ''b1'']" "wdSteps (demoWorkflow ss g) = ss"
  "wdReviewGates (demoWorkflow ss g) = [demoGate g]"
  by (simp_all add: demoWorkflow_def emptyWorkflow_def)

lemma wf_words [simp]:
  "tidyWord ''a1''" "tidyWord ''b1''" "tidyWord ''g1''" "tidyWord ''w1''" "tidyWord ''m1''" "tidyWord ''t1''" "tidyWord ''s1''"
  "tidyWord ''s2''" "tidyWord ''s3''" "tidyWord ''enabled''"
  by (simp_all add: tidyWord_def tidyChar_def)

lemma demoAgent_valid: "tidyWord i \<Longrightarrow> agentIssues base (demoAgent i) = []"
  by (simp add: agentIssues_def demoAgent_def addIf_def)

lemma demoStep_valid:
  "knownStepKind kind \<Longrightarrow> \<forall>d \<in> set deps. tidyWord d \<Longrightarrow> stepIssues base (demoFlowStep i kind deps) = []"
  by (simp add: stepIssues_def demoFlowStep_def zeroStep_def addIf_def)

definition demoSteps :: "WorkflowStep list" where
  "demoSteps = [demoFlowStep ''s3'' WorkflowStepKindAutomation [''s2''],
     demoFlowStep ''s2'' WorkflowStepKindWorkTask [''s1''], demoFlowStep ''s1'' WorkflowStepKindWorkTask []]"

lemma demo_valid_wf: "validWorkflow (demoWorkflow demoSteps [''s3''])"
proof -
  have k: "knownStepKind WorkflowStepKindAutomation" "knownStepKind WorkflowStepKindWorkTask"
    by (simp_all add: knownStepKind_def stepKinds_def)
  have c: "hasDependencyCycle_wf demoSteps = False"
    by (simp add: hasDependencyCycle_wf_def demoSteps_def stepEdges_def edgesOf_def isNode_def Let_def)
  have s: "validateSteps [demoAgent ''a1'', demoAgent ''b1''] demoSteps = []"
    unfolding validateSteps_def c
    by (simp add: demoSteps_def uniqueID_def demoStep_valid k stepLinkIssues_def addIf_def isAutomationStep_def)
  have a: "validateAgents 0 [] [demoAgent ''a1'', demoAgent ''b1''] = []"
    by (simp add: uniqueID_def demoAgent_valid addIf_def Let_def)
  have g: "validateGates (demoWorkflow demoSteps [''s3'']) = []"
    by (simp add: validateGates_def uniqueID_def gateIssues_def addIf_def demoSteps_def Let_def)
      (simp add: demoGate_def)
  show ?thesis
    unfolding validWorkflow_def validateWorkflow_def demoWorkflow_fields a s g
    by (simp add: validateRequired_def validateWorkflowRefs_def validatePermissionSnapshots_def demoWorkflow_def
        emptyWorkflow_def addIf_def demoSteps_def)
qed

subsection \<open>Services that accept everything\<close>

definition demoCompiledPlan :: WorkPlan where
  "demoCompiledPlan = zeroPlan\<lparr>wpID := ''p1'', wpPlanRef := ''p1''\<rparr>"

definition blankAutomation :: Automation where
  "blankAutomation = \<lparr>auID = [], auProjectID = [], auAutomationRef = [], auTitle = [], auPurpose = [], auStatus = [],
     auAgentID = [], auPlanID = [], auAllowedTaskRefs = [], auRequiredReviewTaskIDs = [], auTriggerKind = [],
     auSourceKind = [], auSchedulePolicy = [], auPermissionRef = [], auCreatedByRunID = [], auTraceID = [],
     auCreatedAt = zeroTime, auUpdatedAt = zeroTime\<rparr>"

definition demoFlowEnv :: "unit WorkflowEnv" where
  "demoFlowEnv = \<lparr>weNow = Pair zeroTime, weNewID = (\<lambda>pre. Pair pre), weDigest = (\<lambda>_. ''d''), weDecodeTOML = (\<lambda>_. None),
     weFormatIssues = (\<lambda>_. []), weErrorText = (\<lambda>_. []), weCompileOptions = [],
     weCreateWorkPlan = (\<lambda>input. Pair (Inr demoCompiledPlan)),
     weCreateWorkTask = (\<lambda>input. Pair (Inr (zeroTask\<lparr>wtID := ctTaskRef input, wtTaskRef := trimSpace (ctTaskRef input)\<rparr>))),
     weUpdateWorkTask = (\<lambda>task. Pair (Inr task)), weCreateAutomation = (\<lambda>input. Pair (Inr blankAutomation)),
     weRange = (\<lambda>tasks. tasks)\<rparr>"

lemma demoFlowEnv_fields [simp]:
  "weNow demoFlowEnv w = (zeroTime, w)" "weNewID demoFlowEnv pre w = (pre, w)" "weDigest demoFlowEnv p = ''d''"
  "weCreateWorkPlan demoFlowEnv i w = (Inr demoCompiledPlan, w)"
  "weCreateWorkTask demoFlowEnv j w = (Inr (zeroTask\<lparr>wtID := ctTaskRef j, wtTaskRef := trimSpace (ctTaskRef j)\<rparr>), w)"
  "weUpdateWorkTask demoFlowEnv t w = (Inr t, w)" "weCreateAutomation demoFlowEnv k w = (Inr blankAutomation, w)"
  "weRange demoFlowEnv ts = ts" "weFormatIssues demoFlowEnv is = []" "weErrorText demoFlowEnv e = []"
  by (simp_all add: demoFlowEnv_def)

lemma demo_api: "work_task_api (weCreateWorkTask demoFlowEnv) (weUpdateWorkTask demoFlowEnv)"
  by unfold_locales auto

text \<open>The plan of the demo workflow: the tasks in dependency order.\<close>

definition demoGraph :: compileGraph where
  "demoGraph = \<lparr>cgTasks = [\<lparr>ptStep = demoFlowStep ''s1'' WorkflowStepKindWorkTask [], ptID = ''work_task''\<rparr>,
       \<lparr>ptStep = demoFlowStep ''s2'' WorkflowStepKindWorkTask [''s1''], ptID = ''work_task''\<rparr>],
     cgAutomationSteps = [demoFlowStep ''s3'' WorkflowStepKindAutomation [''s2'']]\<rparr>"

lemma demo_plan: "planCompileGraph demoFlowEnv (demoWorkflow demoSteps [''s3'']) w = (Inr demoGraph, w)"
  by (simp add: planCompileGraph_def demoSteps_def isAutomationStep_def checkAutomationStep_def
      requiredGatesByStep_def checkIndependence_def hasTaskProducingDependency_def isTaskStep_def stepAt_def stepOf_def
      demoGraph_def seqS_def liftS_def retS_def Let_def)

subsection \<open>A compilation\<close>

definition demoFlow :: WorkflowDefinition where
  "demoFlow = demoWorkflow demoSteps [''s3'']"

lemma demoFlow_fields [simp]:
  "wdID demoFlow = ''w1''" "wdProjectID demoFlow = ''m1''" "wdWorkflowRef demoFlow = ''w1''"
  "wdStatus demoFlow = WorkflowStatusEnabled" "wdSteps demoFlow = demoSteps"
  "wdAgents demoFlow = [demoAgent ''a1'', demoAgent ''b1'']" "wdCreatedByRunID demoFlow = []" "wdTraceID demoFlow = []"
  by (simp_all add: demoFlow_def) (simp_all add: demoWorkflow_def emptyWorkflow_def)

lemma demoFlow_valid: "validWorkflow demoFlow"
  by (simp add: demoFlow_def demo_valid_wf)

text \<open>The names the code makes have no digit where a telephone number could start.\<close>

lemma no_digit_phone:
  assumes "\<forall>c \<in> set s. \<not> inCls digitCls c"
  shows "\<not> matchString phonePattern s"
proof
  assume "matchString phonePattern s"
  then obtain a m b where s: "s = a @ m @ b" and "accepts phonePattern m" by (auto simp: matchString_iff)
  then obtain c where "c \<in> set m" "inCls digitCls c"
    by (fastforce simp: phonePattern_def accepts_Seq)
  with s assms show False by auto
qed

lemma no_at_email: "CHR ''@'' \<notin> set s \<Longrightarrow> \<not> matchString emailPattern s"
proof
  assume "CHR ''@'' \<notin> set s" and "matchString emailPattern s"
  then obtain a m b where s: "s = a @ m @ b" and m: "accepts emailPattern m" by (auto simp: matchString_iff)
  from m have "CHR ''@'' \<in> set m"
    using accepts_needs_char [of emailPattern m] by (auto simp: emailPattern_def)
  with s \<open>CHR ''@'' \<notin> set s\<close> show False by simp
qed

text \<open>What is left to evaluate for a name of lower-case letters, digits, dashes and underscores.\<close>

definition nameChar :: "char \<Rightarrow> bool" where
  "nameChar c = (tidyChar c \<or> (of_char c :: nat) \<in> {45, 95})"

lemma name_toLower: "list_all nameChar s \<Longrightarrow> toLower s = s"
  by (rule toLower_fix)
    (auto simp: nameChar_def tidy_lowerByte lowerByte_def runeU0130_def runeU212A_def bytes_def tidyChar_def Let_def)

lemma name_safe:
  assumes n: "list_all nameChar s" and trim: "trimSpace s = s"
    and "matchFull refPattern s" and "\<not> matchString phonePattern s"
    and "\<not> list_ex (contains s) unsafeWorkflowMarkers"
  shows "safeWorkflowRef s"
proof -
  have low: "toLower s = s" by (rule name_toLower [OF n])
  have "\<not> list_all nameChar p \<Longrightarrow> \<not> contains s p" for p
    using n by (auto simp: list_all_iff dest!: set_mono_sublist)
  moreover have "\<forall>m \<in> {backslash, ''..'', ''/'', ''c:/'', ''//wsl.localhost/'', ''/home/'', ''/users/'', ''/var/'', ''/tmp/'', ''/etc/''}.
      \<not> list_all nameChar m"
    by (simp add: nameChar_def tidyChar_def backslash_def)
  ultimately have m: "\<forall>m \<in> {backslash, ''..'', ''/'', ''c:/'', ''//wsl.localhost/'', ''/home/'', ''/users/'', ''/var/'', ''/tmp/'', ''/etc/''}.
      \<not> contains s m" by blast
  have "CHR ''@'' \<notin> set s" using n by (auto simp: list_all_iff nameChar_def tidyChar_def)
  then have "\<not> matchString emailPattern s" by (rule no_at_email)
  moreover have "\<not> hasPrefix s ''/''" using m by (auto dest: prefix_imp_sublist)
  moreover have "replaceAll backslash ''/'' s = s" using m by (intro replaceAll_absent) blast
  ultimately show ?thesis
    using assms(3-5) m
    by (simp add: safeWorkflowRef_def containsRootMarker_wf_def containsUnsafeWorkflowText_def low trim isAbs_def Let_def)
qed

lemma demo_tokens: "safeRefToken ''w1'' = ''wb''" "safeRefToken ''a1'' = ''ab''" "safeRefToken ''b1'' = ''bb''"
proof -
  have "toLower ''w1'' = ''w1''" "toLower ''a1'' = ''a1''" "toLower ''b1'' = ''b1''"
    by (simp_all add: tidy_toLower tidyChar_def del: toLower.simps)
  moreover have "tokenByte CHR ''w'' = ''w''" "tokenByte CHR ''1'' = ''b''" "tokenByte CHR ''a'' = ''a''" "tokenByte CHR ''b'' = ''b''"
    by code_simp+
  ultimately show "safeRefToken ''w1'' = ''wb''" "safeRefToken ''a1'' = ''ab''" "safeRefToken ''b1'' = ''bb''"
    by (simp_all add: safeRefToken_def trimCut_def del: toLower.simps)
qed

lemma demo_snapshot_ids:
  "permissionSnapshotID ''w1'' ''a1'' = ''permission-snapshot-wb-ab''"
  "permissionSnapshotID ''w1'' ''b1'' = ''permission-snapshot-wb-bb''"
  by (simp_all add: permissionSnapshotID_def demo_tokens)

lemma demo_marker_free:
  "\<not> list_ex (contains ''permission-snapshot-wb-ab'') unsafeWorkflowMarkers"
  "\<not> list_ex (contains ''permission-snapshot-wb-bb'') unsafeWorkflowMarkers"
  "\<not> list_ex (contains ''metadata_only'') unsafeWorkflowMarkers" "\<not> list_ex (contains ''sha256-d'') unsafeWorkflowMarkers"
  by (simp_all add: unsafeWorkflowMarkers_def sublist_Cons_right)

lemma demo_pattern:
  "matchFull refPattern ''permission-snapshot-wb-ab''" "matchFull refPattern ''permission-snapshot-wb-bb''"
  "matchFull refPattern ''metadata_only''" "matchFull refPattern ''sha256-d''"
  by (simp_all add: refPattern_iff refFirst_def refRest_def inCls_def upperCls_def lowerCls_def digitCls_def
      chrs_def chr_def rng_def del: inCls_append)

lemma demo_phone:
  "\<not> matchString phonePattern ''permission-snapshot-wb-ab''" "\<not> matchString phonePattern ''permission-snapshot-wb-bb''"
  "\<not> matchString phonePattern ''metadata_only''" "\<not> matchString phonePattern ''sha256-d''"
proof -
  show "\<not> matchString phonePattern ''permission-snapshot-wb-ab''" "\<not> matchString phonePattern ''permission-snapshot-wb-bb''"
    "\<not> matchString phonePattern ''metadata_only''"
    by (rule no_digit_phone, simp add: inCls_def digitCls_def rng_def)+
  show "\<not> matchString phonePattern ''sha256-d''"
  proof
    assume "matchString phonePattern ''sha256-d''"
    then obtain a m b where s: "''sha256-d'' = a @ m @ b" and m: "accepts phonePattern m"
      by (auto simp: matchString_iff)
    have "length ''sha256-d'' = length a + length m + length b" unfolding s by simp
    with phonePattern_length [OF m] show False by simp
  qed
qed

lemma demo_names:
  "safeWorkflowRef ''permission-snapshot-wb-ab''" "safeWorkflowRef ''permission-snapshot-wb-bb''"
  "safeWorkflowRef ''metadata_only''" "safeWorkflowRef ''sha256-d''"
  by (rule name_safe; (rule demo_pattern demo_phone demo_marker_free)?;
      simp add: nameChar_def tidyChar_def trimSpace_graphic graphic_def)+

lemma demo_snapshot_refs [simp]:
  "requireRef ''permission-snapshot-wb-ab'' f = (True, [])" "requireRef ''permission-snapshot-wb-bb'' f = (True, [])"
  "optionalRef ''metadata_only'' f = (True, [])" "optionalRef ''sha256-d'' f = (True, [])"
  using demo_names by (simp_all add: requireRef_def optionalRef_def trimSpace_graphic graphic_def)

lemma demo_texts [simp]:
  "trimSpace ''metadata_only'' = ''metadata_only''" "tidyWord ''deny''" "safeHashText ''d'' = ''d''"
  by (simp_all add: trimSpace_graphic graphic_def tidyWord_def tidyChar_def safeHashText_def)

lemma demo_snapshot_valid:
  "i = ''a1'' \<or> i = ''b1'' \<Longrightarrow> snapshotIssues base (agentSnapshot demoFlowEnv demoFlow (demoAgent i) now) = []"
  by (elim disjE)
    (simp_all add: snapshotIssues_def agentSnapshot_def demo_snapshot_ids sortedCopy_def
      permissionSnapshotContentHash_def demoAgent_def Let_def)

lemma demo_snapshot:
  assumes "i = ''a1'' \<or> i = ''b1''"
  shows "permissionSnapshotForAgent demoFlowEnv demoFlow (demoAgent i) w
    = (Inr (agentSnapshot demoFlowEnv demoFlow (demoAgent i) zeroTime), w)"
proof -
  let ?flow = "emptyWorkflow\<lparr>wdID := wdID demoFlow, wdProjectID := wdProjectID demoFlow, wdTitle := wdTitle demoFlow,
    wdPurpose := wdPurpose demoFlow, wdStatus := wdStatus demoFlow, wdAgents := wdAgents demoFlow,
    wdSteps := wdSteps demoFlow, wdReviewGates := wdReviewGates demoFlow,
    wdPermissionSnapshots := [agentSnapshot demoFlowEnv demoFlow (demoAgent i) zeroTime]\<rparr>"
  have "\<not> hasErrorIssues (validateWorkflow ?flow)"
    using demoFlow_valid demo_snapshot_valid [OF assms]
    unfolding validWorkflow_def validateWorkflow_def hasErrorIssues_simps
    by (simp add: validateRequired_def validateWorkflowRefs_def validateGates_def validatePermissionSnapshots_def
        emptyWorkflow_def del: demoFlow_fields(5,6))
  then show ?thesis
    by (simp add: permissionSnapshotForAgent_def nowS_def seqS_def retS_def Let_def)
qed

definition demoFlowStore :: WorkflowStore where
  "demoFlowStore = addWorkflow newWorkflowStore demoFlow"

definition demoCompile :: WorkflowCompileInput where
  "demoCompile = \<lparr>wiProjectID = ''m1'', wiWorkflowID = ''w1'', wiUserRequestRef = [], wiCreatedByRunID = [],
     wiTraceID = [], wiTitleOverride = [], wiDryRun = False\<rparr>"

lemma safeWorkflowRefs_tidy [simp]:
  "tidyWord v \<Longrightarrow> safeOptionalWorkflowRef v f = Inr v" "tidyWord v \<Longrightarrow> safeRequiredWorkflowRef v f = Inr v"
  "safeOptionalWorkflowRef [] f = Inr []"
  by (simp_all add: safeOptionalWorkflowRef_def safeRequiredWorkflowRef_def tidyWord_nonempty Let_def)

lemma demo_get: "memGetWorkflow ''m1'' ''w1'' demoFlowStore = Inr demoFlow"
  by (simp add: demoFlowStore_def memGetWorkflow_Inr workflows.adding.get_put workflowKey_def)

definition demoSnapshot :: WorkflowPermissionSnapshot where
  "demoSnapshot = agentSnapshot demoFlowEnv demoFlow (demoAgent ''a1'') zeroTime"

lemma demo_ensure:
  "\<exists>snaps st. ensureCompileSnapshots demoFlowEnv demoFlow ((), demoFlowStore) = (Inr snaps, ((), st))
    \<and> getSnapshot st (''m1'', ''permission-snapshot-wb-ab'') = Some demoSnapshot"
proof -
  have e: "memListPermissionSnapshots flt demoFlowStore = []" for flt
    by (simp add: memListPermissionSnapshots_def demoFlowStore_def addWorkflow_def newWorkflowStore_def)
  have n: "getSnapshot demoFlowStore k = None" for k
    by (simp add: demoFlowStore_def) (simp add: getSnapshot_def newWorkflowStore_def)
  have k: "snapshotKey (agentSnapshot demoFlowEnv demoFlow (demoAgent i) zeroTime) = (''m1'', permissionSnapshotID ''w1'' i)" for i
    by (simp add: snapshotKey_def agentSnapshot_def Let_def)
  show ?thesis
    by (simp add: ensureCompileSnapshots_def readStore_def seqS_def e byAgentID_def inWorld_def inStore_def demo_snapshot
        memCreatePermissionSnapshot_eq n k demo_snapshot_ids snapshots.get_put retS_def store_simps
        demoSnapshot_def)
qed

lemma demo_createTasks:
  "\<exists>t r. createTasks demoFlowEnv run items tbl res w = (Inr (t, r), w)"
  by (induction items arbitrary: tbl res)
    (simp_all add: retS_def seqS_def keepResult_def wrapS_def wrapError_def)

lemma demo_createReviews:
  "\<exists>x. createReviews demoFlowEnv ps st w = (Inr x, w)"
proof (induction ps arbitrary: st)
  case Nil
  then show ?case by (cases st) (simp add: retS_def)
next
  case (Cons p ps)
  obtain a b c where st: "st = (a, b, c)" using prod_cases3 by blast
  obtain d e f g h where p: "p = (d, e, f, g, h)" using prod_cases5 by blast
  show ?case using Cons.IH by (simp add: st p seqS_def keepResult_def wrapS_def wrapError_def)
qed

lemma demo_updates:
  "\<exists>t. updateDependencies demoFlowEnv run tr ar items tbl res w = (Inr t, w)"
  by (induction items arbitrary: tbl)
    (auto simp: retS_def seqS_def keepResult_def wrapS_def wrapError_def Let_def split: option.splits)

lemma demo_automations: "\<exists>r. createAutomations demoFlowEnv ps res w = (Inr r, w)"
proof (induction ps arbitrary: res)
  case Nil
  then show ?case by (simp add: retS_def)
next
  case (Cons p ps)
  then show ?case by (cases p) simp
qed

lemma demo_objects: "\<exists>r. compileObjects demoFlowEnv run graph sba res w = (Inr r, w)"
proof -
  obtain t r1 where 1: "createTasks demoFlowEnv run (cgTasks graph) [] res w = (Inr (t, r1), w)"
    using demo_createTasks by blast
  obtain tr tv r2 where 2: "createReviews demoFlowEnv (taskReviewPlans run (weRange demoFlowEnv (tvals t))) ([], [], r1) w
      = (Inr (tr, tv, r2), w)"
    using demo_createReviews by (metis prod_cases3)
  obtain ar av r3 where 3: "createReviews demoFlowEnv (automationReviewPlans run (cgAutomationSteps graph)) ([], [], r2) w
      = (Inr (ar, av, r3), w)"
    using demo_createReviews by (metis prod_cases3)
  obtain u where 4: "updateDependencies demoFlowEnv run tr ar (cgTasks graph) t r3 w = (Inr u, w)"
    using demo_updates by blast
  from 1 2 3 4 demo_automations show ?thesis by (simp add: compileObjects_def seqS_def)
qed

lemma demo_compile:
  "\<exists>r st. svcCompileWorkflow demoFlowEnv demoCompile ((), demoFlowStore) = (Inr r, ((), st))
    \<and> getSnapshot st (''m1'', ''permission-snapshot-wb-ab'') = Some demoSnapshot"
proof -
  have i: "\<not> hasErrorIssues (compileIssues demoFlow)"
    using demoFlow_valid by (simp add: compileIssues_valid)
  have p: "inWorld (planCompileGraph demoFlowEnv demoFlow) ((), demoFlowStore) = (Inr demoGraph, ((), demoFlowStore))"
    by (simp add: inWorld_def demoFlow_def demo_plan)
  obtain snaps st where n: "ensureCompileSnapshots demoFlowEnv demoFlow ((), demoFlowStore) = (Inr snaps, ((), st))"
    and g: "getSnapshot st (''m1'', ''permission-snapshot-wb-ab'') = Some demoSnapshot"
    using demo_ensure by blast
  have "\<exists>r. compileEnabled demoFlowEnv demoFlow demoGraph [] [] [] [] ((), demoFlowStore) = (Inr r, ((), st))"
    unfolding compileEnabled_def
    by (simp add: seqS_def inWorld_def newIDS_wf_def nowS_def keepResult_def n Let_def split: prod.splits sum.splits)
      (metis demo_objects old.sum.distinct(1) prod.inject sum.distinct(1))
  then have "\<exists>r. compileStored demoFlowEnv demoFlow False [] [] [] [] ((), demoFlowStore) = (Inr r, ((), st))"
    using i p by (simp add: compileStored_def)
  with g show ?thesis
    by (auto simp add: svcCompileWorkflow_def demoCompile_def safeOptionalCompileText_def seqS_def keepResult_def liftS_def
        readStore_def demo_get)
qed

subsection \<open>It is reached\<close>

lemma demo_stamped: "stampAgent zeroTime (demoAgent i) = demoAgent i"
  by (simp add: stampAgent_def demoAgent_def)

lemma demoFlow_times [simp]: "wdCreatedAt demoFlow = zeroTime" "wdUpdatedAt demoFlow = zeroTime"
  by (simp_all add: demoFlow_def demoWorkflow_def emptyWorkflow_def)

lemma demo_prepared: "prepareWorkflow demoFlowEnv demoFlow [] [] False w = (Inr demoFlow, w)"
proof -
  have s: "preparedStatus False WorkflowStatusEnabled = Inr WorkflowStatusEnabled"
    by (simp add: preparedStatus_def safeWorkflowStatus_def workflowStatuses_def tryE_def)
  have f: "firstNonEmpty [[], []] = []" by simp
  have n: "nowS demoFlowEnv = retS zeroTime" by (simp add: fun_eq_iff nowS_def retS_def)
  have "prepareWorkflow demoFlowEnv demoFlow [] [] False = retS (demoFlow\<lparr>wdID := wdID demoFlow,
      wdProjectID := wdProjectID demoFlow, wdWorkflowRef := wdWorkflowRef demoFlow, wdStatus := wdStatus demoFlow,
      wdCreatedByRunID := wdCreatedByRunID demoFlow, wdTraceID := wdTraceID demoFlow,
      wdCreatedAt := wdCreatedAt demoFlow, wdUpdatedAt := wdUpdatedAt demoFlow, wdAgents := wdAgents demoFlow\<rparr>)"
    unfolding prepareWorkflow_def
    by (simp add: demo_stamped s f n fun_eq_iff tidyWord_nonempty del: firstNonEmpty.simps)
  then show ?thesis by (simp only: retS_def) simp
qed

lemma demo_created:
  "svcCreateWorkflow demoFlowEnv \<lparr>wcDefinition = demoFlow, wcCreatedByRunID = [], wcTraceID = []\<rparr> ((), newWorkflowStore)
    = (Inr demoFlow, ((), demoFlowStore))"
proof -
  have "getWorkflow newWorkflowStore k = None" "\<not> refTaken newWorkflowStore k" for k
    by (simp_all add: getWorkflow_def refTaken_def newWorkflowStore_def thas_def)
  moreover have "\<not> hasErrorIssues (validateWorkflow demoFlow)"
    using demoFlow_valid by (simp add: validWorkflow_def)
  ultimately show ?thesis
    by (simp add: svcCreateWorkflow_def seqS_def inWorld_def demo_prepared inStore_def memCreateWorkflow_eq demoFlowStore_def)
qed

end
