(* ===== verification/Workflow_Properties.thy ===== *)
theory Workflow_Properties
  imports Workflow_Demo
begin

section \<open>Workflows: properties of the compiler\<close>

text \<open>
  The order of the compiled tasks, which valid workflows can be compiled, and what a dry run
  tells about the compilation.
\<close>

text \<open>
  C20. When the planner succeeds, its tasks are the work task steps of the workflow, each exactly
  once, and every work task a step depends on comes before it.
\<close>

theorem planned_tasks_in_order:
  assumes "planCompileGraph env flow w = (Inr g, w')"
  shows "distinct (map (\<lambda>t. wkID (ptStep t)) (cgTasks g))
    \<and> set (map (\<lambda>t. wkID (ptStep t)) (cgTasks g)) = {i. isTaskStep (wdSteps flow) i}
    \<and> (\<forall>pre t post d. cgTasks g = pre @ t # post \<longrightarrow> d \<in> set (wkDependsOn (ptStep t))
          \<longrightarrow> isTaskStep (wdSteps flow) d \<longrightarrow> d \<in> set (map (\<lambda>t. wkID (ptStep t)) pre))"
  using planned_order [OF assms] unfolding taskNames_def by blast

lemma planned_tasks_in_order_witness:
  "distinct (map (\<lambda>t. wkID (ptStep t)) (cgTasks demoGraph))
   \<and> map (\<lambda>t. wkID (ptStep t)) (cgTasks demoGraph) = [''s1'', ''s2'']"
  using planned_tasks_in_order [OF demo_plan [of "()"]] by (simp add: demoGraph_def)

text \<open>
  C23. A valid workflow can be planned iff every automation step has a required gate and depends
  on a work task, and no required independent gate of an automation or work task step is
  reviewed by the agent of the step: the planner's own cycle check never fires.
\<close>

theorem planner_accepts_iff:
  assumes "validWorkflow flow"
  shows "(\<exists>g w'. planCompileGraph env flow w = (Inr g, w')) \<longleftrightarrow>
    (\<forall>s \<in> set (wdSteps flow).
       (isAutomationStep s \<longrightarrow> requiredGatesByStep (wdReviewGates flow) (wkID s) \<noteq> []
          \<and> (\<exists>d \<in> set (wkDependsOn s). isTaskStep (wdSteps flow) d))
       \<and> (isAutomationStep s \<or> wkKind s = WorkflowStepKindWorkTask \<longrightarrow>
          (\<forall>gate \<in> set (requiredGatesByStep (wdReviewGates flow) (wkID s)).
             \<not> (wgIndependentFromOwner gate \<and> wgReviewerAgent gate = wkAgent s))))"
    (is "?L \<longleftrightarrow> ?R")
proof -
  have ind: "checkIndependence gates s = Inr () \<longleftrightarrow>
      (\<forall>gate \<in> set gates. \<not> (wgIndependentFromOwner gate \<and> wgReviewerAgent gate = wkAgent s))" for gates s
    by (auto simp: checkIndependence_def find_None_iff split: option.splits dest: find_SomeD)
  have auto_ok: "checkAutomationStep flow s = Inr () \<longleftrightarrow>
      requiredGatesByStep (wdReviewGates flow) (wkID s) \<noteq> []
      \<and> checkIndependence (requiredGatesByStep (wdReviewGates flow) (wkID s)) s = Inr ()
      \<and> (\<exists>d \<in> set (wkDependsOn s). isTaskStep (wdSteps flow) d)" for s
    by (auto simp: checkAutomationStep_def res_simps hasTaskProducingDependency_def list_ex_iff Let_def)
  note at = stepAt_member [OF assms]
  have L: "?L \<longleftrightarrow> (\<forall>s \<in> set (wdSteps flow). isAutomationStep s \<longrightarrow> checkAutomationStep flow s = Inr ())
      \<and> (\<forall>s \<in> set (wdSteps flow). wkKind s = WorkflowStepKindWorkTask \<longrightarrow>
           checkIndependence (requiredGatesByStep (wdReviewGates flow) (wkID s)) s = Inr ())"
    (is "_ \<longleftrightarrow> ?A \<and> ?T")
  proof
    assume ?L
    then obtain g w' where p: "planCompileGraph env flow w = (Inr g, w')" by blast
    then obtain v where a: "planAutomations flow (wdSteps flow) = Inr (cgAutomationSteps g)"
      and t: "visitTaskDeps env flow [] [] [] (map wkID (wdSteps flow)) w = (Inr (v, cgTasks g), w')"
      by (rule planCompileGraph_Inr)
    from a have ?A by (auto simp: planAutomations_Inr)
    moreover have ?T
    proof (intro ballI impI)
      fix s assume s: "s \<in> set (wdSteps flow)" "wkKind s = WorkflowStepKindWorkTask"
      then have "isTaskStep (wdSteps flow) (wkID s)" by (simp add: isTaskStep_def at)
      then have "wkID s \<in> set v"
        using planned_order(2) [OF p] planTasks_search(1) [OF t] by auto
      then have "independent flow (wkID s)" using planTasks_search(5) [OF t] by blast
      then show "checkIndependence (requiredGatesByStep (wdReviewGates flow) (wkID s)) s = Inr ()"
        by (simp add: independent_def at [OF s(1)])
    qed
    ultimately show "?A \<and> ?T" ..
  next
    assume r: "?A \<and> ?T"
    then have a: "planAutomations flow (wdSteps flow) = Inr (filter isAutomationStep (wdSteps flow))"
      by (simp add: planAutomations_Inr)
    have i: "independent flow x" if "isTaskStep (wdSteps flow) x" for x
      using isTaskStep_known [OF that] r that by (auto simp: independent_def isTaskStep_def)
    have "\<exists>v ts w'. visitTaskDeps env flow [] [] [] (map wkID (wdSteps flow)) w = (Inr (v, ts), w')"
      by (rule planTasks_succeeds [OF assms]) (rule i)
    with a show ?L by (fastforce simp: planCompileGraph_def seqS_def liftS_def retS_def)
  qed
  show ?thesis unfolding L auto_ok ind by blast
qed

lemma planner_accepts_iff_witness:
  "\<exists>g w'. planCompileGraph demoFlowEnv (demoWorkflow demoSteps [''s3'']) () = (Inr g, w')"
  unfolding planner_accepts_iff [OF demo_valid_wf]
  by (simp add: demoSteps_def isAutomationStep_def requiredGatesByStep_def isTaskStep_def stepAt_def stepOf_def)



end
