(* ===== verification/Workflow_Valid.thy ===== *)
theory Workflow_Valid
  imports Workflow_Demo
begin

section \<open>Workflows: what is stored is valid\<close>

text \<open>
  The code validates a created workflow as it is stored, but an imported one before it is
  prepared, and then again with each permission snapshot. Both ways the stored workflow is
  valid. Whether a check finds an error does not depend on the field path it reports.
\<close>

subsection \<open>Errors of a check\<close>

lemma ex_enumerate: "(\<exists>x \<in> set (enumerate n vs). P (snd x)) \<longleftrightarrow> (\<exists>v \<in> set vs. P v)"
  by (induction vs arbitrary: n) auto

lemma optionalRef_errors [simp]:
  "hasErrorIssues (snd (optionalRef v f)) \<longleftrightarrow> trimSpace v \<noteq> [] \<and> \<not> safeWorkflowRef v"
  by (simp add: optionalRef_def safeWorkflowRef_def Let_def)

lemma optionalText_errors:
  "hasErrorIssues (optionalText v f mx) \<longleftrightarrow>
    trimSpace v \<noteq> [] \<and> (length (trimSpace v) > mx \<or> unsafeText (trimSpace v))"
  by (simp add: optionalText_def Let_def)

lemma list_errors:
  "hasErrorIssues (refList vs f) \<longleftrightarrow> (\<exists>v \<in> set vs. trimSpace v \<noteq> [] \<and> \<not> safeWorkflowRef v)"
  "hasErrorIssues (textList vs f mx) \<longleftrightarrow> (\<exists>v \<in> set vs. hasErrorIssues (optionalText v [] mx))"
  using ex_enumerate [of 0 vs "\<lambda>v. trimSpace v \<noteq> [] \<and> \<not> safeWorkflowRef v"]
    ex_enumerate [of 0 vs "\<lambda>v. hasErrorIssues (optionalText v [] mx)"]
  by (simp_all add: refList_def textList_def case_prod_beta optionalText_errors)

lemma snapshot_errors_base: "hasErrorIssues (snapshotIssues base s) = hasErrorIssues (snapshotIssues base' s)"
  by (simp add: snapshotIssues_def list_errors optionalText_errors requireRef_def)

lemma snapshots_errors:
  "hasErrorIssues (validatePermissionSnapshots ss) \<longleftrightarrow> (\<exists>s \<in> set ss. hasErrorIssues (snapshotIssues [] s))"
proof -
  have "hasErrorIssues (validatePermissionSnapshots ss) \<longleftrightarrow>
      (\<exists>x \<in> set (enumerate 0 ss). hasErrorIssues (snapshotIssues [] (snd x)))"
    using snapshot_errors_base by (simp add: validatePermissionSnapshots_def case_prod_beta) blast
  also have "\<dots> \<longleftrightarrow> (\<exists>s \<in> set ss. hasErrorIssues (snapshotIssues [] s))"
    by (rule ex_enumerate)
  finally show ?thesis .
qed

subsection \<open>Checked references\<close>

text \<open>A reference that the service has checked and that is present.\<close>

definition cleanRef :: "string \<Rightarrow> bool" where
  "cleanRef v \<longleftrightarrow> v \<noteq> [] \<and> trimSpace v = v \<and> safeWorkflowRef v"

lemma safeWorkflowRef_trim [simp]: "safeWorkflowRef (trimSpace v) = safeWorkflowRef v"
  by (simp add: safeWorkflowRef_def)

lemma safeOptionalWorkflowRef_Inr: "safeOptionalWorkflowRef v f = Inr r \<Longrightarrow> r = [] \<or> cleanRef r"
  by (auto simp: safeOptionalWorkflowRef_def cleanRef_def Let_def split: if_splits)

lemma safeRequiredWorkflowRef_Inr: "safeRequiredWorkflowRef v f = Inr r \<longleftrightarrow> r = trimSpace v \<and> cleanRef r"
  by (auto simp: safeRequiredWorkflowRef_def safeOptionalWorkflowRef_def cleanRef_def Let_def)

lemma cleanRef_required: "cleanRef v \<Longrightarrow> safeRequiredWorkflowRef v f = Inr v"
  by (simp add: safeRequiredWorkflowRef_Inr) (simp add: cleanRef_def)

lemma cleanRef_errors: "v = [] \<or> cleanRef v \<Longrightarrow> \<not> hasErrorIssues (snd (optionalRef v f))"
  by (auto simp: cleanRef_def)

subsection \<open>Prepared workflows\<close>

definition statusKnown :: "WorkflowDefinition \<Rightarrow> bool" where
  "statusKnown w \<longleftrightarrow> wdStatus w \<in> set workflowStatuses"

lemma status_ref: "s \<in> set workflowStatuses \<Longrightarrow> \<not> hasErrorIssues (snd (optionalRef s f))"
proof -
  have m: "\<not> list_ex (contains ''superseded'') unsafeWorkflowMarkers"
    by (simp add: unsafeWorkflowMarkers_def sublist_Cons_right)
  have p: "matchFull refPattern ''superseded''"
    by (simp add: refPattern_iff refFirst_def refRest_def inCls_def upperCls_def lowerCls_def digitCls_def
        chrs_def chr_def rng_def del: inCls_append)
  have d: "\<not> matchString phonePattern ''superseded''"
    by (rule no_digit_phone) (simp add: inCls_def digitCls_def rng_def)
  have "safeWorkflowRef ''superseded''"
    by (rule name_safe [OF _ _ p d m]) (simp_all add: nameChar_def tidyChar_def trimSpace_graphic graphic_def)
  moreover have "tidyWord ''draft''" "tidyWord ''enabled''" "tidyWord ''disabled''"
    by (simp_all add: tidyWord_def tidyChar_def)
  moreover assume "s \<in> set workflowStatuses"
  ultimately show ?thesis by (auto simp: workflowStatuses_def simp del: optionalRef_errors) simp
qed

lemma preparedStatus_Inr: "preparedStatus b s0 = Inr s \<Longrightarrow> s \<in> set workflowStatuses"
proof -
  have "safeWorkflowStatus s0 = Inr x \<Longrightarrow> x \<in> set workflowStatuses" for x
    by (auto simp: safeWorkflowStatus_def split: if_splits)
  moreover have "WorkflowStatusDraft \<in> set workflowStatuses" "WorkflowStatusEnabled \<in> set workflowStatuses"
    by (simp_all add: workflowStatuses_def)
  moreover assume "preparedStatus b s0 = Inr s"
  ultimately show ?thesis by (auto simp only: preparedStatus_def tryE_Inr setIf_Inr sum.inject split: if_splits)
qed

text \<open>What preparation keeps of a definition, and what it checks.\<close>

definition sameContent :: "WorkflowDefinition \<Rightarrow> WorkflowDefinition \<Rightarrow> bool" where
  "sameContent d w \<longleftrightarrow> wdTitle w = wdTitle d \<and> wdPurpose w = wdPurpose d \<and> length (wdAgents w) = length (wdAgents d)
     \<and> wdSteps w = wdSteps d \<and> wdReviewGates w = wdReviewGates d"

text \<open>An identifier comes without padding from the definition, or from the generator as it is.\<close>

definition identMade :: "'w WorkflowEnv \<Rightarrow> string \<Rightarrow> bool" where
  "identMade env i \<longleftrightarrow> trimSpace i = i \<or> (\<exists>w. fst (weNewID env ''workflow'' w) = i)"

definition checkedRefs :: "'w WorkflowEnv \<Rightarrow> WorkflowDefinition \<Rightarrow> bool" where
  "checkedRefs env w \<longleftrightarrow> cleanRef (wdProjectID w) \<and> statusKnown w
     \<and> (wdCreatedByRunID w = [] \<or> cleanRef (wdCreatedByRunID w)) \<and> (wdTraceID w = [] \<or> cleanRef (wdTraceID w))
     \<and> (wdWorkflowRef w = wdID w \<or> cleanRef (wdWorkflowRef w)) \<and> identMade env (wdID w)"

lemma prepareWorkflow_ident:
  assumes "prepareWorkflow env d run tr b w = (Inr x, w')"
  shows "identMade env (wdID x)"
  using assms unfolding prepareWorkflow_def seqS_Inr liftS_eq
proof (elim exE conjE, goal_cases)
  case (1 p s1 i0 s2 i s3)
  then have i0: "safeOptionalWorkflowRef (wdID d) ''id'' = Inr i0"
    and i: "(if i0 = [] then newIDS_wf env ''workflow'' else retS i0) s2 = (Inr i :: error + string, s3)"
    by blast+
  have x: "wdID x = i" using 1 by (simp add: retS_eq)
  show ?case
  proof (cases "i0 = []")
    case True
    with i have "fst (weNewID env ''workflow'' s2) = i" by (simp add: newIDS_wf_def split: prod.splits)
    with x show ?thesis unfolding identMade_def by blast
  next
    case False
    with i have "i = i0" by (simp add: retS_eq)
    with False x safeOptionalWorkflowRef_Inr [OF i0] show ?thesis by (simp add: identMade_def cleanRef_def)
  qed
qed

lemma prepareWorkflow_Inr:
  assumes "prepareWorkflow env d run tr b w = (Inr x, w')"
  shows "sameContent d x" and "checkedRefs env x"
proof -
  from assms obtain p i0 i ref r t s now where
    checks: "safeRequiredWorkflowRef (wdProjectID d) ''project_id'' = Inr p"
      "safeOptionalWorkflowRef (wdWorkflowRef d) ''workflow_ref'' = Inr ref"
      "safeOptionalWorkflowRef (firstNonEmpty [run, wdCreatedByRunID d]) ''created_by_run_id'' = Inr r"
      "safeOptionalWorkflowRef (firstNonEmpty [tr, wdTraceID d]) ''trace_id'' = Inr t"
      "preparedStatus b (wdStatus d) = Inr s"
    and x: "x = d\<lparr>wdID := i, wdProjectID := p, wdWorkflowRef := (if ref = [] then i else ref), wdStatus := s,
       wdCreatedByRunID := r, wdTraceID := t,
       wdCreatedAt := (if wdCreatedAt d = zeroTime then now else wdCreatedAt d), wdUpdatedAt := now,
       wdAgents := map (stampAgent now) (wdAgents d)\<rparr>"
    unfolding prepareWorkflow_def by (auto simp only: seqS_Inr liftS_eq retS_eq)
  show "sameContent d x" by (simp add: sameContent_def x)
  have made: "identMade env i" using prepareWorkflow_ident [OF assms] by (simp add: x)
  show "checkedRefs env x"
    using safeOptionalWorkflowRef_Inr [OF checks(2)] safeOptionalWorkflowRef_Inr [OF checks(3)]
      safeOptionalWorkflowRef_Inr [OF checks(4)] preparedStatus_Inr [OF checks(5)] checks(1)
    by (auto simp: checkedRefs_def x made statusKnown_def safeRequiredWorkflowRef_Inr)
qed

subsection \<open>Validity by parts\<close>

lemma validWorkflow_parts:
  "validWorkflow w \<longleftrightarrow> \<not> hasErrorIssues (validateRequired w) \<and> \<not> hasErrorIssues (validateWorkflowRefs w)
    \<and> \<not> hasErrorIssues (validateAgents 0 [] (wdAgents w)) \<and> \<not> hasErrorIssues (validateSteps (wdAgents w) (wdSteps w))
    \<and> \<not> hasErrorIssues (validateGates w) \<and> (\<forall>s \<in> set (wdPermissionSnapshots w). \<not> hasErrorIssues (snapshotIssues [] s))"
  by (auto simp: validWorkflow_def validateWorkflow_def snapshots_errors)

lemma valid_status:
  assumes "validWorkflow w" and "nxt \<in> set workflowStatuses"
  shows "validWorkflow (w\<lparr>wdStatus := nxt, wdUpdatedAt := now\<rparr>)"
proof -
  have "\<not> hasErrorIssues (snd (optionalRef nxt ''status''))" by (rule status_ref [OF assms(2)])
  with assms(1) show ?thesis
    by (simp add: validWorkflow_parts validateRequired_def validateWorkflowRefs_def validateGates_def
        del: optionalRef_errors)
qed

text \<open>The references that the service checks are all that validation asks of the others.\<close>

lemma checkedRefs_valid:
  assumes "checkedRefs env w" and "safeWorkflowRef (wdID w)"
  shows "\<not> hasErrorIssues (validateWorkflowRefs w)"
proof -
  have s: "\<not> hasErrorIssues (snd (optionalRef (wdStatus w) ''status''))"
    using assms(1) by (intro status_ref) (simp add: checkedRefs_def statusKnown_def)
  from assms show ?thesis
    by (simp add: validateWorkflowRefs_def s del: optionalRef_errors)
      (auto simp: checkedRefs_def cleanRef_def)
qed

lemma validateRequired_id: "\<not> hasErrorIssues (validateRequired w) \<Longrightarrow> safeWorkflowRef (wdID w) \<and> wdAgents w \<noteq> []"
  by (auto simp: validateRequired_def requireRef_def split: if_splits)

subsection \<open>Permission snapshots\<close>

definition wellFormed_snapshot :: "WorkflowPermissionSnapshot \<Rightarrow> bool" where
  "wellFormed_snapshot s \<longleftrightarrow> cleanRef (wnProjectID s) \<and> cleanRef (wnID s) \<and> list_all graphic (wnID s)"

lemma tokenByte_graphic: "list_all graphic (tokenByte c)"
  by (simp add: tokenByte_def graphic_def Let_def)

lemma permissionSnapshotID_graphic: "list_all graphic (permissionSnapshotID i a) \<and> permissionSnapshotID i a \<noteq> []"
proof -
  have t: "list_all graphic (safeRefToken v)" for v
    using tokenByte_graphic by (auto simp: safeRefToken_def trimCut_def list_all_iff dest!: set_dropWhileD)
  show ?thesis using t by (simp add: permissionSnapshotID_def Let_def) (simp add: graphic_def)
qed

lemma agentSnapshot_fields [simp]:
  "wnID (agentSnapshot env flow a now) = permissionSnapshotID (wdID flow) (waID a)"
  "wnProjectID (agentSnapshot env flow a now) = wdProjectID flow"
  by (simp_all add: agentSnapshot_def Let_def)

definition snapshotChecked :: "WorkflowDefinition \<Rightarrow> WorkflowPermissionSnapshot \<Rightarrow> bool" where
  "snapshotChecked flow snap \<longleftrightarrow> wnProjectID snap = wdProjectID flow
     \<and> list_all graphic (wnID snap) \<and> wnID snap \<noteq> []
     \<and> \<not> hasErrorIssues (snapshotIssues [] snap)"

definition contentValid :: "WorkflowDefinition \<Rightarrow> bool" where
  "contentValid w \<longleftrightarrow> \<not> hasErrorIssues (validateRequired w) \<and> \<not> hasErrorIssues (validateAgents 0 [] (wdAgents w))
     \<and> \<not> hasErrorIssues (validateSteps (wdAgents w) (wdSteps w)) \<and> \<not> hasErrorIssues (validateGates w)"

lemma permissionSnapshotForAgent_Inr:
  assumes "permissionSnapshotForAgent env flow agent w = (Inr snap, w')"
  shows "snapshotChecked flow snap" and "contentValid flow"
proof -
  let ?v = "\<lambda>snap. emptyWorkflow\<lparr>wdID := wdID flow, wdProjectID := wdProjectID flow, wdTitle := wdTitle flow,
    wdPurpose := wdPurpose flow, wdStatus := wdStatus flow, wdAgents := wdAgents flow, wdSteps := wdSteps flow,
    wdReviewGates := wdReviewGates flow, wdPermissionSnapshots := [snap]\<rparr>"
  from assms obtain now where snap: "snap = agentSnapshot env flow agent now"
    and v: "validWorkflow (?v snap)"
    by (auto simp: permissionSnapshotForAgent_def seqS_Inr liftS_eq retS_eq validWorkflow_def Let_def split: if_splits)
  show "snapshotChecked flow snap"
    using v permissionSnapshotID_graphic by (simp add: snapshotChecked_def validWorkflow_parts snap)
  show "contentValid flow"
    using v by (simp add: validWorkflow_parts contentValid_def validateRequired_def validateGates_def)
qed

lemma snapshotChecked_ok:
  assumes "snapshotChecked flow snap" and "cleanRef (wdProjectID flow)"
  shows "wellFormed_snapshot snap"
proof -
  have g: "list_all graphic (wnID snap)" "wnID snap \<noteq> []" using assms(1) by (simp_all add: snapshotChecked_def)
  then have "trimSpace (wnID snap) = wnID snap"
    by (intro trimSpace_graphic) (auto simp: list_all_iff)
  moreover have "fst (requireRef (wnID snap) [])" if "fst (requireRef (wnID snap) f)" for f
    using that by (simp add: requireRef_def optionalRef_def Let_def split: if_splits)
  ultimately have "cleanRef (wnID snap)"
    using assms(1) g by (auto simp: snapshotChecked_def snapshotIssues_def cleanRef_def requireRef_def optionalRef_def
        Let_def split: if_splits)
  with assms g show ?thesis by (simp add: wellFormed_snapshot_def snapshotChecked_def)
qed

subsection \<open>Imported workflows\<close>

lemma mapS_Inr: "mapS f xs s = (Inr ys, s') \<Longrightarrow> list_all2 (\<lambda>x y. \<exists>t t'. f x t = (Inr y, t')) xs ys"
  by (induction xs arbitrary: s ys) (auto simp: res_simps)

lemma documentIssues_valid: "\<not> hasErrorIssues (documentIssues defs) \<Longrightarrow> d \<in> set defs \<Longrightarrow> validWorkflow d"
proof -
  have m: "hasErrorIssues (map f is) = hasErrorIssues is" if "\<And>i. wvSeverity (f i) = wvSeverity i" for f "is"
    using that by (induction "is") (auto simp: isErrorIssue_def)
  have "hasErrorIssues (documentIssues defs) \<longleftrightarrow> (\<exists>x \<in> set (enumerate 0 defs). hasErrorIssues (validateWorkflow (snd x)))"
    by (simp add: documentIssues_def case_prod_beta m)
  then show "\<not> hasErrorIssues (documentIssues defs) \<Longrightarrow> d \<in> set defs \<Longrightarrow> validWorkflow d"
    using ex_enumerate [of 0 defs "\<lambda>d. hasErrorIssues (validateWorkflow d)"] by (auto simp: validWorkflow_def)
qed

lemma prepareImport_Inr:
  assumes "prepareImport env p input d w = (Inr (x, snaps), w')" and "wdAgents d \<noteq> []"
  shows "validWorkflow x" and "checkedRefs env x" and "\<forall>s \<in> set snaps. wellFormed_snapshot s"
proof -
  from assms(1) obtain flow w1 where
    pw: "prepareWorkflow env (d\<lparr>wdProjectID := p\<rparr>) (wmCreatedByRunID input) (wmTraceID input) True w = (Inr flow, w1)"
    and ps: "mapS (permissionSnapshotForAgent env flow) (wdAgents flow) w1 = (Inr snaps, w')"
    and x: "x = flow\<lparr>wdPermissionSnapshots := snaps\<rparr>"
    by (auto simp only: prepareImport_def permissionSnapshotsForWorkflow_def seqS_Inr retS_eq prod.inject sum.inject)
  note c = prepareWorkflow_Inr [OF pw]
  have ne: "wdAgents flow \<noteq> []" using c(1) assms(2) by (auto simp: sameContent_def)
  note l = mapS_Inr [OF ps]
  have s: "snapshotChecked flow snap" if "snap \<in> set snaps" for snap
    using l that permissionSnapshotForAgent_Inr(1) by (fastforce simp: list_all2_conv_all_nth in_set_conv_nth)
  obtain a as where "wdAgents flow = a # as" using ne by (cases "wdAgents flow") auto
  with l have v: "contentValid flow"
    using permissionSnapshotForAgent_Inr(2) by (fastforce simp: list_all2_Cons1)
  show "checkedRefs env x"
    using c(2) by (simp add: x checkedRefs_def statusKnown_def)
  have "safeWorkflowRef (wdID flow)" using v validateRequired_id by (auto simp: contentValid_def)
  from checkedRefs_valid [OF c(2) this] v s show "validWorkflow x"
    by (simp add: x validWorkflow_parts contentValid_def snapshotChecked_def validateRequired_def
        validateWorkflowRefs_def validateGates_def del: optionalRef_errors)
  show "\<forall>s \<in> set snaps. wellFormed_snapshot s"
    using c(2) s snapshotChecked_ok by (auto simp: checkedRefs_def)
qed

end
