(* ===== verification/Workflow_Invariant.thy ===== *)
theory Workflow_Invariant
  imports Workflow_Valid
begin

section \<open>Workflows: the states the service reaches\<close>

text \<open>
  Every operation that writes, as one step relation; what holds in every state they reach, and
  what no step changes: a stored definition only moves between statuses, a stored permission
  snapshot stays as it is.
\<close>

inductive workflow_step :: "'w WorkflowEnv \<Rightarrow> 'w workflow_state \<Rightarrow> 'w workflow_state \<Rightarrow> bool"
  for env where
  create: "svcCreateWorkflow env ci s = (r1, s') \<Longrightarrow> workflow_step env s s'"
| import: "svcImportWorkflowTOML env ii s = (r2, s') \<Longrightarrow> workflow_step env s s'"
| status: "svcUpdateWorkflowStatus env ui s = (r3, s') \<Longrightarrow> workflow_step env s s'"
| compile: "svcCompileWorkflow env co s = (r4, s') \<Longrightarrow> workflow_step env s s'"

inductive workflow_reachable :: "'w WorkflowEnv \<Rightarrow> 'w workflow_state \<Rightarrow> bool" for env where
  start: "workflow_reachable env (w, newWorkflowStore)"
| step: "workflow_reachable env s \<Longrightarrow> workflow_step env s s' \<Longrightarrow> workflow_reachable env s'"

subsection \<open>Writes to the store\<close>

text \<open>
  All that the operations do to the store: they add a workflow or a snapshot under a new key,
  or move a workflow to another status.
\<close>

definition wellFormed_wf :: "'w WorkflowEnv \<Rightarrow> WorkflowDefinition \<Rightarrow> bool" where
  "wellFormed_wf env w \<longleftrightarrow> validWorkflow w \<and> checkedRefs env w"

inductive store_write :: "'w WorkflowEnv \<Rightarrow> WorkflowStore \<Rightarrow> WorkflowStore \<Rightarrow> bool" for env where
  none: "store_write env st st"
| workflow: "getWorkflow st (workflowKey w) = None \<Longrightarrow> \<not> refTaken st (workflowRefKey w) \<Longrightarrow> wellFormed_wf env w
    \<Longrightarrow> store_write env st (addWorkflow st w)"
| snapshot: "getSnapshot st (snapshotKey s) = None \<Longrightarrow> wellFormed_snapshot s \<Longrightarrow> store_write env st (addSnapshot st s)"
| status: "getWorkflow st (workflowKey w) = Some w \<Longrightarrow> validateWorkflowStatusTransition (wdStatus w) nxt = Inr ()
    \<Longrightarrow> nxt \<in> set workflowStatuses \<Longrightarrow> store_write env st (putWorkflow st (w\<lparr>wdStatus := nxt, wdUpdatedAt := now\<rparr>))"

abbreviation writes :: "'w WorkflowEnv \<Rightarrow> WorkflowStore \<Rightarrow> WorkflowStore \<Rightarrow> bool" where
  "writes env \<equiv> (store_write env)\<^sup>*\<^sup>*"

text \<open>The state in which every object lies under its key.\<close>

definition workflowsOk :: "'w WorkflowEnv \<Rightarrow> WorkflowStore \<Rightarrow> bool" where
  "workflowsOk env st \<longleftrightarrow> keyed getWorkflow workflowKey st \<and> indexed getWorkflow refTaken workflowRefKey st
     \<and> injRefs getWorkflow workflowRefKey st \<and> allVals getWorkflow (wellFormed_wf env) st
     \<and> keyed getSnapshot snapshotKey st \<and> allVals getSnapshot wellFormed_snapshot st"

lemma allVals_frame: "getX s = getX s' \<Longrightarrow> allVals getX P s = allVals getX P s'"
  by (simp add: allVals_def)

lemma store_write_ok: "store_write env st st' \<Longrightarrow> workflowsOk env st \<Longrightarrow> workflowsOk env st'"
proof (induction rule: store_write.induct)
  case (none st)
  then show ?case .
next
  case (workflow st w)
  then show ?case
    by (simp add: workflowsOk_def workflows.adding.keyed_put workflows.indexed_add workflows.injRefs_add
        workflows.adding.allVals_put)
      (simp add: keyed_def allVals_def)
next
  case (snapshot st s)
  then have "keyed getSnapshot snapshotKey (addSnapshot st s)" "allVals getSnapshot wellFormed_snapshot (addSnapshot st s)"
    by (simp_all add: workflowsOk_def snapshots.keyed_put snapshots.allVals_put)
  moreover have "keyed getWorkflow workflowKey (addSnapshot st s)" "indexed getWorkflow refTaken workflowRefKey (addSnapshot st s)"
    "injRefs getWorkflow workflowRefKey (addSnapshot st s)" "allVals getWorkflow (wellFormed_wf env) (addSnapshot st s)"
    using snapshot.prems by (simp_all add: workflowsOk_def keyed_def indexed_def injRefs_def allVals_def)
  ultimately show ?case by (simp add: workflowsOk_def)
next
  case (status st w nxt now)
  let ?w = "w\<lparr>wdStatus := nxt, wdUpdatedAt := now\<rparr>"
  have k: "workflowKey ?w = workflowKey w" "workflowRefKey ?w = workflowRefKey w"
    by (simp_all add: workflowKey_def workflowRefKey_def)
  have "wellFormed_wf env w" using status.prems status.hyps(1) by (auto simp: workflowsOk_def dest: allValsD)
  then have f: "wellFormed_wf env ?w"
    using status.hyps(3) valid_status by (simp add: wellFormed_wf_def checkedRefs_def statusKnown_def)
  have g: "getWorkflow st (workflowKey ?w) = Some w" using status.hyps(1) k(1) by simp
  have "keyed getSnapshot snapshotKey (putWorkflow st ?w)" "allVals getSnapshot wellFormed_snapshot (putWorkflow st ?w)"
    using status.prems by (simp_all add: workflowsOk_def keyed_def allVals_def)
  moreover have "allVals getWorkflow (wellFormed_wf env) (putWorkflow st ?w)"
    using status.prems by (intro workflows.allVals_put f) (simp add: workflowsOk_def)
  ultimately show ?case
    using status.prems by (simp add: workflowsOk_def workflows.keyed_put workflows.indexed_put [OF _ g k(2)]
        workflows.injRefs_put [OF _ g k(2)])
qed

lemma writes_ok: "writes env st st' \<Longrightarrow> workflowsOk env st \<Longrightarrow> workflowsOk env st'"
  by (induction rule: rtranclp_induct) (auto intro: store_write_ok)

lemma newStore_ok: "workflowsOk env newWorkflowStore"
  by (simp add: workflowsOk_def keyed_def indexed_def injRefs_def allVals_def getWorkflow_def getSnapshot_def
      newWorkflowStore_def)

text \<open>What writes keep of a stored object.\<close>

inductive status_path :: "string \<Rightarrow> string \<Rightarrow> bool" where
  stay: "status_path a a"
| move: "status_path a b \<Longrightarrow> c \<in> set (allowedWorkflowTransitions b) \<Longrightarrow> status_path a c"

definition sameDefinition :: "WorkflowDefinition \<Rightarrow> WorkflowDefinition \<Rightarrow> bool" where
  "sameDefinition w w' \<longleftrightarrow> w' = w\<lparr>wdStatus := wdStatus w', wdUpdatedAt := wdUpdatedAt w'\<rparr>
     \<and> status_path (wdStatus w) (wdStatus w')"

lemma sameDefinition_refl: "sameDefinition w w"
  by (simp add: sameDefinition_def stay)

lemma store_write_keeps:
  "store_write env st st' \<Longrightarrow> workflowsOk env st \<Longrightarrow> getWorkflow st k = Some v \<Longrightarrow> sameDefinition w v
   \<Longrightarrow> \<exists>v'. getWorkflow st' k = Some v' \<and> sameDefinition w v'"
proof (induction rule: store_write.induct)
  case (workflow st x)
  then show ?case by (auto simp: workflows.adding.get_put)
next
  case (status st x nxt now)
  let ?x = "x\<lparr>wdStatus := nxt, wdUpdatedAt := now\<rparr>"
  have kx: "workflowKey ?x = workflowKey x" by (simp add: workflowKey_def)
  show ?case
  proof (cases "k = workflowKey x")
    case False
    with status.prems kx show ?thesis by (simp add: workflows.get_put)
  next
    case True
    with status.prems(2) status.hyps(1) have v: "v = x" by simp
    have p: "status_path (wdStatus w) (wdStatus x)" and
      eq: "x = w\<lparr>wdStatus := wdStatus x, wdUpdatedAt := wdUpdatedAt x\<rparr>"
      using status.prems(3) unfolding sameDefinition_def v by blast+
    have "nxt = wdStatus x \<or> nxt \<in> set (allowedWorkflowTransitions (wdStatus x))"
      using status.hyps(2) by (auto simp: validateWorkflowStatusTransition_def split: if_splits)
    with p have "status_path (wdStatus w) nxt" by (auto intro: move)
    moreover have "?x = w\<lparr>wdStatus := nxt, wdUpdatedAt := now\<rparr>"
      by (subst eq) simp
    ultimately have "sameDefinition w ?x" by (simp add: sameDefinition_def)
    with True kx show ?thesis by (simp add: workflows.get_put)
  qed
qed auto

lemma store_write_snapshot:
  "store_write env st st' \<Longrightarrow> getSnapshot st k = Some v \<Longrightarrow> getSnapshot st' k = Some v"
  by (induction rule: store_write.induct) (auto simp: snapshots.get_put)

lemma writes_keep:
  "writes env st st' \<Longrightarrow> workflowsOk env st \<Longrightarrow> getWorkflow st k = Some w
   \<Longrightarrow> \<exists>v. getWorkflow st' k = Some v \<and> sameDefinition w v"
proof (induction rule: rtranclp_induct)
  case base
  then show ?case using sameDefinition_refl by blast
next
  case (step a b)
  then obtain v where "getWorkflow a k = Some v" "sameDefinition w v" by blast
  with store_write_keeps [OF step.hyps(2) writes_ok [OF step.hyps(1) step.prems(1)]] show ?case by blast
qed

lemma writes_snapshot: "writes env st st' \<Longrightarrow> getSnapshot st k = Some v \<Longrightarrow> getSnapshot st' k = Some v"
  by (induction rule: rtranclp_induct) (auto dest: store_write_snapshot)

subsection \<open>Every operation is a sequence of such writes\<close>

definition storeWrites :: "'w WorkflowEnv \<Rightarrow> ('w workflow_state \<Rightarrow> ('e + 'a) \<times> 'w workflow_state) \<Rightarrow> bool" where
  "storeWrites env m \<longleftrightarrow> (\<forall>s. workflowsOk env (snd s) \<longrightarrow> writes env (snd s) (snd (snd (m s))))"

definition yields :: "'w WorkflowEnv \<Rightarrow> ('w workflow_state \<Rightarrow> ('e + 'a) \<times> 'w workflow_state) \<Rightarrow> ('a \<Rightarrow> bool) \<Rightarrow> bool" where
  "yields env m Q \<longleftrightarrow> (\<forall>s x s'. workflowsOk env (snd s) \<longrightarrow> m s = (Inr x, s') \<longrightarrow> Q x)"

named_theorems write_intros \<open>operations that only write to the store in the known ways\<close>

lemma writes_seqS_yields:
  fixes m :: "'w workflow_state \<Rightarrow> ('e + 'a) \<times> 'w workflow_state"
  assumes "storeWrites env m" and "yields env m Q" and "\<And>x. Q x \<Longrightarrow> storeWrites env (k x)"
  shows "storeWrites env (seqS m k)"
  unfolding storeWrites_def
proof (intro allI impI)
  fix s :: "'w workflow_state" assume ok: "workflowsOk env (snd s)"
  obtain q t where m: "m s = (q, t)" by (cases "m s")
  with assms(1) ok have 1: "writes env (snd s) (snd t)" unfolding storeWrites_def by (metis snd_conv)
  show "writes env (snd s) (snd (snd (seqS m k s)))"
  proof (cases q)
    case (Inl e)
    with m 1 show ?thesis by (simp add: seqS_def)
  next
    case (Inr x)
    with assms(2) m ok have "Q x" unfolding yields_def by blast
    then have "writes env (snd t) (snd (snd (k x t)))"
      using assms(3) writes_ok [OF 1 ok] unfolding storeWrites_def by blast
    with m Inr 1 show ?thesis by (simp add: seqS_def)
  qed
qed

lemma writes_seqS [write_intros]: "storeWrites env m \<Longrightarrow> (\<And>x. storeWrites env (k x)) \<Longrightarrow> storeWrites env (seqS m k)"
  by (rule writes_seqS_yields [of _ _ "\<lambda>_. True"]) (simp_all add: yields_def)

lemma writes_plain [write_intros]:
  "storeWrites env (retS x)" "storeWrites env (liftS r)" "storeWrites env (inWorld m)" "storeWrites env (readStore f)"
  by (auto simp: storeWrites_def retS_def liftS_def inWorld_def readStore_def split: prod.splits)

lemma writes_keepResult [write_intros]: "storeWrites env m \<Longrightarrow> storeWrites env (keepResult p m)"
  by (auto simp: storeWrites_def keepResult_def split: prod.splits sum.splits) (metis snd_conv)+

lemma writes_if [write_intros]: "(b \<Longrightarrow> storeWrites env m) \<Longrightarrow> (\<not> b \<Longrightarrow> storeWrites env n) \<Longrightarrow> storeWrites env (if b then m else n)"
  by simp

lemma yields_keepResult: "yields env m Q \<Longrightarrow> yields env (keepResult p m) Q"
  by (simp add: yields_def res_simps)

lemma yields_inWorld: "(\<And>w x w'. m w = (Inr x, w') \<Longrightarrow> Q x) \<Longrightarrow> yields env (inWorld m) Q"
  by (auto simp: yields_def res_simps)

lemma writes_createWorkflow: "wellFormed_wf env w \<Longrightarrow> storeWrites env (inStore (memCreateWorkflow w))"
  by (auto simp: storeWrites_def inStore_def memCreateWorkflow_eq intro: store_write.workflow)

lemma writes_createSnapshot: "wellFormed_snapshot x \<Longrightarrow> storeWrites env (inStore (memCreatePermissionSnapshot x))"
  by (auto simp: storeWrites_def inStore_def memCreatePermissionSnapshot_eq intro: store_write.snapshot)

subsection \<open>Creation, import, status\<close>

lemma writes_create: "storeWrites env (svcCreateWorkflow env ci)"
proof -
  have y: "yields env (inWorld (prepareWorkflow env (wcDefinition ci) (wcCreatedByRunID ci) (wcTraceID ci) False)) (checkedRefs env)"
    by (rule yields_inWorld) (rule prepareWorkflow_Inr(2))
  show ?thesis
    unfolding svcCreateWorkflow_def
    by (intro writes_seqS_yields [OF _ y] writes_if writes_plain writes_createWorkflow)
      (simp add: wellFormed_wf_def validWorkflow_def)
qed

lemma inStore_seqS: "inStore (seqS m k) = seqS (inStore m) (\<lambda>x. inStore (k x))"
  by (auto simp: fun_eq_iff inStore_def seqS_def split: prod.splits sum.splits)

lemma inStore_keepResult: "inStore (keepResult p m) = keepResult p (inStore m)"
  by (auto simp: fun_eq_iff inStore_def keepResult_def split: prod.splits sum.splits)

lemma inStore_retS: "inStore (retS x) = retS x"
  by (auto simp: fun_eq_iff inStore_def retS_def)

lemmas in_store = inStore_seqS inStore_keepResult inStore_retS

lemma writes_storeSnapshots:
  "\<forall>x \<in> set snaps. wellFormed_snapshot x \<Longrightarrow> storeWrites env (inStore (storeSnapshots snaps r))"
  by (induction snaps arbitrary: r) (auto simp: in_store intro!: write_intros writes_createSnapshot)

lemma writes_storeImported:
  "\<forall>(w, snaps) \<in> set ps. wellFormed_wf env w \<and> (\<forall>x \<in> set snaps. wellFormed_snapshot x)
   \<Longrightarrow> storeWrites env (inStore (storeImported ps r))"
proof (induction ps r rule: storeImported.induct)
  case (2 w snaps rest r)
  then show ?case by (auto simp: in_store intro!: write_intros writes_createWorkflow writes_storeSnapshots)
qed (simp add: in_store write_intros)

lemma writes_import: "storeWrites env (svcImportWorkflowTOML env ii)"
proof -
  have "storeWrites env (seqS (keepResult (emptyImport []) (inWorld (mapS (prepareImport env p ii) defs)))
      (\<lambda>prepared. inStore (storeImported prepared (emptyImport (documentIssues defs)))))"
    if ok: "\<not> hasErrorIssues (documentIssues defs)" for p defs
  proof (rule writes_seqS_yields)
    let ?Q = "\<lambda>ps. \<forall>(w, snaps) \<in> set ps. wellFormed_wf env w \<and> (\<forall>x \<in> set snaps. wellFormed_snapshot x)"
    show "storeWrites env (keepResult (emptyImport []) (inWorld (mapS (prepareImport env p ii) defs)))"
      by (intro write_intros)
    show "yields env (keepResult (emptyImport []) (inWorld (mapS (prepareImport env p ii) defs))) ?Q"
    proof (intro yields_keepResult yields_inWorld)
      fix w ps w' assume "mapS (prepareImport env p ii) defs w = (Inr ps, w')"
      note l = mapS_Inr [OF this]
      have "wellFormed_wf env x \<and> (\<forall>s \<in> set snaps. wellFormed_snapshot s)" if "(x, snaps) \<in> set ps" for x snaps
      proof -
        from l that obtain d t t' where d: "d \<in> set defs" "prepareImport env p ii d t = (Inr (x, snaps), t')"
          by (fastforce simp: list_all2_conv_all_nth in_set_conv_nth)
        have "wdAgents d \<noteq> []"
          using documentIssues_valid [OF ok d(1)] validateRequired_id by (auto simp: validWorkflow_parts)
        from prepareImport_Inr [OF d(2) this] show ?thesis by (simp add: wellFormed_wf_def)
      qed
      then show "?Q ps" by blast
    qed
    show "storeWrites env (inStore (storeImported ps (emptyImport (documentIssues defs))))" if "?Q ps" for ps
      using that by (rule writes_storeImported)
  qed
  then show ?thesis
    unfolding svcImportWorkflowTOML_def
    by (intro write_intros) (auto simp: parseWorkflowTOML_def Let_def intro!: writes_plain split: option.splits)
qed

lemma writes_move:
  assumes nxt: "nxt \<in> set workflowStatuses"
  shows "storeWrites env (seqS (readStore (memGetWorkflow p i)) (\<lambda>w.
     seqS (liftS (validateWorkflowStatusTransition (wdStatus w) nxt)) (\<lambda>_.
     seqS (inWorld (nowS env)) (\<lambda>now. inStore (memUpdateWorkflow (w\<lparr>wdStatus := nxt, wdUpdatedAt := now\<rparr>))))))"
    (is "storeWrites env ?m")
  unfolding storeWrites_def
proof (intro allI impI)
  fix s :: "'a \<times> WorkflowStore" assume ok: "workflowsOk env (snd s)"
  show "writes env (snd s) (snd (snd (?m s)))"
  proof (cases "getWorkflow (snd s) (p, i)")
    case None
    then show ?thesis by (simp add: readStore_def memGetWorkflow_def getWorkflow_def)
  next
    case (Some w)
    then have g: "readStore (memGetWorkflow p i) s = (Inr w, s)" by (simp add: readStore_def memGetWorkflow_Inr)
    obtain now x where n: "weNow env (fst s) = (now, x)" by (cases "weNow env (fst s)")
    let ?w = "w\<lparr>wdStatus := nxt, wdUpdatedAt := now\<rparr>"
    have k: "workflowKey w = (p, i)" using ok Some by (auto simp: workflowsOk_def dest: keyedD)
    then have k': "workflowKey ?w = (p, i)" by (simp add: workflowKey_def)
    have u: "memUpdateWorkflow ?w (snd s) = (Inr ?w, putWorkflow (snd s) ?w)"
      by (rule memUpdateWorkflow_same [of _ _ w]) (simp_all add: k' Some)
    show ?thesis
    proof (cases "validateWorkflowStatusTransition (wdStatus w) nxt")
      case (Inr v)
      then have "writes env (snd s) (putWorkflow (snd s) ?w)"
        using store_write.status [of "snd s" w nxt env now] nxt k Some by auto
      with g n u Inr show ?thesis by (simp add: inWorld_def nowS_def seqS_def liftS_def inStore_def)
    qed (simp add: g)
  qed
qed

lemma writes_status: "storeWrites env (svcUpdateWorkflowStatus env ui)"
proof -
  have y: "yields env (liftS (safeWorkflowStatus (wuStatus ui))) (\<lambda>nxt. nxt \<in> set workflowStatuses)"
    by (auto simp: yields_def liftS_eq safeWorkflowStatus_def split: if_splits)
  show ?thesis
    unfolding svcUpdateWorkflowStatus_def
    by (auto intro!: write_intros(1-4) writes_seqS_yields [OF _ y] writes_move split: prod.splits)
qed

subsection \<open>Compilation\<close>

lemma writes_ensureAgents:
  "cleanRef (wdProjectID flow) \<Longrightarrow> storeWrites env (ensureAgents env flow agents t)"
proof (induction agents arbitrary: t)
  case (Cons a agents)
  have y: "yields env (inWorld (permissionSnapshotForAgent env flow a)) wellFormed_snapshot"
    by (rule yields_inWorld) (rule snapshotChecked_ok [OF permissionSnapshotForAgent_Inr(1) Cons.prems])
  show ?case
    unfolding ensureAgents.simps
    by (rule writes_seqS_yields [OF _ y])
      (auto intro!: write_intros writes_createSnapshot Cons.IH [OF Cons.prems] split: option.splits)
qed (simp add: write_intros)

lemma writes_compileEnabled:
  assumes "cleanRef (wdProjectID flow)"
  shows "storeWrites env (compileEnabled env flow graph u tt rn tc)"
  unfolding compileEnabled_def Let_def ensureCompileSnapshots_def
  by (intro write_intros writes_ensureAgents assms)

lemma writes_failCompile: "storeWrites env (failCompile env r e)"
  unfolding failCompile_def by (intro write_intros)

lemma writes_compileStored:
  assumes "wellFormed_wf env flow"
  shows "storeWrites env (compileStored env flow dry u tt rn tc)"
proof -
  have p: "cleanRef (wdProjectID flow)" using assms by (simp add: wellFormed_wf_def checkedRefs_def)
  note e = writes_compileEnabled [OF p, unfolded storeWrites_def]
  note f = writes_failCompile [unfolded storeWrites_def]
  have "writes env (snd s) (snd (snd (case inWorld (planCompileGraph env flow) s of
          (Inl e, s1) \<Rightarrow> failCompile env r e s1
        | (Inr graph, s1) \<Rightarrow>
            if dry
            then (case dryRunCompileResult env flow graph (fst s1) of (r, w') \<Rightarrow> (Inr r, (w', snd s1)))
            else compileEnabled env flow graph u tt rn tc s1)))" if ok: "workflowsOk env (snd s)" for s r
  proof -
    obtain q s1 where q: "inWorld (planCompileGraph env flow) s = (q, s1)"
      by (cases "inWorld (planCompileGraph env flow) s")
    then have s1: "snd s1 = snd s" by (auto simp: inWorld_def split: prod.splits)
    then have ok1: "workflowsOk env (snd s1)" using ok by simp
    have "writes env (snd s) (snd (snd (compileEnabled env flow g u tt rn tc s1)))" for g
      using e ok1 s1 by metis
    moreover have "writes env (snd s) (snd (snd (failCompile env r x s1)))" for x
      using f ok1 s1 by metis
    ultimately show ?thesis by (cases q) (auto simp: q s1 split: prod.splits)
  qed
  then have "storeWrites env (\<lambda>s. case inWorld (planCompileGraph env flow) s of
          (Inl e, s1) \<Rightarrow> failCompile env r e s1
        | (Inr graph, s1) \<Rightarrow>
            if dry
            then (case dryRunCompileResult env flow graph (fst s1) of (r, w') \<Rightarrow> (Inr r, (w', snd s1)))
            else compileEnabled env flow graph u tt rn tc s1)" for r
    unfolding storeWrites_def by blast
  then show ?thesis
    unfolding compileStored_def Let_def by (intro writes_if writes_failCompile)
qed

lemma writes_compile: "storeWrites env (svcCompileWorkflow env ci)"
proof -
  have y: "yields env (keepResult emptyCompileResult (readStore (memGetWorkflow p i))) (wellFormed_wf env)" for p i
    by (rule yields_keepResult)
      (auto simp: yields_def readStore_def memGetWorkflow_Inr workflowsOk_def dest: allValsD)
  show ?thesis
    unfolding svcCompileWorkflow_def
    by (intro write_intros writes_seqS_yields [OF _ y] writes_compileStored)
qed

subsection \<open>Reachable states\<close>

lemma step_writes: "workflow_step env s s' \<Longrightarrow> workflowsOk env (snd s) \<Longrightarrow> writes env (snd s) (snd s')"
proof (induction rule: workflow_step.induct)
  case (create ci s r s')
  then show ?case using writes_create unfolding storeWrites_def by (metis snd_conv)
next
  case (import ii s r s')
  then show ?case using writes_import unfolding storeWrites_def by (metis snd_conv)
next
  case (status ui s r s')
  then show ?case using writes_status unfolding storeWrites_def by (metis snd_conv)
next
  case (compile ci s r s')
  then show ?case using writes_compile unfolding storeWrites_def by (metis snd_conv)
qed

lemma reachable_ok: "workflow_reachable env s \<Longrightarrow> workflowsOk env (snd s)"
  by (induction rule: workflow_reachable.induct) (auto intro: newStore_ok writes_ok step_writes)

end
