(* ===== verification/Workflow_Boundary.thy ===== *)
theory Workflow_Boundary
  imports Workflow_Counts WorkPlan_Lemmas Workflow_Invariant
begin

section \<open>Workflows: compiling to the work plan service\<close>

text \<open>
  The services the compiler calls are parameters of its environment. Here the work plan service
  is one of them: \<open>CreateWorkTask\<close> and \<open>UpdateWorkTask\<close> of \<open>internal/projectworkplan/service.go\<close>
  on a world of its store and a source of times and identifiers. It keeps the reference of a
  task, which is the law the compiler relies on.
\<close>

type_synonym 'c plan_world = "'c \<times> WorkPlanStore"

definition createTaskOn ::
    "('c \<Rightarrow> time \<times> string \<times> 'c) \<Rightarrow> CreateWorkTaskInput \<Rightarrow> ('c plan_world, WorkTask) act" where
  "createTaskOn source input world =
     (case source (fst world) of (now, newID, c) \<Rightarrow>
      case svcCreateWorkTask (snd world) now newID input of (r, st) \<Rightarrow> (r, (c, st)))"

definition updateTaskOn :: "('c \<Rightarrow> time \<times> string \<times> 'c) \<Rightarrow> WorkTask \<Rightarrow> ('c plan_world, WorkTask) act" where
  "updateTaskOn source task world =
     (case source (fst world) of (now, newID, c) \<Rightarrow>
      case svcUpdateWorkTask (snd world) now task of (r, st) \<Rightarrow> (r, (c, st)))"

lemma svcUpdateWorkTask_Inr:
  "svcUpdateWorkTask st now task = (Inr t, st') \<Longrightarrow> t = task\<lparr>wtUpdatedAt := now\<rparr> \<and> st' = putTask st t"
  by (auto simp only: svcUpdateWorkTask_def tryS_Inr memUpdateWorkTask_eq prod.inject sum.inject split: if_splits)

lemma svcCreateWorkTask_ref:
  assumes "svcCreateWorkTask st now newID input = (Inr t, st')"
  shows "wtTaskRef t = trimSpace (ctTaskRef input)"
proof (rule svcCreateWorkTask_Inr [OF assms])
  fix p i ref title desc owner run trace
  assume b: "buildTask now newID p i ref title desc owner run trace input = Inr t"
    and "safeRef (ctTaskRef input) ''task_ref'' = Inr ref"
  then have "ref = trimSpace (ctTaskRef input)" by (simp add: safeRef_Inr)
  with buildTask_Inr(4) [OF b] show ?thesis by simp
qed

interpretation work_plans: work_task_api "createTaskOn source" "updateTaskOn source" for source
proof unfold_locales
  fix input w t w'
  assume "createTaskOn source input w = (Inr t, w')"
  then show "wtTaskRef t = trimSpace (ctTaskRef input)"
    by (auto simp: createTaskOn_def intro: svcCreateWorkTask_ref split: prod.splits)
next
  fix task w t w'
  assume "updateTaskOn source task w = (Inr t, w')"
  then show "wtTaskRef t = wtTaskRef task"
    by (auto simp: updateTaskOn_def dest: svcUpdateWorkTask_Inr split: prod.splits)
qed

section \<open>Workflows: properties of the catalogue\<close>

text \<open>
  What holds of every stored workflow, what no call changes, the references to permission
  snapshots, and compilations that are refused.
\<close>

subsection \<open>A reached state\<close>

lemma demo_reached: "workflow_reachable demoFlowEnv ((), demoFlowStore)"
  by (rule workflow_reachable.step [OF workflow_reachable.start workflow_step.create [OF demo_created]])

lemma demo_stored: "getWorkflow demoFlowStore (''m1'', ''w1'') = Some demoFlow"
  using demo_get by (simp add: memGetWorkflow_Inr)

subsection \<open>Stored workflows\<close>

text \<open>
  C8. In every state that calls of the service reach, a stored workflow lies under its project
  and identifier, passes the whole validation, so its step dependencies have no cycle, has a
  known status, has an identifier without padding under which \<open>GetWorkflow\<close> finds it, and no other
  workflow of its project has its reference. The generator of identifiers is one that never pads,
  as the prefix with an underscore and hexadecimal digits of the program.
\<close>

theorem stored_workflows_valid:
  assumes "workflow_reachable env s" and "getWorkflow (snd s) k = Some w"
    and "\<And>w0. trimSpace (fst (weNewID env ''workflow'' w0)) = fst (weNewID env ''workflow'' w0)"
  shows "k = (wdProjectID w, wdID w) \<and> validWorkflow w \<and> wdStatus w \<in> set workflowStatuses
    \<and> acyclic (edgeRel (knownGraph (stepEdges (wdSteps w))))
    \<and> trimSpace (wdID w) = wdID w \<and> svcGetWorkflow (wdProjectID w) (wdID w) (snd s) = Inr w
    \<and> (\<forall>k' w'. getWorkflow (snd s) k' = Some w' \<longrightarrow> workflowRefKey w' = workflowRefKey w \<longrightarrow> k' = k)"
proof -
  have ok: "workflowsOk env (snd s)" by (rule reachable_ok [OF assms(1)])
  then have k: "k = (wdProjectID w, wdID w)"
    using assms(2) by (auto simp: workflowsOk_def workflowKey_def dest: keyedD)
  have w: "validWorkflow w" "checkedRefs env w"
    using ok assms(2) by (auto simp: workflowsOk_def wellFormed_wf_def dest: allValsD)
  have t: "trimSpace (wdID w) = wdID w"
    using w(2) assms(3) unfolding checkedRefs_def identMade_def by metis
  have "safeWorkflowRef (wdID w)" "trimSpace (wdID w) \<noteq> []"
    using w(1) by (auto simp: validWorkflow_parts validateRequired_def requireRef_def split: if_splits)
  with t have "cleanRef (wdID w)" by (auto simp: cleanRef_def)
  moreover have "cleanRef (wdProjectID w)" using w(2) by (simp add: checkedRefs_def)
  ultimately have "svcGetWorkflow (wdProjectID w) (wdID w) (snd s) = Inr w"
    using assms(2) k by (simp add: svcGetWorkflow_def safeWorkflowObject_def cleanRef_required memGetWorkflow_Inr)
  moreover have "acyclic (edgeRel (knownGraph (stepEdges (wdSteps w))))"
    using validWorkflow_steps(2) [OF w(1)] by (simp add: hasDependencyCycle_wf_iff)
  moreover have "\<forall>k' w'. getWorkflow (snd s) k' = Some w' \<longrightarrow> workflowRefKey w' = workflowRefKey w \<longrightarrow> k' = k"
    using ok assms(2) by (auto simp: workflowsOk_def dest: injRefsD)
  ultimately show ?thesis using k w t by (simp add: checkedRefs_def statusKnown_def)
qed

lemma stored_workflows_valid_witness:
  "validWorkflow demoFlow
   \<and> svcGetWorkflow (wdProjectID demoFlow) (wdID demoFlow) (snd ((), demoFlowStore)) = Inr demoFlow"
proof -
  have g: "getWorkflow (snd ((), demoFlowStore)) (''m1'', ''w1'') = Some demoFlow" by (simp add: demo_stored)
  have i: "trimSpace (fst (weNewID demoFlowEnv ''workflow'' w0)) = fst (weNewID demoFlowEnv ''workflow'' w0)" for w0
    by (simp add: trimSpace_graphic graphic_def)
  from stored_workflows_valid [OF demo_reached g i] show ?thesis by blast
qed

lemma status_path_iff: "status_path a b \<longleftrightarrow> a = b \<or> b \<in> set (allowedWorkflowTransitions a)"
proof
  show "status_path a b \<Longrightarrow> a = b \<or> b \<in> set (allowedWorkflowTransitions a)"
    by (induction rule: status_path.induct) (auto simp: allowedWorkflowTransitions_def split: if_splits)
qed (auto intro: stay move)

text \<open>
  C21. No call changes or removes what is stored: afterwards a workflow has the same content under
  the same key and at most another status, to which its table of transitions leads, so that a
  superseded one stays superseded; a permission snapshot is the same.
\<close>

theorem definitions_immutable:
  assumes "workflow_reachable env s" and "workflow_step env s s'"
  shows "(\<forall>k w. getWorkflow (snd s) k = Some w \<longrightarrow>
      (\<exists>v. getWorkflow (snd s') k = Some v \<and> v = w\<lparr>wdStatus := wdStatus v, wdUpdatedAt := wdUpdatedAt v\<rparr>
         \<and> (wdStatus v = wdStatus w \<or> wdStatus v \<in> set (allowedWorkflowTransitions (wdStatus w)))
         \<and> (wdStatus w = WorkflowStatusSuperseded \<longrightarrow> wdStatus v = WorkflowStatusSuperseded)))
    \<and> (\<forall>k x. getSnapshot (snd s) k = Some x \<longrightarrow> getSnapshot (snd s') k = Some x)"
proof -
  have ok: "workflowsOk env (snd s)" by (rule reachable_ok [OF assms(1)])
  note wr = step_writes [OF assms(2) ok]
  have "\<exists>v. getWorkflow (snd s') k = Some v \<and> v = w\<lparr>wdStatus := wdStatus v, wdUpdatedAt := wdUpdatedAt v\<rparr>
      \<and> (wdStatus v = wdStatus w \<or> wdStatus v \<in> set (allowedWorkflowTransitions (wdStatus w)))
      \<and> (wdStatus w = WorkflowStatusSuperseded \<longrightarrow> wdStatus v = WorkflowStatusSuperseded)"
    if g: "getWorkflow (snd s) k = Some w" for k w
  proof -
    from writes_keep [OF wr ok g] obtain v where v: "getWorkflow (snd s') k = Some v" "sameDefinition w v" by blast
    moreover from v(2) have "wdStatus v = wdStatus w \<or> wdStatus v \<in> set (allowedWorkflowTransitions (wdStatus w))"
      by (auto simp: sameDefinition_def status_path_iff)
    moreover have "set (allowedWorkflowTransitions WorkflowStatusSuperseded) = {}"
      by (simp add: allowedWorkflowTransitions_def)
    ultimately show ?thesis unfolding sameDefinition_def by (metis empty_iff)
  qed
  with writes_snapshot [OF wr] show ?thesis by blast
qed

lemma definitions_immutable_witness:
  "\<exists>r s' v. svcCompileWorkflow demoFlowEnv demoCompile ((), demoFlowStore) = (Inr r, s')
     \<and> getWorkflow (snd s') (''m1'', ''w1'') = Some v \<and> wdSteps v = demoSteps"
proof -
  obtain r st where c: "svcCompileWorkflow demoFlowEnv demoCompile ((), demoFlowStore) = (Inr r, ((), st))"
    using demo_compile by blast
  obtain v where "getWorkflow st (''m1'', ''w1'') = Some v" and "v = demoFlow\<lparr>wdStatus := wdStatus v, wdUpdatedAt := wdUpdatedAt v\<rparr>"
    using definitions_immutable [OF demo_reached workflow_step.compile [OF c]] demo_stored by fastforce
  then have "getWorkflow st (''m1'', ''w1'') = Some v" "wdSteps v = demoSteps"
    by (simp, metis (no_types, lifting) WorkflowDefinition.select_convs(8) WorkflowDefinition.surjective
        WorkflowDefinition.update_convs(6,14) demoFlow_fields(5))
  with c show ?thesis by auto
qed

subsection \<open>References to permission snapshots\<close>

text \<open>
  In every reached state the reference to a stored snapshot is accepted: the check answers
  with the agent and the denied commands of the snapshot, if the agent asked for is that of
  the snapshot, and with an error for any other agent.
\<close>

theorem permission_reference_resolves:
  assumes "workflow_reachable env s" and "getSnapshot (snd s) (p, i) = Some snap"
    and "pkProjectID input = p" and "pkPermissionRef input = PermissionSnapshotRefPrefix @ i"
  shows "svcCheckAutomationPermission input (snd s) =
    (if trimSpace (pkAgentID input) = wnAgentID snap
     then Inr \<lparr>pmPermissionRef = PermissionSnapshotRefPrefix @ i, pmAgentID = wnAgentID snap,
        pmAllowedRunnerKinds = [RunnerKindCodexCLI], pmDeniedCommands = wnDeniedCommands snap\<rparr>
     else Inl (ErrInvalidInput ''permission_agent_mismatch''))"
proof -
  have ok: "workflowsOk env (snd s)" by (rule reachable_ok [OF assms(1)])
  then have "snapshotKey snap = (p, i)" using assms(2) by (auto simp: workflowsOk_def dest: keyedD)
  moreover have "wellFormed_snapshot snap" using ok assms(2) by (auto simp: workflowsOk_def dest: allValsD)
  ultimately have p: "cleanRef p" and i: "cleanRef i" and g: "list_all graphic i"
    by (auto simp: snapshotKey_def wellFormed_snapshot_def)
  let ?r = "PermissionSnapshotRefPrefix @ i"
  have "list_all graphic ?r" using g by (simp add: PermissionSnapshotRefPrefix_def graphic_def)
  moreover have ne: "?r \<noteq> []" by (simp add: PermissionSnapshotRefPrefix_def)
  ultimately have "graphic (hd ?r)" "graphic (last ?r)"
    using hd_in_set [OF ne] last_in_set [OF ne] unfolding list_all_iff by blast+
  with ne have r: "trimSpace ?r = ?r" by (rule trimSpace_graphic)
  have t: "trimPrefix ?r PermissionSnapshotRefPrefix = i" by (simp add: trimPrefix_def)
  have q: "memGetPermissionSnapshot p i (snd s) = Inr snap" using assms(2) by (simp add: memGetPermissionSnapshot_Inr)
  show ?thesis
    unfolding svcCheckAutomationPermission_def assms(3,4) r
    by (simp add: cleanRef_required [OF p] cleanRef_required [OF i] t q Let_def)
qed

lemma permission_reference_resolves_witness:
  "\<exists>r st. svcCompileWorkflow demoFlowEnv demoCompile ((), demoFlowStore) = (Inr r, ((), st))
     \<and> svcCheckAutomationPermission \<lparr>pkProjectID = ''m1'', pkAutomationID = [], pkAutomationRef = [], pkAgentID = ''b1'',
          pkPermissionRef = PermissionSnapshotRefPrefix @ ''permission-snapshot-wb-ab'', pkRunnerKind = [],
          pkRunnerExecution = []\<rparr> st = Inl (ErrInvalidInput ''permission_agent_mismatch'')"
proof -
  obtain r st where c: "svcCompileWorkflow demoFlowEnv demoCompile ((), demoFlowStore) = (Inr r, ((), st))"
    and g: "getSnapshot st (''m1'', ''permission-snapshot-wb-ab'') = Some demoSnapshot"
    using demo_compile by blast
  let ?i = "\<lparr>pkProjectID = ''m1'', pkAutomationID = [], pkAutomationRef = [], pkAgentID = ''b1'',
    pkPermissionRef = PermissionSnapshotRefPrefix @ ''permission-snapshot-wb-ab'', pkRunnerKind = [],
    pkRunnerExecution = []\<rparr>"
  have reached: "workflow_reachable demoFlowEnv ((), st)"
    by (rule workflow_reachable.step [OF demo_reached workflow_step.compile [OF c]])
  have "getSnapshot (snd ((), st)) (''m1'', ''permission-snapshot-wb-ab'') = Some demoSnapshot" by (simp add: g)
  from permission_reference_resolves [OF reached this, of ?i]
  have "svcCheckAutomationPermission ?i st =
    (if trimSpace ''b1'' = wnAgentID demoSnapshot
     then Inr \<lparr>pmPermissionRef = PermissionSnapshotRefPrefix @ ''permission-snapshot-wb-ab'', pmAgentID = wnAgentID demoSnapshot,
        pmAllowedRunnerKinds = [RunnerKindCodexCLI], pmDeniedCommands = wnDeniedCommands demoSnapshot\<rparr>
     else Inl (ErrInvalidInput ''permission_agent_mismatch''))" by simp
  moreover have "wnAgentID demoSnapshot = ''a1''" by (simp add: demoSnapshot_def agentSnapshot_def Let_def)
  ultimately have "svcCheckAutomationPermission ?i st = Inl (ErrInvalidInput ''permission_agent_mismatch'')" by simp
  with c show ?thesis by blast
qed

subsection \<open>Refused compilations\<close>

definition noObjects :: "WorkflowCompileResult \<Rightarrow> bool" where
  "noObjects r \<longleftrightarrow> woWorkPlanID r = [] \<and> woWorkTaskIDs r = [] \<and> woReviewerTaskIDs r = [] \<and> woAutomationIDs r = []
     \<and> woPermissionSnapshotIDs r = []"

definition refuses ::
    "('w workflow_state \<Rightarrow> (compile_failure + 'a) \<times> 'w workflow_state)
      \<Rightarrow> ('w workflow_state \<Rightarrow> (compile_failure + 'a) \<times> 'w workflow_state) \<Rightarrow> 'w workflow_state \<Rightarrow> bool" where
  "refuses m n s \<longleftrightarrow> (\<exists>res e s'. m s = (Inl (res, e), s') \<and> n s = (Inl (res, e), s') \<and> snd s' = snd s \<and> noObjects res)"

lemma empty_noObjects [simp]: "noObjects emptyCompileResult"
  by (simp add: noObjects_def emptyCompileResult_def)

lemma refuses_lift:
  assumes "\<And>x. r = Inr x \<Longrightarrow> refuses (k x) (k' x) s"
  shows "refuses (seqS (keepResult emptyCompileResult (liftS r)) k) (seqS (keepResult emptyCompileResult (liftS r)) k') s"
  using assms by (cases r) (auto simp: refuses_def seqS_def keepResult_def liftS_def)

lemma refuses_read:
  assumes "\<And>x. f (snd s) = Inr x \<Longrightarrow> refuses (k x) (k' x) s"
  shows "refuses (seqS (keepResult emptyCompileResult (readStore f)) k)
    (seqS (keepResult emptyCompileResult (readStore f)) k') s"
  using assms by (cases "f (snd s)") (auto simp: refuses_def seqS_def keepResult_def readStore_def)

lemma refuses_fail:
  "noObjects res \<Longrightarrow> weNow env = weNow env' \<Longrightarrow> refuses (failCompile env res e) (failCompile env' res e) s"
  by (cases "weNow env' (fst s)")
    (auto simp: refuses_def failCompile_def inWorld_def nowS_def seqS_def liftS_def noObjects_def)

text \<open>
  Only an enabled workflow is compiled: the compilation of any other fails with a result that
  names no object, leaves the store as it was, and calls none of the services that create plans,
  tasks and automations, as it is the same whatever they do.
\<close>

theorem compile_needs_enabled:
  assumes "\<And>flow. svcGetWorkflow (wiProjectID input) (wiWorkflowID input) (snd s) = Inr flow
      \<Longrightarrow> wdStatus flow \<noteq> WorkflowStatusEnabled"
  shows "\<exists>res e s'. svcCompileWorkflow env input s = (Inl (res, e), s') \<and> snd s' = snd s
    \<and> woWorkPlanID res = [] \<and> woWorkTaskIDs res = [] \<and> woReviewerTaskIDs res = [] \<and> woAutomationIDs res = []
    \<and> svcCompileWorkflow (env\<lparr>weCreateWorkPlan := f, weCreateWorkTask := g, weUpdateWorkTask := h,
         weCreateAutomation := c\<rparr>) input s = (Inl (res, e), s')"
proof -
  let ?env = "env\<lparr>weCreateWorkPlan := f, weCreateWorkTask := g, weUpdateWorkTask := h, weCreateAutomation := c\<rparr>"
  have "refuses (svcCompileWorkflow env input) (svcCompileWorkflow ?env input) s"
    unfolding svcCompileWorkflow_def
  proof (intro refuses_lift refuses_read)
    fix p i rn tc u tt flow
    assume "safeRequiredWorkflowRef (wiProjectID input) ''project_id'' = Inr p"
      "safeRequiredWorkflowRef (wiWorkflowID input) ''workflow_id'' = Inr i" "memGetWorkflow p i (snd s) = Inr flow"
    then have "svcGetWorkflow (wiProjectID input) (wiWorkflowID input) (snd s) = Inr flow"
      by (simp add: svcGetWorkflow_def safeWorkflowObject_def)
    then have "hasErrorIssues (compileIssues flow)"
      using assms compileIssues_valid by blast
    then show "refuses (compileStored env flow (wiDryRun input) u tt rn tc)
        (compileStored ?env flow (wiDryRun input) u tt rn tc) s"
      by (simp add: compileStored_def Let_def)
        (rule refuses_fail; simp add: noObjects_def emptyCompileResult_def)
  qed
  then show ?thesis unfolding refuses_def noObjects_def by blast
qed

lemma compile_needs_enabled_witness:
  "\<exists>res e s'. svcCompileWorkflow demoFlowEnv demoCompile ((), newWorkflowStore) = (Inl (res, e), s')
    \<and> woWorkPlanID res = []"
proof -
  have "svcGetWorkflow (wiProjectID demoCompile) (wiWorkflowID demoCompile) (snd ((), newWorkflowStore)) \<noteq> Inr flow" for flow
    by (auto simp: svcGetWorkflow_def safeWorkflowObject_def demoCompile_def memGetWorkflow_def newWorkflowStore_def)
  then show ?thesis using compile_needs_enabled [of demoCompile "((), newWorkflowStore)" demoFlowEnv] by blast
qed

end
