(* ===== verification/Automation_Store.thy ===== *)
theory Automation_Store
  imports Automation_Model Store_Interface
begin

section \<open>Automations: the memory store\<close>

text \<open>
  \<open>internal/projectautomation/store/memory.go\<close>: automations, runs, attempts and batches under
  their identifiers. The project is not part of the key; it is compared when an object is read
  or updated. There is no index of references: a creation scans the automations.
\<close>

record AutomationStore =
  asAutomation :: "(string, Automation) table"
  asRuns :: "(string, AutomationRun) table"
  asAttempts :: "(string, AutomationAttempt) table"
  asBatches :: "(string, AutomationParallelBatch) table"

definition newAutomationStore :: AutomationStore where
  "newAutomationStore = \<lparr>asAutomation = [], asRuns = [], asAttempts = [], asBatches = []\<rparr>"

definition sameAutomationRef :: "Automation \<Rightarrow> Automation \<Rightarrow> bool" where
  "sameAutomationRef existing value =
     (auProjectID existing = auProjectID value \<and> auAutomationRef existing = auAutomationRef value)"

definition memCreateAutomation :: "Automation \<Rightarrow> (AutomationStore, Automation) act" where
  "memCreateAutomation value st =
     (if thas (asAutomation st) (auID value) then (Inl ErrDuplicate, st)
      else if list_ex (\<lambda>existing. sameAutomationRef existing value) (tvals (asAutomation st))
      then (Inl ErrDuplicate, st)
      else (Inr value, st\<lparr>asAutomation := tput (asAutomation st) (auID value) value\<rparr>))"

definition memGetAutomation :: "string \<Rightarrow> string \<Rightarrow> AutomationStore \<Rightarrow> Automation res" where
  "memGetAutomation projectID automationID st =
     (case tget (asAutomation st) automationID of
        None \<Rightarrow> Inl ErrNotFound
      | Some value \<Rightarrow> if auProjectID value \<noteq> projectID then Inl ErrNotFound else Inr value)"

definition keepAutomation :: "AutomationFilter \<Rightarrow> Automation \<Rightarrow> bool" where
  "keepAutomation flt value =
     (auProjectID value = jfProjectID flt \<and> (jfStatus flt = [] \<or> auStatus value = jfStatus flt)
      \<and> (jfAgentID flt = [] \<or> auAgentID value = jfAgentID flt))"

definition memListAutomations :: "AutomationFilter \<Rightarrow> AutomationStore \<Rightarrow> Automation list" where
  "memListAutomations flt st = filter (keepAutomation flt) (tvals (asAutomation st))"

definition memUpdateAutomation :: "Automation \<Rightarrow> (AutomationStore, Automation) act" where
  "memUpdateAutomation value st =
     (case tget (asAutomation st) (auID value) of
        None \<Rightarrow> (Inl ErrNotFound, st)
      | Some existing \<Rightarrow>
          if auProjectID existing \<noteq> auProjectID value then (Inl ErrNotFound, st)
          else (Inr value, st\<lparr>asAutomation := tput (asAutomation st) (auID value) value\<rparr>))"

definition memCreateRun :: "AutomationRun \<Rightarrow> (AutomationStore, AutomationRun) act" where
  "memCreateRun value st =
     (if thas (asRuns st) (arID value) then (Inl ErrDuplicate, st)
      else (Inr value, st\<lparr>asRuns := tput (asRuns st) (arID value) value\<rparr>))"

definition memGetRun :: "string \<Rightarrow> string \<Rightarrow> AutomationStore \<Rightarrow> AutomationRun res" where
  "memGetRun projectID runID st =
     (case tget (asRuns st) runID of
        None \<Rightarrow> Inl ErrNotFound
      | Some value \<Rightarrow> if arProjectID value \<noteq> projectID then Inl ErrNotFound else Inr value)"

definition keepAutomationRun :: "RunFilter \<Rightarrow> AutomationRun \<Rightarrow> bool" where
  "keepAutomationRun flt value =
     (arProjectID value = jqProjectID flt
      \<and> (jqAutomationID flt = [] \<or> arAutomationID value = jqAutomationID flt)
      \<and> (jqPlanID flt = [] \<or> arPlanID value = jqPlanID flt)
      \<and> (jqStatus flt = [] \<or> arStatus value = jqStatus flt)
      \<and> (jqOrchestratorRunID flt = [] \<or> arOrchestratorRunID value = jqOrchestratorRunID flt))"

definition memListRuns :: "RunFilter \<Rightarrow> AutomationStore \<Rightarrow> AutomationRun list" where
  "memListRuns flt st = filter (keepAutomationRun flt) (tvals (asRuns st))"

definition preservingSummaries :: "string list" where
  "preservingSummaries =
    [''pre_execution_recovery'', ''gitops_post_task_recovery'', ''post_implementation_review_queued'']"

definition shouldPreserveExistingRun :: "AutomationRun \<Rightarrow> AutomationRun \<Rightarrow> bool" where
  "shouldPreserveExistingRun existing nxt =
     (if arStatus nxt \<noteq> RunStatusRunning \<or> arStatus existing = RunStatusFailed then False
      else arSafeSummary nxt \<in> set preservingSummaries)"

definition memUpdateRun :: "AutomationRun \<Rightarrow> (AutomationStore, AutomationRun) act" where
  "memUpdateRun value st =
     (case tget (asRuns st) (arID value) of
        None \<Rightarrow> (Inl ErrNotFound, st)
      | Some existing \<Rightarrow>
          if arProjectID existing \<noteq> arProjectID value then (Inl ErrNotFound, st)
          else if shouldPreserveExistingRun existing value then (Inr existing, st)
          else (Inr value, st\<lparr>asRuns := tput (asRuns st) (arID value) value\<rparr>))"

definition memCreateAttempt :: "AutomationAttempt \<Rightarrow> (AutomationStore, AutomationAttempt) act" where
  "memCreateAttempt value st =
     (if thas (asAttempts st) (atID value) then (Inl ErrDuplicate, st)
      else (Inr value, st\<lparr>asAttempts := tput (asAttempts st) (atID value) value\<rparr>))"

definition memCreateParallelBatch :: "AutomationParallelBatch \<Rightarrow> (AutomationStore, AutomationParallelBatch) act" where
  "memCreateParallelBatch value st =
     (if thas (asBatches st) (abID value) then (Inl ErrDuplicate, st)
      else (Inr value, st\<lparr>asBatches := tput (asBatches st) (abID value) value\<rparr>))"

definition memGetParallelBatch :: "string \<Rightarrow> string \<Rightarrow> AutomationStore \<Rightarrow> AutomationParallelBatch res" where
  "memGetParallelBatch projectID batchID st =
     (case tget (asBatches st) batchID of
        None \<Rightarrow> Inl ErrNotFound
      | Some value \<Rightarrow> if abProjectID value \<noteq> projectID then Inl ErrNotFound else Inr value)"

subsection \<open>As keyed stores\<close>

definition getAutomation :: "AutomationStore \<Rightarrow> string \<Rightarrow> Automation option" where
  "getAutomation st = tget (asAutomation st)"

definition putAutomation :: "AutomationStore \<Rightarrow> Automation \<Rightarrow> AutomationStore" where
  "putAutomation st v = st\<lparr>asAutomation := tput (asAutomation st) (auID v) v\<rparr>"

definition getRun :: "AutomationStore \<Rightarrow> string \<Rightarrow> AutomationRun option" where
  "getRun st = tget (asRuns st)"

definition putRun :: "AutomationStore \<Rightarrow> AutomationRun \<Rightarrow> AutomationStore" where
  "putRun st v = st\<lparr>asRuns := tput (asRuns st) (arID v) v\<rparr>"

definition getBatch :: "AutomationStore \<Rightarrow> string \<Rightarrow> AutomationParallelBatch option" where
  "getBatch st = tget (asBatches st)"

definition putBatch :: "AutomationStore \<Rightarrow> AutomationParallelBatch \<Rightarrow> AutomationStore" where
  "putBatch st v = st\<lparr>asBatches := tput (asBatches st) (abID v) v\<rparr>"

interpretation automations: keyed_store getAutomation putAutomation auID
  by unfold_locales (simp add: getAutomation_def putAutomation_def store_simps)

interpretation automation_runs: keyed_store getRun putRun arID
  by unfold_locales (simp add: getRun_def putRun_def store_simps)

interpretation batches: keyed_store getBatch putBatch abID
  by unfold_locales (simp add: getBatch_def putBatch_def store_simps)

lemma automation_frames [simp]:
  "getRun (putAutomation st a) = getRun st" "getBatch (putAutomation st a) = getBatch st"
  "getAutomation (putRun st r) = getAutomation st" "getBatch (putRun st r) = getBatch st"
  "getAutomation (putBatch st b) = getAutomation st" "getRun (putBatch st b) = getRun st"
  by (simp_all add: getRun_def getBatch_def getAutomation_def putAutomation_def putRun_def putBatch_def)

lemma memGetAutomation_Inr:
  "memGetAutomation p i st = Inr a \<longleftrightarrow> getAutomation st i = Some a \<and> auProjectID a = p"
  by (auto simp: memGetAutomation_def getAutomation_def split: option.splits)

lemma memCreateRun_eq:
  "memCreateRun r st = (if getRun st (arID r) \<noteq> None then (Inl ErrDuplicate, st) else (Inr r, putRun st r))"
  by (simp add: memCreateRun_def getRun_def putRun_def thas_def)

lemma memCreateParallelBatch_eq:
  "memCreateParallelBatch b st = (if getBatch st (abID b) \<noteq> None then (Inl ErrDuplicate, st) else (Inr b, putBatch st b))"
  by (simp add: memCreateParallelBatch_def getBatch_def putBatch_def thas_def)

lemma memCreateParallelBatch_Inr:
  "memCreateParallelBatch b st = (Inr x, st') \<longleftrightarrow> getBatch st (abID b) = None \<and> x = b \<and> st' = putBatch st b"
  by (auto simp: memCreateParallelBatch_eq)

lemma memCreateRun_Inr:
  "memCreateRun r st = (Inr x, st') \<longleftrightarrow> getRun st (arID r) = None \<and> x = r \<and> st' = putRun st r"
  by (auto simp: memCreateRun_eq)

end
