(* ===== verification/Automation_Service.thy ===== *)
theory Automation_Service
  imports Automation_Model Automation_Store Workflow_Service
begin

section \<open>Automations: input checks\<close>

text \<open>
  The helpers at the end of \<open>internal/projectautomation/service.go\<close>. They are weaker than those
  of the work plan service of the same names: a reference only has to match the pattern.
\<close>

definition safeRef_au :: "string \<Rightarrow> string \<Rightarrow> string res" where
  "safeRef_au value0 field =
     (let value = trimSpace value0
      in if \<not> matchFull refPattern value then Inl (ErrInvalidInput (field @ '' must be a safe ref'')) else Inr value)"

definition safeOptionalRef_au :: "string \<Rightarrow> string \<Rightarrow> string res" where
  "safeOptionalRef_au value0 field =
     (let value = trimSpace value0 in if value = [] then Inr [] else safeRef_au value field)"

definition safeProjectObject_au :: "string \<Rightarrow> string \<Rightarrow> string \<Rightarrow> (string \<times> string) res" where
  "safeProjectObject_au projectID0 objectID0 field =
     tryE (safeRef_au projectID0 ''project_id'') (\<lambda>projectID.
     tryE (safeRef_au objectID0 field) (\<lambda>objectID. Inr (projectID, objectID)))"

definition safeRefList_au :: "string list \<Rightarrow> string \<Rightarrow> string list res" where
  "safeRefList_au vs field =
     (if length vs > 100 then Inl (ErrInvalidInput (field @ '' has too many values''))
      else mapE (\<lambda>v. safeRef_au v field) vs)"

definition unsafeMarkers_au :: "string list" where
  "unsafeMarkers_au =
    [''begin private key'', ''openai_api_key'', ''anthropic_api_key'', ''provider_payload'', ''raw_prompt'',
     ''raw_completion'', ''raw_stderr'', ''ghp_'', ''sk-'']"

definition safeText_au :: "string \<Rightarrow> string \<Rightarrow> nat \<Rightarrow> string res" where
  "safeText_au value0 field mx =
     (let value = trimSpace value0
      in if length value > mx then Inl (ErrInvalidInput (field @ '' is too long''))
         else if list_ex (contains (toLower value)) unsafeMarkers_au
         then Inl (ErrInvalidInput (field @ '' contains unsafe marker''))
         else if matchString emailPattern value \<or> matchString phonePattern value
         then Inl (ErrInvalidInput (field @ '' contains pii-like content''))
         else Inr value)"

definition safeRequiredText_au :: "string \<Rightarrow> string \<Rightarrow> nat \<Rightarrow> string res" where
  "safeRequiredText_au value0 field mx =
     (let value = trimSpace value0
      in if value = [] then Inl (ErrInvalidInput (field @ '' is required'')) else safeText_au value field mx)"

definition safeAutomationStatus :: "string \<Rightarrow> string res" where
  "safeAutomationStatus value =
     (if trimSpace value \<in> set automationStatuses then Inr (trimSpace value)
      else Inl (ErrInvalidInput ''unknown automation status''))"

definition safeOptionalAutomationStatus :: "string \<Rightarrow> string res" where
  "safeOptionalAutomationStatus value0 =
     (let value = trimSpace value0 in if value = [] then Inr [] else safeAutomationStatus value)"

definition safeAutomationTrigger :: "string \<Rightarrow> string res" where
  "safeAutomationTrigger value0 =
     (let value = trimSpace value0
      in if value = [] then Inr TriggerKindManual
         else if value \<in> {TriggerKindManual, TriggerKindAutomatic} then Inr value
         else Inl (ErrInvalidInput ''unknown automation trigger''))"

definition safeAutomationSource :: "string \<Rightarrow> string res" where
  "safeAutomationSource value0 =
     (let value = trimSpace value0
      in if value = [] then Inr AutomationSourceManual
         else if value \<in> {AutomationSourceManual, AutomationSourceWorkflow} then Inr value
         else Inl (ErrInvalidInput ''unknown automation source''))"

definition safeFailure :: "string \<Rightarrow> string" where
  "safeFailure value0 =
     (let value = replaceAll '' '' ''_'' (trimSpace value0)
      in if value = [] then ''unknown'' else if length value > 100 then take 100 value else value)"

definition validatePermissionSnapshotRef :: "string \<Rightarrow> unit res" where
  "validatePermissionSnapshotRef value =
     (if trimSpace value = [] then Inl (ErrInvalidInput ''missing_permission_snapshot_ref'')
      else if \<not> hasPrefix value PermissionSnapshotRefPrefix
      then Inl (ErrInvalidInput ''malformed_permission_snapshot_ref'')
      else case safeRef_au (trimPrefix value PermissionSnapshotRefPrefix) ''permission_snapshot_id'' of
             Inl _ \<Rightarrow> Inl (ErrInvalidInput ''malformed_permission_snapshot_ref'')
           | Inr _ \<Rightarrow> Inr ())"

subsection \<open>Checks of tasks and permissions\<close>

definition validateExecutableTask :: "WorkTask \<Rightarrow> unit res" where
  "validateExecutableTask task =
     tryE (failIf (wtStatus task \<noteq> WorkTaskStatusReady) (ErrInvalidInput ''task_not_ready'')) (\<lambda>_.
     tryE (failIf (wtDecompositionQuality task \<noteq> DecompositionReady) (ErrInvalidInput ''decomposition_not_ready'')) (\<lambda>_.
     failIf (trimSpace (wtVerificationRequirement task) = []) (ErrInvalidInput ''missing_verification'')))"

definition validateAllowedTaskRef :: "Automation \<Rightarrow> WorkTask \<Rightarrow> unit res" where
  "validateAllowedTaskRef automation task =
     (if auAllowedTaskRefs automation = [] then Inr ()
      else if wtTaskRef task \<in> set (auAllowedTaskRefs automation) \<or> wtID task \<in> set (auAllowedTaskRefs automation)
      then Inr () else Inl (ErrInvalidInput ''task_ref_not_allowed''))"

definition isAutomationReviewTask :: "Automation \<Rightarrow> string \<Rightarrow> bool" where
  "isAutomationReviewTask automation ref = (ref \<noteq> [] \<and> ref \<in> set (auRequiredReviewTaskIDs automation))"

definition deniesRunner :: "string \<Rightarrow> string \<Rightarrow> bool" where
  "deniesRunner runnerKind denied =
     (let normalized = toLower (trimSpace denied)
      in (runnerKind = RunnerKindCodexCLI
            \<and> (normalized = ''codex'' \<or> normalized = ''codex_cli'' \<or> contains normalized ''codex cli''))
         \<or> (runnerKind = RunnerKindManual \<and> normalized = ''manual''))"

definition permissionAllowsRunner :: "PermissionSnapshotMetadata \<Rightarrow> string \<Rightarrow> bool" where
  "permissionAllowsRunner metadata runnerKind =
     (if runnerKind = [] then True
      else if list_ex (deniesRunner runnerKind) (pmDeniedCommands metadata) then False
      else if pmAllowedRunnerKinds metadata = [] then True
      else list_ex (\<lambda>allowed. trimSpace allowed = runnerKind) (pmAllowedRunnerKinds metadata))"

definition usedBy :: "(string, string) table \<Rightarrow> string \<Rightarrow> string" where
  "usedBy used key = (case tget used key of None \<Rightarrow> [] | Some i \<Rightarrow> i)"

definition firstFileConflict :: "WorkTask \<Rightarrow> (string, string) table \<Rightarrow> string" where
  "firstFileConflict task used =
     (case find (\<lambda>key. key \<noteq> [] \<and> usedBy used key \<noteq> []) (map (\<lambda>file. toLower (trimSpace file)) (wtLikelyFilesAffected task)) of
        None \<Rightarrow> [] | Some key \<Rightarrow> key)"

section \<open>Automations: the service\<close>

text \<open>
  From \<open>internal/projectautomation/service.go\<close>: automations are created, listed and moved between
  statuses, a run is submitted after the review gates and the permission of its automation are
  checked, and a batch of tasks that may run in parallel is computed. The claiming, execution and
  recovery of runs are not modelled; \<open>ListRuns\<close> reconciles runs first and is left out with them.
  The guards against a missing store or work task service are left out.
\<close>

type_synonym 'w automation_state = "'w \<times> AutomationStore"

definition nowS_au :: "'w AutomationEnv \<Rightarrow> 'w \<Rightarrow> ('e + time) \<times> 'w" where
  "nowS_au env w = (case aeNow env w of (t, w') \<Rightarrow> (Inr t, w'))"

definition newIDS_au :: "'w AutomationEnv \<Rightarrow> string \<Rightarrow> 'w \<Rightarrow> ('e + string) \<times> 'w" where
  "newIDS_au env pre w = (case aeNewID env pre w of (i, w') \<Rightarrow> (Inr i, w'))"

definition readWorld :: "('w \<Rightarrow> 'e + 'a) \<Rightarrow> 'w \<times> 's \<Rightarrow> ('e + 'a) \<times> ('w \<times> 's)" where
  "readWorld f s = (f (fst s), s)"

subsection \<open>Automations\<close>

definition buildAutomation :: "CreateAutomationInput \<Rightarrow> Automation res" where
  "buildAutomation input =
     tryE (safeRef_au (jaProjectID input) ''project_id'') (\<lambda>projectID.
     tryE (safeRef_au (jaAutomationRef input) ''automation_ref'') (\<lambda>automationRef.
     tryE (safeRequiredText_au (jaTitle input) ''title'' 200) (\<lambda>title.
     tryE (safeRequiredText_au (jaPurpose input) ''purpose'' 500) (\<lambda>purpose.
     tryE (safeRef_au (jaAgentID input) ''agent_id'') (\<lambda>agentID.
     tryE (safeOptionalRef_au (jaPlanID input) ''plan_id'') (\<lambda>planID.
     tryE (safeRefList_au (jaAllowedTaskRefs input) ''allowed_task_refs'') (\<lambda>taskRefs.
     tryE (safeRefList_au (jaRequiredReviewTaskIDs input) ''required_review_task_ids'') (\<lambda>reviewIDs.
     tryE (safeAutomationSource (jaSourceKind input)) (\<lambda>sourceKind.
     tryE (safeOptionalAutomationStatus (jaStatus input)) (\<lambda>status.
     tryE (safeAutomationTrigger (jaTriggerKind input)) (\<lambda>triggerKind.
     tryE (safeOptionalRef_au (jaSchedulePolicy input) ''schedule_policy'') (\<lambda>schedulePolicy.
     tryE (safeOptionalRef_au (jaPermissionRef input) ''permission_ref'') (\<lambda>permissionRef.
     tryE (if sourceKind = AutomationSourceWorkflow then validatePermissionSnapshotRef permissionRef else Inr ()) (\<lambda>_.
     tryE (safeOptionalRef_au (jaCreatedByRunID input) ''created_by_run_id'') (\<lambda>runID.
     tryE (safeOptionalRef_au (jaTraceID input) ''trace_id'') (\<lambda>traceID.
     Inr \<lparr>auID = [], auProjectID = projectID, auAutomationRef = automationRef, auTitle = title, auPurpose = purpose,
       auStatus = (if status = [] then AutomationStatusDraft else status), auAgentID = agentID, auPlanID = planID,
       auAllowedTaskRefs = taskRefs, auRequiredReviewTaskIDs = reviewIDs, auTriggerKind = triggerKind,
       auSourceKind = sourceKind, auSchedulePolicy = schedulePolicy, auPermissionRef = permissionRef,
       auCreatedByRunID = runID, auTraceID = traceID, auCreatedAt = zeroTime, auUpdatedAt = zeroTime\<rparr>))))))))))))))))"

definition svcCreateAutomation ::
    "'w AutomationEnv \<Rightarrow> CreateAutomationInput \<Rightarrow> ('w automation_state, Automation) act" where
  "svcCreateAutomation env input =
     seqS (liftS (buildAutomation input)) (\<lambda>value.
     seqS (inWorld (nowS_au env)) (\<lambda>now.
     seqS (inWorld (newIDS_au env ''automation'')) (\<lambda>i.
     inStore (memCreateAutomation (value\<lparr>auID := i, auCreatedAt := now, auUpdatedAt := now\<rparr>)))))"

definition svcGetAutomation :: "string \<Rightarrow> string \<Rightarrow> AutomationStore \<Rightarrow> Automation res" where
  "svcGetAutomation projectID0 automationID0 st =
     tryE (safeProjectObject_au projectID0 automationID0 ''automation_id'') (\<lambda>(projectID, automationID).
     memGetAutomation projectID automationID st)"

definition svcUpdateAutomationStatus ::
    "'w AutomationEnv \<Rightarrow> UpdateAutomationStatusInput \<Rightarrow> ('w automation_state, Automation) act" where
  "svcUpdateAutomationStatus env input =
     seqS (liftS (safeProjectObject_au (jsProjectID input) (jsAutomationID input) ''automation_id''))
       (\<lambda>(projectID, automationID).
     seqS (liftS (safeAutomationStatus (jsStatus input))) (\<lambda>status.
     seqS (liftS (safeOptionalRef_au (jsRunID input) ''run_id'')) (\<lambda>_.
     seqS (liftS (safeOptionalRef_au (jsTraceID input) ''trace_id'')) (\<lambda>traceID.
     seqS (readStore (memGetAutomation projectID automationID)) (\<lambda>automation.
     seqS (inWorld (nowS_au env)) (\<lambda>now.
     inStore (memUpdateAutomation (automation\<lparr>auStatus := status,
       auTraceID := (if traceID \<noteq> [] then traceID else auTraceID automation), auUpdatedAt := now\<rparr>))))))))"

definition svcListAutomations :: "AutomationFilter \<Rightarrow> AutomationStore \<Rightarrow> Automation list res" where
  "svcListAutomations flt st =
     tryE (safeRef_au (jfProjectID flt) ''project_id'') (\<lambda>projectID.
     tryE (setIf (jfStatus flt \<noteq> []) (safeAutomationStatus (jfStatus flt)) []) (\<lambda>_.
     tryE (setIf (jfAgentID flt \<noteq> []) (safeOptionalRef_au (jfAgentID flt) ''agent_id'') []) (\<lambda>agentID.
     Inr (memListAutomations (flt\<lparr>jfProjectID := projectID, jfAgentID := agentID\<rparr>) st))))"

definition svcGetRun :: "string \<Rightarrow> string \<Rightarrow> AutomationStore \<Rightarrow> AutomationRun res" where
  "svcGetRun projectID0 runID0 st =
     tryE (safeProjectObject_au projectID0 runID0 ''run_id'') (\<lambda>(projectID, runID). memGetRun projectID runID st)"

subsection \<open>Gates of a run\<close>

definition external :: "'w AutomationEnv \<Rightarrow> bool" where
  "external env = (aoRunnerExecution (aeOptions env) = RunnerExecutionExternal)"

definition resolveRunnerKind :: "'w AutomationEnv \<Rightarrow> 'w \<Rightarrow> string \<Rightarrow> string res" where
  "resolveRunnerKind env w requested =
     (let kind = trimSpace requested; opts = aeOptions env in
      if kind = [] then
        if aoRunnerEnabled opts \<and> (external env \<or> aeCodexAvailable env w) then Inr RunnerKindCodexCLI
        else if aoAllowManualRunner opts then Inr RunnerKindManual
        else Inl (ErrInvalidInput ''codex_cli_unavailable'')
      else if kind = RunnerKindCodexCLI then
        if \<not> aoRunnerEnabled opts then Inl (ErrInvalidInput ''runner_disabled'')
        else if \<not> external env \<and> \<not> aeCodexAvailable env w then Inl (ErrInvalidInput ''codex_cli_unavailable'')
        else Inr kind
      else if kind = RunnerKindManual then
        if \<not> aoAllowManualRunner opts then Inl (ErrInvalidInput ''manual_runner_denied'')
        else if aoRequireCodexWhenAvailable opts \<and> aoRunnerEnabled opts \<and> aeCodexAvailable env w
        then Inl (ErrInvalidInput ''codex_cli_required'')
        else Inr kind
      else Inl (ErrInvalidInput ''unknown_runner_kind''))"

definition taskDone :: "'w AutomationEnv \<Rightarrow> 'w \<Rightarrow> string \<Rightarrow> string \<Rightarrow> bool" where
  "taskDone env w projectID taskID =
     (case aeGetWorkTask env projectID taskID w of Inl _ \<Rightarrow> False | Inr task \<Rightarrow> wtStatus task = WorkTaskStatusDone)"

definition requiredAutomationReviewsDone :: "'w AutomationEnv \<Rightarrow> 'w \<Rightarrow> Automation \<Rightarrow> bool" where
  "requiredAutomationReviewsDone env w automation =
     list_all (taskDone env w (auProjectID automation)) (auRequiredReviewTaskIDs automation)"

definition dependenciesDone :: "'w AutomationEnv \<Rightarrow> 'w \<Rightarrow> WorkTask \<Rightarrow> bool" where
  "dependenciesDone env w task = list_all (taskDone env w (wtProjectID task)) (wtDependencyTaskIDs task)"

definition checkAllowedTask :: "Automation \<Rightarrow> WorkTask \<Rightarrow> unit res" where
  "checkAllowedTask automation task =
     (if \<not> isAutomationReviewTask automation (wtID task) \<and> \<not> isAutomationReviewTask automation (wtTaskRef task)
      then validateAllowedTaskRef automation task else Inr ())"

definition permissionCheck :: "'w AutomationEnv \<Rightarrow> 'w \<Rightarrow> Automation \<Rightarrow> string \<Rightarrow> string \<Rightarrow> unit res" where
  "permissionCheck env w automation runnerKind agentID =
     (if \<not> hasPrefix (auPermissionRef automation) PermissionSnapshotRefPrefix then Inr ()
      else case aePermission env of
        None \<Rightarrow> Inl (ErrInvalidInput ''permission_resolver_unavailable'')
      | Some resolve \<Rightarrow>
          tryE (resolve \<lparr>pkProjectID = auProjectID automation, pkAutomationID = auID automation,
              pkAutomationRef = auAutomationRef automation, pkAgentID = agentID,
              pkPermissionRef = auPermissionRef automation, pkRunnerKind = runnerKind,
              pkRunnerExecution = aoRunnerExecution (aeOptions env)\<rparr> w) (\<lambda>metadata.
          tryE (failIf (pmAgentID metadata \<noteq> agentID) (ErrInvalidInput ''permission_agent_mismatch'')) (\<lambda>_.
          failIf (\<not> permissionAllowsRunner metadata runnerKind) (ErrInvalidInput ''permission_runner_denied''))))"

definition validateAutomationPolicy ::
    "'w AutomationEnv \<Rightarrow> 'w \<Rightarrow> Automation \<Rightarrow> string \<Rightarrow> string \<Rightarrow> string \<Rightarrow> unit res" where
  "validateAutomationPolicy env w automation runnerKind taskID agentID0 =
     (let agentID = (if trimSpace agentID0 = [] then auAgentID automation else agentID0) in
      tryE (if auSourceKind automation = AutomationSourceWorkflow
            then validatePermissionSnapshotRef (auPermissionRef automation) else Inr ()) (\<lambda>_.
      tryE (permissionCheck env w automation runnerKind agentID) (\<lambda>_.
      if taskID \<noteq> [] \<and> auAllowedTaskRefs automation \<noteq> [] \<and> \<not> isAutomationReviewTask automation taskID
      then (case aeGetWorkTask env (auProjectID automation) taskID w of
              Inl _ \<Rightarrow> Inl (ErrInvalidInput ''task_unavailable'')
            | Inr task \<Rightarrow> checkAllowedTask automation task)
      else Inr ())))"

definition openTasksFilter :: "string \<Rightarrow> string \<Rightarrow> WorkTaskFilter" where
  "openTasksFilter projectID planID =
     \<lparr>tfProjectID = projectID, tfPlanID = planID, tfStatus = [], tfOwnerAgent = [], tfClaimedByRunID = [],
      tfPageSize = 0, tfPageToken = []\<rparr>"

definition readyForAutomation :: "'w AutomationEnv \<Rightarrow> 'w \<Rightarrow> Automation \<Rightarrow> WorkTask \<Rightarrow> bool" where
  "readyForAutomation env w automation task =
     (validateAllowedTaskRef automation task = Inr () \<and> validateExecutableTask task = Inr () \<and> dependenciesDone env w task)"

definition resolveTask :: "'w AutomationEnv \<Rightarrow> 'w \<Rightarrow> AutomationRun \<Rightarrow> Automation \<Rightarrow> WorkTask res" where
  "resolveTask env w run automation =
     (if arTaskID run \<noteq> [] then
        tryE (aeGetWorkTask env (arProjectID run) (arTaskID run) w) (\<lambda>task.
        tryE (checkAllowedTask automation task) (\<lambda>_. Inr task))
      else
        tryE (aeListOpenWorkTasks env (openTasksFilter (arProjectID run) (arPlanID run)) w) (\<lambda>open.
        case find (readyForAutomation env w automation) open of
          None \<Rightarrow> Inl (ErrInvalidInput ''no ready task'') | Some task \<Rightarrow> Inr task))"

end
