(* ===== verification/Automation_Submit.thy ===== *)
theory Automation_Submit
  imports Automation_Service
begin

section \<open>Automations: submitting runs, parallel batches\<close>

text \<open>
  \<open>SubmitRun\<close> and \<open>ComputeParallelBatch\<close> of \<open>internal/projectautomation/service.go\<close> with their
  helpers. \<open>sort.Slice\<close> is not stable: the order of candidates with equal references is one of
  those it may choose. \<open>toLower\<close> is exact for ASCII paths.
\<close>

subsection \<open>Review runs\<close>

definition activeRunStatuses :: "string list" where
  "activeRunStatuses = [RunStatusQueued, ''claiming'', ''starting'', RunStatusRunning, ''verifying'']"

definition gateOpen :: error where
  "gateOpen = ErrInvalidInput ''automation_review_gate_open''"

definition releaseReview :: "Automation \<Rightarrow> SubmitRunInput \<Rightarrow> WorkTask \<Rightarrow> UpdateWorkTaskStatusInput" where
  "releaseReview automation input task =
     \<lparr>taProjectID = auProjectID automation, taTaskID = wtID task, taOwnerAgent = [],
      taRunID = jrOrchestratorRunID input, taTraceID = jrOrchestratorRunID input, taOutcome = [],
      taSafeNextAction = ''automation_review_gate'', taBlockedReason = [], taBlockedByTaskIDs = [],
      taContextPackRefs = [], taEvidenceRefs = [], taClaimRefs = [], taKnowledgeRefs = [],
      taResumeInstructions = [], taVerifierResultRefs = [], taReviewResultRefs = [],
      taReviewExemptReason = [], utStatus = WorkTaskStatusReady\<rparr>"

definition openReview ::
    "'w AutomationEnv \<Rightarrow> Automation \<Rightarrow> SubmitRunInput \<Rightarrow> WorkTask \<Rightarrow> ('w automation_state, WorkTask) act" where
  "openReview env automation input task =
     (if wtStatus task \<noteq> WorkTaskStatusPlanned then retS task
      else case aeUpdateWorkTaskStatus env of
             None \<Rightarrow> liftS (Inl gateOpen)
           | Some update \<Rightarrow> inWorld (update (releaseReview automation input task)))"

definition reviewQueued :: "Automation \<Rightarrow> WorkTask \<Rightarrow> AutomationStore \<Rightarrow> bool" where
  "reviewQueued automation task st =
     list_ex (\<lambda>run. arTaskID run = wtID task \<and> arStatus run \<in> set activeRunStatuses)
       (memListRuns \<lparr>jqProjectID = auProjectID automation, jqAutomationID = auID automation,
          jqPlanID = auPlanID automation, jqStatus = [], jqOrchestratorRunID = []\<rparr> st)"

definition queueReview ::
    "'w AutomationEnv \<Rightarrow> Automation \<Rightarrow> string \<Rightarrow> SubmitRunInput \<Rightarrow> WorkTask \<Rightarrow> ('w automation_state, unit) act" where
  "queueReview env automation runnerKind input task =
     seqS (readStore (\<lambda>st. Inr (reviewQueued automation task st))) (\<lambda>queued.
     if queued then retS ()
     else
       seqS (inWorld (nowS_au env)) (\<lambda>now.
       seqS (inWorld (newIDS_au env ''automation_run'')) (\<lambda>i.
       seqS (inStore (memCreateRun (zeroAutomationRun\<lparr>arID := i, arProjectID := auProjectID automation,
         arAutomationID := auID automation, arAgentID := firstNonEmpty [wtOwnerAgent task, auAgentID automation],
         arPlanID := wtPlanID task, arTaskID := wtID task, arStatus := RunStatusQueued,
         arRunnerKind := runnerKind, arOrchestratorRunID := jrOrchestratorRunID input,
         arParentRunID := jrParentRunID input, arSafeSummary := ''automation_review_gate_queued'',
         arCreatedAt := now, arUpdatedAt := now\<rparr>))) (\<lambda>_.
       retS ()))))"

fun ensureReviewRuns ::
    "'w AutomationEnv \<Rightarrow> Automation \<Rightarrow> string \<Rightarrow> SubmitRunInput \<Rightarrow> string list \<Rightarrow> ('w automation_state, unit) act" where
  "ensureReviewRuns env automation runnerKind input [] = retS ()"
| "ensureReviewRuns env automation runnerKind input (taskID # ids) =
     seqS (readWorld (\<lambda>w. case aeGetWorkTask env (auProjectID automation) taskID w of
         Inl _ \<Rightarrow> Inl gateOpen | Inr task \<Rightarrow> Inr task)) (\<lambda>task0.
     if wtStatus task0 = WorkTaskStatusDone then ensureReviewRuns env automation runnerKind input ids
     else
       seqS (openReview env automation input task0) (\<lambda>task.
       seqS (if wtStatus task = WorkTaskStatusReady then queueReview env automation runnerKind input task else retS ()) (\<lambda>_.
       ensureReviewRuns env automation runnerKind input ids)))"

subsection \<open>Submission\<close>

definition createRejectedRun ::
    "'w AutomationEnv \<Rightarrow> Automation \<Rightarrow> string \<Rightarrow> string \<Rightarrow> string \<Rightarrow> SubmitRunInput \<Rightarrow> string \<Rightarrow> string
      \<Rightarrow> ('w automation_state, AutomationRun) act" where
  "createRejectedRun env automation planID taskID owner input status reason =
     seqS (inWorld (nowS_au env)) (\<lambda>now.
     seqS (inWorld (newIDS_au env ''automation_run'')) (\<lambda>i.
     inStore (memCreateRun (zeroAutomationRun\<lparr>arID := i, arProjectID := auProjectID automation,
       arAutomationID := auID automation, arAgentID := firstNonEmpty [owner, auAgentID automation],
       arPlanID := planID, arTaskID := taskID, arStatus := status,
       arRunnerKind := trimSpace (jrRunnerKind input), arFailureCategory := safeFailure reason,
       arCreatedAt := now, arUpdatedAt := now, arFinishedAt := now\<rparr>))))"

definition queueRun ::
    "'w AutomationEnv \<Rightarrow> Automation \<Rightarrow> SubmitRunInput \<Rightarrow> string \<Rightarrow> string \<Rightarrow> string \<Rightarrow> string \<Rightarrow> string
      \<Rightarrow> ('w automation_state, AutomationRun) act" where
  "queueRun env automation input projectID planID taskID owner runnerKind =
     seqS (liftS (safeOptionalRef_au (jrOrchestratorRunID input) ''orchestrator_run_id'')) (\<lambda>orchestratorRunID.
     seqS (liftS (safeOptionalRef_au (jrParentRunID input) ''parent_run_id'')) (\<lambda>parentRunID.
     seqS (inWorld (nowS_au env)) (\<lambda>now.
     seqS (inWorld (newIDS_au env ''automation_run'')) (\<lambda>i.
     inStore (memCreateRun (zeroAutomationRun\<lparr>arID := i, arProjectID := projectID, arAutomationID := auID automation,
       arAgentID := owner, arPlanID := planID, arTaskID := taskID, arStatus := RunStatusQueued,
       arRunnerKind := runnerKind, arOrchestratorRunID := orchestratorRunID, arParentRunID := parentRunID,
       arCreatedAt := now, arUpdatedAt := now\<rparr>))))))"

definition pickTask ::
    "'w AutomationEnv \<Rightarrow> 'w \<Rightarrow> Automation \<Rightarrow> string \<Rightarrow> string \<Rightarrow> string \<Rightarrow> string \<Rightarrow> string \<Rightarrow> string res" where
  "pickTask env w automation projectID planID taskID owner runnerKind =
     (if taskID = [] \<and> auTriggerKind automation = TriggerKindAutomatic
      then tryE (resolveTask env w (zeroAutomationRun\<lparr>arProjectID := projectID, arAutomationID := auID automation,
             arAgentID := owner, arPlanID := planID, arRunnerKind := runnerKind\<rparr>) automation) (\<lambda>task. Inr (wtID task))
      else Inr taskID)"

text \<open>From the runner on: the gates, each of which may reject the run, and the queued run.\<close>

definition submitResolved ::
    "'w AutomationEnv \<Rightarrow> Automation \<Rightarrow> SubmitRunInput \<Rightarrow> string \<Rightarrow> string \<Rightarrow> string \<Rightarrow> string \<Rightarrow> string
      \<Rightarrow> ('w automation_state, AutomationRun) act" where
  "submitResolved env automation input projectID planID taskID owner runnerKind s =
     (let reject = createRejectedRun env automation planID in
      case ensureReviewRuns env automation runnerKind input (auRequiredReviewTaskIDs automation) s of
        (Inl e, s1) \<Rightarrow> reject taskID owner input RunStatusBlocked (aeErrorText env e) s1
      | (Inr _, s1) \<Rightarrow>
          if \<not> requiredAutomationReviewsDone env (fst s1) automation
          then reject taskID owner input RunStatusBlocked ''automation_review_gate_open'' s1
          else
            (case pickTask env (fst s1) automation projectID planID taskID owner runnerKind of
               Inl _ \<Rightarrow> reject taskID owner input RunStatusBlocked ''task_unavailable'' s1
             | Inr picked \<Rightarrow>
                 (case validateAutomationPolicy env (fst s1) automation runnerKind picked owner of
                    Inl e \<Rightarrow> reject picked owner input RunStatusPolicyDenied (aeErrorText env e) s1
                  | Inr _ \<Rightarrow> queueRun env automation input projectID planID picked owner runnerKind s1)))"

definition svcSubmitRun ::
    "'w AutomationEnv \<Rightarrow> SubmitRunInput \<Rightarrow> ('w automation_state, AutomationRun) act" where
  "svcSubmitRun env input =
     seqS (liftS (safeProjectObject_au (jrProjectID input) (jrAutomationID input) ''automation_id''))
       (\<lambda>(projectID, automationID).
     seqS (readStore (memGetAutomation projectID automationID)) (\<lambda>automation.
     seqS (liftS (safeOptionalRef_au (jrTaskID input) ''task_id'')) (\<lambda>taskID.
     seqS (liftS (safeOptionalRef_au (firstNonEmpty [jrPlanID input, auPlanID automation]) ''plan_id'')) (\<lambda>planID.
     seqS (liftS (safeOptionalRef_au (firstNonEmpty [jrOwnerAgent input, auAgentID automation]) ''owner_agent'')) (\<lambda>owner.
     seqS (readWorld (\<lambda>w. Inr (resolveRunnerKind env w (jrRunnerKind input)))) (\<lambda>resolved.
     case resolved of
       Inl e \<Rightarrow> createRejectedRun env automation planID taskID owner input RunStatusPolicyDenied (aeErrorText env e)
     | Inr runnerKind \<Rightarrow> submitResolved env automation input projectID planID taskID owner runnerKind))))))"

subsection \<open>Parallel batches\<close>

definition candidateTasks :: "'w AutomationEnv \<Rightarrow> 'w \<Rightarrow> string \<Rightarrow> string \<Rightarrow> string list \<Rightarrow> WorkTask list res" where
  "candidateTasks env w projectID planID taskIDs =
     (if taskIDs \<noteq> [] then
        tryE (safeRefList_au taskIDs ''task_ids'') (\<lambda>refs.
        mapE (\<lambda>taskID. aeGetWorkTask env projectID taskID w) refs)
      else aeListOpenWorkTasks env (openTasksFilter projectID planID) w)"

definition markFiles :: "WorkTask \<Rightarrow> (string, string) table \<Rightarrow> (string, string) table" where
  "markFiles task used = fold (\<lambda>file t. tput t (toLower file) (wtID task)) (wtLikelyFilesAffected task) used"

fun selectParallel ::
    "(WorkTask \<Rightarrow> bool) \<Rightarrow> int \<Rightarrow> WorkTask list \<Rightarrow> (string, string) table \<Rightarrow> WorkTask list \<Rightarrow> WorkTask list" where
  "selectParallel depsDone maxTasks [] used selected = selected"
| "selectParallel depsDone maxTasks (task # rest) used selected =
     (if int (length selected) = maxTasks then selected
      else if validateExecutableTask task \<noteq> Inr () \<or> \<not> depsDone task \<or> firstFileConflict task used \<noteq> []
      then selectParallel depsDone maxTasks rest used selected
      else selectParallel depsDone maxTasks rest (markFiles task used) (selected @ [task]))"

definition taskRefLess :: "WorkTask \<Rightarrow> WorkTask \<Rightarrow> bool" where
  "taskRefLess a b = (wtTaskRef a < wtTaskRef b)"

definition batchLimit :: "AutomationOptions \<Rightarrow> int \<Rightarrow> int" where
  "batchLimit opts requested =
     (if requested \<le> 0 \<or> requested > aoMaxParallelTasks opts then aoMaxParallelTasks opts else requested)"

definition svcComputeParallelBatch ::
    "'w AutomationEnv \<Rightarrow> ComputeParallelBatchInput \<Rightarrow> ('w automation_state, AutomationParallelBatch) act" where
  "svcComputeParallelBatch env input =
     seqS (liftS (safeRef_au (jbProjectID input) ''project_id'')) (\<lambda>projectID.
     seqS (liftS (safeOptionalRef_au (jbPlanID input) ''plan_id'')) (\<lambda>planID.
     seqS (liftS (safeRef_au (jbOrchestratorRunID input) ''orchestrator_run_id'')) (\<lambda>orchestratorRunID.
     seqS (liftS (safeOptionalRef_au (jbAutomationRunID input) ''automation_run_id'')) (\<lambda>automationRunID.
     seqS (readWorld (\<lambda>w. tryE (candidateTasks env w projectID planID (jbTaskIDs input)) (\<lambda>candidates.
       let selected = selectParallel (dependenciesDone env w) (batchLimit (aeOptions env) (jbMaxTasks input))
             (sortBy taskRefLess candidates) [] []
       in if selected = [] then Inl (ErrInvalidInput ''no parallel-safe tasks'') else Inr selected))) (\<lambda>selected.
     seqS (inWorld (nowS_au env)) (\<lambda>now.
     seqS (inWorld (newIDS_au env ''automation_batch'')) (\<lambda>i.
     inStore (memCreateParallelBatch \<lparr>abID = i, abProjectID = projectID, abAutomationRunID = automationRunID,
       abOrchestratorRunID = orchestratorRunID, abPlanID = planID, abTaskIDs = map wtID selected,
       abStatus = BatchStatusPlanned,
       abSafetyReason = ''ready_tasks_with_done_dependencies_and_disjoint_file_scope'', abConflictSummary = [],
       abCreatedAt = now, abUpdatedAt = now\<rparr>))))))))"

end
