(* ===== verification/Automation_Demo.thy ===== *)
theory Automation_Demo
  imports Automation_Submit
begin

section \<open>Automations: a concrete service\<close>

text \<open>
  Three open tasks, the first two of which touch one file, a review task that is done, a
  permission resolver that grants every agent, and an automation that a workflow compiled.
\<close>

definition demoBatchTask :: "string \<Rightarrow> string list \<Rightarrow> WorkTask" where
  "demoBatchTask i files = zeroTask\<lparr>wtID := i, wtTaskRef := i, wtStatus := WorkTaskStatusReady,
     wtDecompositionQuality := DecompositionReady, wtVerificationRequirement := ''v1'',
     wtLikelyFilesAffected := files\<rparr>"

definition demoAutoEnv :: "unit AutomationEnv" where
  "demoAutoEnv = \<lparr>aeOptions = \<lparr>aoRunnerEnabled = True, aoRequireCodexWhenAvailable = False, aoAllowManualRunner = True,
       aoRunnerExecution = RunnerExecutionExternal, aoMaxParallelTasks = 3\<rparr>,
     aeNow = Pair 1, aeNewID = (\<lambda>pre. Pair pre), aeErrorText = (\<lambda>_. []), aeCodexAvailable = (\<lambda>_. True),
     aeGetWorkTask = (\<lambda>p i w. if i = ''r1'' then Inr (zeroTask\<lparr>wtID := i, wtTaskRef := i, wtStatus := WorkTaskStatusDone\<rparr>)
                      else if i = ''t1'' then Inr (demoBatchTask i [''f1'']) else Inl ErrNotFound),
     aeListOpenWorkTasks = (\<lambda>flt w. Inr [demoBatchTask ''t1'' [''f1''], demoBatchTask ''t2'' [''f1''], demoBatchTask ''t3'' [''f3'']]),
     aeUpdateWorkTaskStatus = None,
     aePermission = Some (\<lambda>input w. Inr \<lparr>pmPermissionRef = pkPermissionRef input, pmAgentID = pkAgentID input,
       pmAllowedRunnerKinds = [RunnerKindCodexCLI], pmDeniedCommands = []\<rparr>)\<rparr>"

lemma demoBatchTask_fields [simp]:
  "wtID (demoBatchTask i fs) = i" "wtTaskRef (demoBatchTask i fs) = i"
  "wtStatus (demoBatchTask i fs) = WorkTaskStatusReady" "wtDecompositionQuality (demoBatchTask i fs) = DecompositionReady"
  "wtVerificationRequirement (demoBatchTask i fs) = ''v1''" "wtLikelyFilesAffected (demoBatchTask i fs) = fs"
  "wtDependencyTaskIDs (demoBatchTask i fs) = []"
  by (simp_all add: demoBatchTask_def zeroTask_def)

lemma demoAutoEnv_fields [simp]:
  "aoMaxParallelTasks (aeOptions demoAutoEnv) = 3" "aoRunnerEnabled (aeOptions demoAutoEnv)"
  "aoRunnerExecution (aeOptions demoAutoEnv) = RunnerExecutionExternal"
  "aeNow demoAutoEnv w = (1, w)" "aeNewID demoAutoEnv pre w = (pre, w)" "aeErrorText demoAutoEnv e = []"
  "aeGetWorkTask demoAutoEnv p ''r1'' w = Inr (zeroTask\<lparr>wtID := ''r1'', wtTaskRef := ''r1'', wtStatus := WorkTaskStatusDone\<rparr>)"
  "aeGetWorkTask demoAutoEnv p ''t1'' w = Inr (demoBatchTask ''t1'' [''f1''])"
  "aeListOpenWorkTasks demoAutoEnv flt w
    = Inr [demoBatchTask ''t1'' [''f1''], demoBatchTask ''t2'' [''f1''], demoBatchTask ''t3'' [''f3'']]"
  "aePermission demoAutoEnv = Some (\<lambda>input w. Inr \<lparr>pmPermissionRef = pkPermissionRef input, pmAgentID = pkAgentID input,
       pmAllowedRunnerKinds = [RunnerKindCodexCLI], pmDeniedCommands = []\<rparr>)"
  by (simp_all add: demoAutoEnv_def)

lemma auto_words [simp]:
  "tidyWord ''m1''" "tidyWord ''o1''" "tidyWord ''v1''" "tidyWord ''a1''" "tidyWord ''t1''" "tidyWord ''x1''"
  "tidyWord ''f1''" "tidyWord ''f3''" "tidyWord ''g1''" "tidyWord ''p1''"
  by (simp_all add: tidyWord_def tidyChar_def)

lemma auto_checks_tidy [simp]:
  "tidyWord v \<Longrightarrow> safeRef_au v f = Inr v" "tidyWord v \<Longrightarrow> safeOptionalRef_au v f = Inr v"
  "safeOptionalRef_au [] f = Inr []"
  by (simp_all add: safeRef_au_def safeOptionalRef_au_def tidy_refPattern tidyWord_nonempty Let_def)

lemma auto_files: "toLower ''f1'' = ''f1''" "toLower ''f3'' = ''f3''"
  by (simp_all add: tidy_toLower tidyChar_def del: toLower.simps)

definition demoBatchInput :: ComputeParallelBatchInput where
  "demoBatchInput = \<lparr>jbProjectID = ''m1'', jbAutomationRunID = [], jbOrchestratorRunID = ''o1'', jbPlanID = [],
     jbTaskIDs = [], jbMaxTasks = 0\<rparr>"

lemma demo_sorted:
  "sortBy taskRefLess [demoBatchTask ''t1'' [''f1''], demoBatchTask ''t2'' [''f1''], demoBatchTask ''t3'' [''f3'']]
    = [demoBatchTask ''t1'' [''f1''], demoBatchTask ''t2'' [''f1''], demoBatchTask ''t3'' [''f3'']]"
proof -
  have "\<not> ''t2'' < ''t1''" "\<not> ''t3'' < ''t2''" "\<not> ''t3'' < ''t1''" "''t1'' < ''t2''" "''t2'' < ''t3''" "''t1'' < ''t3''"
    by code_simp+
  then show ?thesis by (simp add: taskRefLess_def)
qed

lemma demo_batch:
  "\<exists>b s. svcComputeParallelBatch demoAutoEnv demoBatchInput ((), newAutomationStore) = (Inr b, s)
    \<and> abTaskIDs b = [''t1'', ''t3'']"
proof -
  have e: "validateExecutableTask (demoBatchTask i fs) = Inr ()" for i fs
    by (simp add: validateExecutableTask_def tryE_def)
  have d: "dependenciesDone env w (demoBatchTask i fs)" for env w i fs by (simp add: dependenciesDone_def)
  have m: "markFiles (demoBatchTask i [f]) u = tput u (toLower f) i" for i f u by (simp add: markFiles_def)
  have c: "firstFileConflict (demoBatchTask i [f]) u = (if toLower (trimSpace f) \<noteq> [] \<and> usedBy u (toLower (trimSpace f)) \<noteq> []
      then toLower (trimSpace f) else [])" for i f u
    by (simp add: firstFileConflict_def)
  have sel: "selectParallel (dependenciesDone demoAutoEnv ()) 3
      [demoBatchTask ''t1'' [''f1''], demoBatchTask ''t2'' [''f1''], demoBatchTask ''t3'' [''f3'']] [] []
      = [demoBatchTask ''t1'' [''f1''], demoBatchTask ''t3'' [''f3'']]"
    by (simp add: e d m c auto_files usedBy_def store_simps del: toLower.simps)
  have "getBatch newAutomationStore k = None" for k by (simp add: getBatch_def newAutomationStore_def)
  then show ?thesis
    by (simp add: svcComputeParallelBatch_def demoBatchInput_def seqS_def liftS_def readWorld_def candidateTasks_def
        demo_sorted batchLimit_def inWorld_def nowS_au_def newIDS_au_def inStore_def
        memCreateParallelBatch_eq sel Let_def del: sortBy.simps selectParallel.simps)
qed

subsection \<open>A submitted run\<close>

definition demoRunAutomation :: Automation where
  "demoRunAutomation = \<lparr>auID = ''a1'', auProjectID = ''m1'', auAutomationRef = ''a1'', auTitle = ''x1'', auPurpose = ''x1'',
     auStatus = AutomationStatusEnabled, auAgentID = ''g1'', auPlanID = [], auAllowedTaskRefs = [''t1''],
     auRequiredReviewTaskIDs = [''r1''], auTriggerKind = TriggerKindManual, auSourceKind = AutomationSourceWorkflow,
     auSchedulePolicy = [], auPermissionRef = PermissionSnapshotRefPrefix @ ''x1'', auCreatedByRunID = [], auTraceID = [],
     auCreatedAt = 0, auUpdatedAt = 0\<rparr>"

definition demoRunInput :: SubmitRunInput where
  "demoRunInput = \<lparr>jrProjectID = ''m1'', jrAutomationID = ''a1'', jrPlanID = [], jrTaskID = ''t1'', jrOwnerAgent = [],
     jrRunnerKind = [], jrOrchestratorRunID = [], jrParentRunID = [], jrEvidenceRefs = [], jrVerifierRefs = [],
     jrSafeNextAction = []\<rparr>"

definition demoRunStore :: AutomationStore where
  "demoRunStore = putAutomation newAutomationStore demoRunAutomation"

lemma demo_automation_fields [simp]:
  "auProjectID demoRunAutomation = ''m1''" "auID demoRunAutomation = ''a1''" "auAgentID demoRunAutomation = ''g1''"
  "auPlanID demoRunAutomation = []" "auTriggerKind demoRunAutomation = TriggerKindManual"
  "auRequiredReviewTaskIDs demoRunAutomation = [''r1'']"
  "auAllowedTaskRefs demoRunAutomation = [''t1'']"
  "auPermissionRef demoRunAutomation = PermissionSnapshotRefPrefix @ ''x1''"
  by (simp_all add: demoRunAutomation_def)

lemma demo_reference:
  "validatePermissionSnapshotRef (PermissionSnapshotRefPrefix @ ''x1'') = Inr ()"
  "trimSpace (PermissionSnapshotRefPrefix @ ''x1'') = PermissionSnapshotRefPrefix @ ''x1''"
  "trimSpace RunnerKindCodexCLI = RunnerKindCodexCLI"
proof -
  show t: "trimSpace (PermissionSnapshotRefPrefix @ ''x1'') = PermissionSnapshotRefPrefix @ ''x1''" by code_simp
  then show "validatePermissionSnapshotRef (PermissionSnapshotRefPrefix @ ''x1'') = Inr ()"
    by (simp add: validatePermissionSnapshotRef_def trimPrefix_def)
  show "trimSpace RunnerKindCodexCLI = RunnerKindCodexCLI" by code_simp
qed

text \<open>The service with another permission resolver.\<close>

definition demoEnvWith ::
    "(PermissionCheckInput \<Rightarrow> unit \<Rightarrow> PermissionSnapshotMetadata res) \<Rightarrow> unit AutomationEnv" where
  "demoEnvWith resolve = demoAutoEnv\<lparr>aePermission := Some resolve\<rparr>"

lemma demoEnvWith_fields [simp]:
  "aeOptions (demoEnvWith r) = aeOptions demoAutoEnv" "aeNow (demoEnvWith r) = aeNow demoAutoEnv"
  "aeNewID (demoEnvWith r) = aeNewID demoAutoEnv" "aeErrorText (demoEnvWith r) = aeErrorText demoAutoEnv"
  "aeCodexAvailable (demoEnvWith r) = aeCodexAvailable demoAutoEnv"
  "aeGetWorkTask (demoEnvWith r) = aeGetWorkTask demoAutoEnv"
  "aeUpdateWorkTaskStatus (demoEnvWith r) = aeUpdateWorkTaskStatus demoAutoEnv"
  "aePermission (demoEnvWith r) = Some r"
  by (simp_all add: demoEnvWith_def)

lemma demoEnvWith_same: "demoEnvWith (\<lambda>input w. Inr \<lparr>pmPermissionRef = pkPermissionRef input,
    pmAgentID = pkAgentID input, pmAllowedRunnerKinds = [RunnerKindCodexCLI], pmDeniedCommands = []\<rparr>) = demoAutoEnv"
  by (simp add: demoEnvWith_def demoAutoEnv_def)

text \<open>A resolver that grants the codex runner to the agent.\<close>

definition grants :: "(PermissionCheckInput \<Rightarrow> unit \<Rightarrow> PermissionSnapshotMetadata res) \<Rightarrow> bool" where
  "grants resolve \<longleftrightarrow> (\<exists>ref. resolve \<lparr>pkProjectID = ''m1'', pkAutomationID = ''a1'', pkAutomationRef = ''a1'',
     pkAgentID = ''g1'', pkPermissionRef = PermissionSnapshotRefPrefix @ ''x1'', pkRunnerKind = RunnerKindCodexCLI,
     pkRunnerExecution = RunnerExecutionExternal\<rparr> () = Inr \<lparr>pmPermissionRef = ref, pmAgentID = ''g1'',
       pmAllowedRunnerKinds = [RunnerKindCodexCLI], pmDeniedCommands = []\<rparr>)"

lemma demo_policy:
  assumes "grants resolve"
  shows "validateAutomationPolicy (demoEnvWith resolve) w demoRunAutomation RunnerKindCodexCLI ''t1'' ''g1'' = Inr ()"
proof -
  have "permissionAllowsRunner \<lparr>pmPermissionRef = r, pmAgentID = ''g1'',
      pmAllowedRunnerKinds = [RunnerKindCodexCLI], pmDeniedCommands = []\<rparr> RunnerKindCodexCLI" for r
    by (simp add: permissionAllowsRunner_def demo_reference)
  moreover have "auAutomationRef demoRunAutomation = ''a1''" by (simp add: demoRunAutomation_def)
  ultimately show ?thesis using assms
    by (auto simp: grants_def validateAutomationPolicy_def permissionCheck_def tryE_def Let_def checkAllowedTask_def
        isAutomationReviewTask_def validateAllowedTaskRef_def failIf_def demo_reference)
qed

lemma demo_runner: "resolveRunnerKind (demoEnvWith r) w [] = Inr RunnerKindCodexCLI"
  by (simp add: resolveRunnerKind_def external_def Let_def)

lemma demo_reviews:
  "requiredAutomationReviewsDone (demoEnvWith r) w demoRunAutomation"
  "ensureReviewRuns (demoEnvWith r) demoRunAutomation k input [''r1''] s = (Inr (), s)"
  by (simp_all add: requiredAutomationReviewsDone_def taskDone_def seqS_def readWorld_def retS_def)

lemma demo_submit_with:
  assumes "grants resolve"
  shows "\<exists>run s. svcSubmitRun (demoEnvWith resolve) demoRunInput ((), demoRunStore) = (Inr run, s)
    \<and> arStatus run = RunStatusQueued \<and> arRunnerKind run = RunnerKindCodexCLI \<and> arTaskID run = ''t1''
    \<and> arAutomationID run = ''a1'' \<and> snd s = putRun demoRunStore run"
proof -
  have g: "memGetAutomation ''m1'' ''a1'' demoRunStore = Inr demoRunAutomation"
    by (simp add: memGetAutomation_Inr demoRunStore_def automations.get_put)
  have n: "getRun demoRunStore i = None" for i
    by (simp add: demoRunStore_def, simp add: getRun_def newAutomationStore_def)
  have p: "safeProjectObject_au ''m1'' ''a1'' f = Inr (''m1'', ''a1'')" for f
    by (simp add: safeProjectObject_au_def tryE_def)
  show ?thesis
    by (simp add: svcSubmitRun_def demoRunInput_def seqS_def liftS_def p readStore_def g readWorld_def demo_runner
        submitResolved_def demo_reviews demo_policy [OF assms] pickTask_def queueRun_def inWorld_def nowS_au_def newIDS_au_def
        inStore_def memCreateRun_eq n zeroAutomationRun_def Let_def del: ensureReviewRuns.simps)
qed

lemma demo_submit:
  "\<exists>run s. svcSubmitRun demoAutoEnv demoRunInput ((), demoRunStore) = (Inr run, s) \<and> arStatus run = RunStatusQueued"
proof -
  have "grants (\<lambda>input w. Inr \<lparr>pmPermissionRef = pkPermissionRef input, pmAgentID = pkAgentID input,
      pmAllowedRunnerKinds = [RunnerKindCodexCLI], pmDeniedCommands = []\<rparr>)"
    by (simp add: grants_def)
  from demo_submit_with [OF this] show ?thesis unfolding demoEnvWith_same by blast
qed

end
