(* ===== verification/Automation_Properties.thy ===== *)
theory Automation_Properties
  imports Automation_Demo Workflow_Counts
begin

section \<open>Automations: properties\<close>

subsection \<open>Selection of a parallel batch\<close>

text \<open>Two tasks of which the first marks a file that the second asks for.\<close>

definition shareFile :: "WorkTask \<Rightarrow> WorkTask \<Rightarrow> bool" where
  "shareFile a b \<longleftrightarrow> (\<exists>f \<in> set (wtLikelyFilesAffected a). \<exists>g \<in> set (wtLikelyFilesAffected b).
     toLower (trimSpace g) \<noteq> [] \<and> toLower f = toLower (trimSpace g))"

definition mayRun :: "(WorkTask \<Rightarrow> bool) \<Rightarrow> WorkTask \<Rightarrow> bool" where
  "mayRun depsDone task \<longleftrightarrow> validateExecutableTask task = Inr () \<and> depsDone task"

definition filesUsed :: "WorkTask list \<Rightarrow> (string, string) table" where
  "filesUsed selected = fold markFiles selected []"

lemma usedBy_put: "usedBy (tput used k i) key = (if key = k then i else usedBy used key)"
  by (simp add: usedBy_def store_simps)

lemma usedBy_mark:
  assumes "wtID t \<noteq> []"
  shows "usedBy (markFiles t used) key \<noteq> []
    \<longleftrightarrow> usedBy used key \<noteq> [] \<or> (\<exists>f \<in> set (wtLikelyFilesAffected t). toLower f = key)"
proof -
  have "usedBy (fold (\<lambda>file u. tput u (toLower file) (wtID t)) fs used) key \<noteq> []
      \<longleftrightarrow> usedBy used key \<noteq> [] \<or> (\<exists>f \<in> set fs. toLower f = key)" for fs
    using assms by (induction fs arbitrary: used) (auto simp: usedBy_put)
  then show ?thesis by (simp add: markFiles_def)
qed

lemma usedBy_files:
  "\<forall>t \<in> set ts. wtID t \<noteq> [] \<Longrightarrow> usedBy (fold markFiles ts used) key \<noteq> []
    \<longleftrightarrow> usedBy used key \<noteq> [] \<or> (\<exists>t \<in> set ts. \<exists>f \<in> set (wtLikelyFilesAffected t). toLower f = key)"
proof (induction ts arbitrary: used)
  case (Cons t ts)
  with Cons.IH [of "markFiles t used"] usedBy_mark [of t used key] show ?case by simp blast
qed simp

lemma firstFileConflict_iff:
  assumes "\<forall>t \<in> set ts. wtID t \<noteq> []"
  shows "firstFileConflict task (filesUsed ts) \<noteq> [] \<longleftrightarrow> (\<exists>t \<in> set ts. shareFile t task)"
proof -
  let ?P = "\<lambda>key. key \<noteq> [] \<and> usedBy (filesUsed ts) key \<noteq> []"
  let ?keys = "map (\<lambda>file. toLower (trimSpace file)) (wtLikelyFilesAffected task)"
  have "firstFileConflict task (filesUsed ts) \<noteq> [] \<longleftrightarrow> (\<exists>key \<in> set ?keys. ?P key)"
  proof (cases "find ?P ?keys")
    case None
    then have "\<not> (\<exists>key \<in> set ?keys. ?P key)" unfolding find_None_iff by blast
    moreover have "firstFileConflict task (filesUsed ts) = []" by (simp only: firstFileConflict_def None) simp
    ultimately show ?thesis by blast
  next
    case (Some k)
    then obtain i where i: "i < length ?keys" and p: "?P (?keys ! i)" and k: "k = ?keys ! i"
      unfolding find_Some_iff by blast
    have "k \<in> set ?keys \<and> ?P k" unfolding k by (rule conjI [OF nth_mem [OF i] p])
    moreover have "firstFileConflict task (filesUsed ts) = k" by (simp only: firstFileConflict_def Some) simp
    ultimately show ?thesis by blast
  qed
  also have "\<dots> \<longleftrightarrow> (\<exists>t \<in> set ts. shareFile t task)"
    unfolding filesUsed_def shareFile_def using usedBy_files [OF assms, of "[]"] by (auto simp: usedBy_def)
  finally show ?thesis .
qed

text \<open>What a selection \<open>r\<close> that starts from \<open>sel\<close> makes of the tasks \<open>ts\<close>.\<close>

definition selects :: "(WorkTask \<Rightarrow> bool) \<Rightarrow> int \<Rightarrow> WorkTask list \<Rightarrow> WorkTask list \<Rightarrow> WorkTask list \<Rightarrow> bool" where
  "selects deps mx sel ts r \<longleftrightarrow> (\<forall>t \<in> set r. mayRun deps t \<and> t \<in> set sel \<union> set ts) \<and> int (length r) \<le> mx
     \<and> sorted_wrt (\<lambda>a b. \<not> shareFile a b) r \<and> set sel \<subseteq> set r
     \<and> (int (length r) \<noteq> mx \<longrightarrow> (\<forall>t \<in> set ts. t \<in> set r \<or> \<not> mayRun deps t \<or> (\<exists>u \<in> set r. shareFile u t)))"

lemma selectParallel_selects:
  assumes "\<forall>t \<in> set ts. wtID t \<noteq> []" and "\<forall>t \<in> set sel. wtID t \<noteq> []" and "int (length sel) \<le> mx"
    and "\<forall>t \<in> set sel. mayRun deps t" and "sorted_wrt (\<lambda>a b. \<not> shareFile a b) sel"
  shows "selects deps mx sel ts (selectParallel deps mx ts (filesUsed sel) sel)"
  using assms
proof (induction ts arbitrary: sel)
  case Nil
  then show ?case by (simp add: selects_def)
next
  case (Cons t ts)
  note conflict = firstFileConflict_iff [OF Cons.prems(2), of t]
  have ids: "\<forall>u \<in> set ts. wtID u \<noteq> []" using Cons.prems(1) by simp
  consider (full) "int (length sel) = mx"
    | (take) "int (length sel) \<noteq> mx" "mayRun deps t" "\<not> (\<exists>u \<in> set sel. shareFile u t)"
    | (skip) "int (length sel) \<noteq> mx" "\<not> mayRun deps t \<or> (\<exists>u \<in> set sel. shareFile u t)" by blast
  then show ?case
  proof cases
    case full
    with Cons.prems show ?thesis by (auto simp: selects_def)
  next
    case take
    have "markFiles t (filesUsed sel) = filesUsed (sel @ [t])" by (simp add: filesUsed_def)
    then have step: "selectParallel deps mx (t # ts) (filesUsed sel) sel
        = selectParallel deps mx ts (filesUsed (sel @ [t])) (sel @ [t])"
      using take conflict by (auto simp: mayRun_def)
    have "\<forall>u \<in> set (sel @ [t]). wtID u \<noteq> []" "int (length (sel @ [t])) \<le> mx"
      "\<forall>u \<in> set (sel @ [t]). mayRun deps u" "sorted_wrt (\<lambda>a b. \<not> shareFile a b) (sel @ [t])"
      using Cons.prems take by (auto simp: sorted_wrt_append)
    from Cons.IH [OF ids this] show ?thesis unfolding step selects_def by auto
  next
    case skip
    then have step: "selectParallel deps mx (t # ts) (filesUsed sel) sel = selectParallel deps mx ts (filesUsed sel) sel"
      using conflict by (auto simp: mayRun_def)
    from Cons.IH [OF ids Cons.prems(2-5)] skip show ?thesis unfolding step selects_def by auto
  qed
qed

lemma inStore_Inr: "inStore m s = (Inr x, s') \<longleftrightarrow> m (snd s) = (Inr x, snd s') \<and> fst s' = fst s"
  by (cases s') (auto simp: inStore_def split: prod.splits)

lemma taskDone_iff: "taskDone env w p i \<longleftrightarrow> (\<exists>u. aeGetWorkTask env p i w = Inr u \<and> wtStatus u = WorkTaskStatusDone)"
  by (simp add: taskDone_def split: sum.splits)

lemma mayRun_ready:
  "mayRun (dependenciesDone env w) t \<longleftrightarrow> wtStatus t = WorkTaskStatusReady \<and> wtDecompositionQuality t = DecompositionReady
     \<and> trimSpace (wtVerificationRequirement t) \<noteq> []
     \<and> (\<forall>d \<in> set (wtDependencyTaskIDs t).
          \<exists>u. aeGetWorkTask env (wtProjectID t) d w = Inr u \<and> wtStatus u = WorkTaskStatusDone)"
  by (auto simp: mayRun_def validateExecutableTask_def res_simps dependenciesDone_def list_all_iff taskDone_iff)

lemma computeParallelBatch_Inr:
  assumes "svcComputeParallelBatch env input s = (Inr batch, s')"
  obtains p plan cands where "candidateTasks env (fst s) p plan (jbTaskIDs input) = Inr cands"
    and "abTaskIDs batch = map wtID (selectParallel (dependenciesDone env (fst s))
      (batchLimit (aeOptions env) (jbMaxTasks input)) (sortBy taskRefLess cands) [] [])"
    and "abTaskIDs batch \<noteq> []"
proof -
  from assms obtain p plan sel where
    r: "tryE (candidateTasks env (fst s) p plan (jbTaskIDs input)) (\<lambda>candidates.
       let selected = selectParallel (dependenciesDone env (fst s)) (batchLimit (aeOptions env) (jbMaxTasks input))
             (sortBy taskRefLess candidates) [] []
       in if selected = [] then Inl (ErrInvalidInput ''no parallel-safe tasks'') else Inr selected) = Inr sel"
    and b: "abTaskIDs batch = map wtID sel"
    unfolding svcComputeParallelBatch_def
    by (auto simp only: seqS_Inr liftS_eq readWorld_def prod.inject inWorld_Inr inStore_Inr
        memCreateParallelBatch_Inr AutomationParallelBatch.select_convs)
  from r obtain cands where c: "candidateTasks env (fst s) p plan (jbTaskIDs input) = Inr cands"
    and sel: "sel = selectParallel (dependenciesDone env (fst s)) (batchLimit (aeOptions env) (jbMaxTasks input))
             (sortBy taskRefLess cands) [] []" "sel \<noteq> []"
    by (auto simp: tryE_Inr Let_def split: if_splits)
  show thesis by (rule that [OF c]) (simp_all add: b flip: sel, simp add: sel(2))
qed

lemma candidate_ids:
  assumes "candidateTasks env w p plan ids = Inr cands" and "t \<in> set cands"
    and "\<And>i u. aeGetWorkTask env p i w = Inr u \<Longrightarrow> wtID u \<noteq> []"
    and "\<And>flt us u. aeListOpenWorkTasks env flt w = Inr us \<Longrightarrow> u \<in> set us \<Longrightarrow> wtID u \<noteq> []"
  shows "wtID t \<noteq> []"
proof (cases "ids = []")
  case True
  with assms(1,2,4) show ?thesis by (simp add: candidateTasks_def)
next
  case False
  with assms(1) obtain refs where "mapE (\<lambda>taskID. aeGetWorkTask env p taskID w) refs = Inr cands"
    by (auto simp: candidateTasks_def res_simps)
  from mapE_set [OF this assms(2)] assms(3) show ?thesis by blast
qed

text \<open>
  C19. A computed batch holds at least one and at most the configured number of tasks, each ready,
  fully decomposed, with a verification requirement and with all its dependencies done; no task
  asks for a file that an earlier one is likely to touch. While there is room, a candidate that
  could run is left out only for a file it shares with a chosen task.
\<close>

theorem parallel_batch_safe:
  assumes "svcComputeParallelBatch env input s = (Inr batch, s')" and "0 < aoMaxParallelTasks (aeOptions env)"
    and "\<And>p i t. aeGetWorkTask env p i (fst s) = Inr t \<Longrightarrow> wtID t \<noteq> []"
    and "\<And>flt ts t. aeListOpenWorkTasks env flt (fst s) = Inr ts \<Longrightarrow> t \<in> set ts \<Longrightarrow> wtID t \<noteq> []"
  shows "\<exists>p plan cands sel. candidateTasks env (fst s) p plan (jbTaskIDs input) = Inr cands \<and> set sel \<subseteq> set cands
    \<and> abTaskIDs batch = map wtID sel \<and> sel \<noteq> [] \<and> int (length sel) \<le> aoMaxParallelTasks (aeOptions env)
    \<and> (\<forall>t \<in> set sel. wtStatus t = WorkTaskStatusReady \<and> wtDecompositionQuality t = DecompositionReady
         \<and> trimSpace (wtVerificationRequirement t) \<noteq> []
         \<and> (\<forall>d \<in> set (wtDependencyTaskIDs t). \<exists>u. aeGetWorkTask env (wtProjectID t) d (fst s) = Inr u
              \<and> wtStatus u = WorkTaskStatusDone))
    \<and> sorted_wrt (\<lambda>a b. \<not> shareFile a b) sel
    \<and> (int (length sel) < batchLimit (aeOptions env) (jbMaxTasks input) \<longrightarrow>
         (\<forall>t \<in> set cands. t \<in> set sel \<or> \<not> mayRun (dependenciesDone env (fst s)) t \<or> (\<exists>u \<in> set sel. shareFile u t)))"
proof -
  let ?deps = "dependenciesDone env (fst s)" and ?mx = "batchLimit (aeOptions env) (jbMaxTasks input)"
  obtain p plan cands where c: "candidateTasks env (fst s) p plan (jbTaskIDs input) = Inr cands"
    and b: "abTaskIDs batch = map wtID (selectParallel ?deps ?mx (sortBy taskRefLess cands) [] [])"
    and ne: "abTaskIDs batch \<noteq> []"
    by (rule computeParallelBatch_Inr [OF assms(1)])
  define sel where sel: "sel = selectParallel ?deps ?mx (sortBy taskRefLess cands) [] []"
  have mx: "0 < ?mx" "?mx \<le> aoMaxParallelTasks (aeOptions env)" using assms(2) by (auto simp: batchLimit_def)
  have ids: "\<forall>t \<in> set (sortBy taskRefLess cands). wtID t \<noteq> []"
    using candidate_ids [OF c _ assms(3,4)] by auto
  have "selects ?deps ?mx [] (sortBy taskRefLess cands) sel"
    using selectParallel_selects [OF ids, of "[]" ?mx ?deps] mx by (simp add: sel filesUsed_def)
  then have "selects ?deps ?mx [] cands sel" by (simp add: selects_def)
  with c b ne mx show ?thesis
    unfolding selects_def mayRun_ready sel [symmetric] by (intro exI [of _ p] exI [of _ plan] exI [of _ cands] exI [of _ sel]) auto
qed

lemma parallel_batch_safe_witness:
  "\<exists>b s sel. svcComputeParallelBatch demoAutoEnv demoBatchInput ((), newAutomationStore) = (Inr b, s)
    \<and> abTaskIDs b = [''t1'', ''t3''] \<and> abTaskIDs b = map wtID sel \<and> sorted_wrt (\<lambda>a b. \<not> shareFile a b) sel"
proof -
  obtain b s where b: "svcComputeParallelBatch demoAutoEnv demoBatchInput ((), newAutomationStore) = (Inr b, s)"
    and t: "abTaskIDs b = [''t1'', ''t3'']"
    using demo_batch by blast
  have mx: "0 < aoMaxParallelTasks (aeOptions demoAutoEnv)" by simp
  have "aeGetWorkTask demoAutoEnv p i w = Inr u \<Longrightarrow> wtID u \<noteq> []" for p i w u
    by (auto simp: demoAutoEnv_def zeroTask_def split: if_splits)
  moreover have "aeListOpenWorkTasks demoAutoEnv flt w = Inr us \<Longrightarrow> u \<in> set us \<Longrightarrow> wtID u \<noteq> []" for flt w us u
    by auto
  ultimately obtain sel where "abTaskIDs b = map wtID sel" "sorted_wrt (\<lambda>a b. \<not> shareFile a b) sel"
    using parallel_batch_safe [OF b mx] by blast
  with b t show ?thesis by blast
qed

subsection \<open>Submitted runs\<close>

lemma createRejectedRun_Inr:
  "createRejectedRun env a plan task owner input status reason s = (Inr run, s') \<Longrightarrow> arStatus run = status"
  unfolding createRejectedRun_def
  by (auto simp only: seqS_Inr inStore_Inr memCreateRun_Inr) simp

lemma queueRun_Inr:
  assumes "queueRun env a input p plan task owner kind s = (Inr run, s')"
  shows "arProjectID run = p" and "arAutomationID run = auID a" and "arAgentID run = owner"
    and "arTaskID run = task" and "arRunnerKind run = kind"
  using assms unfolding queueRun_def
  by (auto simp only: seqS_Inr inStore_Inr memCreateRun_Inr) simp_all

lemma resolveRunnerKind_Inr: "resolveRunnerKind env w r = Inr k \<Longrightarrow> k \<in> {RunnerKindCodexCLI, RunnerKindManual}"
  by (auto simp: resolveRunnerKind_def Let_def split: if_splits)

text \<open>An operation that stores no other new runs than such.\<close>

definition addsOnly ::
    "(AutomationRun \<Rightarrow> bool) \<Rightarrow> ('w automation_state \<Rightarrow> ('e + 'a) \<times> 'w automation_state) \<Rightarrow> bool" where
  "addsOnly P m \<longleftrightarrow> (\<forall>s k r. getRun (snd (snd (m s))) k = Some r \<longrightarrow> getRun (snd s) k = Some r \<or> P r)"

lemma addsOnly_seqS:
  assumes "addsOnly P m" and "\<And>x. addsOnly P (f x)"
  shows "addsOnly P (seqS m f)"
  unfolding addsOnly_def
proof (intro allI impI)
  fix s k r
  assume g: "getRun (snd (snd (seqS m f s))) k = Some r"
  obtain q t where m: "m s = (q, t)" by (cases "m s")
  have "getRun (snd t) k = Some r \<or> P r"
  proof (cases q)
    case (Inr x)
    with g m have "getRun (snd (snd (f x t))) k = Some r" by (simp add: seqS_def)
    with assms(2) show ?thesis unfolding addsOnly_def by blast
  qed (use g m in \<open>simp add: seqS_def\<close>)
  with assms(1) m show "getRun (snd s) k = Some r \<or> P r" unfolding addsOnly_def by (metis snd_conv)
qed

lemma addsOnly_plain:
  "addsOnly P (retS x)" "addsOnly P (liftS r)" "addsOnly P (readStore f)" "addsOnly P (readWorld g)" "addsOnly P (inWorld m)"
  by (auto simp: addsOnly_def retS_def liftS_def readStore_def readWorld_def inWorld_def split: prod.splits)

lemma addsOnly_create: "P r \<Longrightarrow> addsOnly P (inStore (memCreateRun r))"
  by (auto simp: addsOnly_def inStore_def memCreateRun_eq automation_runs.get_put split: if_splits)

lemma addsOnly_if: "addsOnly P m \<Longrightarrow> addsOnly P n \<Longrightarrow> addsOnly P (if b then m else n)"
  by simp

definition reviewRunOf :: "Automation \<Rightarrow> string \<Rightarrow> AutomationRun \<Rightarrow> bool" where
  "reviewRunOf a kind r \<longleftrightarrow> arAutomationID r = auID a \<and> arProjectID r = auProjectID a \<and> arRunnerKind r = kind
     \<and> arSafeSummary r = ''automation_review_gate_queued''"

lemma ensureReviewRuns_adds: "addsOnly (reviewRunOf a kind) (ensureReviewRuns env a kind input ids)"
proof (induction ids)
  case (Cons i ids)
  have "addsOnly (reviewRunOf a kind) (openReview env a input t)" for t
    unfolding openReview_def by (auto intro: addsOnly_plain split: option.splits)
  moreover have "addsOnly (reviewRunOf a kind) (queueReview env a kind input t)" for t
    unfolding queueReview_def
    by (intro addsOnly_seqS addsOnly_if addsOnly_plain addsOnly_create) (simp add: reviewRunOf_def)
  ultimately show ?case
    unfolding ensureReviewRuns.simps by (intro addsOnly_seqS addsOnly_if addsOnly_plain Cons)
qed (simp add: addsOnly_plain)

lemma queueRun_adds:
  assumes "queueRun env a input p plan task owner kind s = (Inr run, s')" and "getRun (snd s') k = Some r"
  shows "getRun (snd s) k = Some r \<or> r = run"
  using assms unfolding queueRun_def
  by (auto simp only: seqS_Inr inStore_Inr memCreateRun_Inr liftS_eq)
    (auto simp: inWorld_def automation_runs.get_put split: prod.splits if_splits)

text \<open>The world after the reviews that a submission starts, in which its gates are checked.\<close>

definition reviewedWorld ::
    "'w AutomationEnv \<Rightarrow> Automation \<Rightarrow> AutomationRun \<Rightarrow> SubmitRunInput \<Rightarrow> 'w automation_state \<Rightarrow> 'w" where
  "reviewedWorld env a run input s =
     fst (snd (ensureReviewRuns env a (arRunnerKind run) input (auRequiredReviewTaskIDs a) s))"

lemma submit_Inr:
  assumes "svcSubmitRun env input s = (Inr run, s')" and "arStatus run = RunStatusQueued"
  obtains i a w where "getAutomation (snd s) i = Some a" and "auProjectID a = arProjectID run"
    and "auID a = arAutomationID run" and "trimSpace (arAgentID run) = arAgentID run"
    and "w = reviewedWorld env a run input s" and "arRunnerKind run \<in> {RunnerKindCodexCLI, RunnerKindManual}"
    and "requiredAutomationReviewsDone env w a"
    and "validateAutomationPolicy env w a (arRunnerKind run) (arTaskID run) (arAgentID run) = Inr ()"
    and "\<And>k r. getRun (snd s') k = Some r \<Longrightarrow> getRun (snd s) k = Some r \<or> r = run \<or> reviewRunOf a (arRunnerKind run) r"
proof -
  have rej: "createRejectedRun env a plan task owner input status reason t = (Inr run, t') \<Longrightarrow> status = RunStatusQueued"
    for a plan task owner status reason t t'
    using createRejectedRun_Inr assms(2) by metis
  from assms(1) obtain p i a task plan owner q where
    rk: "q = resolveRunnerKind env (fst s) (jrRunnerKind input)" and a: "memGetAutomation p i (snd s) = Inr a"
    and o: "safeOptionalRef_au (firstNonEmpty [jrOwnerAgent input, auAgentID a]) ''owner_agent'' = Inr owner"
    and c: "(case q of
       Inl e \<Rightarrow> createRejectedRun env a plan task owner input RunStatusPolicyDenied (aeErrorText env e)
     | Inr kind \<Rightarrow> submitResolved env a input p plan task owner kind) s = (Inr run, s')"
    unfolding svcSubmitRun_def
    by (auto simp only: seqS_Inr liftS_eq readStore_def readWorld_def prod.inject sum.inject split_paired_Ex prod.case)
  obtain kind where k: "submitResolved env a input p plan task owner kind s = (Inr run, s')" and q: "q = Inr kind"
  proof (cases q)
    case (Inl e)
    with c have "createRejectedRun env a plan task owner input RunStatusPolicyDenied (aeErrorText env e) s = (Inr run, s')"
      by simp
    from rej [OF this] show ?thesis by simp
  next
    case (Inr kind)
    with c that show ?thesis by simp
  qed
  obtain e s1 where e: "ensureReviewRuns env a kind input (auRequiredReviewTaskIDs a) s = (e, s1)"
    by (cases "ensureReviewRuns env a kind input (auRequiredReviewTaskIDs a) s")
  have blocked: "createRejectedRun env a plan t owner input RunStatusBlocked reason s1 \<noteq> (Inr run, s')"
    "createRejectedRun env a plan t owner input RunStatusPolicyDenied reason s1 \<noteq> (Inr run, s')" for t reason
    using rej [of a plan t owner] by fastforce+
  from k obtain picked where d: "requiredAutomationReviewsDone env (fst s1) a"
    and v: "validateAutomationPolicy env (fst s1) a kind picked owner = Inr ()"
    and r: "queueRun env a input p plan picked owner kind s1 = (Inr run, s')"
    unfolding submitResolved_def Let_def e
    by (auto simp: blocked split: sum.splits if_splits)
  have "trimSpace owner = owner"
    using o by (auto simp: safeOptionalRef_au_def safeRef_au_def Let_def split: if_splits)
  moreover have "fst s1 = reviewedWorld env a run input s"
    using e queueRun_Inr(5) [OF r] by (simp add: reviewedWorld_def)
  moreover have "kind \<in> {RunnerKindCodexCLI, RunnerKindManual}"
    using resolveRunnerKind_Inr [OF trans [OF sym [OF rk] q]] .
  moreover have "getRun (snd s) k = Some x \<or> x = run \<or> reviewRunOf a kind x" if "getRun (snd s') k = Some x" for k x
    using queueRun_adds [OF r that] ensureReviewRuns_adds [of a kind env input] e unfolding addsOnly_def by (metis snd_conv)
  ultimately show thesis using a d v queueRun_Inr [OF r]
    by (intro that [of i a "fst s1"]) (simp_all add: memGetAutomation_Inr)
qed

lemma submit_permitted:
  assumes "svcSubmitRun env input s = (Inr run, s')" and "arStatus run = RunStatusQueued"
  shows "\<exists>i a w. w = reviewedWorld env a run input s \<and> getAutomation (snd s) i = Some a \<and> auProjectID a = arProjectID run \<and> auID a = arAutomationID run
    \<and> (\<forall>r \<in> set (auRequiredReviewTaskIDs a). \<exists>t. aeGetWorkTask env (auProjectID a) r w = Inr t \<and> wtStatus t = WorkTaskStatusDone)
    \<and> (auSourceKind a = AutomationSourceWorkflow \<longrightarrow>
         (\<exists>resolve input' m. aePermission env = Some resolve \<and> resolve input' w = Inr m
            \<and> pkProjectID input' = auProjectID a \<and> pkPermissionRef input' = auPermissionRef a
            \<and> pmAgentID m = pkAgentID input'
            \<and> pkAgentID input' = (if arAgentID run = [] then auAgentID a else arAgentID run)
            \<and> permissionAllowsRunner m (arRunnerKind run)))
    \<and> (arTaskID run = [] \<or> auAllowedTaskRefs a = [] \<or> arTaskID run \<in> set (auRequiredReviewTaskIDs a)
         \<or> (\<exists>t. aeGetWorkTask env (auProjectID a) (arTaskID run) w = Inr t
              \<and> {wtID t, wtTaskRef t} \<inter> (set (auAllowedTaskRefs a) \<union> set (auRequiredReviewTaskIDs a)) \<noteq> {}))
    \<and> (\<forall>k r. getRun (snd s') k = Some r \<longrightarrow> getRun (snd s) k = Some r \<or> r = run \<or> reviewRunOf a (arRunnerKind run) r)"
proof (rule submit_Inr [OF assms])
  fix i a w
  assume a: "getAutomation (snd s) i = Some a" "auProjectID a = arProjectID run" "auID a = arAutomationID run"
    and w: "w = reviewedWorld env a run input s" and trim: "trimSpace (arAgentID run) = arAgentID run" and d: "requiredAutomationReviewsDone env w a"
    and v: "validateAutomationPolicy env w a (arRunnerKind run) (arTaskID run) (arAgentID run) = Inr ()"
    and new: "\<And>k r. getRun (snd s') k = Some r \<Longrightarrow> getRun (snd s) k = Some r \<or> r = run \<or> reviewRunOf a (arRunnerKind run) r"
  let ?agent = "if arAgentID run = [] then auAgentID a else arAgentID run"
  from v have src: "auSourceKind a = AutomationSourceWorkflow \<Longrightarrow> validatePermissionSnapshotRef (auPermissionRef a) = Inr ()"
    and perm: "permissionCheck env w a (arRunnerKind run) ?agent = Inr ()"
    and task: "(if arTaskID run \<noteq> [] \<and> auAllowedTaskRefs a \<noteq> [] \<and> \<not> isAutomationReviewTask a (arTaskID run)
      then (case aeGetWorkTask env (auProjectID a) (arTaskID run) w of
              Inl _ \<Rightarrow> Inl (ErrInvalidInput ''task_unavailable'')
            | Inr task \<Rightarrow> checkAllowedTask a task)
      else Inr ()) = Inr ()"
    by (auto simp: validateAutomationPolicy_def Let_def tryE_Inr trim)
  have "\<exists>resolve input' m. aePermission env = Some resolve \<and> resolve input' w = Inr m
      \<and> pkProjectID input' = auProjectID a \<and> pkPermissionRef input' = auPermissionRef a
      \<and> pmAgentID m = pkAgentID input' \<and> pkAgentID input' = ?agent \<and> permissionAllowsRunner m (arRunnerKind run)"
    if "auSourceKind a = AutomationSourceWorkflow"
  proof -
    from src [OF that] have "hasPrefix (auPermissionRef a) PermissionSnapshotRefPrefix"
      by (auto simp: validatePermissionSnapshotRef_def split: if_splits)
    with perm obtain resolve m where "aePermission env = Some resolve"
      and "resolve \<lparr>pkProjectID = auProjectID a, pkAutomationID = auID a, pkAutomationRef = auAutomationRef a,
        pkAgentID = ?agent, pkPermissionRef = auPermissionRef a, pkRunnerKind = arRunnerKind run,
        pkRunnerExecution = aoRunnerExecution (aeOptions env)\<rparr> w = Inr m"
      and "pmAgentID m = ?agent" "permissionAllowsRunner m (arRunnerKind run)"
      by (auto simp: permissionCheck_def tryE_Inr failIf_Inr split: option.splits)
    then show ?thesis by (intro exI conjI) (assumption | simp)+
  qed
  moreover have "arTaskID run = [] \<or> auAllowedTaskRefs a = [] \<or> arTaskID run \<in> set (auRequiredReviewTaskIDs a)
      \<or> (\<exists>t. aeGetWorkTask env (auProjectID a) (arTaskID run) w = Inr t
           \<and> {wtID t, wtTaskRef t} \<inter> (set (auAllowedTaskRefs a) \<union> set (auRequiredReviewTaskIDs a)) \<noteq> {})"
    using task by (auto simp: isAutomationReviewTask_def checkAllowedTask_def validateAllowedTaskRef_def
        split: if_splits sum.splits)
  moreover have "\<forall>r \<in> set (auRequiredReviewTaskIDs a).
      \<exists>t. aeGetWorkTask env (auProjectID a) r w = Inr t \<and> wtStatus t = WorkTaskStatusDone"
    using d by (auto simp: requiredAutomationReviewsDone_def list_all_iff taskDone_iff)
  ultimately show ?thesis using a w new by blast
qed

lemma submit_runner:
  assumes "svcSubmitRun env input s = (Inr run, s')" and "arStatus run = RunStatusQueued"
  shows "arRunnerKind run \<in> {RunnerKindCodexCLI, RunnerKindManual}"
  by (rule submit_Inr [OF assms]) simp

text \<open>
  C17. When the run that \<open>SubmitRun\<close> returns is queued, then after the reviews that the call starts
  every required review task of its automation is done and, for an automation compiled from a
  workflow, the permission resolver has answered with the agent of the run and does not deny its
  runner; the run has no task, or its automation allows all tasks, or its task is a required
  review or one of the allowed ones. The only other runs that the call stores are review runs of
  the automation with the same runner; these are queued while their review is open and without
  the permission check. Runs that other methods queue are not meant.
\<close>

theorem queued_run_permitted:
  assumes "svcSubmitRun env input s = (Inr run, s')" and "arStatus run = RunStatusQueued"
  shows "\<exists>i a w. w = reviewedWorld env a run input s \<and> getAutomation (snd s) i = Some a \<and> auProjectID a = arProjectID run \<and> auID a = arAutomationID run
    \<and> (\<forall>r \<in> set (auRequiredReviewTaskIDs a). \<exists>t. aeGetWorkTask env (auProjectID a) r w = Inr t \<and> wtStatus t = WorkTaskStatusDone)
    \<and> (auSourceKind a = AutomationSourceWorkflow \<longrightarrow>
         (\<exists>resolve input' m. aePermission env = Some resolve \<and> resolve input' w = Inr m
            \<and> pkProjectID input' = auProjectID a \<and> pkPermissionRef input' = auPermissionRef a
            \<and> pmAgentID m = pkAgentID input'
            \<and> pkAgentID input' = (if arAgentID run = [] then auAgentID a else arAgentID run)
            \<and> permissionAllowsRunner m (arRunnerKind run)))
    \<and> (arTaskID run = [] \<or> auAllowedTaskRefs a = [] \<or> arTaskID run \<in> set (auRequiredReviewTaskIDs a)
         \<or> (\<exists>t. aeGetWorkTask env (auProjectID a) (arTaskID run) w = Inr t
              \<and> {wtID t, wtTaskRef t} \<inter> (set (auAllowedTaskRefs a) \<union> set (auRequiredReviewTaskIDs a)) \<noteq> {}))
    \<and> (\<forall>k r. getRun (snd s') k = Some r \<longrightarrow> getRun (snd s) k = Some r \<or> r = run \<or> reviewRunOf a (arRunnerKind run) r)"
  by (rule submit_permitted [OF assms])

lemma queued_run_permitted_witness:
  "\<exists>run s a w t. svcSubmitRun demoAutoEnv demoRunInput ((), demoRunStore) = (Inr run, s) \<and> arStatus run = RunStatusQueued
    \<and> getAutomation demoRunStore ''a1'' = Some a \<and> auSourceKind a = AutomationSourceWorkflow
    \<and> aeGetWorkTask demoAutoEnv (auProjectID a) ''r1'' w = Inr t \<and> wtStatus t = WorkTaskStatusDone"
proof -
  obtain run s where r: "svcSubmitRun demoAutoEnv demoRunInput ((), demoRunStore) = (Inr run, s)"
    and q: "arStatus run = RunStatusQueued"
    using demo_submit by blast
  have get: "getAutomation demoRunStore k = Some a \<longleftrightarrow> k = ''a1'' \<and> a = demoRunAutomation" for k a
    by (simp add: demoRunStore_def automations.get_put) (auto simp: getAutomation_def newAutomationStore_def)
  have kind: "auSourceKind demoRunAutomation = AutomationSourceWorkflow" by (simp add: demoRunAutomation_def)
  obtain k a w where "getAutomation demoRunStore k = Some a" and
    all: "\<forall>r \<in> set (auRequiredReviewTaskIDs a). \<exists>t. aeGetWorkTask demoAutoEnv (auProjectID a) r w = Inr t \<and> wtStatus t = WorkTaskStatusDone"
    using queued_run_permitted [OF r q] unfolding snd_conv by blast
  then have a: "a = demoRunAutomation" by (simp only: get)
  have "''r1'' \<in> set (auRequiredReviewTaskIDs demoRunAutomation)" by simp
  with all [unfolded a] obtain t where
    "aeGetWorkTask demoAutoEnv (auProjectID demoRunAutomation) ''r1'' w = Inr t" "wtStatus t = WorkTaskStatusDone"
    by blast
  with r q kind get show ?thesis by blast
qed

end
