(* ===== verification/Automation_Workflows.thy ===== *)
theory Automation_Workflows
  imports Automation_Properties Workflow_Demo
begin

section \<open>Automations compiled from workflows\<close>

text \<open>
  In the program the permission resolver of the automation service is the workflow catalogue:
  \<open>internal/projectworkflow/service.go\<close>, \<open>CheckAutomationPermission\<close>. The properties here are about
  the two services together.
\<close>

definition resolvesBy :: "('w \<Rightarrow> WorkflowStore) \<Rightarrow> 'w AutomationEnv \<Rightarrow> bool" where
  "resolvesBy flows env \<longleftrightarrow> aePermission env = Some (\<lambda>input w. svcCheckAutomationPermission input (flows w))"

definition snapshotIDOf :: "string \<Rightarrow> string" where
  "snapshotIDOf ref = trimSpace (trimPrefix (trimSpace ref) PermissionSnapshotRefPrefix)"

lemma safeRequired_Inr: "safeRequiredWorkflowRef v f = Inr r \<Longrightarrow> r = trimSpace v"
  by (auto simp: safeRequiredWorkflowRef_def safeOptionalWorkflowRef_def res_simps Let_def split: if_splits)

lemma permission_Inr:
  assumes "svcCheckAutomationPermission input st = Inr m"
  obtains snap where "getSnapshot st (trimSpace (pkProjectID input), snapshotIDOf (pkPermissionRef input)) = Some snap"
    and "wnAgentID snap = trimSpace (pkAgentID input)" and "pmAgentID m = wnAgentID snap"
    and "pmAllowedRunnerKinds m = [RunnerKindCodexCLI]" and "pmDeniedCommands m = wnDeniedCommands snap"
  using assms unfolding svcCheckAutomationPermission_def
  by (auto simp: tryE_Inr Let_def snapshotIDOf_def memGetPermissionSnapshot_Inr dest!: safeRequired_Inr
      split: if_splits sum.splits)

text \<open>
  C16. With the workflow catalogue as resolver, the run that \<open>SubmitRun\<close> returns for an automation
  that was compiled from a workflow is queued only if the catalogue holds the snapshot that the automation refers to,
  taken for the agent of the run, and no denied command of it names the codex runner; the run
  is then one of the codex runner, never a manual one. The review runs that the same call may
  queue before, while a required review is open, and runs that other methods queue are not meant.
\<close>

theorem workflow_run_has_snapshot:
  assumes "svcSubmitRun env input s = (Inr run, s')" and "arStatus run = RunStatusQueued" and "resolvesBy flows env"
  shows "\<exists>i a. getAutomation (snd s) i = Some a \<and> auProjectID a = arProjectID run \<and> auID a = arAutomationID run
    \<and> (auSourceKind a = AutomationSourceWorkflow \<longrightarrow> arRunnerKind run = RunnerKindCodexCLI
        \<and> (\<exists>snap. getSnapshot (flows (reviewedWorld env a run input s))
               (trimSpace (auProjectID a), snapshotIDOf (auPermissionRef a)) = Some snap
             \<and> wnAgentID snap = (if arAgentID run = [] then auAgentID a else arAgentID run)
             \<and> list_all (\<lambda>c. \<not> deniesRunner RunnerKindCodexCLI c) (wnDeniedCommands snap)))"
proof -
  obtain i a where a: "getAutomation (snd s) i = Some a" "auProjectID a = arProjectID run" "auID a = arAutomationID run"
    and p: "auSourceKind a = AutomationSourceWorkflow \<Longrightarrow>
      \<exists>resolve input' m. aePermission env = Some resolve \<and> resolve input' (reviewedWorld env a run input s) = Inr m
        \<and> pkProjectID input' = auProjectID a \<and> pkPermissionRef input' = auPermissionRef a
        \<and> pmAgentID m = pkAgentID input'
        \<and> pkAgentID input' = (if arAgentID run = [] then auAgentID a else arAgentID run)
        \<and> permissionAllowsRunner m (arRunnerKind run)"
    using submit_permitted [OF assms(1,2)] by blast
  have "arRunnerKind run = RunnerKindCodexCLI
      \<and> (\<exists>snap. getSnapshot (flows (reviewedWorld env a run input s))
             (trimSpace (auProjectID a), snapshotIDOf (auPermissionRef a)) = Some snap
           \<and> wnAgentID snap = (if arAgentID run = [] then auAgentID a else arAgentID run)
           \<and> list_all (\<lambda>c. \<not> deniesRunner RunnerKindCodexCLI c) (wnDeniedCommands snap))"
    if w: "auSourceKind a = AutomationSourceWorkflow"
  proof -
    obtain input' m where c: "svcCheckAutomationPermission input' (flows (reviewedWorld env a run input s)) = Inr m"
      and i: "pkProjectID input' = auProjectID a" "pkPermissionRef input' = auPermissionRef a"
        "pmAgentID m = pkAgentID input'" "pkAgentID input' = (if arAgentID run = [] then auAgentID a else arAgentID run)"
      and r: "permissionAllowsRunner m (arRunnerKind run)"
      using p [OF w] assms(3) unfolding resolvesBy_def by (metis option.inject)
    obtain snap where s: "getSnapshot (flows (reviewedWorld env a run input s))
        (trimSpace (pkProjectID input'), snapshotIDOf (pkPermissionRef input')) = Some snap"
      and m: "pmAgentID m = wnAgentID snap" "pmAllowedRunnerKinds m = [RunnerKindCodexCLI]"
        "pmDeniedCommands m = wnDeniedCommands snap"
      by (rule permission_Inr [OF c])
    have t: "trimSpace RunnerKindCodexCLI = RunnerKindCodexCLI" by code_simp
    have k: "arRunnerKind run = RunnerKindCodexCLI"
      using r m(2) t submit_runner [OF assms(1,2)] by (auto simp: permissionAllowsRunner_def split: if_splits)
    have "list_all (\<lambda>c. \<not> deniesRunner RunnerKindCodexCLI c) (wnDeniedCommands snap)"
      using r m(3) unfolding k by (auto simp: permissionAllowsRunner_def list_all_iff list_ex_iff split: if_splits)
    with s k i m(1) show ?thesis by auto
  qed
  with a show ?thesis by blast
qed

definition demoPermission :: WorkflowPermissionSnapshot where
  "demoPermission = \<lparr>wnID = ''x1'', wnProjectID = ''m1'', wnAgentID = ''g1'', wnWorkflowID = ''w1'', wnInstructions = [],
     wnAllowedSkills = [], wnAllowedTools = [], wnAllowedCommands = [], wnDeniedCommands = [], wnWorkspaceMode = [],
     wnNetworkPolicy = [], wnSecretPolicy = ''deny'', wnLogPolicy = [], wnMaxRuntime = [], wnMaxRetries = 0,
     wnContentHash = [], wnCreatedByRunID = [], wnTraceID = [], wnCreatedAt = 0, wnUpdatedAt = 0\<rparr>"

definition demoPermissions :: WorkflowStore where
  "demoPermissions = snd (memCreatePermissionSnapshot demoPermission newWorkflowStore)"

lemma demo_permissions: "getSnapshot demoPermissions (''m1'', ''x1'') = Some demoPermission"
  by (simp add: demoPermissions_def memCreatePermissionSnapshot_eq demoPermission_def snapshotKey_def snapshots.get_put)
    (simp add: getSnapshot_def newWorkflowStore_def)

lemma demo_grants: "grants (\<lambda>input w. svcCheckAutomationPermission input demoPermissions)"
proof -
  have "safeRequiredWorkflowRef v f = Inr v" if "tidyWord v" for v f
    using that by (simp add: safeRequiredWorkflowRef_def safeOptionalWorkflowRef_def tryE_def tidyWord_nonempty)
  moreover have "memGetPermissionSnapshot ''m1'' ''x1'' demoPermissions = Inr demoPermission"
    by (simp add: memGetPermissionSnapshot_Inr demo_permissions)
  ultimately show ?thesis
    by (simp add: grants_def svcCheckAutomationPermission_def tryE_def Let_def demo_reference trimPrefix_def)
      (simp add: demoPermission_def)
qed

lemma workflow_run_has_snapshot_witness:
  "\<exists>run s snap. svcSubmitRun (demoEnvWith (\<lambda>input w. svcCheckAutomationPermission input demoPermissions)) demoRunInput
        ((), demoRunStore) = (Inr run, s) \<and> arStatus run = RunStatusQueued
    \<and> arRunnerKind run = RunnerKindCodexCLI \<and> getSnapshot demoPermissions (''m1'', ''x1'') = Some snap
    \<and> wnAgentID snap = (if arAgentID run = [] then ''g1'' else arAgentID run)"
proof -
  let ?env = "demoEnvWith (\<lambda>input w. svcCheckAutomationPermission input demoPermissions)"
  obtain run s where r: "svcSubmitRun ?env demoRunInput ((), demoRunStore) = (Inr run, s)"
    and q: "arStatus run = RunStatusQueued"
    using demo_submit_with [OF demo_grants] by blast
  have b: "resolvesBy (\<lambda>_. demoPermissions) ?env" by (simp add: resolvesBy_def)
  have i: "snapshotIDOf (PermissionSnapshotRefPrefix @ ''x1'') = ''x1''"
    by (simp add: snapshotIDOf_def demo_reference trimPrefix_def)
  have w: "auSourceKind demoRunAutomation = AutomationSourceWorkflow" by (simp add: demoRunAutomation_def)
  have d: "a = demoRunAutomation" if "getAutomation demoRunStore k = Some a" for k a
    using that by (simp add: demoRunStore_def automations.get_put split: if_splits)
      (simp add: getAutomation_def newAutomationStore_def)
  obtain k a where a: "getAutomation demoRunStore k = Some a" and
    p: "auSourceKind a = AutomationSourceWorkflow \<longrightarrow> arRunnerKind run = RunnerKindCodexCLI
        \<and> (\<exists>snap. getSnapshot demoPermissions (trimSpace (auProjectID a), snapshotIDOf (auPermissionRef a)) = Some snap
             \<and> wnAgentID snap = (if arAgentID run = [] then auAgentID a else arAgentID run))"
    using workflow_run_has_snapshot [OF r q b] unfolding snd_conv by blast
  have "trimSpace ''m1'' = ''m1''" by simp
  with p w i have "arRunnerKind run = RunnerKindCodexCLI"
    "\<exists>snap. getSnapshot demoPermissions (''m1'', ''x1'') = Some snap \<and> wnAgentID snap = (if arAgentID run = [] then ''g1'' else arAgentID run)"
    unfolding d [OF a] by auto
  with r q show ?thesis by blast
qed

end
