(* ===== verification/Knowledge_Model.thy ===== *)
theory Knowledge_Model
  imports Confidence_Model Store_Interface
begin

section \<open>Knowledge: the data model\<close>

text \<open>
  \<open>internal/projectknowledge/model.go\<close> and the option types of \<open>integration.go\<close>. A record is a
  piece of knowledge about one claim; it goes from candidate to promoted, and each change of its
  state leaves a decision. A \<open>*int\<close> of the filter is an option.
\<close>

abbreviation ScopeProject :: string where "ScopeProject \<equiv> ''project''"
abbreviation ScopeOrg :: string where "ScopeOrg \<equiv> ''org''"
abbreviation DefaultOrgRef :: string where "DefaultOrgRef \<equiv> ''default''"

abbreviation StateCandidate :: string where "StateCandidate \<equiv> ''candidate''"
abbreviation StateValidated :: string where "StateValidated \<equiv> ''validated''"
abbreviation StateProjectPromoted :: string where "StateProjectPromoted \<equiv> ''project_promoted''"
abbreviation StateOrgReview :: string where "StateOrgReview \<equiv> ''org_review''"
abbreviation StateOrgPromoted :: string where "StateOrgPromoted \<equiv> ''org_promoted''"
abbreviation StateRejected :: string where "StateRejected \<equiv> ''rejected''"
abbreviation StateSuperseded :: string where "StateSuperseded \<equiv> ''superseded''"

definition knowledgeScopes :: "string list" where
  "knowledgeScopes = [ScopeProject, ScopeOrg]"

definition knowledgeStates :: "string list" where
  "knowledgeStates = [StateCandidate, StateValidated, StateProjectPromoted, StateOrgReview,
     StateOrgPromoted, StateRejected, StateSuperseded]"

definition reuseOutcomes :: "string list" where
  "reuseOutcomes = [''used'', ''skipped'', ''stale'', ''contradicted'']"

subsection \<open>Records\<close>

record KnowledgeRecord =
  krID :: string
  krProjectID :: string
  krScope :: string
  krOrgRef :: string
  krKnowledgeRef :: string
  krClaimID :: string
  krClaimRef :: string
  krConfidenceAssessmentID :: string
  krConfidenceScore :: int
  krConfidenceBand :: string
  krState :: string
  krSummary :: string
  krReuseGuidance :: string
  krEvidenceRefs :: "string list"
  krVerifierRefs :: "string list"
  krOutcomeRefs :: "string list"
  krPromotionRefs :: "string list"
  krSupersedesRef :: string
  krSupersededByRef :: string
  krCreatedAt :: time
  krUpdatedAt :: time
  krPromotedAt :: time

record PromotionDecision =
  pdID :: string
  pdProjectID :: string
  pdKnowledgeID :: string
  pdFromState :: string
  pdToState :: string
  pdScope :: string
  pdDecisionRef :: string
  pdVerifierRef :: string
  pdConfidenceScore :: int
  pdRationale :: string
  pdDecidedBy :: string
  pdDecidedAt :: time

record KnowledgeReuseEvent =
  kuID :: string
  kuProjectID :: string
  kuKnowledgeID :: string
  kuAgentRunID :: string
  kuTraceID :: string
  kuReuseRef :: string
  kuRevalidated :: bool
  kuRevalidationRef :: string
  kuOutcome :: string
  kuSummary :: string
  kuCreatedAt :: time

record KnowledgeFilter =
  klScope :: string
  klOrgRef :: string
  klState :: string
  klClaimID :: string
  klKnowledgeRef :: string
  klConfidenceBand :: string
  klMinConfidence :: "int option"
  klMaxConfidence :: "int option"
  klPageSize :: int
  klPageToken :: string

subsection \<open>Inputs\<close>

record CreateCandidateInput =
  kcProjectID :: string
  kcKnowledgeRef :: string
  kcClaimID :: string
  kcClaimRef :: string
  kcConfidenceAssessmentID :: string
  kcConfidenceScore :: int
  kcConfidenceBand :: string
  kcSummary :: string
  kcReuseGuidance :: string
  kcEvidenceRefs :: "string list"
  kcVerifierRefs :: "string list"
  kcOutcomeRefs :: "string list"
  kcPromotionRefs :: "string list"
  kcSupersedesRef :: string

record ProjectGateInput =
  pgClaim :: ClaimRecord
  pgConfidence :: ConfidenceAssessment

record OrgGateInput =
  ogClaim :: ClaimRecord
  ogConfidence :: ConfidenceAssessment
  ogClaimCheckActionable :: int
  ogScope :: string
  ogOrgRef :: string
  ogDecisionRef :: string
  ogVerifierRef :: string
  ogRationale :: string
  ogDecidedBy :: string

text \<open>\<open>ValidateCandidateInput\<close> and \<open>PromoteProjectInput\<close> have the same fields.\<close>

record ValidateCandidateInput =
  vcProjectID :: string
  vcKnowledgeID :: string
  vcDecisionRef :: string
  vcVerifierRef :: string
  vcRationale :: string
  vcGate :: ProjectGateInput

type_synonym PromoteProjectInput = ValidateCandidateInput

record SubmitOrgReviewInput =
  swProjectID :: string
  swKnowledgeID :: string
  swOrgRef :: string
  swDecisionRef :: string
  swVerifierRef :: string
  swRationale :: string
  swDecidedBy :: string

record PromoteOrgInput =
  poProjectID :: string
  poKnowledgeID :: string
  poGate :: OrgGateInput

record RejectInput =
  rjProjectID :: string
  rjKnowledgeID :: string
  rjDecisionRef :: string
  rjVerifierRef :: string
  rjRationale :: string
  rjDecidedBy :: string

record SupersedeInput =
  suProjectID :: string
  suKnowledgeID :: string
  suSupersededByRef :: string
  suDecisionRef :: string
  suVerifierRef :: string
  suRationale :: string
  suDecidedBy :: string

record RecordReuseEventInput =
  rrProjectID :: string
  rrKnowledgeID :: string
  rrAgentRunID :: string
  rrTraceID :: string
  rrReuseRef :: string
  rrRevalidated :: bool
  rrRevalidationRef :: string
  rrOutcome :: string
  rrSummary :: string

text \<open>\<open>PromoteProjectWithInputsInput\<close> has the fields of \<open>ValidateCandidateWithInputsInput\<close>.\<close>

record ValidateCandidateWithInputsInput =
  viProjectID :: string
  viKnowledgeID :: string
  viDecisionRef :: string
  viVerifierRef :: string
  viRationale :: string

type_synonym PromoteProjectWithInputsInput = ValidateCandidateWithInputsInput

record PromoteOrgWithInputsInput =
  piProjectID :: string
  piKnowledgeID :: string
  piClaimCheckActionable :: int
  piScope :: string
  piOrgRef :: string
  piDecisionRef :: string
  piVerifierRef :: string
  piRationale :: string
  piDecidedBy :: string

section \<open>Knowledge: the memory store\<close>

text \<open>
  \<open>internal/projectknowledge/store/memory.go\<close>: the records, and under the same key the decisions
  and the reuse events of a record in the order they were written. \<open>cloneKnowledge\<close> only detaches
  slices.
\<close>

record KnowledgeStore =
  nsKnowledge :: "(string, KnowledgeRecord) table"
  nsDecisions :: "(string, PromotionDecision list) table"
  nsReuse :: "(string, KnowledgeReuseEvent list) table"

definition newKnowledgeStore :: KnowledgeStore where
  "newKnowledgeStore = \<lparr>nsKnowledge = [], nsDecisions = [], nsReuse = []\<rparr>"

definition knowledgeKey :: "string \<Rightarrow> string \<Rightarrow> string" where
  "knowledgeKey projectID knowledgeID = joinKey projectID knowledgeID"

text \<open>A missing entry of a map of slices is the empty slice.\<close>

definition entries :: "('k, 'v list) table \<Rightarrow> 'k \<Rightarrow> 'v list" where
  "entries t k = (case tget t k of None \<Rightarrow> [] | Some vs \<Rightarrow> vs)"

definition memCreateKnowledge :: "KnowledgeRecord \<Rightarrow> (KnowledgeStore, KnowledgeRecord) act" where
  "memCreateKnowledge rec st =
     (Inr rec, st\<lparr>nsKnowledge := tput (nsKnowledge st) (knowledgeKey (krProjectID rec) (krID rec)) rec\<rparr>)"

definition memGetKnowledge :: "string \<Rightarrow> string \<Rightarrow> KnowledgeStore \<Rightarrow> KnowledgeRecord res" where
  "memGetKnowledge projectID knowledgeID st =
     (case tget (nsKnowledge st) (knowledgeKey projectID knowledgeID) of
        None \<Rightarrow> Inl ErrNotFound | Some rec \<Rightarrow> Inr rec)"

definition memUpdateKnowledge :: "KnowledgeRecord \<Rightarrow> (KnowledgeStore, KnowledgeRecord) act" where
  "memUpdateKnowledge rec st =
     (let key = knowledgeKey (krProjectID rec) (krID rec)
      in if \<not> thas (nsKnowledge st) key then (Inl ErrNotFound, st)
         else (Inr rec, st\<lparr>nsKnowledge := tput (nsKnowledge st) key rec\<rparr>))"

definition memCreateDecision_kn :: "PromotionDecision \<Rightarrow> (KnowledgeStore, PromotionDecision) act" where
  "memCreateDecision_kn decision st =
     (let key = knowledgeKey (pdProjectID decision) (pdKnowledgeID decision)
      in if \<not> thas (nsKnowledge st) key then (Inl ErrNotFound, st)
         else (Inr decision, st\<lparr>nsDecisions := tput (nsDecisions st) key (entries (nsDecisions st) key @ [decision])\<rparr>))"

definition decidedBefore :: "PromotionDecision \<Rightarrow> PromotionDecision \<Rightarrow> bool" where
  "decidedBefore = lessBy pdDecidedAt"

definition memListDecisions :: "string \<Rightarrow> string \<Rightarrow> KnowledgeStore \<Rightarrow> PromotionDecision list res" where
  "memListDecisions projectID knowledgeID st =
     (let key = knowledgeKey projectID knowledgeID
      in if \<not> thas (nsKnowledge st) key then Inl ErrNotFound
         else Inr (sortBy decidedBefore (entries (nsDecisions st) key)))"

definition memCreateReuseEvent :: "KnowledgeReuseEvent \<Rightarrow> (KnowledgeStore, KnowledgeReuseEvent) act" where
  "memCreateReuseEvent event st =
     (let key = knowledgeKey (kuProjectID event) (kuKnowledgeID event)
      in if \<not> thas (nsKnowledge st) key then (Inl ErrNotFound, st)
         else (Inr event, st\<lparr>nsReuse := tput (nsReuse st) key (entries (nsReuse st) key @ [event])\<rparr>))"

definition reusedBefore :: "KnowledgeReuseEvent \<Rightarrow> KnowledgeReuseEvent \<Rightarrow> bool" where
  "reusedBefore = lessBy kuCreatedAt"

definition memListReuseEvents :: "string \<Rightarrow> string \<Rightarrow> KnowledgeStore \<Rightarrow> KnowledgeReuseEvent list res" where
  "memListReuseEvents projectID knowledgeID st =
     (let key = knowledgeKey projectID knowledgeID
      in if \<not> thas (nsKnowledge st) key then Inl ErrNotFound
         else Inr (sortBy reusedBefore (entries (nsReuse st) key)))"

subsection \<open>Listing\<close>

definition matchesKnowledgeFilter :: "KnowledgeRecord \<Rightarrow> KnowledgeFilter \<Rightarrow> bool" where
  "matchesKnowledgeFilter rec flt =
     (if klScope flt \<noteq> [] \<and> krScope rec \<noteq> klScope flt then False
      else if klOrgRef flt \<noteq> [] \<and> krOrgRef rec \<noteq> klOrgRef flt then False
      else if klState flt \<noteq> [] \<and> krState rec \<noteq> klState flt then False
      else if klClaimID flt \<noteq> [] \<and> krClaimID rec \<noteq> klClaimID flt then False
      else if klKnowledgeRef flt \<noteq> [] \<and> krKnowledgeRef rec \<noteq> klKnowledgeRef flt then False
      else if klConfidenceBand flt \<noteq> [] \<and> krConfidenceBand rec \<noteq> klConfidenceBand flt then False
      else if klMinConfidence flt \<noteq> None \<and> krConfidenceScore rec < the (klMinConfidence flt) then False
      else if klMaxConfidence flt \<noteq> None \<and> krConfidenceScore rec > the (klMaxConfidence flt) then False
      else True)"

definition knowledgeLess :: "KnowledgeRecord \<Rightarrow> KnowledgeRecord \<Rightarrow> bool" where
  "knowledgeLess a b =
     (if krCreatedAt a = krCreatedAt b then krID a < krID b else krCreatedAt a < krCreatedAt b)"

definition memListKnowledge :: "string \<Rightarrow> KnowledgeFilter \<Rightarrow> KnowledgeStore \<Rightarrow> KnowledgeRecord list" where
  "memListKnowledge projectID flt st =
     sortBy knowledgeLess
       (filter (\<lambda>rec. krProjectID rec = projectID \<and> matchesKnowledgeFilter rec flt) (tvals (nsKnowledge st)))"

definition memListOrgKnowledge :: "string \<Rightarrow> KnowledgeFilter \<Rightarrow> KnowledgeStore \<Rightarrow> KnowledgeRecord list" where
  "memListOrgKnowledge orgRef flt st =
     sortBy knowledgeLess
       (filter (\<lambda>rec. krOrgRef rec = orgRef \<and> matchesKnowledgeFilter rec flt) (tvals (nsKnowledge st)))"

subsection \<open>As a keyed store\<close>

definition knowledgeKeyOf :: "KnowledgeRecord \<Rightarrow> string" where
  "knowledgeKeyOf rec = knowledgeKey (krProjectID rec) (krID rec)"

definition decisionKeyOf :: "PromotionDecision \<Rightarrow> string" where
  "decisionKeyOf d = knowledgeKey (pdProjectID d) (pdKnowledgeID d)"

definition getKnowledge :: "KnowledgeStore \<Rightarrow> string \<Rightarrow> KnowledgeRecord option" where
  "getKnowledge st = tget (nsKnowledge st)"

definition putKnowledge :: "KnowledgeStore \<Rightarrow> KnowledgeRecord \<Rightarrow> KnowledgeStore" where
  "putKnowledge st rec = st\<lparr>nsKnowledge := tput (nsKnowledge st) (knowledgeKeyOf rec) rec\<rparr>"

definition decisionsOf :: "KnowledgeStore \<Rightarrow> string \<Rightarrow> PromotionDecision list" where
  "decisionsOf st = entries (nsDecisions st)"

definition addDecision :: "KnowledgeStore \<Rightarrow> PromotionDecision \<Rightarrow> KnowledgeStore" where
  "addDecision st d = st\<lparr>nsDecisions := tput (nsDecisions st) (decisionKeyOf d) (decisionsOf st (decisionKeyOf d) @ [d])\<rparr>"

interpretation knowledge: keyed_store getKnowledge putKnowledge knowledgeKeyOf
  by unfold_locales (simp add: getKnowledge_def putKnowledge_def store_simps)

lemma decisionsOf_add:
  "decisionsOf (addDecision st d) k = (if k = decisionKeyOf d then decisionsOf st k @ [d] else decisionsOf st k)"
  by (simp add: decisionsOf_def addDecision_def entries_def store_simps)

lemma knowledge_frames [simp]:
  "decisionsOf (putKnowledge st rec) = decisionsOf st" "getKnowledge (addDecision st d) = getKnowledge st"
  by (simp_all add: decisionsOf_def putKnowledge_def getKnowledge_def addDecision_def)

lemma new_knowledge [simp]: "getKnowledge newKnowledgeStore k = None" "decisionsOf newKnowledgeStore k = []"
  by (simp_all add: getKnowledge_def decisionsOf_def newKnowledgeStore_def entries_def)

lemma memGetKnowledge_Inr: "memGetKnowledge p i st = Inr r \<longleftrightarrow> getKnowledge st (knowledgeKey p i) = Some r"
  by (auto simp: memGetKnowledge_def getKnowledge_def split: option.splits)

lemma memCreateKnowledge_eq: "memCreateKnowledge rec st = (Inr rec, putKnowledge st rec)"
  by (simp add: memCreateKnowledge_def putKnowledge_def knowledgeKeyOf_def)

lemma memUpdateKnowledge_eq:
  "memUpdateKnowledge rec st =
     (if getKnowledge st (knowledgeKeyOf rec) = None then (Inl ErrNotFound, st) else (Inr rec, putKnowledge st rec))"
  by (simp add: memUpdateKnowledge_def putKnowledge_def knowledgeKeyOf_def getKnowledge_def thas_def Let_def)

lemma memCreateDecision_kn_eq:
  "memCreateDecision_kn d st =
     (if getKnowledge st (decisionKeyOf d) = None then (Inl ErrNotFound, st) else (Inr d, addDecision st d))"
  by (simp add: memCreateDecision_kn_def addDecision_def decisionKeyOf_def getKnowledge_def thas_def decisionsOf_def Let_def)

lemma memListDecisions_Inr:
  "memListDecisions p i st = Inr ds \<longleftrightarrow>
     getKnowledge st (knowledgeKey p i) \<noteq> None \<and> ds = sortBy decidedBefore (decisionsOf st (knowledgeKey p i))"
  by (auto simp: memListDecisions_def getKnowledge_def thas_def decisionsOf_def Let_def)

end
