(* ===== verification/Knowledge_Gate.thy ===== *)
theory Knowledge_Gate
  imports Knowledge_Model Confidence_Checks Confidence_Score
begin

section \<open>Knowledge: input checks\<close>

text \<open>
  The checks at the end of \<open>internal/projectknowledge/service.go\<close>: the third copy of the checks of
  \<open>Safe_Identifier\<close>. The marker list, the text check and the URL check are those of
  \<open>projectconfidence\<close>; a reference must also not hold two slashes in a row.
\<close>

definition containsProhibitedMarker_kn :: "string \<Rightarrow> bool" where
  "containsProhibitedMarker_kn = hasMarker prohibitedMarkers_cf"

definition containsProhibitedData_kn :: "string \<Rightarrow> bool" where
  "containsProhibitedData_kn value =
     (containsProhibitedMarker_kn value \<or> matchString emailPattern value \<or> matchString phonePattern value)"

definition containsURL_kn :: "ConfLib \<Rightarrow> string \<Rightarrow> bool" where
  "containsURL_kn lib value =
     (if contains (toLower value) ''www.'' then True
      else if clAbsURL lib value then True
      else contains value ''://'')"

definition safeRefIdentifier_kn :: "ConfLib \<Rightarrow> string \<Rightarrow> string \<Rightarrow> string res" where
  "safeRefIdentifier_kn lib =
     safeRefIdentifierWith containsProhibitedData_kn containsProhibitedMarker_kn
       (\<lambda>v. containsURL_kn lib v \<or> contains v ''//'')"

definition safeOptionalRefIdentifier_kn :: "ConfLib \<Rightarrow> string \<Rightarrow> string \<Rightarrow> string res" where
  "safeOptionalRefIdentifier_kn lib = optionalWith (safeRefIdentifier_kn lib)"

definition safeOptionalText_kn :: "ConfLib \<Rightarrow> string \<Rightarrow> string \<Rightarrow> nat \<Rightarrow> string res" where
  "safeOptionalText_kn lib = safeTextWith containsProhibitedData_kn (containsURL_kn lib)"

definition safeRequiredText_kn :: "ConfLib \<Rightarrow> string \<Rightarrow> string \<Rightarrow> nat \<Rightarrow> string res" where
  "safeRequiredText_kn lib value field mx = requiredWith (safeOptionalText_kn lib value field mx) field"

definition safeProjectKnowledgeIDs :: "ConfLib \<Rightarrow> string \<Rightarrow> string \<Rightarrow> (string \<times> string) res" where
  "safeProjectKnowledgeIDs lib projectID0 knowledgeID0 =
     tryE (safeRefIdentifier_kn lib projectID0 ''project_id'') (\<lambda>projectID.
     tryE (safeRefIdentifier_kn lib knowledgeID0 ''knowledge_id'') (\<lambda>knowledgeID.
     Inr (projectID, knowledgeID)))"

text \<open>The values without blanks and repetitions, sorted by bytes.\<close>

definition uniqueRefs :: "string list \<Rightarrow> string list" where
  "uniqueRefs vs = sortBy (<) (remdups (filter (\<lambda>v. v \<noteq> []) (map trimSpace vs)))"

definition safeRefList_kn :: "ConfLib \<Rightarrow> string list \<Rightarrow> string \<Rightarrow> string list res" where
  "safeRefList_kn lib vs field =
     tryE (mapE (\<lambda>v. safeOptionalRefIdentifier_kn lib v field) vs) (\<lambda>out.
     Inr (uniqueRefs (filter (\<lambda>v. v \<noteq> []) out)))"

definition safeActorRef :: "ConfLib \<Rightarrow> string \<Rightarrow> string \<Rightarrow> string res" where
  "safeActorRef lib value0 field =
     (let value = trimSpace value0
      in if value = [] then Inl (ErrInvalidInput (field @ '' is required''))
         else if length value > 120 then Inl (ErrInvalidInput (field @ '' is unsafe''))
         else safeRefIdentifier_kn lib value field)"

definition safeOptionalActorRef :: "ConfLib \<Rightarrow> string \<Rightarrow> string \<Rightarrow> string res" where
  "safeOptionalActorRef lib = optionalWith (safeActorRef lib)"

subsection \<open>Enumerations and the reference of the organisation\<close>

definition safeScope :: "string \<Rightarrow> string res" where
  "safeScope = safeEnum knowledgeScopes ''scope''"

definition safeOptionalScope :: "string \<Rightarrow> string res" where
  "safeOptionalScope scope = (if trimSpace scope = [] then Inr [] else safeScope (trimSpace scope))"

definition safeOrgRef :: "ConfLib \<Rightarrow> string \<Rightarrow> string res" where
  "safeOrgRef lib orgRef =
     (let ref = trimSpace orgRef
      in safeRefIdentifier_kn lib (if ref = [] then DefaultOrgRef else ref) ''org_ref'')"

definition safeDefaultOrgRef :: "ConfLib \<Rightarrow> string \<Rightarrow> bool \<Rightarrow> string res" where
  "safeDefaultOrgRef lib orgRef required =
     (if required \<and> trimSpace orgRef = [] then Inl (ErrInvalidInput ''org_ref is required'')
      else tryE (safeOrgRef lib orgRef) (\<lambda>ref.
           if ref \<noteq> DefaultOrgRef then Inl (ErrInvalidInput ''org_ref is not supported'') else Inr ref))"

definition safeState :: "string \<Rightarrow> string res" where
  "safeState = safeEnum knowledgeStates ''state''"

definition safeOptionalState :: "string \<Rightarrow> string res" where
  "safeOptionalState state = (if trimSpace state = [] then Inr [] else safeState (trimSpace state))"

definition safeReuseOutcome :: "string \<Rightarrow> string res" where
  "safeReuseOutcome = safeEnum reuseOutcomes ''reuse outcome''"

definition safeBand_kn :: "string \<Rightarrow> string res" where
  "safeBand_kn = safeEnum scoreBands ''confidence band''"

definition safeOptionalBand_kn :: "string \<Rightarrow> string res" where
  "safeOptionalBand_kn band = (if trimSpace band = [] then Inr [] else safeBand_kn (trimSpace band))"

definition safeRecommendation_kn :: "string \<Rightarrow> string res" where
  "safeRecommendation_kn = safeEnum recommendations ''recommendation''"

definition safeEvidenceKind_kn :: "string \<Rightarrow> string res" where
  "safeEvidenceKind_kn = safeEnum evidenceKinds ''evidence_kind''"

definition safeClaimStatus_kn :: "string \<Rightarrow> string res" where
  "safeClaimStatus_kn = safeEnum claimStatuses ''claim status''"

definition safeDecisionState_kn :: "string \<Rightarrow> string res" where
  "safeDecisionState_kn = safeEnum decisionStates ''decision state''"

definition safeActionKind_kn :: "string \<Rightarrow> string res" where
  "safeActionKind_kn = safeEnum actionKinds ''action_kind''"

definition safeOutcomeKind_kn :: "string \<Rightarrow> string res" where
  "safeOutcomeKind_kn = safeEnum outcomeKinds ''outcome_kind''"

definition safeOutcomeStatus_kn :: "string \<Rightarrow> string res" where
  "safeOutcomeStatus_kn = safeEnum outcomeStatuses ''outcome status''"

definition safePromotionState_kn :: "string \<Rightarrow> string res" where
  "safePromotionState_kn = safeEnum promotionStates ''promotion state''"

subsection \<open>A sequence of checks\<close>

text \<open>\<open>if err := check1; err != nil { return err }; if err := check2; ...\<close>\<close>

definition inOrder :: "unit res list \<Rightarrow> unit res" where
  "inOrder checks = checkAll (\<lambda>c. c) checks"

lemma inOrder_Nil [simp]: "inOrder [] = Inr ()"
  by (simp add: inOrder_def)

lemma inOrder_Cons_Inr [res_simps]: "inOrder (c # cs) = Inr u \<longleftrightarrow> c = Inr () \<and> inOrder cs = Inr ()"
  by (cases c) (auto simp: inOrder_def)

section \<open>Knowledge: transitions and gates\<close>

text \<open>
  The middle part of \<open>internal/projectknowledge/service.go\<close>: what is checked of a claim record, an
  assessment and a knowledge record, and the gates of a promotion.
\<close>

subsection \<open>Metadata\<close>

definition evidenceMetadata :: "ConfLib \<Rightarrow> Claim \<Rightarrow> Evidence \<Rightarrow> unit res" where
  "evidenceMetadata lib claim evidence = inOrder
    [failIf (evProjectID evidence \<noteq> [] \<and> evProjectID evidence \<noteq> cmProjectID claim) (ErrInvalidInput ''evidence project mismatch''),
     failIf (evClaimID evidence \<noteq> [] \<and> evClaimID evidence \<noteq> cmID claim) (ErrInvalidInput ''evidence claim mismatch''),
     check (safeRefIdentifier_kn lib (evID evidence) ''evidence_id''),
     check (safeRefIdentifier_kn lib (evEvidenceRef evidence) ''evidence_ref''),
     check (safeEvidenceKind_kn (evEvidenceKind evidence)),
     check (safeOptionalRefIdentifier_kn lib (evSourceRef evidence) ''source_ref''),
     check (safeOptionalText_kn lib (evSummary evidence) ''evidence_summary'' 500)]"

definition decisionMetadata :: "ConfLib \<Rightarrow> Decision \<Rightarrow> unit res" where
  "decisionMetadata lib decision = inOrder
    [check (safeRefIdentifier_kn lib (dcID decision) ''decision_id''),
     check (safeRefIdentifier_kn lib (dcDecisionRef decision) ''decision_ref''),
     check (safeDecisionState_kn (dcState decision)),
     check (safeRefIdentifier_kn lib (dcVerifierRef decision) ''verifier_ref''),
     check (safeRequiredText_kn lib (dcRationale decision) ''decision_rationale'' 1000)]"

definition actionMetadata :: "ConfLib \<Rightarrow> Action \<Rightarrow> unit res" where
  "actionMetadata lib action = inOrder
    [check (safeRefIdentifier_kn lib (acID action) ''action_id''),
     check (safeRefIdentifier_kn lib (acDecisionID action) ''action_decision_id''),
     check (safeRefIdentifier_kn lib (acActionRef action) ''action_ref''),
     check (safeActionKind_kn (acActionKind action)),
     check (safeOptionalText_kn lib (acSummary action) ''action_summary'' 500),
     check (safeOptionalRefIdentifier_kn lib (acRunID action) ''action_run_id''),
     check (safeRefList_kn lib (acChangedFiles action) ''changed_file'')]"

definition outcomeMetadata :: "ConfLib \<Rightarrow> Outcome \<Rightarrow> unit res" where
  "outcomeMetadata lib outcome = inOrder
    [check (safeRefIdentifier_kn lib (ocID outcome) ''outcome_id''),
     check (safeRefIdentifier_kn lib (ocActionID outcome) ''outcome_action_id''),
     check (safeRefIdentifier_kn lib (ocOutcomeRef outcome) ''outcome_ref''),
     check (safeOutcomeKind_kn (ocOutcomeKind outcome)),
     check (safeOutcomeStatus_kn (ocStatus outcome)),
     check (safeOptionalRefIdentifier_kn lib (ocVerifierRef outcome) ''outcome_verifier_ref''),
     check (safeOptionalText_kn lib (ocSummary outcome) ''outcome_summary'' 500)]"

definition linkMetadata :: "ConfLib \<Rightarrow> PromotionLink \<Rightarrow> unit res" where
  "linkMetadata lib link = inOrder
    [check (safeRefIdentifier_kn lib (plArtifactRef link) ''promotion_artifact_ref''),
     check (safePromotionState_kn (plPromotionState link)),
     check (safeRefIdentifier_kn lib (plSourceRef link) ''promotion_source_ref''),
     check (safeOptionalRefIdentifier_kn lib (plVerifierRef link) ''promotion_verifier_ref''),
     check (safeOptionalRefIdentifier_kn lib (plDecisionRef link) ''promotion_decision_ref''),
     check (safeOptionalRefIdentifier_kn lib (plActionRef link) ''promotion_action_ref''),
     check (safeOptionalRefIdentifier_kn lib (plOutcomeRef link) ''promotion_outcome_ref''),
     check (safeOptionalRefIdentifier_kn lib (plRunID link) ''promotion_run_id'')]"

definition claimMetadata :: "ConfLib \<Rightarrow> Claim \<Rightarrow> unit res" where
  "claimMetadata lib claim = inOrder
    [check (safeRefIdentifier_kn lib (cmID claim) ''claim_id''),
     check (safeRefIdentifier_kn lib (cmProjectID claim) ''project_id''),
     check (safeOptionalRefIdentifier_kn lib (cmRunID claim) ''run_id''),
     check (safeOptionalRefIdentifier_kn lib (cmTraceID claim) ''trace_id''),
     check (safeRefIdentifier_kn lib (cmClaimRef claim) ''claim_ref''),
     check (safeOptionalText_kn lib (cmSummary claim) ''claim_summary'' 500),
     if cmStatus claim \<noteq> [] then check (safeClaimStatus_kn (cmStatus claim)) else Inr ()]"

definition validateClaimRecordMetadata_kn :: "ConfLib \<Rightarrow> ClaimRecord \<Rightarrow> unit res" where
  "validateClaimRecordMetadata_kn lib rec = inOrder
    [claimMetadata lib (rcClaim rec),
     checkAll (evidenceMetadata lib (rcClaim rec)) (rcEvidence rec),
     checkAll (decisionMetadata lib) (rcDecisions rec),
     checkAll (actionMetadata lib) (rcActions rec),
     checkAll (outcomeMetadata lib) (rcOutcomes rec),
     checkAll (linkMetadata lib) (rcPromotionLinks rec)]"

definition validateAssessmentMetadata :: "ConfLib \<Rightarrow> ConfidenceAssessment \<Rightarrow> unit res" where
  "validateAssessmentMetadata lib assessment = inOrder
    [check (safeRefIdentifier_kn lib (caID assessment) ''confidence_assessment_id''),
     check (safeRefIdentifier_kn lib (caProjectID assessment) ''confidence_project_id''),
     check (safeRefIdentifier_kn lib (caClaimID assessment) ''confidence_claim_id''),
     check (safeOptionalRefIdentifier_kn lib (caClaimRef assessment) ''confidence_claim_ref''),
     failIf (caScore assessment < 0 \<or> caScore assessment > 100) (ErrInvalidInput ''confidence score is out of bounds''),
     check (safeBand_kn (caBand assessment)),
     check (safeRecommendation_kn (caRecommendation assessment)),
     checkAll safeEvidenceKind_kn (inEvidenceKinds (caInputs assessment))]"

definition validateKnowledgeRecord :: "ConfLib \<Rightarrow> KnowledgeRecord \<Rightarrow> unit res" where
  "validateKnowledgeRecord lib rec = inOrder
    [check (safeRefIdentifier_kn lib (krID rec) ''knowledge_id''),
     check (safeRefIdentifier_kn lib (krProjectID rec) ''project_id''),
     check (safeScope (krScope rec)),
     if krScope rec = ScopeOrg then check (safeOrgRef lib (krOrgRef rec)) else Inr (),
     check (safeRefIdentifier_kn lib (krKnowledgeRef rec) ''knowledge_ref''),
     check (safeRefIdentifier_kn lib (krClaimID rec) ''claim_id''),
     check (safeRefIdentifier_kn lib (krClaimRef rec) ''claim_ref''),
     check (safeOptionalRefIdentifier_kn lib (krConfidenceAssessmentID rec) ''confidence_assessment_id''),
     failIf (krConfidenceScore rec < 0 \<or> krConfidenceScore rec > 100) (ErrInvalidInput ''confidence_score is out of bounds''),
     check (safeOptionalBand_kn (krConfidenceBand rec)),
     check (safeState (krState rec)),
     check (safeRequiredText_kn lib (krSummary rec) ''summary'' 500),
     check (safeRequiredText_kn lib (krReuseGuidance rec) ''reuse_guidance'' 500),
     check (safeRefList_kn lib (krEvidenceRefs rec) ''evidence_ref''),
     check (safeRefList_kn lib (krVerifierRefs rec) ''verifier_ref''),
     check (safeRefList_kn lib (krOutcomeRefs rec) ''outcome_ref''),
     check (safeRefList_kn lib (krPromotionRefs rec) ''promotion_ref''),
     check (safeOptionalRefIdentifier_kn lib (krSupersedesRef rec) ''supersedes_ref''),
     check (safeOptionalRefIdentifier_kn lib (krSupersededByRef rec) ''superseded_by_ref'')]"

subsection \<open>Transitions\<close>

definition allowedFrom :: "string \<Rightarrow> string list" where
  "allowedFrom to =
     (if to = StateValidated then [StateCandidate]
      else if to = StateProjectPromoted then [StateValidated]
      else if to = StateOrgReview then [StateProjectPromoted]
      else if to = StateOrgPromoted then [StateOrgReview]
      else if to = StateRejected then [StateCandidate, StateValidated, StateProjectPromoted, StateOrgReview]
      else if to = StateSuperseded then [StateProjectPromoted, StateOrgPromoted]
      else [])"

definition validateTransition_kn :: "string \<Rightarrow> string \<Rightarrow> unit res" where
  "validateTransition_kn from to = inOrder
    [check (safeState from), check (safeState to),
     failIf (from \<notin> set (allowedFrom to)) (ErrInvalidInput ''invalid transition'')]"

subsection \<open>What a claim record shows\<close>

definition hasDecisionState_kn :: "ClaimRecord \<Rightarrow> string \<Rightarrow> bool" where
  "hasDecisionState_kn rec state = list_ex (\<lambda>d. dcState d = state) (rcDecisions rec)"

definition hasPassedOutcome :: "ClaimRecord \<Rightarrow> bool" where
  "hasPassedOutcome rec = list_ex (\<lambda>x. ocStatus x = OutcomeStatusPassed) (rcOutcomes rec)"

text \<open>The time and status of the latest outcome that passed or failed; of equal times the last one.\<close>

fun latestOutcome :: "Outcome list \<Rightarrow> (time \<times> string) option \<Rightarrow> (time \<times> string) option" where
  "latestOutcome [] latest = latest"
| "latestOutcome (x # xs) latest =
     latestOutcome xs
       (if ocStatus x \<noteq> OutcomeStatusPassed \<and> ocStatus x \<noteq> OutcomeStatusFailed then latest
        else case latest of
          None \<Rightarrow> Some (ocCreatedAt x, ocStatus x)
        | Some (t, s) \<Rightarrow> if ocCreatedAt x > t \<or> ocCreatedAt x = t then Some (ocCreatedAt x, ocStatus x) else latest)"

definition hasUnresolvedFailedOutcome :: "ClaimRecord \<Rightarrow> bool" where
  "hasUnresolvedFailedOutcome rec =
     (case latestOutcome (rcOutcomes rec) None of None \<Rightarrow> False | Some (t, s) \<Rightarrow> s = OutcomeStatusFailed)"

definition hasVerifierRef :: "ClaimRecord \<Rightarrow> bool" where
  "hasVerifierRef rec =
     (list_ex (\<lambda>d. dcVerifierRef d \<noteq> []) (rcDecisions rec) \<or> list_ex (\<lambda>x. ocVerifierRef x \<noteq> []) (rcOutcomes rec)
      \<or> list_ex (\<lambda>l. plVerifierRef l \<noteq> []) (rcPromotionLinks rec))"

definition passedOutcomeRefs :: "ClaimRecord \<Rightarrow> string list" where
  "passedOutcomeRefs rec = map ocOutcomeRef (filter (\<lambda>x. ocStatus x = OutcomeStatusPassed) (rcOutcomes rec))"

definition promotingLink :: "ClaimRecord \<Rightarrow> PromotionLink \<Rightarrow> bool" where
  "promotingLink rec link =
     (if plProjectID link \<noteq> [] \<and> plProjectID link \<noteq> cmProjectID (rcClaim rec) then False
      else if plClaimID link \<noteq> [] \<and> plClaimID link \<noteq> cmID (rcClaim rec) then False
      else if plPromotionState link \<noteq> PromotionStatePromoted \<or> plOutcomeRef link = [] \<or> plDecisionRef link = []
        \<or> plVerifierRef link = [] then False
      else plOutcomeRef link \<in> set (passedOutcomeRefs rec))"

definition hasPromotedLinkToPassedOutcome :: "ClaimRecord \<Rightarrow> bool" where
  "hasPromotedLinkToPassedOutcome rec = list_ex (promotingLink rec) (rcPromotionLinks rec)"

definition recordEvidenceKinds :: "ClaimRecord \<Rightarrow> string list" where
  "recordEvidenceKinds rec = sortBy (<) (remdups (map evEvidenceKind (rcEvidence rec)))"

definition evidenceRefs :: "ClaimRecord \<Rightarrow> string list" where
  "evidenceRefs rec = map evEvidenceRef (rcEvidence rec)"

definition verifierRefs :: "ClaimRecord \<Rightarrow> string list" where
  "verifierRefs rec = map dcVerifierRef (rcDecisions rec) @ map ocVerifierRef (rcOutcomes rec)
     @ map plVerifierRef (rcPromotionLinks rec)"

subsection \<open>Gates\<close>

definition validateProjectGate :: "ConfLib \<Rightarrow> KnowledgeRecord \<Rightarrow> ProjectGateInput \<Rightarrow> unit res" where
  "validateProjectGate lib rec input =
     (let claimRec = pgClaim input; claim = rcClaim claimRec; confidence = pgConfidence input in inOrder
    [validateClaimRecordMetadata_kn lib claimRec,
     validateAssessmentMetadata lib confidence,
     failIf (cmProjectID claim \<noteq> krProjectID rec \<or> caProjectID confidence \<noteq> krProjectID rec) (ErrInvalidInput ''project mismatch''),
     failIf (cmID claim \<noteq> krClaimID rec \<or> caClaimID confidence \<noteq> krClaimID rec) (ErrInvalidInput ''claim mismatch''),
     failIf (caClaimRef confidence \<noteq> [] \<and> caClaimRef confidence \<noteq> cmClaimRef claim) (ErrInvalidInput ''claim_ref mismatch''),
     failIf (rcEvidence claimRec = []) (ErrInvalidInput ''evidence is required''),
     failIf (\<not> hasDecisionState_kn claimRec ''validated'' \<and> \<not> hasDecisionState_kn claimRec ''promoted'')
       (ErrInvalidInput ''validated or promoted decision is required''),
     failIf (hasDecisionState_kn claimRec ''rejected'') (ErrInvalidInput ''rejected decisions block project promotion''),
     failIf (rcActions claimRec = []) (ErrInvalidInput ''action is required''),
     failIf (\<not> hasPassedOutcome claimRec) (ErrInvalidInput ''passed outcome is required''),
     failIf (hasUnresolvedFailedOutcome claimRec)
       (ErrInvalidInput ''latest failed outcome is not superseded by a later pass''),
     failIf (caScore confidence < 85) (ErrInvalidInput ''confidence score is below project gate''),
     failIf (caRecommendation confidence \<noteq> RecommendationPromote) (ErrInvalidInput ''confidence recommendation must be promote''),
     failIf (\<not> hasVerifierRef claimRec) (ErrInvalidInput ''verifier_ref is required''),
     failIf (\<not> hasPromotedLinkToPassedOutcome claimRec) (ErrInvalidInput ''promoted link to passed outcome is required'')])"

definition hasTransition :: "PromotionDecision list \<Rightarrow> string \<Rightarrow> string \<Rightarrow> bool" where
  "hasTransition decisions from to = list_ex (\<lambda>d. pdFromState d = from \<and> pdToState d = to) decisions"

definition hasTransitionTo :: "PromotionDecision list \<Rightarrow> string \<Rightarrow> bool" where
  "hasTransitionTo decisions to = list_ex (\<lambda>d. pdToState d = to \<and> pdScope d = ScopeOrg \<and> pdDecidedBy d \<noteq> []) decisions"

definition sameOrg :: "ConfLib \<Rightarrow> KnowledgeRecord \<Rightarrow> OrgGateInput \<Rightarrow> unit res" where
  "sameOrg lib rec input =
     tryE (safeDefaultOrgRef lib (ogOrgRef input) True) (\<lambda>inputOrgRef.
     tryE (safeDefaultOrgRef lib (krOrgRef rec) True) (\<lambda>recordOrgRef.
     inOrder
      [failIf (inputOrgRef \<noteq> recordOrgRef) (ErrInvalidInput ''org_ref must match org review''),
       failIf (krScope rec \<noteq> ScopeOrg) (ErrInvalidInput ''org promotion requires org scope''),
       failIf (recordOrgRef \<noteq> DefaultOrgRef) (ErrInvalidInput ''org_ref is not supported'')]))"

definition validateOrgGate ::
    "ConfLib \<Rightarrow> KnowledgeRecord \<Rightarrow> PromotionDecision list \<Rightarrow> OrgGateInput \<Rightarrow> unit res" where
  "validateOrgGate lib rec decisions input = inOrder
    [failIf (krState rec \<noteq> StateOrgReview) (ErrInvalidInput ''org promotion requires org_review state''),
     failIf (\<not> hasTransition decisions StateValidated StateProjectPromoted
         \<and> \<not> hasTransition decisions StateCandidate StateProjectPromoted)
       (ErrInvalidInput ''org promotion requires prior project promotion''),
     failIf (\<not> hasTransitionTo decisions StateOrgReview) (ErrInvalidInput ''explicit org review decision is required''),
     tryE (safeScope (ogScope input)) (\<lambda>scope. failIf (scope \<noteq> ScopeOrg) (ErrInvalidInput ''org scope must be explicit'')),
     sameOrg lib rec input,
     check (safeRefIdentifier_kn lib (ogDecisionRef input) ''decision_ref''),
     check (safeRefIdentifier_kn lib (ogVerifierRef input) ''verifier_ref''),
     check (safeRequiredText_kn lib (ogRationale input) ''rationale'' 1000),
     check (safeActorRef lib (ogDecidedBy input) ''decided_by''),
     validateProjectGate lib rec \<lparr>pgClaim = ogClaim input, pgConfidence = ogConfidence input\<rparr>,
     failIf (caScore (ogConfidence input) < 90) (ErrInvalidInput ''confidence score is below org gate''),
     failIf (caBand (ogConfidence input) \<noteq> ScoreBandHigh) (ErrInvalidInput ''confidence band must be high''),
     failIf (length (recordEvidenceKinds (ogClaim input)) < 2) (ErrInvalidInput ''at least two evidence kinds are required''),
     failIf (hasDecisionState_kn (ogClaim input) ''rejected'') (ErrInvalidInput ''rejected decisions block org promotion''),
     failIf (ogClaimCheckActionable input \<noteq> 0)
       (ErrInvalidInput ''actionable claim-check findings block org promotion'')]"

definition applyProjectGate :: "KnowledgeRecord \<Rightarrow> ProjectGateInput \<Rightarrow> KnowledgeRecord" where
  "applyProjectGate rec input =
     rec\<lparr>krClaimRef := cmClaimRef (rcClaim (pgClaim input)),
       krConfidenceAssessmentID := caID (pgConfidence input),
       krConfidenceScore := caScore (pgConfidence input),
       krConfidenceBand := caBand (pgConfidence input),
       krEvidenceRefs := uniqueRefs (krEvidenceRefs rec @ evidenceRefs (pgClaim input)),
       krVerifierRefs := uniqueRefs (krVerifierRefs rec @ verifierRefs (pgClaim input)),
       krOutcomeRefs := uniqueRefs (krOutcomeRefs rec @ passedOutcomeRefs (pgClaim input))\<rparr>"

end
