(* ===== verification/Knowledge_Service.thy ===== *)
theory Knowledge_Service
  imports Knowledge_Gate Knowledge_Model
begin

section \<open>Knowledge: the service\<close>

text \<open>
  The methods of \<open>internal/projectknowledge/service.go\<close>. A method that changes the state of a record
  reads it, computes the new record and the decision (\<open>plan...\<close>), and writes both: there is no lock
  around the three. \<open>t1\<close> is the time of the decision, \<open>t2\<close> that of the record, \<open>rnd\<close> the random
  bytes of the new identifier. The guard against a missing store is left out.
\<close>

definition newID_kn :: "string \<Rightarrow> 8 word list \<Rightarrow> string" where
  "newID_kn pre b = pre @ ''_'' @ letterEncode b"

definition askS :: "('s \<Rightarrow> 'e + 'a) \<Rightarrow> 's \<Rightarrow> ('e + 'a) \<times> 's" where
  "askS f s = (f s, s)"

lemma askS_eq [res_simps]: "askS f s = (r, s') \<longleftrightarrow> f s = r \<and> s' = s"
  by (auto simp: askS_def)

subsection \<open>Candidates and listings\<close>

definition buildCandidate :: "ConfLib \<Rightarrow> time \<Rightarrow> 8 word list \<Rightarrow> CreateCandidateInput \<Rightarrow> KnowledgeRecord res" where
  "buildCandidate lib now rnd input =
     tryE (safeRefIdentifier_kn lib (kcProjectID input) ''project_id'') (\<lambda>projectID.
     tryE (safeRefIdentifier_kn lib (kcKnowledgeRef input) ''knowledge_ref'') (\<lambda>knowledgeRef.
     tryE (safeRefIdentifier_kn lib (kcClaimID input) ''claim_id'') (\<lambda>claimID.
     tryE (safeRefIdentifier_kn lib (kcClaimRef input) ''claim_ref'') (\<lambda>claimRef.
     tryE (safeOptionalRefIdentifier_kn lib (kcConfidenceAssessmentID input) ''confidence_assessment_id'') (\<lambda>assessmentID.
     tryE (safeOptionalBand_kn (kcConfidenceBand input)) (\<lambda>band.
     tryE (failIf (kcConfidenceScore input < 0 \<or> kcConfidenceScore input > 100)
       (ErrInvalidInput ''confidence_score is out of bounds'')) (\<lambda>_.
     tryE (safeRequiredText_kn lib (kcSummary input) ''summary'' 500) (\<lambda>summary.
     tryE (safeRequiredText_kn lib (kcReuseGuidance input) ''reuse_guidance'' 500) (\<lambda>guidance.
     tryE (safeRefList_kn lib (kcEvidenceRefs input) ''evidence_ref'') (\<lambda>evRefs.
     tryE (safeRefList_kn lib (kcVerifierRefs input) ''verifier_ref'') (\<lambda>vrRefs.
     tryE (safeRefList_kn lib (kcOutcomeRefs input) ''outcome_ref'') (\<lambda>ocRefs.
     tryE (safeRefList_kn lib (kcPromotionRefs input) ''promotion_ref'') (\<lambda>prRefs.
     tryE (safeOptionalRefIdentifier_kn lib (kcSupersedesRef input) ''supersedes_ref'') (\<lambda>supersedesRef.
     let rec = \<lparr>krID = newID_kn ''knowledge'' rnd, krProjectID = projectID, krScope = ScopeProject, krOrgRef = [],
       krKnowledgeRef = knowledgeRef, krClaimID = claimID, krClaimRef = claimRef,
       krConfidenceAssessmentID = assessmentID, krConfidenceScore = kcConfidenceScore input, krConfidenceBand = band,
       krState = StateCandidate, krSummary = summary, krReuseGuidance = guidance, krEvidenceRefs = evRefs,
       krVerifierRefs = vrRefs, krOutcomeRefs = ocRefs, krPromotionRefs = prRefs, krSupersedesRef = supersedesRef,
       krSupersededByRef = [], krCreatedAt = now, krUpdatedAt = now, krPromotedAt = zeroTime\<rparr>
     in tryE (validateKnowledgeRecord lib rec) (\<lambda>_. Inr rec)))))))))))))))"

definition svcCreateCandidate ::
    "ConfLib \<Rightarrow> time \<Rightarrow> 8 word list \<Rightarrow> CreateCandidateInput \<Rightarrow> (KnowledgeStore, KnowledgeRecord) act" where
  "svcCreateCandidate lib now rnd input = seqS (liftS (buildCandidate lib now rnd input)) memCreateKnowledge"

definition svcGetKnowledge :: "ConfLib \<Rightarrow> string \<Rightarrow> string \<Rightarrow> KnowledgeStore \<Rightarrow> KnowledgeRecord res" where
  "svcGetKnowledge lib projectID0 knowledgeID0 st =
     tryE (safeProjectKnowledgeIDs lib projectID0 knowledgeID0) (\<lambda>(projectID, knowledgeID).
     memGetKnowledge projectID knowledgeID st)"

definition validateFilter_kn :: "ConfLib \<Rightarrow> KnowledgeFilter \<Rightarrow> KnowledgeFilter res" where
  "validateFilter_kn lib flt =
     tryE (safeOptionalScope (klScope flt)) (\<lambda>scope.
     tryE (safeOptionalRefIdentifier_kn lib (klOrgRef flt) ''org_ref'') (\<lambda>orgRef.
     tryE (safeOptionalState (klState flt)) (\<lambda>state.
     tryE (safeOptionalRefIdentifier_kn lib (klClaimID flt) ''claim_id'') (\<lambda>claimID.
     tryE (safeOptionalRefIdentifier_kn lib (klKnowledgeRef flt) ''knowledge_ref'') (\<lambda>knowledgeRef.
     tryE (safeOptionalBand_kn (klConfidenceBand flt)) (\<lambda>band.
     tryE (safeOptionalRefIdentifier_kn lib (klPageToken flt) ''page_token'') (\<lambda>pageToken.
     tryE (inOrder
       [case klMinConfidence flt of None \<Rightarrow> Inr ()
          | Some mn \<Rightarrow> failIf (mn < 0 \<or> mn > 100) (ErrInvalidInput ''min_confidence is out of bounds''),
        case klMaxConfidence flt of None \<Rightarrow> Inr ()
          | Some mx \<Rightarrow> failIf (mx < 0 \<or> mx > 100) (ErrInvalidInput ''max_confidence is out of bounds''),
        case (klMinConfidence flt, klMaxConfidence flt) of
            (Some mn, Some mx) \<Rightarrow> failIf (mn > mx) (ErrInvalidInput ''min_confidence exceeds max_confidence'')
          | _ \<Rightarrow> Inr (),
        failIf (klPageSize flt < 0 \<or> klPageSize flt > 100) (ErrInvalidInput ''page_size is out of bounds'')]) (\<lambda>_.
     Inr (flt\<lparr>klScope := scope, klOrgRef := orgRef, klState := state, klClaimID := claimID,
       klKnowledgeRef := knowledgeRef, klConfidenceBand := band, klPageToken := pageToken\<rparr>)))))))))"

definition svcListKnowledge ::
    "ConfLib \<Rightarrow> string \<Rightarrow> KnowledgeFilter \<Rightarrow> KnowledgeStore \<Rightarrow> KnowledgeRecord list res" where
  "svcListKnowledge lib projectID0 flt0 st =
     tryE (safeRefIdentifier_kn lib projectID0 ''project_id'') (\<lambda>projectID.
     tryE (validateFilter_kn lib flt0) (\<lambda>flt. Inr (memListKnowledge projectID flt st)))"

definition svcListOrgKnowledge ::
    "ConfLib \<Rightarrow> string \<Rightarrow> KnowledgeFilter \<Rightarrow> KnowledgeStore \<Rightarrow> KnowledgeRecord list res" where
  "svcListOrgKnowledge lib orgRef0 flt0 st =
     tryE (safeDefaultOrgRef lib orgRef0 False) (\<lambda>orgRef.
     tryE (inOrder
       [failIf (klScope flt0 \<noteq> [] \<and> klScope flt0 \<noteq> ScopeOrg) (ErrInvalidInput ''org knowledge scope must be org''),
        failIf (klState flt0 \<noteq> [] \<and> klState flt0 \<noteq> StateOrgPromoted)
          (ErrInvalidInput ''org knowledge state must be org_promoted'')]) (\<lambda>_.
     tryE (validateFilter_kn lib (flt0\<lparr>klScope := ScopeOrg, klOrgRef := orgRef, klState := StateOrgPromoted\<rparr>)) (\<lambda>flt.
     Inr (memListOrgKnowledge orgRef flt st))))"

subsection \<open>Decisions\<close>

definition newDecision ::
    "ConfLib \<Rightarrow> time \<Rightarrow> 8 word list \<Rightarrow> KnowledgeRecord \<Rightarrow> string \<Rightarrow> string \<Rightarrow> string \<Rightarrow> string \<Rightarrow> string \<Rightarrow> string \<Rightarrow> int
      \<Rightarrow> PromotionDecision res" where
  "newDecision lib now rnd rec toState scope0 decisionRef0 verifierRef0 rationale0 decidedBy0 score =
     tryE (safeState toState) (\<lambda>_.
     tryE (safeScope scope0) (\<lambda>scope.
     tryE (safeRefIdentifier_kn lib decisionRef0 ''decision_ref'') (\<lambda>decisionRef.
     tryE (safeRefIdentifier_kn lib verifierRef0 ''verifier_ref'') (\<lambda>verifierRef.
     tryE (safeRequiredText_kn lib rationale0 ''rationale'' 1000) (\<lambda>rationale.
     tryE (safeOptionalActorRef lib decidedBy0 ''decided_by'') (\<lambda>decidedBy.
     tryE (failIf (score < 0 \<or> score > 100) (ErrInvalidInput ''confidence score is out of bounds'')) (\<lambda>_.
     Inr \<lparr>pdID = newID_kn ''knowledge_decision'' rnd, pdProjectID = krProjectID rec, pdKnowledgeID = krID rec,
       pdFromState = krState rec, pdToState = toState, pdScope = scope, pdDecisionRef = decisionRef,
       pdVerifierRef = verifierRef, pdConfidenceScore = score, pdRationale = rationale, pdDecidedBy = decidedBy,
       pdDecidedAt = now\<rparr>)))))))"

type_synonym knowledge_change = "KnowledgeRecord \<times> PromotionDecision"

definition checked :: "ConfLib \<Rightarrow> KnowledgeRecord \<Rightarrow> PromotionDecision \<Rightarrow> knowledge_change res" where
  "checked lib rec decision = tryE (validateKnowledgeRecord lib rec) (\<lambda>_. Inr (rec, decision))"

definition planValidate ::
    "ConfLib \<Rightarrow> time \<Rightarrow> time \<Rightarrow> 8 word list \<Rightarrow> ValidateCandidateInput \<Rightarrow> KnowledgeRecord \<Rightarrow> knowledge_change res" where
  "planValidate lib t1 t2 rnd input rec =
     tryE (validateTransition_kn (krState rec) StateValidated) (\<lambda>_.
     tryE (validateProjectGate lib rec (vcGate input)) (\<lambda>_.
     tryE (newDecision lib t1 rnd rec StateValidated ScopeProject (vcDecisionRef input) (vcVerifierRef input)
       (vcRationale input) [] (caScore (pgConfidence (vcGate input)))) (\<lambda>decision.
     checked lib ((applyProjectGate rec (vcGate input))\<lparr>krState := StateValidated, krUpdatedAt := t2\<rparr>) decision)))"

definition planPromoteProject ::
    "ConfLib \<Rightarrow> time \<Rightarrow> time \<Rightarrow> 8 word list \<Rightarrow> PromoteProjectInput \<Rightarrow> KnowledgeRecord \<Rightarrow> knowledge_change res" where
  "planPromoteProject lib t1 t2 rnd input rec =
     tryE (validateTransition_kn (krState rec) StateProjectPromoted) (\<lambda>_.
     tryE (validateProjectGate lib rec (vcGate input)) (\<lambda>_.
     tryE (newDecision lib t1 rnd rec StateProjectPromoted ScopeProject (vcDecisionRef input) (vcVerifierRef input)
       (vcRationale input) [] (caScore (pgConfidence (vcGate input)))) (\<lambda>decision.
     let gated = applyProjectGate rec (vcGate input)
     in checked lib (gated\<lparr>krScope := ScopeProject, krState := StateProjectPromoted,
          krPromotionRefs := uniqueRefs (krPromotionRefs gated @ [pdDecisionRef decision]),
          krUpdatedAt := t2, krPromotedAt := t2\<rparr>) decision)))"

definition planOrgReview ::
    "ConfLib \<Rightarrow> time \<Rightarrow> time \<Rightarrow> 8 word list \<Rightarrow> SubmitOrgReviewInput \<Rightarrow> KnowledgeRecord \<Rightarrow> knowledge_change res" where
  "planOrgReview lib t1 t2 rnd input rec =
     tryE (validateTransition_kn (krState rec) StateOrgReview) (\<lambda>_.
     tryE (safeDefaultOrgRef lib (swOrgRef input) False) (\<lambda>orgRef.
     tryE (safeActorRef lib (swDecidedBy input) ''decided_by'') (\<lambda>_.
     tryE (newDecision lib t1 rnd rec StateOrgReview ScopeOrg (swDecisionRef input) (swVerifierRef input)
       (swRationale input) (swDecidedBy input) (krConfidenceScore rec)) (\<lambda>decision.
     checked lib (rec\<lparr>krScope := ScopeOrg, krOrgRef := orgRef, krState := StateOrgReview, krUpdatedAt := t2\<rparr>) decision))))"

definition planPromoteOrg ::
    "ConfLib \<Rightarrow> time \<Rightarrow> time \<Rightarrow> 8 word list \<Rightarrow> PromoteOrgInput \<Rightarrow> PromotionDecision list \<Rightarrow> KnowledgeRecord
      \<Rightarrow> knowledge_change res" where
  "planPromoteOrg lib t1 t2 rnd input decisions rec =
     (let gate = poGate input in
     tryE (validateOrgGate lib rec decisions gate) (\<lambda>_.
     tryE (validateTransition_kn (krState rec) StateOrgPromoted) (\<lambda>_.
     tryE (safeDefaultOrgRef lib (krOrgRef rec) True) (\<lambda>orgRef.
     tryE (newDecision lib t1 rnd rec StateOrgPromoted ScopeOrg (ogDecisionRef gate) (ogVerifierRef gate)
       (ogRationale gate) (ogDecidedBy gate) (caScore (ogConfidence gate))) (\<lambda>decision.
     let gated = applyProjectGate rec \<lparr>pgClaim = ogClaim gate, pgConfidence = ogConfidence gate\<rparr>
     in checked lib (gated\<lparr>krScope := ScopeOrg, krOrgRef := orgRef, krState := StateOrgPromoted,
          krPromotionRefs := uniqueRefs (krPromotionRefs gated @ [pdDecisionRef decision]),
          krUpdatedAt := t2, krPromotedAt := t2\<rparr>) decision)))))"

definition planReject ::
    "ConfLib \<Rightarrow> time \<Rightarrow> time \<Rightarrow> 8 word list \<Rightarrow> RejectInput \<Rightarrow> KnowledgeRecord \<Rightarrow> knowledge_change res" where
  "planReject lib t1 t2 rnd input rec =
     tryE (validateTransition_kn (krState rec) StateRejected) (\<lambda>_.
     tryE (newDecision lib t1 rnd rec StateRejected (krScope rec) (rjDecisionRef input) (rjVerifierRef input)
       (rjRationale input) (rjDecidedBy input) (krConfidenceScore rec)) (\<lambda>decision.
     Inr (rec\<lparr>krState := StateRejected, krUpdatedAt := t2\<rparr>, decision)))"

definition planSupersede ::
    "ConfLib \<Rightarrow> time \<Rightarrow> time \<Rightarrow> 8 word list \<Rightarrow> SupersedeInput \<Rightarrow> KnowledgeRecord \<Rightarrow> knowledge_change res" where
  "planSupersede lib t1 t2 rnd input rec =
     tryE (validateTransition_kn (krState rec) StateSuperseded) (\<lambda>_.
     tryE (safeRefIdentifier_kn lib (suSupersededByRef input) ''superseded_by_ref'') (\<lambda>supersededByRef.
     tryE (newDecision lib t1 rnd rec StateSuperseded (krScope rec) (suDecisionRef input) (suVerifierRef input)
       (suRationale input) (suDecidedBy input) (krConfidenceScore rec)) (\<lambda>decision.
     checked lib (rec\<lparr>krState := StateSuperseded, krSupersededByRef := supersededByRef, krUpdatedAt := t2\<rparr>) decision)))"

subsection \<open>The methods\<close>

definition commit :: "knowledge_change \<Rightarrow> (KnowledgeStore, KnowledgeRecord) act" where
  "commit change =
     seqS (memUpdateKnowledge (fst change)) (\<lambda>updated.
     seqS (memCreateDecision_kn (snd change)) (\<lambda>_. retS updated))"

definition readRecord :: "ConfLib \<Rightarrow> string \<Rightarrow> string \<Rightarrow> KnowledgeStore \<Rightarrow> KnowledgeRecord res" where
  "readRecord lib projectID0 knowledgeID0 st =
     tryE (safeProjectKnowledgeIDs lib projectID0 knowledgeID0) (\<lambda>(projectID, knowledgeID).
     memGetKnowledge projectID knowledgeID st)"

definition svcValidateCandidate ::
    "ConfLib \<Rightarrow> time \<Rightarrow> time \<Rightarrow> 8 word list \<Rightarrow> ValidateCandidateInput \<Rightarrow> (KnowledgeStore, KnowledgeRecord) act" where
  "svcValidateCandidate lib t1 t2 rnd input =
     seqS (askS (readRecord lib (vcProjectID input) (vcKnowledgeID input))) (\<lambda>rec.
     seqS (liftS (planValidate lib t1 t2 rnd input rec)) commit)"

definition svcPromoteProject ::
    "ConfLib \<Rightarrow> time \<Rightarrow> time \<Rightarrow> 8 word list \<Rightarrow> PromoteProjectInput \<Rightarrow> (KnowledgeStore, KnowledgeRecord) act" where
  "svcPromoteProject lib t1 t2 rnd input =
     seqS (askS (readRecord lib (vcProjectID input) (vcKnowledgeID input))) (\<lambda>rec.
     seqS (liftS (planPromoteProject lib t1 t2 rnd input rec)) commit)"

definition svcSubmitOrgReview ::
    "ConfLib \<Rightarrow> time \<Rightarrow> time \<Rightarrow> 8 word list \<Rightarrow> SubmitOrgReviewInput \<Rightarrow> (KnowledgeStore, KnowledgeRecord) act" where
  "svcSubmitOrgReview lib t1 t2 rnd input =
     seqS (askS (readRecord lib (swProjectID input) (swKnowledgeID input))) (\<lambda>rec.
     seqS (liftS (planOrgReview lib t1 t2 rnd input rec)) commit)"

definition svcPromoteOrg ::
    "ConfLib \<Rightarrow> time \<Rightarrow> time \<Rightarrow> 8 word list \<Rightarrow> PromoteOrgInput \<Rightarrow> (KnowledgeStore, KnowledgeRecord) act" where
  "svcPromoteOrg lib t1 t2 rnd input =
     seqS (liftS (safeProjectKnowledgeIDs lib (poProjectID input) (poKnowledgeID input))) (\<lambda>(projectID, knowledgeID).
     seqS (askS (memGetKnowledge projectID knowledgeID)) (\<lambda>rec.
     seqS (askS (memListDecisions projectID knowledgeID)) (\<lambda>decisions.
     seqS (liftS (planPromoteOrg lib t1 t2 rnd input decisions rec)) commit)))"

definition svcReject ::
    "ConfLib \<Rightarrow> time \<Rightarrow> time \<Rightarrow> 8 word list \<Rightarrow> RejectInput \<Rightarrow> (KnowledgeStore, KnowledgeRecord) act" where
  "svcReject lib t1 t2 rnd input =
     seqS (askS (readRecord lib (rjProjectID input) (rjKnowledgeID input))) (\<lambda>rec.
     seqS (liftS (planReject lib t1 t2 rnd input rec)) commit)"

definition svcSupersede ::
    "ConfLib \<Rightarrow> time \<Rightarrow> time \<Rightarrow> 8 word list \<Rightarrow> SupersedeInput \<Rightarrow> (KnowledgeStore, KnowledgeRecord) act" where
  "svcSupersede lib t1 t2 rnd input =
     seqS (askS (readRecord lib (suProjectID input) (suKnowledgeID input))) (\<lambda>rec.
     seqS (liftS (planSupersede lib t1 t2 rnd input rec)) commit)"

definition buildReuseEvent ::
    "ConfLib \<Rightarrow> time \<Rightarrow> 8 word list \<Rightarrow> RecordReuseEventInput \<Rightarrow> string \<Rightarrow> string \<Rightarrow> KnowledgeReuseEvent res" where
  "buildReuseEvent lib now rnd input projectID knowledgeID =
     tryE (safeOptionalRefIdentifier_kn lib (rrAgentRunID input) ''agent_run_id'') (\<lambda>agentRunID.
     tryE (safeOptionalRefIdentifier_kn lib (rrTraceID input) ''trace_id'') (\<lambda>traceID.
     tryE (safeRefIdentifier_kn lib (rrReuseRef input) ''reuse_ref'') (\<lambda>reuseRef.
     tryE (safeOptionalRefIdentifier_kn lib (rrRevalidationRef input) ''revalidation_ref'') (\<lambda>revalidationRef.
     tryE (failIf (rrRevalidated input \<and> revalidationRef = [])
       (ErrInvalidInput ''revalidation_ref is required when revalidated'')) (\<lambda>_.
     tryE (safeReuseOutcome (rrOutcome input)) (\<lambda>outcome.
     tryE (safeOptionalText_kn lib (rrSummary input) ''summary'' 500) (\<lambda>summary.
     Inr \<lparr>kuID = newID_kn ''reuse'' rnd, kuProjectID = projectID, kuKnowledgeID = knowledgeID, kuAgentRunID = agentRunID,
       kuTraceID = traceID, kuReuseRef = reuseRef, kuRevalidated = rrRevalidated input,
       kuRevalidationRef = revalidationRef, kuOutcome = outcome, kuSummary = summary, kuCreatedAt = now\<rparr>)))))))"

definition svcRecordReuseEvent ::
    "ConfLib \<Rightarrow> time \<Rightarrow> 8 word list \<Rightarrow> RecordReuseEventInput \<Rightarrow> (KnowledgeStore, KnowledgeReuseEvent) act" where
  "svcRecordReuseEvent lib now rnd input =
     seqS (liftS (safeProjectKnowledgeIDs lib (rrProjectID input) (rrKnowledgeID input))) (\<lambda>(projectID, knowledgeID).
     seqS (askS (memGetKnowledge projectID knowledgeID)) (\<lambda>_.
     seqS (liftS (buildReuseEvent lib now rnd input projectID knowledgeID)) memCreateReuseEvent))"

section \<open>Knowledge: promotion with collected inputs\<close>

text \<open>
  \<open>internal/projectknowledge/integration.go\<close>: the adapter that reads the claim and its assessment
  from the evidence and the confidence service, and the methods that promote with them. The two
  readers are functions of a world of any type.
\<close>

record 'w PromotionInputAdapter =
  paEvidence :: "(string \<Rightarrow> string \<Rightarrow> 'w \<Rightarrow> ClaimRecord res) option"
  paConfidence :: "(string \<Rightarrow> string \<Rightarrow> 'w \<Rightarrow> ConfidenceAssessment res) option"

definition foreign :: "string \<Rightarrow> string \<Rightarrow> bool" where
  "foreign actual expected = (actual \<noteq> [] \<and> actual \<noteq> expected)"

definition adapterInputs ::
    "ConfLib \<Rightarrow> 'w PromotionInputAdapter option \<Rightarrow> 'w \<Rightarrow> string \<Rightarrow> string \<Rightarrow> (ClaimRecord \<times> ConfidenceAssessment) res" where
  "adapterInputs lib adapter w projectID0 claimID0 =
     (case adapter of
        None \<Rightarrow> Inl (ErrInvalidInput ''promotion input adapter is required'')
      | Some ad \<Rightarrow>
     (case paEvidence ad of
        None \<Rightarrow> Inl (ErrInvalidInput ''evidence claim reader is required'')
      | Some readClaim \<Rightarrow>
     (case paConfidence ad of
        None \<Rightarrow> Inl (ErrInvalidInput ''confidence assessment reader is required'')
      | Some readAssessment \<Rightarrow>
     tryE (safeRefIdentifier_kn lib projectID0 ''project_id'') (\<lambda>projectID.
     tryE (safeRefIdentifier_kn lib claimID0 ''claim_id'') (\<lambda>claimID.
     tryE (readClaim projectID claimID w) (\<lambda>claim.
     tryE (failIf (foreign (cmProjectID (rcClaim claim)) projectID) (ErrInvalidInput ''claim project mismatch'')) (\<lambda>_.
     tryE (failIf (foreign (cmID (rcClaim claim)) claimID) (ErrInvalidInput ''claim id mismatch'')) (\<lambda>_.
     tryE (readAssessment projectID claimID w) (\<lambda>confidence.
     tryE (failIf (foreign (caProjectID confidence) projectID) (ErrInvalidInput ''confidence project mismatch'')) (\<lambda>_.
     tryE (failIf (foreign (caClaimID confidence) claimID) (ErrInvalidInput ''confidence claim mismatch'')) (\<lambda>_.
     Inr (claim, confidence))))))))))))"

definition buildProjectGate ::
    "ConfLib \<Rightarrow> 'w PromotionInputAdapter option \<Rightarrow> 'w \<Rightarrow> string \<Rightarrow> string \<Rightarrow> ProjectGateInput res" where
  "buildProjectGate lib adapter w projectID claimID =
     tryE (adapterInputs lib adapter w projectID claimID) (\<lambda>(claim, confidence).
     Inr \<lparr>pgClaim = claim, pgConfidence = confidence\<rparr>)"

definition buildOrgGate ::
    "ConfLib \<Rightarrow> 'w PromotionInputAdapter option \<Rightarrow> 'w \<Rightarrow> string \<Rightarrow> string \<Rightarrow> PromoteOrgWithInputsInput \<Rightarrow> OrgGateInput res" where
  "buildOrgGate lib adapter w projectID claimID options =
     tryE (adapterInputs lib adapter w projectID claimID) (\<lambda>(claim, confidence).
     Inr \<lparr>ogClaim = claim, ogConfidence = confidence,
       ogClaimCheckActionable = inClaimCheckActionable (caInputs confidence), ogScope = piScope options,
       ogOrgRef = piOrgRef options, ogDecisionRef = piDecisionRef options, ogVerifierRef = piVerifierRef options,
       ogRationale = piRationale options, ogDecidedBy = piDecidedBy options\<rparr>)"

definition gateInput ::
    "KnowledgeRecord \<Rightarrow> ValidateCandidateWithInputsInput \<Rightarrow> ProjectGateInput \<Rightarrow> ValidateCandidateInput" where
  "gateInput rec input gate = \<lparr>vcProjectID = krProjectID rec, vcKnowledgeID = krID rec, vcDecisionRef = viDecisionRef input,
     vcVerifierRef = viVerifierRef input, vcRationale = viRationale input, vcGate = gate\<rparr>"

definition svcValidateCandidateWithInputs ::
    "ConfLib \<Rightarrow> 'w PromotionInputAdapter option \<Rightarrow> 'w \<Rightarrow> time \<Rightarrow> time \<Rightarrow> 8 word list \<Rightarrow> ValidateCandidateWithInputsInput
      \<Rightarrow> (KnowledgeStore, KnowledgeRecord) act" where
  "svcValidateCandidateWithInputs lib adapter w t1 t2 rnd input =
     seqS (askS (readRecord lib (viProjectID input) (viKnowledgeID input))) (\<lambda>rec.
     seqS (liftS (buildProjectGate lib adapter w (krProjectID rec) (krClaimID rec))) (\<lambda>gate.
     svcValidateCandidate lib t1 t2 rnd (gateInput rec input gate)))"

definition svcPromoteProjectWithInputs ::
    "ConfLib \<Rightarrow> 'w PromotionInputAdapter option \<Rightarrow> 'w \<Rightarrow> time \<Rightarrow> time \<Rightarrow> 8 word list \<Rightarrow> PromoteProjectWithInputsInput
      \<Rightarrow> (KnowledgeStore, KnowledgeRecord) act" where
  "svcPromoteProjectWithInputs lib adapter w t1 t2 rnd input =
     seqS (askS (readRecord lib (viProjectID input) (viKnowledgeID input))) (\<lambda>rec.
     seqS (liftS (buildProjectGate lib adapter w (krProjectID rec) (krClaimID rec))) (\<lambda>gate.
     svcPromoteProject lib t1 t2 rnd (gateInput rec input gate)))"

definition svcPromoteOrgWithInputs ::
    "ConfLib \<Rightarrow> 'w PromotionInputAdapter option \<Rightarrow> 'w \<Rightarrow> time \<Rightarrow> time \<Rightarrow> 8 word list \<Rightarrow> PromoteOrgWithInputsInput
      \<Rightarrow> (KnowledgeStore, KnowledgeRecord) act" where
  "svcPromoteOrgWithInputs lib adapter w t1 t2 rnd input =
     seqS (askS (readRecord lib (piProjectID input) (piKnowledgeID input))) (\<lambda>rec.
     seqS (liftS (buildOrgGate lib adapter w (krProjectID rec) (krClaimID rec) input)) (\<lambda>gate.
     svcPromoteOrg lib t1 t2 rnd \<lparr>poProjectID = krProjectID rec, poKnowledgeID = krID rec, poGate = gate\<rparr>))"

end
