(* ===== verification/Knowledge_Invariant.thy ===== *)
theory Knowledge_Invariant
  imports Knowledge_Service Confidence_Lemmas
begin

section \<open>Knowledge: what the checks and gates amount to\<close>

subsection \<open>References\<close>

text \<open>The references the package accepts: those of the confidence service without double slashes.\<close>

definition refForm_kn :: "string \<Rightarrow> bool" where
  "refForm_kn r \<longleftrightarrow> refForm_cf r \<and> \<not> contains r ''//''"

lemma safeRef_kn_eq:
  "safeRefIdentifier_kn lib v f = Inr r \<longleftrightarrow> safeRefIdentifier_cf lib v f = Inr r \<and> \<not> contains r ''//''"
  by (auto simp: safeRefIdentifier_kn_def safeRefIdentifier_cf_def safeRefIdentifierWith_Inr containsProhibitedMarker_kn_def
      containsProhibitedMarker_cf_def containsProhibitedData_kn_def containsProhibitedData_cf_def containsURL_kn_def
      containsURL_cf_def fun_eq_iff)

lemma safeRef_kn_form: "safeRefIdentifier_kn lib v f = Inr r \<Longrightarrow> r = trimSpace v \<and> refForm_kn r"
  using safeRefIdentifier_cf_form by (auto simp: safeRef_kn_eq refForm_kn_def)

lemma safeRef_kn_idem: "safeRefIdentifier_kn lib v f = Inr r \<Longrightarrow> safeRefIdentifier_kn lib r f' = Inr r"
  unfolding safeRefIdentifier_kn_def by (rule safeRefIdentifierWith_idem)

lemma safeRef_kn_field: "safeRefIdentifier_kn lib v f = Inr r \<longleftrightarrow> safeRefIdentifier_kn lib v f' = Inr r"
  by (simp add: safeRefIdentifier_kn_def safeRefIdentifierWith_Inr)

definition refOk :: "ConfLib \<Rightarrow> string \<Rightarrow> bool" where
  "refOk lib v \<longleftrightarrow> safeRefIdentifier_kn lib v [] = Inr (trimSpace v)"

lemma safeRef_kn_Inr: "safeRefIdentifier_kn lib v f = Inr r \<longleftrightarrow> r = trimSpace v \<and> refOk lib v"
  unfolding refOk_def by (metis safeRef_kn_form safeRef_kn_field)

lemma refOk_trim [simp]: "refOk lib (trimSpace v) = refOk lib v"
  by (simp add: refOk_def safeRefIdentifier_kn_def safeRefIdentifierWith_Inr)

lemma refOk_form: "refOk lib v \<Longrightarrow> refForm_kn (trimSpace v)"
  unfolding refOk_def by (drule safeRef_kn_form) blast

lemma refForm_kn_nonempty: "refForm_kn r \<Longrightarrow> r \<noteq> []"
  by (simp add: refForm_kn_def refForm_cf_def refForm_def)

lemma refForm_kn_trim: "refForm_kn r \<Longrightarrow> trimSpace r = r"
  by (simp add: refForm_kn_def refForm_cf_def)

lemma refOk_nonblank: "refOk lib v \<Longrightarrow> trimSpace v \<noteq> []"
  using refOk_form refForm_kn_nonempty by blast

definition optOk :: "ConfLib \<Rightarrow> string \<Rightarrow> bool" where
  "optOk lib v \<longleftrightarrow> trimSpace v = [] \<or> refOk lib v"

lemma optOk_trim [simp]: "optOk lib (trimSpace v) = optOk lib v"
  by (simp add: optOk_def)

lemma safeOptRef_kn_Inr:
  "safeOptionalRefIdentifier_kn lib v f = Inr r \<longleftrightarrow> r = trimSpace v \<and> optOk lib v"
  by (auto simp: safeOptionalRefIdentifier_kn_def optionalWith_Inr isBlank_def safeRef_kn_Inr optOk_def)

lemma uniqueRefs_set [simp]: "set (uniqueRefs vs) = trimSpace ` set vs - {[]}"
  by (auto simp: uniqueRefs_def)

lemma mapE_opt:
  "mapE (\<lambda>v. safeOptionalRefIdentifier_kn lib v f) vs = Inr rs \<longleftrightarrow> rs = map trimSpace vs \<and> list_all (optOk lib) vs"
  by (induction vs arbitrary: rs) (auto simp: tryE_Inr safeOptRef_kn_Inr)

lemma safeRefList_kn_Inr:
  "safeRefList_kn lib vs f = Inr rs \<longleftrightarrow> rs = uniqueRefs vs \<and> list_all (optOk lib) vs"
proof -
  have "uniqueRefs (filter (\<lambda>v. v \<noteq> []) (map trimSpace vs)) = uniqueRefs vs"
    by (simp add: uniqueRefs_def filter_map o_def)
  then show ?thesis by (auto simp: safeRefList_kn_def tryE_Inr mapE_opt)
qed

lemma uniqueRefs_ok: "list_all (optOk lib) vs \<Longrightarrow> list_all (optOk lib) (uniqueRefs vs)"
  by (auto simp: list_all_iff)

subsection \<open>Texts\<close>

definition textOk :: "ConfLib \<Rightarrow> nat \<Rightarrow> string \<Rightarrow> bool" where
  "textOk lib mx v \<longleftrightarrow> safeRequiredText_kn lib v [] mx = Inr (trimSpace v)"

lemma safeText_kn_Inr: "safeRequiredText_kn lib v f mx = Inr r \<longleftrightarrow> r = trimSpace v \<and> textOk lib mx v"
  by (auto simp: textOk_def safeRequiredText_kn_def requiredWith_Inr safeOptionalText_kn_def safeTextWith_def Let_def
      split: if_splits)

lemma textOk_trim [simp]: "textOk lib mx (trimSpace v) = textOk lib mx v"
  by (auto simp: textOk_def safeRequiredText_kn_def requiredWith_Inr safeOptionalText_kn_def safeTextWith_def Let_def
      split: if_splits)

definition actorOk :: "ConfLib \<Rightarrow> string \<Rightarrow> bool" where
  "actorOk lib v \<longleftrightarrow> length (trimSpace v) \<le> 120 \<and> refOk lib v"

lemma safeActorRef_Inr: "safeActorRef lib v f = Inr r \<longleftrightarrow> r = trimSpace v \<and> actorOk lib v"
  using refOk_nonblank by (auto simp: safeActorRef_def Let_def safeRef_kn_Inr actorOk_def split: if_splits)

lemma safeOptionalActorRef_Inr:
  "safeOptionalActorRef lib v f = Inr r \<longleftrightarrow> r = trimSpace v \<and> (trimSpace v = [] \<or> actorOk lib v)"
  by (auto simp: safeOptionalActorRef_def optionalWith_Inr isBlank_def safeActorRef_Inr actorOk_def)

lemma safeDefaultOrgRef_Inr:
  "safeDefaultOrgRef lib v b = Inr r \<Longrightarrow> r = DefaultOrgRef"
  by (auto simp: safeDefaultOrgRef_def tryE_Inr split: if_splits)

lemmas know_simps = safeRef_kn_Inr safeOptRef_kn_Inr safeRefList_kn_Inr safeText_kn_Inr safeActorRef_Inr
  safeOptionalActorRef_Inr

subsection \<open>Records\<close>

lemma inOrder_Inr: "inOrder cs = Inr u \<longleftrightarrow> (\<forall>c \<in> set cs. c = Inr ())"
  by (induction cs) (auto simp: res_simps)

lemma check_eq: "check r = Inr () \<longleftrightarrow> (\<exists>x. r = Inr x)"
  by (cases r) simp_all

definition recordOk :: "ConfLib \<Rightarrow> KnowledgeRecord \<Rightarrow> bool" where
  "recordOk lib rec \<longleftrightarrow> refOk lib (krID rec) \<and> refOk lib (krProjectID rec) \<and> trimSpace (krScope rec) \<in> set knowledgeScopes
     \<and> (krScope rec = ScopeOrg \<longrightarrow> (\<exists>r. safeOrgRef lib (krOrgRef rec) = Inr r))
     \<and> refOk lib (krKnowledgeRef rec) \<and> refOk lib (krClaimID rec) \<and> refOk lib (krClaimRef rec)
     \<and> optOk lib (krConfidenceAssessmentID rec) \<and> 0 \<le> krConfidenceScore rec \<and> krConfidenceScore rec \<le> 100
     \<and> trimSpace (krConfidenceBand rec) \<in> set ([] # scoreBands) \<and> trimSpace (krState rec) \<in> set knowledgeStates
     \<and> textOk lib 500 (krSummary rec) \<and> textOk lib 500 (krReuseGuidance rec)
     \<and> list_all (optOk lib) (krEvidenceRefs rec @ krVerifierRefs rec @ krOutcomeRefs rec @ krPromotionRefs rec)
     \<and> optOk lib (krSupersedesRef rec) \<and> optOk lib (krSupersededByRef rec)"

lemma safeOptionalBand_kn_Inr:
  "safeOptionalBand_kn v = Inr r \<longleftrightarrow> r = trimSpace v \<and> r \<in> set ([] # scoreBands)"
  by (auto simp: safeOptionalBand_kn_def safeBand_kn_def safeEnum_Inr scoreBands_def)

lemma validateKnowledgeRecord_Inr: "validateKnowledgeRecord lib rec = Inr u \<longleftrightarrow> recordOk lib rec"
  by (auto simp: validateKnowledgeRecord_def inOrder_Inr check_eq failIf_Inr know_simps safeScope_def safeState_def
      safeEnum_Inr safeOptionalBand_kn_Inr recordOk_def)

section \<open>Knowledge: what records and their decisions satisfy\<close>

subsection \<open>What the gates give\<close>

lemma gate_claim:
  assumes "validateClaimRecordMetadata_kn lib c = Inr ()"
  shows "refOk lib (cmClaimRef (rcClaim c))" and "list_all (optOk lib) (evidenceRefs c)"
    and "list_all (optOk lib) (verifierRefs c)" and "list_all (optOk lib) (passedOutcomeRefs c)"
    and "\<And>e. e \<in> set (rcEvidence c) \<Longrightarrow> refOk lib (evEvidenceRef e)"
    and "\<And>d. d \<in> set (rcDecisions c) \<Longrightarrow> refOk lib (dcVerifierRef d)"
    and "\<And>x. x \<in> set (rcOutcomes c) \<Longrightarrow> refOk lib (ocOutcomeRef x)"
proof -
  from assms have "claimMetadata lib (rcClaim c) = Inr ()"
    and e: "\<And>e. e \<in> set (rcEvidence c) \<Longrightarrow> evidenceMetadata lib (rcClaim c) e = Inr ()"
    and d: "\<And>d. d \<in> set (rcDecisions c) \<Longrightarrow> decisionMetadata lib d = Inr ()"
    and x: "\<And>x. x \<in> set (rcOutcomes c) \<Longrightarrow> outcomeMetadata lib x = Inr ()"
    and l: "\<And>l. l \<in> set (rcPromotionLinks c) \<Longrightarrow> linkMetadata lib l = Inr ()"
    by (auto simp: validateClaimRecordMetadata_kn_def inOrder_Inr checkAll_Inr)
  then show "refOk lib (cmClaimRef (rcClaim c))"
    by (auto simp: claimMetadata_def inOrder_Inr check_eq know_simps)
  show e': "\<And>e. e \<in> set (rcEvidence c) \<Longrightarrow> refOk lib (evEvidenceRef e)"
    using e by (auto simp: evidenceMetadata_def inOrder_Inr check_eq know_simps)
  show d': "\<And>d. d \<in> set (rcDecisions c) \<Longrightarrow> refOk lib (dcVerifierRef d)"
    using d by (auto simp: decisionMetadata_def inOrder_Inr check_eq know_simps)
  have x': "\<And>x. x \<in> set (rcOutcomes c) \<Longrightarrow> refOk lib (ocOutcomeRef x) \<and> optOk lib (ocVerifierRef x)"
    using x by (auto simp: outcomeMetadata_def inOrder_Inr check_eq know_simps)
  then show "\<And>x. x \<in> set (rcOutcomes c) \<Longrightarrow> refOk lib (ocOutcomeRef x)" by blast
  have l': "\<And>l. l \<in> set (rcPromotionLinks c) \<Longrightarrow> optOk lib (plVerifierRef l)"
    using l by (auto simp: linkMetadata_def inOrder_Inr check_eq know_simps)
  show "list_all (optOk lib) (evidenceRefs c)" "list_all (optOk lib) (passedOutcomeRefs c)"
    using e' x' by (auto simp: evidenceRefs_def passedOutcomeRefs_def list_all_iff optOk_def)
  show "list_all (optOk lib) (verifierRefs c)"
    using d' x' l' by (auto simp: verifierRefs_def list_all_iff) (auto simp: optOk_def)
qed

lemma gate_assessment:
  assumes "validateAssessmentMetadata lib a = Inr ()"
  shows "refOk lib (caID a)" and "0 \<le> caScore a" and "caScore a \<le> 100" and "trimSpace (caBand a) \<in> set scoreBands"
  using assms
  by (auto simp: validateAssessmentMetadata_def inOrder_Inr check_eq know_simps failIf_Inr safeBand_kn_def safeEnum_Inr)

text \<open>The conditions of the project gate.\<close>

definition projectGate :: "ConfLib \<Rightarrow> KnowledgeRecord \<Rightarrow> ClaimRecord \<Rightarrow> ConfidenceAssessment \<Rightarrow> bool" where
  "projectGate lib rec c a \<longleftrightarrow> validateClaimRecordMetadata_kn lib c = Inr () \<and> validateAssessmentMetadata lib a = Inr ()
     \<and> cmProjectID (rcClaim c) = krProjectID rec \<and> caProjectID a = krProjectID rec
     \<and> cmID (rcClaim c) = krClaimID rec \<and> caClaimID a = krClaimID rec
     \<and> (caClaimRef a = [] \<or> caClaimRef a = cmClaimRef (rcClaim c)) \<and> rcEvidence c \<noteq> []
     \<and> (\<exists>d \<in> set (rcDecisions c). dcState d \<in> {''validated'', ''promoted''})
     \<and> \<not> (\<exists>d \<in> set (rcDecisions c). dcState d = ''rejected'') \<and> rcActions c \<noteq> []
     \<and> \<not> hasUnresolvedFailedOutcome c \<and> 85 \<le> caScore a \<and> caRecommendation a = RecommendationPromote
     \<and> (\<exists>l \<in> set (rcPromotionLinks c). promotingLink c l)"

lemma promoting_passed:
  "l \<in> set (rcPromotionLinks c) \<Longrightarrow> promotingLink c l \<Longrightarrow>
     hasPassedOutcome c \<and> hasVerifierRef c \<and> hasPromotedLinkToPassedOutcome c"
  by (auto simp: promotingLink_def passedOutcomeRefs_def hasPassedOutcome_def hasVerifierRef_def
      hasPromotedLinkToPassedOutcome_def list_ex_iff split: if_splits)

lemma validateProjectGate_Inr:
  "validateProjectGate lib rec g = Inr u \<longleftrightarrow> projectGate lib rec (pgClaim g) (pgConfidence g)"
proof -
  have "hasPromotedLinkToPassedOutcome c \<longleftrightarrow> (\<exists>l \<in> set (rcPromotionLinks c). promotingLink c l)" for c
    by (simp add: hasPromotedLinkToPassedOutcome_def list_ex_iff)
  moreover have "hasDecisionState_kn c s \<longleftrightarrow> (\<exists>d \<in> set (rcDecisions c). dcState d = s)" for c s
    by (simp add: hasDecisionState_kn_def list_ex_iff)
  ultimately show ?thesis
    using promoting_passed [of _ "pgClaim g"]
    unfolding validateProjectGate_def inOrder_Inr Let_def projectGate_def by (simp add: failIf_Inr not_less) blast
qed

lemma gate_record:
  assumes "projectGate lib rec (pgClaim g) (pgConfidence g)" and "recordOk lib rec"
  shows "recordOk lib (applyProjectGate rec g)"
proof -
  have c: "validateClaimRecordMetadata_kn lib (pgClaim g) = Inr ()" and a: "validateAssessmentMetadata lib (pgConfidence g) = Inr ()"
    using assms(1) by (simp_all add: projectGate_def)
  have opt: "optOk lib (caID (pgConfidence g))" using gate_assessment(1) [OF a] by (simp add: optOk_def)
  have app: "list_all (optOk lib) (uniqueRefs (xs @ ys))" if "list_all (optOk lib) xs" "list_all (optOk lib) ys" for xs ys
    using that by (intro uniqueRefs_ok) simp
  show ?thesis
    using assms(2) gate_claim(1) [OF c] gate_assessment(2-4) [OF a] opt
      app [OF _ gate_claim(2) [OF c]] app [OF _ gate_claim(3) [OF c]] app [OF _ gate_claim(4) [OF c]]
    unfolding recordOk_def by (simp add: applyProjectGate_def)
qed

definition backed :: "KnowledgeRecord \<Rightarrow> bool" where
  "backed rec \<longleftrightarrow> 85 \<le> krConfidenceScore rec \<and> krEvidenceRefs rec \<noteq> [] \<and> krVerifierRefs rec \<noteq> [] \<and> krOutcomeRefs rec \<noteq> []"

lemma uniqueRefs_nonempty: "v \<in> set vs \<Longrightarrow> trimSpace v \<noteq> [] \<Longrightarrow> uniqueRefs vs \<noteq> []"
proof
  assume v: "v \<in> set vs" "trimSpace v \<noteq> []" and e: "uniqueRefs vs = []"
  from v have "trimSpace v \<in> set (uniqueRefs vs)" unfolding uniqueRefs_set by blast
  with e show False by simp
qed

lemma gate_backed:
  assumes "projectGate lib rec (pgClaim g) (pgConfidence g)"
  shows "backed (applyProjectGate rec g)"
proof -
  let ?c = "pgClaim g"
  have c: "validateClaimRecordMetadata_kn lib ?c = Inr ()" using assms by (simp add: projectGate_def)
  have "rcEvidence ?c \<noteq> []" using assms by (simp add: projectGate_def)
  then obtain e where e: "e \<in> set (rcEvidence ?c)" using hd_in_set by blast
  obtain d where d: "d \<in> set (rcDecisions ?c)" using assms by (auto simp: projectGate_def)
  have "hasPassedOutcome ?c" using assms promoting_passed unfolding projectGate_def by blast
  then obtain x where x: "x \<in> set (rcOutcomes ?c)" "ocStatus x = OutcomeStatusPassed"
    unfolding hasPassedOutcome_def list_ex_iff by blast
  note refOk_nonblank [OF gate_claim(5) [OF c e]] refOk_nonblank [OF gate_claim(6) [OF c d]]
    refOk_nonblank [OF gate_claim(7) [OF c x(1)]]
  moreover have "evEvidenceRef e \<in> set (krEvidenceRefs rec @ evidenceRefs ?c)"
    "dcVerifierRef d \<in> set (krVerifierRefs rec @ verifierRefs ?c)"
    "ocOutcomeRef x \<in> set (krOutcomeRefs rec @ passedOutcomeRefs ?c)"
    using e d x by (auto simp: evidenceRefs_def verifierRefs_def passedOutcomeRefs_def)
  ultimately show ?thesis
    using assms uniqueRefs_nonempty by (simp add: backed_def applyProjectGate_def projectGate_def)
qed

subsection \<open>Records and decisions\<close>

text \<open>What a record of each state has.\<close>

definition stateSound :: "KnowledgeRecord \<Rightarrow> bool" where
  "stateSound rec \<longleftrightarrow>
     (krState rec \<in> {StateValidated, StateProjectPromoted, StateOrgReview, StateOrgPromoted, StateSuperseded} \<longrightarrow> backed rec)
     \<and> (krState rec \<in> {StateProjectPromoted, StateOrgReview, StateOrgPromoted, StateSuperseded} \<longrightarrow> krPromotionRefs rec \<noteq> [])
     \<and> (krState rec \<in> {StateCandidate, StateValidated, StateProjectPromoted} \<longrightarrow> krScope rec = ScopeProject \<and> krOrgRef rec = [])
     \<and> (krState rec \<in> {StateOrgReview, StateOrgPromoted} \<longrightarrow> krScope rec = ScopeOrg \<and> krOrgRef rec = DefaultOrgRef)
     \<and> (krState rec = StateOrgPromoted \<longrightarrow> 90 \<le> krConfidenceScore rec \<and> krConfidenceBand rec = ScoreBandHigh)
     \<and> (krState rec = StateSuperseded \<longrightarrow> krSupersededByRef rec \<noteq> [])"

definition decisionSound :: "PromotionDecision \<Rightarrow> bool" where
  "decisionSound d \<longleftrightarrow> pdDecisionRef d \<noteq> [] \<and> pdVerifierRef d \<noteq> [] \<and> pdRationale d \<noteq> []
     \<and> 0 \<le> pdConfidenceScore d \<and> pdConfidenceScore d \<le> 100
     \<and> (pdToState d \<in> {StateValidated, StateProjectPromoted} \<longrightarrow> 85 \<le> pdConfidenceScore d \<and> pdScope d = ScopeProject)
     \<and> (pdToState d \<in> {StateOrgReview, StateOrgPromoted} \<longrightarrow> pdScope d = ScopeOrg \<and> pdDecidedBy d \<noteq> [])
     \<and> (pdToState d = StateOrgPromoted \<longrightarrow> 90 \<le> pdConfidenceScore d)"

text \<open>The decisions lead from the first state to the last, each along the table of transitions.\<close>

fun follows :: "string \<Rightarrow> PromotionDecision list \<Rightarrow> string \<Rightarrow> bool" where
  "follows s [] t = (s = t)"
| "follows s (d # ds) t = (pdFromState d = s \<and> s \<in> set (allowedFrom (pdToState d)) \<and> follows (pdToState d) ds t)"

lemma follows_snoc:
  "follows s (ds @ [d]) t \<longleftrightarrow> follows s ds (pdFromState d) \<and> pdFromState d \<in> set (allowedFrom (pdToState d)) \<and> pdToState d = t"
  by (induction ds arbitrary: s) auto

text \<open>What stays of a record when its state changes.\<close>

definition sameKnowledge :: "KnowledgeRecord \<Rightarrow> KnowledgeRecord \<Rightarrow> bool" where
  "sameKnowledge a b \<longleftrightarrow> krID a = krID b \<and> krProjectID a = krProjectID b \<and> krKnowledgeRef a = krKnowledgeRef b
     \<and> krClaimID a = krClaimID b \<and> krSummary a = krSummary b \<and> krReuseGuidance a = krReuseGuidance b
     \<and> krSupersedesRef a = krSupersedesRef b \<and> krCreatedAt a = krCreatedAt b"

definition soundChange :: "ConfLib \<Rightarrow> KnowledgeRecord \<Rightarrow> KnowledgeRecord \<Rightarrow> PromotionDecision \<Rightarrow> bool" where
  "soundChange lib rec rec' d \<longleftrightarrow> sameKnowledge rec rec' \<and> decisionKeyOf d = knowledgeKeyOf rec
     \<and> pdFromState d = krState rec \<and> pdToState d = krState rec' \<and> krState rec \<in> set (allowedFrom (krState rec'))
     \<and> decisionSound d \<and> recordOk lib rec' \<and> stateSound rec'"

lemma sameKnowledge_key: "sameKnowledge a b \<Longrightarrow> knowledgeKeyOf a = knowledgeKeyOf b"
  by (simp add: sameKnowledge_def knowledgeKeyOf_def)

lemma validateTransition_kn_Inr: "validateTransition_kn from to = Inr u \<Longrightarrow> from \<in> set (allowedFrom to)"
  by (simp add: validateTransition_kn_def inOrder_Inr failIf_Inr)

lemma newDecision_fields:
  assumes "newDecision lib t rnd rec to scope dref vref why who score = Inr d"
  shows "decisionKeyOf d = knowledgeKeyOf rec" and "pdFromState d = krState rec" and "pdToState d = to"
    and "pdScope d = trimSpace scope" and "pdConfidenceScore d = score" and "pdDecidedBy d = trimSpace who"
    and "pdDecisionRef d = trimSpace dref" and "refOk lib dref"
    and "pdDecisionRef d \<noteq> []" and "pdVerifierRef d \<noteq> []" and "pdRationale d \<noteq> []" and "0 \<le> score" and "score \<le> 100"
proof -
  have "textOk lib 1000 why" "refOk lib dref" "refOk lib vref" "pdVerifierRef d = trimSpace vref" "pdRationale d = trimSpace why"
    and rest: "decisionKeyOf d = knowledgeKeyOf rec" "pdFromState d = krState rec" "pdToState d = to"
    "pdScope d = trimSpace scope" "pdConfidenceScore d = score" "pdDecidedBy d = trimSpace who"
    "pdDecisionRef d = trimSpace dref" "0 \<le> score" "score \<le> 100"
    using assms
    by (auto simp: newDecision_def tryE_Inr know_simps failIf_Inr decisionKeyOf_def knowledgeKeyOf_def safeScope_def safeEnum_Inr)
  moreover from this have "trimSpace why \<noteq> []"
    by (auto simp: textOk_def safeRequiredText_kn_def requiredWith_Inr)
  ultimately show "decisionKeyOf d = knowledgeKeyOf rec" "pdFromState d = krState rec" "pdToState d = to"
    "pdScope d = trimSpace scope" "pdConfidenceScore d = score" "pdDecidedBy d = trimSpace who"
    "pdDecisionRef d = trimSpace dref" "refOk lib dref"
    "pdDecisionRef d \<noteq> []" "pdVerifierRef d \<noteq> []" "pdRationale d \<noteq> []" "0 \<le> score" "score \<le> 100"
    using refOk_nonblank by auto
qed

lemma checked_Inr: "checked lib r d = Inr (r', d') \<longleftrightarrow> r' = r \<and> d' = d \<and> recordOk lib r"
  by (auto simp: checked_def tryE_Inr validateKnowledgeRecord_Inr)

lemma checked_ok: "recordOk lib r \<Longrightarrow> checked lib r d = Inr (r, d)"
  by (simp add: checked_Inr)

lemma trim_scopes [simp]: "trimSpace ScopeProject = ScopeProject" "trimSpace ScopeOrg = ScopeOrg"
  by (simp_all add: trimSpace_graphic graphic_def)

lemma plan_validate:
  assumes "planValidate lib t1 t2 rnd i rec = Inr (rec', d)" and "stateSound rec"
  shows "soundChange lib rec rec' d"
proof -
  have t: "krState rec \<in> set (allowedFrom StateValidated)" and g: "projectGate lib rec (pgClaim (vcGate i)) (pgConfidence (vcGate i))"
    and d: "newDecision lib t1 rnd rec StateValidated ScopeProject (vcDecisionRef i) (vcVerifierRef i) (vcRationale i) []
      (caScore (pgConfidence (vcGate i))) = Inr d"
    and r: "rec' = (applyProjectGate rec (vcGate i))\<lparr>krState := StateValidated, krUpdatedAt := t2\<rparr>" "recordOk lib rec'"
    using assms(1) by (auto simp: planValidate_def tryE_Inr checked_Inr validateProjectGate_Inr dest: validateTransition_kn_Inr)
  have "krState rec = StateCandidate" using t by (simp add: allowedFrom_def)
  then show ?thesis
    using newDecision_fields [OF d] gate_backed [OF g] g t r assms(2)
    by (simp add: soundChange_def sameKnowledge_def decisionSound_def stateSound_def applyProjectGate_def backed_def projectGate_def)
qed

lemma plan_promote:
  assumes "planPromoteProject lib t1 t2 rnd i rec = Inr (rec', d)" and "stateSound rec"
  shows "soundChange lib rec rec' d"
proof -
  have t: "krState rec \<in> set (allowedFrom StateProjectPromoted)"
    and g: "projectGate lib rec (pgClaim (vcGate i)) (pgConfidence (vcGate i))"
    and d: "newDecision lib t1 rnd rec StateProjectPromoted ScopeProject (vcDecisionRef i) (vcVerifierRef i) (vcRationale i) []
      (caScore (pgConfidence (vcGate i))) = Inr d"
    and r: "rec' = (applyProjectGate rec (vcGate i))\<lparr>krScope := ScopeProject, krState := StateProjectPromoted,
      krPromotionRefs := uniqueRefs (krPromotionRefs (applyProjectGate rec (vcGate i)) @ [pdDecisionRef d]),
      krUpdatedAt := t2, krPromotedAt := t2\<rparr>" "recordOk lib rec'"
    using assms(1) by (auto simp: planPromoteProject_def tryE_Inr checked_Inr validateProjectGate_Inr Let_def dest: validateTransition_kn_Inr)
  have "krState rec = StateValidated" using t by (simp add: allowedFrom_def)
  moreover have "uniqueRefs (krPromotionRefs rec @ [pdDecisionRef d]) \<noteq> []"
    using newDecision_fields(7,9) [OF d] by (intro uniqueRefs_nonempty [of "pdDecisionRef d"]) auto
  ultimately show ?thesis
    using newDecision_fields [OF d] gate_backed [OF g] g t r assms(2)
    by (simp add: soundChange_def sameKnowledge_def decisionSound_def stateSound_def applyProjectGate_def backed_def projectGate_def)
qed

lemma plan_review:
  assumes "planOrgReview lib t1 t2 rnd i rec = Inr (rec', d)" and "stateSound rec"
  shows "soundChange lib rec rec' d"
proof -
  obtain orgRef where t: "krState rec \<in> set (allowedFrom StateOrgReview)" and who: "trimSpace (swDecidedBy i) \<noteq> []"
    and o: "orgRef = DefaultOrgRef"
    and d: "newDecision lib t1 rnd rec StateOrgReview ScopeOrg (swDecisionRef i) (swVerifierRef i) (swRationale i)
      (swDecidedBy i) (krConfidenceScore rec) = Inr d"
    and r: "rec' = rec\<lparr>krScope := ScopeOrg, krOrgRef := orgRef, krState := StateOrgReview, krUpdatedAt := t2\<rparr>" "recordOk lib rec'"
    using assms(1) refOk_nonblank
    by (auto simp: planOrgReview_def tryE_Inr checked_Inr safeActorRef_Inr actorOk_def dest: validateTransition_kn_Inr safeDefaultOrgRef_Inr)
  have "krState rec = StateProjectPromoted" using t by (simp add: allowedFrom_def)
  then show ?thesis
    using newDecision_fields [OF d] t r who o assms(2)
    by (simp add: soundChange_def sameKnowledge_def decisionSound_def stateSound_def backed_def)
qed

lemma validateOrgGate_facts:
  assumes "validateOrgGate lib rec ds g = Inr u"
  shows "projectGate lib rec (ogClaim g) (ogConfidence g)" and "90 \<le> caScore (ogConfidence g)"
    and "caBand (ogConfidence g) = ScoreBandHigh" and "trimSpace (ogDecidedBy g) \<noteq> []"
    and "2 \<le> length (recordEvidenceKinds (ogClaim g))" and "ogClaimCheckActionable g = 0"
proof -
  from assms have "validateProjectGate lib rec \<lparr>pgClaim = ogClaim g, pgConfidence = ogConfidence g\<rparr> = Inr ()"
    and "check (safeActorRef lib (ogDecidedBy g) ''decided_by'') = Inr ()"
    and rest: "90 \<le> caScore (ogConfidence g)" "caBand (ogConfidence g) = ScoreBandHigh"
      "2 \<le> length (recordEvidenceKinds (ogClaim g))" "ogClaimCheckActionable g = 0"
    unfolding validateOrgGate_def inOrder_Inr by (simp_all add: failIf_Inr not_less)
  then show "projectGate lib rec (ogClaim g) (ogConfidence g)" "trimSpace (ogDecidedBy g) \<noteq> []"
    by (auto simp: validateProjectGate_Inr check_eq safeActorRef_Inr actorOk_def dest: refOk_nonblank)
  from rest show "90 \<le> caScore (ogConfidence g)" "caBand (ogConfidence g) = ScoreBandHigh"
    "2 \<le> length (recordEvidenceKinds (ogClaim g))" "ogClaimCheckActionable g = 0" by simp_all
qed

lemma plan_promoteOrg:
  assumes "planPromoteOrg lib t1 t2 rnd i ds rec = Inr (rec', d)" and "stateSound rec"
  shows "soundChange lib rec rec' d"
proof -
  let ?g = "poGate i"
  let ?p = "\<lparr>pgClaim = ogClaim ?g, pgConfidence = ogConfidence ?g\<rparr>"
  from assms(1) obtain orgRef u u' where v: "validateOrgGate lib rec ds ?g = Inr u"
    and tr: "validateTransition_kn (krState rec) StateOrgPromoted = Inr u'"
    and orf: "safeDefaultOrgRef lib (krOrgRef rec) True = Inr orgRef"
    and d: "newDecision lib t1 rnd rec StateOrgPromoted ScopeOrg (ogDecisionRef ?g) (ogVerifierRef ?g) (ogRationale ?g)
      (ogDecidedBy ?g) (caScore (ogConfidence ?g)) = Inr d"
    and r: "rec' = (applyProjectGate rec ?p)\<lparr>krScope := ScopeOrg, krOrgRef := orgRef, krState := StateOrgPromoted,
      krPromotionRefs := uniqueRefs (krPromotionRefs (applyProjectGate rec ?p) @ [pdDecisionRef d]),
      krUpdatedAt := t2, krPromotedAt := t2\<rparr>" "recordOk lib rec'"
    unfolding planPromoteOrg_def tryE_Inr Let_def checked_Inr by blast
  have o: "orgRef = DefaultOrgRef" by (rule safeDefaultOrgRef_Inr [OF orf])
  have t: "krState rec \<in> set (allowedFrom StateOrgPromoted)" by (rule validateTransition_kn_Inr [OF tr])
  have g: "projectGate lib rec (pgClaim ?p) (pgConfidence ?p)" "90 \<le> caScore (ogConfidence ?g)"
      "caBand (ogConfidence ?g) = ScoreBandHigh" "trimSpace (ogDecidedBy ?g) \<noteq> []"
    using validateOrgGate_facts [OF v] by simp_all
  have "krState rec = StateOrgReview" using t by (simp add: allowedFrom_def)
  moreover have "uniqueRefs (krPromotionRefs rec @ [pdDecisionRef d]) \<noteq> []"
    using newDecision_fields(7,9) [OF d] by (intro uniqueRefs_nonempty [of "pdDecisionRef d"]) auto
  ultimately show ?thesis
    using newDecision_fields [OF d] gate_backed [OF g(1)] g t r o assms(2)
    by (simp add: soundChange_def sameKnowledge_def decisionSound_def stateSound_def applyProjectGate_def backed_def)
qed

lemma plan_reject:
  assumes "planReject lib t1 t2 rnd i rec = Inr (rec', d)" and "recordOk lib rec"
  shows "soundChange lib rec rec' d"
proof -
  have t: "krState rec \<in> set (allowedFrom StateRejected)"
    and d: "newDecision lib t1 rnd rec StateRejected (krScope rec) (rjDecisionRef i) (rjVerifierRef i) (rjRationale i)
      (rjDecidedBy i) (krConfidenceScore rec) = Inr d"
    and r: "rec' = rec\<lparr>krState := StateRejected, krUpdatedAt := t2\<rparr>"
    using assms(1) by (auto simp: planReject_def tryE_Inr dest: validateTransition_kn_Inr)
  have "trimSpace StateRejected = StateRejected" by code_simp
  then show ?thesis
    using newDecision_fields [OF d] t r assms(2)
    by (simp add: soundChange_def sameKnowledge_def decisionSound_def stateSound_def recordOk_def knowledgeStates_def)
qed

lemma plan_supersede:
  assumes "planSupersede lib t1 t2 rnd i rec = Inr (rec', d)" and "stateSound rec"
  shows "soundChange lib rec rec' d"
proof -
  have t: "krState rec \<in> set (allowedFrom StateSuperseded)" and n: "trimSpace (suSupersededByRef i) \<noteq> []"
    and d: "newDecision lib t1 rnd rec StateSuperseded (krScope rec) (suDecisionRef i) (suVerifierRef i) (suRationale i)
      (suDecidedBy i) (krConfidenceScore rec) = Inr d"
    and r: "rec' = rec\<lparr>krState := StateSuperseded, krSupersededByRef := trimSpace (suSupersededByRef i), krUpdatedAt := t2\<rparr>"
      "recordOk lib rec'"
    using assms(1) refOk_nonblank
    by (auto simp: planSupersede_def tryE_Inr checked_Inr know_simps dest: validateTransition_kn_Inr)
  have "krState rec \<in> {StateProjectPromoted, StateOrgPromoted}" using t by (simp add: allowedFrom_def)
  then have "backed rec" "krPromotionRefs rec \<noteq> []" using assms(2) unfolding stateSound_def by blast+
  then show ?thesis
    using newDecision_fields [OF d] t r n
    by (simp add: soundChange_def sameKnowledge_def decisionSound_def stateSound_def backed_def)
qed

lemma candidate_sound:
  assumes "buildCandidate lib now rnd i = Inr rec"
  shows "recordOk lib rec" and "stateSound rec" and "krState rec = StateCandidate" and "krID rec = newID_kn ''knowledge'' rnd"
    and "krProjectID rec = trimSpace (kcProjectID i)" and "krCreatedAt rec = now"
  using assms unfolding buildCandidate_def Let_def
  by (auto simp: tryE_Inr validateKnowledgeRecord_Inr stateSound_def know_simps)

end
