(* ===== verification/Knowledge_Reachable.thy ===== *)
theory Knowledge_Reachable
  imports Knowledge_Invariant
begin

section \<open>Knowledge: the states that calls reach\<close>

subsection \<open>Calls\<close>

text \<open>
  One call of the service. The random identifier of a candidate is one that no record of the
  project has: \<open>CreateKnowledge\<close> would overwrite it. The methods that collect their inputs first
  fail or make one of these calls (\<open>inputs_effect\<close>).
\<close>

inductive knowledge_step :: "ConfLib \<Rightarrow> KnowledgeStore \<Rightarrow> KnowledgeStore \<Rightarrow> bool" for lib where
  create: "svcCreateCandidate lib now rnd i st = (Inr rec, st') \<Longrightarrow> getKnowledge st (knowledgeKeyOf rec) = None
    \<Longrightarrow> knowledge_step lib st st'"
| not_created: "svcCreateCandidate lib now rnd i st = (Inl e, st') \<Longrightarrow> knowledge_step lib st st'"
| validate: "svcValidateCandidate lib t1 t2 rnd i st = (r, st') \<Longrightarrow> knowledge_step lib st st'"
| promote: "svcPromoteProject lib t1 t2 rnd i st = (r, st') \<Longrightarrow> knowledge_step lib st st'"
| review: "svcSubmitOrgReview lib t1 t2 rnd ri st = (r, st') \<Longrightarrow> knowledge_step lib st st'"
| promote_org: "svcPromoteOrg lib t1 t2 rnd oi st = (r, st') \<Longrightarrow> knowledge_step lib st st'"
| reject: "svcReject lib t1 t2 rnd ji st = (r, st') \<Longrightarrow> knowledge_step lib st st'"
| supersede: "svcSupersede lib t1 t2 rnd si st = (r, st') \<Longrightarrow> knowledge_step lib st st'"
| reuse: "svcRecordReuseEvent lib now rnd ei st = (e, st') \<Longrightarrow> knowledge_step lib st st'"

inductive knowledge_reachable :: "ConfLib \<Rightarrow> KnowledgeStore \<Rightarrow> bool" for lib where
  init: "knowledge_reachable lib newKnowledgeStore"
| step: "knowledge_reachable lib st \<Longrightarrow> knowledge_step lib st st' \<Longrightarrow> knowledge_reachable lib st'"

subsection \<open>What a call can do\<close>

definition knowledgeInv :: "ConfLib \<Rightarrow> KnowledgeStore \<Rightarrow> bool" where
  "knowledgeInv lib st \<longleftrightarrow> keyed getKnowledge knowledgeKeyOf st
     \<and> allVals getKnowledge (\<lambda>rec. recordOk lib rec \<and> stateSound rec) st
     \<and> (\<forall>k rec. getKnowledge st k = Some rec \<longrightarrow> follows StateCandidate (decisionsOf st k) (krState rec))
     \<and> (\<forall>k. getKnowledge st k = None \<longrightarrow> decisionsOf st k = [])
     \<and> (\<forall>k. \<forall>d \<in> set (decisionsOf st k). decisionSound d)"

definition unchanged :: "KnowledgeStore \<Rightarrow> KnowledgeStore \<Rightarrow> bool" where
  "unchanged st st' \<longleftrightarrow> nsKnowledge st' = nsKnowledge st \<and> nsDecisions st' = nsDecisions st"

definition changes :: "ConfLib \<Rightarrow> KnowledgeStore \<Rightarrow> KnowledgeStore \<Rightarrow> KnowledgeRecord \<Rightarrow> bool" where
  "changes lib st st' rec' \<longleftrightarrow> (\<exists>k rec d. getKnowledge st k = Some rec \<and> soundChange lib rec rec' d
     \<and> st' = addDecision (putKnowledge st rec') d)"

definition adds :: "ConfLib \<Rightarrow> KnowledgeStore \<Rightarrow> KnowledgeStore \<Rightarrow> bool" where
  "adds lib st st' \<longleftrightarrow> (\<exists>rec. getKnowledge st (knowledgeKeyOf rec) = None \<and> krState rec = StateCandidate \<and> recordOk lib rec
     \<and> stateSound rec \<and> st' = putKnowledge st rec)"

lemma unchanged_get: "unchanged st st' \<Longrightarrow> getKnowledge st' = getKnowledge st \<and> decisionsOf st' = decisionsOf st"
  by (simp add: unchanged_def getKnowledge_def decisionsOf_def)

lemma unchanged_refl [simp]: "unchanged st st"
  by (simp add: unchanged_def)

lemma commit_change:
  assumes "commit (rec', d) st = (r, st')" and "getKnowledge st k = Some rec" and "k = knowledgeKeyOf rec"
    and "soundChange lib rec rec' d"
  shows "r = Inr rec' \<and> changes lib st st' rec'"
proof -
  have k: "knowledgeKeyOf rec' = k" "decisionKeyOf d = k"
    using assms(3,4) sameKnowledge_key by (auto simp: soundChange_def)
  have "getKnowledge (putKnowledge st rec') k = Some rec'" by (simp add: knowledge.get_put k)
  with assms(1,2) have "r = Inr rec'" "st' = addDecision (putKnowledge st rec') d"
    by (simp_all add: commit_def seqS_def memUpdateKnowledge_eq memCreateDecision_kn_eq k retS_def)
  with assms(2,4) show ?thesis by (auto simp: changes_def)
qed

lemma seq_pure:
  assumes "seqS m k st = (r, st')" and "m st = (q, st)"
  shows "(\<exists>e. q = Inl e \<and> r = Inl e \<and> st' = st) \<or> (\<exists>x. q = Inr x \<and> k x st = (r, st'))"
  using assms by (cases q) (auto simp: seqS_def)

lemma seq_ask:
  "seqS (askS f) k st = (r, st') \<Longrightarrow> (\<exists>e. r = Inl e \<and> st' = st) \<or> (\<exists>x. f st = Inr x \<and> k x st = (r, st'))"
  using seq_pure [of "askS f" k st r st' "f st"] by (auto simp: askS_def)

lemma seq_lift:
  "seqS (liftS q) k st = (r, st') \<Longrightarrow> (\<exists>e. r = Inl e \<and> st' = st) \<or> (\<exists>x. q = Inr x \<and> k x st = (r, st'))"
  using seq_pure [of "liftS q" k st r st' q] by (auto simp: liftS_def)

text \<open>A call that reads a record, plans and commits.\<close>

lemma read_plan_commit:
  assumes "seqS (askS (readRecord lib p i)) (\<lambda>rec. seqS (liftS (plan rec)) commit) st = (r, st')"
    and "knowledgeInv lib st"
    and "\<And>rec rec' d. plan rec = Inr (rec', d) \<Longrightarrow> recordOk lib rec \<Longrightarrow> stateSound rec \<Longrightarrow> soundChange lib rec rec' d"
  shows "(\<exists>e. r = Inl e \<and> st' = st) \<or> (\<exists>rec'. r = Inr rec' \<and> changes lib st st' rec')"
proof -
  consider e where "r = Inl e" "st' = st" | rec where "readRecord lib p i st = Inr rec"
      "seqS (liftS (plan rec)) commit st = (r, st')"
    using seq_ask [OF assms(1)] by blast
  then show ?thesis
  proof cases
    case 1
    then show ?thesis by blast
  next
    case (2 rec)
    from 2(1) obtain k where g: "getKnowledge st k = Some rec"
      by (auto simp: readRecord_def tryE_Inr memGetKnowledge_Inr)
    then have k: "k = knowledgeKeyOf rec" and ok: "recordOk lib rec" "stateSound rec"
      using assms(2) by (auto simp: knowledgeInv_def keyed_def allVals_def)
    consider e where "r = Inl e" "st' = st" | rec' d where "plan rec = Inr (rec', d)" "commit (rec', d) st = (r, st')"
      using seq_lift [OF 2(2)] by auto
    then show ?thesis
      using commit_change [OF _ g k] assms(3) [OF _ ok] by cases blast+
  qed
qed

lemmas change_methods = svcValidateCandidate_def svcPromoteProject_def svcSubmitOrgReview_def svcReject_def svcSupersede_def

lemma validate_effect:
  "svcValidateCandidate lib t1 t2 rnd i st = (r, st') \<Longrightarrow> knowledgeInv lib st
    \<Longrightarrow> (\<exists>e. r = Inl e \<and> st' = st) \<or> (\<exists>rec'. r = Inr rec' \<and> changes lib st st' rec')"
  unfolding change_methods by (erule read_plan_commit) (auto intro: plan_validate)

lemma promote_effect:
  "svcPromoteProject lib t1 t2 rnd i st = (r, st') \<Longrightarrow> knowledgeInv lib st
    \<Longrightarrow> (\<exists>e. r = Inl e \<and> st' = st) \<or> (\<exists>rec'. r = Inr rec' \<and> changes lib st st' rec')"
  unfolding change_methods by (erule read_plan_commit) (auto intro: plan_promote)

lemma review_effect:
  "svcSubmitOrgReview lib t1 t2 rnd i st = (r, st') \<Longrightarrow> knowledgeInv lib st
    \<Longrightarrow> (\<exists>e. r = Inl e \<and> st' = st) \<or> (\<exists>rec'. r = Inr rec' \<and> changes lib st st' rec')"
  unfolding change_methods by (erule read_plan_commit) (auto intro: plan_review)

lemma reject_effect:
  "svcReject lib t1 t2 rnd i st = (r, st') \<Longrightarrow> knowledgeInv lib st
    \<Longrightarrow> (\<exists>e. r = Inl e \<and> st' = st) \<or> (\<exists>rec'. r = Inr rec' \<and> changes lib st st' rec')"
  unfolding change_methods by (erule read_plan_commit) (auto intro: plan_reject)

lemma supersede_effect:
  "svcSupersede lib t1 t2 rnd i st = (r, st') \<Longrightarrow> knowledgeInv lib st
    \<Longrightarrow> (\<exists>e. r = Inl e \<and> st' = st) \<or> (\<exists>rec'. r = Inr rec' \<and> changes lib st st' rec')"
  unfolding change_methods by (erule read_plan_commit) (auto intro: plan_supersede)

lemma promoteOrg_effect:
  assumes "svcPromoteOrg lib t1 t2 rnd i st = (r, st')" and "knowledgeInv lib st"
  shows "(\<exists>e. r = Inl e \<and> st' = st) \<or> (\<exists>rec'. r = Inr rec' \<and> changes lib st st' rec')"
proof (cases "safeProjectKnowledgeIDs lib (poProjectID i) (poKnowledgeID i)")
  case (Inl e)
  then have "svcPromoteOrg lib t1 t2 rnd i st = (Inl e, st)" by (simp add: svcPromoteOrg_def)
  with assms(1) show ?thesis by auto
next
  case (Inr ids)
  then obtain p k where i: "safeProjectKnowledgeIDs lib (poProjectID i) (poKnowledgeID i) = Inr (p, k)" by (cases ids) simp
  let ?ds = "sortBy decidedBefore (decisionsOf st (knowledgeKey p k))"
  have l: "memListDecisions p k st = Inr ?ds" if "memGetKnowledge p k st = Inr rec" for rec
    using that by (simp add: memGetKnowledge_Inr memListDecisions_Inr)
  have "seqS (askS (readRecord lib (poProjectID i) (poKnowledgeID i)))
      (\<lambda>rec. seqS (liftS (planPromoteOrg lib t1 t2 rnd i ?ds rec)) commit) st = svcPromoteOrg lib t1 t2 rnd i st"
    using i l by (cases "memGetKnowledge p k st") (simp_all add: svcPromoteOrg_def seqS_def liftS_def askS_def readRecord_def)
  with assms(1) have "seqS (askS (readRecord lib (poProjectID i) (poKnowledgeID i)))
      (\<lambda>rec. seqS (liftS (planPromoteOrg lib t1 t2 rnd i ?ds rec)) commit) st = (r, st')" by simp
  from read_plan_commit [OF this assms(2)] plan_promoteOrg show ?thesis by blast
qed

lemma inputs_effect:
  "svcValidateCandidateWithInputs lib ad w t1 t2 rnd vi st = (r, st') \<Longrightarrow>
     (\<exists>e. r = Inl e \<and> st' = st) \<or> (\<exists>i. svcValidateCandidate lib t1 t2 rnd i st = (r, st'))"
  "svcPromoteProjectWithInputs lib ad w t1 t2 rnd vi st = (r, st') \<Longrightarrow>
     (\<exists>e. r = Inl e \<and> st' = st) \<or> (\<exists>i. svcPromoteProject lib t1 t2 rnd i st = (r, st'))"
  "svcPromoteOrgWithInputs lib ad w t1 t2 rnd pi st = (r, st') \<Longrightarrow>
     (\<exists>e. r = Inl e \<and> st' = st) \<or> (\<exists>i. svcPromoteOrg lib t1 t2 rnd i st = (r, st'))"
  unfolding svcValidateCandidateWithInputs_def svcPromoteProjectWithInputs_def svcPromoteOrgWithInputs_def
  by (drule seq_ask, elim disjE exE conjE, blast, drule seq_lift, blast)+

lemma step_effect:
  assumes "knowledge_step lib st st'" and "knowledgeInv lib st"
  obtains (same) "unchanged st st'" | (change) rec' where "changes lib st st' rec'" | (new) "adds lib st st'"
  using assms(1)
proof cases
  case (create now rnd i rec)
  then have b: "buildCandidate lib now rnd i = Inr rec" and "st' = putKnowledge st rec"
    by (auto simp: svcCreateCandidate_def seqS_Inr liftS_eq memCreateKnowledge_eq)
  with create(2) candidate_sound [OF b] show ?thesis by (intro new) (auto simp: adds_def)
next
  case (not_created now rnd i e)
  then have "st' = st" by (auto simp: svcCreateCandidate_def seqS_def liftS_def memCreateKnowledge_eq split: sum.splits)
  then show ?thesis by (intro same) simp
next
  case (reuse now rnd ei e)
  then have "unchanged st st'"
    by (auto simp: svcRecordReuseEvent_def seqS_def askS_def liftS_def memCreateReuseEvent_def unchanged_def Let_def split: sum.splits if_splits prod.splits)
  then show ?thesis by (rule same)
qed (use validate_effect promote_effect review_effect promoteOrg_effect reject_effect supersede_effect assms(2)
    same change unchanged_refl in metis)+

lemma change_inv:
  assumes "changes lib st st' rec'" and "knowledgeInv lib st"
  shows "knowledgeInv lib st'"
proof -
  obtain k rec d where g: "getKnowledge st k = Some rec" and s: "soundChange lib rec rec' d"
    and st': "st' = addDecision (putKnowledge st rec') d"
    using assms(1) by (auto simp: changes_def)
  have k: "knowledgeKeyOf rec = k" using assms(2) g by (auto simp: knowledgeInv_def keyed_def)
  then have ks: "knowledgeKeyOf rec' = k" "decisionKeyOf d = k"
    using s sameKnowledge_key by (auto simp: soundChange_def)
  have f: "follows StateCandidate (decisionsOf st k @ [d]) (krState rec')"
    using assms(2) g s by (auto simp: knowledgeInv_def follows_snoc soundChange_def)
  have "keyed getKnowledge knowledgeKeyOf (putKnowledge st rec')"
    "allVals getKnowledge (\<lambda>rec. recordOk lib rec \<and> stateSound rec) (putKnowledge st rec')"
    using assms(2) s by (auto simp: knowledgeInv_def soundChange_def intro: knowledge.keyed_put knowledge.allVals_put)
  then have "keyed getKnowledge knowledgeKeyOf st'" "allVals getKnowledge (\<lambda>rec. recordOk lib rec \<and> stateSound rec) st'"
    by (simp_all add: st' keyed_def allVals_def)
  with assms(2) f s show ?thesis
    unfolding knowledgeInv_def
    by (auto simp: st' knowledge.get_put decisionsOf_add ks soundChange_def split: if_splits)
qed

lemma add_inv:
  assumes "adds lib st st'" and "knowledgeInv lib st"
  shows "knowledgeInv lib st'"
proof -
  obtain rec where n: "getKnowledge st (knowledgeKeyOf rec) = None" and r: "krState rec = StateCandidate" "recordOk lib rec"
    "stateSound rec" and st': "st' = putKnowledge st rec"
    using assms(1) by (auto simp: adds_def)
  have "decisionsOf st (knowledgeKeyOf rec) = []" using assms(2) n by (simp add: knowledgeInv_def)
  moreover have "keyed getKnowledge knowledgeKeyOf st'" "allVals getKnowledge (\<lambda>rec. recordOk lib rec \<and> stateSound rec) st'"
    using assms(2) r by (auto simp: st' knowledgeInv_def intro: knowledge.keyed_put knowledge.allVals_put)
  ultimately show ?thesis
    using assms(2) r unfolding knowledgeInv_def by (auto simp: st' knowledge.get_put split: if_splits)
qed

lemma reachable_knowledge: "knowledge_reachable lib st \<Longrightarrow> knowledgeInv lib st"
proof (induction rule: knowledge_reachable.induct)
  case init
  show ?case by (simp add: knowledgeInv_def keyed_def allVals_def)
next
  case (step st st')
  from step(2,3) show ?case
  proof (cases rule: step_effect)
    case same
    with step(3) show ?thesis by (simp add: unchanged_get knowledgeInv_def keyed_def allVals_def)
  next
    case (change rec')
    with step(3) show ?thesis by (rule change_inv [rotated])
  next
    case new
    with step(3) show ?thesis by (rule add_inv [rotated])
  qed
qed

text \<open>The listings see each record once.\<close>

lemma reachable_table: "knowledge_reachable lib st \<Longrightarrow> twf (nsKnowledge st)"
proof (induction rule: knowledge_reachable.induct)
  case (step st st')
  from step(2) reachable_knowledge [OF step(1)] step(3) show ?case
    by (cases rule: step_effect)
      (auto simp: unchanged_def changes_def adds_def addDecision_def putKnowledge_def twf_tput)
qed (simp add: newKnowledgeStore_def)

end
