(* ===== verification/Knowledge_Properties.thy ===== *)
theory Knowledge_Properties
  imports Knowledge_Reachable
begin

section \<open>Knowledge: properties\<close>

subsection \<open>The log of decisions\<close>

lemma follows_candidate: "follows s ds StateCandidate \<Longrightarrow> ds = [] \<and> s = StateCandidate"
  by (cases ds rule: rev_cases) (auto simp: follows_snoc allowedFrom_def)

lemma follows_last:
  assumes "follows StateCandidate ds t" and "t \<noteq> StateCandidate"
  obtains ds' d where "ds = ds' @ [d]" "follows StateCandidate ds' (pdFromState d)" "pdFromState d \<in> set (allowedFrom t)"
    "pdToState d = t"
  using assms by (cases ds rule: rev_cases) (auto simp: follows_snoc)

abbreviation moves :: "PromotionDecision list \<Rightarrow> (string \<times> string) list" where
  "moves ds \<equiv> map (\<lambda>d. (pdFromState d, pdToState d)) ds"

lemma follows_validated: "follows StateCandidate ds StateValidated \<Longrightarrow> moves ds = [(StateCandidate, StateValidated)]"
  by (erule follows_last, simp) (auto simp: allowedFrom_def dest: follows_candidate)

lemma follows_promoted:
  "follows StateCandidate ds StateProjectPromoted
    \<Longrightarrow> moves ds = [(StateCandidate, StateValidated), (StateValidated, StateProjectPromoted)]"
  by (erule follows_last, simp) (auto simp: allowedFrom_def dest: follows_validated)

lemma follows_review:
  "follows StateCandidate ds StateOrgReview
    \<Longrightarrow> moves ds = [(StateCandidate, StateValidated), (StateValidated, StateProjectPromoted),
          (StateProjectPromoted, StateOrgReview)]"
  by (erule follows_last, simp) (auto simp: allowedFrom_def dest: follows_promoted)

lemma follows_org:
  "follows StateCandidate ds StateOrgPromoted
    \<Longrightarrow> moves ds = [(StateCandidate, StateValidated), (StateValidated, StateProjectPromoted),
          (StateProjectPromoted, StateOrgReview), (StateOrgReview, StateOrgPromoted)]"
  by (erule follows_last, simp) (auto simp: allowedFrom_def dest: follows_review)

text \<open>
  C9. The decisions explain the state. In every state that calls reach, the decisions of a record
  lead in the order they were written from candidate to the state of the record, each along the
  table of transitions; each has a verifier and a rationale, those that promote in the project
  have a score of at least 85, and those that send to or promote in the organisation name who
  decided. The record itself passes the whole validation.
\<close>

theorem decisions_explain_state:
  assumes "knowledge_reachable lib st" and "getKnowledge st k = Some rec"
  shows "k = knowledgeKeyOf rec \<and> follows StateCandidate (decisionsOf st k) (krState rec)
    \<and> list_all decisionSound (decisionsOf st k) \<and> validateKnowledgeRecord lib rec = Inr ()"
  using reachable_knowledge [OF assms(1)] assms(2)
  by (auto simp: knowledgeInv_def keyed_def allVals_def validateKnowledgeRecord_Inr list_all_iff)

subsection \<open>Knowledge of the organisation\<close>

lemma decision4:
  assumes "moves ds = [m1, m2, m3, m4]"
  obtains d1 d2 d3 d4 where "ds = [d1, d2, d3, d4]" and "(pdFromState d3, pdToState d3) = m3"
    and "(pdFromState d4, pdToState d4) = m4"
  using assms by (auto simp: Cons_eq_map_conv)

lemma matches_org:
  assumes "validateFilter_kn lib (flt\<lparr>klScope := ScopeOrg, klOrgRef := orgRef, klState := StateOrgPromoted\<rparr>) = Inr flt'"
    and "matchesKnowledgeFilter rec flt'"
  shows "krState rec = StateOrgPromoted"
proof -
  have "trimSpace StateOrgPromoted = StateOrgPromoted" by (simp add: trimSpace_graphic graphic_def)
  then have "klState flt' = StateOrgPromoted"
    using assms(1) by (auto simp: validateFilter_kn_def tryE_Inr safeOptionalState_def safeState_def safeEnum_Inr)
  with assms(2) show ?thesis by (auto simp: matchesKnowledgeFilter_def split: if_splits)
qed

text \<open>
  C10. What the organisation is told was earned. Every record that \<open>ListOrgKnowledge\<close> returns in a
  state that calls reach is stored, scores at least 90 in the band high, has evidence, verifier,
  outcome and promotion references, and exactly four decisions: validated, promoted in the
  project, sent to review and promoted, the last two each by a named actor.
\<close>

theorem org_knowledge_earned:
  assumes "knowledge_reachable lib st" and "svcListOrgKnowledge lib orgRef flt st = Inr rs" and "rec \<in> set rs"
  shows "getKnowledge st (knowledgeKeyOf rec) = Some rec \<and> 90 \<le> krConfidenceScore rec \<and> krConfidenceBand rec = ScoreBandHigh
    \<and> krEvidenceRefs rec \<noteq> [] \<and> krVerifierRefs rec \<noteq> [] \<and> krOutcomeRefs rec \<noteq> [] \<and> krPromotionRefs rec \<noteq> []
    \<and> (\<exists>d1 d2 d3 d4. decisionsOf st (knowledgeKeyOf rec) = [d1, d2, d3, d4]
         \<and> moves [d1, d2, d3, d4] = [(StateCandidate, StateValidated), (StateValidated, StateProjectPromoted),
              (StateProjectPromoted, StateOrgReview), (StateOrgReview, StateOrgPromoted)]
         \<and> pdDecidedBy d3 \<noteq> [] \<and> pdDecidedBy d4 \<noteq> [])"
proof -
  note inv = reachable_knowledge [OF assms(1)]
  from assms(2) obtain ref flt' where
    v: "validateFilter_kn lib (flt\<lparr>klScope := ScopeOrg, klOrgRef := ref, klState := StateOrgPromoted\<rparr>) = Inr flt'"
    and rs: "rs = memListOrgKnowledge ref flt' st"
    by (auto simp: svcListOrgKnowledge_def tryE_Inr)
  from assms(3) rs have m: "matchesKnowledgeFilter rec flt'" and t: "rec \<in> set (tvals (nsKnowledge st))"
    by (simp_all add: memListOrgKnowledge_def)
  from t obtain k where "getKnowledge st k = Some rec"
    using reachable_table [OF assms(1)] by (auto simp: tvals_tget getKnowledge_def)
  then have g: "getKnowledge st (knowledgeKeyOf rec) = Some rec" using inv by (auto simp: knowledgeInv_def keyed_def)
  have s: "krState rec = StateOrgPromoted" by (rule matches_org [OF v m])
  have "follows StateCandidate (decisionsOf st (knowledgeKeyOf rec)) (krState rec)" and r: "stateSound rec"
    and ds: "\<forall>d \<in> set (decisionsOf st (knowledgeKeyOf rec)). decisionSound d"
    using inv g by (auto simp: knowledgeInv_def allVals_def)
  with s have f: "follows StateCandidate (decisionsOf st (knowledgeKeyOf rec)) StateOrgPromoted" by simp
  obtain d1 d2 d3 d4 where d: "decisionsOf st (knowledgeKeyOf rec) = [d1, d2, d3, d4]"
    and e: "(pdFromState d3, pdToState d3) = (StateProjectPromoted, StateOrgReview)"
      "(pdFromState d4, pdToState d4) = (StateOrgReview, StateOrgPromoted)"
    by (rule decision4 [OF follows_org [OF f]])
  then have "pdDecidedBy d3 \<noteq> []" "pdDecidedBy d4 \<noteq> []" using ds by (auto simp: decisionSound_def)
  with g r s d follows_org [OF f] show ?thesis by (auto simp: stateSound_def backed_def)
qed

subsection \<open>When a promotion succeeds\<close>

lemma newDecision_total:
  "(\<exists>d. newDecision lib t rnd rec to scope dref vref why who score = Inr d) \<longleftrightarrow>
     trimSpace to \<in> set knowledgeStates \<and> trimSpace scope \<in> set knowledgeScopes \<and> refOk lib dref \<and> refOk lib vref
     \<and> textOk lib 1000 why \<and> (trimSpace who = [] \<or> actorOk lib who) \<and> 0 \<le> score \<and> score \<le> 100"
  by (auto simp: newDecision_def tryE_Inr safeState_def safeScope_def safeEnum_Inr know_simps failIf_Inr)

lemma trim_states [simp]:
  "s \<in> set knowledgeStates \<Longrightarrow> trimSpace s = s"
  by (auto simp: knowledgeStates_def trimSpace_graphic graphic_def)

lemma allowed_states: "from \<in> set (allowedFrom to) \<Longrightarrow> from \<in> set knowledgeStates \<and> to \<in> set knowledgeStates"
  by (auto simp: allowedFrom_def knowledgeStates_def split: if_splits)

lemma transition_iff: "validateTransition_kn from to = Inr () \<longleftrightarrow> from \<in> set (allowedFrom to)"
proof
  show "from \<in> set (allowedFrom to)" if "validateTransition_kn from to = Inr ()"
    using that by (rule validateTransition_kn_Inr)
  assume a: "from \<in> set (allowedFrom to)"
  then have "safeState from = Inr from" "safeState to = Inr to"
    using allowed_states trim_states by (simp_all add: safeState_def safeEnum_def)
  with a show "validateTransition_kn from to = Inr ()" by (simp add: validateTransition_kn_def inOrder_Inr)
qed

lemma uniqueRefs_add_ok: "list_all (optOk lib) xs \<Longrightarrow> refOk lib v \<Longrightarrow> list_all (optOk lib) (uniqueRefs (xs @ [trimSpace v]))"
  by (rule uniqueRefs_ok) (simp add: optOk_def)

lemma promoted_record_ok:
  assumes "projectGate lib rec (pgClaim g) (pgConfidence g)" and "recordOk lib rec" and "refOk lib v"
  shows "recordOk lib ((applyProjectGate rec g)\<lparr>krScope := ScopeProject, krState := StateProjectPromoted,
    krPromotionRefs := uniqueRefs (krPromotionRefs (applyProjectGate rec g) @ [trimSpace v]), krUpdatedAt := t, krPromotedAt := t\<rparr>)"
proof -
  have r: "recordOk lib (applyProjectGate rec g)" by (rule gate_record [OF assms(1,2)])
  then have "list_all (optOk lib) (uniqueRefs (krPromotionRefs (applyProjectGate rec g) @ [trimSpace v]))"
    using assms(3) by (intro uniqueRefs_add_ok) (simp add: recordOk_def)
  with r show ?thesis by (simp add: recordOk_def knowledgeStates_def knowledgeScopes_def trimSpace_graphic graphic_def)
qed

lemma planPromote_total:
  assumes "recordOk lib rec"
  shows "(\<exists>c. planPromoteProject lib t1 t2 rnd i rec = Inr c) \<longleftrightarrow>
    krState rec = StateValidated \<and> projectGate lib rec (pgClaim (vcGate i)) (pgConfidence (vcGate i))
    \<and> refOk lib (vcDecisionRef i) \<and> refOk lib (vcVerifierRef i) \<and> textOk lib 1000 (vcRationale i)"
    (is "?L \<longleftrightarrow> ?R")
proof
  assume ?L
  then obtain d where t: "validateTransition_kn (krState rec) StateProjectPromoted = Inr ()"
    and g: "projectGate lib rec (pgClaim (vcGate i)) (pgConfidence (vcGate i))"
    and d: "newDecision lib t1 rnd rec StateProjectPromoted ScopeProject (vcDecisionRef i) (vcVerifierRef i) (vcRationale i) []
      (caScore (pgConfidence (vcGate i))) = Inr d"
    by (auto simp: planPromoteProject_def tryE_Inr validateProjectGate_Inr)
  from t have "krState rec = StateValidated" by (simp add: transition_iff knowledgeStates_def allowedFrom_def)
  with g d newDecision_total show ?R by blast
next
  assume R: ?R
  let ?score = "caScore (pgConfidence (vcGate i))"
  have a: "validateAssessmentMetadata lib (pgConfidence (vcGate i)) = Inr ()" using R by (simp add: projectGate_def)
  have "\<exists>d. newDecision lib t1 rnd rec StateProjectPromoted ScopeProject (vcDecisionRef i) (vcVerifierRef i) (vcRationale i) []
      ?score = Inr d"
    using R gate_assessment(2,3) [OF a] by (simp add: newDecision_total knowledgeStates_def knowledgeScopes_def)
  then obtain d where d: "newDecision lib t1 rnd rec StateProjectPromoted ScopeProject (vcDecisionRef i) (vcVerifierRef i)
      (vcRationale i) [] ?score = Inr d" by blast
  have "validateTransition_kn (krState rec) StateProjectPromoted = Inr ()"
    using R by (simp add: transition_iff knowledgeStates_def allowedFrom_def)
  moreover have "validateProjectGate lib rec (vcGate i) = Inr ()" using R by (simp add: validateProjectGate_Inr)
  ultimately show ?L
    using promoted_record_ok [OF _ assms, of "vcGate i" "vcDecisionRef i" t2] R
    by (auto simp: planPromoteProject_def d Let_def checked_ok newDecision_fields(7) [OF d])
qed

text \<open>
  C18. A promotion succeeds exactly when its gate is open. In a state that calls reach, \<open>PromoteProject\<close>
  answers without error iff the record exists and is validated, the claim and the assessment pass
  the project gate, and the decision has a well-formed reference, verifier and rationale. The
  validation of the new record at the end never refuses it.
\<close>

theorem project_promotion_iff:
  assumes "knowledge_reachable lib st"
  shows "(\<exists>r st'. svcPromoteProject lib t1 t2 rnd i st = (Inr r, st')) \<longleftrightarrow>
    (\<exists>rec. readRecord lib (vcProjectID i) (vcKnowledgeID i) st = Inr rec \<and> krState rec = StateValidated
       \<and> projectGate lib rec (pgClaim (vcGate i)) (pgConfidence (vcGate i))
       \<and> refOk lib (vcDecisionRef i) \<and> refOk lib (vcVerifierRef i) \<and> textOk lib 1000 (vcRationale i))"
proof (cases "readRecord lib (vcProjectID i) (vcKnowledgeID i) st")
  case (Inl e)
  then show ?thesis by (simp add: svcPromoteProject_def seqS_def askS_def)
next
  case (Inr rec)
  note inv = reachable_knowledge [OF assms]
  obtain k where g: "getKnowledge st k = Some rec" using Inr by (auto simp: readRecord_def tryE_Inr memGetKnowledge_Inr)
  have k: "k = knowledgeKeyOf rec" and ok: "recordOk lib rec" "stateSound rec"
    using inv g by (auto simp: knowledgeInv_def keyed_def allVals_def)
  have "(\<exists>r st'. svcPromoteProject lib t1 t2 rnd i st = (Inr r, st')) \<longleftrightarrow> (\<exists>c. planPromoteProject lib t1 t2 rnd i rec = Inr c)"
  proof (cases "planPromoteProject lib t1 t2 rnd i rec")
    case p: (Inl e)
    then show ?thesis using Inr by (simp add: svcPromoteProject_def seqS_def askS_def liftS_def)
  next
    case p: (Inr c)
    obtain rec' d where c: "c = (rec', d)" by (cases c)
    obtain r st' where s: "commit (rec', d) st = (r, st')" by (cases "commit (rec', d) st")
    have "r = Inr rec'" using commit_change [OF s g k plan_promote [OF p [unfolded c] ok(2)]] by blast
    with s p c Inr show ?thesis by (simp add: svcPromoteProject_def seqS_def askS_def liftS_def)
  qed
  with planPromote_total [OF ok(1)] Inr show ?thesis by simp
qed

end
