(* ===== verification/Knowledge_Demo.thy ===== *)
theory Knowledge_Demo
  imports Knowledge_Properties Confidence_Demo
begin

section \<open>Knowledge: a concrete record\<close>

text \<open>
  A record about the claim of \<open>Evidence_Demo\<close> on its way from candidate to promoted in the
  organisation. The claim has a second piece of evidence of another kind.
\<close>

definition demoEvidence2 :: Evidence where
  "demoEvidence2 = demoEvidence\<lparr>evID := demoEvID ''evidence'' 2, evEvidenceRef := ''e2'', evEvidenceKind := ''symbol''\<rparr>"

definition demoScoredClaim :: ClaimRecord where
  "demoScoredClaim = demoScored [demoEvidence, demoEvidence2] [demoOutcome 1 ''passed'']"

definition demoAssessment :: ConfidenceAssessment where
  "demoAssessment = \<lparr>caID = ''as1'', caProjectID = ''m1'', caClaimID = demoEvID ''claim'' 1, caClaimRef = ''c1'',
     caRunID = [], caTraceID = [], caScore = 95, caBand = ''high'', caRecommendation = ''promote'', caFactors = [],
     caInputs = \<lparr>inEvidenceCount = 2, inEvidenceKinds = [''file'', ''symbol''], inDecisionCount = 1, inActionCount = 1,
       inPassedOutcomeCount = 1, inFailedOutcomeCount = 0, inPromotionState = ''promoted'', inContextHealthStatus = ''ready'',
       inContextHealthReason = [], inLatestRunAgeSeconds = 0, inClaimCheckVerified = 0, inClaimCheckActionable = 0,
       inImpactPartial = False, inImpactResidualUnknownCount = 0, inImpactSecurityFlagCount = 0\<rparr>,
     caCreatedAt = 6, caUpdatedAt = 6\<rparr>"

definition demoKnowledgeID :: string where
  "demoKnowledgeID = newID_kn ''knowledge'' (demoBytes 1)"

definition demoKnowledge :: KnowledgeRecord where
  "demoKnowledge = \<lparr>krID = demoKnowledgeID, krProjectID = ''m1'', krScope = ScopeProject, krOrgRef = [],
     krKnowledgeRef = ''k1'', krClaimID = demoEvID ''claim'' 1, krClaimRef = ''c1'', krConfidenceAssessmentID = [],
     krConfidenceScore = 0, krConfidenceBand = [], krState = StateCandidate, krSummary = ''s1'', krReuseGuidance = ''g1'',
     krEvidenceRefs = [], krVerifierRefs = [], krOutcomeRefs = [], krPromotionRefs = [], krSupersedesRef = [],
     krSupersededByRef = [], krCreatedAt = 7, krUpdatedAt = 7, krPromotedAt = zeroTime\<rparr>"

definition demoCandidate :: CreateCandidateInput where
  "demoCandidate = \<lparr>kcProjectID = ''m1'', kcKnowledgeRef = ''k1'', kcClaimID = demoEvID ''claim'' 1, kcClaimRef = ''c1'',
     kcConfidenceAssessmentID = [], kcConfidenceScore = 0, kcConfidenceBand = [], kcSummary = ''s1'', kcReuseGuidance = ''g1'',
     kcEvidenceRefs = [], kcVerifierRefs = [], kcOutcomeRefs = [], kcPromotionRefs = [], kcSupersedesRef = []\<rparr>"

definition demoGate :: "ValidateCandidateInput" where
  "demoGate = \<lparr>vcProjectID = ''m1'', vcKnowledgeID = demoKnowledgeID, vcDecisionRef = ''d1'', vcVerifierRef = ''v1'',
     vcRationale = ''r1'', vcGate = \<lparr>pgClaim = demoScoredClaim, pgConfidence = demoAssessment\<rparr>\<rparr>"

definition demoReview :: SubmitOrgReviewInput where
  "demoReview = \<lparr>swProjectID = ''m1'', swKnowledgeID = demoKnowledgeID, swOrgRef = [], swDecisionRef = ''d1'',
     swVerifierRef = ''v1'', swRationale = ''r1'', swDecidedBy = ''a1''\<rparr>"

definition demoOrgGate :: PromoteOrgInput where
  "demoOrgGate = \<lparr>poProjectID = ''m1'', poKnowledgeID = demoKnowledgeID,
     poGate = \<lparr>ogClaim = demoScoredClaim, ogConfidence = demoAssessment, ogClaimCheckActionable = 0, ogScope = ScopeOrg,
       ogOrgRef = DefaultOrgRef, ogDecisionRef = ''d2'', ogVerifierRef = ''v1'', ogRationale = ''r1'', ogDecidedBy = ''a1''\<rparr>\<rparr>"

definition demoVerdict :: "KnowledgeRecord \<Rightarrow> time \<Rightarrow> string \<Rightarrow> string \<Rightarrow> string \<Rightarrow> string \<Rightarrow> int \<Rightarrow> PromotionDecision" where
  "demoVerdict rec t to scope ref who score = \<lparr>pdID = newID_kn ''knowledge_decision'' (demoBytes 1),
     pdProjectID = krProjectID rec, pdKnowledgeID = krID rec, pdFromState = krState rec, pdToState = to, pdScope = scope,
     pdDecisionRef = ref, pdVerifierRef = ''v1'', pdConfidenceScore = score, pdRationale = ''r1'', pdDecidedBy = who,
     pdDecidedAt = t\<rparr>"

definition demoValidated :: KnowledgeRecord where
  "demoValidated = (applyProjectGate demoKnowledge (vcGate demoGate))\<lparr>krState := StateValidated, krUpdatedAt := 8\<rparr>"

definition demoPromoted :: KnowledgeRecord where
  "demoPromoted = (applyProjectGate demoValidated (vcGate demoGate))\<lparr>krScope := ScopeProject, krState := StateProjectPromoted,
     krPromotionRefs := uniqueRefs [''d1''], krUpdatedAt := 9, krPromotedAt := 9\<rparr>"

definition demoReviewed :: KnowledgeRecord where
  "demoReviewed = demoPromoted\<lparr>krScope := ScopeOrg, krOrgRef := DefaultOrgRef, krState := StateOrgReview, krUpdatedAt := 10\<rparr>"

definition demoShared :: KnowledgeRecord where
  "demoShared = (applyProjectGate demoReviewed (vcGate demoGate))\<lparr>krScope := ScopeOrg, krOrgRef := DefaultOrgRef,
     krState := StateOrgPromoted, krPromotionRefs := uniqueRefs (uniqueRefs [''d1''] @ [''d2'']), krUpdatedAt := 11, krPromotedAt := 11\<rparr>"

definition demoLog :: "PromotionDecision list" where
  "demoLog = [demoVerdict demoKnowledge 8 StateValidated ScopeProject ''d1'' [] 95,
     demoVerdict demoValidated 9 StateProjectPromoted ScopeProject ''d1'' [] 95,
     demoVerdict demoPromoted 10 StateOrgReview ScopeOrg ''d1'' ''a1'' 95,
     demoVerdict demoReviewed 11 StateOrgPromoted ScopeOrg ''d2'' ''a1'' 95]"

text \<open>The store after \<open>n\<close> decisions.\<close>

fun recorded :: "KnowledgeStore \<Rightarrow> (KnowledgeRecord \<times> PromotionDecision) list \<Rightarrow> KnowledgeStore" where
  "recorded st [] = st"
| "recorded st ((rec, d) # cs) = recorded (addDecision (putKnowledge st rec) d) cs"

definition demoSteps :: "(KnowledgeRecord \<times> PromotionDecision) list" where
  "demoSteps = zip [demoValidated, demoPromoted, demoReviewed, demoShared] demoLog"

definition demoStage :: "nat \<Rightarrow> KnowledgeStore" where
  "demoStage n = recorded (putKnowledge newKnowledgeStore demoKnowledge) (take n demoSteps)"

subsection \<open>Its references and texts\<close>

lemma tidy_refOk: "tidyWord s \<Longrightarrow> refOk demoConf s"
proof -
  assume s: "tidyWord s"
  then have "CHR ''/'' \<notin> set s" by (auto simp: tidyWord_def list_all_iff tidyChar_def)
  then have "\<not> contains s ''//''" by (auto dest!: set_mono_sublist)
  with s show ?thesis
    by (simp add: refOk_def safeRef_kn_eq safeRefIdentifier_cf_Inr [OF demoConf_law] tidy_form_cf tidyWord_trimSpace)
qed

lemma plain_refOk: "refForm_cf r \<Longrightarrow> CHR ''/'' \<notin> set r \<Longrightarrow> trimSpace r = r \<Longrightarrow> refOk demoConf r"
  by (auto simp: refOk_def safeRef_kn_eq safeRefIdentifier_cf_Inr [OF demoConf_law] dest!: set_mono_sublist)

lemma letters_no_slash: "CHR ''/'' \<notin> set (letterEncode b)"
  using letters_plain [of b] by (auto simp: list_all_iff plainRefByte_def inCls_def lowerCls_def rng_def)

lemma demoEvID_refOk: "pre \<in> set idPrefixes \<Longrightarrow> refOk demoConf (demoEvID pre n)"
proof (rule plain_refOk)
  assume p: "pre \<in> set idPrefixes"
  show f: "refForm_cf (demoEvID pre n)" by (rule demoID_form_cf [OF p])
  show "CHR ''/'' \<notin> set (demoEvID pre n)"
    using p letters_no_slash by (auto simp: demoEvID_def newID_ev_def idPrefixes_def)
  show "trimSpace (demoEvID pre n) = demoEvID pre n" using f by (simp add: refForm_cf_def)
qed

lemma demoKnowledgeID_refOk: "refOk demoConf demoKnowledgeID" "trimSpace demoKnowledgeID = demoKnowledgeID"
proof -
  have "CHR ''.'' \<notin> set demoKnowledgeID"
    using letters_plain [of "demoBytes 1"] by (simp add: demoKnowledgeID_def newID_kn_def)
  then have "\<not> contains demoKnowledgeID ''..''" "\<not> contains demoKnowledgeID ''www.''"
    by (auto dest!: set_mono_sublist)
  moreover have "list_all plainRefByte demoKnowledgeID" "length demoKnowledgeID = 42"
    using letters_plain [of "demoBytes 1"]
    by (simp_all add: demoKnowledgeID_def newID_kn_def demoBytes_def plainRefByte_def inCls_def lowerCls_def rng_def)
  ultimately have "plainRef demoKnowledgeID" by (auto simp: plainRef_def)
  then have f: "refForm_cf demoKnowledgeID" by (rule plainRef_form)
  then show t: "trimSpace demoKnowledgeID = demoKnowledgeID" by (simp add: refForm_cf_def)
  show "refOk demoConf demoKnowledgeID"
    using letters_no_slash by (intro plain_refOk f t) (simp add: demoKnowledgeID_def newID_kn_def)
qed

lemma text_kn_eq: "safeOptionalText_kn lib = safeOptionalText_cf lib"
proof -
  have "containsProhibitedData_kn = containsProhibitedData_cf" "containsURL_kn = containsURL_cf"
    by (simp_all add: fun_eq_iff containsProhibitedData_kn_def containsProhibitedData_cf_def containsProhibitedMarker_kn_def
        containsProhibitedMarker_cf_def containsURL_kn_def containsURL_cf_def)
  then show ?thesis by (simp add: safeOptionalText_kn_def safeOptionalText_cf_def)
qed

lemma tidy_textOk: "tidyWord s \<Longrightarrow> 8 \<le> mx \<Longrightarrow> textOk demoConf mx s"
  by (simp add: textOk_def safeRequiredText_kn_def text_kn_eq tidy_text_cf requiredWith_def tidyWord_trimSpace tidyWord_nonempty)


subsection \<open>The gate\<close>

lemma knowledge_words:
  "refOk demoConf ''m1''" "refOk demoConf ''c1''" "refOk demoConf ''k1''" "refOk demoConf ''d1''" "refOk demoConf ''d2''"
  "refOk demoConf ''v1''" "refOk demoConf ''a1''" "refOk demoConf ''e1''" "refOk demoConf ''e2''" "refOk demoConf ''o1''"
  "refOk demoConf ''s1''" "refOk demoConf ''x1''" "refOk demoConf ''as1''" "refOk demoConf DefaultOrgRef"
  by (rule tidy_refOk; simp add: tidyWord_def tidyChar_def)+

lemma knowledge_texts: "textOk demoConf 500 ''s1''" "textOk demoConf 500 ''g1''" "textOk demoConf 1000 ''r1''"
  by (rule tidy_textOk; simp add: tidyWord_def tidyChar_def)+

lemma optional_text_Nil: "safeOptionalText_kn lib [] f mx = Inr []"
  by (simp add: safeOptionalText_kn_def safeTextWith_def)

lemma optional_text_tidy: "tidyWord s \<Longrightarrow> 8 \<le> mx \<Longrightarrow> safeOptionalText_kn demoConf s f mx = Inr s"
  by (simp add: text_kn_eq tidy_text_cf)

lemma refOk_eval: "refOk lib v \<Longrightarrow> safeRefIdentifier_kn lib v f = Inr (trimSpace v)"
  by (simp add: safeRef_kn_Inr)

lemma refOk_opt: "refOk lib v \<Longrightarrow> safeOptionalRefIdentifier_kn lib v f = Inr (trimSpace v)"
  by (simp add: safeOptRef_kn_Inr optOk_def)

lemma opt_Nil: "safeOptionalRefIdentifier_kn lib [] f = Inr []"
  by (simp add: safeOptRef_kn_Inr optOk_def)

lemma textOk_eval: "textOk lib mx v \<Longrightarrow> safeRequiredText_kn lib v f mx = Inr (trimSpace v)"
  by (simp add: safeText_kn_Inr)

lemma refList_Nil: "\<exists>r. safeRefList_kn lib [] f = Inr r"
  by (simp add: safeRefList_kn_Inr)

lemmas demo_enums_kn = safeEvidenceKind_kn_def safeDecisionState_kn_def safeActionKind_kn_def safeOutcomeKind_kn_def
  safeOutcomeStatus_kn_def safePromotionState_kn_def safeClaimStatus_kn_def safeBand_kn_def safeRecommendation_kn_def
  safeEnum_def literal_trim evidenceKinds_def decisionStates_def actionKinds_def outcomeKinds_def outcomeStatuses_def
  promotionStates_def claimStatuses_def candidate_trim

lemma more_trims: "trimSpace ''symbol'' = ''symbol''" "trimSpace ''high'' = ''high''" "trimSpace ''promote'' = ''promote''"
  by (simp_all add: trimSpace_graphic graphic_def)

lemma demo_claim_metadata:
  assumes "set es \<subseteq> {demoEvidence, demoEvidence2}"
  shows "validateClaimRecordMetadata_kn demoConf (demoScored es [demoOutcome 1 ''passed'']) = Inr ()"
proof -
  note refs = refOk_eval refOk_opt opt_Nil demoEvID_refOk knowledge_words textOk_eval knowledge_texts optional_text_Nil claim_prefix
    demo_prefixes check_eq inOrder_Inr
  have "evidenceMetadata demoConf demoClaim demoEvidence = Inr ()" "evidenceMetadata demoConf demoClaim demoEvidence2 = Inr ()"
    by (simp_all add: evidenceMetadata_def demoEvidence2_def demoEvidence_def demoClaim_def refs demo_enums_kn more_trims)
  then have e: "checkAll (evidenceMetadata demoConf demoClaim) es = Inr ()"
    using assms by (auto simp: checkAll_Inr)
  have c: "claimMetadata demoConf demoClaim = Inr ()"
    by (simp add: claimMetadata_def demoClaim_def refs optional_text_tidy tidyChar_def demo_enums_kn)
  have d: "decisionMetadata demoConf (demoDecision 1 ''d1'' ''validated'') = Inr ()"
    by (simp add: decisionMetadata_def demoDecision_def refs demo_enums_kn)
  have a: "actionMetadata demoConf (demoAction 1 ''x1'') = Inr ()"
    by (simp add: actionMetadata_def demoAction_def refs demo_enums_kn refList_Nil)
  have x: "outcomeMetadata demoConf (demoOutcome 1 ''passed'') = Inr ()"
    by (simp add: outcomeMetadata_def demoOutcome_def refs demo_enums_kn)
  have l: "linkMetadata demoConf demoPromotion = Inr ()"
    by (simp add: linkMetadata_def demoPromotion_def refs demo_enums_kn)
  show ?thesis by (simp add: validateClaimRecordMetadata_kn_def demoScored_def demoRecord_def inOrder_Inr c d a x l e)
qed

lemma demo_promoting: "promotingLink (demoScored es [demoOutcome 1 ''passed'']) demoPromotion"
  by (simp add: promotingLink_def demoScored_def demoRecord_def demoPromotion_def demoClaim_def passedOutcomeRefs_def demoOutcome_def)

lemma demo_gate:
  assumes "set es \<subseteq> {demoEvidence, demoEvidence2}" and "es \<noteq> []" and "krProjectID rec = ''m1''"
    and "krClaimID rec = demoEvID ''claim'' 1" and "validateAssessmentMetadata demoConf a = Inr ()"
    and "caProjectID a = ''m1''" and "caClaimID a = demoEvID ''claim'' 1" and "caClaimRef a = ''c1''"
    and "85 \<le> caScore a" and "caRecommendation a = ''promote''"
  shows "projectGate demoConf rec (demoScored es [demoOutcome 1 ''passed'']) a"
proof -
  let ?c = "demoScored es [demoOutcome 1 ''passed'']"
  have "hasUnresolvedFailedOutcome ?c = False"
    by (simp add: hasUnresolvedFailedOutcome_def demoScored_def demoRecord_def demoOutcome_def)
  moreover have "rcClaim ?c = demoClaim" "rcEvidence ?c = es" "rcDecisions ?c = [demoDecision 1 ''d1'' ''validated'']"
    "rcActions ?c \<noteq> []" "rcPromotionLinks ?c = [demoPromotion]"
    by (simp_all add: demoScored_def demoRecord_def)
  ultimately show ?thesis
    using assms demo_claim_metadata [OF assms(1)] demo_promoting [of es]
    unfolding projectGate_def by (simp add: demoClaim_def demoDecision_def)
qed

lemma demo_assessment: "validateAssessmentMetadata demoConf demoAssessment = Inr ()"
proof -
  have "checkAll safeEvidenceKind_kn [''file'', ''symbol''] = Inr ()"
    by (simp add: demo_enums_kn more_trims)
  then show ?thesis
    by (simp add: validateAssessmentMetadata_def inOrder_Inr check_eq demoAssessment_def refOk_eval refOk_opt knowledge_words
        demoEvID_refOk claim_prefix)
      (simp add: demo_enums_kn more_trims scoreBands_def recommendations_def)
qed

lemma demo_gate_open:
  "krProjectID rec = ''m1'' \<Longrightarrow> krClaimID rec = demoEvID ''claim'' 1 \<Longrightarrow>
     projectGate demoConf rec demoScoredClaim demoAssessment"
  unfolding demoScoredClaim_def by (rule demo_gate [OF _ _ _ _ demo_assessment]) (simp_all add: demoAssessment_def)


subsection \<open>The plans\<close>

lemma demoKnowledge_ok: "recordOk demoConf demoKnowledge"
  by (simp add: recordOk_def demoKnowledge_def demoKnowledgeID_refOk demoEvID_refOk claim_prefix knowledge_words knowledge_texts optOk_def
      knowledgeScopes_def knowledgeStates_def candidate_trim)

lemma demo_identity [simp]:
  "krProjectID demoKnowledge = ''m1''" "krProjectID demoValidated = ''m1''" "krProjectID demoPromoted = ''m1''"
  "krProjectID demoReviewed = ''m1''" "krProjectID demoShared = ''m1''" "krID demoKnowledge = demoKnowledgeID"
  "krID demoValidated = demoKnowledgeID" "krID demoPromoted = demoKnowledgeID" "krID demoReviewed = demoKnowledgeID"
  "krID demoShared = demoKnowledgeID" "krClaimID demoKnowledge = demoEvID ''claim'' 1" "krClaimID demoValidated = demoEvID ''claim'' 1"
  "krClaimID demoPromoted = demoEvID ''claim'' 1" "krClaimID demoReviewed = demoEvID ''claim'' 1"
  by (simp_all add: demoKnowledge_def demoValidated_def demoPromoted_def demoReviewed_def demoShared_def applyProjectGate_def)

lemma demo_states [simp]:
  "krState demoKnowledge = StateCandidate" "krState demoValidated = StateValidated" "krState demoPromoted = StateProjectPromoted"
  "krState demoReviewed = StateOrgReview" "krState demoShared = StateOrgPromoted"
  by (simp_all add: demoKnowledge_def demoValidated_def demoPromoted_def demoReviewed_def demoShared_def)

lemma demo_rest [simp]:
  "krPromotionRefs demoValidated = []" "krPromotionRefs demoReviewed = uniqueRefs [''d1'']" "krOrgRef demoReviewed = DefaultOrgRef"
  "krScope demoReviewed = ScopeOrg" "krConfidenceScore demoPromoted = 95"
  by (simp_all add: demoKnowledge_def demoValidated_def demoPromoted_def demoReviewed_def applyProjectGate_def demoGate_def
      demoAssessment_def)

lemma demo_moves:
  "validateTransition_kn StateCandidate StateValidated = Inr ()" "validateTransition_kn StateValidated StateProjectPromoted = Inr ()"
  "validateTransition_kn StateProjectPromoted StateOrgReview = Inr ()" "validateTransition_kn StateOrgReview StateOrgPromoted = Inr ()"
  by (simp_all add: transition_iff allowedFrom_def)

lemma demo_verdict:
  assumes "to \<in> set knowledgeStates" and "scope \<in> {ScopeProject, ScopeOrg}" and "who \<in> {[], ''a1''}" and "ref \<in> {''d1'', ''d2''}"
  shows "newDecision demoConf t (demoBytes 1) rec to scope ref ''v1'' ''r1'' who 95 = Inr (demoVerdict rec t to scope ref who 95)"
proof -
  have w: "trimSpace ''d1'' = ''d1''" "trimSpace ''d2'' = ''d2''" "trimSpace ''v1'' = ''v1''" "trimSpace ''r1'' = ''r1''"
    "trimSpace ''a1'' = ''a1''"
    by (rule tidyWord_trimSpace; simp add: tidyWord_def tidyChar_def)+
  have a: "safeOptionalActorRef demoConf who f = Inr who" for f
    using assms(3) by (auto simp: safeOptionalActorRef_Inr actorOk_def w knowledge_words)
  have s: "safeState to = Inr to" "safeScope scope = Inr scope"
    using assms(1,2) by (auto simp: safeState_def safeScope_def safeEnum_def knowledgeScopes_def)
  show ?thesis
    using assms(4) by (auto simp: newDecision_def a s refOk_eval textOk_eval knowledge_words knowledge_texts w demoVerdict_def)
qed

lemma demo_gate_fields [simp]:
  "vcDecisionRef demoGate = ''d1''" "vcVerifierRef demoGate = ''v1''" "vcRationale demoGate = ''r1''"
  "pgClaim (vcGate demoGate) = demoScoredClaim" "pgConfidence (vcGate demoGate) = demoAssessment" "caScore demoAssessment = 95"
  "caBand demoAssessment = ScoreBandHigh"
  by (simp_all add: demoGate_def demoAssessment_def)

lemma demo_gates:
  "validateProjectGate demoConf demoKnowledge (vcGate demoGate) = Inr ()"
  "validateProjectGate demoConf demoValidated (vcGate demoGate) = Inr ()"
  "validateProjectGate demoConf demoReviewed (vcGate demoGate) = Inr ()"
  by (simp_all add: validateProjectGate_Inr demo_gate_open)

lemma demo_plan_validate: "planValidate demoConf 8 8 (demoBytes 1) demoGate demoKnowledge = Inr (demoSteps ! 0)"
  and demoValidated_ok: "recordOk demoConf demoValidated"
proof -
  have g: "projectGate demoConf demoKnowledge (pgClaim (vcGate demoGate)) (pgConfidence (vcGate demoGate))"
    by (simp add: demo_gate_open)
  have "recordOk demoConf (applyProjectGate demoKnowledge (vcGate demoGate))" by (rule gate_record [OF g demoKnowledge_ok])
  then show r: "recordOk demoConf demoValidated" unfolding demoValidated_def recordOk_def by (simp add: knowledgeStates_def)
  show "planValidate demoConf 8 8 (demoBytes 1) demoGate demoKnowledge = Inr (demoSteps ! 0)"
    using checked_ok [OF r] unfolding demoSteps_def demoLog_def
    by (simp add: planValidate_def demo_moves demo_gates demo_verdict knowledgeStates_def) (simp add: demoValidated_def)
qed

lemma demo_plan_promote: "planPromoteProject demoConf 9 9 (demoBytes 1) demoGate demoValidated = Inr (demoSteps ! 1)"
  and demoPromoted_ok: "recordOk demoConf demoPromoted"
proof -
  have g: "projectGate demoConf demoValidated (pgClaim (vcGate demoGate)) (pgConfidence (vcGate demoGate))"
    by (simp add: demo_gate_open)
  have t: "trimSpace ''d1'' = ''d1''" by (simp add: trimSpace_graphic graphic_def)
  show r: "recordOk demoConf demoPromoted"
    using promoted_record_ok [OF g demoValidated_ok knowledge_words(4), of 9] t
    by (simp add: demoPromoted_def applyProjectGate_def)
  show "planPromoteProject demoConf 9 9 (demoBytes 1) demoGate demoValidated = Inr (demoSteps ! 1)"
    using checked_ok [OF r] unfolding demoSteps_def demoLog_def
    by (simp add: planPromoteProject_def demo_moves demo_gates demo_verdict knowledgeStates_def Let_def)
      (simp add: demoPromoted_def demoVerdict_def applyProjectGate_def)
qed

lemma default_org: "safeDefaultOrgRef demoConf [] False = Inr DefaultOrgRef" "safeDefaultOrgRef demoConf DefaultOrgRef b = Inr DefaultOrgRef"
  "safeOrgRef demoConf DefaultOrgRef = Inr DefaultOrgRef"
proof -
  have "trimSpace DefaultOrgRef = DefaultOrgRef" by (simp add: trimSpace_graphic graphic_def)
  then show "safeDefaultOrgRef demoConf [] False = Inr DefaultOrgRef" "safeDefaultOrgRef demoConf DefaultOrgRef b = Inr DefaultOrgRef"
    "safeOrgRef demoConf DefaultOrgRef = Inr DefaultOrgRef"
    by (simp_all add: safeDefaultOrgRef_def safeOrgRef_def refOk_eval knowledge_words Let_def)
qed

lemma demo_actor: "safeActorRef demoConf ''a1'' f = Inr ''a1''"
  by (simp add: safeActorRef_Inr actorOk_def knowledge_words trimSpace_graphic graphic_def)

lemma demo_plan_review: "planOrgReview demoConf 10 10 (demoBytes 1) demoReview demoPromoted = Inr (demoSteps ! 2)"
  and demoReviewed_ok: "recordOk demoConf demoReviewed"
proof -
  show r: "recordOk demoConf demoReviewed"
    using demoPromoted_ok default_org(3) unfolding demoReviewed_def recordOk_def
    by (simp add: knowledgeStates_def knowledgeScopes_def)
  show "planOrgReview demoConf 10 10 (demoBytes 1) demoReview demoPromoted = Inr (demoSteps ! 2)"
    using checked_ok [OF r] unfolding demoSteps_def demoLog_def
    by (simp add: planOrgReview_def demo_moves demo_verdict knowledgeStates_def demoReview_def default_org demo_actor)
      (simp add: demoReviewed_def)
qed

lemma demo_org_gate: "validateOrgGate demoConf demoReviewed (take 3 demoLog) (poGate demoOrgGate) = Inr ()"
proof -
  have k: "length (recordEvidenceKinds demoScoredClaim) = 2"
    by (simp add: recordEvidenceKinds_def demoScoredClaim_def demoScored_def demoRecord_def demoEvidence_def demoEvidence2_def)
  have n: "\<not> hasDecisionState_kn demoScoredClaim ''rejected''"
    by (simp add: hasDecisionState_kn_def demoScoredClaim_def demoScored_def demoRecord_def demoDecision_def)
  have h: "hasTransition (take 3 demoLog) StateValidated StateProjectPromoted" "hasTransitionTo (take 3 demoLog) StateOrgReview"
    by (simp_all add: demoLog_def hasTransition_def hasTransitionTo_def demoVerdict_def)
  have s: "sameOrg demoConf demoReviewed (poGate demoOrgGate) = Inr ()"
    by (simp add: sameOrg_def demoOrgGate_def default_org inOrder_Inr)
  have v: "validateProjectGate demoConf demoReviewed \<lparr>pgClaim = demoScoredClaim, pgConfidence = demoAssessment\<rparr> = Inr ()"
    by (simp add: validateProjectGate_Inr demo_gate_open)
  have sc: "safeScope ScopeOrg = Inr ScopeOrg" by (simp add: safeScope_def safeEnum_def knowledgeScopes_def)
  show ?thesis
    unfolding validateOrgGate_def inOrder_Inr
    using s k n h v by (simp add: demoOrgGate_def check_eq refOk_eval textOk_eval knowledge_words knowledge_texts demo_actor sc)
qed

lemma demo_plan_org: "planPromoteOrg demoConf 11 11 (demoBytes 1) demoOrgGate (take 3 demoLog) demoReviewed = Inr (demoSteps ! 3)"
proof -
  have g: "projectGate demoConf demoReviewed (pgClaim (vcGate demoGate)) (pgConfidence (vcGate demoGate))"
    by (simp add: demo_gate_open)
  have t: "trimSpace ''d2'' = ''d2''" by (simp add: trimSpace_graphic graphic_def)
  have r: "recordOk demoConf demoShared"
    using promoted_record_ok [OF g demoReviewed_ok knowledge_words(5), of 11] t default_org(3) unfolding recordOk_def
    by (simp add: demoShared_def applyProjectGate_def knowledgeStates_def knowledgeScopes_def)
  show ?thesis
    using checked_ok [OF r] demo_org_gate unfolding demoSteps_def demoLog_def
    by (simp add: planPromoteOrg_def demo_moves demoOrgGate_def default_org demo_verdict knowledgeStates_def Let_def)
      (simp add: demoShared_def demoVerdict_def applyProjectGate_def)
qed


subsection \<open>The calls\<close>

abbreviation demoPlace :: string where
  "demoPlace \<equiv> knowledgeKey ''m1'' demoKnowledgeID"

lemma demo_keys [simp]:
  "knowledgeKeyOf demoKnowledge = demoPlace" "knowledgeKeyOf demoValidated = demoPlace" "knowledgeKeyOf demoPromoted = demoPlace"
  "knowledgeKeyOf demoReviewed = demoPlace" "knowledgeKeyOf demoShared = demoPlace"
  "krID rec = demoKnowledgeID \<Longrightarrow> krProjectID rec = ''m1'' \<Longrightarrow> decisionKeyOf (demoVerdict rec t to scope ref who score) = demoPlace"
  by (simp_all add: knowledgeKeyOf_def decisionKeyOf_def demoVerdict_def)

lemma commit_stored:
  assumes "getKnowledge st (knowledgeKeyOf rec) = Some r" and "decisionKeyOf d = knowledgeKeyOf rec"
  shows "commit (rec, d) st = (Inr rec, addDecision (putKnowledge st rec) d)"
  using assms by (simp add: commit_def seqS_def memUpdateKnowledge_eq memCreateDecision_kn_eq retS_def knowledge.get_put)

lemma demo_read:
  assumes "getKnowledge st demoPlace = Some rec"
  shows "readRecord demoConf ''m1'' demoKnowledgeID st = Inr rec"
  using assms
  by (simp add: readRecord_def safeProjectKnowledgeIDs_def refOk_eval knowledge_words demoKnowledgeID_refOk memGetKnowledge_Inr
      trimSpace_graphic graphic_def)

lemma knowledge_stages:
  "demoStage 0 = putKnowledge newKnowledgeStore demoKnowledge"
  "demoStage 1 = addDecision (putKnowledge (demoStage 0) demoValidated) (demoLog ! 0)"
  "demoStage 2 = addDecision (putKnowledge (demoStage 1) demoPromoted) (demoLog ! 1)"
  "demoStage 3 = addDecision (putKnowledge (demoStage 2) demoReviewed) (demoLog ! 2)"
  "demoStage 4 = addDecision (putKnowledge (demoStage 3) demoShared) (demoLog ! 3)"
  by (simp_all add: demoStage_def demoSteps_def demoLog_def numeral_nat)

lemma demo_log_keys: "n < 4 \<Longrightarrow> decisionKeyOf (demoLog ! n) = demoPlace"
  by (auto simp: demoLog_def less_Suc_eq numeral_nat)

lemma knowledge_stored:
  "getKnowledge (demoStage 0) demoPlace = Some demoKnowledge" "getKnowledge (demoStage 1) demoPlace = Some demoValidated"
  "getKnowledge (demoStage 2) demoPlace = Some demoPromoted" "getKnowledge (demoStage 3) demoPlace = Some demoReviewed"
  "getKnowledge (demoStage 4) demoPlace = Some demoShared"
  unfolding knowledge_stages by (simp_all add: knowledge.get_put)

lemma demo_logged:
  "decisionsOf (demoStage 3) demoPlace = take 3 demoLog" "decisionsOf (demoStage 4) demoPlace = demoLog"
proof -
  show "decisionsOf (demoStage 3) demoPlace = take 3 demoLog"
    unfolding knowledge_stages by (simp add: decisionsOf_add demo_log_keys) (simp add: demoLog_def)
  then show "decisionsOf (demoStage 4) demoPlace = demoLog"
    unfolding knowledge_stages(5) by (simp add: decisionsOf_add demo_log_keys) (simp add: demoLog_def)
qed

lemma demo_log_order: "sortBy decidedBefore (take 3 demoLog) = take 3 demoLog"
  by (simp add: demoLog_def decidedBefore_def demoVerdict_def lessBy_def)

lemma demo_pairs:
  "demoSteps ! 0 = (demoValidated, demoLog ! 0)" "demoSteps ! 1 = (demoPromoted, demoLog ! 1)"
  "demoSteps ! 2 = (demoReviewed, demoLog ! 2)" "demoSteps ! 3 = (demoShared, demoLog ! 3)"
  by (simp_all add: demoSteps_def demoLog_def)

lemma demo_create: "svcCreateCandidate demoConf 7 (demoBytes 1) demoCandidate newKnowledgeStore = (Inr demoKnowledge, demoStage 0)"
proof -
  have t: "trimSpace ''m1'' = ''m1''" "trimSpace ''k1'' = ''k1''" "trimSpace ''c1'' = ''c1''" "trimSpace ''s1'' = ''s1''"
    "trimSpace ''g1'' = ''g1''" "trimSpace (demoEvID ''claim'' 1) = demoEvID ''claim'' 1"
    using demoID_form_cf [of "''claim''" 1] by (simp_all add: trimSpace_graphic graphic_def refForm_cf_def)
  have l: "safeRefList_kn demoConf [] f = Inr []" for f by (simp add: safeRefList_kn_Inr uniqueRefs_def)
  have b: "safeOptionalBand_kn [] = Inr []" by (simp add: safeOptionalBand_kn_def)
  have "validateKnowledgeRecord demoConf demoKnowledge = Inr ()" by (simp add: validateKnowledgeRecord_Inr demoKnowledge_ok)
  then have "buildCandidate demoConf 7 (demoBytes 1) demoCandidate = Inr demoKnowledge"
    unfolding buildCandidate_def Let_def
    by (simp add: demoCandidate_def refOk_eval textOk_eval opt_Nil knowledge_words knowledge_texts t l b demoEvID_refOk claim_prefix)
      (simp add: demoKnowledge_def demoKnowledgeID_def)
  then show ?thesis by (simp add: svcCreateCandidate_def seqS_def liftS_def memCreateKnowledge_eq knowledge_stages)
qed

lemma knowledge_validate: "svcValidateCandidate demoConf 8 8 (demoBytes 1) demoGate (demoStage 0) = (Inr demoValidated, demoStage 1)"
proof -
  have i: "vcProjectID demoGate = ''m1''" "vcKnowledgeID demoGate = demoKnowledgeID" by (simp_all add: demoGate_def)
  show ?thesis
    using demo_plan_validate commit_stored [of "demoStage 0" demoValidated _ "demoLog ! 0"] knowledge_stored(1)
    unfolding knowledge_stages(2)
    by (simp add: svcValidateCandidate_def seqS_def askS_def liftS_def i demo_read demo_pairs demo_log_keys)
qed

lemma demo_promote: "svcPromoteProject demoConf 9 9 (demoBytes 1) demoGate (demoStage 1) = (Inr demoPromoted, demoStage 2)"
proof -
  have i: "vcProjectID demoGate = ''m1''" "vcKnowledgeID demoGate = demoKnowledgeID" by (simp_all add: demoGate_def)
  show ?thesis
    using demo_plan_promote commit_stored [of "demoStage 1" demoPromoted _ "demoLog ! 1"] knowledge_stored(2)
    unfolding knowledge_stages(3)
    by (simp add: svcPromoteProject_def seqS_def askS_def liftS_def i demo_read demo_pairs demo_log_keys del: One_nat_def)
qed

lemma demo_review: "svcSubmitOrgReview demoConf 10 10 (demoBytes 1) demoReview (demoStage 2) = (Inr demoReviewed, demoStage 3)"
proof -
  have i: "swProjectID demoReview = ''m1''" "swKnowledgeID demoReview = demoKnowledgeID" by (simp_all add: demoReview_def)
  show ?thesis
    using demo_plan_review commit_stored [of "demoStage 2" demoReviewed _ "demoLog ! 2"] knowledge_stored(3)
    unfolding knowledge_stages(4)
    by (simp add: svcSubmitOrgReview_def seqS_def askS_def liftS_def i demo_read demo_pairs demo_log_keys)
qed

lemma demo_share: "svcPromoteOrg demoConf 11 11 (demoBytes 1) demoOrgGate (demoStage 3) = (Inr demoShared, demoStage 4)"
proof -
  have i: "safeProjectKnowledgeIDs demoConf (poProjectID demoOrgGate) (poKnowledgeID demoOrgGate) = Inr (''m1'', demoKnowledgeID)"
    by (simp add: demoOrgGate_def safeProjectKnowledgeIDs_def refOk_eval knowledge_words demoKnowledgeID_refOk trimSpace_graphic graphic_def)
  have l: "memListDecisions ''m1'' demoKnowledgeID (demoStage 3) = Inr (take 3 demoLog)"
    by (simp add: memListDecisions_Inr knowledge_stored demo_logged demo_log_order)
  have g: "memGetKnowledge ''m1'' demoKnowledgeID (demoStage 3) = Inr demoReviewed"
    by (simp add: memGetKnowledge_Inr knowledge_stored)
  show ?thesis
    using demo_plan_org commit_stored [of "demoStage 3" demoShared _ "demoLog ! 3"] knowledge_stored(4)
    unfolding knowledge_stages(5)
    by (simp add: svcPromoteOrg_def seqS_def askS_def liftS_def i l g demo_pairs demo_log_keys)
qed

lemma demo_reachable:
  "knowledge_reachable demoConf (demoStage 0)" "knowledge_reachable demoConf (demoStage 1)"
  "knowledge_reachable demoConf (demoStage 2)" "knowledge_reachable demoConf (demoStage 3)"
  "knowledge_reachable demoConf (demoStage 4)"
proof -
  show r: "knowledge_reachable demoConf (demoStage 0)"
    by (rule knowledge_reachable.step [OF knowledge_reachable.init knowledge_step.create [OF demo_create]]) simp
  show r: "knowledge_reachable demoConf (demoStage 1)"
    by (rule knowledge_reachable.step [OF r knowledge_step.validate [OF knowledge_validate]])
  show r: "knowledge_reachable demoConf (demoStage 2)"
    by (rule knowledge_reachable.step [OF r knowledge_step.promote [OF demo_promote]])
  show r: "knowledge_reachable demoConf (demoStage 3)"
    by (rule knowledge_reachable.step [OF r knowledge_step.review [OF demo_review]])
  show "knowledge_reachable demoConf (demoStage 4)"
    by (rule knowledge_reachable.step [OF r knowledge_step.promote_org [OF demo_share]])
qed

end
