(* ===== verification/Knowledge_Boundary.thy ===== *)
theory Knowledge_Boundary
  imports Knowledge_Demo Confidence_Boundary
begin

section \<open>Knowledge: witnesses, concurrent calls and the services below\<close>

subsection \<open>Witnesses\<close>

theorem decisions_explain_state_witness:
  "getKnowledge (demoStage 4) demoPlace = Some demoShared
   \<and> follows StateCandidate (decisionsOf (demoStage 4) demoPlace) StateOrgPromoted \<and> length (decisionsOf (demoStage 4) demoPlace) = 4"
proof -
  have "length demoLog = 4" by (simp add: demoLog_def)
  with decisions_explain_state [OF demo_reachable(5) knowledge_stored(5)] knowledge_stored(5) demo_logged(2) show ?thesis by simp
qed

definition noFilter :: KnowledgeFilter where
  "noFilter = \<lparr>klScope = [], klOrgRef = [], klState = [], klClaimID = [], klKnowledgeRef = [], klConfidenceBand = [],
     klMinConfidence = None, klMaxConfidence = None, klPageSize = 0, klPageToken = []\<rparr>"

lemma demo_org_list: "\<exists>rs. svcListOrgKnowledge demoConf [] noFilter (demoStage 4) = Inr rs \<and> demoShared \<in> set rs"
proof -
  let ?f = "noFilter\<lparr>klScope := ScopeOrg, klOrgRef := DefaultOrgRef, klState := StateOrgPromoted\<rparr>"
  have t: "trimSpace StateOrgPromoted = StateOrgPromoted" "trimSpace DefaultOrgRef = DefaultOrgRef"
    by (simp_all add: trimSpace_graphic graphic_def)
  have v: "validateFilter_kn demoConf ?f = Inr ?f"
    by (simp add: validateFilter_kn_def noFilter_def safeOptionalScope_def safeScope_def safeEnum_def knowledgeScopes_def
        refOk_opt knowledge_words t opt_Nil safeOptionalState_def safeState_def knowledgeStates_def safeOptionalBand_kn_def inOrder_def)
  have "demoShared \<in> set (tvals (nsKnowledge (demoStage 4)))"
    using knowledge_stored(5) reachable_table [OF demo_reachable(5)] by (auto simp: tvals_tget getKnowledge_def)
  moreover have "matchesKnowledgeFilter demoShared ?f" by (simp add: matchesKnowledgeFilter_def noFilter_def demoShared_def)
  ultimately have "demoShared \<in> set (memListOrgKnowledge DefaultOrgRef ?f (demoStage 4))"
    by (simp add: memListOrgKnowledge_def demoShared_def)
  then show ?thesis
    using v default_org(1) by (simp add: svcListOrgKnowledge_def inOrder_Inr) (simp add: noFilter_def inOrder_def)
qed

theorem org_knowledge_earned_witness:
  "\<exists>rs. svcListOrgKnowledge demoConf [] noFilter (demoStage 4) = Inr rs \<and> demoShared \<in> set rs \<and> 90 \<le> krConfidenceScore demoShared
     \<and> krVerifierRefs demoShared \<noteq> []"
proof -
  obtain rs where rs: "svcListOrgKnowledge demoConf [] noFilter (demoStage 4) = Inr rs" "demoShared \<in> set rs"
    using demo_org_list by blast
  from org_knowledge_earned [OF demo_reachable(5) rs] rs show ?thesis by blast
qed

theorem project_promotion_iff_witness:
  "\<exists>r st'. svcPromoteProject demoConf 9 9 (demoBytes 1) demoGate (demoStage 1) = (Inr r, st')"
proof -
  have "readRecord demoConf (vcProjectID demoGate) (vcKnowledgeID demoGate) (demoStage 1) = Inr demoValidated"
    using demo_read [OF knowledge_stored(2)] by (simp add: demoGate_def)
  then show ?thesis
    unfolding project_promotion_iff [OF demo_reachable(2)] using demo_gate_open [of demoValidated] knowledge_words knowledge_texts
    by simp
qed

subsection \<open>Concurrent calls\<close>

lemma commit_answer: "commit (rec, d) st = (Inr r, st') \<Longrightarrow> r = rec"
  by (auto simp: commit_def seqS_def memUpdateKnowledge_eq memCreateDecision_kn_eq retS_def split: if_splits)

lemma rejected_state:
  assumes "svcReject lib t1 t2 rnd ji st = (Inr r, st')"
  shows "krState r = StateRejected"
proof -
  obtain rec where "seqS (liftS (planReject lib t1 t2 rnd ji rec)) commit st = (Inr r, st')"
    using seq_ask [OF assms [unfolded svcReject_def]] by auto
  then obtain rec' d where p: "planReject lib t1 t2 rnd ji rec = Inr (rec', d)" and "commit (rec', d) st = (Inr r, st')"
    using seq_lift by fastforce
  then have "r = rec'" using commit_answer by blast
  moreover have "krState rec' = StateRejected" using p unfolding planReject_def tryE_Inr by fastforce
  ultimately show ?thesis by simp
qed

text \<open>
  C31. The methods that change a record hold no lock between reading and writing it. If a rejection
  is answered between the read and the write of a promotion in the organisation, the promotion
  still succeeds: the rejected record is promoted, and its decisions no longer explain its state.
\<close>

theorem concurrent_promotion_revives:
  assumes "knowledge_reachable lib st" and "getKnowledge st k = Some rec"
    and "planPromoteOrg lib t1 t2 rnd oi (sortBy decidedBefore (decisionsOf st k)) rec = Inr change"
    and "svcReject lib s1 s2 rnd' ji st = (Inr r, st1)" and "knowledgeKeyOf r = k"
  shows "\<exists>rec' st2. commit change st1 = (Inr rec', st2)
    \<and> getKnowledge st1 k = Some r \<and> krState r = StateRejected
    \<and> getKnowledge st2 k = Some rec' \<and> krState rec' = StateOrgPromoted
    \<and> \<not> follows StateCandidate (decisionsOf st2 k) (krState rec')"
proof -
  note inv = reachable_knowledge [OF assms(1)]
  obtain rec' d' where c: "change = (rec', d')" by (cases change)
  have rs: "stateSound rec" and kr: "knowledgeKeyOf rec = k"
    using inv assms(2) by (auto simp: knowledgeInv_def keyed_def allVals_def)
  note p = plan_promoteOrg [OF assms(3) [unfolded c] rs]
  obtain k0 rec0 d where g: "getKnowledge st k0 = Some rec0" and s: "soundChange lib rec0 r d"
    and st1: "st1 = addDecision (putKnowledge st r) d"
    using reject_effect [OF assms(4) inv] by (auto simp: changes_def)
  have rj: "krState r = StateRejected" by (rule rejected_state [OF assms(4)])
  have kd: "decisionKeyOf d = k" using s sameKnowledge_key assms(5) by (auto simp: soundChange_def)
  have kp: "knowledgeKeyOf rec' = k" "decisionKeyOf d' = k"
    using p sameKnowledge_key kr by (auto simp: soundChange_def)
  have g1: "getKnowledge st1 k = Some r" by (simp add: st1 knowledge.get_put assms(5))
  have cm: "commit change st1 = (Inr rec', addDecision (putKnowledge st1 rec') d')"
    unfolding c using g1 kp by (intro commit_stored) simp_all
  have o: "krState rec' = StateOrgPromoted" "pdFromState d' = StateOrgReview"
    using p assms(3) c by (auto simp: soundChange_def planPromoteOrg_def tryE_Inr Let_def checked_Inr allowedFrom_def)
  have "decisionsOf (addDecision (putKnowledge st1 rec') d') k = (decisionsOf st k @ [d]) @ [d']"
    by (simp add: st1 decisionsOf_add kp kd)
  moreover have "pdToState d = StateRejected" using s rj by (simp add: soundChange_def)
  ultimately have "\<not> follows StateCandidate (decisionsOf (addDecision (putKnowledge st1 rec') d') k) (krState rec')"
    using o by (simp add: follows_snoc del: append_assoc)
  with cm g1 rj o(1) kp show ?thesis by (intro exI conjI) (assumption | simp add: knowledge.get_put)+
qed

definition demoReject :: RejectInput where
  "demoReject = \<lparr>rjProjectID = ''m1'', rjKnowledgeID = demoKnowledgeID, rjDecisionRef = ''d2'', rjVerifierRef = ''v1'',
     rjRationale = ''r1'', rjDecidedBy = ''a1''\<rparr>"

definition demoRejected :: KnowledgeRecord where
  "demoRejected = demoReviewed\<lparr>krState := StateRejected, krUpdatedAt := 11\<rparr>"

lemma demo_reject: "\<exists>st'. svcReject demoConf 11 11 (demoBytes 1) demoReject (demoStage 3) = (Inr demoRejected, st')"
proof -
  have i: "rjProjectID demoReject = ''m1''" "rjKnowledgeID demoReject = demoKnowledgeID" by (simp_all add: demoReject_def)
  have k: "knowledgeKeyOf demoRejected = demoPlace"
    by (simp add: demoRejected_def knowledgeKeyOf_def)
  have sc: "krConfidenceScore demoReviewed = 95" by (simp add: demoReviewed_def)
  have t: "validateTransition_kn StateOrgReview StateRejected = Inr ()" by (simp add: transition_iff allowedFrom_def)
  let ?d = "demoVerdict demoReviewed 11 StateRejected ScopeOrg ''d2'' ''a1'' 95"
  have "planReject demoConf 11 11 (demoBytes 1) demoReject demoReviewed = Inr (demoRejected, ?d)"
    by (simp add: planReject_def t demo_verdict knowledgeStates_def demoReject_def sc) (simp add: demoRejected_def)
  with knowledge_stored(4) show ?thesis
    using commit_stored [of "demoStage 3" demoRejected _ ?d]
    by (simp add: svcReject_def seqS_def askS_def liftS_def i demo_read k)
qed

theorem concurrent_promotion_revives_witness:
  "\<exists>st1 rec' st2. svcReject demoConf 11 11 (demoBytes 1) demoReject (demoStage 3) = (Inr demoRejected, st1)
     \<and> commit (demoSteps ! 3) st1 = (Inr rec', st2) \<and> krState rec' = StateOrgPromoted
     \<and> \<not> follows StateCandidate (decisionsOf st2 demoPlace) (krState rec')"
proof -
  obtain st1 where r: "svcReject demoConf 11 11 (demoBytes 1) demoReject (demoStage 3) = (Inr demoRejected, st1)"
    using demo_reject by blast
  have p: "planPromoteOrg demoConf 11 11 (demoBytes 1) demoOrgGate (sortBy decidedBefore (decisionsOf (demoStage 3) demoPlace))
      demoReviewed = Inr (demoSteps ! 3)"
    using demo_plan_org by (simp add: demo_logged demo_log_order)
  have k: "knowledgeKeyOf demoRejected = demoPlace"
    by (simp add: demoRejected_def knowledgeKeyOf_def)
  from concurrent_promotion_revives [OF demo_reachable(4) knowledge_stored(4) p r k] r show ?thesis by blast
qed

subsection \<open>Promotion with the services below\<close>

text \<open>The adapter that the server wires: the claims of the evidence service, the assessments of the confidence service.\<close>

definition serviceAdapter :: "NetLib \<Rightarrow> ConfLib \<Rightarrow> (EvidenceStore \<times> ConfidenceStore) PromotionInputAdapter" where
  "serviceAdapter net lib =
     \<lparr>paEvidence = Some (\<lambda>p c w. svcGetClaim net (fst w) p c),
      paConfidence = Some (\<lambda>p c w. svcGetAssessment lib (Some (snd w)) p c)\<rparr>"

lemma service_gate:
  assumes "buildProjectGate lib (Some (serviceAdapter net lib)) (es, cs) p c = Inr g"
  shows "\<exists>k. getRecord es k = Some (pgClaim g)" and "\<exists>k. getAssessment cs k = Some (pgConfidence g)"
proof -
  obtain claim conf where a: "adapterInputs lib (Some (serviceAdapter net lib)) (es, cs) p c = Inr (claim, conf)"
    and g: "g = \<lparr>pgClaim = claim, pgConfidence = conf\<rparr>"
    using assms by (auto simp: buildProjectGate_def tryE_Inr)
  from a obtain p' c' where "svcGetClaim net es p' c' = Inr claim" "svcGetAssessment lib (Some cs) p' c' = Inr conf"
    unfolding adapterInputs_def serviceAdapter_def by (auto simp: tryE_Inr)
  then show "\<exists>k. getRecord es k = Some (pgClaim g)" "\<exists>k. getAssessment cs k = Some (pgConfidence g)"
    by (auto simp: g svcGetClaim_def svcGetAssessment_def tryE_Inr memGetClaim_Inr memGetAssessment_Inr)
qed

lemma seq_ask_Inr: "seqS (askS f) k st = (Inr r, st') \<Longrightarrow> \<exists>x. f st = Inr x \<and> k x st = (Inr r, st')"
  by (drule seq_ask) blast

lemma seq_lift_Inr: "seqS (liftS q) k st = (Inr r, st') \<Longrightarrow> \<exists>x. q = Inr x \<and> k x st = (Inr r, st')"
  by (drule seq_lift) blast

lemma promotes_record:
  assumes "planPromoteProject lib t1 t2 rnd i rec = Inr (r, d)"
  shows "validateProjectGate lib rec (vcGate i) = Inr ()"
    and "r = (applyProjectGate rec (vcGate i))\<lparr>krScope := ScopeProject, krState := StateProjectPromoted,
       krPromotionRefs := uniqueRefs (krPromotionRefs (applyProjectGate rec (vcGate i)) @ [pdDecisionRef d]),
       krUpdatedAt := t2, krPromotedAt := t2\<rparr>"
  using assms by (auto simp: planPromoteProject_def tryE_Inr checked_Inr Let_def)

lemma promotes_gated:
  assumes "svcPromoteProjectWithInputs lib ad w t1 t2 rnd i st = (Inr r, st')"
  obtains rec :: KnowledgeRecord and g where "buildProjectGate lib ad w (krProjectID rec) (krClaimID rec) = Inr g"
    and "projectGate lib r (pgClaim g) (pgConfidence g)" and "krConfidenceScore r = caScore (pgConfidence g)"
    and "krState r = StateProjectPromoted"
proof -
  obtain rec where "seqS (liftS (buildProjectGate lib ad w (krProjectID rec) (krClaimID rec)))
      (\<lambda>gate. svcPromoteProject lib t1 t2 rnd (gateInput rec i gate)) st = (Inr r, st')"
    using seq_ask_Inr [OF assms [unfolded svcPromoteProjectWithInputs_def]] by blast
  from seq_lift_Inr [OF this] obtain g where b: "buildProjectGate lib ad w (krProjectID rec) (krClaimID rec) = Inr g"
    and s: "svcPromoteProject lib t1 t2 rnd (gateInput rec i g) st = (Inr r, st')" by blast
  obtain rec' where "seqS (liftS (planPromoteProject lib t1 t2 rnd (gateInput rec i g) rec')) commit st = (Inr r, st')"
    using seq_ask_Inr [OF s [unfolded svcPromoteProject_def]] by blast
  from seq_lift_Inr [OF this] obtain c
    where p: "planPromoteProject lib t1 t2 rnd (gateInput rec i g) rec' = Inr c" and "commit c st = (Inr r, st')" by blast
  then have "fst c = r" by (cases c) (auto dest: commit_answer)
  with p have p': "planPromoteProject lib t1 t2 rnd (gateInput rec i g) rec' = Inr (r, snd c)" by auto
  note pr = promotes_record [OF p']
  then have v: "validateProjectGate lib rec' g = Inr ()" "krState r = StateProjectPromoted"
    "krConfidenceScore r = caScore (pgConfidence g)" "krProjectID r = krProjectID rec'" "krClaimID r = krClaimID rec'"
    by (simp_all add: pr(2) applyProjectGate_def gateInput_def)
  then have "projectGate lib r (pgClaim g) (pgConfidence g)"
    by (simp add: validateProjectGate_Inr projectGate_def)
  from that [OF b this v(3,2)] show ?thesis .
qed

text \<open>
  C6. A promotion rests on what the two services below hold. When \<open>PromoteProjectWithInputs\<close>, wired to
  an evidence store and a confidence store that calls of their services reach, answers without
  error, the evidence store has the claim of the record with a promotion link that is sound there
  and leads to a passed outcome, and the confidence store has a well-formed assessment of the same
  claim that scores at least 85 and recommends the promotion; the record carries its score.
\<close>

theorem promotion_rests_on_services:
  assumes "evidenceReachable net (es, ws)" and "confidenceReachable lib cs"
    and "svcPromoteProjectWithInputs lib (Some (serviceAdapter net lib)) (es, cs) t1 t2 rnd i st = (Inr r, st')"
  shows "krState r = StateProjectPromoted
    \<and> (\<exists>c l x. getRecord es (claimKey (krProjectID r) (krClaimID r)) = Some c \<and> l \<in> set (rcPromotionLinks c)
         \<and> plPromotionState l = PromotionStatePromoted \<and> promotionSound c l
         \<and> x \<in> set (rcOutcomes c) \<and> ocStatus x = OutcomeStatusPassed \<and> ocOutcomeRef x = plOutcomeRef l)
    \<and> (\<exists>a. getAssessment cs (assessmentKey (krProjectID r) (krClaimID r)) = Some a \<and> assessmentOK a \<and> 85 \<le> caScore a
         \<and> caRecommendation a = RecommendationPromote \<and> krConfidenceScore r = caScore a)"
proof -
  obtain rec :: KnowledgeRecord and g where b: "buildProjectGate lib (Some (serviceAdapter net lib)) (es, cs) (krProjectID rec) (krClaimID rec) = Inr g"
    and gate: "projectGate lib r (pgClaim g) (pgConfidence g)" and score: "krConfidenceScore r = caScore (pgConfidence g)"
    and state: "krState r = StateProjectPromoted"
    by (rule promotes_gated [OF assms(3)])
  let ?c = "pgClaim g" and ?a = "pgConfidence g"
  obtain k1 k2 where k1: "getRecord es k1 = Some ?c" and k2: "getAssessment cs k2 = Some ?a"
    using service_gate [OF b] by blast
  have inv: "keyed getRecord recordKey es" "allVals getRecord recordSound es"
    using reachable_evidenceInv [OF assms(1)] by (simp_all add: evidenceInv_def)
  have e: "getRecord es (recordKey ?c) = Some ?c" and snd: "recordSound ?c"
    using inv k1 by (auto simp: keyed_def allVals_def)
  have "getAssessment cs (assessmentKeyOf ?a) = Some ?a" "assessmentOK ?a"
    using reachable_confidenceInv [OF assms(2)] k2 by (auto simp: confidenceInv_def allVals_def keyed_def)
  then have a: "getAssessment cs (assessmentKey (krProjectID r) (krClaimID r)) = Some ?a \<and> assessmentOK ?a"
    using gate by (simp add: projectGate_def assessmentKeyOf_def)
  obtain l where l: "l \<in> set (rcPromotionLinks ?c)" "promotingLink ?c l" using gate by (auto simp: projectGate_def)
  then have "plPromotionState l = PromotionStatePromoted" "plOutcomeRef l \<in> set (passedOutcomeRefs ?c)"
    by (auto simp: promotingLink_def split: if_splits)
  moreover have "promotionSound ?c l" using snd l(1) by (auto simp: recordSound_items)
  ultimately have "\<exists>c l x. getRecord es (claimKey (krProjectID r) (krClaimID r)) = Some c \<and> l \<in> set (rcPromotionLinks c)
         \<and> plPromotionState l = PromotionStatePromoted \<and> promotionSound c l
         \<and> x \<in> set (rcOutcomes c) \<and> ocStatus x = OutcomeStatusPassed \<and> ocOutcomeRef x = plOutcomeRef l"
    using e gate l(1) by (intro exI [of _ ?c] exI [of _ l]) (auto simp: projectGate_def recordKey_def passedOutcomeRefs_def)
  with a gate score state show ?thesis by (auto simp: projectGate_def)
qed

lemma score_refs:
  assumes "svcScore lib t1 t2 rec health cc impact = Inr a"
  shows "caProjectID a = trimSpace (cmProjectID (rcClaim rec))" and "caClaimID a = trimSpace (cmID (rcClaim rec))"
    and "caClaimRef a = trimSpace (cmClaimRef (rcClaim rec))"
    and "caID a = deterministicID lib (caProjectID a) (caClaimID a)"
  using assms unfolding svcScore_def by (auto simp: tryE_Inr addFactors_eq Let_def dest: safeRefIdentifier_cf_form)

text \<open>The claim of \<open>demoFinal\<close>, scored.\<close>

lemma demo_scored_assessment:
  assumes "svcScore demoConf 6 6 (demoScored [demoEvidence] [demoOutcome 1 ''passed'']) (demoHealth ''ready'')
    (Some demoCheck) (Some demoImpact) = Inr a"
  shows "caProjectID a = ''m1''" and "caClaimID a = demoEvID ''claim'' 1" and "caClaimRef a = ''c1''" and "caScore a = 100"
    and "caRecommendation a = ''promote''" and "validateAssessmentMetadata demoConf a = Inr ()"
proof -
  let ?rec = "demoScored [demoEvidence] [demoOutcome 1 ''passed'']"
  have t: "trimSpace (demoEvID ''claim'' 1) = demoEvID ''claim'' 1" using demoID_form_cf [of "''claim''" 1] by (simp add: refForm_cf_def)
  have c: "rcClaim ?rec = demoClaim" by (simp add: demoScored_def demoRecord_def)
  show p: "caProjectID a = ''m1''" and i: "caClaimID a = demoEvID ''claim'' 1" and r: "caClaimRef a = ''c1''"
    using score_refs(1-3) [OF assms] t by (simp_all add: c demoClaim_def trimSpace_graphic graphic_def)
  show s: "caScore a = 100" by (rule demo_full_score [OF assms])
  obtain inputs where b: "buildInputs demoConf 6 ?rec (demoHealth ''ready'') (Some demoCheck) (Some demoImpact) = Inr inputs"
    and ins: "caInputs a = inputs" and d: "caBand a = bandOf (caScore a) (inContextHealthStatus inputs)"
    and rc: "caRecommendation a = recommendationFor (caScore a) (caBand a) ?rec inputs
      (Some demoCheck \<noteq> None \<and> smTotal (crsSummary (the (Some demoCheck))) > 0) (Some demoImpact \<noteq> None)"
    using scored [OF assms] by blast
  note eqs = inputs_of [OF b]
  have st: "inContextHealthStatus inputs = ''ready''" by (simp add: eqs demoHealth_def candidate_trim)
  have band: "caBand a = ScoreBandHigh" by (simp add: d s st bandOf_def scoreBand_def)
  show rcm: "caRecommendation a = ''promote''"
    unfolding rc by (simp add: s band st recommendationFor_def eqs hasDecisionState_def countStatus_def demoScored_def demoRecord_def
        demoDecision_def demoOutcome_def demoCheck_def isDegradedContext_def)
  have "refForm_cf (caID a)" by (simp add: score_refs(4) [OF assms] deterministicID_form)
  moreover have "CHR ''/'' \<notin> set (caID a)"
    using letters_no_slash by (simp add: score_refs(4) [OF assms] deterministicID_def letterEncode_cf_def)
  ultimately have id: "refOk demoConf (caID a)" by (intro plain_refOk) (auto simp: refForm_cf_def)
  have k: "checkAll safeEvidenceKind_kn (inEvidenceKinds (caInputs a)) = Inr ()"
    by (simp add: ins eqs evidenceKindsOf_def demoScored_def demoRecord_def demoEvidence_def demo_enums_kn)
  show "validateAssessmentMetadata demoConf a = Inr ()"
    unfolding validateAssessmentMetadata_def inOrder_Inr
    using k id by (simp add: p i r s band rcm check_eq refOk_eval refOk_opt knowledge_words demoEvID_refOk claim_prefix)
      (simp add: demo_enums_kn more_trims scoreBands_def recommendations_def)
qed

definition demoValidation :: ValidateCandidateWithInputsInput where
  "demoValidation = \<lparr>viProjectID = ''m1'', viKnowledgeID = demoKnowledgeID, viDecisionRef = ''d1'', viVerifierRef = ''v1'',
     viRationale = ''r1''\<rparr>"

lemma demo_promotes_with_inputs:
  assumes "svcScore demoConf 6 6 (demoScored [demoEvidence] [demoOutcome 1 ''passed'']) (demoHealth ''ready'')
    (Some demoCheck) (Some demoImpact) = Inr a"
  shows "\<exists>r st'. svcPromoteProjectWithInputs demoConf (Some (serviceAdapter demoNet demoConf))
    (demoFinal, storeAssessment newConfidenceStore a) 9 9 (demoBytes 1) demoValidation (demoStage 1) = (Inr r, st')"
proof -
  let ?c = "demoScored [demoEvidence] [demoOutcome 1 ''passed'']" and ?cs = "storeAssessment newConfidenceStore a"
  note a = demo_scored_assessment [OF assms]
  have t: "trimSpace ''m1'' = ''m1''" "trimSpace (demoEvID ''claim'' 1) = demoEvID ''claim'' 1"
    using demoID_form_cf [of "''claim''" 1] by (simp_all add: trimSpace_graphic graphic_def refForm_cf_def)
  have e: "svcGetClaim demoNet demoFinal ''m1'' (demoEvID ''claim'' 1) = Inr ?c"
    by (simp add: svcGetClaim_def memGetClaim_Inr demoFinal_def demoScored_def tidyChar_def)
  have "getAssessment ?cs (assessmentKey ''m1'' (demoEvID ''claim'' 1)) = Some a"
    using assessments.get_put_same [of newConfidenceStore a] by (simp add: assessmentKeyOf_def a)
  then have g: "svcGetAssessment demoConf (Some ?cs) ''m1'' (demoEvID ''claim'' 1) = Inr a"
    by (simp add: svcGetAssessment_def memGetAssessment_Inr tidy_form_cf tidyChar_def demoID_form_cf)
  have "adapterInputs demoConf (Some (serviceAdapter demoNet demoConf)) (demoFinal, ?cs) ''m1'' (demoEvID ''claim'' 1) = Inr (?c, a)"
    using e g by (simp add: adapterInputs_def serviceAdapter_def refOk_eval knowledge_words demoEvID_refOk claim_prefix t foreign_def a)
      (simp add: demoScored_def demoRecord_def demoClaim_def)
  then have b: "buildProjectGate demoConf (Some (serviceAdapter demoNet demoConf)) (demoFinal, ?cs) ''m1'' (demoEvID ''claim'' 1)
      = Inr \<lparr>pgClaim = ?c, pgConfidence = a\<rparr>"
    by (simp add: buildProjectGate_def)
  let ?i = "gateInput demoValidated demoValidation \<lparr>pgClaim = ?c, pgConfidence = a\<rparr>"
  have gate: "projectGate demoConf demoValidated ?c a" by (rule demo_gate) (simp_all add: a)
  have rd: "readRecord demoConf ''m1'' demoKnowledgeID (demoStage 1) = Inr demoValidated" by (rule demo_read [OF knowledge_stored(2)])
  obtain rec' d where p: "planPromoteProject demoConf 9 9 (demoBytes 1) ?i demoValidated = Inr (rec', d)"
    using planPromote_total [OF demoValidated_ok, of 9 9 "demoBytes 1" ?i] gate knowledge_words knowledge_texts
    by (auto simp: gateInput_def demoValidation_def)
  have s: "stateSound demoValidated"
    using reachable_knowledge [OF demo_reachable(2)] knowledge_stored(2) by (auto simp: knowledgeInv_def allVals_def)
  obtain r st' where cm: "commit (rec', d) (demoStage 1) = (r, st')" by (cases "commit (rec', d) (demoStage 1)")
  have "r = Inr rec'" using commit_change [OF cm knowledge_stored(2) _ plan_promote [OF p s]] by simp
  with cm p rd b show ?thesis
    by (simp add: svcPromoteProjectWithInputs_def svcPromoteProject_def seqS_def askS_def liftS_def demoValidation_def gateInput_def)
qed

theorem promotion_rests_on_services_witness:
  "\<exists>a r st'. confidenceReachable demoConf (storeAssessment newConfidenceStore a)
     \<and> svcPromoteProjectWithInputs demoConf (Some (serviceAdapter demoNet demoConf))
         (demoFinal, storeAssessment newConfidenceStore a) 9 9 (demoBytes 1) demoValidation (demoStage 1) = (Inr r, st')
     \<and> krState r = StateProjectPromoted"
proof -
  obtain a where a: "svcScore demoConf 6 6 (demoScored [demoEvidence] [demoOutcome 1 ''passed'']) (demoHealth ''ready'')
    (Some demoCheck) (Some demoImpact) = Inr a"
    using demo_scored [where es = "[demoEvidence]" and xs = "[demoOutcome 1 ''passed'']" and t = 6 and tt = 6 and status = "''ready''"]
    by auto
  then have "svcScoreClaim demoConf (Some newConfidenceStore) 6 6 demoInputs = (Inr a, Some (storeAssessment newConfidenceStore a))"
    by (simp add: svcScoreClaim_def memCreateAssessment_eq demoInputs_def)
  then have c: "confidenceReachable demoConf (storeAssessment newConfidenceStore a)"
    by (rule confidenceReachable.score [OF confidenceReachable.init])
  obtain r st' where s: "svcPromoteProjectWithInputs demoConf (Some (serviceAdapter demoNet demoConf))
    (demoFinal, storeAssessment newConfidenceStore a) 9 9 (demoBytes 1) demoValidation (demoStage 1) = (Inr r, st')"
    using demo_promotes_with_inputs [OF a] by blast
  from promotion_rests_on_services [OF demoFinal_reachable c s] c s show ?thesis by blast
qed

end
