(* ===== verification/Agent_Model.thy ===== *)
theory Agent_Model
  imports Store_Interface Evidence_Checks
begin

section \<open>Agent runs: data model, memory store and input checks\<close>

text \<open>
  \<open>internal/agentcontrol\<close>: the types of \<open>model/model.go\<close>, the memory store of \<open>store/memory.go\<close>, and
  the checks at the end of \<open>service/service.go\<close>. The clone functions of the store only detach slices.
\<close>

abbreviation TaskStatusPending :: string where "TaskStatusPending \<equiv> ''pending''"
abbreviation TaskStatusRunning :: string where "TaskStatusRunning \<equiv> ''running''"
abbreviation TaskStatusDone :: string where "TaskStatusDone \<equiv> ''done''"
abbreviation TaskStatusFailed :: string where "TaskStatusFailed \<equiv> ''failed''"
abbreviation ResearchRunStatusPending :: string where "ResearchRunStatusPending \<equiv> ''pending''"
abbreviation AgentRunStatusRunning :: string where "AgentRunStatusRunning \<equiv> ''running''"
abbreviation AgentRunStatusCompleted :: string where "AgentRunStatusCompleted \<equiv> ''completed''"
abbreviation AgentRunStatusFailed :: string where "AgentRunStatusFailed \<equiv> ''failed''"

definition agentPromotionStates :: "string list" where
  "agentPromotionStates = [''candidate'', ''validated'', ''promoted'', ''rejected'']"

subsection \<open>Records\<close>

record ControlTask =
  gtID :: string
  gtTitle :: string
  gtStatus :: string
  gtCreatedAt :: time
  gtUpdatedAt :: time

record ResearchRun =
  grID :: string
  grTaskID :: string
  grGoalSummary :: string
  grStatus :: string
  grCreatedAt :: time
  grUpdatedAt :: time

record CreateResearchRunInput =
  gsTaskID :: string
  gsGoalSummary :: string

record AgentVerifier =
  gvCommand :: string
  gvArgs :: "string list"
  gvScope :: string
  gvStatus :: string
  gvExitStatus :: int

record AgentArtifact =
  gfRef :: string
  gfKind :: string

record AgentPromotion =
  gpArtifactRef :: string
  gpArtifactKind :: string
  gpState :: string
  gpSourceRef :: string
  gpVerifierRef :: string
  gpDecision :: string
  gpDecidedAt :: time

record AgentStep =
  geID :: string
  geTraceID :: string
  geToolName :: string
  geToolCategory :: string
  geStatus :: string
  geStartedAt :: time
  geCompletedAt :: time
  geFailureCategory :: string
  geNotes :: string
  geChangedFiles :: "string list"
  geVerifiers :: "AgentVerifier list"
  geArtifacts :: "AgentArtifact list"

record AgentRun =
  gnID :: string
  gnTraceID :: string
  gnProjectID :: string
  gnTaskID :: string
  gnStatus :: string
  gnStartedAt :: time
  gnCompletedAt :: time
  gnFailureCategory :: string
  gnSummary :: string
  gnChangedFiles :: "string list"
  gnVerifiers :: "AgentVerifier list"
  gnArtifacts :: "AgentArtifact list"
  gnPromotions :: "AgentPromotion list"
  gnSteps :: "AgentStep list"

record CreateAgentRunInput =
  gcProjectID :: string
  gcTraceID :: string
  gcTaskID :: string
  gcSummary :: string
  gcChangedFiles :: "string list"
  gcVerifiers :: "AgentVerifier list"
  gcArtifacts :: "AgentArtifact list"

record AppendAgentStepInput =
  giRunID :: string
  giTraceID :: string
  giToolName :: string
  giToolCategory :: string
  giStatus :: string
  giFailureCategory :: string
  giNotes :: string
  giChangedFiles :: "string list"
  giVerifiers :: "AgentVerifier list"
  giArtifacts :: "AgentArtifact list"

record PromoteAgentArtifactInput =
  gqRunID :: string
  gqArtifactRef :: string
  gqArtifactKind :: string
  gqState :: string
  gqSourceRef :: string
  gqVerifierRef :: string
  gqDecision :: string

record CompleteAgentRunInput =
  gdRunID :: string
  gdStatus :: string
  gdFailureCategory :: string
  gdSummary :: string
  gdChangedFiles :: "string list"
  gdVerifiers :: "AgentVerifier list"
  gdArtifacts :: "AgentArtifact list"

subsection \<open>The memory store\<close>

record AgentStore =
  agTasks :: "(string, ControlTask) table"
  agResearch :: "(string, ResearchRun) table"
  agRuns :: "(string, AgentRun) table"

definition newAgentStore :: AgentStore where
  "newAgentStore = \<lparr>agTasks = [], agResearch = [], agRuns = []\<rparr>"

definition found :: "'a option \<Rightarrow> 'a res" where
  "found r = (case r of None \<Rightarrow> Inl ErrNotFound | Some x \<Rightarrow> Inr x)"

definition memCreateTask :: "ControlTask \<Rightarrow> (AgentStore, ControlTask) act" where
  "memCreateTask task st = (Inr task, st\<lparr>agTasks := tput (agTasks st) (gtID task) task\<rparr>)"

definition memGetTask :: "string \<Rightarrow> AgentStore \<Rightarrow> ControlTask res" where
  "memGetTask i st = found (tget (agTasks st) i)"

definition memUpdateTask :: "ControlTask \<Rightarrow> (AgentStore, ControlTask) act" where
  "memUpdateTask task st =
     (if \<not> thas (agTasks st) (gtID task) then (Inl ErrNotFound, st)
      else (Inr task, st\<lparr>agTasks := tput (agTasks st) (gtID task) task\<rparr>))"

definition memCreateResearchRun :: "ResearchRun \<Rightarrow> (AgentStore, ResearchRun) act" where
  "memCreateResearchRun run st = (Inr run, st\<lparr>agResearch := tput (agResearch st) (grID run) run\<rparr>)"

definition memGetResearchRun :: "string \<Rightarrow> AgentStore \<Rightarrow> ResearchRun res" where
  "memGetResearchRun i st = found (tget (agResearch st) i)"

definition memCreateAgentRun :: "AgentRun \<Rightarrow> (AgentStore, AgentRun) act" where
  "memCreateAgentRun run st = (Inr run, st\<lparr>agRuns := tput (agRuns st) (gnID run) run\<rparr>)"

definition memGetAgentRun :: "string \<Rightarrow> AgentStore \<Rightarrow> AgentRun res" where
  "memGetAgentRun i st = found (tget (agRuns st) i)"

text \<open>The three writes to a stored run.\<close>

definition updateRun :: "string \<Rightarrow> (AgentRun \<Rightarrow> AgentRun) \<Rightarrow> (AgentStore, AgentRun) act" where
  "updateRun i change st =
     (case tget (agRuns st) i of
        None \<Rightarrow> (Inl ErrNotFound, st)
      | Some run \<Rightarrow> (Inr (change run), st\<lparr>agRuns := tput (agRuns st) i (change run)\<rparr>))"

definition memAppendAgentStep :: "string \<Rightarrow> AgentStep \<Rightarrow> (AgentStore, AgentRun) act" where
  "memAppendAgentStep runID step = updateRun runID (\<lambda>run. run\<lparr>gnSteps := gnSteps run @ [step]\<rparr>)"

definition memPromoteAgentArtifact :: "string \<Rightarrow> AgentPromotion \<Rightarrow> (AgentStore, AgentRun) act" where
  "memPromoteAgentArtifact runID promotion =
     updateRun runID (\<lambda>run. run\<lparr>gnPromotions := gnPromotions run @ [promotion]\<rparr>)"

definition memCompleteAgentRun :: "AgentRun \<Rightarrow> (AgentStore, AgentRun) act" where
  "memCompleteAgentRun run = updateRun (gnID run) (\<lambda>_. run)"

definition getAgentRun :: "AgentStore \<Rightarrow> string \<Rightarrow> AgentRun option" where
  "getAgentRun st = tget (agRuns st)"

definition putAgentRun :: "AgentStore \<Rightarrow> AgentRun \<Rightarrow> AgentStore" where
  "putAgentRun st run = st\<lparr>agRuns := tput (agRuns st) (gnID run) run\<rparr>"

definition getTask_ag :: "AgentStore \<Rightarrow> string \<Rightarrow> ControlTask option" where
  "getTask_ag st = tget (agTasks st)"

definition putTask_ag :: "AgentStore \<Rightarrow> ControlTask \<Rightarrow> AgentStore" where
  "putTask_ag st task = st\<lparr>agTasks := tput (agTasks st) (gtID task) task\<rparr>"

interpretation runs: keyed_store getAgentRun putAgentRun gnID
  by unfold_locales (simp add: getAgentRun_def putAgentRun_def store_simps)

interpretation tasks: keyed_store getTask_ag putTask_ag gtID
  by unfold_locales (simp add: getTask_ag_def putTask_ag_def store_simps)

lemma agent_frames [simp]:
  "getTask_ag (putAgentRun st run) = getTask_ag st" "getAgentRun (putTask_ag st task) = getAgentRun st"
  "agResearch (putAgentRun st run) = agResearch st" "agResearch (putTask_ag st task) = agResearch st"
  by (simp_all add: getTask_ag_def putAgentRun_def getAgentRun_def putTask_ag_def)

lemma found_Inr [simp]: "found r = Inr x \<longleftrightarrow> r = Some x"
  by (simp add: found_def split: option.splits)

lemma mem_agent:
  "memCreateTask task st = (Inr task, putTask_ag st task)"
  "memUpdateTask task st = (if getTask_ag st (gtID task) = None then (Inl ErrNotFound, st) else (Inr task, putTask_ag st task))"
  "memGetTask i st = found (getTask_ag st i)"
  "memGetAgentRun i st = found (getAgentRun st i)"
  "memCreateAgentRun run st = (Inr run, putAgentRun st run)"
  by (simp_all add: memCreateTask_def memUpdateTask_def memGetTask_def memGetAgentRun_def memCreateAgentRun_def putTask_ag_def
      putAgentRun_def getTask_ag_def getAgentRun_def thas_def)

lemma updateRun_Inr:
  "updateRun i change st = (Inr r, st') \<Longrightarrow> keyed getAgentRun gnID st \<Longrightarrow> (\<And>run. gnID (change run) = gnID run)
    \<Longrightarrow> \<exists>run. getAgentRun st i = Some run \<and> gnID run = i \<and> r = change run \<and> st' = putAgentRun st r"
  by (auto simp: updateRun_def getAgentRun_def putAgentRun_def keyed_def split: option.splits)

subsection \<open>Markers\<close>

definition prohibitedMarkers_ag :: "string list" where
  "prohibitedMarkers_ag =
    [''match ('', ''select '', ''insert into'', ''update '', ''delete from'', ''pragma '', ''raw prompt'',
     ''raw completion'', ''raw source'', ''raw stderr'', ''provider payload'', ''authorization:'', ''bearer '',
     ''begin private key'', ''api_key='', ''token='', ''secret='', ''password='']"

text \<open>The phrases are those of \<open>Safe_Text\<close> without the nouns with an underscore.\<close>

definition redactSafeProhibitionPhrases_ag :: "string \<Rightarrow> string" where
  "redactSafeProhibitionPhrases_ag value =
     (let v1 = (if list_ex (contains value) prohibitionCues
                then fold (\<lambda>marker v. replaceAll marker [] v) prefixedNouns value
                else value)
      in fold (\<lambda>p v. fold (\<lambda>marker v. replaceAll (p @ '' '' @ marker) [] v) prefixedNouns v)
           prohibitionPrefixes v1)"

definition containsProhibitedMarker_ag :: "string \<Rightarrow> bool" where
  "containsProhibitedMarker_ag value =
     list_ex (contains (redactSafeProhibitionPhrases_ag (toLower value))) prohibitedMarkers_ag"

definition containsProhibitedData_ag :: "string \<Rightarrow> bool" where
  "containsProhibitedData_ag value =
     (containsProhibitedMarker_ag value \<or> matchString emailPattern value \<or> matchString phonePattern value)"

subsection \<open>Identifiers, texts and paths\<close>

definition safeIdentifier_ag :: "string \<Rightarrow> string \<Rightarrow> string res" where
  "safeIdentifier_ag = safeIdentifierWith (\<lambda>_. False)"

definition safeOptionalIdentifier_ag :: "string \<Rightarrow> string \<Rightarrow> string res" where
  "safeOptionalIdentifier_ag = optionalWith safeIdentifier_ag"

definition safeRefIdentifier_ag :: "string \<Rightarrow> string \<Rightarrow> string res" where
  "safeRefIdentifier_ag value0 field =
     tryE (safeIdentifier_ag value0 field) (\<lambda>value.
     let normalized = replaceAll backslash ''/'' value
     in if hasPrefix normalized ''/'' \<or> contains normalized ''..'' \<or> isAbs normalized \<or> containsProhibitedMarker_ag normalized
        then Inl (ErrInvalidInput (field @ '' is unsafe'')) else Inr normalized)"

definition looksLikeSourceDump_ag :: "string \<Rightarrow> bool" where
  "looksLikeSourceDump_ag value =
     (let normalized = toLower value
      in length (filter (\<lambda>c. c = newline) value) > 4 \<or> contains normalized ''package main''
         \<or> contains normalized ''func '' \<or> contains normalized ''-----begin''
         \<or> contains normalized ''traceback (most recent call last)'')"

definition safeOptionalText_ag :: "string \<Rightarrow> string \<Rightarrow> nat \<Rightarrow> string res" where
  "safeOptionalText_ag value0 field maxLength =
     (let value = trimSpace value0
      in if value = [] then Inr []
         else if length value > maxLength \<or> containsProhibitedData_ag value \<or> looksLikeSourceDump_ag value
         then Inl (ErrInvalidInput (field @ '' is unsafe'')) else Inr value)"

definition unsafePath_ag :: "string \<Rightarrow> bool" where
  "unsafePath_ag path =
     (length path > 300 \<or> hasPrefix path ''/'' \<or> contains path ''..'' \<or> isAbs path \<or> containsProhibitedData_ag path)"

fun safeRelativePaths_ag :: "string list \<Rightarrow> string list res" where
  "safeRelativePaths_ag [] = Inr []"
| "safeRelativePaths_ag (raw # paths) =
     (let path = trimSpace (replaceAll backslash ''/'' raw)
      in if path = [] then safeRelativePaths_ag paths
         else if unsafePath_ag path then Inl (ErrInvalidInput ''changed file path is unsafe'')
         else tryE (safeRelativePaths_ag paths) (\<lambda>out. Inr (path # out)))"

subsection \<open>Verifiers\<close>

text \<open>
  \<open>url.Parse\<close> and \<open>net.ParseIP(host).IsLoopback()\<close> are parameters: the parts of a parsed URL that are
  used (\<open>None\<close> when the parser fails) and the test of a host. \<open>equalFold\<close> is \<open>strings.EqualFold\<close>.
\<close>

record UrlParts =
  upUser :: bool
  upRawQuery :: string
  upFragment :: string
  upScheme :: string
  upHostname :: string

record AgentLib =
  alParse :: "string \<Rightarrow> UrlParts option"
  alLoopback :: "string \<Rightarrow> bool"

definition isSafeLoopbackURL :: "AgentLib \<Rightarrow> string \<Rightarrow> bool" where
  "isSafeLoopbackURL lib value =
     (case alParse lib value of
        None \<Rightarrow> False
      | Some parsed \<Rightarrow>
          if upUser parsed \<or> upRawQuery parsed \<noteq> [] \<or> upFragment parsed \<noteq> [] then False
          else if upScheme parsed \<noteq> ''http'' \<and> upScheme parsed \<noteq> ''https'' then False
          else if equalFold (upHostname parsed) ''localhost'' then True
          else alLoopback lib (upHostname parsed))"

definition containsPathTraversal :: "string \<Rightarrow> bool" where
  "containsPathTraversal value =
     (let normalized = replaceAll backslash ''/'' value
      in normalized = ''..'' \<or> hasPrefix normalized ''../'' \<or> hasSuffix normalized ''/..'' \<or> contains normalized ''/../'')"

definition looksLikeRootPath :: "string \<Rightarrow> bool" where
  "looksLikeRootPath value =
     (let normalized = toLower (replaceAll backslash ''/'' value)
      in contains normalized ''/home/'' \<or> contains normalized ''/users/'' \<or> contains normalized ''wsl.localhost/''
         \<or> matchPrefix (Seq (Cls lowerCls) (lit '':/'')) normalized)"

definition safeVerifierArg :: "AgentLib \<Rightarrow> string \<Rightarrow> string res" where
  "safeVerifierArg lib value0 =
     (let value = trimSpace (replaceAll backslash ''/'' value0)
      in if value = [] then Inl (ErrInvalidInput ''verifier arg is required'')
         else if length value > 200 \<or> hasPrefix value ''/'' \<or> isAbs value \<or> looksLikeRootPath value
         then Inl (ErrInvalidInput ''verifier arg is unsafe'')
         else if contains value ''://'' then
           (if \<not> isSafeLoopbackURL lib value then Inl (ErrInvalidInput ''verifier arg is unsafe'') else Inr value)
         else if containsPathTraversal value \<or> containsProhibitedData_ag value
         then Inl (ErrInvalidInput ''verifier arg is unsafe'') else Inr value)"

definition safeVerifierCommand :: "AgentLib \<Rightarrow> string \<Rightarrow> (string \<times> string list) res" where
  "safeVerifierCommand lib value =
     (case Go_Strings.fields (trimSpace value) of
        [] \<Rightarrow> Inl (ErrInvalidInput ''verifier.command is required'')
      | f # fs \<Rightarrow>
          tryE (safeIdentifier_ag f ''verifier.command'') (\<lambda>command.
          tryE (mapE (safeVerifierArg lib) fs) (\<lambda>args. Inr (command, args))))"

definition safeVerifier :: "AgentLib \<Rightarrow> AgentVerifier \<Rightarrow> AgentVerifier res" where
  "safeVerifier lib verifier =
     tryE (safeVerifierCommand lib (gvCommand verifier)) (\<lambda>(command, commandArgs).
     tryE (mapE (safeVerifierArg lib) (gvArgs verifier)) (\<lambda>args.
     tryE (safeOptionalText_ag (gvScope verifier) ''verifier.scope'' 200) (\<lambda>scope.
     tryE (safeOptionalIdentifier_ag (gvStatus verifier) ''verifier.status'') (\<lambda>status.
     Inr \<lparr>gvCommand = command, gvArgs = commandArgs @ args, gvScope = scope, gvStatus = status,
       gvExitStatus = gvExitStatus verifier\<rparr>))))"

definition safeVerifiers :: "AgentLib \<Rightarrow> AgentVerifier list \<Rightarrow> AgentVerifier list res" where
  "safeVerifiers lib = mapE (safeVerifier lib)"

definition verifierInputHasURL :: "AgentVerifier list \<Rightarrow> bool" where
  "verifierInputHasURL verifiers =
     list_ex (\<lambda>v. contains (gvCommand v) ''://'' \<or> list_ex (\<lambda>arg. contains arg ''://'') (gvArgs v)) verifiers"

subsection \<open>Artifacts and enumerations\<close>

definition safeArtifact :: "AgentArtifact \<Rightarrow> AgentArtifact res" where
  "safeArtifact artifact =
     tryE (safeRefIdentifier_ag (gfRef artifact) ''artifact.ref'') (\<lambda>ref.
     tryE (safeOptionalIdentifier_ag (gfKind artifact) ''artifact.kind'') (\<lambda>kind.
     Inr \<lparr>gfRef = ref, gfKind = kind\<rparr>))"

definition safeArtifacts :: "AgentArtifact list \<Rightarrow> AgentArtifact list res" where
  "safeArtifacts = mapE safeArtifact"

definition safeAgentRunStatus :: "string \<Rightarrow> bool \<Rightarrow> string res" where
  "safeAgentRunStatus status0 allowRunning =
     (let status = trimSpace status0
      in if status = AgentRunStatusCompleted \<or> status = AgentRunStatusFailed then Inr status
         else if status = AgentRunStatusRunning \<and> allowRunning then Inr status
         else Inl (ErrInvalidInput ''status is invalid''))"

definition safePromotionState_ag :: "string \<Rightarrow> string res" where
  "safePromotionState_ag = safeEnum agentPromotionStates ''promotion state''"

definition findAgentArtifact :: "AgentRun \<Rightarrow> string \<Rightarrow> AgentArtifact option" where
  "findAgentArtifact run ref =
     find (\<lambda>artifact. gfRef artifact = ref) (gnArtifacts run @ concat (map geArtifacts (gnSteps run)))"

fun firstNonEmpty_ag :: "string list \<Rightarrow> string" where
  "firstNonEmpty_ag [] = []"
| "firstNonEmpty_ag (v # vs) = (if trimSpace v \<noteq> [] then v else firstNonEmpty_ag vs)"

definition hexDigits :: string where
  "hexDigits = ''0123456789abcdef''"

fun hexEncode :: "8 word list \<Rightarrow> string" where
  "hexEncode [] = []"
| "hexEncode (b # bs) = hexDigits ! (unat b div 16) # hexDigits ! (unat b mod 16) # hexEncode bs"

definition newID_ag :: "string \<Rightarrow> 8 word list \<Rightarrow> string" where
  "newID_ag pre b = pre @ ''_'' @ hexEncode b"

end
