(* ===== verification/Agent_Service.thy ===== *)
theory Agent_Service
  imports Agent_Model
begin

section \<open>Agent runs: the service\<close>

text \<open>
  The methods of \<open>internal/agentcontrol/service/service.go\<close>. The policy recorder is optional; what
  it is given is the list of events of the state. The guard against a missing store of agent runs
  is left out: the memory store is one. The fields of a run event that are constant or repeat its
  kind are left out too.
\<close>

record RunEvent =
  gyKind :: string
  gyProjectID :: string
  gyTraceID :: string
  gyRunID :: string
  gyParentID :: string
  gyToolName :: string
  gyStatus :: string
  gyFailureCategory :: string

datatype agentEvent = PolicyEvent string string string | RunEventRecorded RunEvent

record AgentState =
  gzStore :: AgentStore
  gzRecorder :: "agentEvent list option"

definition recordEvent :: "agentEvent \<Rightarrow> AgentState \<Rightarrow> AgentState" where
  "recordEvent e st = st\<lparr>gzRecorder := (case gzRecorder st of None \<Rightarrow> None | Some es \<Rightarrow> Some (es @ [e]))\<rparr>"

definition recordPolicyEvent :: "string \<Rightarrow> string \<Rightarrow> string \<Rightarrow> AgentState \<Rightarrow> AgentState" where
  "recordPolicyEvent projectID category path = recordEvent (PolicyEvent projectID category path)"

definition recordVerifierPolicyEvent :: "string \<Rightarrow> AgentVerifier list \<Rightarrow> AgentState \<Rightarrow> AgentState" where
  "recordVerifierPolicyEvent projectID verifiers =
     recordPolicyEvent projectID (if verifierInputHasURL verifiers then ''invalid_verifier_url'' else ''unsafe_edit'') []"

definition recordAgentRunEvent :: "AgentRun \<Rightarrow> string \<Rightarrow> string \<Rightarrow> string \<Rightarrow> string \<Rightarrow> string \<Rightarrow> AgentState \<Rightarrow> AgentState" where
  "recordAgentRunEvent run kind parentID status failureCategory toolName =
     recordEvent (RunEventRecorded \<lparr>gyKind = kind, gyProjectID = gnProjectID run,
       gyTraceID = (if gnTraceID run = [] then gnID run else gnTraceID run), gyRunID = gnID run, gyParentID = parentID,
       gyToolName = toolName, gyStatus = status, gyFailureCategory = failureCategory\<rparr>)"

text \<open>A check whose failure is recorded; a write to the store; a record of a run that was written.\<close>

definition orRecord :: "(AgentState \<Rightarrow> AgentState) \<Rightarrow> 'a res \<Rightarrow> (AgentState, 'a) act" where
  "orRecord note r st = (case r of Inl e \<Rightarrow> (Inl e, note st) | Inr x \<Rightarrow> (Inr x, st))"

definition inStore_ag :: "(AgentStore, 'a) act \<Rightarrow> (AgentState, 'a) act" where
  "inStore_ag m st = (case m (gzStore st) of (r, s) \<Rightarrow> (r, st\<lparr>gzStore := s\<rparr>))"

definition readStore_ag :: "(AgentStore \<Rightarrow> 'a res) \<Rightarrow> (AgentState, 'a) act" where
  "readStore_ag f st = (f (gzStore st), st)"

definition noted :: "(AgentState \<Rightarrow> AgentState) \<Rightarrow> 'a \<Rightarrow> (AgentState, 'a) act" where
  "noted note x st = (Inr x, note st)"

subsection \<open>Tasks and research runs\<close>

definition checkText_ag :: "string \<Rightarrow> nat \<Rightarrow> string \<Rightarrow> string res" where
  "checkText_ag field mx value0 =
     (let value = trimSpace value0
      in if value = [] then Inl (ErrInvalidInput (field @ '' is required''))
         else if length value > mx then Inl (ErrInvalidInput (field @ '' exceeds '' @ showNat mx @ '' characters''))
         else if containsProhibitedData_ag value
         then Inl (ErrInvalidInput (field @ '' must not contain raw queries, prompts, secrets, tokens, or personal data''))
         else Inr value)"

definition svcCreateTask :: "time \<Rightarrow> 8 word list \<Rightarrow> string \<Rightarrow> (AgentState, ControlTask) act" where
  "svcCreateTask now rnd title0 =
     seqS (liftS (checkText_ag ''title'' 200 title0)) (\<lambda>title.
     inStore_ag (memCreateTask \<lparr>gtID = newID_ag ''task'' rnd, gtTitle = title, gtStatus = TaskStatusPending,
       gtCreatedAt = now, gtUpdatedAt = now\<rparr>))"

definition requiredID :: "string \<Rightarrow> string \<Rightarrow> string res" where
  "requiredID field i0 =
     (let i = trimSpace i0 in if i = [] then Inl (ErrInvalidInput (field @ '' is required'')) else Inr i)"

definition svcGetTask :: "string \<Rightarrow> (AgentState, ControlTask) act" where
  "svcGetTask i0 = seqS (liftS (requiredID ''id'' i0)) (\<lambda>i. readStore_ag (memGetTask i))"

definition updateTaskStatus :: "time \<Rightarrow> ControlTask \<Rightarrow> string \<Rightarrow> (AgentState, ControlTask) act" where
  "updateTaskStatus now task status = inStore_ag (memUpdateTask (task\<lparr>gtStatus := status, gtUpdatedAt := now\<rparr>))"

definition svcStartTask :: "time \<Rightarrow> string \<Rightarrow> (AgentState, ControlTask) act" where
  "svcStartTask now i =
     seqS (svcGetTask i) (\<lambda>task.
     if gtStatus task \<noteq> TaskStatusPending then liftS (Inl (ErrInvalidInput ''task can start only from pending''))
     else updateTaskStatus now task TaskStatusRunning)"

definition svcCompleteTask :: "time \<Rightarrow> string \<Rightarrow> (AgentState, ControlTask) act" where
  "svcCompleteTask now i =
     seqS (svcGetTask i) (\<lambda>task.
     if gtStatus task \<noteq> TaskStatusRunning then liftS (Inl (ErrInvalidInput ''task can complete only from running''))
     else updateTaskStatus now task TaskStatusDone)"

definition svcFailTask :: "time \<Rightarrow> string \<Rightarrow> (AgentState, ControlTask) act" where
  "svcFailTask now i =
     seqS (svcGetTask i) (\<lambda>task.
     if gtStatus task \<noteq> TaskStatusPending \<and> gtStatus task \<noteq> TaskStatusRunning
     then liftS (Inl (ErrInvalidInput ''task can fail only from pending or running''))
     else updateTaskStatus now task TaskStatusFailed)"

definition svcCreateResearchRun :: "time \<Rightarrow> 8 word list \<Rightarrow> CreateResearchRunInput \<Rightarrow> (AgentState, ResearchRun) act" where
  "svcCreateResearchRun now rnd input =
     seqS (liftS (requiredID ''task_id'' (gsTaskID input))) (\<lambda>taskID.
     seqS (readStore_ag (memGetTask taskID)) (\<lambda>_.
     seqS (liftS (checkText_ag ''goal_summary'' 500 (gsGoalSummary input))) (\<lambda>goalSummary.
     inStore_ag (memCreateResearchRun \<lparr>grID = newID_ag ''research_run'' rnd, grTaskID = taskID, grGoalSummary = goalSummary,
       grStatus = ResearchRunStatusPending, grCreatedAt = now, grUpdatedAt = now\<rparr>))))"

definition svcGetResearchRun :: "string \<Rightarrow> (AgentState, ResearchRun) act" where
  "svcGetResearchRun i0 = seqS (liftS (requiredID ''id'' i0)) (\<lambda>i. readStore_ag (memGetResearchRun i))"

subsection \<open>Agent runs\<close>

definition svcCreateAgentRun :: "AgentLib \<Rightarrow> time \<Rightarrow> 8 word list \<Rightarrow> CreateAgentRunInput \<Rightarrow> (AgentState, AgentRun) act" where
  "svcCreateAgentRun lib now rnd input =
     seqS (liftS (safeIdentifier_ag (gcProjectID input) ''project_id'')) (\<lambda>projectID.
     seqS (liftS (safeOptionalIdentifier_ag (gcTraceID input) ''trace_id'')) (\<lambda>traceID.
     let taskID = trimSpace (gcTaskID input) in
     seqS (if taskID \<noteq> [] then seqS (readStore_ag (memGetTask taskID)) (\<lambda>_. retS ()) else retS ()) (\<lambda>_.
     seqS (liftS (safeOptionalText_ag (gcSummary input) ''summary'' 500)) (\<lambda>summary.
     seqS (orRecord (recordPolicyEvent projectID ''unsafe_edit'' []) (safeRelativePaths_ag (gcChangedFiles input))) (\<lambda>changedFiles.
     seqS (orRecord (recordVerifierPolicyEvent projectID (gcVerifiers input)) (safeVerifiers lib (gcVerifiers input))) (\<lambda>verifiers.
     seqS (liftS (safeArtifacts (gcArtifacts input))) (\<lambda>artifacts.
     let runID = newID_ag ''agent_run'' rnd in
     seqS (inStore_ag (memCreateAgentRun \<lparr>gnID = runID, gnTraceID = (if traceID = [] then runID else traceID),
       gnProjectID = projectID, gnTaskID = taskID, gnStatus = AgentRunStatusRunning, gnStartedAt = now,
       gnCompletedAt = zeroTime, gnFailureCategory = [], gnSummary = summary, gnChangedFiles = changedFiles,
       gnVerifiers = verifiers, gnArtifacts = artifacts, gnPromotions = [], gnSteps = []\<rparr>)) (\<lambda>run.
     noted (recordAgentRunEvent run ''agent_run_started'' [] (gnStatus run) [] []) run))))))))"

definition svcAppendAgentStep ::
    "AgentLib \<Rightarrow> time \<Rightarrow> 8 word list \<Rightarrow> string \<Rightarrow> AppendAgentStepInput \<Rightarrow> (AgentState, AgentRun) act" where
  "svcAppendAgentStep lib now rnd runID0 input =
     seqS (liftS (safeIdentifier_ag (firstNonEmpty_ag [runID0, giRunID input]) ''run_id'')) (\<lambda>runID.
     seqS (liftS (safeAgentRunStatus (firstNonEmpty_ag [giStatus input, AgentRunStatusRunning]) True)) (\<lambda>status.
     seqS (liftS (safeOptionalIdentifier_ag (giTraceID input) ''trace_id'')) (\<lambda>traceID.
     seqS (liftS (safeOptionalIdentifier_ag (giToolName input) ''tool_name'')) (\<lambda>toolName.
     seqS (liftS (safeOptionalIdentifier_ag (giToolCategory input) ''tool_category'')) (\<lambda>toolCategory.
     seqS (liftS (safeOptionalIdentifier_ag (giFailureCategory input) ''failure_category'')) (\<lambda>failureCategory.
     seqS (liftS (safeOptionalText_ag (giNotes input) ''notes'' 500)) (\<lambda>notes.
     seqS (orRecord (recordPolicyEvent [] ''unsafe_edit'' []) (safeRelativePaths_ag (giChangedFiles input))) (\<lambda>changedFiles.
     seqS (orRecord (recordVerifierPolicyEvent [] (giVerifiers input)) (safeVerifiers lib (giVerifiers input))) (\<lambda>verifiers.
     seqS (liftS (safeArtifacts (giArtifacts input))) (\<lambda>artifacts.
     let step = \<lparr>geID = newID_ag ''agent_step'' rnd, geTraceID = traceID, geToolName = toolName,
       geToolCategory = toolCategory, geStatus = status, geStartedAt = now, geCompletedAt = now,
       geFailureCategory = failureCategory, geNotes = notes, geChangedFiles = changedFiles, geVerifiers = verifiers,
       geArtifacts = artifacts\<rparr> in
     seqS (readStore_ag (memGetAgentRun runID)) (\<lambda>run.
     let traced = (if geTraceID step = [] then step\<lparr>geTraceID := gnTraceID run\<rparr> else step) in
     seqS (inStore_ag (memAppendAgentStep runID traced)) (\<lambda>updated.
     noted (recordAgentRunEvent updated ''agent_step'' (geID traced) (geStatus traced) (geFailureCategory traced) (geToolName traced))
       updated))))))))))))"

definition svcPromoteAgentArtifact ::
    "time \<Rightarrow> string \<Rightarrow> PromoteAgentArtifactInput \<Rightarrow> (AgentState, AgentRun) act" where
  "svcPromoteAgentArtifact now runID0 input =
     seqS (liftS (safeIdentifier_ag (firstNonEmpty_ag [runID0, gqRunID input]) ''run_id'')) (\<lambda>runID.
     seqS (liftS (safeRefIdentifier_ag (gqArtifactRef input) ''artifact_ref'')) (\<lambda>artifactRef.
     seqS (liftS (safePromotionState_ag (gqState input))) (\<lambda>state.
     seqS (liftS (safeRefIdentifier_ag (gqSourceRef input) ''source_ref'')) (\<lambda>sourceRef.
     seqS (liftS (safeOptionalIdentifier_ag (gqVerifierRef input) ''verifier_ref'')) (\<lambda>verifierRef.
     seqS (liftS (failIf (state \<noteq> ''candidate'' \<and> verifierRef = [])
       (ErrInvalidInput ''verifier_ref is required for promotion decisions''))) (\<lambda>_.
     seqS (liftS (safeOptionalText_ag (gqDecision input) ''decision'' 500)) (\<lambda>decision.
     seqS (liftS (failIf (state \<noteq> ''candidate'' \<and> decision = [])
       (ErrInvalidInput ''decision is required for promotion decisions''))) (\<lambda>_.
     seqS (readStore_ag (memGetAgentRun runID)) (\<lambda>run.
     (case findAgentArtifact run artifactRef of
        None \<Rightarrow> liftS (Inl (ErrInvalidInput ''artifact_ref must match an existing run or step artifact''))
      | Some artifact \<Rightarrow>
     seqS (liftS (safeOptionalIdentifier_ag (gqArtifactKind input) ''artifact_kind'')) (\<lambda>kind.
     let artifactKind = (if kind = [] then gfKind artifact else kind) in
     seqS (liftS (failIf (gfKind artifact \<noteq> [] \<and> artifactKind \<noteq> gfKind artifact)
       (ErrInvalidInput ''artifact_kind does not match artifact_ref''))) (\<lambda>_.
     seqS (inStore_ag (memPromoteAgentArtifact runID \<lparr>gpArtifactRef = artifactRef, gpArtifactKind = artifactKind,
       gpState = state, gpSourceRef = sourceRef, gpVerifierRef = verifierRef, gpDecision = decision, gpDecidedAt = now\<rparr>)) (\<lambda>updated.
     noted (recordAgentRunEvent updated ''agent_promotion'' sourceRef state [] artifactRef) updated)))))))))))))"

definition svcCompleteAgentRun ::
    "AgentLib \<Rightarrow> time \<Rightarrow> string \<Rightarrow> CompleteAgentRunInput \<Rightarrow> (AgentState, AgentRun) act" where
  "svcCompleteAgentRun lib now runID0 input =
     seqS (liftS (safeIdentifier_ag (firstNonEmpty_ag [runID0, gdRunID input]) ''run_id'')) (\<lambda>runID.
     seqS (liftS (safeAgentRunStatus (gdStatus input) False)) (\<lambda>status.
     seqS (liftS (safeOptionalIdentifier_ag (gdFailureCategory input) ''failure_category'')) (\<lambda>failureCategory.
     seqS (liftS (safeOptionalText_ag (gdSummary input) ''summary'' 500)) (\<lambda>summary.
     seqS (orRecord (recordPolicyEvent [] ''unsafe_edit'' []) (safeRelativePaths_ag (gdChangedFiles input))) (\<lambda>changedFiles.
     seqS (orRecord (recordVerifierPolicyEvent [] (gdVerifiers input)) (safeVerifiers lib (gdVerifiers input))) (\<lambda>verifiers.
     seqS (liftS (safeArtifacts (gdArtifacts input))) (\<lambda>artifacts.
     seqS (readStore_ag (memGetAgentRun runID)) (\<lambda>run.
     seqS (inStore_ag (memCompleteAgentRun (run\<lparr>gnStatus := status, gnCompletedAt := now, gnFailureCategory := failureCategory,
       gnSummary := (if summary \<noteq> [] then summary else gnSummary run),
       gnChangedFiles := (if changedFiles \<noteq> [] then changedFiles else gnChangedFiles run),
       gnVerifiers := (if verifiers \<noteq> [] then verifiers else gnVerifiers run),
       gnArtifacts := (if artifacts \<noteq> [] then artifacts else gnArtifacts run)\<rparr>))) (\<lambda>updated.
     noted (recordAgentRunEvent updated ''agent_run_completed'' [] (gnStatus updated) (gnFailureCategory updated) []) updated)))))))))"

definition svcGetAgentRun :: "string \<Rightarrow> (AgentState, AgentRun) act" where
  "svcGetAgentRun i0 = seqS (liftS (safeIdentifier_ag i0 ''id'')) (\<lambda>i. readStore_ag (memGetAgentRun i))"

end
