(* ===== verification/Agent_Properties.thy ===== *)
theory Agent_Properties
  imports Agent_Service
begin

section \<open>Agent runs: properties\<close>

text \<open>
  What the checks accept, what each method does to the store, the invariant of the states that calls
  reach, the properties, and a small run of the service on which they are applied.
\<close>

subsection \<open>What checked values satisfy\<close>

definition identForm :: "string \<Rightarrow> bool" where
  "identForm r \<longleftrightarrow> r \<noteq> [] \<and> length r \<le> 200 \<and> list_all identByte r"

definition refForm_ag :: "string \<Rightarrow> bool" where
  "refForm_ag r \<longleftrightarrow> identForm r \<and> \<not> hasPrefix r ''/'' \<and> \<not> contains r ''..'' \<and> \<not> containsProhibitedMarker_ag r"

text \<open>
  The checks of an argument are literal: \<open>argForm\<close> rules out \<open>..\<close> as a whole component of a path and a
  leading slash, it does not imply that the argument stays in the directory (\<open>--out=../x\<close>).
\<close>

definition argForm :: "AgentLib \<Rightarrow> string \<Rightarrow> bool" where
  "argForm lib a \<longleftrightarrow> a \<noteq> [] \<and> length a \<le> 200 \<and> \<not> hasPrefix a ''/'' \<and> \<not> looksLikeRootPath a
     \<and> (if contains a ''://'' then isSafeLoopbackURL lib a else \<not> containsPathTraversal a \<and> \<not> containsProhibitedData_ag a)"

definition verifierForm :: "AgentLib \<Rightarrow> AgentVerifier \<Rightarrow> bool" where
  "verifierForm lib v \<longleftrightarrow> identForm (gvCommand v) \<and> list_all (argForm lib) (gvArgs v) \<and> (gvStatus v = [] \<or> identForm (gvStatus v))"

definition artifactForm :: "AgentArtifact \<Rightarrow> bool" where
  "artifactForm f \<longleftrightarrow> refForm_ag (gfRef f) \<and> (gfKind f = [] \<or> identForm (gfKind f))"

definition workForm :: "AgentLib \<Rightarrow> string list \<Rightarrow> AgentVerifier list \<Rightarrow> AgentArtifact list \<Rightarrow> bool" where
  "workForm lib files vs fs \<longleftrightarrow> list_all (\<lambda>p. p \<noteq> [] \<and> \<not> unsafePath_ag p) files \<and> list_all (verifierForm lib) vs \<and> list_all artifactForm fs"

definition agentStatuses :: "string list" where
  "agentStatuses = [AgentRunStatusRunning, AgentRunStatusCompleted, AgentRunStatusFailed]"

definition stepForm :: "AgentLib \<Rightarrow> AgentStep \<Rightarrow> bool" where
  "stepForm lib e \<longleftrightarrow> geStatus e \<in> set agentStatuses \<and> geTraceID e \<noteq> [] \<and> workForm lib (geChangedFiles e) (geVerifiers e) (geArtifacts e)"

definition promotionForm :: "AgentPromotion \<Rightarrow> bool" where
  "promotionForm p \<longleftrightarrow> gpState p \<in> set agentPromotionStates \<and> refForm_ag (gpArtifactRef p) \<and> refForm_ag (gpSourceRef p)
     \<and> (gpState p \<noteq> ''candidate'' \<longrightarrow> gpVerifierRef p \<noteq> [] \<and> gpDecision p \<noteq> [])"

definition runForm :: "AgentLib \<Rightarrow> AgentRun \<Rightarrow> bool" where
  "runForm lib run \<longleftrightarrow> identForm (gnProjectID run) \<and> gnTraceID run \<noteq> [] \<and> gnStatus run \<in> set agentStatuses
     \<and> workForm lib (gnChangedFiles run) (gnVerifiers run) (gnArtifacts run) \<and> list_all promotionForm (gnPromotions run)
     \<and> list_all (stepForm lib) (gnSteps run)"

lemma safeIdentifier_ag_Inr: "safeIdentifier_ag v f = Inr r \<longleftrightarrow> r = trimSpace v \<and> identForm r"
  by (auto simp: safeIdentifier_ag_def safeIdentifierWith_Inr identForm_def)

lemma safeOptionalIdentifier_ag_Inr: "safeOptionalIdentifier_ag v f = Inr r \<longleftrightarrow> r = trimSpace v \<and> (r = [] \<or> identForm r)"
  by (auto simp: safeOptionalIdentifier_ag_def optionalWith_Inr safeIdentifier_ag_Inr isBlank_def identForm_def)

lemma safeRefIdentifier_ag_Inr: "safeRefIdentifier_ag v f = Inr r \<Longrightarrow> refForm_ag r"
  by (auto simp: safeRefIdentifier_ag_def safeIdentifier_ag_Inr tryE_Inr refForm_ag_def Let_def identForm_def replaceAll_absent
      identByte_not_backslash split: if_splits)

lemma safeVerifierArg_Inr: "safeVerifierArg lib v = Inr r \<Longrightarrow> argForm lib r"
  by (auto simp: safeVerifierArg_def Let_def argForm_def split: if_splits)

lemma safeVerifier_Inr:
  assumes "safeVerifier lib v = Inr r"
  shows "verifierForm lib r"
proof -
  have args: "list_all (argForm lib) as" if "mapE (safeVerifierArg lib) xs = Inr as" for xs as
    using that by (induction xs arbitrary: as) (auto simp: tryE_Inr safeVerifierArg_Inr)
  show ?thesis
    using assms
    by (auto simp: safeVerifier_def tryE_Inr safeVerifierCommand_def verifierForm_def safeIdentifier_ag_Inr
        safeOptionalIdentifier_ag_Inr args split: list.splits)
qed

lemma safeVerifiers_Inr: "safeVerifiers lib vs = Inr rs \<Longrightarrow> list_all (verifierForm lib) rs"
  unfolding safeVerifiers_def by (induction vs arbitrary: rs) (auto simp: tryE_Inr safeVerifier_Inr)

lemma safeArtifacts_Inr: "safeArtifacts fs = Inr rs \<Longrightarrow> list_all artifactForm rs"
  unfolding safeArtifacts_def
  by (induction fs arbitrary: rs)
    (auto simp: tryE_Inr safeArtifact_def artifactForm_def safeRefIdentifier_ag_Inr safeOptionalIdentifier_ag_Inr)

lemma safeRelativePaths_ag_Inr: "safeRelativePaths_ag ps = Inr rs \<Longrightarrow> list_all (\<lambda>p. p \<noteq> [] \<and> \<not> unsafePath_ag p) rs"
  by (induction ps arbitrary: rs) (auto simp: tryE_Inr Let_def split: if_splits)

lemmas work_Inr = safeRelativePaths_ag_Inr safeVerifiers_Inr safeArtifacts_Inr

lemma safeAgentRunStatus_Inr: "safeAgentRunStatus s b = Inr r \<Longrightarrow> r \<in> set agentStatuses"
  by (auto simp: safeAgentRunStatus_def agentStatuses_def Let_def split: if_splits)

subsection \<open>What a method does to the store\<close>

text \<open>A method leaves the store as it is, or answers with a value and a store that are so related.\<close>

definition effect :: "(AgentState, 'a) act \<Rightarrow> AgentState \<Rightarrow> ('a \<Rightarrow> AgentStore \<Rightarrow> bool) \<Rightarrow> bool" where
  "effect m st P \<longleftrightarrow> (case m st of (r, st') \<Rightarrow> (gzStore st' = gzStore st \<and> (\<exists>e. r = Inl e)) \<or> (\<exists>x. r = Inr x \<and> P x (gzStore st')))"

lemma effect_lift: "(\<And>x. q = Inr x \<Longrightarrow> effect (k x) st P) \<Longrightarrow> effect (seqS (liftS q) k) st P"
  by (cases q) (auto simp: effect_def seqS_def liftS_def)

lemma effect_read: "(\<And>x. f (gzStore st) = Inr x \<Longrightarrow> effect (k x) st P) \<Longrightarrow> effect (seqS (readStore_ag f) k) st P"
  by (cases "f (gzStore st)") (auto simp: effect_def seqS_def readStore_ag_def)

lemma effect_or:
  "(\<And>x. q = Inr x \<Longrightarrow> effect (k x) st P) \<Longrightarrow> (\<And>s. gzStore (note s) = gzStore s) \<Longrightarrow> effect (seqS (orRecord note q) k) st P"
  by (cases q) (auto simp: effect_def seqS_def orRecord_def)

lemma effect_write:
  "(\<And>x s. m (gzStore st) = (Inr x, s) \<Longrightarrow> P x s) \<Longrightarrow> (\<And>e s. m (gzStore st) = (Inl e, s) \<Longrightarrow> s = gzStore st)
    \<Longrightarrow> (\<And>x s. gzStore (nt x s) = gzStore s) \<Longrightarrow> effect (seqS (inStore_ag m) (\<lambda>x. noted (nt x) x)) st P"
  by (cases "m (gzStore st)"; cases "fst (m (gzStore st))") (auto simp: effect_def seqS_def inStore_ag_def noted_def)

lemma effect_store:
  "(\<And>x s. m (gzStore st) = (Inr x, s) \<Longrightarrow> P x s) \<Longrightarrow> (\<And>e s. m (gzStore st) = (Inl e, s) \<Longrightarrow> s = gzStore st)
    \<Longrightarrow> effect (inStore_ag m) st P"
  by (cases "m (gzStore st)"; cases "fst (m (gzStore st))") (auto simp: effect_def inStore_ag_def)

lemma effect_fail: "effect (liftS (Inl e)) st P"
  by (simp add: effect_def liftS_def)

lemma effect_case:
  "(\<And>x. r = Some x \<Longrightarrow> effect (k x) st P) \<Longrightarrow> effect (case r of None \<Rightarrow> liftS (Inl e) | Some x \<Rightarrow> k x) st P"
  by (cases r) (simp_all add: effect_fail)

lemma record_frames [simp]:
  "gzStore (recordEvent e st) = gzStore st" "gzStore (recordPolicyEvent p c q st) = gzStore st"
  "gzStore (recordVerifierPolicyEvent p vs st) = gzStore st" "gzStore (recordAgentRunEvent run a b c d e' st) = gzStore st"
  by (simp_all add: recordEvent_def recordPolicyEvent_def recordVerifierPolicyEvent_def recordAgentRunEvent_def)

lemma effectD: "effect m st P \<Longrightarrow> m st = (Inr x, st') \<Longrightarrow> P x (gzStore st')"
  by (auto simp: effect_def)

lemma effect_cases: "effect m st P \<Longrightarrow> m st = (r, st') \<Longrightarrow> gzStore st' = gzStore st \<or> (\<exists>x. r = Inr x \<and> P x (gzStore st'))"
  by (auto simp: effect_def)

lemmas effect_intros = effect_lift effect_read effect_or effect_case

lemma create_effect:
  "effect (svcCreateAgentRun lib now rnd input) st (\<lambda>run s. s = putAgentRun (gzStore st) run \<and> runForm lib run
     \<and> gnID run = newID_ag ''agent_run'' rnd \<and> gnSteps run = [] \<and> gnPromotions run = []
     \<and> (gnTaskID run = [] \<or> getTask_ag (gzStore st) (gnTaskID run) \<noteq> None))"
proof -
  have t: "effect (seqS (if taskID \<noteq> [] then seqS (readStore_ag (memGetTask taskID)) (\<lambda>_. retS ()) else retS ()) k) st P"
    if "taskID = [] \<or> getTask_ag (gzStore st) taskID \<noteq> None \<Longrightarrow> effect (k ()) st P" for taskID k and P :: "AgentRun \<Rightarrow> AgentStore \<Rightarrow> bool"
    using that by (cases "getTask_ag (gzStore st) taskID") (auto simp: effect_def seqS_def readStore_ag_def retS_def mem_agent found_def)
  show ?thesis
    unfolding svcCreateAgentRun_def Let_def
    by (intro effect_intros t effect_write)
      (auto simp: mem_agent runForm_def workForm_def work_Inr safeIdentifier_ag_Inr agentStatuses_def newID_ag_def
        split: if_splits)
qed

abbreviation changesRun :: "AgentStore \<Rightarrow> (AgentRun \<Rightarrow> AgentRun \<Rightarrow> bool) \<Rightarrow> AgentRun \<Rightarrow> AgentStore \<Rightarrow> bool" where
  "changesRun st R run s \<equiv> \<exists>run0. getAgentRun st (gnID run) = Some run0 \<and> gnID run0 = gnID run \<and> R run0 run \<and> s = putAgentRun st run"

lemma updateRun_changes:
  assumes "updateRun i change st = (Inr r, st')" and "keyed getAgentRun gnID st" and "\<And>run. gnID run = i \<Longrightarrow> gnID (change run) = i"
    and "\<And>run. getAgentRun st i = Some run \<Longrightarrow> R run (change run)"
  shows "changesRun st R r st'"
  using assms by (fastforce simp: updateRun_def getAgentRun_def putAgentRun_def keyed_def split: option.splits)

lemma updateRun_fails: "updateRun i change st = (Inl e, st') \<Longrightarrow> st' = st"
  by (auto simp: updateRun_def split: option.splits)

lemma writes_fail:
  "memAppendAgentStep i x st = (Inl e, st') \<Longrightarrow> st' = st" "memPromoteAgentArtifact i p st = (Inl e, st') \<Longrightarrow> st' = st"
  "memCompleteAgentRun run st = (Inl e, st') \<Longrightarrow> st' = st"
  unfolding memAppendAgentStep_def memPromoteAgentArtifact_def memCompleteAgentRun_def by (erule updateRun_fails)+

definition sameRun :: "AgentRun \<Rightarrow> AgentRun \<Rightarrow> bool" where
  "sameRun a b \<longleftrightarrow> gnTraceID a = gnTraceID b \<and> gnProjectID a = gnProjectID b \<and> gnTaskID a = gnTaskID b
     \<and> gnStartedAt a = gnStartedAt b \<and> (\<exists>es. gnSteps b = gnSteps a @ es) \<and> (\<exists>ps. gnPromotions b = gnPromotions a @ ps)"

lemma append_effect:
  assumes "keyed getAgentRun gnID (gzStore st)"
  shows "effect (svcAppendAgentStep lib now rnd runID input) st
    (changesRun (gzStore st) (\<lambda>a b. sameRun a b \<and> (runForm lib a \<longrightarrow> runForm lib b)))"
proof -
  have w: "changesRun (gzStore st) (\<lambda>a b. sameRun a b \<and> (runForm lib a \<longrightarrow> runForm lib b)) x s"
    if "memAppendAgentStep i e (gzStore st) = (Inr x, s)" and "\<And>run. memGetAgentRun i (gzStore st) = Inr run \<Longrightarrow> gnTraceID run \<noteq> [] \<Longrightarrow> stepForm lib e"
    for i e x s
    using that(1) unfolding memAppendAgentStep_def
    by (rule updateRun_changes [OF _ assms]) (use that(2) in \<open>auto simp: mem_agent sameRun_def runForm_def\<close>)
  show ?thesis
    unfolding svcAppendAgentStep_def Let_def
    by (intro effect_intros effect_write w)
      (auto simp: stepForm_def workForm_def work_Inr safeAgentRunStatus_Inr dest: writes_fail split: if_splits)
qed

lemma promote_artifact_effect:
  assumes "keyed getAgentRun gnID (gzStore st)"
  shows "effect (svcPromoteAgentArtifact now runID input) st
    (changesRun (gzStore st) (\<lambda>a b. sameRun a b \<and> gnStatus b = gnStatus a \<and> gnArtifacts b = gnArtifacts a
       \<and> (\<exists>p. gnPromotions b = gnPromotions a @ [p] \<and> promotionForm p \<and> findAgentArtifact a (gpArtifactRef p) \<noteq> None)
       \<and> (runForm lib a \<longrightarrow> runForm lib b)))" (is "effect _ _ (changesRun _ ?R)")
proof -
  have w: "changesRun (gzStore st) ?R x s"
    if "memPromoteAgentArtifact i p (gzStore st) = (Inr x, s)" and "promotionForm p"
      and "\<And>run. memGetAgentRun i (gzStore st) = Inr run \<Longrightarrow> findAgentArtifact run (gpArtifactRef p) \<noteq> None" for i p x s
    using that(1) unfolding memPromoteAgentArtifact_def
    by (rule updateRun_changes [OF _ assms]) (use that(2,3) in \<open>auto simp: mem_agent sameRun_def runForm_def\<close>)
  show ?thesis
    unfolding svcPromoteAgentArtifact_def Let_def
    by (intro effect_intros effect_write w)
      (auto simp: promotionForm_def safeRefIdentifier_ag_Inr safePromotionState_ag_def safeEnum_Inr failIf_Inr
        dest: writes_fail)
qed

lemma complete_effect:
  assumes "keyed getAgentRun gnID (gzStore st)"
  shows "effect (svcCompleteAgentRun lib now runID input) st
    (changesRun (gzStore st) (\<lambda>a b. sameRun a b \<and> gnSteps b = gnSteps a \<and> gnPromotions b = gnPromotions a
       \<and> gnStatus b \<in> {AgentRunStatusCompleted, AgentRunStatusFailed}
       \<and> (\<exists>fs. safeArtifacts (gdArtifacts input) = Inr fs \<and> gnArtifacts b = (if fs = [] then gnArtifacts a else fs))
       \<and> (runForm lib a \<longrightarrow> runForm lib b)))" (is "effect _ _ (changesRun _ ?R)")
proof -
  have w: "changesRun (gzStore st) ?R x s"
    if "memCompleteAgentRun run (gzStore st) = (Inr x, s)" and "\<And>a. getAgentRun (gzStore st) (gnID run) = Some a \<Longrightarrow> ?R a run" for run x s
    using that(1) unfolding memCompleteAgentRun_def by (rule updateRun_changes [OF _ assms]) (use that(2) in auto)
  have same: "a = run" if "memGetAgentRun i (gzStore st) = Inr run" "getAgentRun (gzStore st) (gnID run) = Some a" for i run a
    using assms that by (auto simp: mem_agent keyed_def)
  have st: "r \<in> {AgentRunStatusCompleted, AgentRunStatusFailed}" if "safeAgentRunStatus v False = Inr r" for v r
    using that by (auto simp: safeAgentRunStatus_def Let_def split: if_splits)
  show ?thesis
    unfolding svcCompleteAgentRun_def Let_def
  proof (intro effect_intros effect_write, goal_cases)
    case (1 _ status cat summary files vs fs run)
    have wf: "workForm lib files vs fs" using 1 work_Inr unfolding workForm_def by blast
    have stt: "status \<in> {AgentRunStatusCompleted, AgentRunStatusFailed}" using st 1 by blast
    note art = \<open>safeArtifacts (gdArtifacts input) = Inr fs\<close> and get = \<open>memGetAgentRun _ _ = Inr run\<close>
    show ?case
    proof (rule w [OF 1(9)])
      fix a
      assume "getAgentRun (gzStore st) (gnID (run\<lparr>gnStatus := status, gnCompletedAt := now, gnFailureCategory := cat,
          gnSummary := (if summary \<noteq> [] then summary else gnSummary run),
          gnChangedFiles := (if files \<noteq> [] then files else gnChangedFiles run),
          gnVerifiers := (if vs \<noteq> [] then vs else gnVerifiers run),
          gnArtifacts := (if fs \<noteq> [] then fs else gnArtifacts run)\<rparr>)) = Some a"
      with get have a: "a = run" by (intro same) simp_all
      show "?R a (run\<lparr>gnStatus := status, gnCompletedAt := now, gnFailureCategory := cat,
          gnSummary := (if summary \<noteq> [] then summary else gnSummary run),
          gnChangedFiles := (if files \<noteq> [] then files else gnChangedFiles run),
          gnVerifiers := (if vs \<noteq> [] then vs else gnVerifiers run),
          gnArtifacts := (if fs \<noteq> [] then fs else gnArtifacts run)\<rparr>)"
        using wf stt art by (simp add: a sameRun_def runForm_def workForm_def agentStatuses_def)
    qed
  qed (auto dest: writes_fail)
qed

subsection \<open>Tasks and research runs\<close>

definition taskForm_ag :: "ControlTask \<Rightarrow> bool" where
  "taskForm_ag t \<longleftrightarrow> gtTitle t \<noteq> [] \<and> length (gtTitle t) \<le> 200 \<and> \<not> containsProhibitedData_ag (gtTitle t)
     \<and> gtStatus t \<in> {TaskStatusPending, TaskStatusRunning, TaskStatusDone, TaskStatusFailed}"

definition taskMoves :: "(string \<times> string) list" where
  "taskMoves = [(TaskStatusPending, TaskStatusRunning), (TaskStatusRunning, TaskStatusDone), (TaskStatusPending, TaskStatusFailed),
     (TaskStatusRunning, TaskStatusFailed)]"

abbreviation movesTask :: "AgentStore \<Rightarrow> ControlTask \<Rightarrow> AgentStore \<Rightarrow> bool" where
  "movesTask st t s \<equiv> \<exists>t0 now. getTask_ag st (gtID t) = Some t0 \<and> t = t0\<lparr>gtStatus := gtStatus t, gtUpdatedAt := now\<rparr>
     \<and> (gtStatus t0, gtStatus t) \<in> set taskMoves \<and> s = putTask_ag st t"

lemma checkText_ag_Inr: "checkText_ag f mx v = Inr r \<Longrightarrow> r \<noteq> [] \<and> length r \<le> mx \<and> \<not> containsProhibitedData_ag r"
  by (auto simp: checkText_ag_def Let_def split: if_splits)

lemma createTask_effect:
  "effect (svcCreateTask now rnd title) st (\<lambda>t s. s = putTask_ag (gzStore st) t \<and> taskForm_ag t \<and> gtID t = newID_ag ''task'' rnd)"
  unfolding svcCreateTask_def
  by (intro effect_lift effect_store) (auto simp: mem_agent taskForm_ag_def dest!: checkText_ag_Inr)

lemma task_move_effect:
  assumes "keyed getTask_ag gtID (gzStore st)" and "\<And>t. ok t \<Longrightarrow> (gtStatus t, to) \<in> set taskMoves"
  shows "effect (seqS (svcGetTask i) (\<lambda>t. if \<not> ok t then liftS (Inl e) else updateTaskStatus now t to)) st (movesTask (gzStore st))"
proof -
  have a: "seqS (svcGetTask i) k = seqS (liftS (requiredID ''id'' i)) (\<lambda>i. seqS (readStore_ag (memGetTask i)) k)" for k :: "ControlTask \<Rightarrow> (AgentState, ControlTask) act"
    by (auto simp: svcGetTask_def seqS_def fun_eq_iff split: sum.splits prod.splits)
  have u: "effect (updateTaskStatus now t to) st (movesTask (gzStore st))" if "memGetTask j (gzStore st) = Inr t" "ok t" for j t
    unfolding updateTaskStatus_def using that assms
    by (intro effect_store) (auto simp: mem_agent keyed_def split: if_splits)
  show ?thesis
    unfolding a
  proof (intro effect_lift effect_read)
    fix j t
    assume g: "memGetTask j (gzStore st) = Inr t"
    show "effect (if \<not> ok t then liftS (Inl e) else updateTaskStatus now t to) st (movesTask (gzStore st))"
      using u [OF g] by (auto simp: effect_fail)
  qed
qed

lemma move_effects:
  assumes "keyed getTask_ag gtID (gzStore st)"
  shows "effect (svcStartTask now i) st (movesTask (gzStore st))" and "effect (svcCompleteTask now i) st (movesTask (gzStore st))"
    and "effect (svcFailTask now i) st (movesTask (gzStore st))"
  using task_move_effect [OF assms, of "\<lambda>t. gtStatus t = TaskStatusPending" TaskStatusRunning i "ErrInvalidInput ''task can start only from pending''" now]
    task_move_effect [OF assms, of "\<lambda>t. gtStatus t = TaskStatusRunning" TaskStatusDone i "ErrInvalidInput ''task can complete only from running''" now]
    task_move_effect [OF assms, of "\<lambda>t. gtStatus t = TaskStatusPending \<or> gtStatus t = TaskStatusRunning" TaskStatusFailed i
      "ErrInvalidInput ''task can fail only from pending or running''" now]
  by (simp_all add: taskMoves_def svcStartTask_def svcCompleteTask_def svcFailTask_def)

lemma research_effect:
  "effect (svcCreateResearchRun now rnd input) st (\<lambda>x s. getTask_ag (gzStore st) (grTaskID x) \<noteq> None
     \<and> s = (gzStore st)\<lparr>agResearch := tput (agResearch (gzStore st)) (grID x) x\<rparr>)"
  unfolding svcCreateResearchRun_def
  by (intro effect_lift effect_read effect_store) (auto simp: mem_agent memCreateResearchRun_def)

subsection \<open>The states that calls reach\<close>

text \<open>
  One call of the service. The random identifier of a task or a run is one that no stored task or
  run has; the store would overwrite it.
\<close>

inductive agent_step :: "AgentLib \<Rightarrow> AgentState \<Rightarrow> AgentState \<Rightarrow> bool" for lib where
  create_task: "svcCreateTask now rnd title st = (r, st') \<Longrightarrow> getTask_ag (gzStore st) (newID_ag ''task'' rnd) = None
    \<Longrightarrow> agent_step lib st st'"
| start_task: "svcStartTask now i st = (r, st') \<Longrightarrow> agent_step lib st st'"
| complete_task: "svcCompleteTask now i st = (r, st') \<Longrightarrow> agent_step lib st st'"
| fail_task: "svcFailTask now i st = (r, st') \<Longrightarrow> agent_step lib st st'"
| research: "svcCreateResearchRun now rnd ri st = (rr, st') \<Longrightarrow> agent_step lib st st'"
| create_run: "svcCreateAgentRun lib now rnd ci st = (q, st') \<Longrightarrow> getAgentRun (gzStore st) (newID_ag ''agent_run'' rnd) = None
    \<Longrightarrow> agent_step lib st st'"
| append: "svcAppendAgentStep lib now rnd i ai st = (q, st') \<Longrightarrow> agent_step lib st st'"
| promote: "svcPromoteAgentArtifact now i pi st = (q, st') \<Longrightarrow> agent_step lib st st'"
| complete: "svcCompleteAgentRun lib now i di st = (q, st') \<Longrightarrow> agent_step lib st st'"

inductive agent_reachable :: "AgentLib \<Rightarrow> AgentState \<Rightarrow> bool" for lib where
  init: "gzStore st = newAgentStore \<Longrightarrow> agent_reachable lib st"
| step: "agent_reachable lib st \<Longrightarrow> agent_step lib st st' \<Longrightarrow> agent_reachable lib st'"

definition agentInv :: "AgentLib \<Rightarrow> AgentStore \<Rightarrow> bool" where
  "agentInv lib s \<longleftrightarrow> keyed getAgentRun gnID s \<and> keyed getTask_ag gtID s \<and> allVals getTask_ag taskForm_ag s
     \<and> allVals getAgentRun (runForm lib) s
     \<and> (\<forall>k run. getAgentRun s k = Some run \<longrightarrow> gnTaskID run = [] \<or> getTask_ag s (gnTaskID run) \<noteq> None)
     \<and> (\<forall>k x. tget (agResearch s) k = Some x \<longrightarrow> getTask_ag s (grTaskID x) \<noteq> None)"

text \<open>What a call can do: nothing, add or move a task, add a research run, add or change an agent run.\<close>

lemma agent_step_effect:
  assumes "agent_step lib st st'" and "agentInv lib (gzStore st)"
  obtains (same) "gzStore st' = gzStore st"
  | (task) t where "gzStore st' = putTask_ag (gzStore st) t" "taskForm_ag t" "getTask_ag (gzStore st) (gtID t) = None"
  | (move) t where "movesTask (gzStore st) t (gzStore st')"
  | (research) x where "gzStore st' = (gzStore st)\<lparr>agResearch := tput (agResearch (gzStore st)) (grID x) x\<rparr>"
      "getTask_ag (gzStore st) (grTaskID x) \<noteq> None"
  | (run) run where "gzStore st' = putAgentRun (gzStore st) run" "runForm lib run" "getAgentRun (gzStore st) (gnID run) = None"
      "gnTaskID run = [] \<or> getTask_ag (gzStore st) (gnTaskID run) \<noteq> None"
  | (change) run where "changesRun (gzStore st) (\<lambda>a b. sameRun a b \<and> (runForm lib a \<longrightarrow> runForm lib b)) run (gzStore st')"
  using assms(1)
proof cases
  case (create_task now rnd title r)
  show ?thesis using effect_cases [OF createTask_effect create_task(1)] create_task(2) same task by metis
next
  case (research now rnd ri rr)
  show ?thesis using effect_cases [OF research_effect research(1)] same that(4) by metis
next
  case (create_run now rnd ci q)
  show ?thesis using effect_cases [OF create_effect create_run(1)] create_run(2) same run by metis
next
  case (append now rnd i ai q)
  have k: "keyed getAgentRun gnID (gzStore st)" using assms(2) by (simp add: agentInv_def)
  show ?thesis using effect_cases [OF append_effect [OF k] append(1)] same change by blast
next
  case (promote now i pi q)
  have k: "keyed getAgentRun gnID (gzStore st)" using assms(2) by (simp add: agentInv_def)
  show ?thesis using effect_cases [OF promote_artifact_effect [OF k, where lib = lib] promote(1)] same change by blast
next
  case (complete now i di q)
  have k: "keyed getAgentRun gnID (gzStore st)" using assms(2) by (simp add: agentInv_def)
  show ?thesis using effect_cases [OF complete_effect [OF k] complete(1)] same change by blast
qed (use effect_cases [OF move_effects(1)] effect_cases [OF move_effects(2)] effect_cases [OF move_effects(3)] assms(2) same move
     in \<open>unfold agentInv_def, metis\<close>)+

lemma put_task_inv:
  assumes "agentInv lib s" and "taskForm_ag t"
  shows "agentInv lib (putTask_ag s t)"
proof -
  have "keyed getTask_ag gtID (putTask_ag s t)" "allVals getTask_ag taskForm_ag (putTask_ag s t)"
    using assms tasks.keyed_put tasks.allVals_put unfolding agentInv_def by blast+
  moreover have "getTask_ag (putTask_ag s t) k \<noteq> None" if "getTask_ag s k \<noteq> None" for k
    using that by (simp add: tasks.get_put)
  moreover have "keyed getAgentRun gnID (putTask_ag s t)" "allVals getAgentRun (runForm lib) (putTask_ag s t)"
    using assms(1) by (simp_all add: agentInv_def keyed_def allVals_def)
  ultimately show ?thesis using assms(1) unfolding agentInv_def agent_frames by blast
qed

lemma put_run_inv:
  assumes "agentInv lib s" and "runForm lib run" and "gnTaskID run = [] \<or> getTask_ag s (gnTaskID run) \<noteq> None"
  shows "agentInv lib (putAgentRun s run)"
proof -
  have "keyed getAgentRun gnID (putAgentRun s run)" "allVals getAgentRun (runForm lib) (putAgentRun s run)"
    using assms runs.keyed_put runs.allVals_put unfolding agentInv_def by blast+
  moreover have "keyed getTask_ag gtID (putAgentRun s run)" "allVals getTask_ag taskForm_ag (putAgentRun s run)"
    using assms(1) by (simp_all add: agentInv_def keyed_def allVals_def)
  moreover have "gnTaskID x = [] \<or> getTask_ag s (gnTaskID x) \<noteq> None" if "getAgentRun (putAgentRun s run) k = Some x" for k x
    using assms(1,3) that by (auto simp: agentInv_def runs.get_put split: if_splits)
  ultimately show ?thesis using assms(1) unfolding agentInv_def agent_frames by blast
qed

lemma agent_step_inv:
  assumes "agent_step lib st st'" and inv: "agentInv lib (gzStore st)"
  shows "agentInv lib (gzStore st')"
  using assms
proof (cases rule: agent_step_effect)
  case (task t)
  then show ?thesis using put_task_inv [OF inv] by simp
next
  case (move t)
  then obtain t0 now where t0: "getTask_ag (gzStore st) (gtID t) = Some t0" "t = t0\<lparr>gtStatus := gtStatus t, gtUpdatedAt := now\<rparr>"
    and m: "(gtStatus t0, gtStatus t) \<in> set taskMoves" and s: "gzStore st' = putTask_ag (gzStore st) t"
    by blast
  have "taskForm_ag t0" using inv t0(1) by (auto simp: agentInv_def allVals_def)
  moreover have "gtTitle t = gtTitle t0" using arg_cong [OF t0(2), of gtTitle] by simp
  ultimately have "taskForm_ag t" using m by (auto simp: taskForm_ag_def taskMoves_def)
  with s put_task_inv [OF inv] show ?thesis by simp
next
  case (research x)
  then show ?thesis using inv by (auto simp: agentInv_def getAgentRun_def getTask_ag_def keyed_def allVals_def store_simps)
next
  case (run r)
  then show ?thesis using put_run_inv [OF inv] by simp
next
  case (change b)
  then obtain a where "getAgentRun (gzStore st) (gnID b) = Some a" "sameRun a b" "runForm lib a \<longrightarrow> runForm lib b"
    and s: "gzStore st' = putAgentRun (gzStore st) b" by blast
  moreover from this have "runForm lib a" "gnTaskID a = [] \<or> getTask_ag (gzStore st) (gnTaskID a) \<noteq> None"
    using inv by (auto simp: agentInv_def allVals_def)
  ultimately show ?thesis using put_run_inv [OF inv, of b] by (simp add: sameRun_def)
qed (simp add: inv)

lemma agent_reachable_inv: "agent_reachable lib st \<Longrightarrow> agentInv lib (gzStore st)"
proof (induction rule: agent_reachable.induct)
  case (init st)
  then show ?case by (simp add: agentInv_def keyed_def allVals_def getAgentRun_def getTask_ag_def newAgentStore_def)
next
  case (step st st')
  from agent_step_inv [OF step(2,3)] show ?case .
qed

subsection \<open>Properties\<close>

text \<open>
  C22. What agents report is kept clean. In every state that calls reach, an agent run lies under its
  identifier, belongs to a stored task if it names one, and it and its steps have only checked
  relative paths, checked artifacts and checked verifiers. A checked verifier argument has at most
  200 bytes and does not begin with a slash; one with \<open>://\<close> in it is a loopback URL, any other has
  no component \<open>..\<close> between slashes or at an end and no prohibited data. The check is literal: it
  passes \<open>--out=../x\<close>. Each promotion beyond candidate has a verifier and a decision. Research runs
  belong to stored tasks.
\<close>

theorem agent_runs_clean:
  assumes "agent_reachable lib st"
  shows "(getAgentRun (gzStore st) k = Some run \<longrightarrow>
      k = gnID run \<and> runForm lib run \<and> (gnTaskID run = [] \<or> getTask_ag (gzStore st) (gnTaskID run) \<noteq> None))
    \<and> (tget (agResearch (gzStore st)) k = Some x \<longrightarrow> getTask_ag (gzStore st) (grTaskID x) \<noteq> None)"
  using agent_reachable_inv [OF assms] by (auto simp: agentInv_def keyed_def allVals_def)

text \<open>
  C37. Control tasks follow their lifecycle. A call leaves a stored task in place with its title and
  its time of creation, and either its status stays or it goes from pending to running, from
  running to done, or from one of the two to failed: done and failed are final.
\<close>

theorem agent_tasks_follow_lifecycle:
  assumes "agent_reachable lib st" and "agent_step lib st st'" and "getTask_ag (gzStore st) k = Some t"
  shows "\<exists>t'. getTask_ag (gzStore st') k = Some t' \<and> gtTitle t' = gtTitle t \<and> gtCreatedAt t' = gtCreatedAt t
    \<and> (gtStatus t' = gtStatus t \<or> (gtStatus t, gtStatus t') \<in> set taskMoves)"
  using assms(2) agent_reachable_inv [OF assms(1)]
proof (cases rule: agent_step_effect)
  case (task n)
  with assms(3) show ?thesis by (auto simp: tasks.get_put)
next
  case (move n)
  then obtain t0 now where t0: "getTask_ag (gzStore st) (gtID n) = Some t0" "n = t0\<lparr>gtStatus := gtStatus n, gtUpdatedAt := now\<rparr>"
    and m: "(gtStatus t0, gtStatus n) \<in> set taskMoves" and s: "gzStore st' = putTask_ag (gzStore st) n"
    by blast
  have "gtTitle n = gtTitle t0" "gtCreatedAt n = gtCreatedAt t0"
    using arg_cong [OF t0(2), of gtTitle] arg_cong [OF t0(2), of gtCreatedAt] by simp_all
  with assms(3) t0(1) m s show ?thesis by (auto simp: tasks.get_put)
qed (use assms(3) in \<open>auto simp: getTask_ag_def putAgentRun_def\<close>)

lemma hexDigit_ident: "n < 16 \<Longrightarrow> identByte (hexDigits ! n)"
proof -
  have "list_all identByte hexDigits"
    by (simp add: hexDigits_def identByte_def inCls_def lowerCls_def digitCls_def rng_def)
  moreover assume "n < 16"
  ultimately show "identByte (hexDigits ! n)" by (simp add: list_all_length hexDigits_def)
qed

lemma hexEncode_ident: "list_all identByte (hexEncode b)" "length (hexEncode b) = 2 * length b"
proof (induction b)
  case (Cons x b)
  have "unat x < 256" using unsigned_less [of x, where ?'a = nat] by simp
  then have "unat x div 16 < 16" by simp
  with Cons show "list_all identByte (hexEncode (x # b))" "length (hexEncode (x # b)) = 2 * length (x # b)"
    by (simp_all add: hexDigit_ident)
qed simp_all

lemma ident_no_space: "list_all identByte s \<Longrightarrow> trimSpace s = s"
proof -
  assume s: "list_all identByte s"
  have "graphic c" if "identByte c" for c
    using that by (auto simp: identByte_def inCls_def lowerCls_def upperCls_def digitCls_def rng_def graphic_def Let_def)
  with s show ?thesis by (cases "s = []") (auto simp: list_all_iff trimSpace_Nil intro!: trimSpace_graphic)
qed

lemma runID_accepted:
  assumes "length rnd = 16"
  shows "safeIdentifier_ag (newID_ag ''agent_run'' rnd) f = Inr (newID_ag ''agent_run'' rnd)"
proof -
  have "list_all identByte (newID_ag ''agent_run'' rnd)"
    using hexEncode_ident [of rnd] by (simp add: newID_ag_def identByte_def inCls_def lowerCls_def rng_def)
  moreover have "length (newID_ag ''agent_run'' rnd) \<le> 200" "newID_ag ''agent_run'' rnd \<noteq> []"
    using hexEncode_ident(2) [of rnd] assms by (simp_all add: newID_ag_def)
  ultimately show ?thesis by (simp add: safeIdentifier_ag_Inr ident_no_space identForm_def)
qed

text \<open>
  C38. A run that was created is read back. The identifier in the answer of \<open>CreateAgentRun\<close>, made of
  16 random bytes, is accepted by \<open>GetAgentRun\<close>, which returns the same run; the trace of a run is
  never empty.
\<close>

theorem created_run_read_back:
  assumes "svcCreateAgentRun lib now rnd input st = (Inr run, st')" and "length rnd = 16"
  shows "svcGetAgentRun (gnID run) st' = (Inr run, st') \<and> gnTraceID run \<noteq> [] \<and> gnStatus run \<in> set agentStatuses"
proof -
  note e = effectD [OF create_effect assms(1)]
  have "getAgentRun (gzStore st') (gnID run) = Some run" using e runs.get_put_same [of "gzStore st" run] by simp
  then have "svcGetAgentRun (gnID run) st' = (Inr run, st')"
    using e runID_accepted [OF assms(2)] by (simp add: svcGetAgentRun_def seqS_def liftS_def readStore_ag_def mem_agent found_def)
  with e show ?thesis by (auto simp: runForm_def)
qed

text \<open>
  C33. Completing a run can orphan its promotions. A completion that brings artifacts replaces those of
  the run and keeps its promotions: afterwards a promotion whose artifact is neither among the new
  ones nor in a step refers to nothing, although it was accepted because its artifact existed.
\<close>

theorem completion_orphans_promotions:
  assumes "agent_reachable lib st" and "svcCompleteAgentRun lib now i input st = (Inr run, st')"
    and "safeArtifacts (gdArtifacts input) = Inr fs" and "fs \<noteq> []"
  shows "\<exists>run0. getAgentRun (gzStore st) (gnID run) = Some run0 \<and> getAgentRun (gzStore st') (gnID run) = Some run
    \<and> gnPromotions run = gnPromotions run0
    \<and> (\<forall>p \<in> set (gnPromotions run). findAgentArtifact run (gpArtifactRef p) = None \<longleftrightarrow>
         gpArtifactRef p \<notin> gfRef ` (set fs \<union> (\<Union>e \<in> set (gnSteps run0). set (geArtifacts e))))"
proof -
  have k: "keyed getAgentRun gnID (gzStore st)" using agent_reachable_inv [OF assms(1)] by (simp add: agentInv_def)
  obtain run0 where r: "getAgentRun (gzStore st) (gnID run) = Some run0" "gzStore st' = putAgentRun (gzStore st) run"
    "gnSteps run = gnSteps run0" "gnPromotions run = gnPromotions run0" "gnArtifacts run = fs"
    using effectD [OF complete_effect [OF k] assms(2)] assms(3,4) by auto
  have "findAgentArtifact run ref = None \<longleftrightarrow> ref \<notin> gfRef ` (set fs \<union> (\<Union>e \<in> set (gnSteps run0). set (geArtifacts e)))" for ref
    by (auto simp: findAgentArtifact_def find_None_iff r)
  with r show ?thesis by (intro exI [of _ run0]) (simp add: runs.get_put)
qed

lemma no_prefix_no_redaction:
  "list_all (\<lambda>p. \<not> contains v p) ps \<Longrightarrow> fold (\<lambda>p v. fold (\<lambda>marker v. replaceAll (p @ '' '' @ marker) [] v) nouns v) ps v = v"
proof (induction ps)
  case (Cons p ps)
  have "\<not> contains v (p @ x)" for x
  proof
    assume "contains v (p @ x)"
    then have "contains v p" by (meson prefixI prefix_imp_sublist sublist_order.order.trans)
    with Cons.prems show False by simp
  qed
  then have r: "replaceAll (p @ x) [] v = v" for x by (intro replaceAll_absent)
  have "fold (\<lambda>marker v. replaceAll (p @ '' '' @ marker) [] v) ns v = v" for ns
    by (induction ns) (simp_all only: fold_simps r)
  with Cons show ?case by simp
qed simp

lemma redact_plain:
  "\<not> list_ex (contains v) prohibitionCues \<Longrightarrow> list_all (\<lambda>p. \<not> contains v p) prohibitionPrefixes \<Longrightarrow> redactSafeProhibitionPhrases_ag v = v"
  "list_ex (contains v) prohibitionCues \<Longrightarrow> fold (\<lambda>marker v. replaceAll marker [] v) prefixedNouns v = w
     \<Longrightarrow> list_all (\<lambda>p. \<not> contains w p) prohibitionPrefixes \<Longrightarrow> redactSafeProhibitionPhrases_ag v = w"
  unfolding redactSafeProhibitionPhrases_ag_def Let_def by (simp_all only: no_prefix_no_redaction if_True if_False)

lemma secret_title_refused: "containsProhibitedData_ag ''secret=x1''"
proof -
  let ?a = "''secret=x1''"
  have l: "toLower ?a = ?a" by code_simp
  have c: "\<not> list_ex (contains ?a) prohibitionCues" by (simp add: prohibitionCues_def sublist_Cons_right)
  have p: "list_all (\<lambda>p. \<not> contains ?a p) prohibitionPrefixes" by (simp add: prohibitionPrefixes_def sublist_Cons_right)
  have "list_ex (contains ?a) prohibitedMarkers_ag" by (simp add: prohibitedMarkers_ag_def sublist_Cons_right)
  then show ?thesis
    unfolding containsProhibitedData_ag_def containsProhibitedMarker_ag_def l redact_plain(1) [OF c p] by blast
qed

lemma hidden_secret_accepted: "\<not> containsProhibitedData_ag ''prohibited secret=x1''"
proof -
  let ?b = "''prohibited secret=x1''" and ?c = "''prohibited =x1''"
  have l: "toLower ?b = ?b" by code_simp
  have r: "fold (\<lambda>marker v. replaceAll marker [] v) prefixedNouns ?b = ?c" by (simp add: prefixedNouns_def)
  have c: "list_ex (contains ?b) prohibitionCues" by (simp add: prohibitionCues_def sublist_Cons_right)
  have p: "list_all (\<lambda>p. \<not> contains ?c p) prohibitionPrefixes" by (simp add: prohibitionPrefixes_def sublist_Cons_right)
  have "\<not> list_ex (contains ?c) prohibitedMarkers_ag" by (simp add: prohibitedMarkers_ag_def sublist_Cons_right)
  moreover have "\<not> matchString emailPattern ?b" "\<not> matchString phonePattern ?b" by code_simp+
  ultimately show ?thesis
    unfolding containsProhibitedData_ag_def containsProhibitedMarker_ag_def l redact_plain(2) [OF c r p] by blast
qed

text \<open>
  One harmless word hides a secret. The title \<open>secret=x1\<close> is refused; with the word \<open>prohibited\<close>
  anywhere, the noun \<open>secret\<close> is cut out before the markers are searched, and the title is stored
  as it is.
\<close>

theorem cue_hides_secret:
  "(\<exists>e. svcCreateTask now rnd ''secret=x1'' st = (Inl (ErrInvalidInput e), st))
    \<and> (\<exists>t st'. svcCreateTask now rnd ''prohibited secret=x1'' st = (Inr t, st') \<and> gtTitle t = ''prohibited secret=x1'')"
proof -
  let ?a = "''secret=x1''" and ?b = "''prohibited secret=x1''"
  have t: "trimSpace ?a = ?a" "trimSpace ?b = ?b" by (rule trimSpace_graphic; simp add: graphic_def)+
  have "checkText_ag ''title'' 200 ?b = Inr ?b"
    unfolding checkText_ag_def Let_def t using hidden_secret_accepted by simp
  moreover have "\<exists>e. checkText_ag ''title'' 200 ?a = Inl (ErrInvalidInput e)"
    unfolding checkText_ag_def Let_def t using secret_title_refused by simp
  ultimately show ?thesis by (auto simp: svcCreateTask_def seqS_def liftS_def inStore_ag_def mem_agent)
qed

subsection \<open>A run of the service\<close>

text \<open>
  An agent run with one artifact is created, the artifact is promoted, and the run is completed with
  another artifact; a control task is created and started.
\<close>

definition demoAgentLib :: AgentLib where
  "demoAgentLib = \<lparr>alParse = (\<lambda>_. None), alLoopback = (\<lambda>_. False)\<rparr>"

definition demoAgentRnd :: "8 word list" where
  "demoAgentRnd = replicate 16 0"

definition demoAgentRunID :: string where
  "demoAgentRunID = newID_ag ''agent_run'' demoAgentRnd"

definition demoAgentTaskID :: string where
  "demoAgentTaskID = newID_ag ''task'' demoAgentRnd"

definition demoAgentRun :: "AgentRun" where
  "demoAgentRun = \<lparr>gnID = demoAgentRunID, gnTraceID = demoAgentRunID, gnProjectID = ''p1'', gnTaskID = [], gnStatus = AgentRunStatusRunning,
     gnStartedAt = zeroTime, gnCompletedAt = zeroTime, gnFailureCategory = [], gnSummary = [], gnChangedFiles = [],
     gnVerifiers = [], gnArtifacts = [\<lparr>gfRef = ''a1'', gfKind = []\<rparr>], gnPromotions = [], gnSteps = []\<rparr>"

definition demoAgentCreate :: CreateAgentRunInput where
  "demoAgentCreate = \<lparr>gcProjectID = ''p1'', gcTraceID = [], gcTaskID = [], gcSummary = [], gcChangedFiles = [], gcVerifiers = [],
     gcArtifacts = [\<lparr>gfRef = ''a1'', gfKind = []\<rparr>]\<rparr>"

definition demoAgentPromotion :: AgentPromotion where
  "demoAgentPromotion = \<lparr>gpArtifactRef = ''a1'', gpArtifactKind = [], gpState = ''candidate'', gpSourceRef = ''s1'',
     gpVerifierRef = [], gpDecision = [], gpDecidedAt = zeroTime\<rparr>"

definition demoAgentPromote :: PromoteAgentArtifactInput where
  "demoAgentPromote = \<lparr>gqRunID = [], gqArtifactRef = ''a1'', gqArtifactKind = [], gqState = ''candidate'', gqSourceRef = ''s1'',
     gqVerifierRef = [], gqDecision = []\<rparr>"

definition demoAgentComplete :: CompleteAgentRunInput where
  "demoAgentComplete = \<lparr>gdRunID = [], gdStatus = AgentRunStatusCompleted, gdFailureCategory = [], gdSummary = [], gdChangedFiles = [],
     gdVerifiers = [], gdArtifacts = [\<lparr>gfRef = ''b1'', gfKind = []\<rparr>]\<rparr>"

definition demoAgentPromoted :: AgentRun where
  "demoAgentPromoted = demoAgentRun\<lparr>gnPromotions := [demoAgentPromotion]\<rparr>"

definition demoAgentCompleted :: AgentRun where
  "demoAgentCompleted = demoAgentPromoted\<lparr>gnStatus := AgentRunStatusCompleted, gnArtifacts := [\<lparr>gfRef = ''b1'', gfKind = []\<rparr>]\<rparr>"

text \<open>A state with the given tasks and runs, without a recorder.\<close>

definition demoAgentState :: "ControlTask list \<Rightarrow> AgentRun list \<Rightarrow> AgentState" where
  "demoAgentState ts rs = \<lparr>gzStore = fold (\<lambda>run s. putAgentRun s run) rs (fold (\<lambda>t s. putTask_ag s t) ts newAgentStore), gzRecorder = None\<rparr>"

lemma agent_demo_words:
  "list_all identByte ''p1''" "list_all identByte ''a1''" "list_all identByte ''b1''" "list_all identByte ''s1''"
  "list_all identByte ''candidate''" "list_all identByte ''completed''" "list_all identByte ''t1''"
  by (simp_all add: identByte_def inCls_def lowerCls_def digitCls_def rng_def)

lemma agent_demo_trim [simp]:
  "trimSpace ''p1'' = ''p1''" "trimSpace ''a1'' = ''a1''" "trimSpace ''b1'' = ''b1''" "trimSpace ''s1'' = ''s1''"
  "trimSpace ''candidate'' = ''candidate''" "trimSpace ''completed'' = ''completed''" "trimSpace ''t1'' = ''t1''"
  by (rule ident_no_space, rule agent_demo_words)+

lemma agent_blank_accepted [simp]:
  "trimSpace [] = []" "safeOptionalIdentifier_ag [] f = Inr []" "safeOptionalText_ag [] f n = Inr []" "safeRelativePaths_ag [] = Inr []"
  "safeVerifiers lib [] = Inr []"
  by (simp_all add: trimSpace_Nil safeOptionalIdentifier_ag_Inr safeOptionalText_ag_def safeVerifiers_def)

lemma agent_short_unmarked: "v \<in> {''a1'', ''b1'', ''s1'', ''t1''} \<Longrightarrow> \<not> containsProhibitedMarker_ag v"
proof -
  assume v: "v \<in> {''a1'', ''b1'', ''s1'', ''t1''}"
  have l: "toLower v = v" using v by (elim insertE emptyE) (simp_all, code_simp+)
  have c: "\<not> list_ex (contains v) prohibitionCues" "list_all (\<lambda>p. \<not> contains v p) prohibitionPrefixes"
    "\<not> list_ex (contains v) prohibitedMarkers_ag"
    using v by (auto simp: prohibitionCues_def prohibitionPrefixes_def prohibitedMarkers_ag_def sublist_Cons_right)
  then show ?thesis unfolding containsProhibitedMarker_ag_def l redact_plain(1) [OF c(1,2)] by simp
qed

lemma agent_demo_refs [simp]:
  "safeIdentifier_ag ''p1'' f = Inr ''p1''"
  "safeRefIdentifier_ag ''a1'' f = Inr ''a1''" "safeRefIdentifier_ag ''b1'' f = Inr ''b1''" "safeRefIdentifier_ag ''s1'' f = Inr ''s1''"
proof -
  have i: "safeIdentifier_ag r f = Inr r" if "r \<in> {''p1'', ''a1'', ''b1'', ''s1''}" for r
    using that agent_demo_words by (auto simp: safeIdentifier_ag_Inr identForm_def)
  then show "safeIdentifier_ag ''p1'' f = Inr ''p1''" by simp
  have "safeRefIdentifier_ag r f = Inr r" if r: "r \<in> {''a1'', ''b1'', ''s1''}" for r
  proof -
    have "list_all identByte r" using r agent_demo_words by auto
    then have s: "replaceAll backslash ''/'' r = r" by (intro replaceAll_absent identByte_not_backslash)
    have "\<not> hasPrefix r ''/''" "\<not> contains r ''..''" "\<not> isAbs r" using r by (auto simp: sublist_Cons_right isAbs_def)
    moreover have "\<not> containsProhibitedMarker_ag r" using r by (intro agent_short_unmarked) blast
    moreover have "safeIdentifier_ag r f = Inr r" using r by (intro i) blast
    ultimately show ?thesis by (simp add: safeRefIdentifier_ag_def s)
  qed
  then show "safeRefIdentifier_ag ''a1'' f = Inr ''a1''" "safeRefIdentifier_ag ''b1'' f = Inr ''b1''"
    "safeRefIdentifier_ag ''s1'' f = Inr ''s1''" by simp_all
qed

lemma agent_demo_runID [simp]:
  "newID_ag ''agent_run'' demoAgentRnd = demoAgentRunID" "safeIdentifier_ag demoAgentRunID f = Inr demoAgentRunID" "trimSpace demoAgentRunID = demoAgentRunID"
  "demoAgentRunID \<noteq> []"
  using runID_accepted [of demoAgentRnd] by (auto simp: demoAgentRunID_def demoAgentRnd_def safeIdentifier_ag_Inr identForm_def)

lemmas agent_demo_eval = demoAgentState_def demoAgentCreate_def demoAgentRun_def seqS_def liftS_def orRecord_def inStore_ag_def noted_def retS_def readStore_ag_def
  safeArtifacts_def safeArtifact_def mem_agent recordAgentRunEvent_def recordEvent_def

lemma agent_demo_create: "svcCreateAgentRun demoAgentLib zeroTime demoAgentRnd demoAgentCreate (demoAgentState [] []) = (Inr demoAgentRun, demoAgentState [] [demoAgentRun])"
  by (simp add: svcCreateAgentRun_def agent_demo_eval Let_def)

lemma agent_demo_reachable: "agent_reachable demoAgentLib (demoAgentState [] [])" "agent_reachable demoAgentLib (demoAgentState [] [demoAgentRun])"
proof -
  show i: "agent_reachable demoAgentLib (demoAgentState [] [])" by (rule agent_reachable.init) (simp add: demoAgentState_def)
  have "getAgentRun newAgentStore k = None" for k by (simp add: getAgentRun_def newAgentStore_def)
  with agent_demo_create show "agent_reachable demoAgentLib (demoAgentState [] [demoAgentRun])"
    by (intro agent_reachable.step [OF i] agent_step.create_run) (simp_all add: demoAgentState_def)
qed

lemma agent_demo_stored: "getAgentRun (gzStore (demoAgentState [] [demoAgentRun])) demoAgentRunID = Some demoAgentRun"
  using runs.get_put_same [of newAgentStore demoAgentRun] by (simp add: demoAgentState_def demoAgentRun_def)

theorem created_run_read_back_witness:
  "svcCreateAgentRun demoAgentLib zeroTime demoAgentRnd demoAgentCreate (demoAgentState [] []) = (Inr demoAgentRun, demoAgentState [] [demoAgentRun])
    \<and> svcGetAgentRun demoAgentRunID (demoAgentState [] [demoAgentRun]) = (Inr demoAgentRun, demoAgentState [] [demoAgentRun])"
  using agent_demo_create created_run_read_back [OF agent_demo_create] by (simp add: demoAgentRnd_def) (simp add: demoAgentRun_def)

theorem agent_runs_clean_witness:
  "agent_reachable demoAgentLib (demoAgentState [] [demoAgentRun]) \<and> getAgentRun (gzStore (demoAgentState [] [demoAgentRun])) demoAgentRunID = Some demoAgentRun
    \<and> runForm demoAgentLib demoAgentRun"
  using agent_demo_reachable(2) agent_demo_stored agent_runs_clean [OF agent_demo_reachable(2), of demoAgentRunID demoAgentRun] by simp

lemma agent_demo_promote:
  "svcPromoteAgentArtifact zeroTime demoAgentRunID demoAgentPromote (demoAgentState [] [demoAgentRun]) = (Inr demoAgentPromoted, demoAgentState [] [demoAgentRun, demoAgentPromoted])"
proof -
  let ?s = "demoAgentState [] [demoAgentRun]"
  have g: "memGetAgentRun demoAgentRunID (gzStore ?s) = Inr demoAgentRun" using agent_demo_stored by (simp add: mem_agent)
  have w: "memPromoteAgentArtifact demoAgentRunID demoAgentPromotion (gzStore ?s) = (Inr demoAgentPromoted, gzStore (demoAgentState [] [demoAgentRun, demoAgentPromoted]))"
    using agent_demo_stored by (simp add: memPromoteAgentArtifact_def updateRun_def getAgentRun_def demoAgentState_def putAgentRun_def demoAgentPromoted_def)
      (simp add: demoAgentRun_def)
  have f: "findAgentArtifact demoAgentRun ''a1'' = Some \<lparr>gfRef = ''a1'', gfKind = []\<rparr>" by (simp add: findAgentArtifact_def demoAgentRun_def)
  have p: "safePromotionState_ag ''candidate'' = Inr ''candidate''"
    by (simp add: safePromotionState_ag_def safeEnum_Inr agentPromotionStates_def)
  show ?thesis
    unfolding svcPromoteAgentArtifact_def demoAgentPromote_def
    by (simp add: seqS_def liftS_def readStore_ag_def inStore_ag_def noted_def recordAgentRunEvent_def recordEvent_def g f p failIf_def
        w [unfolded demoAgentPromotion_def] Let_def) (simp add: demoAgentState_def)
qed

lemma agent_demo_reachable_promoted: "agent_reachable demoAgentLib (demoAgentState [] [demoAgentRun, demoAgentPromoted])"
  by (rule agent_reachable.step [OF agent_demo_reachable(2) agent_step.promote [OF agent_demo_promote]])

lemma agent_demo_promoted_stored: "getAgentRun (gzStore (demoAgentState [] [demoAgentRun, demoAgentPromoted])) demoAgentRunID = Some demoAgentPromoted"
  using runs.get_put_same [of "putAgentRun newAgentStore demoAgentRun" demoAgentPromoted]
  by (simp add: demoAgentState_def demoAgentPromoted_def) (simp add: demoAgentRun_def)

lemma agent_demo_complete:
  "svcCompleteAgentRun demoAgentLib zeroTime demoAgentRunID demoAgentComplete (demoAgentState [] [demoAgentRun, demoAgentPromoted])
    = (Inr demoAgentCompleted, demoAgentState [] [demoAgentRun, demoAgentPromoted, demoAgentCompleted])"
proof -
  let ?s = "demoAgentState [] [demoAgentRun, demoAgentPromoted]"
  have g: "memGetAgentRun demoAgentRunID (gzStore ?s) = Inr demoAgentPromoted" using agent_demo_promoted_stored by (simp add: mem_agent)
  have w: "memCompleteAgentRun demoAgentCompleted (gzStore ?s) = (Inr demoAgentCompleted, gzStore (demoAgentState [] [demoAgentRun, demoAgentPromoted, demoAgentCompleted]))"
    using agent_demo_promoted_stored
    by (simp add: memCompleteAgentRun_def updateRun_def getAgentRun_def demoAgentState_def putAgentRun_def demoAgentCompleted_def demoAgentPromoted_def)
      (simp add: demoAgentRun_def)
  have c: "demoAgentPromoted\<lparr>gnStatus := AgentRunStatusCompleted, gnCompletedAt := zeroTime, gnFailureCategory := [],
       gnArtifacts := [\<lparr>gfRef = ''b1'', gfKind = []\<rparr>]\<rparr> = demoAgentCompleted"
    by (simp add: demoAgentCompleted_def demoAgentPromoted_def demoAgentRun_def)
  show ?thesis
    unfolding svcCompleteAgentRun_def demoAgentComplete_def
    by (simp add: seqS_def liftS_def orRecord_def readStore_ag_def inStore_ag_def noted_def recordAgentRunEvent_def recordEvent_def g
        safeAgentRunStatus_def safeArtifacts_def safeArtifact_def c w) (simp add: demoAgentState_def)
qed

theorem completion_orphans_promotions_witness:
  "agent_reachable demoAgentLib (demoAgentState [] [demoAgentRun, demoAgentPromoted])
    \<and> svcCompleteAgentRun demoAgentLib zeroTime demoAgentRunID demoAgentComplete (demoAgentState [] [demoAgentRun, demoAgentPromoted])
        = (Inr demoAgentCompleted, demoAgentState [] [demoAgentRun, demoAgentPromoted, demoAgentCompleted])
    \<and> gnPromotions demoAgentCompleted = [demoAgentPromotion] \<and> findAgentArtifact demoAgentCompleted (gpArtifactRef demoAgentPromotion) = None"
proof -
  have a: "safeArtifacts (gdArtifacts demoAgentComplete) = Inr [\<lparr>gfRef = ''b1'', gfKind = []\<rparr>]"
    by (simp add: demoAgentComplete_def safeArtifacts_def safeArtifact_def)
  have p: "gnPromotions demoAgentCompleted = [demoAgentPromotion]" by (simp add: demoAgentCompleted_def demoAgentPromoted_def)
  have i: "gnID demoAgentCompleted = demoAgentRunID" by (simp add: demoAgentCompleted_def demoAgentPromoted_def demoAgentRun_def)
  from completion_orphans_promotions [OF agent_demo_reachable_promoted agent_demo_complete a] agent_demo_promoted_stored p
  have "findAgentArtifact demoAgentCompleted (gpArtifactRef demoAgentPromotion) = None"
    by (auto simp: i demoAgentPromoted_def) (auto simp: demoAgentPromotion_def demoAgentRun_def)
  with agent_demo_reachable_promoted agent_demo_complete p show ?thesis by blast
qed

definition demoAgentTask :: ControlTask where
  "demoAgentTask = \<lparr>gtID = demoAgentTaskID, gtTitle = ''t1'', gtStatus = TaskStatusPending, gtCreatedAt = zeroTime, gtUpdatedAt = zeroTime\<rparr>"

lemma agent_demo_title: "checkText_ag f 200 ''t1'' = Inr ''t1''"
proof -
  have "\<not> matchString emailPattern ''t1''" "\<not> matchString phonePattern ''t1''" by code_simp+
  then show ?thesis using agent_short_unmarked [of "''t1''"] by (simp add: checkText_ag_def containsProhibitedData_ag_def)
qed

lemma agent_demo_taskID [simp]: "trimSpace demoAgentTaskID = demoAgentTaskID" "demoAgentTaskID \<noteq> []"
proof -
  have "list_all identByte demoAgentTaskID"
    using hexEncode_ident [of demoAgentRnd] by (simp add: demoAgentTaskID_def newID_ag_def identByte_def inCls_def lowerCls_def rng_def)
  then show "trimSpace demoAgentTaskID = demoAgentTaskID" by (rule ident_no_space)
  show "demoAgentTaskID \<noteq> []" by (simp add: demoAgentTaskID_def newID_ag_def)
qed

lemma agent_demo_create_task: "svcCreateTask zeroTime demoAgentRnd ''t1'' (demoAgentState [] []) = (Inr demoAgentTask, demoAgentState [demoAgentTask] [])"
  by (simp add: svcCreateTask_def seqS_def liftS_def inStore_ag_def mem_agent agent_demo_title demoAgentState_def demoAgentTask_def demoAgentTaskID_def)

lemma agent_demo_task_stored: "getTask_ag (gzStore (demoAgentState [demoAgentTask] [])) demoAgentTaskID = Some demoAgentTask"
  using tasks.get_put_same [of newAgentStore demoAgentTask] by (simp add: demoAgentState_def demoAgentTask_def)

lemma agent_demo_task_reachable: "agent_reachable demoAgentLib (demoAgentState [demoAgentTask] [])"
proof -
  have "getTask_ag newAgentStore k = None" for k by (simp add: getTask_ag_def newAgentStore_def)
  then show ?thesis
    by (intro agent_reachable.step [OF agent_demo_reachable(1)] agent_step.create_task [OF agent_demo_create_task]) (simp add: demoAgentState_def)
qed

lemma agent_demo_start:
  "svcStartTask zeroTime demoAgentTaskID (demoAgentState [demoAgentTask] [])
    = (Inr (demoAgentTask\<lparr>gtStatus := TaskStatusRunning\<rparr>), demoAgentState [demoAgentTask, demoAgentTask\<lparr>gtStatus := TaskStatusRunning\<rparr>] [])"
proof -
  let ?s = "demoAgentState [demoAgentTask] []"
  have g: "memGetTask demoAgentTaskID (gzStore ?s) = Inr demoAgentTask" using agent_demo_task_stored by (simp add: mem_agent)
  have u: "memUpdateTask (demoAgentTask\<lparr>gtStatus := TaskStatusRunning, gtUpdatedAt := zeroTime\<rparr>) (gzStore ?s)
      = (Inr (demoAgentTask\<lparr>gtStatus := TaskStatusRunning\<rparr>), gzStore (demoAgentState [demoAgentTask, demoAgentTask\<lparr>gtStatus := TaskStatusRunning\<rparr>] []))"
    using agent_demo_task_stored by (simp add: mem_agent demoAgentState_def) (simp add: demoAgentTask_def)
  have "gtStatus demoAgentTask = TaskStatusPending" by (simp add: demoAgentTask_def)
  then show ?thesis
    by (simp add: svcStartTask_def svcGetTask_def requiredID_def updateTaskStatus_def seqS_def liftS_def readStore_ag_def inStore_ag_def g u)
      (simp add: demoAgentState_def)
qed

theorem agent_tasks_follow_lifecycle_witness:
  "agent_reachable demoAgentLib (demoAgentState [demoAgentTask] [])
    \<and> svcStartTask zeroTime demoAgentTaskID (demoAgentState [demoAgentTask] [])
        = (Inr (demoAgentTask\<lparr>gtStatus := TaskStatusRunning\<rparr>), demoAgentState [demoAgentTask, demoAgentTask\<lparr>gtStatus := TaskStatusRunning\<rparr>] [])
    \<and> (\<exists>t'. getTask_ag (gzStore (demoAgentState [demoAgentTask, demoAgentTask\<lparr>gtStatus := TaskStatusRunning\<rparr>] [])) demoAgentTaskID = Some t'
         \<and> gtTitle t' = ''t1'')"
  using agent_demo_task_reachable agent_demo_start
    agent_tasks_follow_lifecycle [OF agent_demo_task_reachable agent_step.start_task [OF agent_demo_start] agent_demo_task_stored]
  by (auto simp: demoAgentTask_def)

end
