(* ===== verification/Spec2Isabelle.thy ===== *)
theory Spec2Isabelle
  imports WorkPlan_Properties WorkPlan_Boundary WorkPlan_Refinement Chain_Properties Chain_Boundary Evidence_Properties Confidence_Properties Confidence_Boundary Workflow_Properties Workflow_Boundary Automation_Properties Automation_Workflows Knowledge_Properties Knowledge_Boundary Agent_Properties
begin

text \<open>
  This library models the governed workflow core of go-mivia, a Go server that keeps work
  plans, workflows and chains of them, evidence, confidence scores and promoted knowledge for
  coding agents. Each service of the program is a set of methods over a \<open>Store\<close> interface with a
  memory store, and each has its own group of theories.

  The parts and how they interact.

  \<^item> \<open>internal/projectworkplan\<close> keeps plans and tasks. A task goes through planned, ready,
    claimed, in progress, review and done; the service gates each transition, finds the next
    task to work on, and notifies a handler when the status of a plan changes.
  \<^item> \<open>internal/projectworkflowchain\<close> runs a chain of workflow stages. It compiles a stage to a
    work plan, is told by the handler when this plan is done, starts the next stage whose
    dependencies are completed, and finishes with a pull request.
  \<^item> \<open>internal/projectworkflow\<close> keeps the definitions of workflows: agents, steps with dependencies
    and review gates. It validates them, imports them from TOML with a permission snapshot for
    each agent, and compiles an enabled one to a work plan with its tasks, reviewers and automations.
  \<^item> \<open>internal/projectautomation\<close> keeps automations and their runs. A run is submitted for a task;
    it is queued when the reviews of its automation are done and its permission allows it.
  \<^item> \<open>internal/projectevidence\<close> keeps claims with their evidence, decisions, actions, outcomes
    and links, and decides when an artifact may be promoted.
  \<^item> \<open>internal/projectconfidence\<close> scores a claim of the evidence service from its record, the health
    of the context, a claim check and an impact analysis, and recommends what to do with it.
  \<^item> \<open>internal/projectknowledge\<close> keeps pieces of knowledge about claims. A piece goes from candidate
    to validated, promoted in the project, sent to review and promoted in the organisation; each
    step has a gate that reads the claim and its assessment from the two services before, and
    leaves a decision.
  \<^item> \<open>internal/agentcontrol\<close> keeps control tasks, research runs and the runs that agents report, with
    their steps, verifiers, artifacts and promotions.

  Shared theories. \<open>Prelude\<close>: errors, sequencing of fallible calls, Go maps as association lists,
  Go's sort. \<open>Go_Strings\<close>: the functions of package \<open>strings\<close> that are used, on bytes.
  \<open>Go_Regexp\<close>: regular expressions as a datatype with a matcher by derivatives, proved equal to
  the language they stand for, and the patterns of the services. \<open>Safe_Text\<close>: the input checks
  of the work plan service. \<open>Safe_Identifier\<close>: those of the evidence services.
  \<open>Graph_Search\<close>: the search for dependency cycles, proved to find one iff the graph has one.
  \<open>Store_Interface\<close>: the locales \<open>keyed_store\<close>, \<open>indexed_store\<close> and \<open>growing_record\<close>, the laws
  the services rely on; every component interprets them on its own store.

  Work plans. \<open>WorkPlan_Model\<close> has the records of \<open>model.go\<close>, \<open>WorkPlan_Store\<close> the memory store,
  \<open>WorkPlan_Service\<close> and \<open>WorkPlan_Lifecycle\<close> the methods of \<open>service.go\<close> (\<open>svc...\<close>, with
  \<open>transitionTask\<close> for \<open>transitionTask\<close>). A method takes the store, the time of its call and a
  new identifier, and returns a result and the store that is left. \<open>WorkPlan_Lemmas\<close>,
  \<open>WorkPlan_Invariant\<close> and \<open>WorkPlan_Reachable\<close> show the invariant of the store in every state
  that calls reach, \<open>WorkPlan_Next\<close> the choice of the next task;
  \<open>WorkPlan_Runs\<close> runs the service on concrete calls, \<open>WorkPlan_Properties\<close> and
  \<open>WorkPlan_Boundary\<close> hold the properties, and \<open>WorkPlan_Refinement\<close> states what the service promises
  without its records: it refines a board of cards. Both this and the invariant leave out the calls
  of the raw \<open>UpdateWorkTask\<close> that change status, plan, reference or gate results of a task, which
  the program never makes; \<open>raw_update_skips_gates\<close> shows what such a call does.

  Workflow chains. \<open>Chain_Model\<close>, \<open>Chain_Validation\<close> (\<open>validation.go\<close>), \<open>Chain_Store\<close>,
  \<open>Chain_Service\<close> and \<open>Chain_Lifecycle\<close> (\<open>service.go\<close>). The workflow service, the work plan
  service and the GitOps finalizer are Go interfaces there, so they are the fields of a record
  \<open>ChainEnv\<close> over a world state of any type, and every statement holds for all of them.
  \<open>Chain_Invariant\<close> relates the cycle check to the dependency graph and, with
  \<open>Chain_Runs\<close>, shows the invariant of stored runs, \<open>Chain_Scenario\<close> runs a
  chain, \<open>Chain_Termination\<close> bounds the notifications that advance one; the properties are in \<open>Chain_Properties\<close> and \<open>Chain_Boundary\<close>.

  Evidence. \<open>Evidence_Model\<close>, \<open>Evidence_Checks\<close> (the input checks and the generation of
  identifiers), \<open>Evidence_Store\<close> and \<open>Evidence_Service\<close>. Every method that writes is split in its
  checks (\<open>build...\<close>) and its write, because the store is not locked in between:
  \<open>Evidence_Reachable\<close> shows referential integrity for all interleavings
  of concurrent calls, where records only grow. \<open>Evidence_Demo\<close> runs the service,
  \<open>Evidence_Properties\<close> holds the properties.

  Confidence scores. \<open>Reliability_Model\<close> has the results of \<open>internal/projectreliability\<close> that are
  scored, \<open>Confidence_Model\<close> the types of \<open>model.go\<close> and \<open>input.go\<close> and the memory store, \<open>Confidence_Checks\<close> the input
  checks, \<open>Confidence_Score\<close> the inputs, factors, recommendation and \<open>Score\<close>, \<open>Confidence_Service\<close> the methods over it and the adapter that collects the inputs
  from four providers, which are functions over a world of any type. \<open>Confidence_Lemmas\<close>
  and \<open>Confidence_Results\<close> show that nothing the code itself writes is
  refused by its checks, under \<open>confLaw\<close>, what is used of \<open>url.Parse\<close> and SHA-256;
  \<open>Confidence_Demo\<close> scores a record that the evidence service made, \<open>Confidence_Properties\<close> and
  \<open>Confidence_Boundary\<close> hold the properties, among them which new claims can be scored.

  Workflows. \<open>Workflow_Model\<close> has the types of \<open>model.go\<close> and the memory store, \<open>Automation_Model\<close> those of
  \<open>internal/projectautomation/model.go\<close> that the compiler uses. \<open>Workflow_Validation\<close> models
  \<open>validation.go\<close>: a check is the list of issues it appends. \<open>Workflow_Toml\<close> converts a decoded
  document (\<open>toml.go\<close>), \<open>Workflow_Service\<close> is the catalogue
  (\<open>service.go\<close>). The compiler (\<open>compiler.go\<close>) is in \<open>Workflow_Compiler\<close> (the plan),
  \<open>Workflow_Names\<close> (names, texts, inputs of tasks) and \<open>Workflow_Compile\<close> (\<open>CompileWorkflow\<close> and the dry
  run). What comes from outside is the record \<open>WorkflowEnv\<close> over a world of any type: clock,
  identifiers, TOML decoder, digest, the work plan and automation services, and the order in
  which Go iterates over a map. \<open>Workflow_Graph\<close> relates the two searches of the code to
  \<open>Graph_Search\<close>, the depth-first search that the chains use too; \<open>Workflow_Counts\<close> counts what a
  compilation creates, under the law of the locale \<open>work_task_api\<close>, which \<open>Workflow_Boundary\<close>
  proves of the modelled work plan service; \<open>Workflow_Valid\<close> and \<open>Workflow_Invariant\<close> show that
  everything stored is valid and what calls can write; \<open>Workflow_Demo\<close> creates and compiles a
  workflow; \<open>Workflow_Properties\<close> and \<open>Workflow_Boundary\<close> hold the properties.
  \<open>prepareWorkflow\<close> stamps the agents in the slice of its caller; the model returns the stamped
  copy only. The guards against a missing store or service are left out.

  Automations. \<open>Automation_Model\<close> has the types of \<open>model.go\<close>, \<open>Automation_Store\<close> the memory
  store, \<open>Automation_Service\<close> the helpers at the end of \<open>service.go\<close>, the methods on automations and the gates of a run, \<open>Automation_Submit\<close> the
  submission of runs, with the reviews it starts, and the parallel batches. The work task
  service, the permission resolver and the codex binary are fields of \<open>AutomationEnv\<close> over a world
  of any type. \<open>Automation_Demo\<close> computes a batch and submits a run, \<open>Automation_Properties\<close> holds
  the properties; \<open>Automation_Workflows\<close> takes the workflow catalogue as the resolver. The claiming, execution and recovery of runs are not modelled.

  Knowledge. \<open>Knowledge_Model\<close> has the types of \<open>model.go\<close> and the memory store,
  \<open>Knowledge_Gate\<close> the input and metadata checks, transitions and gates of
  \<open>service.go\<close>, \<open>Knowledge_Service\<close> its methods: one that changes a record reads it, computes the
  new record and the decision (\<open>plan...\<close>) and writes both (\<open>commit\<close>); its second part is
  \<open>integration.go\<close>, whose two readers are functions of a world of any type. \<open>Knowledge_Invariant\<close> says
  what the checks amount to and what records and decisions satisfy,
  \<open>Knowledge_Reachable\<close> shows it in every state that calls reach. \<open>Knowledge_Demo\<close> takes a record from
  candidate to the organisation; \<open>Knowledge_Properties\<close> and \<open>Knowledge_Boundary\<close> hold the properties,
  among them what a promotion shows of the stores of the evidence and the confidence service, and
  what happens when a rejection falls between the read and the write of a promotion. The
  guards against a missing store are left out.

  Agent runs. \<open>Agent_Model\<close> has the types of \<open>model.go\<close>, the memory store and the checks of
  \<open>service.go\<close>, \<open>Agent_Service\<close> its methods, which read and write the store in sequence and record
  events. \<open>Agent_Properties\<close> says what the checks accept and, with \<open>effect\<close>, what a method does to the
  store; from this follow the invariant of the states that calls reach and the properties. The invariant says
  that the literal checks have passed, not that what a verifier names lies in the directory.

  Termination. All definitions are total. The string scanners and the matcher recurse on the
  length of their text; the depth-first searches have as measure the number of
  nodes whose call is not running, so they need no fuel. The maps in which the code marks visited
  nodes are lists of those whose call runs and of those whose call has ended.

  Not modelled. The contexts and locks of the Go methods (a method is one step, except where the
  interleaving is modelled), the Ladybug and SQLite stores, the HTTP and MCP adapters, the logs.
  \<open>url.Parse\<close>, \<open>net.ParseIP\<close> and the compilation of configured regular expressions are
  parameters. \<open>strings.ToLower\<close> is exact for comparisons with ASCII texts. The other services of
  the repository are left out: ingestion, the registry and the workspace work on files, SQL and
  external models, whose behaviour is not in the repository; of the reliability service only the
  results that are scored are modelled; the claiming, execution and recovery of automation runs
  depend on processes, leases and background goroutines.
\<close>

end
